(* ===== verification/Prelude.thy ===== *)
theory Prelude
  imports Main "HOL-Library.Word"
begin

text \<open>
  The vocabulary every theory of the development shares: bytes and Go strings, Go's
  \<open>error\<close> values, the outcome of a call (a value, an error, a panic, or a loop that does
  not return), the wrap-around of Go's 64-bit \<open>int\<close>, and slice access with the bounds
  checks the Go run time makes.
\<close>

unbundle bit_operations_syntax

named_theorems res_simps \<open>how the outcomes of calls are sequenced\<close>
named_theorems slice_simps \<open>bounds-checked slice access inside the bounds\<close>

section \<open>Bytes and strings\<close>

type_synonym byte = "8 word"
type_synonym bytes = "byte list"
type_synonym u64 = "64 word"

text \<open>
  A Go \<open>string\<close> is an immutable sequence of bytes, which is what a HOL \<^typ>\<open>string\<close> is: a
  \<^typ>\<open>char\<close> is eight bits. The conversions \<open>[]byte(s)\<close> and \<open>string(b)\<close> are inverse.
\<close>

definition byte_of :: "char \<Rightarrow> byte" where
  "byte_of c = of_nat (of_char c)"

definition char_of_byte :: "byte \<Rightarrow> char" where
  "char_of_byte b = char_of (unat b)"

definition bytes_of :: "string \<Rightarrow> bytes" where
  "bytes_of s = map byte_of s"

definition string_of :: "bytes \<Rightarrow> string" where
  "string_of b = map char_of_byte b"

lemma char_of_byte_of [simp]: "char_of_byte (byte_of c) = c"
proof -
  have "(of_char c :: nat) < 256" by simp
  then show ?thesis
    by (simp add: byte_of_def char_of_byte_def unat_of_nat)
qed

lemma byte_of_char_of_byte [simp]: "byte_of (char_of_byte b) = b"
proof -
  have "unat b < 256" using unsigned_less [of b, where ?'a = nat] by simp
  then show ?thesis
    by (simp add: byte_of_def char_of_byte_def of_char_of)
qed

lemma string_of_bytes_of [simp]: "string_of (bytes_of s) = s"
  by (simp add: string_of_def bytes_of_def comp_def)

lemma bytes_of_string_of [simp]: "bytes_of (string_of b) = b"
  by (simp add: string_of_def bytes_of_def comp_def)

lemma length_bytes_of [simp]: "length (bytes_of s) = length s"
  by (simp add: bytes_of_def)

lemma length_string_of [simp]: "length (string_of b) = length b"
  by (simp add: string_of_def)

lemma bytes_of_eq_iff [simp]: "bytes_of s = bytes_of t \<longleftrightarrow> s = t"
  by (metis string_of_bytes_of)

lemma bytes_of_append [simp]: "bytes_of (s @ t) = bytes_of s @ bytes_of t"
  by (simp add: bytes_of_def)

lemma bytes_of_Nil [simp]: "bytes_of [] = []"
  by (simp add: bytes_of_def)

lemma bytes_of_eq_Nil [simp]: "bytes_of s = [] \<longleftrightarrow> s = []"
  by (simp add: bytes_of_def)

section \<open>Errors and outcomes\<close>

text \<open>
  Go's \<open>error\<close> values, one constructor per error the source creates. The protobuf
  decoders' errors come first, then the SDK's registered errors with the message they are
  wrapped in, gRPC status errors, \<open>fmt.Errorf\<close>, and errors returned by code outside the
  repository.
\<close>

datatype error =
    ErrIntOverflow
  | ErrUnexpectedEOF
  | ErrInvalidLength
  | ErrUnexpectedEndOfGroup
  | ErrEndGroup string
  | ErrIllegalTag string int u64
  | ErrWrongWireType u64 string
  | ErrIllegalWireType u64
  | ErrInvalidRequest string
  | ErrInvalidAddress string error
  | ErrInvalidSigner string string
  | ErrWrapped string error
  | ErrStatus string string
  | ErrInternal error
  | Errorf string string
  | ErrExternal string

text \<open>
  The outcome of a call: a value, an \<open>error\<close>, a panic, or no return at all. The last one
  is what a loop yields when its fuel runs out; theorems show where it cannot occur.
\<close>

datatype 'a res = Ok 'a | Err error | Panic | Diverge

fun bind_res :: "'a res \<Rightarrow> ('a \<Rightarrow> 'b res) \<Rightarrow> 'b res" where
  "bind_res (Ok x) f = f x"
| "bind_res (Err e) f = Err e"
| "bind_res Panic f = Panic"
| "bind_res Diverge f = Diverge"

text \<open>\<open>returns r\<close>: the call came back, with a value or an error.\<close>

fun returns :: "'a res \<Rightarrow> bool" where
  "returns (Ok _) = True"
| "returns (Err _) = True"
| "returns Panic = False"
| "returns Diverge = False"

lemma bind_res_cong [fundef_cong]:
  assumes "x = y" and "\<And>a. y = Ok a \<Longrightarrow> f a = g a"
  shows "bind_res x f = bind_res y g"
  using assms by (cases y) auto

lemma bind_res_Ok_iff [res_simps]:
  "bind_res x f = Ok z \<longleftrightarrow> (\<exists>y. x = Ok y \<and> f y = Ok z)"
  by (cases x) auto

lemma bind_res_Err_iff:
  "bind_res x f = Err e \<longleftrightarrow> x = Err e \<or> (\<exists>y. x = Ok y \<and> f y = Err e)"
  by (cases x) auto

lemma bind_res_assoc [res_simps]:
  "bind_res (bind_res x f) g = bind_res x (\<lambda>y. bind_res (f y) g)"
  by (cases x) auto

lemma bind_res_Ok_right [simp]: "bind_res x Ok = x"
  by (cases x) auto

lemma returns_bind:
  assumes "returns x" and "\<And>y. x = Ok y \<Longrightarrow> returns (f y)"
  shows "returns (bind_res x f)"
  using assms by (cases x) auto

lemma returns_iff: "returns r \<longleftrightarrow> (\<exists>x. r = Ok x) \<or> (\<exists>e. r = Err e)"
  by (cases r) auto

lemma returns_if: "(c \<Longrightarrow> returns a) \<Longrightarrow> (\<not> c \<Longrightarrow> returns b) \<Longrightarrow> returns (if c then a else b)"
  by simp

section \<open>Go's 64-bit int\<close>

text \<open>
  \<open>int64 x\<close> is what a Go \<open>int\<close> or \<open>int64\<close> variable holds after an operation whose exact
  result is \<open>x\<close>: two's complement wrap-around.
\<close>

definition int64 :: "int \<Rightarrow> int" where
  "int64 x = signed_take_bit 63 x"

lemma int64_bounds: "- (2 ^ 63) \<le> int64 x" "int64 x < 2 ^ 63"
  unfolding int64_def
  using signed_take_bit_int_greater_eq_minus_exp [of 63 x] signed_take_bit_int_less_exp [of 63 x]
  by simp_all

lemma int64_id: "- (2 ^ 63) \<le> x \<Longrightarrow> x < 2 ^ 63 \<Longrightarrow> int64 x = x"
  by (simp add: int64_def signed_take_bit_int_eq_self_iff)

lemma int64_wraps:
  assumes "2 ^ 63 \<le> x" and "x < 2 ^ 64"
  shows "int64 x = x - 2 ^ 64"
proof -
  have "int64 x = int64 (x - 2 ^ 64)"
    unfolding int64_def signed_take_bit_eq_iff_take_bit_eq
    by (simp add: take_bit_eq_mod)
  also have "\<dots> = x - 2 ^ 64" using assms by (intro int64_id) auto
  finally show ?thesis .
qed

text \<open>Adding a non-negative amount either is exact or wraps to a negative number.\<close>

lemma int64_add_cases:
  assumes "0 \<le> i" "i < 2 ^ 63" "0 \<le> n" "n < 2 ^ 63"
  obtains "i + n < 2 ^ 63" "int64 (i + n) = i + n"
  | "2 ^ 63 \<le> i + n" "int64 (i + n) < 0"
proof (cases "i + n < 2 ^ 63")
  case True
  with assms have "int64 (i + n) = i + n" by (intro int64_id) auto
  with True show thesis by (rule that(1))
next
  case False
  with assms have "int64 (i + n) = i + n - 2 ^ 64" by (intro int64_wraps) auto
  with assms False show thesis by (intro that(2)) auto
qed

lemma int64_add_advances:
  assumes "0 \<le> i" "i < 2 ^ 63" "0 \<le> n" "n < 2 ^ 63"
  shows "i \<le> int64 (i + n) \<or> int64 (i + n) < 0"
  using assms by (rule int64_add_cases) (use assms in auto)

section \<open>Slices\<close>

text \<open>
  \<open>len(d)\<close>: the length as a Go \<open>int\<close>. A slice that exists in a process is shorter than
  \<open>2^63\<close>, which \<open>fits d\<close> says where a theorem needs it.
\<close>

definition glen :: "'a list \<Rightarrow> int" where
  "glen d = int64 (int (length d))"

definition fits :: "'a list \<Rightarrow> bool" where
  "fits d \<longleftrightarrow> length d < 2 ^ 63"

lemma glen_fits: "fits d \<Longrightarrow> glen d = int (length d)"
proof -
  assume "fits d"
  then have "int (length d) < int (2 ^ 63)" unfolding fits_def by (simp only: of_nat_less_iff)
  then show ?thesis unfolding glen_def by (intro int64_id) auto
qed

lemma glen_less: "glen d < 2 ^ 63"
  using int64_bounds(2) by (simp only: glen_def)

lemma glen_le_length: "glen d \<le> int (length d)"
proof -
  have "int64 (int (length d)) \<le> take_bit 64 (int (length d))"
    unfolding int64_def signed_take_bit_eq_take_bit_minus by (simp split: split_of_bool)
  also have "\<dots> \<le> int (length d)" by (simp add: take_bit_eq_mod zmod_le_nonneg_dividend)
  finally show ?thesis by (simp add: glen_def)
qed

text \<open>\<open>d[i]\<close>, \<open>d[i] = v\<close>, \<open>d[i:j]\<close>, \<open>d[i:]\<close> and \<open>copy(d[i:], s)\<close>; out of range is a panic.\<close>

definition index_at :: "'a list \<Rightarrow> int \<Rightarrow> 'a res" where
  "index_at d i = (if 0 \<le> i \<and> i < int (length d) then Ok (d ! nat i) else Panic)"

definition store_at :: "'a list \<Rightarrow> int \<Rightarrow> 'a \<Rightarrow> 'a list res" where
  "store_at d i v = (if 0 \<le> i \<and> i < int (length d) then Ok (d[nat i := v]) else Panic)"

definition subslice :: "'a list \<Rightarrow> int \<Rightarrow> int \<Rightarrow> 'a list res" where
  "subslice d i j =
     (if 0 \<le> i \<and> i \<le> j \<and> j \<le> int (length d) then Ok (take (nat (j - i)) (drop (nat i) d))
      else Panic)"

definition slice_from :: "'a list \<Rightarrow> int \<Rightarrow> 'a list res" where
  "slice_from d i = (if 0 \<le> i \<and> i \<le> int (length d) then Ok (drop (nat i) d) else Panic)"

definition copy_at :: "'a list \<Rightarrow> int \<Rightarrow> 'a list \<Rightarrow> 'a list res" where
  "copy_at d i s =
     (if 0 \<le> i \<and> i \<le> int (length d)
      then Ok (take (nat i) d @ take (length d - nat i) s @ drop (nat i + length s) d)
      else Panic)"

lemma index_at_Ok [slice_simps]: "n < length d \<Longrightarrow> index_at d (int n) = Ok (d ! n)"
  by (simp add: index_at_def)

lemma index_at_append [simp]: "index_at (p @ b # r) (int (length p)) = Ok b"
  by (simp add: index_at_def)

lemma subslice_append [simp]:
  "subslice (p @ s @ r) (int (length p)) (int (length p) + int (length s)) = Ok s"
  by (simp add: subslice_def)

lemma copy_at_append:
  "length s = length s' \<Longrightarrow> copy_at (p @ s' @ r) (int (length p)) s = Ok (p @ s @ r)"
  by (simp add: copy_at_def)

lemma store_at_append: "store_at (p @ b # r) (int (length p)) v = Ok (p @ v # r)"
  by (simp add: store_at_def)

end
