(* ===== verification/Wire.thy ===== *)
theory Wire
  imports Prelude
begin

text \<open>
  The protobuf wire primitives that the generated files under \<open>x/identity/types\<close>
  (\<open>identity.pb.go\<close>, \<open>params.pb.go\<close>, \<open>genesis.pb.go\<close>, \<open>tx.pb.go\<close>, \<open>query.pb.go\<close>) repeat
  for every message: sizes and varints, the writes of \<open>MarshalToSizedBuffer\<close>, which fills
  a buffer from its end, the reads of \<open>Unmarshal\<close>, and the skipping of unknown fields.
  The writers are shown to put the forward encoding in front of what is already written;
  the readers to return on every input, to advance, and to invert the writers.
\<close>

section \<open>Varint sizes\<close>

text \<open>\<open>math/bits.Len64\<close>: the number of bits needed to represent a value.\<close>

fun bit_len :: "nat \<Rightarrow> nat" where
  "bit_len n = (if n = 0 then 0 else Suc (bit_len (n div 2)))"

declare bit_len.simps [simp del]

definition Len64 :: "u64 \<Rightarrow> int" where
  "Len64 x = int (bit_len (unat x))"

text \<open>\<open>sovIdentity\<close> and its copies in the other files.\<close>

definition sov :: "u64 \<Rightarrow> int" where
  "sov x = (Len64 (x OR 1) + 6) div 7"

text \<open>\<open>sozIdentity\<close>: the size of the zig-zag form of a value.\<close>

definition soz :: "u64 \<Rightarrow> int" where
  "soz x = sov (push_bit 1 x XOR signed_drop_bit 63 x)"

text \<open>The bytes of a varint, least significant group first.\<close>

lemma unat_drop7: "unat (drop_bit 7 v :: u64) = unat v div 128"
proof -
  have "unat (drop_bit 7 v) = drop_bit 7 (unat v)"
    by (rule bit_eqI) (auto simp: bit_simps dest: bit_imp_le_length)
  then show ?thesis by (simp add: drop_bit_eq_div)
qed

function uvarint :: "u64 \<Rightarrow> bytes" where
  "uvarint v =
     (if v < 128 then [ucast v]
      else ucast (v AND 0x7F OR 0x80) # uvarint (drop_bit 7 v))"
  by pat_completeness auto
termination
proof (relation "measure unat")
  fix v :: u64
  assume "\<not> v < 128"
  then have "128 \<le> unat v" by (simp add: word_less_nat_alt)
  then show "(drop_bit 7 v, v) \<in> measure unat"
    by (simp only: in_measure unat_drop7)
qed simp

declare uvarint.simps [simp del]

lemma uvarint_not_Nil [simp]: "uvarint v \<noteq> []"
  by (subst uvarint.simps) simp

lemma bit_len_pos: "0 < n \<Longrightarrow> bit_len n = Suc (bit_len (n div 2))"
  by (subst bit_len.simps) simp

lemma bit_len_drop7: "128 \<le> n \<Longrightarrow> bit_len n = bit_len (n div 128) + 7"
  using bit_len_pos [of n] bit_len_pos [of "n div 2"] bit_len_pos [of "n div 4"]
    bit_len_pos [of "n div 8"] bit_len_pos [of "n div 16"] bit_len_pos [of "n div 32"]
    bit_len_pos [of "n div 64"]
  by (simp add: div_mult2_eq [symmetric])

lemma bit_len_le_7: "0 < n \<Longrightarrow> n < 128 \<Longrightarrow> 0 < bit_len n \<and> bit_len n \<le> 7"
proof -
  have half: "bit_len m \<le> Suc (bit_len (m div 2))" for m
    by (subst bit_len.simps) simp
  assume n: "0 < n" "n < 128"
  then have "bit_len (n div 128) = 0" by (simp add: bit_len.simps)
  moreover have "bit_len n \<le> 7 + bit_len (n div 128)"
    using half [of n] half [of "n div 2"] half [of "n div 4"] half [of "n div 8"]
      half [of "n div 16"] half [of "n div 32"] half [of "n div 64"]
    by (simp add: div_mult2_eq [symmetric])
  moreover have "0 < bit_len n" using n by (subst bit_len.simps) simp
  ultimately show ?thesis by simp
qed

lemma or_1_nat: "(n OR 1 :: nat) = (if even n then Suc n else n)"
  by (simp only: or_one_eq) simp

lemma or_1_div2: "(n OR 1) div 2 = n div (2 :: nat)"
  unfolding or_1_nat by presburger

lemma unat_or_1: "unat (v OR 1 :: u64) = unat v OR 1"
  by (simp add: unsigned_or_eq)

lemma bit_len_or_1: "128 \<le> n \<Longrightarrow> bit_len (n OR 1) = bit_len ((n div 128) OR 1) + 7"
proof -
  assume n: "128 \<le> n"
  have "(n OR 1) div 128 = (n OR 1) div 2 div 64" by (simp only: div_mult2_eq [symmetric]) simp
  also have "\<dots> = n div 2 div 64" by (simp only: or_1_div2)
  also have "\<dots> = n div 128" by (simp only: div_mult2_eq [symmetric]) simp
  finally have "(n OR 1) div 128 = n div 128" .
  moreover have "128 \<le> n OR 1" using n unfolding or_1_nat by simp
  ultimately have "bit_len (n OR 1) = bit_len (n div 128) + 7"
    by (simp only: bit_len_drop7)
  moreover have "bit_len (m OR 1) = bit_len m" if "1 \<le> m" for m
  proof -
    have "0 < m OR 1" using that unfolding or_1_nat by simp
    then have "bit_len (m OR 1) = Suc (bit_len ((m OR 1) div 2))" by (rule bit_len_pos)
    also have "\<dots> = Suc (bit_len (m div 2))" by (simp only: or_1_div2)
    also have "\<dots> = bit_len m" using that by (subst (2) bit_len.simps) simp
    finally show ?thesis .
  qed
  moreover have "1 \<le> n div 128" using div_le_mono [OF n, of 128] by simp
  ultimately show ?thesis by (simp only:)
qed

lemma sov_uvarint: "sov v = int (length (uvarint v))"
proof (induction v rule: uvarint.induct)
  case (1 v)
  show ?case
  proof (cases "v < 128")
    case True
    then have "unat v < 128" by (simp add: word_less_nat_alt)
    then have "0 < unat v OR 1" "unat v OR 1 < 128"
      by (auto simp only: or_1_nat split: if_splits) presburger+
    from bit_len_le_7 [OF this]
    have "0 < bit_len (unat v OR 1)" "bit_len (unat v OR 1) \<le> 7" by auto
    then have "(int (bit_len (unat v OR 1)) + 6) div 7 = 1" by simp
    with True show ?thesis
      by (subst uvarint.simps) (simp add: sov_def Len64_def unat_or_1)
  next
    case False
    then have "128 \<le> unat v" by (simp add: word_less_nat_alt)
    from bit_len_or_1 [OF this]
    have "sov v = sov (drop_bit 7 v) + 1"
      unfolding sov_def Len64_def unat_or_1 unat_drop7 by simp
    with "1.IH" [OF False] False show ?thesis
      by (subst uvarint.simps) simp
  qed
qed

text \<open>A varint takes at most ten bytes.\<close>

lemma bit_len_le: "n < 2 ^ k \<Longrightarrow> bit_len n \<le> k"
proof (induction k arbitrary: n)
  case 0
  then show ?case by (simp add: bit_len.simps)
next
  case (Suc k)
  then have "bit_len (n div 2) \<le> k" by (intro Suc.IH) (simp add: less_mult_imp_div_less)
  then show ?case by (subst bit_len.simps) simp
qed

lemma length_uvarint_le: "length (uvarint v) \<le> 10"
proof -
  have "unat (v OR 1) < 2 ^ 64" using unsigned_less [of "v OR 1", where ?'a = nat] by simp
  then have "bit_len (unat (v OR 1)) \<le> 64" by (rule bit_len_le)
  then have "Len64 (v OR 1) \<le> 64" unfolding Len64_def by linarith
  then have "sov v \<le> 10" unfolding sov_def by linarith
  then show ?thesis unfolding sov_uvarint by linarith
qed

section \<open>Writing from the end of a buffer\<close>

text \<open>
  \<open>MarshalToSizedBuffer\<close> keeps a buffer and the index of the first byte already written,
  and lowers the index with every write. \<open>encodeVarint\<close> makes room for the whole varint
  first and then writes it forwards.
\<close>

type_synonym writer = "bytes \<times> int"

function varint_store :: "bytes \<Rightarrow> int \<Rightarrow> u64 \<Rightarrow> bytes res" where
  "varint_store d offset v =
     (if v < 128 then store_at d offset (ucast v)
      else bind_res (store_at d offset (ucast (v AND 0x7F OR 0x80)))
             (\<lambda>d. varint_store d (offset + 1) (drop_bit 7 v)))"
  by pat_completeness auto
termination
proof (relation "measure (\<lambda>(d, offset, v). unat v)")
  fix v :: u64 and d d' :: bytes and offset :: int
  assume "\<not> v < 128"
  then have "128 \<le> unat v" by (simp add: word_less_nat_alt)
  then show "((d', offset + 1, drop_bit 7 v), d, offset, v)
      \<in> measure (\<lambda>(d, offset, v). unat v)"
    by (simp only: in_measure unat_drop7 prod.case)
qed simp

declare varint_store.simps [simp del]

definition encodeVarint :: "bytes \<Rightarrow> int \<Rightarrow> u64 \<Rightarrow> writer res" where
  "encodeVarint d offset v =
     (let base = offset - sov v
      in bind_res (varint_store d base v) (\<lambda>d. Ok (d, base)))"

text \<open>\<open>i--; dAtA[i] = b\<close>\<close>

definition put_byte :: "byte \<Rightarrow> writer \<Rightarrow> writer res" where
  "put_byte b st = (case st of (d, i) \<Rightarrow>
     bind_res (store_at d (i - 1) b) (\<lambda>d. Ok (d, i - 1)))"

text \<open>\<open>i -= len(s); copy(dAtA[i:], s)\<close>\<close>

definition put_raw :: "bytes \<Rightarrow> writer \<Rightarrow> writer res" where
  "put_raw s st = (case st of (d, i) \<Rightarrow>
     bind_res (copy_at d (i - glen s) s) (\<lambda>d. Ok (d, i - glen s)))"

text \<open>\<open>i = encodeVarint(dAtA, i, v)\<close>\<close>

definition put_varint :: "u64 \<Rightarrow> writer \<Rightarrow> writer res" where
  "put_varint v st = (case st of (d, i) \<Rightarrow> encodeVarint d i v)"

text \<open>
  What a write does, abstractly: \<open>prep s\<close> overwrites the bytes just before the index with
  \<open>s\<close>. \<open>room st n\<close> says that there are at least \<open>n\<close> bytes before the index.
\<close>

fun prep :: "bytes \<Rightarrow> writer \<Rightarrow> writer" where
  "prep s (d, i) = (take (nat i - length s) d @ s @ drop (nat i) d, i - int (length s))"

fun room :: "writer \<Rightarrow> nat \<Rightarrow> bool" where
  "room (d, i) n \<longleftrightarrow> int n \<le> i \<and> i \<le> int (length d)"

lemma room_prep: "room st (length s + n) \<Longrightarrow> room (prep s st) n"
  by (cases st) auto

lemma room_mono: "room st n \<Longrightarrow> m \<le> n \<Longrightarrow> room st m"
  by (cases st) auto

lemma prep_Nil: "prep [] st = st"
  by (cases st) simp

lemma prep_prep:
  assumes "room st (length s + length t)"
  shows "prep t (prep s st) = prep (t @ s) st"
proof -
  obtain d i where st: "st = (d, i)" by (cases st)
  with assms obtain k where i: "i = int (length s + length t + k)"
    by (metis room.simps zle_iff_zadd of_nat_add)
  with assms st have k: "length s + length t + k \<le> length d" by simp
  then have "nat (i - int (length s)) = length t + k" "nat i = length s + length t + k"
    using i by auto
  with k show ?thesis by (simp add: st)
qed

text \<open>A state with room splits into the free front, the gap to be filled and the rest.\<close>

lemma room_split:
  assumes "room (d, i) n"
  obtains p g r where "d = p @ g @ r" "length g = n" "i = int (length p + n)"
proof -
  from assms obtain k where i: "i = int (n + k)"
    by (metis room.simps zle_iff_zadd of_nat_add)
  with assms have k: "n + k \<le> length d" by simp
  have "d = take k d @ take n (drop k d) @ drop n (drop k d)"
    by (simp only: append_take_drop_id)
  then show thesis
    by (rule that) (use k i in auto)
qed

lemma put_byte_prep:
  assumes "room st 1"
  shows "put_byte b st = Ok (prep [b] st)"
proof -
  obtain d i where st: "st = (d, i)" by (cases st)
  with assms obtain p g r where "d = p @ g @ r" "length g = 1" "i = int (length p + 1)"
    using room_split [of d i] by metis
  then show ?thesis
    by (auto simp: st put_byte_def store_at_append length_Suc_conv)
qed

lemma put_raw_prep:
  assumes "room st (length s)" "fits s"
  shows "put_raw s st = Ok (prep s st)"
proof -
  obtain d i where st: "st = (d, i)" by (cases st)
  with assms(1) obtain p g r where "d = p @ g @ r" "length g = length s" "i = int (length p + length s)"
    using room_split [of d i] by metis
  then show ?thesis
    by (simp add: st put_raw_def copy_at_append glen_fits [OF assms(2)])
qed

lemma varint_store_uvarint:
  "length g = length (uvarint v) \<Longrightarrow>
     varint_store (p @ g @ r) (int (length p)) v = Ok (p @ uvarint v @ r)"
proof (induction v arbitrary: p g rule: uvarint.induct)
  case (1 v)
  from "1.prems" obtain b g' where g: "g = b # g'" by (cases g) auto
  show ?case
  proof (cases "v < 128")
    case True
    with "1.prems" g show ?thesis
      by (subst varint_store.simps, subst (asm) uvarint.simps, subst uvarint.simps)
        (simp add: store_at_append)
  next
    case False
    let ?c = "ucast (v AND 0x7F OR 0x80) :: byte"
    from "1.prems" g False have "length g' = length (uvarint (drop_bit 7 v))"
      by (subst (asm) uvarint.simps) simp
    from "1.IH" [OF False this, of "p @ [?c]"] False g show ?thesis
      by (subst varint_store.simps, subst uvarint.simps)
        (simp add: store_at_append add.commute)
  qed
qed

lemma put_varint_prep:
  assumes "room st (length (uvarint v))"
  shows "put_varint v st = Ok (prep (uvarint v) st)"
proof -
  obtain d i where st: "st = (d, i)" by (cases st)
  with assms obtain p g r where "d = p @ g @ r" "length g = length (uvarint v)"
      "i = int (length p + length (uvarint v))"
    using room_split [of d i] by metis
  then show ?thesis
    by (simp add: st put_varint_def encodeVarint_def sov_uvarint varint_store_uvarint)
qed

section \<open>Reading varints\<close>

text \<open>
  The loop \<open>for shift := uint(0); ; shift += 7\<close> that every field of every \<open>Unmarshal\<close>
  runs: it returns the value and the index after it. It gives up when a tenth group is
  followed by an eleventh, or at the end of the input. Go reads into \<open>uint64\<close>, \<open>int\<close> or
  \<open>int64\<close>; the bits are the same, and the signed reads take \<open>sint\<close> of the result.
\<close>

function varint_load :: "bytes \<Rightarrow> int \<Rightarrow> nat \<Rightarrow> u64 \<Rightarrow> (u64 \<times> int) res" where
  "varint_load d i shift acc =
     (if 64 \<le> shift then Err ErrIntOverflow
      else if glen d \<le> i then Err ErrUnexpectedEOF
      else bind_res (index_at d i) (\<lambda>b.
        let acc = acc OR push_bit shift (ucast (b AND 0x7F)) in
        if b < 0x80 then Ok (acc, i + 1)
        else varint_load d (i + 1) (shift + 7) acc))"
  by pat_completeness auto
termination
  by (relation "measure (\<lambda>(d, i, shift, acc). 64 - shift)") auto

declare varint_load.simps [simp del]

text \<open>The same loop in \<open>skip\<close>, where the value is dropped.\<close>

function varint_skip :: "bytes \<Rightarrow> int \<Rightarrow> nat \<Rightarrow> int res" where
  "varint_skip d i shift =
     (if 64 \<le> shift then Err ErrIntOverflow
      else if glen d \<le> i then Err ErrUnexpectedEOF
      else bind_res (index_at d i) (\<lambda>b.
        if b < 0x80 then Ok (i + 1) else varint_skip d (i + 1) (shift + 7)))"
  by pat_completeness auto
termination
  by (relation "measure (\<lambda>(d, i, shift). 64 - shift)") auto

declare varint_skip.simps [simp del]

lemma index_at_returns: "0 \<le> i \<Longrightarrow> i < glen d \<Longrightarrow> \<exists>b. index_at d i = Ok b"
  using glen_le_length [of d] by (simp add: index_at_def)

lemma varint_load_returns: "0 \<le> i \<Longrightarrow> returns (varint_load d i shift acc)"
proof (induction d i shift acc rule: varint_load.induct)
  case (1 d i shift acc)
  show ?case
  proof (cases "64 \<le> shift \<or> glen d \<le> i")
    case True
    then show ?thesis by (subst varint_load.simps) auto
  next
    case False
    with index_at_returns [of i d] "1.prems" obtain b where "index_at d i = Ok b" by auto
    with False "1.IH" "1.prems" show ?thesis
      by (subst varint_load.simps) (auto simp: Let_def)
  qed
qed

lemma varint_load_progress:
  "varint_load d i shift acc = Ok (v, j) \<Longrightarrow> i < j \<and> j \<le> glen d"
proof (induction d i shift acc rule: varint_load.induct)
  case (1 d i shift acc)
  from "1.prems" have c: "\<not> 64 \<le> shift" "\<not> glen d \<le> i"
    by (subst (asm) varint_load.simps, auto split: if_splits)+
  with "1.prems" obtain b where b: "index_at d i = Ok b"
    by (subst (asm) varint_load.simps) (auto simp: res_simps)
  show ?case
  proof (cases "b < 0x80")
    case True
    with "1.prems" c b show ?thesis by (subst (asm) varint_load.simps) auto
  next
    case False
    with "1.prems" "1.IH" [OF c b refl False] c b show ?thesis
      by (subst (asm) varint_load.simps) (auto simp: Let_def)
  qed
qed

lemma varint_load_index: "varint_load d i shift acc = Ok (v, j) \<Longrightarrow> 0 \<le> i"
  by (subst (asm) varint_load.simps) (auto simp: res_simps index_at_def split: if_splits)

lemma varint_skip_load:
  "varint_skip d i shift = bind_res (varint_load d i shift acc) (\<lambda>(v, j). Ok j)"
proof (induction d i shift arbitrary: acc rule: varint_skip.induct)
  case (1 d i shift)
  show ?case
    using "1.IH"
    by (subst varint_skip.simps, subst varint_load.simps)
      (cases "index_at d i", auto simp: Let_def)
qed

lemma varint_skip_returns: "0 \<le> i \<Longrightarrow> returns (varint_skip d i shift)"
  unfolding varint_skip_load [where acc = 0]
  by (auto intro!: returns_bind varint_load_returns)

lemma varint_skip_progress: "varint_skip d i shift = Ok j \<Longrightarrow> i < j \<and> j \<le> glen d"
  unfolding varint_skip_load [where acc = 0]
  by (auto simp: res_simps dest: varint_load_progress)

text \<open>Reading inverts writing, wherever in the input the varint stands.\<close>

lemma and_7F: "v AND 0x7F = take_bit 7 (v :: 'a::len word)"
  by (simp add: take_bit_eq_mask mask_eq_exp_minus_1)

lemma bit_80: "bit (0x80 :: 'a::len word) n \<longleftrightarrow> n = 7 \<and> 7 < LENGTH('a)"
  using bit_exp_iff [of 7 n, where ?'a = "'a word"] by auto

lemma bit_80_int: "bit (0x80 :: int) n \<longleftrightarrow> n = 7"
  using bit_exp_iff [of 7 n, where ?'a = int] by auto

lemma take_bit_7_self: "take_bit 7 v = v \<longleftrightarrow> unat (v :: 'a::len word) < 128"
proof -
  have "take_bit 7 v = v \<longleftrightarrow> take_bit 7 (unat v) = unat v"
    by (metis unsigned_take_bit_eq unsigned_word_eqI)
  then show ?thesis by (simp add: take_bit_nat_eq_self_iff)
qed

lemma less_80_bit: "(b :: byte) < 0x80 \<longleftrightarrow> take_bit 7 b = b"
  by (simp add: take_bit_7_self word_less_nat_alt)

lemma push_bit_groups:
  "push_bit s v = push_bit s (v AND 0x7F) OR push_bit (s + 7) (drop_bit 7 (v :: u64))"
proof -
  have "bit (push_bit s v) n
      \<longleftrightarrow> bit (push_bit s (take_bit 7 v) OR push_bit (s + 7) (drop_bit 7 v)) n" if "n < 64" for n
    using that by (cases "s + 7 \<le> n") (auto simp: bit_simps)
  then show ?thesis unfolding and_7F by (intro bit_eqI) simp
qed

lemma group_low:
  assumes "v < (128 :: u64)"
  shows "ucast ((ucast v :: byte) AND 0x7F) = v" "(ucast v :: byte) < 0x80"
proof -
  have v: "take_bit 7 v = v" using assms by (simp add: take_bit_7_self word_less_nat_alt)
  have "ucast (take_bit 7 (ucast v :: byte)) = take_bit 7 v"
    by (rule bit_eqI) (auto simp: bit_simps)
  with v show "ucast ((ucast v :: byte) AND 0x7F) = v" by (simp only: and_7F)
  have "take_bit 7 (ucast (take_bit 7 v) :: byte) = ucast (take_bit 7 v)"
    by (rule bit_eqI) (auto simp: bit_simps)
  with v show "(ucast v :: byte) < 0x80" by (simp only: less_80_bit)
qed

lemma group_high:
  fixes v :: u64
  shows "ucast ((ucast (v AND 0x7F OR 0x80) :: byte) AND 0x7F) = v AND 0x7F"
    "\<not> (ucast (v AND 0x7F OR 0x80) :: byte) < 0x80"
proof -
  show "ucast ((ucast (v AND 0x7F OR 0x80) :: byte) AND 0x7F) = v AND 0x7F"
    unfolding and_7F by (rule bit_eqI) (auto simp: bit_simps bit_80_int)
  have "bit (ucast (v AND 0x7F OR 0x80) :: byte) 7"
    by (simp add: bit_simps bit_80_int)
  then show "\<not> (ucast (v AND 0x7F OR 0x80) :: byte) < 0x80"
    unfolding less_80_bit by (metis bit_take_bit_iff less_irrefl)
qed

lemma varint_load_uvarint:
  assumes "fits (p @ uvarint v @ r)" "shift < 64" "unat v < 2 ^ (64 - shift)"
  shows "varint_load (p @ uvarint v @ r) (int (length p)) shift acc
    = Ok (acc OR push_bit shift v, int (length p + length (uvarint v)))"
  using assms
proof (induction v arbitrary: p shift acc rule: uvarint.induct)
  case (1 v)
  let ?d = "p @ uvarint v @ r"
  have len: "\<not> glen ?d \<le> int (length p)"
    using "1.prems"(1) uvarint_not_Nil [of v] by (cases "uvarint v") (simp_all add: glen_fits)
  show ?case
  proof (cases "v < 128")
    case True
    then have u: "uvarint v = [ucast v]" by (subst uvarint.simps) simp
    show ?thesis
      using "1.prems"(2) len group_low [OF True]
      by (subst varint_load.simps) (simp add: u Let_def)
  next
    case False
    let ?b = "ucast (v AND 0x7F OR 0x80) :: byte" and ?w = "drop_bit 7 v"
    have u: "uvarint v = ?b # uvarint ?w" using False by (subst uvarint.simps) simp
    have v: "128 \<le> unat v" using False by (simp add: word_less_nat_alt)
    have s: "7 < 64 - shift"
    proof (rule ccontr)
      assume "\<not> 7 < 64 - shift"
      then have "2 ^ (64 - shift) \<le> (2 :: nat) ^ 7" by (intro power_increasing) auto
      with "1.prems"(3) v show False by simp
    qed
    have "2 ^ (64 - shift) = 2 ^ (64 - (shift + 7)) * (2 :: nat) ^ 7"
      using s by (simp only: power_add [symmetric]) simp
    with "1.prems"(3) have "unat v < 2 ^ (64 - (shift + 7)) * 128" by simp
    then have w: "unat ?w < 2 ^ (64 - (shift + 7))"
      unfolding unat_drop7 by (simp add: less_mult_imp_div_less)
    have "varint_load ((p @ [?b]) @ uvarint ?w @ r) (int (length (p @ [?b]))) (shift + 7)
        (acc OR push_bit shift (v AND 0x7F))
      = Ok ((acc OR push_bit shift (v AND 0x7F)) OR push_bit (shift + 7) ?w,
          int (length (p @ [?b]) + length (uvarint ?w)))"
      using "1.prems"(1) s u by (intro "1.IH" [OF False] w) auto
    with "1.prems"(2) len group_high [of v] push_bit_groups [of shift v] show ?thesis
      by (subst varint_load.simps) (simp add: u Let_def or.assoc add.commute)
  qed
qed

end
