(* ===== verification/Decoder.thy ===== *)
theory Decoder
  imports Wire
begin

text \<open>
  What every generated \<open>Unmarshal\<close> is made of: the tag of a field, a length-delimited or a
  varint field, the skipping of a field the message does not know, and the loop over the
  fields. The contract of one message's field decoder is the locale \<open>field_decoder\<close>; the
  loop's facts (it returns on every input, and it reads back a sequence of encoded fields)
  are proved there once, and every message interprets it.
\<close>

section \<open>Skipping an unknown field\<close>

text \<open>
  \<open>skipIdentity\<close> and its copies. The index is a Go \<open>int\<close>: the additions of a fixed width or
  of a length read from the input can wrap, which the code catches as a negative index.
\<close>

definition skip_value :: "bytes \<Rightarrow> u64 \<Rightarrow> int \<Rightarrow> int \<Rightarrow> (int \<times> int) res" where
  "skip_value d wireType i depth =
     (if wireType = 0 then bind_res (varint_skip d i 0) (\<lambda>i. Ok (i, depth))
      else if wireType = 1 then Ok (int64 (i + 8), depth)
      else if wireType = 2 then bind_res (varint_load d i 0 0) (\<lambda>(length, i).
        if sint length < 0 then Err ErrInvalidLength else Ok (int64 (i + sint length), depth))
      else if wireType = 3 then Ok (i, depth + 1)
      else if wireType = 4 then
        (if depth = 0 then Err ErrUnexpectedEndOfGroup else Ok (i, depth - 1))
      else if wireType = 5 then Ok (int64 (i + 4), depth)
      else Err (ErrIllegalWireType wireType))"

lemma sint64_less: "sint (v :: u64) < 2 ^ 63"
  using sint_less [of v] by simp

text \<open>A value ends after its start, or its index has wrapped to a negative number.\<close>

lemma skip_value_progress:
  assumes ok: "skip_value d wt i depth = Ok (j, depth')" and i: "0 \<le> i" "i \<le> glen d"
  shows "i \<le> j \<or> j < 0"
proof -
  have i': "i < 2 ^ 63" using i glen_less [of d] by simp
  consider "wt = 0" | "wt = 1" | "wt = 2" | "wt = 3" | "wt = 4" | "wt = 5"
    using ok by (auto simp: skip_value_def split: if_splits)
  then show ?thesis
  proof cases
    case 3
    with ok obtain n k where k: "varint_load d i 0 0 = Ok (n, k)"
        and n: "0 \<le> sint n" and j: "j = int64 (k + sint n)"
      by (auto simp: skip_value_def res_simps split: if_splits)
    from varint_load_progress [OF k] have "i < k" "k < 2 ^ 63" using glen_less [of d] by auto
    with i n j int64_add_advances [of k "sint n"] sint64_less [of n] show ?thesis by auto
  qed (use ok i i' int64_add_advances [of i 8] int64_add_advances [of i 4] varint_skip_progress in
      \<open>fastforce simp: skip_value_def res_simps split: if_splits\<close>)+
qed

function skip_loop :: "bytes \<Rightarrow> int \<Rightarrow> int \<Rightarrow> int res" where
  "skip_loop d i depth =
     (if glen d \<le> i then Err ErrUnexpectedEOF
      else bind_res (varint_load d i 0 0) (\<lambda>(wire, i1).
        bind_res (skip_value d (wire AND 7) i1 depth) (\<lambda>(i2, depth).
          if i2 < 0 then Err ErrInvalidLength
          else if depth = 0 then Ok i2
          else skip_loop d i2 depth)))"
  by pat_completeness auto

lemma skip_step_advances:
  assumes "varint_load d i 0 0 = Ok (wire, i1)" "skip_value d wt i1 depth = Ok (i2, depth')"
    and "\<not> i2 < 0"
  shows "0 \<le> i" "i < i2" "i < glen d"
  using varint_load_index [OF assms(1)] varint_load_progress [OF assms(1)]
    skip_value_progress [OF assms(2)] assms(3) by auto

termination skip_loop
  by (relation "measure (\<lambda>(d, i, depth). nat (glen d - i))")
    (auto dest: skip_step_advances)

declare skip_loop.simps [simp del]

definition skip_field :: "bytes \<Rightarrow> int res" where
  "skip_field d = skip_loop d 0 0"

lemma skip_value_returns:
  assumes "0 \<le> i" and "i \<le> glen d"
  shows "returns (skip_value d wt i depth)"
  using assms
  by (auto simp: skip_value_def intro!: returns_bind varint_load_returns varint_skip_returns)

lemma skip_loop_returns: "0 \<le> i \<Longrightarrow> returns (skip_loop d i depth)"
proof (induction d i depth rule: skip_loop.induct)
  case (1 d i depth)
  show ?case
  proof (cases "glen d \<le> i")
    case True
    then show ?thesis by (subst skip_loop.simps) simp
  next
    case False
    show ?thesis
      using "1.IH" [OF False] "1.prems" False varint_load_progress [of d i 0 0]
      by (subst skip_loop.simps)
        (fastforce intro!: returns_bind varint_load_returns skip_value_returns)
  qed
qed

lemma skip_loop_progress: "skip_loop d i depth = Ok j \<Longrightarrow> i < j"
proof (induction d i depth rule: skip_loop.induct)
  case (1 d i depth)
  from "1.prems" obtain wire i1 i2 depth2
    where w: "varint_load d i 0 0 = Ok (wire, i1)" "\<not> glen d \<le> i"
      and v: "skip_value d (wire AND 7) i1 depth = Ok (i2, depth2)" "\<not> i2 < 0"
      and r: "(if depth2 = 0 then Ok i2 else skip_loop d i2 depth2) = Ok j"
    by (subst (asm) skip_loop.simps) (auto simp: res_simps split: if_splits)
  note step = skip_step_advances [OF w(1) v]
  show ?case
  proof (cases "depth2 = 0")
    case True
    with r step show ?thesis by simp
  next
    case False
    with r "1.IH" [OF w(2) w(1) refl v(1) refl v(2) False] step show ?thesis by simp
  qed
qed

lemma skip_value_less:
  assumes "skip_value d wt i depth = Ok (j, depth')" and "i \<le> glen d"
  shows "j < 2 ^ 63"
  using assms glen_less [of d]
  by (auto simp: skip_value_def res_simps int64_bounds [simplified] split: if_splits
      dest!: varint_skip_progress)

lemma skip_loop_less: "skip_loop d i depth = Ok j \<Longrightarrow> j < 2 ^ 63"
proof (induction d i depth rule: skip_loop.induct)
  case (1 d i depth)
  from "1.prems" obtain wire i1 i2 depth2
    where w: "varint_load d i 0 0 = Ok (wire, i1)" "\<not> glen d \<le> i"
      and v: "skip_value d (wire AND 7) i1 depth = Ok (i2, depth2)" "\<not> i2 < 0"
      and r: "(if depth2 = 0 then Ok i2 else skip_loop d i2 depth2) = Ok j"
    by (subst (asm) skip_loop.simps) (auto simp: res_simps split: if_splits)
  from skip_value_less [OF v(1)] varint_load_progress [OF w(1)] have "i2 < 2 ^ 63" by simp
  with r "1.IH" [OF w(2) w(1) refl v(1) refl v(2)] show ?case by (cases "depth2 = 0") simp_all
qed

lemma skip_field_returns: "returns (skip_field d)"
  by (simp add: skip_field_def skip_loop_returns)

lemma skip_field_pos: "skip_field d = Ok n \<Longrightarrow> 0 < n"
  using skip_loop_progress by (simp add: skip_field_def)

lemma skip_field_less: "skip_field d = Ok n \<Longrightarrow> n < 2 ^ 63"
  using skip_loop_less by (simp add: skip_field_def)

section \<open>The parts of a field\<close>

text \<open>The tag: the \<open>wire\<close> varint, the field number in an \<open>int32\<close> and the wire type.\<close>

definition read_tag :: "string \<Rightarrow> bytes \<Rightarrow> int \<Rightarrow> (int \<times> u64 \<times> int) res" where
  "read_tag name d i = bind_res (varint_load d i 0 0) (\<lambda>(wire, i).
     let fieldNum = sint (ucast (drop_bit 3 wire) :: 32 word); wireType = wire AND 7 in
     if wireType = 4 then Err (ErrEndGroup name)
     else if fieldNum \<le> 0 then Err (ErrIllegalTag name fieldNum wire)
     else Ok (fieldNum, wireType, i))"

text \<open>A length-delimited field: a string's bytes or an embedded message.\<close>

definition read_len :: "string \<Rightarrow> u64 \<Rightarrow> bytes \<Rightarrow> int \<Rightarrow> (bytes \<times> int) res" where
  "read_len fieldName wireType d i =
     (if wireType \<noteq> 2 then Err (ErrWrongWireType wireType fieldName)
      else bind_res (varint_load d i 0 0) (\<lambda>(len, i).
        if sint len < 0 then Err ErrInvalidLength
        else let postIndex = int64 (i + sint len) in
          if postIndex < 0 then Err ErrInvalidLength
          else if glen d < postIndex then Err ErrUnexpectedEOF
          else bind_res (subslice d i postIndex) (\<lambda>s. Ok (s, postIndex))))"

text \<open>A varint field.\<close>

definition read_int :: "string \<Rightarrow> u64 \<Rightarrow> bytes \<Rightarrow> int \<Rightarrow> (u64 \<times> int) res" where
  "read_int fieldName wireType d i =
     (if wireType \<noteq> 0 then Err (ErrWrongWireType wireType fieldName)
      else varint_load d i 0 0)"

text \<open>The \<open>default\<close> case: go back to the tag and step over the whole field.\<close>

definition skip_unknown :: "bytes \<Rightarrow> int \<Rightarrow> int res" where
  "skip_unknown d preIndex =
     bind_res (slice_from d preIndex) (\<lambda>rest.
     bind_res (skip_field rest) (\<lambda>skippy.
       if skippy < 0 \<or> int64 (preIndex + skippy) < 0 then Err ErrInvalidLength
       else if glen d < int64 (preIndex + skippy) then Err ErrUnexpectedEOF
       else Ok (int64 (preIndex + skippy))))"

text \<open>Each part returns, and moves the index forward within the input.\<close>

lemma read_tag_returns: "0 \<le> i \<Longrightarrow> returns (read_tag name d i)"
  by (auto simp: read_tag_def Let_def intro!: returns_bind varint_load_returns)

lemma read_tag_progress: "read_tag name d i = Ok (n, wt, j) \<Longrightarrow> i < j \<and> j \<le> glen d"
  by (auto simp: read_tag_def Let_def res_simps split: if_splits dest!: varint_load_progress)

lemma int64_add_le:
  assumes "0 \<le> i" "i \<le> glen d" "0 \<le> n" "n < 2 ^ 63" "\<not> int64 (i + n) < 0"
  shows "int64 (i + n) = i + n"
proof -
  have "i < 2 ^ 63" using assms(2) glen_less [of d] by simp
  from assms(1) this assms(3,4) show ?thesis
    by (rule int64_add_cases) (use assms(5) in auto)
qed

lemma read_len_returns: "0 \<le> i \<Longrightarrow> returns (read_len f wt d i)"
proof -
  assume i: "0 \<le> i"
  have "returns (subslice d k (int64 (k + sint len)))"
    if "varint_load d i 0 0 = Ok (len, k)" "\<not> sint len < 0" "\<not> int64 (k + sint len) < 0"
      "\<not> glen d < int64 (k + sint len)" for len k
    using that i varint_load_progress [OF that(1)] int64_add_le [of k d "sint len"]
      sint64_less [of len] glen_le_length [of d]
    by (auto simp: subslice_def)
  with i show ?thesis
    by (auto simp: read_len_def Let_def intro!: returns_bind varint_load_returns)
qed

lemma read_len_progress: "read_len f wt d i = Ok (s, j) \<Longrightarrow> 0 \<le> i \<Longrightarrow> i < j \<and> j \<le> glen d"
proof -
  assume "read_len f wt d i = Ok (s, j)" and i: "0 \<le> i"
  then obtain len k where k: "varint_load d i 0 0 = Ok (len, k)"
      and l: "\<not> sint len < 0" "\<not> j < 0" and j: "j = int64 (k + sint len)" "j \<le> glen d"
    by (auto simp: read_len_def Let_def res_simps split: if_splits)
  with i varint_load_progress [OF k] int64_add_le [of k d "sint len"] sint64_less [of len]
  show ?thesis by auto
qed

lemma read_int_returns: "0 \<le> i \<Longrightarrow> returns (read_int f wt d i)"
  by (auto simp: read_int_def intro!: varint_load_returns)

lemma read_int_progress: "read_int f wt d i = Ok (v, j) \<Longrightarrow> i < j \<and> j \<le> glen d"
  by (auto simp: read_int_def split: if_splits dest: varint_load_progress)

lemma skip_unknown_returns: "0 \<le> i \<Longrightarrow> i < glen d \<Longrightarrow> returns (skip_unknown d i)"
  using glen_le_length [of d]
  by (auto simp: skip_unknown_def slice_from_def intro!: returns_bind skip_field_returns)

lemma skip_unknown_progress:
  "skip_unknown d i = Ok j \<Longrightarrow> 0 \<le> i \<Longrightarrow> i < glen d \<Longrightarrow> i < j \<and> j \<le> glen d"
proof -
  assume "skip_unknown d i = Ok j" and i: "0 \<le> i" "i < glen d"
  then obtain rest n where n: "skip_field rest = Ok n"
      and j: "j = int64 (i + n)" "\<not> int64 (i + n) < 0" "j \<le> glen d"
    by (auto simp: skip_unknown_def res_simps split: if_splits)
  from skip_field_pos [OF n] skip_field_less [OF n] i j int64_add_le [of i d n]
  show ?thesis by auto
qed

text \<open>The progress facts in the form in which a field decoder's result is taken apart.\<close>

lemmas part_returns = read_tag_returns read_len_returns read_int_returns skip_unknown_returns

lemma field_progress_parts:
  assumes "read_tag name d i = Ok (n, wt, j)" and "0 \<le> i" and "i < glen d"
  shows "read_len f wt d j = Ok (s, k) \<Longrightarrow> i < k \<and> k \<le> glen d"
    and "read_int f wt d j = Ok (v, k) \<Longrightarrow> i < k \<and> k \<le> glen d"
    and "skip_unknown d i = Ok k \<Longrightarrow> i < k \<and> k \<le> glen d"
    and "0 \<le> j"
  using read_tag_progress [OF assms(1)] assms(2,3) read_len_progress [of f wt d j s k]
    read_int_progress [of f wt d j v k] skip_unknown_progress [of d i k] by auto

section \<open>The loop over the fields\<close>

text \<open>
  \<open>for iNdEx < l { ... }\<close>: the loop calls the message's field decoder until the input is
  used up. Its fuel is the length of the input, and every round uses at least one byte, so
  it never runs out (\<open>loop_returns\<close> below); running out would be \<^const>\<open>Diverge\<close>.
\<close>

type_synonym 'm field_reader = "bytes \<Rightarrow> int \<Rightarrow> 'm \<Rightarrow> (int \<times> 'm) res"

fun field_loop :: "nat \<Rightarrow> 'm field_reader \<Rightarrow> bytes \<Rightarrow> int \<Rightarrow> 'm \<Rightarrow> (int \<times> 'm) res" where
  "field_loop 0 field d i m = (if i < glen d then Diverge else Ok (i, m))"
| "field_loop (Suc fuel) field d i m =
     (if i < glen d
      then bind_res (field d i m) (\<lambda>(i, m). field_loop fuel field d i m)
      else Ok (i, m))"

definition unmarshal_loop :: "'m field_reader \<Rightarrow> bytes \<Rightarrow> 'm \<Rightarrow> 'm res" where
  "unmarshal_loop field d m =
     bind_res (field_loop (length d) field d 0 m) (\<lambda>(i, m).
       if glen d < i then Err ErrUnexpectedEOF else Ok m)"

text \<open>
  \<open>reads field e m m'\<close>: the bytes \<open>e\<close> are a sequence of encoded fields, which the decoder
  applies to \<open>m\<close> one after the other with the result \<open>m'\<close>, wherever they stand.
\<close>

definition reads_one :: "'m field_reader \<Rightarrow> bytes \<Rightarrow> 'm \<Rightarrow> 'm \<Rightarrow> bool" where
  "reads_one field e m m' \<longleftrightarrow> e \<noteq> [] \<and>
     (\<forall>p r. fits (p @ e @ r)
        \<longrightarrow> field (p @ e @ r) (int (length p)) m = Ok (int (length p + length e), m'))"

inductive reads :: "'m field_reader \<Rightarrow> bytes \<Rightarrow> 'm \<Rightarrow> 'm \<Rightarrow> bool" for field where
  reads_Nil: "reads field [] m m"
| reads_step: "reads_one field e m m' \<Longrightarrow> reads field es m' m'' \<Longrightarrow> reads field (e @ es) m m''"

lemma reads_append: "reads field e m m' \<Longrightarrow> reads field e' m' m'' \<Longrightarrow> reads field (e @ e') m m''"
  by (induction rule: reads.induct) (auto intro: reads.intros)

lemma reads_single: "reads_one field e m m' \<Longrightarrow> reads field e m m'"
  using reads_step [OF _ reads_Nil] by force

lemma reads_optional:
  assumes "c \<Longrightarrow> reads_one field e m m'" and "\<not> c \<Longrightarrow> m' = m"
  shows "reads field (if c then e else []) m m'"
  using assms by (auto intro: reads_single reads_Nil)

lemma reads_loop:
  assumes "reads field e m m'" and "fits (p @ e)" and "length e \<le> fuel"
  shows "field_loop fuel field (p @ e) (int (length p)) m = Ok (int (length (p @ e)), m')"
  using assms
proof (induction arbitrary: p fuel rule: reads.induct)
  case (reads_Nil m)
  then show ?case by (cases fuel) (simp_all add: glen_fits)
next
  case (reads_step e m m' es m'')
  then have ne: "e \<noteq> []" and f: "field (p @ e @ es) (int (length p)) m = Ok (int (length p + length e), m')"
    by (auto simp: reads_one_def)
  with reads_step.prems obtain k where fuel: "fuel = Suc k" "length es \<le> k"
    by (cases fuel) (auto simp: Suc_le_eq length_greater_0_conv [symmetric] simp del: length_greater_0_conv)
  from ne have "0 < int (length e) + int (length es)" by (cases e) simp_all
  with reads_step.IH [of "p @ e" k] reads_step.prems fuel f
  show ?case by (simp add: glen_fits)
qed

locale field_decoder =
  fixes field :: "'m field_reader"
  assumes field_returns: "0 \<le> i \<Longrightarrow> i < glen d \<Longrightarrow> returns (field d i m)"
    and field_progress:
      "field d i m = Ok (j, m') \<Longrightarrow> 0 \<le> i \<Longrightarrow> i < glen d \<Longrightarrow> i < j \<and> j \<le> glen d"
begin

lemma loop_returns:
  "0 \<le> i \<Longrightarrow> glen d - i \<le> int fuel \<Longrightarrow> returns (field_loop fuel field d i m)"
proof (induction fuel arbitrary: i m)
  case (Suc fuel)
  show ?case
  proof (cases "i < glen d")
    case True
    have "returns (field_loop fuel field d j m')" if "field d i m = Ok (j, m')" for j m'
      using field_progress [OF that Suc.prems(1) True] Suc.prems by (intro Suc.IH) auto
    with True Suc.prems(1) show ?thesis by (auto intro!: returns_bind field_returns)
  qed simp
qed simp

lemma unmarshal_loop_returns: "returns (unmarshal_loop field d m)"
  using glen_le_length [of d]
  by (auto simp: unmarshal_loop_def intro!: returns_bind loop_returns)

lemma unmarshal_loop_reads:
  assumes "reads field e m m'" and "fits e"
  shows "unmarshal_loop field e m = Ok m'"
  using reads_loop [OF assms(1), of "[]" "length e"] assms(2)
  by (simp add: unmarshal_loop_def glen_fits)

end

section \<open>Reading back what was written\<close>

text \<open>The encodings of the field parts: a tag byte, a length and bytes, or a varint.\<close>

definition enc_len :: "byte \<Rightarrow> bytes \<Rightarrow> bytes" where
  "enc_len tag s = tag # uvarint (of_nat (length s)) @ s"

definition enc_int :: "byte \<Rightarrow> u64 \<Rightarrow> bytes" where
  "enc_int tag v = tag # uvarint v"

lemma fits_appendD: "fits (p @ r) \<Longrightarrow> fits p \<and> fits r"
  by (auto simp: fits_def)

lemma varint_load_here:
  assumes "fits (p @ uvarint v @ r)"
  shows "varint_load (p @ uvarint v @ r) (int (length p)) 0 0
    = Ok (v, int (length p + length (uvarint v)))"
proof -
  have "unat v < 2 ^ (64 - 0)" using unsigned_less [of v, where ?'a = nat] by simp
  from varint_load_uvarint [OF assms _ this, of 0] show ?thesis by simp
qed

lemma uvarint_small: "v < 128 \<Longrightarrow> uvarint v = [ucast v]"
  by (subst uvarint.simps) simp

lemma varint_load_byte:
  assumes "t < 128" and "fits (p @ ucast (t :: u64) # r)"
  shows "varint_load (p @ ucast t # r) (int (length p)) 0 0 = Ok (t, int (length p) + 1)"
  using varint_load_here [of p t r] assms by (simp add: uvarint_small add.commute)

lemma read_len_here:
  assumes "fits (p @ uvarint (of_nat (length s)) @ s @ r)"
  shows "read_len f 2 (p @ uvarint (of_nat (length s)) @ s @ r) (int (length p))
    = Ok (s, int (length p + length (uvarint (of_nat (length s))) + length s))"
proof -
  let ?u = "uvarint (of_nat (length s))" and ?d = "p @ uvarint (of_nat (length s)) @ s @ r"
  have s: "length s < 2 ^ 63" using assms by (auto simp: fits_def)
  then have "int (length s) < int (2 ^ 63)" by (simp only: of_nat_less_iff)
  then have sint: "sint (of_nat (length s) :: u64) = int (length s)"
    by (simp add: signed_of_nat signed_take_bit_int_eq_self_iff)
  have len: "length p + length ?u + length s < 2 ^ 63" using assms by (auto simp: fits_def)
  then have "int (length p + length ?u + length s) < int (2 ^ 63)" by (simp only: of_nat_less_iff)
  then have wrap: "int64 (int (length p + length ?u) + int (length s))
      = int (length p + length ?u + length s)"
    by (subst int64_id) auto
  have "subslice ((p @ ?u) @ s @ r) (int (length (p @ ?u))) (int (length (p @ ?u)) + int (length s)) = Ok s"
    by (rule subslice_append)
  with varint_load_here [OF assms] sint wrap glen_fits [OF assms] show ?thesis
    by (simp add: read_len_def Let_def)
qed

lemma read_tag_here:
  assumes "t < 128" "t AND 7 \<noteq> 4" "0 < sint (ucast (drop_bit 3 t) :: 32 word)"
    and "fits (p @ ucast (t :: u64) # r)"
  shows "read_tag name (p @ ucast t # r) (int (length p))
    = Ok (sint (ucast (drop_bit 3 t) :: 32 word), t AND 7, int (length p) + 1)"
  using varint_load_byte [OF assms(1,4)] assms(2,3) by (simp add: read_tag_def Let_def)

lemma read_len_enc:
  assumes "fits (p @ enc_len tag s @ r)"
  shows "read_len f 2 (p @ enc_len tag s @ r) (int (length p) + 1)
    = Ok (s, int (length p + length (enc_len tag s)))"
  using read_len_here [of "p @ [tag]" s r f] assms by (simp add: enc_len_def algebra_simps)

lemma read_int_enc:
  assumes "fits (p @ enc_int tag v @ r)"
  shows "read_int f 0 (p @ enc_int tag v @ r) (int (length p) + 1)
    = Ok (v, int (length p + length (enc_int tag v)))"
  using varint_load_here [of "p @ [tag]" v r] assms
  by (simp add: read_int_def enc_int_def algebra_simps)

lemma read_tag_enc_len:
  assumes "t < 128" "t AND 7 \<noteq> 4" "0 < sint (ucast (drop_bit 3 t) :: 32 word)"
    and "fits (p @ enc_len (ucast t) s @ r)"
  shows "read_tag name (p @ enc_len (ucast (t :: u64)) s @ r) (int (length p))
    = Ok (sint (ucast (drop_bit 3 t) :: 32 word), t AND 7, int (length p) + 1)"
  using read_tag_here [OF assms(1-3)] assms(4) by (simp add: enc_len_def)

lemma read_tag_enc_int:
  assumes "t < 128" "t AND 7 \<noteq> 4" "0 < sint (ucast (drop_bit 3 t) :: 32 word)"
    and "fits (p @ enc_int (ucast t) v @ r)"
  shows "read_tag name (p @ enc_int (ucast (t :: u64)) v @ r) (int (length p))
    = Ok (sint (ucast (drop_bit 3 t) :: 32 word), t AND 7, int (length p) + 1)"
  using read_tag_here [OF assms(1-3)] assms(4) by (simp add: enc_int_def)

section \<open>The contract of a generated message\<close>

text \<open>
  What the rest of the module relies on from a message's generated code: \<open>Marshal\<close> gives the
  encoding \<open>enc\<close>, \<open>Size\<close> its length, \<open>Unmarshal\<close> into a zero message reads it back and
  returns on every input. \<open>small\<close> holds of the messages whose encoding fits a slice.
\<close>

locale message_codec =
  fixes marshal :: "'m \<Rightarrow> bytes res"
    and msize :: "'m \<Rightarrow> int"
    and unmarshal :: "bytes \<Rightarrow> 'm \<Rightarrow> 'm res"
    and enc :: "'m \<Rightarrow> bytes"
    and zero_msg :: 'm
    and small :: "'m \<Rightarrow> bool"
  assumes marshal_enc: "small m \<Longrightarrow> marshal m = Ok (enc m)"
    and msize_enc: "small m \<Longrightarrow> msize m = int (length (enc m))"
    and unmarshal_enc: "small m \<Longrightarrow> unmarshal (enc m) zero_msg = Ok m"
    and unmarshal_total: "returns (unmarshal d m)"
begin

lemma codec_roundtrip:
  assumes "small m"
  shows "bind_res (marshal m) (\<lambda>d. unmarshal d zero_msg) = Ok m"
  using assms by (simp add: marshal_enc unmarshal_enc)

lemma codec_inj: "small m \<Longrightarrow> small m' \<Longrightarrow> enc m = enc m' \<Longrightarrow> m = m'"
  by (metis unmarshal_enc res.inject(1))

lemma codec_marshal_inj: "small m \<Longrightarrow> small m' \<Longrightarrow> marshal m = marshal m' \<Longrightarrow> m = m'"
  by (metis codec_inj marshal_enc res.inject(1))

lemma codec_size_marshal: "small m \<Longrightarrow> marshal m = Ok d \<Longrightarrow> msize m = int (length d)"
  by (simp add: marshal_enc msize_enc)

end

section \<open>Sizing and writing whole fields\<close>

text \<open>
  The three lines that write a length-delimited field (bytes, length, tag) and the two that
  write a varint field, and the sizes that \<open>Size\<close> adds up for them.
\<close>

definition put_len :: "byte \<Rightarrow> bytes \<Rightarrow> writer \<Rightarrow> writer res" where
  "put_len tag s st =
     bind_res (put_raw s st) (\<lambda>st.
     bind_res (put_varint (of_nat (length s)) st) (put_byte tag))"

definition put_int :: "byte \<Rightarrow> u64 \<Rightarrow> writer \<Rightarrow> writer res" where
  "put_int tag v st = bind_res (put_varint v st) (put_byte tag)"

definition size_len :: "int \<Rightarrow> int" where
  "size_len l = 1 + l + sov (word_of_int l)"

lemma length_enc_len: "length (enc_len tag s) = 1 + length (uvarint (of_nat (length s))) + length s"
  by (simp add: enc_len_def)

lemma length_enc_int: "length (enc_int tag v) = 1 + length (uvarint v)"
  by (simp add: enc_int_def)

lemma size_len_enc: "size_len (int (length s)) = int (length (enc_len tag s))"
  by (simp add: size_len_def sov_uvarint length_enc_len)

lemma put_int_prep:
  assumes "room st (length (enc_int tag v))"
  shows "put_int tag v st = Ok (prep (enc_int tag v) st)"
proof -
  have r: "room st (length (uvarint v) + length [tag])"
    using assms by (simp add: length_enc_int)
  then have "room st (length (uvarint v))" by (rule room_mono) simp
  moreover have "room (prep (uvarint v) st) 1" using room_prep [OF r] by simp
  ultimately show ?thesis
    using prep_prep [OF r]
    by (simp add: put_int_def put_varint_prep put_byte_prep enc_int_def)
qed

lemma put_len_prep:
  assumes "room st (length (enc_len tag s))" and "fits s"
  shows "put_len tag s st = Ok (prep (enc_len tag s) st)"
proof -
  let ?u = "uvarint (of_nat (length s))"
  have r1: "room st (length s + length ?u)" and r2: "room st (length (?u @ s) + length [tag])"
    using assms(1) by (auto simp: length_enc_len intro: room_mono)
  have "room st (length s)" using r1 by (rule room_mono) simp
  moreover have "room (prep s st) (length ?u)" using r1 by (rule room_prep)
  moreover have "room (prep (?u @ s) st) 1" using room_prep [OF r2] by simp
  ultimately show ?thesis
    using prep_prep [OF r1] prep_prep [OF r2] assms(2)
    by (simp add: put_len_def put_raw_prep put_varint_prep put_byte_prep enc_len_def)
qed

text \<open>
  \<open>MarshalToSizedBuffer\<close> runs the writes from the end of the buffer and returns how many
  bytes they took; \<open>Marshal\<close> calls it on a fresh buffer of the message's size.
\<close>

definition sized_buffer :: "(writer \<Rightarrow> writer res) \<Rightarrow> bytes \<Rightarrow> (bytes \<times> int) res" where
  "sized_buffer writes dAtA =
     bind_res (writes (dAtA, glen dAtA)) (\<lambda>(dAtA, i). Ok (dAtA, glen dAtA - i))"

definition marshal_sized :: "int \<Rightarrow> (bytes \<Rightarrow> (bytes \<times> int) res) \<Rightarrow> bytes res" where
  "marshal_sized n fill =
     bind_res (fill (replicate (nat n) 0)) (\<lambda>(dAtA, n). subslice dAtA 0 n)"

text \<open>An embedded message is written into the part of the buffer before the index.\<close>

definition put_msg :: "byte \<Rightarrow> (bytes \<Rightarrow> (bytes \<times> int) res) \<Rightarrow> writer \<Rightarrow> writer res" where
  "put_msg tag fill st = (case st of (d, i) \<Rightarrow>
     bind_res (subslice d 0 i) (\<lambda>front.
     bind_res (fill front) (\<lambda>(front, n).
     bind_res (put_varint (word_of_int n) (front @ drop (nat i) d, i - n)) (put_byte tag))))"

text \<open>\<open>fills fill e\<close>: in any buffer with room for it, \<open>e\<close> ends up at the end.\<close>

definition fills :: "(bytes \<Rightarrow> (bytes \<times> int) res) \<Rightarrow> bytes \<Rightarrow> bool" where
  "fills fill e \<longleftrightarrow> (\<forall>d. fits d \<longrightarrow> length e \<le> length d
     \<longrightarrow> fill d = Ok (take (length d - length e) d @ e, int (length e)))"

definition writes :: "(writer \<Rightarrow> writer res) \<Rightarrow> bytes \<Rightarrow> bool" where
  "writes w e \<longleftrightarrow> (\<forall>st. fits (fst st) \<longrightarrow> room st (length e) \<longrightarrow> w st = Ok (prep e st))"

lemma fits_prep: "room st (length s) \<Longrightarrow> fits (fst (prep s st)) \<longleftrightarrow> fits (fst st)"
  by (cases st) (auto simp: fits_def min_def nat_le_iff le_nat_iff)

lemma writes_Nil: "writes Ok []"
  by (simp add: writes_def prep_Nil)

lemma writes_bind:
  assumes "writes w e" and "writes w' e'"
  shows "writes (\<lambda>st. bind_res (w st) w') (e' @ e)"
  unfolding writes_def
proof (intro allI impI)
  fix st assume f: "fits (fst st)" and "room st (length (e' @ e))"
  then have r: "room st (length e + length e')" by (simp add: add.commute)
  then have r': "room st (length e)" by (rule room_mono) simp
  with assms(1) f have "w st = Ok (prep e st)" unfolding writes_def by blast
  moreover have "w' (prep e st) = Ok (prep e' (prep e st))"
    using assms(2) f fits_prep [OF r'] room_prep [OF r] unfolding writes_def by blast
  ultimately show "bind_res (w st) w' = Ok (prep (e' @ e) st)"
    using prep_prep [OF r] by simp
qed

lemma writes_if: "(c \<Longrightarrow> writes w e) \<Longrightarrow> writes (if c then w else Ok) (if c then e else [])"
  by (simp add: writes_Nil)

lemma writes_len: "fits s \<Longrightarrow> writes (put_len tag s) (enc_len tag s)"
  by (simp add: writes_def put_len_prep)

lemma writes_int: "writes (put_int tag v) (enc_int tag v)"
  by (simp add: writes_def put_int_prep)

lemma fills_writes:
  assumes "writes w e"
  shows "fills (sized_buffer w) e"
  unfolding fills_def
proof (intro allI impI)
  fix d :: bytes assume d: "fits d" "length e \<le> length d"
  with assms have w: "w (d, int (length d)) = Ok (prep e (d, int (length d)))"
    by (simp add: writes_def)
  have "fits (take (length d - length e) d @ e)" using d by (simp add: fits_def)
  with d w show "sized_buffer w d = Ok (take (length d - length e) d @ e, int (length e))"
    by (simp add: sized_buffer_def glen_fits)
qed

lemma writes_msg:
  assumes "fills fill e" and "fits e"
  shows "writes (put_msg tag fill) (enc_len tag e)"
  unfolding writes_def
proof (intro allI impI)
  fix st assume f: "fits (fst st)" and room: "room st (length (enc_len tag e))"
  obtain d i where st: "st = (d, i)" by (cases st)
  let ?u = "uvarint (of_nat (length e))"
  have r1: "room st (length e + length ?u)" and r2: "room st (length (?u @ e) + length [tag])"
    using room by (auto simp: length_enc_len intro: room_mono)
  have "room st (length e)" using r1 by (rule room_mono) simp
  with st f have front: "subslice d 0 i = Ok (take (nat i) d)" "fits (take (nat i) d)"
      "length e \<le> length (take (nat i) d)" "length (take (nat i) d) = nat i" "0 \<le> i"
    by (auto simp: subslice_def fits_def le_nat_iff nat_le_iff)
  with assms(1) have "fill (take (nat i) d) = Ok (take (nat i - length e) d @ e, int (length e))"
    by (simp add: fills_def min_def)
  then have "put_msg tag fill st = bind_res (put_varint (of_nat (length e)) (prep e st)) (put_byte tag)"
    using front by (simp add: put_msg_def st)
  moreover have "room (prep e st) (length ?u)" using r1 by (rule room_prep)
  moreover have "room (prep (?u @ e) st) 1" using room_prep [OF r2] by simp
  ultimately show "put_msg tag fill st = Ok (prep (enc_len tag e) st)"
    using prep_prep [OF r1] prep_prep [OF r2]
    by (simp add: put_varint_prep put_byte_prep enc_len_def)
qed

lemma marshal_sized_enc:
  assumes "fills fill e" and "fits e"
  shows "marshal_sized (int (length e)) fill = Ok e"
proof -
  have "fits (replicate (length e) (0 :: byte))" using assms(2) by (simp add: fits_def)
  with assms(1) show ?thesis
    by (simp add: marshal_sized_def fills_def subslice_def)
qed

text \<open>\<open>MarshalTo\<close> fills the first \<open>Size\<close> bytes of the caller's buffer.\<close>

definition marshal_to :: "int \<Rightarrow> (bytes \<Rightarrow> (bytes \<times> int) res) \<Rightarrow> bytes \<Rightarrow> (bytes \<times> int) res" where
  "marshal_to n fill dAtA =
     bind_res (subslice dAtA 0 n) (\<lambda>front.
     bind_res (fill front) (\<lambda>(front, k). Ok (front @ drop (nat n) dAtA, k)))"

lemma marshal_to_enc:
  assumes "fills fill e" and "length e \<le> length d" and "fits d"
  shows "marshal_to (int (length e)) fill d = Ok (e @ drop (length e) d, int (length e))"
  using assms by (simp add: marshal_to_def fills_def subslice_def fits_def)

section \<open>String and integer fields of proto3\<close>

text \<open>
  A string field is left out when it is empty, an integer field when it is zero; both in
  \<open>Size\<close> and in \<open>MarshalToSizedBuffer\<close>.
\<close>

definition size_str :: "string \<Rightarrow> int" where
  "size_str s = (let l = glen s in if l > 0 then size_len l else 0)"

definition size_opt_int :: "u64 \<Rightarrow> int" where
  "size_opt_int v = (if v \<noteq> 0 then 1 + sov v else 0)"

definition put_str :: "byte \<Rightarrow> string \<Rightarrow> writer \<Rightarrow> writer res" where
  "put_str tag s = (if glen s > 0 then put_len tag (bytes_of s) else Ok)"

definition put_opt_int :: "byte \<Rightarrow> u64 \<Rightarrow> writer \<Rightarrow> writer res" where
  "put_opt_int tag v = (if v \<noteq> 0 then put_int tag v else Ok)"

definition enc_str :: "byte \<Rightarrow> string \<Rightarrow> bytes" where
  "enc_str tag s = (if s \<noteq> [] then enc_len tag (bytes_of s) else [])"

definition enc_opt_int :: "byte \<Rightarrow> u64 \<Rightarrow> bytes" where
  "enc_opt_int tag v = (if v \<noteq> 0 then enc_int tag v else [])"

lemma fits_enc_len: "fits (enc_len tag s) \<Longrightarrow> fits s"
  by (auto simp: fits_def length_enc_len)

lemma fits_enc_str: "fits (enc_str tag s) \<Longrightarrow> fits s"
  by (auto simp: enc_str_def fits_def length_enc_len split: if_splits)

lemma length_enc_str_le: "length (enc_str t x) \<le> 11 + length x"
  using length_uvarint_le [of "of_nat (length x)"] by (simp add: enc_str_def length_enc_len)

lemma length_enc_opt_int_le: "length (enc_opt_int t x) \<le> 11"
  using length_uvarint_le [of x] by (simp add: enc_opt_int_def length_enc_int)

lemma size_str_enc: "fits s \<Longrightarrow> size_str s = int (length (enc_str tag s))"
  using size_len_enc [of "bytes_of s" tag] by (auto simp: size_str_def enc_str_def glen_fits Let_def)

lemma size_opt_int_enc: "size_opt_int v = int (length (enc_opt_int tag v))"
  by (simp add: size_opt_int_def enc_opt_int_def sov_uvarint length_enc_int)

lemma writes_str: "fits s \<Longrightarrow> writes (put_str tag s) (enc_str tag s)"
  using writes_len [of "bytes_of s" tag]
  by (auto simp: put_str_def enc_str_def glen_fits fits_def writes_Nil)

lemma writes_opt_int: "writes (put_opt_int tag v) (enc_opt_int tag v)"
  by (simp add: put_opt_int_def enc_opt_int_def writes_int writes_Nil)

text \<open>
  Reading one encoded field back: it is enough to know what the decoder does at the start
  of the field, once tag and contents have been read.
\<close>

lemma reads_one_len:
  assumes "t < 128" "t AND 7 = 2" "0 < sint (ucast (drop_bit 3 t) :: 32 word)" "tag = ucast (t :: u64)"
    and "\<And>d i j k.
      read_tag name d i = Ok (sint (ucast (drop_bit 3 t) :: 32 word), 2, j)
      \<Longrightarrow> read_len f 2 d j = Ok (s, k) \<Longrightarrow> fits s \<Longrightarrow> field d i m = Ok (k, m')"
  shows "reads_one field (enc_len tag s) m m'"
  unfolding reads_one_def
proof (intro conjI allI impI)
  show "enc_len tag s \<noteq> []" by (simp add: enc_len_def)
  fix p r assume fits: "fits (p @ enc_len tag s @ r)"
  then have "fits s" by (auto dest!: fits_appendD dest: fits_enc_len)
  with assms(5) read_tag_enc_len [of t p s r name] read_len_enc [OF fits, of f] fits assms(1-4)
  show "field (p @ enc_len tag s @ r) (int (length p)) m
      = Ok (int (length p + length (enc_len tag s)), m')"
    by simp
qed

lemma reads_one_int:
  assumes "t < 128" "t AND 7 = 0" "0 < sint (ucast (drop_bit 3 t) :: 32 word)" "tag = ucast (t :: u64)"
    and "\<And>d i j k.
      read_tag name d i = Ok (sint (ucast (drop_bit 3 t) :: 32 word), 0, j)
      \<Longrightarrow> read_int f 0 d j = Ok (v, k) \<Longrightarrow> field d i m = Ok (k, m')"
  shows "reads_one field (enc_int tag v) m m'"
  unfolding reads_one_def
proof (intro conjI allI impI)
  show "enc_int tag v \<noteq> []" by (simp add: enc_int_def)
  fix p r assume fits: "fits (p @ enc_int tag v @ r)"
  with assms(5) read_tag_enc_int [of t p v r name] read_int_enc [OF fits, of f] assms(1-4)
  show "field (p @ enc_int tag v @ r) (int (length p)) m
      = Ok (int (length p + length (enc_int tag v)), m')"
    by simp
qed

lemma reads_str:
  assumes "reads_one field (enc_len tag (bytes_of s)) m m'" and "s = [] \<Longrightarrow> m' = m"
  shows "reads field (enc_str tag s) m m'"
  using assms by (auto simp: enc_str_def intro: reads_single reads_Nil)

lemma reads_opt_int:
  assumes "reads_one field (enc_int tag v) m m'" and "v = 0 \<Longrightarrow> m' = m"
  shows "reads field (enc_opt_int tag v) m m'"
  using assms by (auto simp: enc_opt_int_def intro: reads_single reads_Nil)

section \<open>Embedded messages\<close>

text \<open>A field that always holds a message, one that is a pointer, and a repeated one.\<close>

definition put_opt_msg :: "byte \<Rightarrow> ('p \<Rightarrow> bytes \<Rightarrow> (bytes \<times> int) res) \<Rightarrow> 'p option
    \<Rightarrow> writer \<Rightarrow> writer res" where
  "put_opt_msg tag fill p = (case p of None \<Rightarrow> Ok | Some m \<Rightarrow> put_msg tag (fill m))"

fun put_msgs :: "byte \<Rightarrow> ('p \<Rightarrow> bytes \<Rightarrow> (bytes \<times> int) res) \<Rightarrow> 'p list
    \<Rightarrow> writer \<Rightarrow> writer res" where
  "put_msgs tag fill [] st = Ok st"
| "put_msgs tag fill (m # ms) st = bind_res (put_msgs tag fill ms st) (put_msg tag (fill m))"

definition size_opt_msg :: "('p \<Rightarrow> int) \<Rightarrow> 'p option \<Rightarrow> int" where
  "size_opt_msg msize p = (case p of None \<Rightarrow> 0 | Some m \<Rightarrow> size_len (msize m))"

fun size_msgs :: "('p \<Rightarrow> int) \<Rightarrow> 'p list \<Rightarrow> int" where
  "size_msgs msize [] = 0"
| "size_msgs msize (m # ms) = size_len (msize m) + size_msgs msize ms"

definition enc_opt_msg :: "byte \<Rightarrow> ('p \<Rightarrow> bytes) \<Rightarrow> 'p option \<Rightarrow> bytes" where
  "enc_opt_msg tag enc p = (case p of None \<Rightarrow> [] | Some m \<Rightarrow> enc_len tag (enc m))"

definition enc_msgs :: "byte \<Rightarrow> ('p \<Rightarrow> bytes) \<Rightarrow> 'p list \<Rightarrow> bytes" where
  "enc_msgs tag enc ms = concat (map (\<lambda>m. enc_len tag (enc m)) ms)"

lemma fits_enc_msgs: "fits (enc_msgs tag enc ms) \<Longrightarrow> m \<in> set ms \<Longrightarrow> fits (enc m)"
  by (induction ms) (auto simp: enc_msgs_def dest!: fits_appendD dest: fits_enc_len)

lemma writes_opt_msg:
  assumes "\<And>m. p = Some m \<Longrightarrow> fills (fill m) (enc m) \<and> fits (enc m)"
  shows "writes (put_opt_msg tag fill p) (enc_opt_msg tag enc p)"
  using assms by (auto simp: put_opt_msg_def enc_opt_msg_def writes_Nil writes_msg split: option.split)

lemma writes_msgs:
  assumes "\<And>m. m \<in> set ms \<Longrightarrow> fills (fill m) (enc m) \<and> fits (enc m)"
  shows "writes (put_msgs tag fill ms) (enc_msgs tag enc ms)"
  using assms
proof (induction ms)
  case Nil
  then show ?case by (simp add: enc_msgs_def writes_def prep_Nil)
next
  case (Cons m ms)
  then have "writes (\<lambda>st. bind_res (put_msgs tag fill ms st) (put_msg tag (fill m)))
      (enc_len tag (enc m) @ enc_msgs tag enc ms)"
    by (intro writes_bind writes_msg) auto
  then show ?case by (simp add: enc_msgs_def writes_def)
qed

lemma size_opt_msg_enc:
  assumes "\<And>m. p = Some m \<Longrightarrow> msize m = int (length (enc m))"
  shows "size_opt_msg msize p = int (length (enc_opt_msg tag enc p))"
  using assms by (auto simp: size_opt_msg_def enc_opt_msg_def size_len_enc [where tag = tag] split: option.split)

lemma size_msgs_enc:
  assumes "\<And>m. m \<in> set ms \<Longrightarrow> msize m = int (length (enc m))"
  shows "size_msgs msize ms = int (length (enc_msgs tag enc ms))"
  using assms by (induction ms) (auto simp: enc_msgs_def size_len_enc [where tag = tag])

lemma reads_opt_msg:
  assumes "\<And>q. p = Some q \<Longrightarrow> reads_one field (enc_len tag (enc q)) m m'" and "p = None \<Longrightarrow> m' = m"
  shows "reads field (enc_opt_msg tag enc p) m m'"
  using assms by (auto simp: enc_opt_msg_def intro: reads_single reads_Nil split: option.split)

text \<open>A repeated field appends its elements one after the other.\<close>

lemma reads_msgs:
  assumes "\<And>q qs. q \<in> set ms \<Longrightarrow> reads_one field (enc_len tag (enc q)) (st qs) (st (qs @ [q]))"
  shows "reads field (enc_msgs tag enc ms) (st qs) (st (qs @ ms))"
  using assms
proof (induction ms arbitrary: qs)
  case Nil
  then show ?case by (simp add: enc_msgs_def reads_Nil)
next
  case (Cons q ms)
  from reads_step [OF Cons.prems [of q qs] Cons.IH [of "qs @ [q]"]] Cons.prems
  show ?case by (simp add: enc_msgs_def)
qed

section \<open>Assembling a message's facts\<close>

text \<open>
  Every field decoder reads the tag and then, by the field's number, one of its parts. The
  rules \<open>part_ok\<close> take such a decoder apart, the rule \<open>message_codecI\<close> puts the contract
  of a message together.
\<close>

definition part_ok :: "bytes \<Rightarrow> int \<Rightarrow> (int \<times> 'm) res \<Rightarrow> bool" where
  "part_ok d i r \<longleftrightarrow> returns r \<and> (\<forall>j m. r = Ok (j, m) \<longrightarrow> i < j \<and> j \<le> glen d)"

named_theorems part_intros \<open>the parts of a field decoder\<close>

lemma part_if [part_intros]: "part_ok d i a \<Longrightarrow> part_ok d i b \<Longrightarrow> part_ok d i (if c then a else b)"
  by simp

lemma part_skip [part_intros]:
  "0 \<le> i \<Longrightarrow> i < glen d \<Longrightarrow> part_ok d i (bind_res (skip_unknown d i) (\<lambda>j. Ok (j, m)))"
  by (auto simp: part_ok_def res_simps intro!: returns_bind skip_unknown_returns
      dest: skip_unknown_progress)

lemma part_len [part_intros]:
  assumes "0 \<le> i" "i < j"
  shows "part_ok d i (bind_res (read_len f wt d j) (\<lambda>(s, k). Ok (k, g s)))"
  using assms
  by (auto simp: part_ok_def res_simps intro!: returns_bind read_len_returns dest: read_len_progress)

lemma part_int [part_intros]:
  assumes "0 \<le> i" "i < j"
  shows "part_ok d i (bind_res (read_int f wt d j) (\<lambda>(v, k). Ok (k, g v)))"
  using assms
  by (auto simp: part_ok_def res_simps intro!: returns_bind read_int_returns dest: read_int_progress)

lemma part_msg [part_intros]:
  assumes "\<And>s. returns (u s)" and "0 \<le> i" "i < j"
  shows "part_ok d i (bind_res (read_len f wt d j) (\<lambda>(s, k). bind_res (u s) (\<lambda>p. Ok (k, g p))))"
  using assms
  by (auto simp: part_ok_def res_simps intro!: returns_bind read_len_returns dest: read_len_progress)

lemma field_decoderI:
  assumes "\<And>d i m n wt j. 0 \<le> i \<Longrightarrow> i < glen d \<Longrightarrow> i < j \<Longrightarrow> part_ok d i (body d i m n wt j)"
  shows "field_decoder (\<lambda>d i m. bind_res (read_tag name d i) (\<lambda>(n, wt, j). body d i m n wt j))"
proof unfold_locales
  fix d :: bytes and i j and m m'
  assume i: "0 \<le> i" "i < glen d"
  have b: "part_ok d i (body d i m n wt j)" if "read_tag name d i = Ok (n, wt, j)" for n wt j
    using read_tag_progress [OF that] i by (intro assms) auto
  then show "returns (bind_res (read_tag name d i) (\<lambda>(n, wt, j). body d i m n wt j))"
    using i by (auto simp: part_ok_def intro!: returns_bind read_tag_returns)
  assume "bind_res (read_tag name d i) (\<lambda>(n, wt, j). body d i m n wt j) = Ok (j, m')"
  with b show "i < j \<and> j \<le> glen d" by (auto simp: part_ok_def res_simps)
qed

lemma message_codecI:
  assumes "field_decoder field"
    and "\<And>m. small m \<Longrightarrow> msize m = int (length (enc m))"
    and "\<And>m. small m \<Longrightarrow> fills (fill m) (enc m)"
    and "\<And>m. small m \<Longrightarrow> fits (enc m)"
    and "\<And>m. small m \<Longrightarrow> reads field (enc m) z m"
  shows "message_codec (\<lambda>m. marshal_sized (msize m) (fill m)) msize (unmarshal_loop field) enc z small"
  using assms
  by unfold_locales
    (auto intro: marshal_sized_enc field_decoder.unmarshal_loop_reads field_decoder.unmarshal_loop_returns)

section \<open>Messages without fields\<close>

text \<open>
  The decoder of a message that declares no field: every field is unknown to it. A value of
  such a message carries no information, and its encoding is empty.
\<close>

definition empty_field :: "string \<Rightarrow> 'm field_reader" where
  "empty_field name d i m =
     bind_res (read_tag name d i) (\<lambda>_. bind_res (skip_unknown d i) (\<lambda>j. Ok (j, m)))"

lemma field_decoder_empty: "field_decoder (empty_field name)"
proof unfold_locales
  fix d :: bytes and i j and m m' :: 'a
  assume i: "0 \<le> i" "i < glen d"
  show "returns (empty_field name d i m)"
    unfolding empty_field_def by (auto intro!: returns_bind part_returns i)
  assume "empty_field name d i m = Ok (j, m')"
  then show "i < j \<and> j \<le> glen d"
    using i by (auto simp: empty_field_def res_simps dest: skip_unknown_progress)
qed

lemma sized_buffer_Ok: "sized_buffer Ok d = Ok (d, 0)"
  by (simp add: sized_buffer_def)

lemma unmarshal_loop_Nil: "unmarshal_loop field [] m = Ok m"
  by (simp add: unmarshal_loop_def glen_def int64_def)

lemma message_codec_empty:
  assumes "\<And>m. m = (u :: 'm)"
  shows "message_codec (\<lambda>m :: 'm. marshal_sized 0 (sized_buffer Ok)) (\<lambda>m. 0)
    (unmarshal_loop (empty_field name)) (\<lambda>m. []) u (\<lambda>m. True)"
proof -
  note e = field_decoder.unmarshal_loop_returns [OF field_decoder_empty]
  show ?thesis
  proof unfold_locales
    fix m :: 'm and d
    show "marshal_sized 0 (sized_buffer Ok) = Ok []"
      by (simp add: marshal_sized_def sized_buffer_Ok subslice_def)
    show "unmarshal_loop (empty_field name) [] u = Ok m"
      using assms [of m] by (simp add: unmarshal_loop_Nil)
    show "returns (unmarshal_loop (empty_field name) d m)" by (rule e)
  qed simp
qed

end
