(* ===== verification/IdentityPb.thy ===== *)
theory IdentityPb
  imports Decoder
begin

text \<open>
  \<open>x/identity/types/identity.pb.go\<close> and \<open>params.pb.go\<close>: the stored messages \<open>Identity\<close> and
  \<open>Params\<close>, their \<open>Size\<close>, \<open>Marshal\<close> and \<open>Unmarshal\<close>. Both satisfy the contract
  \<open>message_codec\<close> of generated messages.
\<close>

section \<open>Identity\<close>

record Identity =
  Address :: string
  IdHash :: string
  CreatedAt :: u64 \<comment> \<open>an \<open>int64\<close>: read with \<open>sint\<close>\<close>

definition zero_Identity :: Identity where
  "zero_Identity = \<lparr>Address = [], IdHash = [], CreatedAt = 0\<rparr>"

definition Identity_Size :: "Identity \<Rightarrow> int" where
  "Identity_Size m = size_str (Address m) + size_str (IdHash m) + size_opt_int (CreatedAt m)"

definition Identity_MarshalToSizedBuffer :: "Identity \<Rightarrow> bytes \<Rightarrow> (bytes \<times> int) res" where
  "Identity_MarshalToSizedBuffer m = sized_buffer (\<lambda>st.
     bind_res (put_opt_int 0x18 (CreatedAt m) st) (\<lambda>st.
     bind_res (put_str 0x12 (IdHash m) st)
       (put_str 0xa (Address m))))"

definition Identity_MarshalTo :: "Identity \<Rightarrow> bytes \<Rightarrow> (bytes \<times> int) res" where
  "Identity_MarshalTo m = marshal_to (Identity_Size m) (Identity_MarshalToSizedBuffer m)"

definition Identity_Marshal :: "Identity \<Rightarrow> bytes res" where
  "Identity_Marshal m = marshal_sized (Identity_Size m) (Identity_MarshalToSizedBuffer m)"

definition Identity_field :: "Identity field_reader" where
  "Identity_field d i m =
     bind_res (read_tag ''Identity'' d i) (\<lambda>(fieldNum, wireType, j).
       if fieldNum = 1 then bind_res (read_len ''Address'' wireType d j)
         (\<lambda>(s, j). Ok (j, m\<lparr>Address := string_of s\<rparr>))
       else if fieldNum = 2 then bind_res (read_len ''IdHash'' wireType d j)
         (\<lambda>(s, j). Ok (j, m\<lparr>IdHash := string_of s\<rparr>))
       else if fieldNum = 3 then bind_res (read_int ''CreatedAt'' wireType d j)
         (\<lambda>(v, j). Ok (j, m\<lparr>CreatedAt := v\<rparr>))
       else bind_res (skip_unknown d i) (\<lambda>j. Ok (j, m)))"

definition Identity_Unmarshal :: "bytes \<Rightarrow> Identity \<Rightarrow> Identity res" where
  "Identity_Unmarshal = unmarshal_loop Identity_field"

text \<open>The encoding, first byte first.\<close>

definition enc_Identity :: "Identity \<Rightarrow> bytes" where
  "enc_Identity m = enc_str 0xa (Address m) @ enc_str 0x12 (IdHash m) @ enc_opt_int 0x18 (CreatedAt m)"

definition small_Identity :: "Identity \<Rightarrow> bool" where
  "small_Identity m \<longleftrightarrow> fits (enc_Identity m)"

lemma small_IdentityD:
  "small_Identity m \<Longrightarrow> fits (Address m) \<and> fits (IdHash m)"
  by (auto simp: small_Identity_def enc_Identity_def dest!: fits_appendD dest: fits_enc_str)

lemma small_IdentityI:
  assumes "length (Address m) + length (IdHash m) < 2 ^ 62"
  shows "small_Identity m"
proof -
  have "length (enc_Identity m) \<le> length (Address m) + length (IdHash m) + 33"
    using length_enc_str_le [of "0xa" "Address m"] length_enc_str_le [of "0x12" "IdHash m"]
      length_enc_opt_int_le [of "0x18" "CreatedAt m"]
    unfolding enc_Identity_def length_append by linarith
  also have "\<dots> < 2 ^ 62 + 33" using assms by linarith
  also have "\<dots> \<le> 2 ^ 63" by simp
  finally show ?thesis unfolding small_Identity_def fits_def .
qed

lemma Identity_Size_enc: "small_Identity m \<Longrightarrow> Identity_Size m = int (length (enc_Identity m))"
  using size_str_enc [of "Address m" "0xa"] size_str_enc [of "IdHash m" "0x12"]
    size_opt_int_enc [of "CreatedAt m" "0x18"]
  by (auto simp: Identity_Size_def enc_Identity_def dest: small_IdentityD)

lemma Identity_fills: "small_Identity m \<Longrightarrow> fills (Identity_MarshalToSizedBuffer m) (enc_Identity m)"
proof -
  assume "small_Identity m"
  from small_IdentityD [OF this] have f: "fits (Address m)" "fits (IdHash m)" by auto
  show ?thesis
    unfolding Identity_MarshalToSizedBuffer_def enc_Identity_def append_assoc [symmetric]
    by (intro fills_writes writes_bind writes_str writes_opt_int f)
qed

interpretation identity_field: field_decoder Identity_field
  unfolding Identity_field_def [abs_def] by (rule field_decoderI) (intro part_intros; simp)

lemma Identity_reads:
  "reads Identity_field (enc_Identity m) zero_Identity m"
proof -
  have a: "reads Identity_field (enc_str 0xa (Address m)) zero_Identity
      (zero_Identity\<lparr>Address := Address m\<rparr>)"
    by (intro reads_str reads_one_len [where t = "0xa" and name = "''Identity''" and f = "''Address''"])
      (simp_all add: Identity_field_def zero_Identity_def)
  have h: "reads Identity_field (enc_str 0x12 (IdHash m)) (zero_Identity\<lparr>Address := Address m\<rparr>)
      (zero_Identity\<lparr>Address := Address m, IdHash := IdHash m\<rparr>)"
    by (intro reads_str reads_one_len [where t = "0x12" and name = "''Identity''" and f = "''IdHash''"])
      (simp_all add: Identity_field_def zero_Identity_def)
  have "reads Identity_field (enc_opt_int 0x18 (CreatedAt m))
      (zero_Identity\<lparr>Address := Address m, IdHash := IdHash m\<rparr>)
      (zero_Identity\<lparr>Address := Address m, IdHash := IdHash m, CreatedAt := CreatedAt m\<rparr>)"
    by (intro reads_opt_int reads_one_int [where t = "0x18" and name = "''Identity''" and f = "''CreatedAt''"])
      (simp_all add: Identity_field_def zero_Identity_def)
  also have "zero_Identity\<lparr>Address := Address m, IdHash := IdHash m, CreatedAt := CreatedAt m\<rparr> = m"
    by (cases m) (simp add: zero_Identity_def)
  finally show ?thesis
    unfolding enc_Identity_def by (intro reads_append [OF a] reads_append [OF h])
qed

interpretation identity_codec: message_codec Identity_Marshal Identity_Size Identity_Unmarshal
  enc_Identity zero_Identity small_Identity
  unfolding Identity_Marshal_def [abs_def] Identity_Unmarshal_def
  by (intro message_codecI identity_field.field_decoder_axioms Identity_Size_enc Identity_fills
      Identity_reads) (simp_all add: small_Identity_def)

section \<open>Params\<close>

text \<open>The module has no parameters: the message has no field.\<close>

datatype Params = Params

definition Params_Size :: "Params \<Rightarrow> int" where
  "Params_Size m = 0"

definition Params_MarshalToSizedBuffer :: "Params \<Rightarrow> bytes \<Rightarrow> (bytes \<times> int) res" where
  "Params_MarshalToSizedBuffer m = sized_buffer Ok"

definition Params_MarshalTo :: "Params \<Rightarrow> bytes \<Rightarrow> (bytes \<times> int) res" where
  "Params_MarshalTo m = marshal_to (Params_Size m) (Params_MarshalToSizedBuffer m)"

definition Params_Marshal :: "Params \<Rightarrow> bytes res" where
  "Params_Marshal m = marshal_sized (Params_Size m) (Params_MarshalToSizedBuffer m)"

definition Params_Unmarshal :: "bytes \<Rightarrow> Params \<Rightarrow> Params res" where
  "Params_Unmarshal = unmarshal_loop (empty_field ''Params'')"

text \<open>
  \<open>Equal\<close> compares a pointer with an interface value, which holds nothing, a pointer to
  \<open>Params\<close>, a \<open>Params\<close> or a value of another type.
\<close>

datatype params_iface = NilInterface | ParamsPtr "Params option" | ParamsVal Params | OtherType

fun Params_Equal :: "Params option \<Rightarrow> params_iface \<Rightarrow> bool" where
  "Params_Equal this NilInterface = (this = None)"
| "Params_Equal this OtherType = False"
| "Params_Equal this (ParamsPtr None) = (this = None)"
| "Params_Equal this (ParamsPtr (Some that1)) = (this \<noteq> None)"
| "Params_Equal this (ParamsVal that2) = (this \<noteq> None)"

definition enc_Params :: "Params \<Rightarrow> bytes" where
  "enc_Params m = []"

lemma Params_all: "(m :: Params) = Params"
  by (cases m) simp

interpretation params_codec: message_codec Params_Marshal Params_Size Params_Unmarshal
  enc_Params Params "\<lambda>m. True"
  using message_codec_empty [where name = "''Params''", OF Params_all]
  by (simp add: Params_Marshal_def [abs_def] Params_Size_def [abs_def]
      Params_MarshalToSizedBuffer_def Params_Unmarshal_def enc_Params_def [abs_def])

lemma Params_fills: "fills (Params_MarshalToSizedBuffer m) (enc_Params m)"
  by (simp add: Params_MarshalToSizedBuffer_def enc_Params_def fills_def sized_buffer_Ok)

lemma fits_enc_Params: "fits (enc_Params m)"
  by (simp add: enc_Params_def fits_def)

end
