(* ===== verification/TxPb.thy ===== *)
theory TxPb
  imports IdentityPb
begin

text \<open>
  \<open>x/identity/types/tx.pb.go\<close>: the messages of the module's \<open>Msg\<close> service. The copies of
  the wire helpers in this file (\<open>sovTx\<close>, \<open>sozTx\<close>, \<open>encodeVarintTx\<close>, \<open>skipTx\<close>) are the same
  code as in \<open>identity.pb.go\<close>.
\<close>

definition sovTx :: "u64 \<Rightarrow> int" where "sovTx = sov"
definition sozTx :: "u64 \<Rightarrow> int" where "sozTx x = sovTx (push_bit 1 x XOR signed_drop_bit 63 x)"
definition encodeVarintTx :: "bytes \<Rightarrow> int \<Rightarrow> u64 \<Rightarrow> writer res" where "encodeVarintTx = encodeVarint"
definition skipTx :: "bytes \<Rightarrow> int res" where "skipTx = skip_field"

section \<open>MsgCreateIdentity\<close>

record MsgCreateIdentity =
  Creator :: string
  CccdId :: string

definition zero_MsgCreateIdentity :: MsgCreateIdentity where
  "zero_MsgCreateIdentity = \<lparr>Creator = [], CccdId = []\<rparr>"

definition MsgCreateIdentity_Size :: "MsgCreateIdentity \<Rightarrow> int" where
  "MsgCreateIdentity_Size m = size_str (Creator m) + size_str (CccdId m)"

definition MsgCreateIdentity_MarshalToSizedBuffer :: "MsgCreateIdentity \<Rightarrow> bytes \<Rightarrow> (bytes \<times> int) res" where
  "MsgCreateIdentity_MarshalToSizedBuffer m = sized_buffer (\<lambda>st.
     bind_res (put_str 0x12 (CccdId m) st)
       (put_str 0xa (Creator m)))"

definition MsgCreateIdentity_MarshalTo :: "MsgCreateIdentity \<Rightarrow> bytes \<Rightarrow> (bytes \<times> int) res" where
  "MsgCreateIdentity_MarshalTo m =
     marshal_to (MsgCreateIdentity_Size m) (MsgCreateIdentity_MarshalToSizedBuffer m)"

definition MsgCreateIdentity_Marshal :: "MsgCreateIdentity \<Rightarrow> bytes res" where
  "MsgCreateIdentity_Marshal m =
     marshal_sized (MsgCreateIdentity_Size m) (MsgCreateIdentity_MarshalToSizedBuffer m)"

definition MsgCreateIdentity_field :: "MsgCreateIdentity field_reader" where
  "MsgCreateIdentity_field d i m =
     bind_res (read_tag ''MsgCreateIdentity'' d i) (\<lambda>(fieldNum, wireType, j).
       if fieldNum = 1 then bind_res (read_len ''Creator'' wireType d j)
         (\<lambda>(s, j). Ok (j, m\<lparr>Creator := string_of s\<rparr>))
       else if fieldNum = 2 then bind_res (read_len ''CccdId'' wireType d j)
         (\<lambda>(s, j). Ok (j, m\<lparr>CccdId := string_of s\<rparr>))
       else bind_res (skip_unknown d i) (\<lambda>j. Ok (j, m)))"

definition MsgCreateIdentity_Unmarshal :: "bytes \<Rightarrow> MsgCreateIdentity \<Rightarrow> MsgCreateIdentity res" where
  "MsgCreateIdentity_Unmarshal = unmarshal_loop MsgCreateIdentity_field"

definition enc_MsgCreateIdentity :: "MsgCreateIdentity \<Rightarrow> bytes" where
  "enc_MsgCreateIdentity m = enc_str 0xa (Creator m) @ enc_str 0x12 (CccdId m)"

definition small_MsgCreateIdentity :: "MsgCreateIdentity \<Rightarrow> bool" where
  "small_MsgCreateIdentity m \<longleftrightarrow> fits (enc_MsgCreateIdentity m)"

lemma small_MsgCreateIdentityD:
  "small_MsgCreateIdentity m \<Longrightarrow> fits (Creator m) \<and> fits (CccdId m)"
  by (auto simp: small_MsgCreateIdentity_def enc_MsgCreateIdentity_def dest!: fits_appendD
      dest: fits_enc_str)

lemma MsgCreateIdentity_Size_enc:
  "small_MsgCreateIdentity m \<Longrightarrow> MsgCreateIdentity_Size m = int (length (enc_MsgCreateIdentity m))"
  using size_str_enc [of "Creator m" "0xa"] size_str_enc [of "CccdId m" "0x12"]
  by (auto simp: MsgCreateIdentity_Size_def enc_MsgCreateIdentity_def dest: small_MsgCreateIdentityD)

lemma MsgCreateIdentity_fills:
  "small_MsgCreateIdentity m
     \<Longrightarrow> fills (MsgCreateIdentity_MarshalToSizedBuffer m) (enc_MsgCreateIdentity m)"
  unfolding MsgCreateIdentity_MarshalToSizedBuffer_def enc_MsgCreateIdentity_def
  by (drule small_MsgCreateIdentityD) (intro fills_writes writes_bind writes_str; blast)

interpretation MsgCreateIdentity_field: field_decoder MsgCreateIdentity_field
  unfolding MsgCreateIdentity_field_def [abs_def] by (rule field_decoderI) (intro part_intros; simp)

lemma MsgCreateIdentity_reads:
  "reads MsgCreateIdentity_field (enc_MsgCreateIdentity m) zero_MsgCreateIdentity m"
proof -
  have c: "reads MsgCreateIdentity_field (enc_str 0xa (Creator m)) zero_MsgCreateIdentity
      (zero_MsgCreateIdentity\<lparr>Creator := Creator m\<rparr>)"
    by (intro reads_str
        reads_one_len [where t = "0xa" and name = "''MsgCreateIdentity''" and f = "''Creator''"])
      (simp_all add: MsgCreateIdentity_field_def zero_MsgCreateIdentity_def)
  have "reads MsgCreateIdentity_field (enc_str 0x12 (CccdId m))
      (zero_MsgCreateIdentity\<lparr>Creator := Creator m\<rparr>)
      (zero_MsgCreateIdentity\<lparr>Creator := Creator m, CccdId := CccdId m\<rparr>)"
    by (intro reads_str
        reads_one_len [where t = "0x12" and name = "''MsgCreateIdentity''" and f = "''CccdId''"])
      (simp_all add: MsgCreateIdentity_field_def zero_MsgCreateIdentity_def)
  also have "zero_MsgCreateIdentity\<lparr>Creator := Creator m, CccdId := CccdId m\<rparr> = m"
    by (cases m) (simp add: zero_MsgCreateIdentity_def)
  finally show ?thesis unfolding enc_MsgCreateIdentity_def by (intro reads_append [OF c])
qed

interpretation MsgCreateIdentity_codec: message_codec MsgCreateIdentity_Marshal
  MsgCreateIdentity_Size MsgCreateIdentity_Unmarshal enc_MsgCreateIdentity zero_MsgCreateIdentity
  small_MsgCreateIdentity
  unfolding MsgCreateIdentity_Marshal_def [abs_def] MsgCreateIdentity_Unmarshal_def
  by (intro message_codecI MsgCreateIdentity_field.field_decoder_axioms MsgCreateIdentity_Size_enc
      MsgCreateIdentity_fills MsgCreateIdentity_reads) (simp_all add: small_MsgCreateIdentity_def)

section \<open>MsgUpdateParams\<close>

text \<open>The embedded \<open>Params\<close> is always written, although its own encoding is empty.\<close>

record MsgUpdateParams =
  Authority :: string
  MsgParams :: Params

definition zero_MsgUpdateParams :: MsgUpdateParams where
  "zero_MsgUpdateParams = \<lparr>Authority = [], MsgParams = Params\<rparr>"

definition MsgUpdateParams_Size :: "MsgUpdateParams \<Rightarrow> int" where
  "MsgUpdateParams_Size m = size_str (Authority m) + size_len (Params_Size (MsgParams m))"

definition MsgUpdateParams_MarshalToSizedBuffer :: "MsgUpdateParams \<Rightarrow> bytes \<Rightarrow> (bytes \<times> int) res" where
  "MsgUpdateParams_MarshalToSizedBuffer m = sized_buffer (\<lambda>st.
     bind_res (put_msg 0x12 (Params_MarshalToSizedBuffer (MsgParams m)) st)
       (put_str 0xa (Authority m)))"

definition MsgUpdateParams_MarshalTo :: "MsgUpdateParams \<Rightarrow> bytes \<Rightarrow> (bytes \<times> int) res" where
  "MsgUpdateParams_MarshalTo m =
     marshal_to (MsgUpdateParams_Size m) (MsgUpdateParams_MarshalToSizedBuffer m)"

definition MsgUpdateParams_Marshal :: "MsgUpdateParams \<Rightarrow> bytes res" where
  "MsgUpdateParams_Marshal m =
     marshal_sized (MsgUpdateParams_Size m) (MsgUpdateParams_MarshalToSizedBuffer m)"

definition MsgUpdateParams_field :: "MsgUpdateParams field_reader" where
  "MsgUpdateParams_field d i m =
     bind_res (read_tag ''MsgUpdateParams'' d i) (\<lambda>(fieldNum, wireType, j).
       if fieldNum = 1 then bind_res (read_len ''Authority'' wireType d j)
         (\<lambda>(s, j). Ok (j, m\<lparr>Authority := string_of s\<rparr>))
       else if fieldNum = 2 then bind_res (read_len ''Params'' wireType d j)
         (\<lambda>(s, j). bind_res (Params_Unmarshal s (MsgParams m)) (\<lambda>p. Ok (j, m\<lparr>MsgParams := p\<rparr>)))
       else bind_res (skip_unknown d i) (\<lambda>j. Ok (j, m)))"

definition MsgUpdateParams_Unmarshal :: "bytes \<Rightarrow> MsgUpdateParams \<Rightarrow> MsgUpdateParams res" where
  "MsgUpdateParams_Unmarshal = unmarshal_loop MsgUpdateParams_field"

definition enc_MsgUpdateParams :: "MsgUpdateParams \<Rightarrow> bytes" where
  "enc_MsgUpdateParams m = enc_str 0xa (Authority m) @ enc_len 0x12 (enc_Params (MsgParams m))"

definition small_MsgUpdateParams :: "MsgUpdateParams \<Rightarrow> bool" where
  "small_MsgUpdateParams m \<longleftrightarrow> fits (enc_MsgUpdateParams m)"

lemma small_MsgUpdateParamsD: "small_MsgUpdateParams m \<Longrightarrow> fits (Authority m)"
  by (auto simp: small_MsgUpdateParams_def enc_MsgUpdateParams_def dest!: fits_appendD
      dest: fits_enc_str)

lemma MsgUpdateParams_Size_enc:
  "small_MsgUpdateParams m \<Longrightarrow> MsgUpdateParams_Size m = int (length (enc_MsgUpdateParams m))"
  using size_str_enc [of "Authority m" "0xa"] size_len_enc [of "enc_Params (MsgParams m)" "0x12"]
  by (auto simp: MsgUpdateParams_Size_def enc_MsgUpdateParams_def Params_Size_def enc_Params_def
      dest: small_MsgUpdateParamsD)

lemma MsgUpdateParams_fills:
  "small_MsgUpdateParams m \<Longrightarrow> fills (MsgUpdateParams_MarshalToSizedBuffer m) (enc_MsgUpdateParams m)"
  unfolding MsgUpdateParams_MarshalToSizedBuffer_def enc_MsgUpdateParams_def
  by (drule small_MsgUpdateParamsD)
    (intro fills_writes writes_bind writes_str writes_msg Params_fills fits_enc_Params; blast)

interpretation MsgUpdateParams_field: field_decoder MsgUpdateParams_field
  unfolding MsgUpdateParams_field_def [abs_def]
  by (rule field_decoderI) (intro part_intros params_codec.unmarshal_total; simp)

lemma MsgUpdateParams_reads:
  "reads MsgUpdateParams_field (enc_MsgUpdateParams m) zero_MsgUpdateParams m"
proof -
  have a: "reads MsgUpdateParams_field (enc_str 0xa (Authority m)) zero_MsgUpdateParams
      (zero_MsgUpdateParams\<lparr>Authority := Authority m\<rparr>)"
    by (intro reads_str
        reads_one_len [where t = "0xa" and name = "''MsgUpdateParams''" and f = "''Authority''"])
      (simp_all add: MsgUpdateParams_field_def zero_MsgUpdateParams_def)
  have "reads MsgUpdateParams_field (enc_len 0x12 (enc_Params (MsgParams m)))
      (zero_MsgUpdateParams\<lparr>Authority := Authority m\<rparr>)
      (zero_MsgUpdateParams\<lparr>Authority := Authority m, MsgParams := MsgParams m\<rparr>)"
    by (intro reads_single
        reads_one_len [where t = "0x12" and name = "''MsgUpdateParams''" and f = "''Params''"])
      (simp_all add: MsgUpdateParams_field_def zero_MsgUpdateParams_def params_codec.unmarshal_enc)
  also have "zero_MsgUpdateParams\<lparr>Authority := Authority m, MsgParams := MsgParams m\<rparr> = m"
    by (cases m) (simp add: zero_MsgUpdateParams_def)
  finally show ?thesis unfolding enc_MsgUpdateParams_def by (intro reads_append [OF a])
qed

interpretation MsgUpdateParams_codec: message_codec MsgUpdateParams_Marshal MsgUpdateParams_Size
  MsgUpdateParams_Unmarshal enc_MsgUpdateParams zero_MsgUpdateParams small_MsgUpdateParams
  unfolding MsgUpdateParams_Marshal_def [abs_def] MsgUpdateParams_Unmarshal_def
  by (intro message_codecI MsgUpdateParams_field.field_decoder_axioms MsgUpdateParams_Size_enc
      MsgUpdateParams_fills MsgUpdateParams_reads) (simp_all add: small_MsgUpdateParams_def)

section \<open>The responses\<close>

datatype MsgUpdateParamsResponse = MsgUpdateParamsResponse

definition MsgUpdateParamsResponse_Size :: "MsgUpdateParamsResponse \<Rightarrow> int" where
  "MsgUpdateParamsResponse_Size m = 0"

definition MsgUpdateParamsResponse_MarshalToSizedBuffer :: "MsgUpdateParamsResponse \<Rightarrow> bytes \<Rightarrow> (bytes \<times> int) res" where
  "MsgUpdateParamsResponse_MarshalToSizedBuffer m = sized_buffer Ok"

definition MsgUpdateParamsResponse_MarshalTo :: "MsgUpdateParamsResponse \<Rightarrow> bytes \<Rightarrow> (bytes \<times> int) res" where
  "MsgUpdateParamsResponse_MarshalTo m = marshal_to (MsgUpdateParamsResponse_Size m) (MsgUpdateParamsResponse_MarshalToSizedBuffer m)"

definition MsgUpdateParamsResponse_Marshal :: "MsgUpdateParamsResponse \<Rightarrow> bytes res" where
  "MsgUpdateParamsResponse_Marshal m = marshal_sized (MsgUpdateParamsResponse_Size m) (MsgUpdateParamsResponse_MarshalToSizedBuffer m)"

definition MsgUpdateParamsResponse_Unmarshal :: "bytes \<Rightarrow> MsgUpdateParamsResponse \<Rightarrow> MsgUpdateParamsResponse res" where
  "MsgUpdateParamsResponse_Unmarshal = unmarshal_loop (empty_field ''MsgUpdateParamsResponse'')"

lemma MsgUpdateParamsResponse_all: "(m :: MsgUpdateParamsResponse) = MsgUpdateParamsResponse"
  by (cases m) simp

interpretation MsgUpdateParamsResponse_codec: message_codec MsgUpdateParamsResponse_Marshal MsgUpdateParamsResponse_Size MsgUpdateParamsResponse_Unmarshal
  "\<lambda>m. []" MsgUpdateParamsResponse "\<lambda>m. True"
  using message_codec_empty [where name = "''MsgUpdateParamsResponse''", OF MsgUpdateParamsResponse_all]
  by (simp add: MsgUpdateParamsResponse_Marshal_def [abs_def] MsgUpdateParamsResponse_Size_def [abs_def]
      MsgUpdateParamsResponse_MarshalToSizedBuffer_def MsgUpdateParamsResponse_Unmarshal_def)

datatype MsgCreateIdentityResponse = MsgCreateIdentityResponse

definition MsgCreateIdentityResponse_Size :: "MsgCreateIdentityResponse \<Rightarrow> int" where
  "MsgCreateIdentityResponse_Size m = 0"

definition MsgCreateIdentityResponse_MarshalToSizedBuffer :: "MsgCreateIdentityResponse \<Rightarrow> bytes \<Rightarrow> (bytes \<times> int) res" where
  "MsgCreateIdentityResponse_MarshalToSizedBuffer m = sized_buffer Ok"

definition MsgCreateIdentityResponse_MarshalTo :: "MsgCreateIdentityResponse \<Rightarrow> bytes \<Rightarrow> (bytes \<times> int) res" where
  "MsgCreateIdentityResponse_MarshalTo m = marshal_to (MsgCreateIdentityResponse_Size m) (MsgCreateIdentityResponse_MarshalToSizedBuffer m)"

definition MsgCreateIdentityResponse_Marshal :: "MsgCreateIdentityResponse \<Rightarrow> bytes res" where
  "MsgCreateIdentityResponse_Marshal m = marshal_sized (MsgCreateIdentityResponse_Size m) (MsgCreateIdentityResponse_MarshalToSizedBuffer m)"

definition MsgCreateIdentityResponse_Unmarshal :: "bytes \<Rightarrow> MsgCreateIdentityResponse \<Rightarrow> MsgCreateIdentityResponse res" where
  "MsgCreateIdentityResponse_Unmarshal = unmarshal_loop (empty_field ''MsgCreateIdentityResponse'')"

lemma MsgCreateIdentityResponse_all: "(m :: MsgCreateIdentityResponse) = MsgCreateIdentityResponse"
  by (cases m) simp

interpretation MsgCreateIdentityResponse_codec: message_codec MsgCreateIdentityResponse_Marshal MsgCreateIdentityResponse_Size MsgCreateIdentityResponse_Unmarshal
  "\<lambda>m. []" MsgCreateIdentityResponse "\<lambda>m. True"
  using message_codec_empty [where name = "''MsgCreateIdentityResponse''", OF MsgCreateIdentityResponse_all]
  by (simp add: MsgCreateIdentityResponse_Marshal_def [abs_def] MsgCreateIdentityResponse_Size_def [abs_def]
      MsgCreateIdentityResponse_MarshalToSizedBuffer_def MsgCreateIdentityResponse_Unmarshal_def)

end
