(* ===== verification/GenesisPb.thy ===== *)
theory GenesisPb
  imports IdentityPb
begin

text \<open>
  \<open>x/identity/types/genesis.pb.go\<close>: the module's genesis state, an embedded \<open>Params\<close> and a
  repeated \<open>Identity\<close>, with its own copies of the wire helpers.
\<close>

definition sovGenesis :: "u64 \<Rightarrow> int" where "sovGenesis = sov"
definition sozGenesis :: "u64 \<Rightarrow> int" where "sozGenesis x = sovGenesis (push_bit 1 x XOR
    signed_drop_bit 63 x)"
definition encodeVarintGenesis :: "bytes \<Rightarrow> int \<Rightarrow> u64 \<Rightarrow> writer res" where
    "encodeVarintGenesis = encodeVarint"
definition skipGenesis :: "bytes \<Rightarrow> int res" where "skipGenesis = skip_field"

section \<open>GenesisState\<close>

record GenesisState =
  GenesisParams :: Params
  IdentityList :: "Identity list"

definition zero_GenesisState :: GenesisState where
  "zero_GenesisState = \<lparr>GenesisParams = Params, IdentityList = []\<rparr>"

definition GenesisState_Size :: "GenesisState \<Rightarrow> int" where
  "GenesisState_Size m = size_len (Params_Size (GenesisParams m)) + size_msgs Identity_Size
      (IdentityList m)"

definition GenesisState_MarshalToSizedBuffer ::
    "GenesisState \<Rightarrow> bytes \<Rightarrow> (bytes \<times> int) res" where
  "GenesisState_MarshalToSizedBuffer m = sized_buffer (\<lambda>st.
     bind_res (put_msgs 0x12 Identity_MarshalToSizedBuffer (IdentityList m) st)
       (put_msg 0xa (Params_MarshalToSizedBuffer (GenesisParams m))))"

definition GenesisState_MarshalTo ::
    "GenesisState \<Rightarrow> bytes \<Rightarrow> (bytes \<times> int) res" where
  "GenesisState_MarshalTo m =
     marshal_to (GenesisState_Size m) (GenesisState_MarshalToSizedBuffer m)"

definition GenesisState_Marshal :: "GenesisState \<Rightarrow> bytes res" where
  "GenesisState_Marshal m =
     marshal_sized (GenesisState_Size m) (GenesisState_MarshalToSizedBuffer m)"

definition GenesisState_field :: "GenesisState field_reader" where
  "GenesisState_field d i m =
     bind_res (read_tag ''GenesisState'' d i) (\<lambda>(fieldNum, wireType, j).
       if fieldNum = 1 then bind_res (read_len ''Params'' wireType d j)
         (\<lambda>(s, j). bind_res (Params_Unmarshal s (GenesisParams m)) (\<lambda>p. Ok
             (j, m\<lparr>GenesisParams := p\<rparr>)))
       else if fieldNum = 2 then bind_res (read_len ''IdentityList'' wireType d j)
         (\<lambda>(s, j). bind_res (Identity_Unmarshal s zero_Identity)
           (\<lambda>p. Ok (j, m\<lparr>IdentityList := IdentityList m @ [p]\<rparr>)))
       else bind_res (skip_unknown d i) (\<lambda>j. Ok (j, m)))"

definition GenesisState_Unmarshal :: "bytes \<Rightarrow> GenesisState \<Rightarrow> GenesisState res" where
  "GenesisState_Unmarshal = unmarshal_loop GenesisState_field"

definition enc_GenesisState :: "GenesisState \<Rightarrow> bytes" where
  "enc_GenesisState m = enc_len 0xa (enc_Params (GenesisParams m)) @ enc_msgs 0x12 enc_Identity
      (IdentityList m)"

definition small_GenesisState :: "GenesisState \<Rightarrow> bool" where
  "small_GenesisState m \<longleftrightarrow> fits (enc_GenesisState m)"

lemma small_GenesisStateD:
  "small_GenesisState m \<Longrightarrow> (\<forall>q \<in> set (IdentityList m). small_Identity q)"
  by (auto simp: small_GenesisState_def enc_GenesisState_def small_Identity_def dest!: fits_appendD
      dest: fits_enc_str fits_enc_msgs fits_enc_len)

lemma GenesisState_Size_enc:
  "small_GenesisState m \<Longrightarrow> GenesisState_Size m = int (length (enc_GenesisState m))"
  using size_len_enc [of "enc_Params (GenesisParams m)" "0xa"]
    size_msgs_enc [of "IdentityList m" Identity_Size enc_Identity "0x12"]
  by (auto simp: GenesisState_Size_def enc_GenesisState_def Params_Size_def
      enc_Params_def Identity_Size_enc
      dest: small_GenesisStateD)

lemma GenesisState_fills:
  "small_GenesisState m
     \<Longrightarrow> fills (GenesisState_MarshalToSizedBuffer m) (enc_GenesisState m)"
  unfolding GenesisState_MarshalToSizedBuffer_def enc_GenesisState_def
  by (drule small_GenesisStateD) (intro fills_writes writes_bind writes_msg Params_fills
      fits_enc_Params writes_msgs; blast intro: conjI Identity_fills
          small_Identity_def [THEN iffD1])

interpretation GenesisState_field: field_decoder GenesisState_field
  unfolding GenesisState_field_def [abs_def]
  by (rule field_decoderI) (intro
      part_intros params_codec.unmarshal_total identity_codec.unmarshal_total; simp)

lemma GenesisState_reads:
  assumes "small_GenesisState m"
  shows "reads GenesisState_field (enc_GenesisState m) zero_GenesisState m"
proof -
  note s = small_GenesisStateD [OF assms]
  have r0: "reads GenesisState_field (enc_len 0xa (enc_Params (GenesisParams m)))
      zero_GenesisState
      (zero_GenesisState\<lparr>GenesisParams := GenesisParams m\<rparr>)"
    by (intro reads_single
        reads_one_len [where t = "0xa" and name = "''GenesisState''" and f = "''Params''"])
      (simp_all add: GenesisState_field_def zero_GenesisState_def params_codec.unmarshal_enc)
  have "reads GenesisState_field (enc_msgs 0x12 enc_Identity (IdentityList m))
      (zero_GenesisState\<lparr>GenesisParams := GenesisParams m\<rparr>)
      (zero_GenesisState\<lparr>GenesisParams := GenesisParams m, IdentityList := IdentityList m\<rparr>)"
    using reads_msgs [of "IdentityList m" "GenesisState_field" "0x12" enc_Identity
        "\<lambda>qs. zero_GenesisState\<lparr>GenesisParams := GenesisParams m\<rparr>\<lparr>IdentityList := qs\<rparr>" "[]"] s
    by (simp add: zero_GenesisState_def, elim meta_mp)
      (intro reads_one_len [where t = "0x12" and name = "''GenesisState''" and f =
          "''IdentityList''"];
        simp add: GenesisState_field_def identity_codec.unmarshal_enc)
  also have "zero_GenesisState\<lparr>GenesisParams := GenesisParams m, IdentityList := IdentityList m\<rparr>
      = m"
    by (cases m) (simp add: zero_GenesisState_def)
  finally show ?thesis
    unfolding enc_GenesisState_def by (intro reads_append [OF r0])
qed

interpretation GenesisState_codec: message_codec GenesisState_Marshal GenesisState_Size
  GenesisState_Unmarshal enc_GenesisState zero_GenesisState small_GenesisState
  unfolding GenesisState_Marshal_def [abs_def] GenesisState_Unmarshal_def
  by (intro message_codecI GenesisState_field.field_decoder_axioms GenesisState_Size_enc
      GenesisState_fills GenesisState_reads) (simp_all add: small_GenesisState_def)

end
