(* ===== verification/QueryPb.thy ===== *)
theory QueryPb
  imports IdentityPb
begin

text \<open>
  \<open>x/identity/types/query.pb.go\<close>: the eight messages of the module's \<open>Query\<close> service.
  \<open>PageRequest\<close> and \<open>PageResponse\<close> are messages of the Cosmos SDK: their generated functions
  are the parameter \<open>pc\<close> of the definitions here, and what the code relies on (the contract
  of a generated message) is the locale \<open>embedded_codec\<close>, which the module's own \<open>Identity\<close>
  satisfies.
\<close>

definition sovQuery :: "u64 \<Rightarrow> int" where "sovQuery = sov"
definition sozQuery :: "u64 \<Rightarrow> int" where "sozQuery x = sovQuery (push_bit 1 x XOR
    signed_drop_bit 63 x)"
definition encodeVarintQuery :: "bytes \<Rightarrow> int \<Rightarrow> u64 \<Rightarrow> writer res" where
    "encodeVarintQuery = encodeVarint"
definition skipQuery :: "bytes \<Rightarrow> int res" where "skipQuery = skip_field"

section \<open>An embedded message of another package\<close>

record 'p msg_codec =
  mc_Size :: "'p \<Rightarrow> int"
  mc_Fill :: "'p \<Rightarrow> bytes \<Rightarrow> (bytes \<times> int) res" \<comment> \<open>\<open>MarshalToSizedBuffer\<close>\<close>
  mc_Unmarshal :: "bytes \<Rightarrow> 'p \<Rightarrow> 'p res"
  mc_zero :: 'p

locale embedded_codec =
  fixes pc :: "'p msg_codec" and penc :: "'p \<Rightarrow> bytes" and psmall :: "'p \<Rightarrow> bool"
  assumes embedded_size: "psmall p \<Longrightarrow> mc_Size pc p = int (length (penc p))"
    and embedded_fills: "psmall p \<Longrightarrow> fills (mc_Fill pc p) (penc p)"
    and embedded_fits: "psmall p \<Longrightarrow> fits (penc p)"
    and embedded_unmarshal: "psmall p \<Longrightarrow> mc_Unmarshal pc (penc p) (mc_zero pc) = Ok p"
    and embedded_total: "returns (mc_Unmarshal pc s p)"

definition Identity_msg_codec :: "Identity msg_codec" where
  "Identity_msg_codec = \<lparr>mc_Size = Identity_Size, mc_Fill = Identity_MarshalToSizedBuffer,
     mc_Unmarshal = Identity_Unmarshal, mc_zero = zero_Identity\<rparr>"

interpretation identity_embedded: embedded_codec Identity_msg_codec enc_Identity small_Identity
  by unfold_locales
    (simp_all add: Identity_msg_codec_def Identity_Size_enc Identity_fills
      identity_codec.unmarshal_enc identity_codec.unmarshal_total, simp add: small_Identity_def)

section \<open>QueryParamsRequest\<close>

datatype QueryParamsRequest = QueryParamsRequest

definition QueryParamsRequest_Size :: "QueryParamsRequest \<Rightarrow> int" where
  "QueryParamsRequest_Size m = 0"

definition QueryParamsRequest_MarshalToSizedBuffer :: "QueryParamsRequest \<Rightarrow> bytes \<Rightarrow>
    (bytes \<times> int) res" where
  "QueryParamsRequest_MarshalToSizedBuffer m = sized_buffer Ok"

definition QueryParamsRequest_MarshalTo :: "QueryParamsRequest \<Rightarrow> bytes \<Rightarrow> (bytes \<times> int) res" where
  "QueryParamsRequest_MarshalTo m = marshal_to (QueryParamsRequest_Size m)
      (QueryParamsRequest_MarshalToSizedBuffer m)"

definition QueryParamsRequest_Marshal :: "QueryParamsRequest \<Rightarrow> bytes res" where
  "QueryParamsRequest_Marshal m = marshal_sized (QueryParamsRequest_Size m)
      (QueryParamsRequest_MarshalToSizedBuffer m)"

definition QueryParamsRequest_Unmarshal :: "bytes \<Rightarrow> QueryParamsRequest \<Rightarrow>
    QueryParamsRequest res" where
  "QueryParamsRequest_Unmarshal = unmarshal_loop (empty_field ''QueryParamsRequest'')"

lemma QueryParamsRequest_all: "(m :: QueryParamsRequest) = QueryParamsRequest"
  by (cases m) simp

interpretation QueryParamsRequest_codec: message_codec QueryParamsRequest_Marshal
    QueryParamsRequest_Size QueryParamsRequest_Unmarshal
  "\<lambda>m. []" QueryParamsRequest "\<lambda>m. True"
  using message_codec_empty [where name = "''QueryParamsRequest''", OF QueryParamsRequest_all]
  by (simp add: QueryParamsRequest_Marshal_def [abs_def] QueryParamsRequest_Size_def [abs_def]
      QueryParamsRequest_MarshalToSizedBuffer_def QueryParamsRequest_Unmarshal_def)

section \<open>QueryParamsResponse\<close>

record QueryParamsResponse =
  Resp_Params :: Params

definition zero_QueryParamsResponse :: QueryParamsResponse where
  "zero_QueryParamsResponse = \<lparr>Resp_Params = Params\<rparr>"

definition QueryParamsResponse_Size :: "QueryParamsResponse \<Rightarrow> int" where
  "QueryParamsResponse_Size m = size_len (Params_Size (Resp_Params m))"

definition QueryParamsResponse_MarshalToSizedBuffer ::
    "QueryParamsResponse \<Rightarrow> bytes \<Rightarrow> (bytes \<times> int) res" where
  "QueryParamsResponse_MarshalToSizedBuffer m = sized_buffer (put_msg 0xa
      (Params_MarshalToSizedBuffer (Resp_Params m)))"

definition QueryParamsResponse_MarshalTo ::
    "QueryParamsResponse \<Rightarrow> bytes \<Rightarrow> (bytes \<times> int) res" where
  "QueryParamsResponse_MarshalTo m =
     marshal_to (QueryParamsResponse_Size m) (QueryParamsResponse_MarshalToSizedBuffer m)"

definition QueryParamsResponse_Marshal :: "QueryParamsResponse \<Rightarrow> bytes res" where
  "QueryParamsResponse_Marshal m =
     marshal_sized (QueryParamsResponse_Size m) (QueryParamsResponse_MarshalToSizedBuffer m)"

definition QueryParamsResponse_field :: "QueryParamsResponse field_reader" where
  "QueryParamsResponse_field d i m =
     bind_res (read_tag ''QueryParamsResponse'' d i) (\<lambda>(fieldNum, wireType, j).
       if fieldNum = 1 then bind_res (read_len ''Params'' wireType d j)
         (\<lambda>(s, j). bind_res (Params_Unmarshal s (Resp_Params m)) (\<lambda>p. Ok (j, m\<lparr>Resp_Params := p\<rparr>)))
       else bind_res (skip_unknown d i) (\<lambda>j. Ok (j, m)))"

definition QueryParamsResponse_Unmarshal :: "bytes \<Rightarrow> QueryParamsResponse \<Rightarrow>
    QueryParamsResponse res" where
  "QueryParamsResponse_Unmarshal = unmarshal_loop QueryParamsResponse_field"

definition enc_QueryParamsResponse :: "QueryParamsResponse \<Rightarrow> bytes" where
  "enc_QueryParamsResponse m = enc_len 0xa (enc_Params (Resp_Params m))"

definition small_QueryParamsResponse :: "QueryParamsResponse \<Rightarrow> bool" where
  "small_QueryParamsResponse m \<longleftrightarrow> fits (enc_QueryParamsResponse m)"

lemma QueryParamsResponse_Size_enc:
  "small_QueryParamsResponse m \<Longrightarrow> QueryParamsResponse_Size m = int (length
      (enc_QueryParamsResponse m))"
  using size_len_enc [of "enc_Params (Resp_Params m)" "0xa"]
  by (auto simp: QueryParamsResponse_Size_def enc_QueryParamsResponse_def Params_Size_def
      enc_Params_def )

lemma QueryParamsResponse_fills:
  "small_QueryParamsResponse m
     \<Longrightarrow> fills (QueryParamsResponse_MarshalToSizedBuffer m) (enc_QueryParamsResponse m)"
  unfolding QueryParamsResponse_MarshalToSizedBuffer_def enc_QueryParamsResponse_def
  by (intro fills_writes writes_msg Params_fills fits_enc_Params)

interpretation QueryParamsResponse_field: field_decoder QueryParamsResponse_field
  unfolding QueryParamsResponse_field_def [abs_def]
  by (rule field_decoderI) (intro part_intros params_codec.unmarshal_total; simp)

lemma QueryParamsResponse_reads:
  "reads QueryParamsResponse_field (enc_QueryParamsResponse m) zero_QueryParamsResponse m"
proof -
  have "reads QueryParamsResponse_field (enc_len 0xa (enc_Params (Resp_Params m)))
      zero_QueryParamsResponse
      (zero_QueryParamsResponse\<lparr>Resp_Params := Resp_Params m\<rparr>)"
    by (intro reads_single
        reads_one_len [where t = "0xa" and name = "''QueryParamsResponse''" and f = "''Params''"])
      (simp_all add: QueryParamsResponse_field_def
          zero_QueryParamsResponse_def params_codec.unmarshal_enc)
  also have "zero_QueryParamsResponse\<lparr>Resp_Params := Resp_Params m\<rparr> = m"
    by (cases m) (simp add: zero_QueryParamsResponse_def)
  finally show ?thesis
    unfolding enc_QueryParamsResponse_def .
qed

interpretation QueryParamsResponse_codec: message_codec
    QueryParamsResponse_Marshal QueryParamsResponse_Size
  QueryParamsResponse_Unmarshal enc_QueryParamsResponse
      zero_QueryParamsResponse small_QueryParamsResponse
  unfolding QueryParamsResponse_Marshal_def [abs_def] QueryParamsResponse_Unmarshal_def
  by (intro message_codecI QueryParamsResponse_field.field_decoder_axioms QueryParamsResponse_Size_enc
      QueryParamsResponse_fills QueryParamsResponse_reads)
          (simp_all add: small_QueryParamsResponse_def)

section \<open>QueryGetIdentityRequest\<close>

record QueryGetIdentityRequest =
  GetReq_Address :: string

definition zero_QueryGetIdentityRequest :: QueryGetIdentityRequest where
  "zero_QueryGetIdentityRequest = \<lparr>GetReq_Address = []\<rparr>"

definition QueryGetIdentityRequest_Size :: "QueryGetIdentityRequest \<Rightarrow> int" where
  "QueryGetIdentityRequest_Size m = size_str (GetReq_Address m)"

definition QueryGetIdentityRequest_MarshalToSizedBuffer ::
    "QueryGetIdentityRequest \<Rightarrow> bytes \<Rightarrow> (bytes \<times> int) res" where
  "QueryGetIdentityRequest_MarshalToSizedBuffer m = sized_buffer (put_str 0xa (GetReq_Address m))"

definition QueryGetIdentityRequest_MarshalTo ::
    "QueryGetIdentityRequest \<Rightarrow> bytes \<Rightarrow> (bytes \<times> int) res" where
  "QueryGetIdentityRequest_MarshalTo m =
     marshal_to (QueryGetIdentityRequest_Size m) (QueryGetIdentityRequest_MarshalToSizedBuffer m)"

definition QueryGetIdentityRequest_Marshal :: "QueryGetIdentityRequest \<Rightarrow> bytes res" where
  "QueryGetIdentityRequest_Marshal m =
     marshal_sized (QueryGetIdentityRequest_Size m)
         (QueryGetIdentityRequest_MarshalToSizedBuffer m)"

definition QueryGetIdentityRequest_field :: "QueryGetIdentityRequest field_reader" where
  "QueryGetIdentityRequest_field d i m =
     bind_res (read_tag ''QueryGetIdentityRequest'' d i) (\<lambda>(fieldNum, wireType, j).
       if fieldNum = 1 then bind_res (read_len ''Address'' wireType d j)
         (\<lambda>(s, j). Ok (j, m\<lparr>GetReq_Address := string_of s\<rparr>))
       else bind_res (skip_unknown d i) (\<lambda>j. Ok (j, m)))"

definition QueryGetIdentityRequest_Unmarshal :: "bytes \<Rightarrow> QueryGetIdentityRequest \<Rightarrow>
    QueryGetIdentityRequest res" where
  "QueryGetIdentityRequest_Unmarshal = unmarshal_loop QueryGetIdentityRequest_field"

definition enc_QueryGetIdentityRequest :: "QueryGetIdentityRequest \<Rightarrow> bytes" where
  "enc_QueryGetIdentityRequest m = enc_str 0xa (GetReq_Address m)"

definition small_QueryGetIdentityRequest :: "QueryGetIdentityRequest \<Rightarrow> bool" where
  "small_QueryGetIdentityRequest m \<longleftrightarrow> fits (enc_QueryGetIdentityRequest m)"

lemma small_QueryGetIdentityRequestD:
  "small_QueryGetIdentityRequest m \<Longrightarrow> fits (GetReq_Address m)"
  by (auto simp: small_QueryGetIdentityRequest_def enc_QueryGetIdentityRequest_def
      small_Identity_def dest!: fits_appendD
      dest: fits_enc_str fits_enc_msgs fits_enc_len)

lemma QueryGetIdentityRequest_Size_enc:
  "small_QueryGetIdentityRequest m \<Longrightarrow> QueryGetIdentityRequest_Size m = int (length
      (enc_QueryGetIdentityRequest m))"
  using size_str_enc [of "GetReq_Address m" "0xa"]
  by (auto simp: QueryGetIdentityRequest_Size_def enc_QueryGetIdentityRequest_def 
      dest: small_QueryGetIdentityRequestD)

lemma QueryGetIdentityRequest_fills:
  "small_QueryGetIdentityRequest m
     \<Longrightarrow> fills (QueryGetIdentityRequest_MarshalToSizedBuffer m) (enc_QueryGetIdentityRequest m)"
  unfolding QueryGetIdentityRequest_MarshalToSizedBuffer_def enc_QueryGetIdentityRequest_def
  by (drule small_QueryGetIdentityRequestD) (intro fills_writes writes_str; blast)

interpretation QueryGetIdentityRequest_field: field_decoder QueryGetIdentityRequest_field
  unfolding QueryGetIdentityRequest_field_def [abs_def]
  by (rule field_decoderI) (intro part_intros; simp)

lemma QueryGetIdentityRequest_reads:
  "reads QueryGetIdentityRequest_field (enc_QueryGetIdentityRequest m)
      zero_QueryGetIdentityRequest m"
proof -
  have "reads QueryGetIdentityRequest_field (enc_str 0xa (GetReq_Address m))
      zero_QueryGetIdentityRequest
      (zero_QueryGetIdentityRequest\<lparr>GetReq_Address := GetReq_Address m\<rparr>)"
    by (intro reads_str
        reads_one_len [where t = "0xa" and name = "''QueryGetIdentityRequest''" and f =
            "''Address''"])
      (simp_all add: QueryGetIdentityRequest_field_def zero_QueryGetIdentityRequest_def)
  also have "zero_QueryGetIdentityRequest\<lparr>GetReq_Address := GetReq_Address m\<rparr> = m"
    by (cases m) (simp add: zero_QueryGetIdentityRequest_def)
  finally show ?thesis
    unfolding enc_QueryGetIdentityRequest_def .
qed

interpretation QueryGetIdentityRequest_codec: message_codec
    QueryGetIdentityRequest_Marshal QueryGetIdentityRequest_Size
  QueryGetIdentityRequest_Unmarshal enc_QueryGetIdentityRequest
      zero_QueryGetIdentityRequest small_QueryGetIdentityRequest
  unfolding QueryGetIdentityRequest_Marshal_def [abs_def] QueryGetIdentityRequest_Unmarshal_def
  by (intro message_codecI QueryGetIdentityRequest_field.field_decoder_axioms QueryGetIdentityRequest_Size_enc
      QueryGetIdentityRequest_fills QueryGetIdentityRequest_reads)
          (simp_all add: small_QueryGetIdentityRequest_def)

section \<open>QueryGetIdentityResponse\<close>

record QueryGetIdentityResponse =
  GetResp_Identity :: Identity

definition zero_QueryGetIdentityResponse :: QueryGetIdentityResponse where
  "zero_QueryGetIdentityResponse = \<lparr>GetResp_Identity = zero_Identity\<rparr>"

definition QueryGetIdentityResponse_Size :: "QueryGetIdentityResponse \<Rightarrow> int" where
  "QueryGetIdentityResponse_Size m = size_len (Identity_Size (GetResp_Identity m))"

definition QueryGetIdentityResponse_MarshalToSizedBuffer ::
    "QueryGetIdentityResponse \<Rightarrow> bytes \<Rightarrow> (bytes \<times> int) res" where
  "QueryGetIdentityResponse_MarshalToSizedBuffer m = sized_buffer (put_msg 0xa
      (Identity_MarshalToSizedBuffer (GetResp_Identity m)))"

definition QueryGetIdentityResponse_MarshalTo ::
    "QueryGetIdentityResponse \<Rightarrow> bytes \<Rightarrow> (bytes \<times> int) res" where
  "QueryGetIdentityResponse_MarshalTo m =
     marshal_to (QueryGetIdentityResponse_Size m) (QueryGetIdentityResponse_MarshalToSizedBuffer m)"

definition QueryGetIdentityResponse_Marshal :: "QueryGetIdentityResponse \<Rightarrow> bytes res" where
  "QueryGetIdentityResponse_Marshal m =
     marshal_sized (QueryGetIdentityResponse_Size m)
         (QueryGetIdentityResponse_MarshalToSizedBuffer m)"

definition QueryGetIdentityResponse_field :: "QueryGetIdentityResponse field_reader" where
  "QueryGetIdentityResponse_field d i m =
     bind_res (read_tag ''QueryGetIdentityResponse'' d i) (\<lambda>(fieldNum, wireType, j).
       if fieldNum = 1 then bind_res (read_len ''Identity'' wireType d j)
         (\<lambda>(s, j). bind_res (Identity_Unmarshal s (GetResp_Identity m)) (\<lambda>p. Ok
             (j, m\<lparr>GetResp_Identity := p\<rparr>)))
       else bind_res (skip_unknown d i) (\<lambda>j. Ok (j, m)))"

definition QueryGetIdentityResponse_Unmarshal :: "bytes \<Rightarrow> QueryGetIdentityResponse \<Rightarrow>
    QueryGetIdentityResponse res" where
  "QueryGetIdentityResponse_Unmarshal = unmarshal_loop QueryGetIdentityResponse_field"

definition enc_QueryGetIdentityResponse :: "QueryGetIdentityResponse \<Rightarrow> bytes" where
  "enc_QueryGetIdentityResponse m = enc_len 0xa (enc_Identity (GetResp_Identity m))"

definition small_QueryGetIdentityResponse :: "QueryGetIdentityResponse \<Rightarrow> bool" where
  "small_QueryGetIdentityResponse m \<longleftrightarrow> fits (enc_QueryGetIdentityResponse m)"

lemma small_QueryGetIdentityResponseD:
  "small_QueryGetIdentityResponse m \<Longrightarrow> small_Identity (GetResp_Identity m)"
  by (auto simp: small_QueryGetIdentityResponse_def enc_QueryGetIdentityResponse_def
      small_Identity_def dest!: fits_appendD
      dest: fits_enc_str fits_enc_msgs fits_enc_len)

lemma QueryGetIdentityResponse_Size_enc:
  "small_QueryGetIdentityResponse m \<Longrightarrow> QueryGetIdentityResponse_Size m = int (length
      (enc_QueryGetIdentityResponse m))"
  using size_len_enc [of "enc_Identity (GetResp_Identity m)" "0xa"]
  by (auto simp: QueryGetIdentityResponse_Size_def
      enc_QueryGetIdentityResponse_def Identity_Size_enc
      dest: small_QueryGetIdentityResponseD)

lemma QueryGetIdentityResponse_fills:
  "small_QueryGetIdentityResponse m
     \<Longrightarrow> fills (QueryGetIdentityResponse_MarshalToSizedBuffer m) (enc_QueryGetIdentityResponse m)"
  unfolding QueryGetIdentityResponse_MarshalToSizedBuffer_def enc_QueryGetIdentityResponse_def
  by (drule small_QueryGetIdentityResponseD) (intro fills_writes writes_msg; blast intro: conjI
      Identity_fills small_Identity_def [THEN iffD1])

interpretation QueryGetIdentityResponse_field: field_decoder QueryGetIdentityResponse_field
  unfolding QueryGetIdentityResponse_field_def [abs_def]
  by (rule field_decoderI) (intro part_intros identity_codec.unmarshal_total; simp)

lemma QueryGetIdentityResponse_reads:
  assumes "small_QueryGetIdentityResponse m"
  shows "reads QueryGetIdentityResponse_field (enc_QueryGetIdentityResponse m)
      zero_QueryGetIdentityResponse m"
proof -
  note s = small_QueryGetIdentityResponseD [OF assms]
  have "reads QueryGetIdentityResponse_field (enc_len 0xa (enc_Identity (GetResp_Identity m)))
      zero_QueryGetIdentityResponse
      (zero_QueryGetIdentityResponse\<lparr>GetResp_Identity := GetResp_Identity m\<rparr>)"
    using s by (intro reads_single
        reads_one_len [where t = "0xa" and name = "''QueryGetIdentityResponse''" and f =
            "''Identity''"])
      (simp_all add: QueryGetIdentityResponse_field_def
          zero_QueryGetIdentityResponse_def identity_codec.unmarshal_enc)
  also have "zero_QueryGetIdentityResponse\<lparr>GetResp_Identity := GetResp_Identity m\<rparr> = m"
    by (cases m) (simp add: zero_QueryGetIdentityResponse_def)
  finally show ?thesis
    unfolding enc_QueryGetIdentityResponse_def .
qed

interpretation QueryGetIdentityResponse_codec: message_codec
    QueryGetIdentityResponse_Marshal QueryGetIdentityResponse_Size
  QueryGetIdentityResponse_Unmarshal enc_QueryGetIdentityResponse
      zero_QueryGetIdentityResponse small_QueryGetIdentityResponse
  unfolding QueryGetIdentityResponse_Marshal_def [abs_def] QueryGetIdentityResponse_Unmarshal_def
  by (intro message_codecI QueryGetIdentityResponse_field.field_decoder_axioms QueryGetIdentityResponse_Size_enc
      QueryGetIdentityResponse_fills QueryGetIdentityResponse_reads)
          (simp_all add: small_QueryGetIdentityResponse_def)

section \<open>QueryAllIdentityRequest\<close>

record 'p QueryAllIdentityRequest =
  AllReq_Pagination :: "'p option"

definition zero_QueryAllIdentityRequest :: "'p QueryAllIdentityRequest" where
  "zero_QueryAllIdentityRequest = \<lparr>AllReq_Pagination = None\<rparr>"

definition QueryAllIdentityRequest_Size :: "'p msg_codec \<Rightarrow> 'p QueryAllIdentityRequest \<Rightarrow> int" where
  "QueryAllIdentityRequest_Size pc m = size_opt_msg (mc_Size pc) (AllReq_Pagination m)"

definition QueryAllIdentityRequest_MarshalToSizedBuffer ::
    "'p msg_codec \<Rightarrow> 'p QueryAllIdentityRequest \<Rightarrow> bytes \<Rightarrow> (bytes \<times> int) res" where
  "QueryAllIdentityRequest_MarshalToSizedBuffer pc m = sized_buffer (put_opt_msg 0xa (mc_Fill pc)
      (AllReq_Pagination m))"

definition QueryAllIdentityRequest_MarshalTo ::
    "'p msg_codec \<Rightarrow> 'p QueryAllIdentityRequest \<Rightarrow> bytes \<Rightarrow> (bytes \<times> int) res" where
  "QueryAllIdentityRequest_MarshalTo pc m =
     marshal_to (QueryAllIdentityRequest_Size pc m) (QueryAllIdentityRequest_MarshalToSizedBuffer
         pc m)"

definition QueryAllIdentityRequest_Marshal :: "'p msg_codec \<Rightarrow> 'p QueryAllIdentityRequest \<Rightarrow>
    bytes res" where
  "QueryAllIdentityRequest_Marshal pc m =
     marshal_sized (QueryAllIdentityRequest_Size pc m)
         (QueryAllIdentityRequest_MarshalToSizedBuffer pc m)"

definition QueryAllIdentityRequest_field :: "'p msg_codec \<Rightarrow>
    ('p QueryAllIdentityRequest) field_reader" where
  "QueryAllIdentityRequest_field pc d i m =
     bind_res (read_tag ''QueryAllIdentityRequest'' d i) (\<lambda>(fieldNum, wireType, j).
       if fieldNum = 1 then bind_res (read_len ''Pagination'' wireType d j)
         (\<lambda>(s, j). bind_res (mc_Unmarshal pc s
             (case AllReq_Pagination m of None \<Rightarrow> mc_zero pc | Some p \<Rightarrow> p))
           (\<lambda>p. Ok (j, m\<lparr>AllReq_Pagination := Some p\<rparr>)))
       else bind_res (skip_unknown d i) (\<lambda>j. Ok (j, m)))"

definition QueryAllIdentityRequest_Unmarshal :: "'p msg_codec \<Rightarrow> bytes \<Rightarrow> 'p QueryAllIdentityRequest
    \<Rightarrow> 'p QueryAllIdentityRequest res" where
  "QueryAllIdentityRequest_Unmarshal pc = unmarshal_loop (QueryAllIdentityRequest_field pc)"

definition enc_QueryAllIdentityRequest :: "('p \<Rightarrow> bytes) \<Rightarrow> 'p QueryAllIdentityRequest \<Rightarrow> bytes" where
  "enc_QueryAllIdentityRequest penc m = enc_opt_msg 0xa penc (AllReq_Pagination m)"

definition small_QueryAllIdentityRequest :: "('p \<Rightarrow> bytes) \<Rightarrow> ('p \<Rightarrow> bool)
    \<Rightarrow> 'p QueryAllIdentityRequest \<Rightarrow> bool" where
  "small_QueryAllIdentityRequest penc psmall m \<longleftrightarrow> fits (enc_QueryAllIdentityRequest penc m) \<and> (\<forall>p \<in>
      set_option (AllReq_Pagination m). psmall p)"

context embedded_codec
begin

lemma small_QueryAllIdentityRequestD:
  "small_QueryAllIdentityRequest penc psmall m \<Longrightarrow> (\<forall>q. AllReq_Pagination m = Some q \<longrightarrow> psmall q)"
  by (auto simp: small_QueryAllIdentityRequest_def enc_QueryAllIdentityRequest_def
      small_Identity_def dest!: fits_appendD
      dest: fits_enc_str fits_enc_msgs fits_enc_len)

lemma QueryAllIdentityRequest_Size_enc:
  "small_QueryAllIdentityRequest penc psmall m \<Longrightarrow> QueryAllIdentityRequest_Size pc m = int (length
      (enc_QueryAllIdentityRequest penc m))"
  using size_opt_msg_enc [of "AllReq_Pagination m" "mc_Size pc" penc "0xa"]
  by (auto simp: QueryAllIdentityRequest_Size_def enc_QueryAllIdentityRequest_def embedded_size
      dest: small_QueryAllIdentityRequestD)

lemma QueryAllIdentityRequest_fills:
  "small_QueryAllIdentityRequest penc psmall m
     \<Longrightarrow> fills (QueryAllIdentityRequest_MarshalToSizedBuffer pc m) (enc_QueryAllIdentityRequest
         penc m)"
  unfolding QueryAllIdentityRequest_MarshalToSizedBuffer_def enc_QueryAllIdentityRequest_def
  by (drule small_QueryAllIdentityRequestD) (intro fills_writes writes_opt_msg; blast intro: conjI
      embedded_fills embedded_fits)

lemma field_decoder_QueryAllIdentityRequest: "field_decoder (QueryAllIdentityRequest_field pc)"
  unfolding QueryAllIdentityRequest_field_def [abs_def]
  by (rule field_decoderI) (intro part_intros embedded_total; simp)

lemma QueryAllIdentityRequest_reads:
  assumes "small_QueryAllIdentityRequest penc psmall m"
  shows "reads (QueryAllIdentityRequest_field pc) (enc_QueryAllIdentityRequest penc m)
      zero_QueryAllIdentityRequest m"
proof -
  note s = small_QueryAllIdentityRequestD [OF assms]
  have "reads (QueryAllIdentityRequest_field pc) (enc_opt_msg 0xa penc (AllReq_Pagination m))
      zero_QueryAllIdentityRequest
      (zero_QueryAllIdentityRequest\<lparr>AllReq_Pagination := AllReq_Pagination m\<rparr>)"
    using s
    by (intro reads_opt_msg
        reads_one_len [where t = "0xa" and name = "''QueryAllIdentityRequest''" and f =
            "''Pagination''"])
      (simp_all add: QueryAllIdentityRequest_field_def
          zero_QueryAllIdentityRequest_def embedded_unmarshal)
  also have "zero_QueryAllIdentityRequest\<lparr>AllReq_Pagination := AllReq_Pagination m\<rparr> = m"
    by (cases m) (simp add: zero_QueryAllIdentityRequest_def)
  finally show ?thesis
    unfolding enc_QueryAllIdentityRequest_def .
qed

lemma QueryAllIdentityRequest_message_codec:
  "message_codec (QueryAllIdentityRequest_Marshal pc) (QueryAllIdentityRequest_Size pc)
    (QueryAllIdentityRequest_Unmarshal pc) (enc_QueryAllIdentityRequest penc)
        zero_QueryAllIdentityRequest (small_QueryAllIdentityRequest penc psmall)"
  unfolding QueryAllIdentityRequest_Marshal_def [abs_def] QueryAllIdentityRequest_Unmarshal_def
  by (intro message_codecI field_decoder_QueryAllIdentityRequest QueryAllIdentityRequest_Size_enc
      QueryAllIdentityRequest_fills QueryAllIdentityRequest_reads)
          (simp_all add: small_QueryAllIdentityRequest_def)

end

sublocale embedded_codec < QueryAllIdentityRequest_codec: message_codec
    "QueryAllIdentityRequest_Marshal pc"
  "QueryAllIdentityRequest_Size pc" "QueryAllIdentityRequest_Unmarshal pc"
  "enc_QueryAllIdentityRequest penc" zero_QueryAllIdentityRequest "small_QueryAllIdentityRequest
      penc psmall"
  by (rule QueryAllIdentityRequest_message_codec)

section \<open>QueryAllIdentityResponse\<close>

record 'p QueryAllIdentityResponse =
  AllResp_Identity :: "Identity list"
  AllResp_Pagination :: "'p option"

definition zero_QueryAllIdentityResponse :: "'p QueryAllIdentityResponse" where
  "zero_QueryAllIdentityResponse = \<lparr>AllResp_Identity = [], AllResp_Pagination = None\<rparr>"

definition QueryAllIdentityResponse_Size :: "'p msg_codec \<Rightarrow> 'p QueryAllIdentityResponse \<Rightarrow> int" where
  "QueryAllIdentityResponse_Size pc m = size_msgs Identity_Size (AllResp_Identity m) +
      size_opt_msg (mc_Size pc) (AllResp_Pagination m)"

definition QueryAllIdentityResponse_MarshalToSizedBuffer ::
    "'p msg_codec \<Rightarrow> 'p QueryAllIdentityResponse \<Rightarrow> bytes \<Rightarrow> (bytes \<times> int) res" where
  "QueryAllIdentityResponse_MarshalToSizedBuffer pc m = sized_buffer (\<lambda>st.
     bind_res (put_opt_msg 0x12 (mc_Fill pc) (AllResp_Pagination m) st)
       (put_msgs 0xa Identity_MarshalToSizedBuffer (AllResp_Identity m)))"

definition QueryAllIdentityResponse_MarshalTo ::
    "'p msg_codec \<Rightarrow> 'p QueryAllIdentityResponse \<Rightarrow> bytes \<Rightarrow> (bytes \<times> int) res" where
  "QueryAllIdentityResponse_MarshalTo pc m =
     marshal_to (QueryAllIdentityResponse_Size pc m)
         (QueryAllIdentityResponse_MarshalToSizedBuffer pc m)"

definition QueryAllIdentityResponse_Marshal :: "'p msg_codec \<Rightarrow> 'p QueryAllIdentityResponse \<Rightarrow>
    bytes res" where
  "QueryAllIdentityResponse_Marshal pc m =
     marshal_sized (QueryAllIdentityResponse_Size pc m)
         (QueryAllIdentityResponse_MarshalToSizedBuffer pc m)"

definition QueryAllIdentityResponse_field :: "'p msg_codec \<Rightarrow>
    ('p QueryAllIdentityResponse) field_reader" where
  "QueryAllIdentityResponse_field pc d i m =
     bind_res (read_tag ''QueryAllIdentityResponse'' d i) (\<lambda>(fieldNum, wireType, j).
       if fieldNum = 1 then bind_res (read_len ''Identity'' wireType d j)
         (\<lambda>(s, j). bind_res (Identity_Unmarshal s zero_Identity)
           (\<lambda>p. Ok (j, m\<lparr>AllResp_Identity := AllResp_Identity m @ [p]\<rparr>)))
       else if fieldNum = 2 then bind_res (read_len ''Pagination'' wireType d j)
         (\<lambda>(s, j). bind_res (mc_Unmarshal pc s
             (case AllResp_Pagination m of None \<Rightarrow> mc_zero pc | Some p \<Rightarrow> p))
           (\<lambda>p. Ok (j, m\<lparr>AllResp_Pagination := Some p\<rparr>)))
       else bind_res (skip_unknown d i) (\<lambda>j. Ok (j, m)))"

definition QueryAllIdentityResponse_Unmarshal :: "'p msg_codec \<Rightarrow> bytes
    \<Rightarrow> 'p QueryAllIdentityResponse \<Rightarrow> 'p QueryAllIdentityResponse res" where
  "QueryAllIdentityResponse_Unmarshal pc = unmarshal_loop (QueryAllIdentityResponse_field pc)"

definition enc_QueryAllIdentityResponse :: "('p \<Rightarrow> bytes) \<Rightarrow> 'p QueryAllIdentityResponse
    \<Rightarrow> bytes" where
  "enc_QueryAllIdentityResponse penc m = enc_msgs 0xa enc_Identity (AllResp_Identity m) @
      enc_opt_msg 0x12 penc (AllResp_Pagination m)"

definition small_QueryAllIdentityResponse :: "('p \<Rightarrow> bytes) \<Rightarrow> ('p \<Rightarrow> bool)
    \<Rightarrow> 'p QueryAllIdentityResponse \<Rightarrow> bool" where
  "small_QueryAllIdentityResponse penc psmall m \<longleftrightarrow> fits (enc_QueryAllIdentityResponse penc m) \<and>
      (\<forall>p \<in> set_option (AllResp_Pagination m). psmall p)"

context embedded_codec
begin

lemma small_QueryAllIdentityResponseD:
  "small_QueryAllIdentityResponse penc psmall m \<Longrightarrow> (\<forall>q \<in> set (AllResp_Identity m).
      small_Identity q) \<and> (\<forall>q. AllResp_Pagination m = Some q \<longrightarrow> psmall q)"
  by (auto simp: small_QueryAllIdentityResponse_def enc_QueryAllIdentityResponse_def
      small_Identity_def dest!: fits_appendD
      dest: fits_enc_str fits_enc_msgs fits_enc_len)

lemma QueryAllIdentityResponse_Size_enc:
  "small_QueryAllIdentityResponse penc psmall m \<Longrightarrow> QueryAllIdentityResponse_Size pc m = int (length
      (enc_QueryAllIdentityResponse penc m))"
  using size_msgs_enc [of "AllResp_Identity m" Identity_Size enc_Identity "0xa"]
    size_opt_msg_enc [of "AllResp_Pagination m" "mc_Size pc" penc "0x12"]
  by (auto simp: QueryAllIdentityResponse_Size_def enc_QueryAllIdentityResponse_def 
      Identity_Size_enc embedded_size
      dest: small_QueryAllIdentityResponseD)

lemma QueryAllIdentityResponse_fills:
  "small_QueryAllIdentityResponse penc psmall m
     \<Longrightarrow> fills (QueryAllIdentityResponse_MarshalToSizedBuffer pc m) (enc_QueryAllIdentityResponse
         penc m)"
  unfolding QueryAllIdentityResponse_MarshalToSizedBuffer_def enc_QueryAllIdentityResponse_def
  by (drule small_QueryAllIdentityResponseD) (intro fills_writes writes_bind
      writes_msgs writes_opt_msg; blast intro: conjI Identity_fills
          small_Identity_def [THEN iffD1] embedded_fills embedded_fits)

lemma field_decoder_QueryAllIdentityResponse: "field_decoder (QueryAllIdentityResponse_field pc)"
  unfolding QueryAllIdentityResponse_field_def [abs_def]
  by (rule field_decoderI) (intro part_intros identity_codec.unmarshal_total embedded_total; simp)

lemma QueryAllIdentityResponse_reads:
  assumes "small_QueryAllIdentityResponse penc psmall m"
  shows "reads (QueryAllIdentityResponse_field pc) (enc_QueryAllIdentityResponse penc m)
      zero_QueryAllIdentityResponse m"
proof -
  note s = small_QueryAllIdentityResponseD [OF assms]
  have r0: "reads (QueryAllIdentityResponse_field pc) (enc_msgs 0xa enc_Identity
      (AllResp_Identity m))
      zero_QueryAllIdentityResponse
      (zero_QueryAllIdentityResponse\<lparr>AllResp_Identity := AllResp_Identity m\<rparr>)"
    using reads_msgs [of "AllResp_Identity m" "QueryAllIdentityResponse_field pc" "0xa" enc_Identity
        "\<lambda>qs. zero_QueryAllIdentityResponse\<lparr>AllResp_Identity := qs\<rparr>" "[]"] s
    by (simp add: zero_QueryAllIdentityResponse_def, elim meta_mp)
      (intro reads_one_len [where t = "0xa" and name = "''QueryAllIdentityResponse''" and f =
          "''Identity''"];
        simp add: QueryAllIdentityResponse_field_def identity_codec.unmarshal_enc)
  have "reads (QueryAllIdentityResponse_field pc) (enc_opt_msg 0x12 penc (AllResp_Pagination m))
      (zero_QueryAllIdentityResponse\<lparr>AllResp_Identity := AllResp_Identity m\<rparr>)
      (zero_QueryAllIdentityResponse\<lparr>AllResp_Identity := AllResp_Identity m, AllResp_Pagination :=
          AllResp_Pagination m\<rparr>)"
    using s
    by (intro reads_opt_msg
        reads_one_len [where t = "0x12" and name = "''QueryAllIdentityResponse''" and f =
            "''Pagination''"])
      (simp_all add: QueryAllIdentityResponse_field_def
          zero_QueryAllIdentityResponse_def embedded_unmarshal)
  also have "zero_QueryAllIdentityResponse\<lparr>AllResp_Identity := AllResp_Identity m,
      AllResp_Pagination := AllResp_Pagination m\<rparr> = m"
    by (cases m) (simp add: zero_QueryAllIdentityResponse_def)
  finally show ?thesis
    unfolding enc_QueryAllIdentityResponse_def by (intro reads_append [OF r0])
qed

lemma QueryAllIdentityResponse_message_codec:
  "message_codec (QueryAllIdentityResponse_Marshal pc) (QueryAllIdentityResponse_Size pc)
    (QueryAllIdentityResponse_Unmarshal pc) (enc_QueryAllIdentityResponse penc)
        zero_QueryAllIdentityResponse (small_QueryAllIdentityResponse penc psmall)"
  unfolding QueryAllIdentityResponse_Marshal_def [abs_def] QueryAllIdentityResponse_Unmarshal_def
  by (intro message_codecI field_decoder_QueryAllIdentityResponse QueryAllIdentityResponse_Size_enc
      QueryAllIdentityResponse_fills QueryAllIdentityResponse_reads)
          (simp_all add: small_QueryAllIdentityResponse_def)

end

sublocale embedded_codec < QueryAllIdentityResponse_codec: message_codec
    "QueryAllIdentityResponse_Marshal pc"
  "QueryAllIdentityResponse_Size pc" "QueryAllIdentityResponse_Unmarshal pc"
  "enc_QueryAllIdentityResponse penc" zero_QueryAllIdentityResponse
      "small_QueryAllIdentityResponse penc psmall"
  by (rule QueryAllIdentityResponse_message_codec)

section \<open>QueryIdentityByCccdIdRequest\<close>

record 'p QueryIdentityByCccdIdRequest =
  ByIdReq_IdHash :: string
  ByIdReq_Pagination :: "'p option"

definition zero_QueryIdentityByCccdIdRequest :: "'p QueryIdentityByCccdIdRequest" where
  "zero_QueryIdentityByCccdIdRequest = \<lparr>ByIdReq_IdHash = [], ByIdReq_Pagination = None\<rparr>"

definition QueryIdentityByCccdIdRequest_Size :: "'p msg_codec \<Rightarrow> 'p QueryIdentityByCccdIdRequest
    \<Rightarrow> int" where
  "QueryIdentityByCccdIdRequest_Size pc m = size_str (ByIdReq_IdHash m) + size_opt_msg
      (mc_Size pc) (ByIdReq_Pagination m)"

definition QueryIdentityByCccdIdRequest_MarshalToSizedBuffer ::
    "'p msg_codec \<Rightarrow> 'p QueryIdentityByCccdIdRequest \<Rightarrow> bytes \<Rightarrow> (bytes \<times> int) res" where
  "QueryIdentityByCccdIdRequest_MarshalToSizedBuffer pc m = sized_buffer (\<lambda>st.
     bind_res (put_opt_msg 0x12 (mc_Fill pc) (ByIdReq_Pagination m) st)
       (put_str 0xa (ByIdReq_IdHash m)))"

definition QueryIdentityByCccdIdRequest_MarshalTo ::
    "'p msg_codec \<Rightarrow> 'p QueryIdentityByCccdIdRequest \<Rightarrow> bytes \<Rightarrow> (bytes \<times> int) res" where
  "QueryIdentityByCccdIdRequest_MarshalTo pc m =
     marshal_to (QueryIdentityByCccdIdRequest_Size pc m)
         (QueryIdentityByCccdIdRequest_MarshalToSizedBuffer pc m)"

definition QueryIdentityByCccdIdRequest_Marshal :: "'p msg_codec \<Rightarrow> 'p QueryIdentityByCccdIdRequest
    \<Rightarrow> bytes res" where
  "QueryIdentityByCccdIdRequest_Marshal pc m =
     marshal_sized (QueryIdentityByCccdIdRequest_Size pc m)
         (QueryIdentityByCccdIdRequest_MarshalToSizedBuffer pc m)"

definition QueryIdentityByCccdIdRequest_field :: "'p msg_codec \<Rightarrow>
    ('p QueryIdentityByCccdIdRequest) field_reader" where
  "QueryIdentityByCccdIdRequest_field pc d i m =
     bind_res (read_tag ''QueryIdentityByCccdIdRequest'' d i) (\<lambda>(fieldNum, wireType, j).
       if fieldNum = 1 then bind_res (read_len ''IdHash'' wireType d j)
         (\<lambda>(s, j). Ok (j, m\<lparr>ByIdReq_IdHash := string_of s\<rparr>))
       else if fieldNum = 2 then bind_res (read_len ''Pagination'' wireType d j)
         (\<lambda>(s, j). bind_res (mc_Unmarshal pc s
             (case ByIdReq_Pagination m of None \<Rightarrow> mc_zero pc | Some p \<Rightarrow> p))
           (\<lambda>p. Ok (j, m\<lparr>ByIdReq_Pagination := Some p\<rparr>)))
       else bind_res (skip_unknown d i) (\<lambda>j. Ok (j, m)))"

definition QueryIdentityByCccdIdRequest_Unmarshal :: "'p msg_codec \<Rightarrow> bytes
    \<Rightarrow> 'p QueryIdentityByCccdIdRequest \<Rightarrow> 'p QueryIdentityByCccdIdRequest res" where
  "QueryIdentityByCccdIdRequest_Unmarshal pc = unmarshal_loop
      (QueryIdentityByCccdIdRequest_field pc)"

definition enc_QueryIdentityByCccdIdRequest :: "('p \<Rightarrow> bytes) \<Rightarrow> 'p QueryIdentityByCccdIdRequest
    \<Rightarrow> bytes" where
  "enc_QueryIdentityByCccdIdRequest penc m = enc_str 0xa (ByIdReq_IdHash m) @ enc_opt_msg 0x12
      penc (ByIdReq_Pagination m)"

definition small_QueryIdentityByCccdIdRequest :: "('p \<Rightarrow> bytes) \<Rightarrow> ('p \<Rightarrow> bool)
    \<Rightarrow> 'p QueryIdentityByCccdIdRequest \<Rightarrow> bool" where
  "small_QueryIdentityByCccdIdRequest penc psmall m \<longleftrightarrow> fits (enc_QueryIdentityByCccdIdRequest
      penc m) \<and> (\<forall>p \<in> set_option (ByIdReq_Pagination m). psmall p)"

context embedded_codec
begin

lemma small_QueryIdentityByCccdIdRequestD:
  "small_QueryIdentityByCccdIdRequest penc psmall m \<Longrightarrow> fits (ByIdReq_IdHash m) \<and> (\<forall>q.
      ByIdReq_Pagination m = Some q \<longrightarrow> psmall q)"
  by (auto simp: small_QueryIdentityByCccdIdRequest_def enc_QueryIdentityByCccdIdRequest_def
      small_Identity_def dest!: fits_appendD
      dest: fits_enc_str fits_enc_msgs fits_enc_len)

lemma QueryIdentityByCccdIdRequest_Size_enc:
  "small_QueryIdentityByCccdIdRequest penc psmall m \<Longrightarrow> QueryIdentityByCccdIdRequest_Size pc m = int
      (length (enc_QueryIdentityByCccdIdRequest penc m))"
  using size_str_enc [of "ByIdReq_IdHash m" "0xa"]
    size_opt_msg_enc [of "ByIdReq_Pagination m" "mc_Size pc" penc "0x12"]
  by (auto simp: QueryIdentityByCccdIdRequest_Size_def
      enc_QueryIdentityByCccdIdRequest_def embedded_size
      dest: small_QueryIdentityByCccdIdRequestD)

lemma QueryIdentityByCccdIdRequest_fills:
  "small_QueryIdentityByCccdIdRequest penc psmall m
     \<Longrightarrow> fills (QueryIdentityByCccdIdRequest_MarshalToSizedBuffer pc m)
         (enc_QueryIdentityByCccdIdRequest penc m)"
  unfolding QueryIdentityByCccdIdRequest_MarshalToSizedBuffer_def enc_QueryIdentityByCccdIdRequest_def
  by (drule small_QueryIdentityByCccdIdRequestD) (intro fills_writes writes_bind
      writes_str writes_opt_msg; blast intro: conjI embedded_fills embedded_fits)

lemma field_decoder_QueryIdentityByCccdIdRequest: "field_decoder
    (QueryIdentityByCccdIdRequest_field pc)"
  unfolding QueryIdentityByCccdIdRequest_field_def [abs_def]
  by (rule field_decoderI) (intro part_intros embedded_total; simp)

lemma QueryIdentityByCccdIdRequest_reads:
  assumes "small_QueryIdentityByCccdIdRequest penc psmall m"
  shows "reads (QueryIdentityByCccdIdRequest_field pc) (enc_QueryIdentityByCccdIdRequest penc m)
      zero_QueryIdentityByCccdIdRequest m"
proof -
  note s = small_QueryIdentityByCccdIdRequestD [OF assms]
  have r0: "reads (QueryIdentityByCccdIdRequest_field pc) (enc_str 0xa (ByIdReq_IdHash m))
      zero_QueryIdentityByCccdIdRequest
      (zero_QueryIdentityByCccdIdRequest\<lparr>ByIdReq_IdHash := ByIdReq_IdHash m\<rparr>)"
    by (intro reads_str
        reads_one_len [where t = "0xa" and name = "''QueryIdentityByCccdIdRequest''" and f =
            "''IdHash''"])
      (simp_all add: QueryIdentityByCccdIdRequest_field_def zero_QueryIdentityByCccdIdRequest_def)
  have "reads (QueryIdentityByCccdIdRequest_field pc) (enc_opt_msg 0x12 penc (ByIdReq_Pagination m))
      (zero_QueryIdentityByCccdIdRequest\<lparr>ByIdReq_IdHash := ByIdReq_IdHash m\<rparr>)
      (zero_QueryIdentityByCccdIdRequest\<lparr>ByIdReq_IdHash := ByIdReq_IdHash m, ByIdReq_Pagination :=
          ByIdReq_Pagination m\<rparr>)"
    using s
    by (intro reads_opt_msg
        reads_one_len [where t = "0x12" and name = "''QueryIdentityByCccdIdRequest''" and f =
            "''Pagination''"])
      (simp_all add: QueryIdentityByCccdIdRequest_field_def
          zero_QueryIdentityByCccdIdRequest_def embedded_unmarshal)
  also have "zero_QueryIdentityByCccdIdRequest\<lparr>ByIdReq_IdHash := ByIdReq_IdHash m,
      ByIdReq_Pagination := ByIdReq_Pagination m\<rparr> = m"
    by (cases m) (simp add: zero_QueryIdentityByCccdIdRequest_def)
  finally show ?thesis
    unfolding enc_QueryIdentityByCccdIdRequest_def by (intro reads_append [OF r0])
qed

lemma QueryIdentityByCccdIdRequest_message_codec:
  "message_codec (QueryIdentityByCccdIdRequest_Marshal pc) (QueryIdentityByCccdIdRequest_Size pc)
    (QueryIdentityByCccdIdRequest_Unmarshal pc) (enc_QueryIdentityByCccdIdRequest penc)
        zero_QueryIdentityByCccdIdRequest (small_QueryIdentityByCccdIdRequest penc psmall)"
  unfolding QueryIdentityByCccdIdRequest_Marshal_def [abs_def] QueryIdentityByCccdIdRequest_Unmarshal_def
  by (intro message_codecI
      field_decoder_QueryIdentityByCccdIdRequest QueryIdentityByCccdIdRequest_Size_enc
      QueryIdentityByCccdIdRequest_fills QueryIdentityByCccdIdRequest_reads)
          (simp_all add: small_QueryIdentityByCccdIdRequest_def)

end

sublocale embedded_codec < QueryIdentityByCccdIdRequest_codec: message_codec
    "QueryIdentityByCccdIdRequest_Marshal pc"
  "QueryIdentityByCccdIdRequest_Size pc" "QueryIdentityByCccdIdRequest_Unmarshal pc"
  "enc_QueryIdentityByCccdIdRequest penc" zero_QueryIdentityByCccdIdRequest
      "small_QueryIdentityByCccdIdRequest penc psmall"
  by (rule QueryIdentityByCccdIdRequest_message_codec)

section \<open>QueryIdentityByCccdIdResponse\<close>

record 'p QueryIdentityByCccdIdResponse =
  ByIdResp_Identity :: "Identity list"
  ByIdResp_Pagination :: "'p option"

definition zero_QueryIdentityByCccdIdResponse :: "'p QueryIdentityByCccdIdResponse" where
  "zero_QueryIdentityByCccdIdResponse = \<lparr>ByIdResp_Identity = [], ByIdResp_Pagination = None\<rparr>"

definition QueryIdentityByCccdIdResponse_Size :: "'p msg_codec \<Rightarrow> 'p QueryIdentityByCccdIdResponse
    \<Rightarrow> int" where
  "QueryIdentityByCccdIdResponse_Size pc m = size_msgs Identity_Size (ByIdResp_Identity m) +
      size_opt_msg (mc_Size pc) (ByIdResp_Pagination m)"

definition QueryIdentityByCccdIdResponse_MarshalToSizedBuffer ::
    "'p msg_codec \<Rightarrow> 'p QueryIdentityByCccdIdResponse \<Rightarrow> bytes \<Rightarrow> (bytes \<times> int) res" where
  "QueryIdentityByCccdIdResponse_MarshalToSizedBuffer pc m = sized_buffer (\<lambda>st.
     bind_res (put_opt_msg 0x12 (mc_Fill pc) (ByIdResp_Pagination m) st)
       (put_msgs 0xa Identity_MarshalToSizedBuffer (ByIdResp_Identity m)))"

definition QueryIdentityByCccdIdResponse_MarshalTo ::
    "'p msg_codec \<Rightarrow> 'p QueryIdentityByCccdIdResponse \<Rightarrow> bytes \<Rightarrow> (bytes \<times> int) res" where
  "QueryIdentityByCccdIdResponse_MarshalTo pc m =
     marshal_to (QueryIdentityByCccdIdResponse_Size pc m)
         (QueryIdentityByCccdIdResponse_MarshalToSizedBuffer pc m)"

definition QueryIdentityByCccdIdResponse_Marshal :: "'p msg_codec
    \<Rightarrow> 'p QueryIdentityByCccdIdResponse \<Rightarrow> bytes res" where
  "QueryIdentityByCccdIdResponse_Marshal pc m =
     marshal_sized (QueryIdentityByCccdIdResponse_Size pc m)
         (QueryIdentityByCccdIdResponse_MarshalToSizedBuffer pc m)"

definition QueryIdentityByCccdIdResponse_field :: "'p msg_codec \<Rightarrow>
    ('p QueryIdentityByCccdIdResponse) field_reader" where
  "QueryIdentityByCccdIdResponse_field pc d i m =
     bind_res (read_tag ''QueryIdentityByCccdIdResponse'' d i) (\<lambda>(fieldNum, wireType, j).
       if fieldNum = 1 then bind_res (read_len ''Identity'' wireType d j)
         (\<lambda>(s, j). bind_res (Identity_Unmarshal s zero_Identity)
           (\<lambda>p. Ok (j, m\<lparr>ByIdResp_Identity := ByIdResp_Identity m @ [p]\<rparr>)))
       else if fieldNum = 2 then bind_res (read_len ''Pagination'' wireType d j)
         (\<lambda>(s, j). bind_res (mc_Unmarshal pc s
             (case ByIdResp_Pagination m of None \<Rightarrow> mc_zero pc | Some p \<Rightarrow> p))
           (\<lambda>p. Ok (j, m\<lparr>ByIdResp_Pagination := Some p\<rparr>)))
       else bind_res (skip_unknown d i) (\<lambda>j. Ok (j, m)))"

definition QueryIdentityByCccdIdResponse_Unmarshal :: "'p msg_codec \<Rightarrow> bytes
    \<Rightarrow> 'p QueryIdentityByCccdIdResponse \<Rightarrow> 'p QueryIdentityByCccdIdResponse res" where
  "QueryIdentityByCccdIdResponse_Unmarshal pc = unmarshal_loop
      (QueryIdentityByCccdIdResponse_field pc)"

definition enc_QueryIdentityByCccdIdResponse :: "('p \<Rightarrow> bytes) \<Rightarrow> 'p QueryIdentityByCccdIdResponse
    \<Rightarrow> bytes" where
  "enc_QueryIdentityByCccdIdResponse penc m = enc_msgs 0xa enc_Identity (ByIdResp_Identity m) @
      enc_opt_msg 0x12 penc (ByIdResp_Pagination m)"

definition small_QueryIdentityByCccdIdResponse :: "('p \<Rightarrow> bytes) \<Rightarrow> ('p \<Rightarrow> bool)
    \<Rightarrow> 'p QueryIdentityByCccdIdResponse \<Rightarrow> bool" where
  "small_QueryIdentityByCccdIdResponse penc psmall m \<longleftrightarrow> fits (enc_QueryIdentityByCccdIdResponse
      penc m) \<and> (\<forall>p \<in> set_option (ByIdResp_Pagination m). psmall p)"

context embedded_codec
begin

lemma small_QueryIdentityByCccdIdResponseD:
  "small_QueryIdentityByCccdIdResponse penc psmall m \<Longrightarrow> (\<forall>q \<in> set (ByIdResp_Identity m).
      small_Identity q) \<and> (\<forall>q. ByIdResp_Pagination m = Some q \<longrightarrow> psmall q)"
  by (auto simp: small_QueryIdentityByCccdIdResponse_def enc_QueryIdentityByCccdIdResponse_def
      small_Identity_def dest!: fits_appendD
      dest: fits_enc_str fits_enc_msgs fits_enc_len)

lemma QueryIdentityByCccdIdResponse_Size_enc:
  "small_QueryIdentityByCccdIdResponse penc psmall m \<Longrightarrow> QueryIdentityByCccdIdResponse_Size pc m =
      int (length (enc_QueryIdentityByCccdIdResponse penc m))"
  using size_msgs_enc [of "ByIdResp_Identity m" Identity_Size enc_Identity "0xa"]
    size_opt_msg_enc [of "ByIdResp_Pagination m" "mc_Size pc" penc "0x12"]
  by (auto simp: QueryIdentityByCccdIdResponse_Size_def enc_QueryIdentityByCccdIdResponse_def 
      Identity_Size_enc embedded_size
      dest: small_QueryIdentityByCccdIdResponseD)

lemma QueryIdentityByCccdIdResponse_fills:
  "small_QueryIdentityByCccdIdResponse penc psmall m
     \<Longrightarrow> fills (QueryIdentityByCccdIdResponse_MarshalToSizedBuffer pc m)
         (enc_QueryIdentityByCccdIdResponse penc m)"
  unfolding QueryIdentityByCccdIdResponse_MarshalToSizedBuffer_def enc_QueryIdentityByCccdIdResponse_def
  by (drule small_QueryIdentityByCccdIdResponseD) (intro fills_writes writes_bind
      writes_msgs writes_opt_msg; blast intro: conjI Identity_fills
          small_Identity_def [THEN iffD1] embedded_fills embedded_fits)

lemma field_decoder_QueryIdentityByCccdIdResponse: "field_decoder
    (QueryIdentityByCccdIdResponse_field pc)"
  unfolding QueryIdentityByCccdIdResponse_field_def [abs_def]
  by (rule field_decoderI) (intro part_intros identity_codec.unmarshal_total embedded_total; simp)

lemma QueryIdentityByCccdIdResponse_reads:
  assumes "small_QueryIdentityByCccdIdResponse penc psmall m"
  shows "reads (QueryIdentityByCccdIdResponse_field pc) (enc_QueryIdentityByCccdIdResponse penc m)
      zero_QueryIdentityByCccdIdResponse m"
proof -
  note s = small_QueryIdentityByCccdIdResponseD [OF assms]
  have r0: "reads (QueryIdentityByCccdIdResponse_field pc) (enc_msgs 0xa enc_Identity
      (ByIdResp_Identity m))
      zero_QueryIdentityByCccdIdResponse
      (zero_QueryIdentityByCccdIdResponse\<lparr>ByIdResp_Identity := ByIdResp_Identity m\<rparr>)"
    using reads_msgs [of "ByIdResp_Identity m" "QueryIdentityByCccdIdResponse_field pc"
        "0xa" enc_Identity
        "\<lambda>qs. zero_QueryIdentityByCccdIdResponse\<lparr>ByIdResp_Identity := qs\<rparr>" "[]"] s
    by (simp add: zero_QueryIdentityByCccdIdResponse_def, elim meta_mp)
      (intro reads_one_len [where t = "0xa" and name = "''QueryIdentityByCccdIdResponse''" and f =
          "''Identity''"];
        simp add: QueryIdentityByCccdIdResponse_field_def identity_codec.unmarshal_enc)
  have "reads (QueryIdentityByCccdIdResponse_field pc) (enc_opt_msg 0x12 penc
      (ByIdResp_Pagination m))
      (zero_QueryIdentityByCccdIdResponse\<lparr>ByIdResp_Identity := ByIdResp_Identity m\<rparr>)
      (zero_QueryIdentityByCccdIdResponse\<lparr>ByIdResp_Identity := ByIdResp_Identity m,
          ByIdResp_Pagination := ByIdResp_Pagination m\<rparr>)"
    using s
    by (intro reads_opt_msg
        reads_one_len [where t = "0x12" and name = "''QueryIdentityByCccdIdResponse''" and f =
            "''Pagination''"])
      (simp_all add: QueryIdentityByCccdIdResponse_field_def
          zero_QueryIdentityByCccdIdResponse_def embedded_unmarshal)
  also have "zero_QueryIdentityByCccdIdResponse\<lparr>ByIdResp_Identity := ByIdResp_Identity m,
      ByIdResp_Pagination := ByIdResp_Pagination m\<rparr> = m"
    by (cases m) (simp add: zero_QueryIdentityByCccdIdResponse_def)
  finally show ?thesis
    unfolding enc_QueryIdentityByCccdIdResponse_def by (intro reads_append [OF r0])
qed

lemma QueryIdentityByCccdIdResponse_message_codec:
  "message_codec (QueryIdentityByCccdIdResponse_Marshal pc) (QueryIdentityByCccdIdResponse_Size pc)
    (QueryIdentityByCccdIdResponse_Unmarshal pc) (enc_QueryIdentityByCccdIdResponse penc)
        zero_QueryIdentityByCccdIdResponse (small_QueryIdentityByCccdIdResponse penc psmall)"
  unfolding QueryIdentityByCccdIdResponse_Marshal_def [abs_def] QueryIdentityByCccdIdResponse_Unmarshal_def
  by (intro message_codecI
      field_decoder_QueryIdentityByCccdIdResponse QueryIdentityByCccdIdResponse_Size_enc
      QueryIdentityByCccdIdResponse_fills QueryIdentityByCccdIdResponse_reads)
          (simp_all add: small_QueryIdentityByCccdIdResponse_def)

end

sublocale embedded_codec < QueryIdentityByCccdIdResponse_codec: message_codec
    "QueryIdentityByCccdIdResponse_Marshal pc"
  "QueryIdentityByCccdIdResponse_Size pc" "QueryIdentityByCccdIdResponse_Unmarshal pc"
  "enc_QueryIdentityByCccdIdResponse penc" zero_QueryIdentityByCccdIdResponse
      "small_QueryIdentityByCccdIdResponse penc psmall"
  by (rule QueryIdentityByCccdIdResponse_message_codec)

end
