(* ===== verification/Types.thy ===== *)
theory Types
  imports TxPb GenesisPb QueryPb
begin

text \<open>
  The hand-written part of \<open>x/identity/types\<close>: store keys (\<open>keys.go\<close>, \<open>key_identity.go\<close>),
  parameters (\<open>params.go\<close>), the stateless checks of the messages (\<open>messages_identity.go\<close>,
  \<open>msg_update_params.go\<close>) and of the genesis state (\<open>genesis.go\<close>).
\<close>

section \<open>Store keys\<close>

definition ModuleName :: string where
  "ModuleName = ''identity''"

definition StoreKey :: string where
  "StoreKey = ModuleName"

definition MemStoreKey :: string where
  "MemStoreKey = ''mem_identity''"

definition ParamsKey :: bytes where
  "ParamsKey = bytes_of ''p_identity''"

definition KeyPrefix :: "string \<Rightarrow> bytes" where
  "KeyPrefix p = bytes_of p"

definition IdentityKeyPrefix :: string where
  "IdentityKeyPrefix = ''Identity/value/''"

definition IdentityKey :: "string \<Rightarrow> bytes" where
  "IdentityKey address =
     (let key = []; addressBytes = bytes_of address; key = key @ addressBytes;
          key = key @ bytes_of ''/''
      in key)"

lemma IdentityKey_eq: "IdentityKey address = bytes_of (address @ ''/'')"
  by (simp add: IdentityKey_def)

lemma IdentityKey_eq_iff [simp]: "IdentityKey a = IdentityKey b \<longleftrightarrow> a = b"
  by (simp only: IdentityKey_eq bytes_of_eq_iff) simp

lemma string_of_IdentityKey [simp]: "string_of (IdentityKey a) = string_of (IdentityKey b) \<longleftrightarrow> a = b"
  by (metis IdentityKey_eq_iff bytes_of_string_of)

text \<open>No key under the identity prefix is the key of the parameters.\<close>

lemma identity_keys_not_params: "KeyPrefix IdentityKeyPrefix @ k \<noteq> ParamsKey"
  by (simp add: KeyPrefix_def IdentityKeyPrefix_def ParamsKey_def bytes_of_def byte_of_def)

lemma params_not_identity_keys: "ParamsKey \<noteq> KeyPrefix IdentityKeyPrefix @ k"
  using identity_keys_not_params by metis

section \<open>Parameters\<close>

definition NewParams :: Params where
  "NewParams = Params"

definition DefaultParams :: Params where
  "DefaultParams = NewParams"

text \<open>\<open>ParamSetPairs\<close>: the parameters a legacy subspace would store; there are none.\<close>

definition ParamSetPairs :: "Params \<Rightarrow> (bytes \<times> string) list" where
  "ParamSetPairs p = []"

definition Params_Validate :: "Params \<Rightarrow> unit res" where
  "Params_Validate p = Ok ()"

section \<open>Messages\<close>

text \<open>
  \<open>sdk.AccAddressFromBech32\<close> is the SDK's: it takes a string to the account's bytes or to an
  error, and is a parameter of every definition that calls it.
\<close>

type_synonym bech32_decoder = "string \<Rightarrow> error + bytes"

definition NewMsgCreateIdentity :: "string \<Rightarrow> string \<Rightarrow> MsgCreateIdentity" where
  "NewMsgCreateIdentity creator cccdId = \<lparr>Creator = creator, CccdId = cccdId\<rparr>"

definition MsgCreateIdentity_ValidateBasic :: "bech32_decoder \<Rightarrow> MsgCreateIdentity \<Rightarrow> unit res" where
  "MsgCreateIdentity_ValidateBasic AccAddressFromBech32 msg =
     (case AccAddressFromBech32 (Creator msg) of
        Inl err \<Rightarrow> Err (ErrInvalidAddress ''invalid creator address (%s)'' err)
      | Inr _ \<Rightarrow>
          if CccdId msg = '''' then Err (ErrInvalidRequest ''CCCD ID cannot be empty'')
          else Ok ())"

definition MsgUpdateParams_ValidateBasic :: "bech32_decoder \<Rightarrow> MsgUpdateParams \<Rightarrow> unit res" where
  "MsgUpdateParams_ValidateBasic AccAddressFromBech32 m =
     (case AccAddressFromBech32 (Authority m) of
        Inl err \<Rightarrow> Err (ErrWrapped ''invalid authority address'' err)
      | Inr _ \<Rightarrow> bind_res (Params_Validate (MsgParams m)) (\<lambda>_. Ok ()))"

lemma MsgCreateIdentity_ValidateBasic_Ok:
  "MsgCreateIdentity_ValidateBasic acc msg = Ok ()
     \<longleftrightarrow> (\<exists>a. acc (Creator msg) = Inr a) \<and> CccdId msg \<noteq> []"
  by (auto simp: MsgCreateIdentity_ValidateBasic_def split: sum.splits)

lemma MsgUpdateParams_ValidateBasic_Ok:
  "MsgUpdateParams_ValidateBasic acc m = Ok () \<longleftrightarrow> (\<exists>a. acc (Authority m) = Inr a)"
  by (auto simp: MsgUpdateParams_ValidateBasic_def Params_Validate_def split: sum.splits)

section \<open>Genesis state\<close>

definition DefaultIndex :: u64 where
  "DefaultIndex = 1"

definition DefaultGenesis :: GenesisState where
  "DefaultGenesis = \<lparr>GenesisParams = DefaultParams, IdentityList = []\<rparr>"

text \<open>The loop over the identities with the indices it has met.\<close>

fun check_duplicates :: "string set \<Rightarrow> Identity list \<Rightarrow> unit res" where
  "check_duplicates seen [] = Ok ()"
| "check_duplicates seen (elem # rest) =
     (let index = string_of (IdentityKey (Address elem)) in
      if index \<in> seen then Err (Errorf ''duplicated index for identity'' [])
      else check_duplicates (insert index seen) rest)"

definition GenesisState_Validate :: "GenesisState \<Rightarrow> unit res" where
  "GenesisState_Validate gs =
     bind_res (check_duplicates {} (IdentityList gs)) (\<lambda>_. Params_Validate (GenesisParams gs))"

lemma check_duplicates_Ok:
  "check_duplicates seen ids = Ok ()
     \<longleftrightarrow> distinct (map Address ids)
       \<and> (\<forall>i \<in> set ids. string_of (IdentityKey (Address i)) \<notin> seen)"
  by (induction seen ids rule: check_duplicates.induct) (auto simp: Let_def rev_image_eqI)

lemma GenesisState_Validate_Ok:
  "GenesisState_Validate gs = Ok () \<longleftrightarrow> distinct (map Address (IdentityList gs))"
  by (auto simp: GenesisState_Validate_def Params_Validate_def res_simps check_duplicates_Ok)

lemma check_duplicates_cases:
  "check_duplicates seen ids = Ok ()
     \<or> check_duplicates seen ids = Err (Errorf ''duplicated index for identity'' [])"
  by (induction seen ids rule: check_duplicates.induct) (auto simp: Let_def)

lemma GenesisState_Validate_Err:
  "\<not> distinct (map Address (IdentityList gs)) \<Longrightarrow>
     GenesisState_Validate gs = Err (Errorf ''duplicated index for identity'' [])"
  using check_duplicates_cases [of "{}" "IdentityList gs"] GenesisState_Validate_Ok [of gs]
  by (auto simp: GenesisState_Validate_def Params_Validate_def)

end
