(* ===== verification/Codec_Properties.thy ===== *)
theory Codec_Properties
  imports Types
begin

text \<open>
  What the generated codecs of \<open>x/identity/types\<close> promise: decoding returns on every input,
  encoding and decoding are inverse, sizes are exact and varints stay within ten bytes.
\<close>

section \<open>Decoding is total\<close>

text \<open>
  C8: \<open>Identity.Unmarshal\<close> returns on every byte string, into every message: no index is out
  of range, no loop runs for ever, whatever lengths and tags the input claims.
\<close>

theorem Identity_Unmarshal_returns: "returns (Identity_Unmarshal d m)"
  by (rule identity_codec.unmarshal_total)

text \<open>
  The same for the messages a user or a peer can send to the module's services, and for
  the genesis state.
\<close>

theorem request_Unmarshal_returns:
  "returns (MsgCreateIdentity_Unmarshal d m1) \<and> returns (MsgUpdateParams_Unmarshal d m2)
   \<and> returns (QueryGetIdentityRequest_Unmarshal d m3) \<and> returns (GenesisState_Unmarshal d m4)"
  using MsgCreateIdentity_codec.unmarshal_total MsgUpdateParams_codec.unmarshal_total
    QueryGetIdentityRequest_codec.unmarshal_total GenesisState_codec.unmarshal_total by blast

text \<open>
  \<open>skipIdentity\<close> returns on every input, and what it returns moves the decoder forward: a
  positive number that did not wrap around, however long the skipped field claims to be.
\<close>

theorem skip_field_forward: "returns (skip_field d) \<and> (skip_field d = Ok n \<longrightarrow> 0 < n \<and> n < 2 ^ 63)"
  using skip_field_returns skip_field_pos skip_field_less by blast

theorem skip_field_forward_witness:
  "skip_field [8, 150, 1] = Ok 3 \<and> 0 < (3 :: int) \<and> (3 :: int) < 2 ^ 63"
proof -
  have "skip_field [8, 150, 1] = Ok 3" by code_simp
  with skip_field_forward [of "[8, 150, 1]" 3] show ?thesis by simp
qed

section \<open>Round trips\<close>

text \<open>
  C7: An identity that is marshalled and unmarshalled into a fresh message is the same identity,
  field by field; marshalling it does not fail.
\<close>

theorem Identity_roundtrip:
  assumes "small_Identity m"
  shows "bind_res (Identity_Marshal m) (\<lambda>d. Identity_Unmarshal d zero_Identity) = Ok m"
  using assms by (rule identity_codec.codec_roundtrip)

definition example_identity :: Identity where
  "example_identity = \<lparr>Address = ''nexelra1alice'', IdHash = ''ab12'', CreatedAt = 1640995200\<rparr>"

lemma small_example: "small_Identity example_identity"
  by (rule small_IdentityI) (simp add: example_identity_def)

theorem Identity_roundtrip_witness:
  "bind_res (Identity_Marshal example_identity) (\<lambda>d. Identity_Unmarshal d zero_Identity)
     = Ok example_identity"
  by (rule Identity_roundtrip [OF small_example])

text \<open>
  Two identities with the same encoding are equal: the store cannot confuse them.
\<close>

theorem Identity_Marshal_injective:
  assumes "small_Identity m" "small_Identity m'" "Identity_Marshal m = Identity_Marshal m'"
  shows "m = m'"
  using assms by (rule identity_codec.codec_marshal_inj)

theorem Identity_Marshal_injective_witness:
  "\<exists>m m'. small_Identity m \<and> small_Identity m' \<and> Identity_Marshal m = Identity_Marshal m' \<and> m = m'"
  using Identity_Marshal_injective [OF small_example small_example refl] small_example by blast

text \<open>
  The genesis state, an embedded message and a repeated one, survives the round trip, with
  its identities in their order.
\<close>

theorem GenesisState_roundtrip:
  assumes "small_GenesisState gs"
  shows "bind_res (GenesisState_Marshal gs) (\<lambda>d. GenesisState_Unmarshal d zero_GenesisState) = Ok gs"
  using assms by (rule GenesisState_codec.codec_roundtrip)

theorem GenesisState_roundtrip_witness:
  "bind_res (GenesisState_Marshal DefaultGenesis) (\<lambda>d. GenesisState_Unmarshal d zero_GenesisState)
     = Ok DefaultGenesis"
  by (rule GenesisState_roundtrip)
    (simp add: small_GenesisState_def enc_GenesisState_def DefaultGenesis_def enc_msgs_def fits_def
      length_enc_len enc_Params_def uvarint_small)

text \<open>
  Both messages of the \<open>Msg\<close> service survive the round trip.
\<close>

theorem Msg_roundtrip:
  assumes "small_MsgCreateIdentity m" "small_MsgUpdateParams u"
  shows "bind_res (MsgCreateIdentity_Marshal m)
      (\<lambda>d. MsgCreateIdentity_Unmarshal d zero_MsgCreateIdentity) = Ok m
    \<and> bind_res (MsgUpdateParams_Marshal u)
      (\<lambda>d. MsgUpdateParams_Unmarshal d zero_MsgUpdateParams) = Ok u"
  using MsgCreateIdentity_codec.codec_roundtrip [OF assms(1)]
    MsgUpdateParams_codec.codec_roundtrip [OF assms(2)] by auto

theorem Msg_roundtrip_witness:
  "bind_res (MsgCreateIdentity_Marshal (NewMsgCreateIdentity ''a'' ''7''))
      (\<lambda>d. MsgCreateIdentity_Unmarshal d zero_MsgCreateIdentity) = Ok (NewMsgCreateIdentity ''a'' ''7'')"
proof -
  have "small_MsgCreateIdentity (NewMsgCreateIdentity ''a'' ''7'')"
    by (simp add: small_MsgCreateIdentity_def enc_MsgCreateIdentity_def NewMsgCreateIdentity_def
        fits_def enc_str_def length_enc_len uvarint_small)
  moreover have "small_MsgUpdateParams zero_MsgUpdateParams"
    by (simp add: small_MsgUpdateParams_def enc_MsgUpdateParams_def zero_MsgUpdateParams_def
        fits_def enc_str_def enc_Params_def length_enc_len uvarint_small)
  ultimately show ?thesis using Msg_roundtrip by blast
qed

text \<open>
  The paginated response, a list of identities and the page response of the SDK, survives the
  round trip for every page codec that keeps the contract of a generated message.
\<close>

theorem QueryAllIdentityResponse_roundtrip:
  assumes "embedded_codec pc penc psmall" "small_QueryAllIdentityResponse penc psmall m"
  shows "bind_res (QueryAllIdentityResponse_Marshal pc m)
    (\<lambda>d. QueryAllIdentityResponse_Unmarshal pc d zero_QueryAllIdentityResponse) = Ok m"
  by (rule message_codec.codec_roundtrip
      [OF embedded_codec.QueryAllIdentityResponse_message_codec [OF assms(1)] assms(2)])

theorem QueryAllIdentityResponse_roundtrip_witness:
  "\<exists>m :: Identity QueryAllIdentityResponse. AllResp_Identity m \<noteq> [] \<and> AllResp_Pagination m \<noteq> None
    \<and> bind_res (QueryAllIdentityResponse_Marshal Identity_msg_codec m)
      (\<lambda>d. QueryAllIdentityResponse_Unmarshal Identity_msg_codec d zero_QueryAllIdentityResponse) = Ok m"
proof -
  let ?m = "\<lparr>AllResp_Identity = [zero_Identity], AllResp_Pagination = Some zero_Identity\<rparr>"
  have e: "enc_Identity zero_Identity = []"
    by (simp add: enc_Identity_def zero_Identity_def enc_str_def enc_opt_int_def)
  then have "small_QueryAllIdentityResponse enc_Identity small_Identity ?m"
    by (simp add: small_QueryAllIdentityResponse_def enc_QueryAllIdentityResponse_def enc_msgs_def
        enc_opt_msg_def small_Identity_def fits_def length_enc_len uvarint_small)
  from QueryAllIdentityResponse_roundtrip [OF identity_embedded.embedded_codec_axioms this] show ?thesis
    by (intro exI [of _ ?m]) simp
qed

section \<open>Sizes\<close>

text \<open>
  \<open>Size\<close> is exactly the number of bytes \<open>Marshal\<close> produces, which is why the buffer that
  \<open>MarshalToSizedBuffer\<close> fills from its end has no gap at its start.
\<close>

theorem Identity_Size_exact:
  assumes "small_Identity m"
  shows "\<exists>d. Identity_Marshal m = Ok d \<and> Identity_Size m = int (length d)"
  using identity_codec.marshal_enc [OF assms] identity_codec.msize_enc [OF assms] by blast

theorem Identity_Size_exact_witness:
  "\<exists>d. Identity_Marshal example_identity = Ok d \<and> Identity_Size example_identity = int (length d)"
  by (rule Identity_Size_exact [OF small_example])

text \<open>
  \<open>MarshalTo\<close> writes the encoding at the start of any buffer that is long enough and leaves
  the rest of the buffer alone.
\<close>

theorem Identity_MarshalTo_prefix:
  assumes "small_Identity m" "length (enc_Identity m) \<le> length d" "fits d"
  shows "Identity_MarshalTo m d
    = Ok (enc_Identity m @ drop (length (enc_Identity m)) d, int (length (enc_Identity m)))"
  unfolding Identity_MarshalTo_def Identity_Size_enc [OF assms(1)]
  by (rule marshal_to_enc [OF Identity_fills [OF assms(1)] assms(2,3)])

theorem Identity_MarshalTo_prefix_witness:
  "Identity_MarshalTo zero_Identity [1, 2] = Ok ([1, 2], 0)"
proof -
  have e: "enc_Identity zero_Identity = []"
    by (simp add: enc_Identity_def zero_Identity_def enc_str_def enc_opt_int_def)
  have "small_Identity zero_Identity" by (simp add: small_Identity_def e fits_def)
  from Identity_MarshalTo_prefix [OF this, of "[1, 2]"] show ?thesis by (simp add: e fits_def)
qed

text \<open>
  \<open>sovIdentity\<close> computes the number of bytes of a varint without writing it; it lies between
  one and ten for every 64-bit value.
\<close>

theorem sov_exact: "sov v = int (length (uvarint v)) \<and> 1 \<le> sov v \<and> sov v \<le> 10"
  using length_uvarint_le [of v] uvarint_not_Nil [of v]
  by (simp add: sov_uvarint Suc_le_eq)

text \<open>
  \<open>encodeVarintIdentity\<close> with room for the varint before the offset writes exactly that
  varint there, returns where it starts, and the decoders' loop reads the value back.
\<close>

theorem encodeVarint_roundtrip:
  assumes "length (uvarint v) \<le> n" "n \<le> length d" "fits d"
  shows "\<exists>d' base. encodeVarint d (int n) v = Ok (d', base) \<and> length d' = length d
    \<and> varint_load d' base 0 0 = Ok (v, int n)
    \<and> take (nat base) d' = take (nat base) d \<and> drop n d' = drop n d"
proof -
  let ?u = "uvarint v" and ?p = "take (n - length (uvarint v)) d"
  have e: "encodeVarint d (int n) v = Ok (?p @ ?u @ drop n d, int (n - length ?u))"
    using put_varint_prep [of "(d, int n)" v] assms(1,2)
    by (simp add: put_varint_def of_nat_diff)
  have p: "length ?p = n - length ?u" using assms(1,2) by simp
  have "fits (?p @ ?u @ drop n d)" using assms p by (simp add: fits_def)
  from varint_load_here [OF this] p assms(1)
  have "varint_load (?p @ ?u @ drop n d) (int (n - length ?u)) 0 0 = Ok (v, int n)" by simp
  with e p assms(1,2) show ?thesis
    by (intro exI [of _ "?p @ ?u @ drop n d"] exI [of _ "int (n - length ?u)"]) (simp add: min_def)
qed

theorem encodeVarint_roundtrip_witness:
  "\<exists>d' base. encodeVarint [0, 0, 0] 2 150 = Ok (d', base) \<and> varint_load d' base 0 0 = Ok (150, 2)"
proof -
  have "length (uvarint 150) = 2" by code_simp
  with encodeVarint_roundtrip [of 150 2 "[0, 0, 0]"] show ?thesis by (auto simp: fits_def)
qed

end
