(* ===== verification/Store.thy ===== *)
theory Store
  imports Types "HOL-Library.AList" "HOL-Library.List_Lexorder"
begin

text \<open>
  What the keeper stands on: the key-value store of \<open>cosmossdk.io/store\<close> with its prefix
  views, and the binary codec of the SDK. Both are outside the repository; their operations
  are parameters (the records below) and their documented behaviour is \<open>kv_lawful\<close> and
  \<open>cdc_lawful\<close>. An in-memory store and the codec that calls the generated functions satisfy
  them. The contract the module's store offers to its clients is the locale
  \<open>identity_store\<close>, with \<open>module_store\<close> extending it by the parameters.
\<close>

section \<open>The key-value store\<close>

text \<open>
  \<open>kv_get\<close>, \<open>kv_set\<close> and \<open>kv_delete\<close> work on the module's store, the \<open>pfx_\<close> operations on
  \<open>prefix.NewStore\<close> of it. \<open>pfx_iter\<close> lists what \<open>KVStorePrefixIterator\<close> over such a prefix
  store with an empty prefix yields.
\<close>

record 's kv_ops =
  kv_get :: "'s \<Rightarrow> bytes \<Rightarrow> bytes option"
  kv_set :: "'s \<Rightarrow> bytes \<Rightarrow> bytes \<Rightarrow> 's"
  kv_delete :: "'s \<Rightarrow> bytes \<Rightarrow> 's"
  pfx_get :: "'s \<Rightarrow> bytes \<Rightarrow> bytes \<Rightarrow> bytes option"
  pfx_set :: "'s \<Rightarrow> bytes \<Rightarrow> bytes \<Rightarrow> bytes \<Rightarrow> 's"
  pfx_delete :: "'s \<Rightarrow> bytes \<Rightarrow> bytes \<Rightarrow> 's"
  pfx_iter :: "'s \<Rightarrow> bytes \<Rightarrow> (bytes \<times> bytes) list"

definition kv_lawful :: "'s kv_ops \<Rightarrow> bool" where
  "kv_lawful ops \<longleftrightarrow>
     (\<forall>s k v k'. kv_get ops (kv_set ops s k v) k' = (if k' = k then Some v else kv_get ops s k'))
   \<and> (\<forall>s k k'. kv_get ops (kv_delete ops s k) k' = (if k' = k then None else kv_get ops s k'))
   \<and> (\<forall>s p k. pfx_get ops s p k = kv_get ops s (p @ k))
   \<and> (\<forall>s p k v. pfx_set ops s p k v = kv_set ops s (p @ k) v)
   \<and> (\<forall>s p k. pfx_delete ops s p k = kv_delete ops s (p @ k))
   \<and> (\<forall>s p. sorted_wrt (<) (map fst (pfx_iter ops s p)))
   \<and> (\<forall>s p. set (pfx_iter ops s p) = {(k, v). kv_get ops s (p @ k) = Some v})"

lemma kv_lawfulD:
  assumes "kv_lawful ops"
  shows "kv_get ops (kv_set ops s k v) k' = (if k' = k then Some v else kv_get ops s k')"
    and "kv_get ops (kv_delete ops s k) k' = (if k' = k then None else kv_get ops s k')"
    and "pfx_get ops s p k = kv_get ops s (p @ k)"
    and "pfx_set ops s p k v = kv_set ops s (p @ k) v"
    and "pfx_delete ops s p k = kv_delete ops s (p @ k)"
    and "sorted_wrt (<) (map fst (pfx_iter ops s p))"
    and "(k, v) \<in> set (pfx_iter ops s p) \<longleftrightarrow> kv_get ops s (p @ k) = Some v"
  using assms by (simp_all add: kv_lawful_def)

text \<open>An in-memory store: an association list, iterated in the order of its keys.\<close>

type_synonym mem_store = "(bytes \<times> bytes) list"

definition mem_keys :: "mem_store \<Rightarrow> bytes \<Rightarrow> bytes list" where
  "mem_keys s p = sort (remdups (map (drop (length p))
     (filter (\<lambda>k. take (length p) k = p) (map fst s))))"

definition mem_kv :: "mem_store kv_ops" where
  "mem_kv = \<lparr>
     kv_get = map_of,
     kv_set = (\<lambda>s k v. AList.update k v s),
     kv_delete = (\<lambda>s k. AList.delete k s),
     pfx_get = (\<lambda>s p k. map_of s (p @ k)),
     pfx_set = (\<lambda>s p k v. AList.update (p @ k) v s),
     pfx_delete = (\<lambda>s p k. AList.delete (p @ k) s),
     pfx_iter = (\<lambda>s p. map (\<lambda>k. (k, the (map_of s (p @ k)))) (mem_keys s p))\<rparr>"

lemma set_mem_keys: "k \<in> set (mem_keys s p) \<longleftrightarrow> p @ k \<in> fst ` set s"
proof
  assume "k \<in> set (mem_keys s p)"
  then obtain k' where k': "k' \<in> fst ` set s" "take (length p) k' = p" "k = drop (length p) k'"
    by (auto simp: mem_keys_def)
  then have "p @ k = k'" by (metis append_take_drop_id)
  with k' show "p @ k \<in> fst ` set s" by simp
next
  assume "p @ k \<in> fst ` set s"
  then have "drop (length p) (p @ k) \<in> drop (length p) ` {k' \<in> fst ` set s. take (length p) k' = p}"
    by (intro imageI) simp
  then show "k \<in> set (mem_keys s p)" by (simp add: mem_keys_def)
qed

lemma mem_kv_lawful: "kv_lawful mem_kv"
proof -
  have "sorted_wrt (<) (mem_keys s p)" for s p
    by (simp add: strict_sorted_iff mem_keys_def)
  moreover have "set (map (\<lambda>k. (k, the (map_of s (p @ k)))) (mem_keys s p))
      = {(k, v). map_of s (p @ k) = Some v}" for s p
  proof -
    have "p @ k \<in> fst ` set s \<longleftrightarrow> (\<exists>v. map_of s (p @ k) = Some v)" for k
      by (simp add: dom_map_of_conv_image_fst [symmetric] dom_def)
    then show ?thesis by (auto simp: set_mem_keys image_iff)
  qed
  ultimately show ?thesis
    by (simp add: kv_lawful_def mem_kv_def update_conv' delete_conv' comp_def)
qed

section \<open>The binary codec\<close>

record binary_codec =
  cdc_Marshal_Identity :: "Identity \<Rightarrow> bytes res"
  cdc_Unmarshal_Identity :: "bytes \<Rightarrow> Identity \<Rightarrow> Identity res"
  cdc_Marshal_Params :: "Params \<Rightarrow> bytes res"
  cdc_Unmarshal_Params :: "bytes \<Rightarrow> Params \<Rightarrow> Params res"

text \<open>\<open>ProtoCodec\<close> calls the functions generated for the message.\<close>

definition proto_codec :: binary_codec where
  "proto_codec = \<lparr>cdc_Marshal_Identity = Identity_Marshal,
     cdc_Unmarshal_Identity = Identity_Unmarshal,
     cdc_Marshal_Params = Params_Marshal, cdc_Unmarshal_Params = Params_Unmarshal\<rparr>"

definition cdc_lawful :: "binary_codec \<Rightarrow> bool" where
  "cdc_lawful c \<longleftrightarrow>
     (\<forall>i. cdc_Marshal_Identity c i = Identity_Marshal i)
   \<and> (\<forall>b. cdc_Unmarshal_Identity c b zero_Identity = Identity_Unmarshal b zero_Identity)
   \<and> (\<forall>p. cdc_Marshal_Params c p = Params_Marshal p)
   \<and> (\<forall>b. cdc_Unmarshal_Params c b Params = Params_Unmarshal b Params)"

lemma proto_codec_lawful: "cdc_lawful proto_codec"
  by (simp add: cdc_lawful_def proto_codec_def)

text \<open>\<open>MustMarshal\<close> and \<open>MustUnmarshal\<close> turn an error into a panic.\<close>

fun must :: "'a res \<Rightarrow> 'a res" where
  "must (Err e) = Panic"
| "must r = r"

section \<open>The contract of the module's store\<close>

text \<open>
  Clients see the store as a map from addresses to identities: \<open>lookup\<close> is that view, and
  every operation is described by what it does to it.
\<close>

locale identity_store =
  fixes put :: "'s \<Rightarrow> Identity \<Rightarrow> 's res"
    and get :: "'s \<Rightarrow> string \<Rightarrow> (Identity \<times> bool) res"
    and remove :: "'s \<Rightarrow> string \<Rightarrow> 's"
    and all :: "'s \<Rightarrow> Identity list res"
    and inv :: "'s \<Rightarrow> bool"
    and lookup :: "'s \<Rightarrow> string \<Rightarrow> Identity option"
  assumes put_Ok: "inv s \<Longrightarrow> small_Identity i \<Longrightarrow>
      \<exists>s'. put s i = Ok s' \<and> inv s' \<and> lookup s' = (lookup s)(Address i \<mapsto> i)"
    and remove_inv: "inv s \<Longrightarrow> inv (remove s a)"
    and lookup_remove: "inv s \<Longrightarrow> lookup (remove s a) = (lookup s)(a := None)"
    and get_lookup: "inv s \<Longrightarrow> get s a =
      (case lookup s a of None \<Rightarrow> Ok (zero_Identity, False) | Some i \<Rightarrow> Ok (i, True))"
    and lookup_own: "inv s \<Longrightarrow> lookup s a = Some i \<Longrightarrow> Address i = a \<and> small_Identity i"
    and all_Ok: "inv s \<Longrightarrow> \<exists>l. all s = Ok l \<and> set l = ran (lookup s)
      \<and> sorted_wrt (<) (map (IdentityKey \<circ> Address) l)"
begin

lemma put_OkE:
  assumes "inv s" "small_Identity i"
  obtains s' where "put s i = Ok s'" "inv s'" "lookup s' = (lookup s)(Address i \<mapsto> i)"
  using put_Ok [OF assms] by blast

lemma get_after_put:
  assumes "inv s" "small_Identity i" "put s i = Ok s'"
  shows "get s' a = (if a = Address i then Ok (i, True) else get s a)"
  using put_Ok [OF assms(1,2)] assms by (auto simp: get_lookup)

lemma get_after_remove:
  assumes "inv s"
  shows "get (remove s a) b = (if b = a then Ok (zero_Identity, False) else get s b)"
  using assms by (simp add: get_lookup remove_inv lookup_remove)

lemma get_returns: "inv s \<Longrightarrow> \<exists>i found. get s a = Ok (i, found)"
  by (cases "lookup s a") (auto simp: get_lookup)

lemma found_iff: "inv s \<Longrightarrow> get s a = Ok (i, True) \<longleftrightarrow> lookup s a = Some i"
  by (auto simp: get_lookup split: option.splits)

lemma all_OkE:
  assumes "inv s"
  obtains l where "all s = Ok l" "set l = ran (lookup s)"
    "sorted_wrt (<) (map (IdentityKey \<circ> Address) l)"
  using all_Ok [OF assms] by blast

lemma all_distinct: "inv s \<Longrightarrow> all s = Ok l \<Longrightarrow> distinct (map Address l)"
  using all_Ok [of s] by (auto simp: strict_sorted_iff distinct_map inj_on_def)

lemma all_members: "inv s \<Longrightarrow> all s = Ok l \<Longrightarrow> i \<in> set l \<longleftrightarrow> get s (Address i) = Ok (i, True)"
  using all_Ok [of s] lookup_own [of s] by (auto simp: found_iff ran_def)

text \<open>The list is determined by the map: it is the only strictly ascending one.\<close>

lemma all_determined:
  assumes "inv s" "inv s'" "lookup s = lookup s'"
  shows "all s = all s'"
proof -
  obtain l l' where l: "all s = Ok l" "set l = ran (lookup s)" "sorted_wrt (<) (map (IdentityKey \<circ> Address) l)"
    and l': "all s' = Ok l'" "set l' = ran (lookup s)" "sorted_wrt (<) (map (IdentityKey \<circ> Address) l')"
    using all_Ok [OF assms(1)] all_Ok [OF assms(2)] assms(3) by metis
  have "map (IdentityKey \<circ> Address) l = map (IdentityKey \<circ> Address) l'"
    using l l' by (intro sorted_distinct_set_unique) (auto simp: strict_sorted_iff)
  moreover have "inj_on (IdentityKey \<circ> Address) (set l \<union> set l')"
    using lookup_own [OF assms(1)] l(2) l'(2) by (fastforce simp: inj_on_def ran_def)
  ultimately have "l = l'" by (rule map_inj_on)
  with l l' show ?thesis by simp
qed

end

text \<open>A sequence of writes, which stops at the first that fails.\<close>

fun put_all :: "('s \<Rightarrow> Identity \<Rightarrow> 's res) \<Rightarrow> 's \<Rightarrow> Identity list \<Rightarrow> 's res" where
  "put_all put s [] = Ok s"
| "put_all put s (i # is) = bind_res (put s i) (\<lambda>s. put_all put s is)"

context identity_store
begin

lemma put_all_Ok:
  assumes "inv s" "\<forall>i \<in> set is. small_Identity i"
  shows "\<exists>s'. put_all put s is = Ok s' \<and> inv s'
    \<and> lookup s' = lookup s ++ map_of (rev (map (\<lambda>i. (Address i, i)) is))"
  using assms
proof (induction "is" arbitrary: s)
  case (Cons i "is")
  then obtain t where t: "put s i = Ok t" "inv t" "lookup t = (lookup s)(Address i \<mapsto> i)"
    using put_OkE [of s i] by auto
  from Cons.IH [OF t(2)] Cons.prems obtain s' where "put_all put t is = Ok s'" "inv s'"
      "lookup s' = lookup t ++ map_of (rev (map (\<lambda>i. (Address i, i)) is))" by auto
  with t show ?case by auto
qed simp

text \<open>With distinct addresses, starting from nothing, the map holds exactly the list.\<close>

lemma put_all_ran:
  assumes "inv s" "lookup s = Map.empty" "\<forall>i \<in> set is. small_Identity i" "distinct (map Address is)"
    and "put_all put s is = Ok s'"
  shows "inv s' \<and> ran (lookup s') = set is"
proof -
  let ?m = "rev (map (\<lambda>i. (Address i, i)) is)"
  have "distinct (map fst ?m)" using assms(4) by (simp add: rev_map [symmetric] comp_def)
  then have "ran (map_of ?m) = set is" by (simp add: ran_distinct image_comp comp_def)
  with put_all_Ok [OF assms(1,3)] assms(2,5) show ?thesis by auto
qed

end

section \<open>With the parameters\<close>

locale module_store = identity_store put get remove all inv lookup
  for put :: "'s \<Rightarrow> Identity \<Rightarrow> 's res"
    and get remove all inv lookup +
  fixes set_params :: "'s \<Rightarrow> Params \<Rightarrow> 's res"
    and get_params :: "'s \<Rightarrow> Params res"
  assumes set_params_Ok: "inv s \<Longrightarrow> \<exists>s'. set_params s p = Ok s' \<and> inv s' \<and> lookup s' = lookup s
      \<and> get_params s' = Ok p"
    and get_params_Ok: "inv s \<Longrightarrow> get_params s = Ok Params"

end
