(* ===== verification/Keeper.thy ===== *)
theory Keeper
  imports Store
begin

text \<open>
  \<open>x/identity/keeper/keeper.go\<close>, \<open>identity.go\<close> and \<open>params.go\<close>: the keeper and its operations
  on the module's store. The context of the code carries the store; here the store is an
  argument, and an operation that writes returns the new one. A keeper over a lawful store
  and codec satisfies the contracts of theory \<open>Store\<close>. The logger is left out.
\<close>

section \<open>The keeper\<close>

record 's Keeper =
  cdc :: binary_codec
  storeService :: "'s kv_ops"
  authority :: string

definition NewKeeper ::
    "bech32_decoder \<Rightarrow> binary_codec \<Rightarrow> 's kv_ops \<Rightarrow> string \<Rightarrow> 's Keeper res" where
  "NewKeeper AccAddressFromBech32 c service auth =
     (case AccAddressFromBech32 auth of
        Inl err \<Rightarrow> Panic
      | Inr _ \<Rightarrow> Ok \<lparr>cdc = c, storeService = service, authority = auth\<rparr>)"

definition GetAuthority :: "'s Keeper \<Rightarrow> string" where
  "GetAuthority k = authority k"

section \<open>Identities\<close>

definition SetIdentity :: "'s Keeper \<Rightarrow> 's \<Rightarrow> Identity \<Rightarrow> 's res" where
  "SetIdentity k s identity =
     (let store = pfx_set (storeService k) s (KeyPrefix IdentityKeyPrefix) in
      bind_res (must (cdc_Marshal_Identity (cdc k) identity)) (\<lambda>b.
        Ok (store (IdentityKey (Address identity)) b)))"

definition GetIdentity :: "'s Keeper \<Rightarrow> 's \<Rightarrow> string \<Rightarrow> (Identity \<times> bool) res" where
  "GetIdentity k s address =
     (let val = zero_Identity;
          b = pfx_get (storeService k) s (KeyPrefix IdentityKeyPrefix) (IdentityKey address)
      in case b of
           None \<Rightarrow> Ok (val, False)
         | Some b \<Rightarrow> bind_res (must (cdc_Unmarshal_Identity (cdc k) b val)) (\<lambda>val. Ok (val, True)))"

definition RemoveIdentity :: "'s Keeper \<Rightarrow> 's \<Rightarrow> string \<Rightarrow> 's" where
  "RemoveIdentity k s address =
     pfx_delete (storeService k) s (KeyPrefix IdentityKeyPrefix) (IdentityKey address)"

text \<open>The loop over the iterator, which decodes every value into a fresh \<open>Identity\<close>.\<close>

fun decode_entries :: "binary_codec \<Rightarrow> (bytes \<times> bytes) list \<Rightarrow> Identity list \<Rightarrow> Identity list res" where
  "decode_entries c [] list = Ok list"
| "decode_entries c ((key, value) # rest) list =
     bind_res (must (cdc_Unmarshal_Identity c value zero_Identity)) (\<lambda>val.
       decode_entries c rest (list @ [val]))"

definition GetAllIdentity :: "'s Keeper \<Rightarrow> 's \<Rightarrow> Identity list res" where
  "GetAllIdentity k s =
     decode_entries (cdc k) (pfx_iter (storeService k) s (KeyPrefix IdentityKeyPrefix)) []"

section \<open>Parameters\<close>

definition GetParams :: "'s Keeper \<Rightarrow> 's \<Rightarrow> Params res" where
  "GetParams k s =
     (let params = Params in
      case kv_get (storeService k) s ParamsKey of
        None \<Rightarrow> Ok params
      | Some bz \<Rightarrow> must (cdc_Unmarshal_Params (cdc k) bz params))"

definition SetParams :: "'s Keeper \<Rightarrow> 's \<Rightarrow> Params \<Rightarrow> 's res" where
  "SetParams k s params =
     bind_res (cdc_Marshal_Params (cdc k) params) (\<lambda>bz.
       Ok (kv_set (storeService k) s ParamsKey bz))"

section \<open>The invariant of the store and its abstract view\<close>

text \<open>
  Every entry under the identity prefix is the encoding of an identity, stored under the key
  of its own address; the parameters, if stored, are an encoding of \<open>Params\<close>.
\<close>

abbreviation identity_entry :: "'s Keeper \<Rightarrow> 's \<Rightarrow> bytes \<Rightarrow> bytes option" where
  "identity_entry k s key \<equiv> kv_get (storeService k) s (KeyPrefix IdentityKeyPrefix @ key)"

definition keeper_ok :: "'s Keeper \<Rightarrow> bool" where
  "keeper_ok k \<longleftrightarrow> kv_lawful (storeService k) \<and> cdc_lawful (cdc k)"

definition store_wf :: "'s Keeper \<Rightarrow> 's \<Rightarrow> bool" where
  "store_wf k s \<longleftrightarrow>
     (\<forall>key v. identity_entry k s key = Some v \<longrightarrow>
        (\<exists>i. small_Identity i \<and> key = IdentityKey (Address i) \<and> v = enc_Identity i))
   \<and> (\<forall>v. kv_get (storeService k) s ParamsKey = Some v \<longrightarrow> v = enc_Params Params)"

definition keeper_inv :: "'s Keeper \<Rightarrow> 's \<Rightarrow> bool" where
  "keeper_inv k s \<longleftrightarrow> keeper_ok k \<and> store_wf k s"

definition identities :: "'s Keeper \<Rightarrow> 's \<Rightarrow> string \<Rightarrow> Identity option" where
  "identities k s address =
     (case identity_entry k s (IdentityKey address) of
        None \<Rightarrow> None
      | Some b \<Rightarrow> (case Identity_Unmarshal b zero_Identity of Ok i \<Rightarrow> Some i | _ \<Rightarrow> None))"

lemma keeper_invD:
  assumes "keeper_inv k s"
  shows "kv_lawful (storeService k)" "cdc_lawful (cdc k)" "store_wf k s"
  using assms by (auto simp: keeper_inv_def keeper_ok_def)

lemma cdc_lawfulD:
  assumes "cdc_lawful c"
  shows "cdc_Marshal_Identity c i = Identity_Marshal i"
    and "cdc_Unmarshal_Identity c b zero_Identity = Identity_Unmarshal b zero_Identity"
    and "cdc_Marshal_Params c p = Params_Marshal p"
    and "cdc_Unmarshal_Params c b Params = Params_Unmarshal b Params"
  using assms by (simp_all add: cdc_lawful_def)

lemma store_entryE:
  assumes "store_wf k s" "identity_entry k s key = Some v"
  obtains i where "small_Identity i" "key = IdentityKey (Address i)" "v = enc_Identity i"
  using assms unfolding store_wf_def by blast

lemma identities_entry:
  assumes "store_wf k s"
  shows "identities k s a = Some i \<longleftrightarrow>
    identity_entry k s (IdentityKey a) = Some (enc_Identity i) \<and> small_Identity i \<and> Address i = a"
proof
  assume "identities k s a = Some i"
  then obtain b where b: "identity_entry k s (IdentityKey a) = Some b"
      and i: "Identity_Unmarshal b zero_Identity = Ok i"
    by (auto simp: identities_def split: option.splits res.splits)
  from store_entryE [OF assms b] obtain j
    where "small_Identity j" "IdentityKey a = IdentityKey (Address j)" "b = enc_Identity j" .
  with b i identity_codec.unmarshal_enc [of j] show
    "identity_entry k s (IdentityKey a) = Some (enc_Identity i) \<and> small_Identity i \<and> Address i = a"
    by auto
qed (auto simp: identities_def identity_codec.unmarshal_enc)

lemma identities_None:
  assumes "store_wf k s"
  shows "identities k s a = None \<longleftrightarrow> identity_entry k s (IdentityKey a) = None"
proof (cases "identity_entry k s (IdentityKey a)")
  case (Some b)
  from store_entryE [OF assms Some] obtain i
    where "small_Identity i" "IdentityKey a = IdentityKey (Address i)" "b = enc_Identity i" .
  with Some show ?thesis by (simp add: identities_def identity_codec.unmarshal_enc)
qed (simp add: identities_def)

text \<open>An identity and its entry under the prefix correspond one to one.\<close>

lemma identities_change:
  assumes "store_wf k s" "store_wf k s'"
    and "\<And>a. identity_entry k s' (IdentityKey a)
      = (if a = b then map_option enc_Identity oi else identity_entry k s (IdentityKey a))"
    and "\<And>i. oi = Some i \<Longrightarrow> small_Identity i \<and> Address i = b"
  shows "identities k s' = (identities k s)(b := oi)"
proof
  fix a show "identities k s' a = ((identities k s)(b := oi)) a"
  proof (cases "a = b")
    case True
    with assms(3) [of b] assms(4) show ?thesis
      by (cases oi) (auto simp: identities_entry [OF assms(2)] identities_None [OF assms(2)])
  next
    case False
    with assms(3) [of a] have "identity_entry k s' (IdentityKey a) = identity_entry k s (IdentityKey a)"
      by simp
    with False show ?thesis by (simp add: identities_def)
  qed
qed

section \<open>Every operation against the abstract view\<close>

lemma SetIdentity_eq:
  assumes "keeper_inv k s" "small_Identity i"
  shows "SetIdentity k s i = Ok (kv_set (storeService k) s
    (KeyPrefix IdentityKeyPrefix @ IdentityKey (Address i)) (enc_Identity i))"
  using assms keeper_invD [OF assms(1)]
  by (simp add: SetIdentity_def cdc_lawfulD kv_lawfulD identity_codec.marshal_enc)

lemma SetIdentity_Ok:
  assumes "keeper_inv k s" "small_Identity i"
  shows "\<exists>s'. SetIdentity k s i = Ok s' \<and> keeper_inv k s'
    \<and> identities k s' = (identities k s)(Address i \<mapsto> i)"
proof -
  note k = keeper_invD [OF assms(1)]
  let ?s' = "kv_set (storeService k) s (KeyPrefix IdentityKeyPrefix @ IdentityKey (Address i)) (enc_Identity i)"
  have entry: "identity_entry k ?s' key =
      (if key = IdentityKey (Address i) then Some (enc_Identity i) else identity_entry k s key)" for key
    by (simp add: kv_lawfulD [OF k(1)])
  have wf: "store_wf k ?s'"
    using k(3) assms(2) unfolding store_wf_def entry
    by (auto simp: kv_lawfulD [OF k(1)] params_not_identity_keys)
  moreover have "identities k ?s' = (identities k s)(Address i \<mapsto> i)"
    using assms(2) by (intro identities_change [OF k(3) wf]) (auto simp: entry)
  ultimately show ?thesis
    using SetIdentity_eq [OF assms] assms(1) by (auto simp: keeper_inv_def)
qed

lemma RemoveIdentity_wf:
  assumes "keeper_inv k s"
  shows "keeper_inv k (RemoveIdentity k s a)
    \<and> identities k (RemoveIdentity k s a) = (identities k s)(a := None)"
proof -
  note k = keeper_invD [OF assms]
  let ?s' = "RemoveIdentity k s a"
  have entry: "identity_entry k ?s' key =
      (if key = IdentityKey a then None else identity_entry k s key)" for key
    by (simp add: RemoveIdentity_def kv_lawfulD [OF k(1)])
  have "kv_get (storeService k) ?s' ParamsKey = kv_get (storeService k) s ParamsKey"
    by (simp add: RemoveIdentity_def kv_lawfulD [OF k(1)] params_not_identity_keys)
  then have wf: "store_wf k ?s'"
    using k(3) unfolding store_wf_def entry by auto
  have "identities k ?s' = (identities k s)(a := None)"
    by (intro identities_change [OF k(3) wf]) (auto simp: entry)
  with wf assms show ?thesis by (simp add: keeper_inv_def)
qed

lemma GetIdentity_identities:
  assumes "keeper_inv k s"
  shows "GetIdentity k s a = (case identities k s a of
    None \<Rightarrow> Ok (zero_Identity, False) | Some i \<Rightarrow> Ok (i, True))"
proof -
  note k = keeper_invD [OF assms]
  show ?thesis
  proof (cases "identities k s a")
    case None
    then have "identity_entry k s (IdentityKey a) = None" using identities_None [OF k(3)] by simp
    with None show ?thesis by (simp add: GetIdentity_def kv_lawfulD [OF k(1)])
  next
    case (Some i)
    then have "identity_entry k s (IdentityKey a) = Some (enc_Identity i)" "small_Identity i"
      using identities_entry [OF k(3)] by simp_all
    with Some show ?thesis
      by (simp add: GetIdentity_def kv_lawfulD [OF k(1)] cdc_lawfulD [OF k(2)] identity_codec.unmarshal_enc)
  qed
qed

lemma decode_entries_enc:
  assumes "cdc_lawful c"
    and "\<forall>(key, v) \<in> set es. \<exists>i. small_Identity i \<and> key = IdentityKey (Address i) \<and> v = enc_Identity i"
  shows "\<exists>l. decode_entries c es acc = Ok (acc @ l) \<and> (\<forall>i \<in> set l. small_Identity i)
    \<and> es = map (\<lambda>i. (IdentityKey (Address i), enc_Identity i)) l"
  using assms(2)
proof (induction es arbitrary: acc)
  case (Cons e es)
  obtain key v where e: "e = (key, v)" by (cases e)
  with Cons.prems obtain i
    where i: "small_Identity i" "key = IdentityKey (Address i)" "v = enc_Identity i" by auto
  from Cons.IH [of "acc @ [i]"] Cons.prems obtain l
    where l: "decode_entries c es (acc @ [i]) = Ok ((acc @ [i]) @ l)" "\<forall>i \<in> set l. small_Identity i"
      "es = map (\<lambda>i. (IdentityKey (Address i), enc_Identity i)) l" by auto
  show ?case
    by (rule exI [of _ "i # l"])
      (use i l in \<open>simp add: e cdc_lawfulD [OF assms(1)] identity_codec.unmarshal_enc\<close>)
qed simp

lemma GetAllIdentity_Ok:
  assumes "keeper_inv k s"
  shows "\<exists>l. GetAllIdentity k s = Ok l \<and> set l = ran (identities k s)
    \<and> sorted_wrt (<) (map (IdentityKey \<circ> Address) l)"
proof -
  note k = keeper_invD [OF assms]
  let ?es = "pfx_iter (storeService k) s (KeyPrefix IdentityKeyPrefix)"
  have mem: "(key, v) \<in> set ?es \<longleftrightarrow> identity_entry k s key = Some v" for key v
    by (rule kv_lawfulD [OF k(1)])
  have "\<forall>(key, v) \<in> set ?es. \<exists>i. small_Identity i \<and> key = IdentityKey (Address i) \<and> v = enc_Identity i"
    using k(3) by (auto simp: mem store_wf_def)
  from decode_entries_enc [OF k(2) this, of "[]"] obtain l
    where l: "GetAllIdentity k s = Ok l" "\<forall>i \<in> set l. small_Identity i"
      and es: "?es = map (\<lambda>i. (IdentityKey (Address i), enc_Identity i)) l"
    by (auto simp: GetAllIdentity_def)
  have "i \<in> set l \<longleftrightarrow> identities k s (Address i) = Some i" for i
  proof
    assume "i \<in> set l"
    then have "(IdentityKey (Address i), enc_Identity i) \<in> set ?es" unfolding es by auto
    with \<open>i \<in> set l\<close> l(2) show "identities k s (Address i) = Some i"
      by (simp add: mem identities_entry [OF k(3)])
  next
    assume "identities k s (Address i) = Some i"
    then have i: "small_Identity i" "(IdentityKey (Address i), enc_Identity i) \<in> set ?es"
      by (auto simp: mem identities_entry [OF k(3)])
    then obtain j where "j \<in> set l" "enc_Identity j = enc_Identity i" unfolding es by auto
    with i l(2) identity_codec.codec_inj [of j i] show "i \<in> set l" by auto
  qed
  then have "set l = ran (identities k s)"
    using identities_entry [OF k(3)] by (auto simp: ran_def)
  moreover have "sorted_wrt (<) (map fst ?es)" by (rule kv_lawfulD [OF k(1)])
  then have "sorted_wrt (<) (map (IdentityKey \<circ> Address) l)" unfolding es by (simp add: comp_def)
  ultimately show ?thesis using l(1) by blast
qed

lemma SetParams_Ok:
  assumes "keeper_inv k s"
  shows "\<exists>s'. SetParams k s p = Ok s' \<and> keeper_inv k s' \<and> identities k s' = identities k s
    \<and> GetParams k s' = Ok p"
proof -
  note k = keeper_invD [OF assms]
  let ?s' = "kv_set (storeService k) s ParamsKey (enc_Params p)"
  have entry: "identity_entry k ?s' key = identity_entry k s key" for key
    by (simp add: kv_lawfulD [OF k(1)] identity_keys_not_params)
  then have "store_wf k ?s'"
    using k(3) Params_all [of p] unfolding store_wf_def entry by (simp add: kv_lawfulD [OF k(1)])
  moreover have "identities k ?s' = identities k s"
    by (rule ext) (simp add: identities_def entry)
  ultimately show ?thesis
    using assms
    by (simp add: SetParams_def GetParams_def cdc_lawfulD [OF k(2)] kv_lawfulD [OF k(1)]
        params_codec.marshal_enc params_codec.unmarshal_enc keeper_inv_def)
qed

lemma GetParams_Ok:
  assumes "keeper_inv k s"
  shows "GetParams k s = Ok Params"
proof -
  note k = keeper_invD [OF assms]
  have "kv_get (storeService k) s ParamsKey = Some v \<Longrightarrow> v = enc_Params Params" for v
    using k(3) by (simp add: store_wf_def)
  then show ?thesis
    by (cases "kv_get (storeService k) s ParamsKey")
      (simp_all add: GetParams_def cdc_lawfulD [OF k(2)] params_codec.unmarshal_enc)
qed

lemma identities_own:
  "keeper_inv k s \<Longrightarrow> identities k s a = Some i \<Longrightarrow> Address i = a \<and> small_Identity i"
  by (simp add: identities_entry [OF keeper_invD(3)])

text \<open>The keeper provides the module's store.\<close>

interpretation keeper_store: module_store "SetIdentity k" "GetIdentity k" "RemoveIdentity k"
  "GetAllIdentity k" "keeper_inv k" "identities k" "SetParams k" "GetParams k" for k
  by unfold_locales
    (rule SetIdentity_Ok RemoveIdentity_wf [THEN conjunct1] RemoveIdentity_wf [THEN conjunct2]
      GetIdentity_identities identities_own GetAllIdentity_Ok SetParams_Ok GetParams_Ok, assumption+)+

section \<open>A keeper in memory\<close>

definition mem_keeper :: "string \<Rightarrow> mem_store Keeper" where
  "mem_keeper auth = \<lparr>cdc = proto_codec, storeService = mem_kv, authority = auth\<rparr>"

lemma mem_keeper_ok: "keeper_ok (mem_keeper auth)"
  by (simp add: keeper_ok_def mem_keeper_def mem_kv_lawful proto_codec_lawful)

lemma mem_keeper_empty: "keeper_inv (mem_keeper auth) []" "identities (mem_keeper auth) [] = Map.empty"
  using mem_keeper_ok [of auth]
  by (auto simp: keeper_inv_def store_wf_def identities_def mem_keeper_def mem_kv_def)

end
