(* ===== verification/MsgServer.thy ===== *)
theory MsgServer
  imports Keeper Sha256
begin

text \<open>
  The module's \<open>Msg\<close> service: \<open>keeper/msg_server.go\<close>, \<open>msg_server_identity.go\<close> and
  \<open>msg_update_params.go\<close>. \<open>CreateIdentity\<close> reads the wall clock of the node that runs it
  (\<open>time.Now().Unix()\<close>), which is the argument \<open>now\<close>.
\<close>

definition identity_of :: "u64 \<Rightarrow> MsgCreateIdentity \<Rightarrow> Identity" where
  "identity_of now msg =
     (let hash = Sum256 (bytes_of (CccdId msg)); idHash = hex_of hash
      in \<lparr>Address = Creator msg, IdHash = idHash, CreatedAt = now\<rparr>)"

definition CreateIdentity ::
    "'s Keeper \<Rightarrow> u64 \<Rightarrow> 's \<Rightarrow> MsgCreateIdentity \<Rightarrow> ('s \<times> MsgCreateIdentityResponse) res" where
  "CreateIdentity k now s msg =
     bind_res (GetIdentity k s (Creator msg)) (\<lambda>(_, found).
       if found then Err (ErrInvalidRequest ''address already has an identity'')
       else bind_res (SetIdentity k s (identity_of now msg)) (\<lambda>s.
         Ok (s, MsgCreateIdentityResponse)))"

definition UpdateParams ::
    "'s Keeper \<Rightarrow> 's \<Rightarrow> MsgUpdateParams \<Rightarrow> ('s \<times> MsgUpdateParamsResponse) res" where
  "UpdateParams k s req =
     (if GetAuthority k \<noteq> Authority req
      then Err (ErrInvalidSigner (GetAuthority k) (Authority req))
      else bind_res (SetParams k s (MsgParams req)) (\<lambda>s. Ok (s, MsgUpdateParamsResponse)))"

text \<open>The request's address bounds the size of the identity that is stored for it.\<close>

definition small_creator :: "MsgCreateIdentity \<Rightarrow> bool" where
  "small_creator msg \<longleftrightarrow> length (Creator msg) < 2 ^ 61"

lemma identity_of_simps [simp]:
  "Address (identity_of now msg) = Creator msg"
  "IdHash (identity_of now msg) = hex_of (Sum256 (bytes_of (CccdId msg)))"
  "CreatedAt (identity_of now msg) = now"
  by (simp_all add: identity_of_def Let_def)

lemma identity_of_small: "small_creator msg \<Longrightarrow> small_Identity (identity_of now msg)"
  by (rule small_IdentityI) (simp add: small_creator_def length_Sum256)

lemma CreateIdentity_new:
  assumes "keeper_inv k s" "small_creator msg" "identities k s (Creator msg) = None"
  obtains s' where "CreateIdentity k now s msg = Ok (s', MsgCreateIdentityResponse)"
    "keeper_inv k s'" "identities k s' = (identities k s)(Creator msg \<mapsto> identity_of now msg)"
proof -
  from keeper_store.put_OkE [OF assms(1) identity_of_small [OF assms(2), of now]] obtain s'
    where s': "SetIdentity k s (identity_of now msg) = Ok s'" "keeper_inv k s'"
      "identities k s' = (identities k s)(Creator msg \<mapsto> identity_of now msg)"
    by (metis identity_of_simps(1))
  have "GetIdentity k s (Creator msg) = Ok (zero_Identity, False)"
    using assms(3) by (simp add: keeper_store.get_lookup [OF assms(1)])
  with s'(1) have "CreateIdentity k now s msg = Ok (s', MsgCreateIdentityResponse)"
    by (simp add: CreateIdentity_def)
  from this s'(2,3) show thesis by (rule that)
qed

lemma CreateIdentity_old:
  assumes "keeper_inv k s" "identities k s (Creator msg) = Some i"
  shows "CreateIdentity k now s msg = Err (ErrInvalidRequest ''address already has an identity'')"
  using assms by (simp add: CreateIdentity_def keeper_store.get_lookup)

lemma CreateIdentity_OkD:
  assumes "keeper_inv k s" "small_creator msg" "CreateIdentity k now s msg = Ok (s', r)"
  shows "identities k s (Creator msg) = None" "keeper_inv k s'"
    "identities k s' = (identities k s)(Creator msg \<mapsto> identity_of now msg)"
proof -
  show n: "identities k s (Creator msg) = None"
    using CreateIdentity_old [OF assms(1)] assms(3) by (cases "identities k s (Creator msg)") auto
  obtain t where "CreateIdentity k now s msg = Ok (t, MsgCreateIdentityResponse)" "keeper_inv k t"
      "identities k t = (identities k s)(Creator msg \<mapsto> identity_of now msg)"
    using CreateIdentity_new [OF assms(1,2) n] .
  with assms(3)
  show "keeper_inv k s'" "identities k s' = (identities k s)(Creator msg \<mapsto> identity_of now msg)"
    by simp_all
qed

lemma UpdateParams_OkD:
  assumes "keeper_inv k s" "UpdateParams k s req = Ok (s', r)"
  shows "Authority req = authority k" "keeper_inv k s'" "identities k s' = identities k s"
  using assms keeper_store.set_params_Ok [OF assms(1), of "MsgParams req"]
  by (auto simp: UpdateParams_def GetAuthority_def res_simps split: if_splits)

lemma UpdateParams_authority:
  assumes "keeper_inv k s" "Authority req = authority k"
  shows "\<exists>s'. UpdateParams k s req = Ok (s', MsgUpdateParamsResponse)"
  using assms keeper_store.set_params_Ok [OF assms(1), of "MsgParams req"]
  by (auto simp: UpdateParams_def GetAuthority_def)

end
