(* ===== verification/Query.thy ===== *)
theory Query
  imports Keeper "HOL-Library.Sublist"
begin

text \<open>
  The module's \<open>Query\<close> service: \<open>keeper/query_identity.go\<close>, \<open>query_identity_by_cccd_id.go\<close>
  and \<open>query_params.go\<close>. A request is a pointer, \<^const>\<open>None\<close> is \<open>nil\<close>. \<open>query.Paginate\<close> is
  the SDK's: it takes the prefix store, the page request and a callback, and is a parameter.
\<close>

section \<open>Pagination\<close>

type_synonym on_result = "Identity list \<Rightarrow> bytes \<Rightarrow> bytes \<Rightarrow> Identity list res"

text \<open>
  The variable that the callback appends to is threaded through the calls: \<open>paginate\<close> gets
  its value before the first call and returns it with the page response.
\<close>

type_synonym ('s, 'p, 'q) paginate =
  "'s \<Rightarrow> bytes \<Rightarrow> 'p option \<Rightarrow> on_result \<Rightarrow> Identity list \<Rightarrow> (Identity list \<times> 'q) res"

fun each_entry :: "on_result \<Rightarrow> (bytes \<times> bytes) list \<Rightarrow> Identity list \<Rightarrow> Identity list res" where
  "each_entry f [] acc = Ok acc"
| "each_entry f ((key, value) # rest) acc = bind_res (f acc key value) (each_entry f rest)"

text \<open>
  The documented behaviour: a page request selects a part of the store's entries, in their
  order or backwards, and the callback runs on each of them; the response and a rejection of
  the request depend on the request and the entries, not on the callback.
\<close>

definition paginate_lawful ::
    "'s kv_ops \<Rightarrow> ('s, 'p, 'q) paginate \<Rightarrow> ('p option \<Rightarrow> (bytes \<times> bytes) list \<Rightarrow> (bytes \<times> bytes) list)
      \<Rightarrow> ('p option \<Rightarrow> (bytes \<times> bytes) list \<Rightarrow> error + 'q) \<Rightarrow> bool" where
  "paginate_lawful ops paginate page resp \<longleftrightarrow>
     (\<forall>s p req f acc. paginate s p req f acc =
        (let entries = pfx_iter ops s p in
         case resp req entries of
           Inl e \<Rightarrow> Err e
         | Inr r \<Rightarrow> bind_res (each_entry f (page req entries) acc) (\<lambda>acc. Ok (acc, r))))
   \<and> (\<forall>req entries. subseq (page req entries) entries \<or> subseq (page req entries) (rev entries))"

section \<open>The handlers\<close>

definition IdentityQuery ::
    "'s Keeper \<Rightarrow> 's \<Rightarrow> QueryGetIdentityRequest option \<Rightarrow> QueryGetIdentityResponse res" where
  "IdentityQuery k s req = (case req of
       None \<Rightarrow> Err (ErrStatus ''InvalidArgument'' ''invalid request'')
     | Some req \<Rightarrow> bind_res (GetIdentity k s (GetReq_Address req)) (\<lambda>(val, found).
         if \<not> found then Err (ErrStatus ''NotFound'' ''not found'')
         else Ok \<lparr>GetResp_Identity = val\<rparr>))"

text \<open>An error of the pagination, or of the callback in it, is reported as \<open>codes.Internal\<close>.\<close>

fun internal :: "'a res \<Rightarrow> 'a res" where
  "internal (Err e) = Err (ErrInternal e)"
| "internal r = r"

definition collect_identity :: "binary_codec \<Rightarrow> on_result" where
  "collect_identity c acc key value =
     bind_res (cdc_Unmarshal_Identity c value zero_Identity) (\<lambda>identity. Ok (acc @ [identity]))"

definition IdentityAll ::
    "('s, 'p, 'q) paginate \<Rightarrow> 's Keeper \<Rightarrow> 's \<Rightarrow> 'p QueryAllIdentityRequest option
      \<Rightarrow> 'q QueryAllIdentityResponse res" where
  "IdentityAll paginate k s req = (case req of
       None \<Rightarrow> Err (ErrStatus ''InvalidArgument'' ''invalid request'')
     | Some req \<Rightarrow>
         bind_res (internal (paginate s (KeyPrefix IdentityKeyPrefix) (AllReq_Pagination req)
             (collect_identity (cdc k)) []))
           (\<lambda>(identitys, pageRes). Ok \<lparr>AllResp_Identity = identitys, AllResp_Pagination = Some pageRes\<rparr>))"

definition collect_by_hash :: "binary_codec \<Rightarrow> string \<Rightarrow> on_result" where
  "collect_by_hash c idHash acc key value =
     bind_res (cdc_Unmarshal_Identity c value zero_Identity) (\<lambda>identity.
       if IdHash identity = idHash then Ok (acc @ [identity]) else Ok acc)"

definition IdentityByCccdId ::
    "('s, 'p, 'q) paginate \<Rightarrow> 's Keeper \<Rightarrow> 's \<Rightarrow> 'p QueryIdentityByCccdIdRequest option
      \<Rightarrow> 'q QueryIdentityByCccdIdResponse res" where
  "IdentityByCccdId paginate k s req = (case req of
       None \<Rightarrow> Err (ErrStatus ''InvalidArgument'' ''invalid request'')
     | Some req \<Rightarrow>
         bind_res (internal (paginate s (KeyPrefix IdentityKeyPrefix) (ByIdReq_Pagination req)
             (collect_by_hash (cdc k) (ByIdReq_IdHash req)) []))
           (\<lambda>(result, pageRes). Ok \<lparr>ByIdResp_Identity = result, ByIdResp_Pagination = Some pageRes\<rparr>))"

definition ParamsQuery :: "'s Keeper \<Rightarrow> 's \<Rightarrow> QueryParamsRequest option \<Rightarrow> QueryParamsResponse res" where
  "ParamsQuery k s req = (case req of
       None \<Rightarrow> Err (ErrStatus ''InvalidArgument'' ''invalid request'')
     | Some req \<Rightarrow> bind_res (GetParams k s) (\<lambda>p. Ok \<lparr>Resp_Params = p\<rparr>))"

section \<open>What the callbacks collect\<close>

text \<open>The entries of a well-formed store are the encodings of what \<open>GetAllIdentity\<close> lists.\<close>

lemma pfx_entries:
  assumes "keeper_inv k s" "GetAllIdentity k s = Ok l"
  shows "pfx_iter (storeService k) s (KeyPrefix IdentityKeyPrefix)
      = map (\<lambda>i. (IdentityKey (Address i), enc_Identity i)) l" "\<forall>i \<in> set l. small_Identity i"
proof -
  note k = keeper_invD [OF assms(1)]
  let ?es = "pfx_iter (storeService k) s (KeyPrefix IdentityKeyPrefix)"
  have "\<forall>(key, v) \<in> set ?es. \<exists>i. small_Identity i \<and> key = IdentityKey (Address i) \<and> v = enc_Identity i"
    using k(3) by (auto simp: kv_lawfulD(7) [OF k(1)] store_wf_def)
  from decode_entries_enc [OF k(2) this, of "[]"] assms(2)
  show "?es = map (\<lambda>i. (IdentityKey (Address i), enc_Identity i)) l" "\<forall>i \<in> set l. small_Identity i"
    by (auto simp: GetAllIdentity_def)
qed

lemma subseq_mapE:
  assumes "subseq xs (map f ys)"
  obtains zs where "subseq zs ys" "xs = map f zs"
  using assms by (auto simp: subseq_conv_nths nths_map)

lemma each_collect:
  assumes "cdc_lawful c" "\<forall>i \<in> set l. small_Identity i"
  shows "each_entry (collect_identity c) (map (\<lambda>i. (IdentityKey (Address i), enc_Identity i)) l) acc
    = Ok (acc @ l)"
  using assms(2)
  by (induction l arbitrary: acc)
    (simp_all add: collect_identity_def cdc_lawfulD [OF assms(1)] identity_codec.unmarshal_enc)

lemma each_by_hash:
  assumes "cdc_lawful c" "\<forall>i \<in> set l. small_Identity i"
  shows "each_entry (collect_by_hash c h) (map (\<lambda>i. (IdentityKey (Address i), enc_Identity i)) l) acc
    = Ok (acc @ filter (\<lambda>i. IdHash i = h) l)"
  using assms(2)
  by (induction l arbitrary: acc)
    (simp_all add: collect_by_hash_def cdc_lawfulD [OF assms(1)] identity_codec.unmarshal_enc)

text \<open>
  Both paginated handlers on a well-formed store: the selected part \<open>zs\<close> of all identities,
  or those of it with the requested hash, with the same page response.
\<close>

lemma paginated_handlers:
  assumes inv: "keeper_inv k s" and l: "GetAllIdentity k s = Ok l"
    and pg: "paginate_lawful (storeService k) paginate page resp"
  obtains zs where "subseq zs l \<or> subseq zs (rev l)"
    and "page req (pfx_iter (storeService k) s (KeyPrefix IdentityKeyPrefix))
      = map (\<lambda>i. (IdentityKey (Address i), enc_Identity i)) zs"
    and "IdentityAll paginate k s (Some \<lparr>AllReq_Pagination = req\<rparr>)
      = (case resp req (pfx_iter (storeService k) s (KeyPrefix IdentityKeyPrefix)) of
           Inl e \<Rightarrow> Err (ErrInternal e)
         | Inr r \<Rightarrow> Ok \<lparr>AllResp_Identity = zs, AllResp_Pagination = Some r\<rparr>)"
    and "\<And>h. IdentityByCccdId paginate k s (Some \<lparr>ByIdReq_IdHash = h, ByIdReq_Pagination = req\<rparr>)
      = (case resp req (pfx_iter (storeService k) s (KeyPrefix IdentityKeyPrefix)) of
           Inl e \<Rightarrow> Err (ErrInternal e)
         | Inr r \<Rightarrow> Ok \<lparr>ByIdResp_Identity = filter (\<lambda>i. IdHash i = h) zs, ByIdResp_Pagination = Some r\<rparr>)"
proof -
  let ?es = "pfx_iter (storeService k) s (KeyPrefix IdentityKeyPrefix)"
  note es = pfx_entries [OF inv l]
  let ?f = "\<lambda>i. (IdentityKey (Address i), enc_Identity i)"
  from pg have "subseq (page req ?es) ?es \<or> subseq (page req ?es) (rev ?es)"
    unfolding paginate_lawful_def by blast
  then obtain ys where ys: "ys = l \<or> ys = rev l" and "subseq (page req ?es) (map ?f ys)"
    unfolding es(1) rev_map by blast
  from this(2) obtain zs where "subseq zs ys" and page: "page req ?es = map ?f zs"
    by (rule subseq_mapE)
  with ys have zs: "subseq zs l \<or> subseq zs (rev l)" by blast
  have small: "\<forall>i \<in> set zs. small_Identity i"
    using es(2) zs set_nths_subset unfolding subseq_conv_nths by (metis set_rev subsetD)
  note c = keeper_invD(2) [OF inv]
  have run: "paginate s (KeyPrefix IdentityKeyPrefix) req f [] = (case resp req ?es of
       Inl e \<Rightarrow> Err e | Inr r \<Rightarrow> bind_res (each_entry f (page req ?es) []) (\<lambda>acc. Ok (acc, r)))" for f
    using pg by (simp add: paginate_lawful_def Let_def)
  show thesis
    by (rule that [OF zs page])
      (simp_all add: IdentityAll_def IdentityByCccdId_def run page each_collect [OF c small]
        each_by_hash [OF c small] split: sum.split)
qed

section \<open>A pagination by offset and limit\<close>

text \<open>
  An instance of the documented behaviour: the request is an offset, a limit, of which zero
  means the default of a hundred, and whether to go backwards; the response is the number of
  all entries.
\<close>

definition offset_page :: "(nat \<times> nat \<times> bool) option \<Rightarrow> 'e list \<Rightarrow> 'e list" where
  "offset_page req es = (case req of
       None \<Rightarrow> take 100 es
     | Some (off, lim, reverse) \<Rightarrow>
         take (if lim = 0 then 100 else lim) (drop off (if reverse then rev es else es)))"

definition offset_resp :: "(nat \<times> nat \<times> bool) option \<Rightarrow> 'e list \<Rightarrow> error + nat" where
  "offset_resp req es = Inr (length es)"

definition offset_paginate :: "'s kv_ops \<Rightarrow> ('s, nat \<times> nat \<times> bool, nat) paginate" where
  "offset_paginate ops s p req f acc =
     (let entries = pfx_iter ops s p in
      case offset_resp req entries of
        Inl e \<Rightarrow> Err e
      | Inr r \<Rightarrow> bind_res (each_entry f (offset_page req entries) acc) (\<lambda>acc. Ok (acc, r)))"

lemma offset_paginate_lawful: "paginate_lawful ops (offset_paginate ops) offset_page offset_resp"
proof -
  have "subseq (take n (drop m xs)) xs" for n m :: nat and xs :: "(bytes \<times> bytes) list"
    by (rule subseq_order.order_trans [OF prefix_imp_subseq [OF take_is_prefix]
        suffix_imp_subseq [OF suffix_drop]])
  then show ?thesis
    by (auto simp: paginate_lawful_def offset_paginate_def Let_def offset_page_def split: option.split)
qed

end
