(* ===== verification/Module.thy ===== *)
theory Module
  imports MsgServer Query
begin

text \<open>
  \<open>x/identity/module/genesis.go\<close> and \<open>module.go\<close>: the import and export of the module's
  state, the module's callbacks and its construction. JSON, module addresses and the
  address encoding are the SDK's and are parameters.
\<close>

section \<open>Genesis\<close>

definition InitGenesis :: "'s Keeper \<Rightarrow> 's \<Rightarrow> GenesisState \<Rightarrow> 's res" where
  "InitGenesis k s genState =
     bind_res (put_all (SetIdentity k) s (IdentityList genState)) (\<lambda>s.
       must (SetParams k s (GenesisParams genState)))"

definition ExportGenesis :: "'s Keeper \<Rightarrow> 's \<Rightarrow> GenesisState res" where
  "ExportGenesis k s =
     (let genesis = DefaultGenesis in
      bind_res (GetParams k s) (\<lambda>params.
      bind_res (GetAllIdentity k s) (\<lambda>list.
        Ok (genesis\<lparr>GenesisParams := params, IdentityList := list\<rparr>))))"

text \<open>\<open>small_genesis\<close>: every identity of the state has an encoding that fits a slice.\<close>

definition small_genesis :: "GenesisState \<Rightarrow> bool" where
  "small_genesis gs \<longleftrightarrow> (\<forall>i \<in> set (IdentityList gs). small_Identity i)"

lemma InitGenesis_Ok:
  assumes "keeper_inv k s" "small_genesis gs"
  shows "\<exists>s'. InitGenesis k s gs = Ok s' \<and> keeper_inv k s'
    \<and> identities k s' = identities k s ++ map_of (rev (map (\<lambda>i. (Address i, i)) (IdentityList gs)))"
proof -
  from keeper_store.put_all_Ok [OF assms(1)] assms(2) obtain t
    where t: "put_all (SetIdentity k) s (IdentityList gs) = Ok t" "keeper_inv k t"
      "identities k t = identities k s ++ map_of (rev (map (\<lambda>i. (Address i, i)) (IdentityList gs)))"
    unfolding small_genesis_def by blast
  from keeper_store.set_params_Ok [OF t(2), of "GenesisParams gs"] t show ?thesis
    by (auto simp: InitGenesis_def)
qed

lemma ExportGenesis_Ok:
  assumes "keeper_inv k s"
  obtains l where "ExportGenesis k s = Ok \<lparr>GenesisParams = Params, IdentityList = l\<rparr>"
    "GetAllIdentity k s = Ok l" "set l = ran (identities k s)" "distinct (map Address l)"
    "sorted_wrt (<) (map (IdentityKey \<circ> Address) l)" "\<forall>i \<in> set l. small_Identity i"
proof -
  from keeper_store.all_OkE [OF assms] obtain l
    where l: "GetAllIdentity k s = Ok l" "set l = ran (identities k s)"
      "sorted_wrt (<) (map (IdentityKey \<circ> Address) l)" .
  have "ExportGenesis k s = Ok \<lparr>GenesisParams = Params, IdentityList = l\<rparr>"
    by (simp add: ExportGenesis_def l(1) keeper_store.get_params_Ok [OF assms] DefaultGenesis_def)
  moreover have "\<forall>i \<in> set l. small_Identity i"
    using l(2) keeper_store.lookup_own [OF assms] by (auto simp: ran_def)
  ultimately show thesis
    using that l keeper_store.all_distinct [OF assms l(1)] by blast
qed

lemma ran_map_of_Address:
  "distinct (map Address l) \<Longrightarrow> ran (map_of (rev (map (\<lambda>i. (Address i, i)) l))) = set l"
  by (subst ran_distinct) (simp_all add: rev_map [symmetric] comp_def image_comp)

lemma map_of_Address:
  "distinct (map Address l) \<Longrightarrow> map_of (rev (map (\<lambda>i. (Address i, i)) l)) a = Some i
     \<longleftrightarrow> i \<in> set l \<and> Address i = a"
  by (subst map_of_eq_Some_iff) (auto simp: rev_map [symmetric] comp_def)

text \<open>Two well-formed stores with the same identities under every address export the same.\<close>

lemma ExportGenesis_determined:
  assumes "keeper_inv k s" "keeper_inv k' s'" "identities k s = identities k' s'"
  shows "ExportGenesis k s = ExportGenesis k' s'"
proof -
  obtain l where l: "ExportGenesis k s = Ok \<lparr>GenesisParams = Params, IdentityList = l\<rparr>"
      "set l = ran (identities k s)" "distinct (map Address l)"
      "sorted_wrt (<) (map (IdentityKey \<circ> Address) l)"
    using ExportGenesis_Ok [OF assms(1)] .
  obtain l' where l': "ExportGenesis k' s' = Ok \<lparr>GenesisParams = Params, IdentityList = l'\<rparr>"
      "set l' = ran (identities k' s')" "distinct (map Address l')"
      "sorted_wrt (<) (map (IdentityKey \<circ> Address) l')"
    using ExportGenesis_Ok [OF assms(2)] .
  have eq: "set l = set l'" using l(2) l'(2) assms(3) by simp
  have "map (IdentityKey \<circ> Address) l = map (IdentityKey \<circ> Address) l'"
    using l(4) l'(4) eq by (intro sorted_distinct_set_unique) (simp_all add: strict_sorted_iff)
  moreover have "inj_on (IdentityKey \<circ> Address) (set l \<union> set l')"
    using l(3) eq by (auto simp: inj_on_def distinct_map)
  ultimately have "l = l'" by (rule map_inj_on)
  with l(1) l'(1) show ?thesis by simp
qed

section \<open>The module's callbacks\<close>

type_synonym json_decoder = "string \<Rightarrow> error + GenesisState"

definition AppModule_Name :: string where
  "AppModule_Name = ModuleName"

definition AppModule_DefaultGenesis :: "(GenesisState \<Rightarrow> string) \<Rightarrow> string" where
  "AppModule_DefaultGenesis MustMarshalJSON = MustMarshalJSON DefaultGenesis"

definition AppModule_ValidateGenesis :: "json_decoder \<Rightarrow> string \<Rightarrow> unit res" where
  "AppModule_ValidateGenesis UnmarshalJSON bz =
     (case UnmarshalJSON bz of
        Inl err \<Rightarrow> Err (ErrWrapped ''failed to unmarshal identity genesis state'' err)
      | Inr genState \<Rightarrow> GenesisState_Validate genState)"

definition AppModule_InitGenesis :: "json_decoder \<Rightarrow> 's Keeper \<Rightarrow> 's \<Rightarrow> string \<Rightarrow> 's res" where
  "AppModule_InitGenesis UnmarshalJSON k s gs =
     (case UnmarshalJSON gs of Inl err \<Rightarrow> Panic | Inr genState \<Rightarrow> InitGenesis k s genState)"

definition AppModule_ExportGenesis :: "(GenesisState \<Rightarrow> string) \<Rightarrow> 's Keeper \<Rightarrow> 's \<Rightarrow> string res" where
  "AppModule_ExportGenesis MustMarshalJSON k s =
     bind_res (ExportGenesis k s) (\<lambda>genState. Ok (MustMarshalJSON genState))"

definition AppModule_ConsensusVersion :: u64 where
  "AppModule_ConsensusVersion = 1"

definition AppModule_BeginBlock :: "'s \<Rightarrow> 's res" where
  "AppModule_BeginBlock s = Ok s"

definition AppModule_EndBlock :: "'s \<Rightarrow> 's res" where
  "AppModule_EndBlock s = Ok s"

section \<open>Construction\<close>

text \<open>
  \<open>ProvideModule\<close>: the authority is the address of the governance module unless the
  configuration names another one, as a module name or as an address.
\<close>

definition ProvideModule ::
    "bech32_decoder \<Rightarrow> (string \<Rightarrow> bytes) \<Rightarrow> (string \<Rightarrow> bytes) \<Rightarrow> (bytes \<Rightarrow> string)
      \<Rightarrow> binary_codec \<Rightarrow> 's kv_ops \<Rightarrow> string \<Rightarrow> 's Keeper res" where
  "ProvideModule AccAddressFromBech32 NewModuleAddress NewModuleAddressOrBech32Address addr_String
     c service configAuthority =
     (let authority = NewModuleAddress ''gov'';
          authority = (if configAuthority \<noteq> '''' then NewModuleAddressOrBech32Address configAuthority
                       else authority)
      in NewKeeper AccAddressFromBech32 c service (addr_String authority))"

end
