(* ===== verification/Service.thy ===== *)
theory Service
  imports MsgServer Query
begin

text \<open>
  The gRPC glue of \<open>tx.pb.go\<close> and \<open>query.pb.go\<close>: the names the messages are registered under,
  the handlers that decode a request and call the server, with or without an interceptor, and
  the service descriptions that list them.
\<close>

section \<open>Registered names\<close>

definition registered_names :: "string list" where
  "registered_names =
     [''nexelra.identity.MsgUpdateParams'', ''nexelra.identity.MsgUpdateParamsResponse'',
      ''nexelra.identity.MsgCreateIdentity'', ''nexelra.identity.MsgCreateIdentityResponse'']"

definition url_MsgUpdateParams :: string where
  "url_MsgUpdateParams = ''/'' @ registered_names ! 0"

definition url_MsgCreateIdentity :: string where
  "url_MsgCreateIdentity = ''/'' @ registered_names ! 2"

section \<open>Handlers\<close>

text \<open>
  \<open>dec\<close> decodes the request into a fresh message; an interceptor gets the message, the
  method's full name and the call to make.
\<close>

type_synonym ('m, 'r) interceptor = "'m \<Rightarrow> string \<Rightarrow> ('m \<Rightarrow> 'r res) \<Rightarrow> 'r res"

definition unary_handler ::
    "string \<Rightarrow> 'm \<Rightarrow> ('m \<Rightarrow> 'r res) \<Rightarrow> ('m \<Rightarrow> 'm res) \<Rightarrow> ('m, 'r) interceptor option \<Rightarrow> 'r res" where
  "unary_handler fullMethod zero srv dec interceptor =
     bind_res (dec zero) (\<lambda>inp. case interceptor of
         None \<Rightarrow> srv inp
       | Some ic \<Rightarrow> ic inp fullMethod (\<lambda>req. srv req))"

definition Msg_UpdateParams_Handler where
  "Msg_UpdateParams_Handler = unary_handler ''/nexelra.identity.Msg/UpdateParams'' zero_MsgUpdateParams"

definition Msg_CreateIdentity_Handler where
  "Msg_CreateIdentity_Handler = unary_handler ''/nexelra.identity.Msg/CreateIdentity'' zero_MsgCreateIdentity"

definition Query_Params_Handler where
  "Query_Params_Handler = unary_handler ''/nexelra.identity.Query/Params'' QueryParamsRequest"

definition Query_Identity_Handler where
  "Query_Identity_Handler = unary_handler ''/nexelra.identity.Query/Identity'' zero_QueryGetIdentityRequest"

definition Query_IdentityAll_Handler where
  "Query_IdentityAll_Handler =
     unary_handler ''/nexelra.identity.Query/IdentityAll'' zero_QueryAllIdentityRequest"

definition Query_IdentityByCccdId_Handler where
  "Query_IdentityByCccdId_Handler =
     unary_handler ''/nexelra.identity.Query/IdentityByCccdId'' zero_QueryIdentityByCccdIdRequest"

text \<open>The descriptions: the service's name and its methods in order.\<close>

definition Msg_serviceDesc :: "string \<times> string list" where
  "Msg_serviceDesc = (''nexelra.identity.Msg'', [''UpdateParams'', ''CreateIdentity''])"

definition Query_serviceDesc :: "string \<times> string list" where
  "Query_serviceDesc = (''nexelra.identity.Query'',
     [''Params'', ''Identity'', ''IdentityAll'', ''IdentityByCccdId''])"

text \<open>What \<open>UnimplementedMsgServer\<close> and \<open>UnimplementedQueryServer\<close> answer.\<close>

definition unimplemented :: "string \<Rightarrow> 'r res" where
  "unimplemented name = Err (ErrStatus ''Unimplemented'' (''method '' @ name @ '' not implemented''))"

text \<open>
  A client of the service marshals its request; the handler decodes it and calls the server
  with the message the client sent.
\<close>

lemma unary_handler_decodes:
  assumes "dec zero = Ok m"
  shows "unary_handler fullMethod zero srv dec None = srv m"
  using assms by (simp add: unary_handler_def)

lemma Msg_CreateIdentity_wire:
  assumes "small_MsgCreateIdentity msg" "MsgCreateIdentity_Marshal msg = Ok d"
  shows "Msg_CreateIdentity_Handler srv (MsgCreateIdentity_Unmarshal d) None = srv msg"
proof -
  have "MsgCreateIdentity_Unmarshal d zero_MsgCreateIdentity = Ok msg"
    using MsgCreateIdentity_codec.codec_roundtrip [OF assms(1)] assms(2) by simp
  then show ?thesis by (simp add: Msg_CreateIdentity_Handler_def unary_handler_decodes)
qed

end
