(* ===== verification/Store_Properties.thy ===== *)
theory Store_Properties
  imports Module Service Codec_Properties
begin

text \<open>
  What the keeper, the message server, the queries and the genesis functions of the identity
  module promise, for every keeper over a lawful store and codec (\<open>keeper_inv\<close>). The examples
  run on the in-memory keeper, with a store that holds one identity.
\<close>

section \<open>An example store\<close>

abbreviation "ex_keeper \<equiv> mem_keeper ''gov''"

definition example_store :: mem_store where
  "example_store =
     [(KeyPrefix IdentityKeyPrefix @ IdentityKey (Address example_identity), enc_Identity example_identity)]"

lemma example_put: "SetIdentity ex_keeper [] example_identity = Ok example_store"
  by (simp add: SetIdentity_eq [OF mem_keeper_empty(1) small_example] example_store_def)
    (simp add: mem_keeper_def mem_kv_def)

lemma example_inv: "keeper_inv ex_keeper example_store"
  and example_identities: "identities ex_keeper example_store = [''nexelra1alice'' \<mapsto> example_identity]"
  using keeper_store.put_Ok [OF mem_keeper_empty(1) small_example, of "''gov''"] example_put
  by (auto simp: mem_keeper_empty example_identity_def)

section \<open>The keeper\<close>

text \<open>
  C15: \<open>SetIdentity\<close> refines the update of a map from addresses to identities: it succeeds, keeps
  the store well-formed, and changes the abstract view at the identity's own address only.
\<close>

theorem SetIdentity_refines:
  assumes "keeper_inv k s" "small_Identity i"
  shows "\<exists>s'. SetIdentity k s i = Ok s' \<and> keeper_inv k s'
    \<and> identities k s' = (identities k s)(Address i \<mapsto> i)"
  using assms by (rule keeper_store.put_Ok)

theorem SetIdentity_refines_witness:
  "\<exists>s'. SetIdentity ex_keeper [] example_identity = Ok s' \<and> keeper_inv ex_keeper s'
    \<and> identities ex_keeper s' = [''nexelra1alice'' \<mapsto> example_identity]"
  using SetIdentity_refines [OF mem_keeper_empty(1) small_example, of "''gov''"]
  by (simp add: mem_keeper_empty example_identity_def)

text \<open>
  After \<open>SetIdentity\<close>, \<open>GetIdentity\<close> finds that identity under its address and, under every
  other address, what it found before.
\<close>

theorem GetIdentity_after_SetIdentity:
  assumes "keeper_inv k s" "small_Identity i" "SetIdentity k s i = Ok s'"
  shows "GetIdentity k s' a = (if a = Address i then Ok (i, True) else GetIdentity k s a)"
  using assms by (rule keeper_store.get_after_put)

theorem GetIdentity_after_SetIdentity_witness:
  "GetIdentity ex_keeper example_store ''nexelra1alice'' = Ok (example_identity, True)
   \<and> GetIdentity ex_keeper example_store ''nexelra1bob'' = Ok (zero_Identity, False)"
  using GetIdentity_after_SetIdentity [OF mem_keeper_empty(1) small_example example_put]
  by (simp add: example_identity_def keeper_store.get_lookup [OF mem_keeper_empty(1)] mem_keeper_empty)

text \<open>
  After \<open>RemoveIdentity\<close>, the address has no identity and every other address is unaffected.
\<close>

theorem GetIdentity_after_RemoveIdentity:
  assumes "keeper_inv k s"
  shows "GetIdentity k (RemoveIdentity k s a) b
      = (if b = a then Ok (zero_Identity, False) else GetIdentity k s b)"
  using assms by (rule keeper_store.get_after_remove)

theorem GetIdentity_after_RemoveIdentity_witness:
  "GetIdentity ex_keeper (RemoveIdentity ex_keeper example_store ''nexelra1alice'') ''nexelra1alice''
     = Ok (zero_Identity, False)"
  using GetIdentity_after_RemoveIdentity [OF example_inv] by simp

text \<open>
  C14: \<open>GetAllIdentity\<close> lists every stored identity exactly once, in ascending order of the store
  keys: an identity is in the list if and only if \<open>GetIdentity\<close> finds it under its address.
\<close>

theorem GetAllIdentity_complete:
  assumes "keeper_inv k s"
  shows "\<exists>l. GetAllIdentity k s = Ok l \<and> distinct (map Address l)
    \<and> sorted_wrt (<) (map (IdentityKey \<circ> Address) l)
    \<and> (\<forall>i. i \<in> set l \<longleftrightarrow> GetIdentity k s (Address i) = Ok (i, True))"
  using keeper_store.all_OkE [OF assms] keeper_store.all_distinct [OF assms]
    keeper_store.all_members [OF assms] by metis

theorem GetAllIdentity_complete_witness:
  "\<exists>l. GetAllIdentity ex_keeper example_store = Ok l \<and> distinct (map Address l)
    \<and> example_identity \<in> set l"
proof -
  from GetAllIdentity_complete [OF example_inv] obtain l
    where "GetAllIdentity ex_keeper example_store = Ok l" "distinct (map Address l)"
      "\<forall>i. i \<in> set l \<longleftrightarrow> GetIdentity ex_keeper example_store (Address i) = Ok (i, True)" by auto
  moreover have "GetIdentity ex_keeper example_store (Address example_identity) = Ok (example_identity, True)"
    by (simp add: keeper_store.get_lookup [OF example_inv] example_identities)
      (simp add: example_identity_def)
  ultimately show ?thesis by auto
qed

text \<open>
  \<open>SetParams\<close> stores what \<open>GetParams\<close> returns, without an error and without touching an
  identity: the two kinds of keys in the module's store do not overlap.
\<close>

theorem SetParams_separate:
  assumes "keeper_inv k s"
  shows "\<exists>s'. SetParams k s p = Ok s' \<and> GetParams k s' = Ok p
    \<and> (\<forall>a. GetIdentity k s' a = GetIdentity k s a) \<and> GetAllIdentity k s' = GetAllIdentity k s"
proof -
  from keeper_store.set_params_Ok [OF assms] obtain s' where s': "SetParams k s p = Ok s'"
      "keeper_inv k s'" "identities k s' = identities k s" "GetParams k s' = Ok p" by metis
  from keeper_store.all_determined [OF s'(2) assms s'(3)] show ?thesis
    using s' by (auto simp: keeper_store.get_lookup [OF assms] keeper_store.get_lookup [OF s'(2)])
qed

theorem SetParams_separate_witness:
  "\<exists>s'. SetParams ex_keeper example_store DefaultParams = Ok s' \<and> GetParams ex_keeper s' = Ok DefaultParams
    \<and> GetIdentity ex_keeper s' ''nexelra1alice'' = Ok (example_identity, True)"
proof -
  have "GetIdentity ex_keeper example_store ''nexelra1alice'' = Ok (example_identity, True)"
    by (simp add: keeper_store.get_lookup [OF example_inv] example_identities)
  with SetParams_separate [OF example_inv, of DefaultParams] show ?thesis by metis
qed

text \<open>
  \<open>NewKeeper\<close> panics exactly on an authority that is not an address, and otherwise returns a
  keeper with that authority; \<open>ProvideModule\<close> hands it the address of the governance module
  unless the configuration names another authority.
\<close>

theorem NewKeeper_checks_authority:
  "(NewKeeper acc c service auth = Panic \<longleftrightarrow> (\<exists>e. acc auth = Inl e))
   \<and> (\<forall>a. acc auth = Inr a \<longrightarrow> (\<exists>k. NewKeeper acc c service auth = Ok k
        \<and> GetAuthority k = auth \<and> cdc k = c \<and> storeService k = service))
   \<and> ProvideModule acc modaddr modaddr_or str c service ''''
       = NewKeeper acc c service (str (modaddr ''gov''))"
  by (auto simp: NewKeeper_def GetAuthority_def ProvideModule_def split: sum.splits)

theorem NewKeeper_checks_authority_witness:
  "\<exists>k. NewKeeper (\<lambda>s. Inr []) proto_codec mem_kv ''a'' = Ok k \<and> GetAuthority k = ''a''"
  using NewKeeper_checks_authority [of "\<lambda>s. Inr []" proto_codec mem_kv "''a''" "\<lambda>x. []" "\<lambda>x. []"
      "\<lambda>b. []"] by blast

section \<open>The message server\<close>

text \<open>
  C5: \<open>CreateIdentity\<close> for an address without identity succeeds and stores, under the creator's
  address only, the creator, the hexadecimal SHA-256 hash of the CCCD number and the time.
\<close>

theorem CreateIdentity_registers:
  assumes "keeper_inv k s" "small_creator msg" "GetIdentity k s (Creator msg) = Ok (v, False)"
  shows "\<exists>s'. CreateIdentity k now s msg = Ok (s', MsgCreateIdentityResponse) \<and> keeper_inv k s'
    \<and> (\<forall>a. GetIdentity k s' a = (if a = Creator msg
        then Ok (\<lparr>Address = Creator msg, IdHash = hex_of (Sum256 (bytes_of (CccdId msg))),
                  CreatedAt = now\<rparr>, True)
        else GetIdentity k s a))"
proof -
  have "identities k s (Creator msg) = None"
    using assms(1,3) by (simp add: keeper_store.get_lookup split: option.splits)
  from CreateIdentity_new [OF assms(1,2) this, of now] obtain s'
    where "CreateIdentity k now s msg = Ok (s', MsgCreateIdentityResponse)" "keeper_inv k s'"
      "identities k s' = (identities k s)(Creator msg \<mapsto> identity_of now msg)" .
  with assms(1) show ?thesis by (auto simp: keeper_store.get_lookup identity_of_def Let_def)
qed

theorem CreateIdentity_registers_witness:
  "\<exists>s'. CreateIdentity ex_keeper 1700000000 example_store (NewMsgCreateIdentity ''nexelra1bob'' ''001099012345'')
      = Ok (s', MsgCreateIdentityResponse)
    \<and> GetIdentity ex_keeper s' ''nexelra1alice'' = Ok (example_identity, True)"
proof -
  let ?m = "NewMsgCreateIdentity ''nexelra1bob'' ''001099012345''"
  have "small_creator ?m" by (simp add: small_creator_def NewMsgCreateIdentity_def)
  moreover have "GetIdentity ex_keeper example_store (Creator ?m) = Ok (zero_Identity, False)"
    "GetIdentity ex_keeper example_store ''nexelra1alice'' = Ok (example_identity, True)"
    by (simp_all add: keeper_store.get_lookup [OF example_inv] example_identities NewMsgCreateIdentity_def)
  ultimately show ?thesis
    using CreateIdentity_registers [OF example_inv, of ?m zero_Identity 1700000000]
    by (auto simp: NewMsgCreateIdentity_def)
qed

text \<open>
  C11: One address, one identity: for an address that has one, \<open>CreateIdentity\<close> is rejected with
  the invalid-request error, whatever CCCD number the message carries.
\<close>

theorem CreateIdentity_duplicate:
  assumes "keeper_inv k s" "GetIdentity k s (Creator msg) = Ok (i, True)"
  shows "CreateIdentity k now s msg = Err (ErrInvalidRequest ''address already has an identity'')"
proof -
  have "identities k s (Creator msg) = Some i"
    using assms(2) keeper_store.found_iff [OF assms(1)] by blast
  then show ?thesis by (rule CreateIdentity_old [OF assms(1)])
qed

theorem CreateIdentity_duplicate_witness:
  "CreateIdentity ex_keeper 5 example_store (NewMsgCreateIdentity ''nexelra1alice'' ''2'')
     = Err (ErrInvalidRequest ''address already has an identity'')"
  by (rule CreateIdentity_duplicate [OF example_inv, where i = example_identity])
    (simp add: keeper_store.get_lookup [OF example_inv] example_identities NewMsgCreateIdentity_def)

text \<open>
  The stored \<open>IdHash\<close> always is 64 lower-case hexadecimal digits, and two registrations store
  the same \<open>IdHash\<close> exactly when their CCCD numbers have the same SHA-256 hash.
\<close>

theorem IdHash_format:
  "length (IdHash (identity_of now msg)) = 64 \<and> list_all is_hex (IdHash (identity_of now msg))
   \<and> (IdHash (identity_of now msg) = IdHash (identity_of now' msg')
        \<longleftrightarrow> Sum256 (bytes_of (CccdId msg)) = Sum256 (bytes_of (CccdId msg')))"
proof -
  have "\<forall>c \<in> set (hex_of (Sum256 (bytes_of (CccdId msg)))). is_hex c" using hex_of_is_hex by blast
  moreover have "hex_of a = hex_of b \<longleftrightarrow> a = b" for a b using hex_of_inj by blast
  ultimately show ?thesis by (simp add: length_Sum256 list_all_iff)
qed

text \<open>
  C13: What \<open>CreateIdentity\<close> stores depends on the clock of the machine that runs it: two nodes
  that execute the same message on the same store at different seconds end with different bytes
  under the same key.
\<close>

theorem CreateIdentity_clock_dependent:
  assumes "keeper_inv k s" "small_creator msg" "now \<noteq> now'"
    and "CreateIdentity k now s msg = Ok (s1, r1)" "CreateIdentity k now' s msg = Ok (s2, r2)"
  shows "kv_get (storeService k) s1 (KeyPrefix IdentityKeyPrefix @ IdentityKey (Creator msg))
    \<noteq> kv_get (storeService k) s2 (KeyPrefix IdentityKeyPrefix @ IdentityKey (Creator msg))"
proof -
  note d1 = CreateIdentity_OkD [OF assms(1,2,4)] and d2 = CreateIdentity_OkD [OF assms(1,2,5)]
  have "identities k s1 (Creator msg) = Some (identity_of now msg)"
    "identities k s2 (Creator msg) = Some (identity_of now' msg)" by (simp_all add: d1(3) d2(3))
  then have e: "identity_entry k s1 (IdentityKey (Creator msg)) = Some (enc_Identity (identity_of now msg))"
    "identity_entry k s2 (IdentityKey (Creator msg)) = Some (enc_Identity (identity_of now' msg))"
    using identities_entry [OF keeper_invD(3) [OF d1(2)]] identities_entry [OF keeper_invD(3) [OF d2(2)]]
    by blast+
  have "identity_of now msg \<noteq> identity_of now' msg"
    using assms(3) identity_of_simps(3) by metis
  then show ?thesis
    using e identity_codec.codec_inj [OF identity_of_small identity_of_small, OF assms(2) assms(2)]
    by auto
qed

theorem CreateIdentity_clock_dependent_witness:
  "\<exists>msg s1 s2 r. CreateIdentity ex_keeper 1 [] msg = Ok (s1, r) \<and> CreateIdentity ex_keeper 2 [] msg = Ok (s2, r)
    \<and> kv_get mem_kv s1 (KeyPrefix IdentityKeyPrefix @ IdentityKey (Creator msg))
      \<noteq> kv_get mem_kv s2 (KeyPrefix IdentityKeyPrefix @ IdentityKey (Creator msg))"
proof -
  let ?m = "NewMsgCreateIdentity ''b'' ''7''" and ?k = "ex_keeper"
  note inv = mem_keeper_empty(1) [of "''gov''"]
  have m: "small_creator ?m" "identities ?k [] (Creator ?m) = None"
    by (simp_all add: small_creator_def NewMsgCreateIdentity_def mem_keeper_empty)
  obtain s1 s2 where s: "CreateIdentity ?k 1 [] ?m = Ok (s1, MsgCreateIdentityResponse)"
      "CreateIdentity ?k 2 [] ?m = Ok (s2, MsgCreateIdentityResponse)"
    using CreateIdentity_new [OF inv m] by metis
  have "storeService ?k = mem_kv" by (simp add: mem_keeper_def)
  moreover have "(1 :: u64) \<noteq> 2" by simp
  ultimately show ?thesis
    using CreateIdentity_clock_dependent [OF inv m(1) _ s] s
    by (intro exI [of _ ?m] exI [of _ s1] exI [of _ s2] exI [of _ MsgCreateIdentityResponse]) simp
qed

text \<open>
  C18: \<open>UpdateParams\<close> succeeds for the keeper's authority and for nobody else, who gets the
  invalid-signer error with both addresses; no identity changes.
\<close>

theorem UpdateParams_authority_only:
  assumes "keeper_inv k s"
  shows "if Authority req = GetAuthority k
    then \<exists>s'. UpdateParams k s req = Ok (s', MsgUpdateParamsResponse) \<and> GetParams k s' = Ok (MsgParams req)
      \<and> identities k s' = identities k s
    else UpdateParams k s req = Err (ErrInvalidSigner (GetAuthority k) (Authority req))"
  using keeper_store.set_params_Ok [OF assms, of "MsgParams req"]
  by (auto simp: UpdateParams_def GetAuthority_def)

theorem UpdateParams_authority_only_witness:
  "\<exists>s'. UpdateParams ex_keeper example_store \<lparr>Authority = ''gov'', MsgParams = Params\<rparr>
      = Ok (s', MsgUpdateParamsResponse)"
  using UpdateParams_authority_only [OF example_inv, of "\<lparr>Authority = ''gov'', MsgParams = Params\<rparr>"]
  by (auto simp: GetAuthority_def mem_keeper_def)

text \<open>
  A request sent over the wire reaches the message server as the message the client
  marshalled: the generated handler of \<open>CreateIdentity\<close> decodes it to exactly that message.
\<close>

theorem CreateIdentity_over_the_wire:
  assumes "small_MsgCreateIdentity msg" "MsgCreateIdentity_Marshal msg = Ok d"
  shows "Msg_CreateIdentity_Handler (CreateIdentity k now s) (MsgCreateIdentity_Unmarshal d) None
    = CreateIdentity k now s msg"
  using assms by (rule Msg_CreateIdentity_wire)

theorem CreateIdentity_over_the_wire_witness:
  "\<exists>d. Msg_CreateIdentity_Handler (CreateIdentity ex_keeper 5 example_store) (MsgCreateIdentity_Unmarshal d) None
    = Err (ErrInvalidRequest ''address already has an identity'')"
proof -
  let ?m = "NewMsgCreateIdentity ''nexelra1alice'' ''2''"
  have m: "small_MsgCreateIdentity ?m"
    by (simp add: small_MsgCreateIdentity_def enc_MsgCreateIdentity_def NewMsgCreateIdentity_def
        fits_def enc_str_def length_enc_len uvarint_small)
  have "CreateIdentity ex_keeper 5 example_store ?m
      = Err (ErrInvalidRequest ''address already has an identity'')"
    using CreateIdentity_old [OF example_inv] by (simp add: example_identities NewMsgCreateIdentity_def)
  with CreateIdentity_over_the_wire [OF m MsgCreateIdentity_codec.marshal_enc [OF m]] show ?thesis by metis
qed

text \<open>
  The stateless check of \<open>MsgCreateIdentity\<close> passes exactly for a creator that is an address
  and a CCCD number that is not empty; the address is checked first.
\<close>

theorem ValidateBasic_CreateIdentity:
  "MsgCreateIdentity_ValidateBasic acc msg =
     (case acc (Creator msg) of
        Inl e \<Rightarrow> Err (ErrInvalidAddress ''invalid creator address (%s)'' e)
      | Inr a \<Rightarrow> if CccdId msg = [] then Err (ErrInvalidRequest ''CCCD ID cannot be empty'') else Ok ())
   \<and> (MsgCreateIdentity_ValidateBasic acc msg = Ok ()
        \<longleftrightarrow> (\<exists>a. acc (Creator msg) = Inr a) \<and> CccdId msg \<noteq> [])"
  using MsgCreateIdentity_ValidateBasic_Ok by (simp add: MsgCreateIdentity_ValidateBasic_def)

section \<open>The queries\<close>

text \<open>
  The \<open>Identity\<close> query returns exactly the stored identity, reports a missing one as not
  found and a missing request as an invalid argument.
\<close>

theorem IdentityQuery_answers:
  assumes "keeper_inv k s"
  shows "IdentityQuery k s req = (case req of
      None \<Rightarrow> Err (ErrStatus ''InvalidArgument'' ''invalid request'')
    | Some r \<Rightarrow> (case identities k s (GetReq_Address r) of
        None \<Rightarrow> Err (ErrStatus ''NotFound'' ''not found'')
      | Some i \<Rightarrow> Ok \<lparr>GetResp_Identity = i\<rparr>))"
  by (simp add: IdentityQuery_def keeper_store.get_lookup [OF assms] split: option.split)

theorem IdentityQuery_answers_witness:
  "IdentityQuery ex_keeper example_store (Some \<lparr>GetReq_Address = ''nexelra1alice''\<rparr>)
     = Ok \<lparr>GetResp_Identity = example_identity\<rparr>"
  by (simp add: IdentityQuery_answers [OF example_inv] example_identities)

text \<open>
  A page of \<open>IdentityAll\<close> consists of stored identities in the order of their keys or
  backwards, none twice; it is all of them when the pagination selects every entry.
\<close>

theorem IdentityAll_pages:
  assumes "keeper_inv k s" "paginate_lawful (storeService k) paginate page resp"
    and "IdentityAll paginate k s (Some \<lparr>AllReq_Pagination = req\<rparr>) = Ok r"
  shows "distinct (map Address (AllResp_Identity r))
    \<and> (\<forall>i \<in> set (AllResp_Identity r). identities k s (Address i) = Some i)
    \<and> (page req (pfx_iter (storeService k) s (KeyPrefix IdentityKeyPrefix))
         = pfx_iter (storeService k) s (KeyPrefix IdentityKeyPrefix)
       \<longrightarrow> GetAllIdentity k s = Ok (AllResp_Identity r))"
proof -
  obtain l where l: "GetAllIdentity k s = Ok l" "set l = ran (identities k s)"
    using keeper_store.all_OkE [OF assms(1)] by metis
  note d = keeper_store.all_distinct [OF assms(1) l(1)] and es = pfx_entries [OF assms(1) l(1)]
  obtain zs where zs: "subseq zs l \<or> subseq zs (rev l)"
      "page req (pfx_iter (storeService k) s (KeyPrefix IdentityKeyPrefix))
        = map (\<lambda>i. (IdentityKey (Address i), enc_Identity i)) zs"
      "AllResp_Identity r = zs"
    by (rule paginated_handlers [OF assms(1) l(1) assms(2), of req])
      (use assms(3) in \<open>auto split: sum.splits\<close>)
  have sub: "subseq (map Address zs) (map Address l) \<or> subseq (map Address zs) (rev (map Address l))"
    using zs(1) by (auto simp: rev_map dest: subseq_map)
  then have "distinct (map Address zs)" using d by (auto simp: subseq_conv_nths)
  moreover have "set zs \<subseteq> set l" using zs(1) set_nths_subset unfolding subseq_conv_nths by (metis set_rev)
  then have "\<forall>i \<in> set zs. identities k s (Address i) = Some i"
    using l(2) keeper_store.lookup_own [OF assms(1)] by (auto simp: ran_def)
  moreover have "zs = l" if "map (\<lambda>i. (IdentityKey (Address i), enc_Identity i)) zs
      = map (\<lambda>i. (IdentityKey (Address i), enc_Identity i)) l"
  proof -
    have "inj_on (\<lambda>i. (IdentityKey (Address i), enc_Identity i)) (set zs \<union> set l)"
    proof (rule inj_onI)
      fix x y assume "x \<in> set zs \<union> set l" "y \<in> set zs \<union> set l"
      with \<open>set zs \<subseteq> set l\<close> es(2) have "small_Identity x" "small_Identity y" by blast+
      moreover assume "(IdentityKey (Address x), enc_Identity x) = (IdentityKey (Address y), enc_Identity y)"
      ultimately show "x = y" using identity_codec.codec_inj by simp
    qed
    with that show ?thesis by (rule map_inj_on)
  qed
  ultimately show ?thesis unfolding es(1) using zs l(1) es(1) by auto
qed

theorem IdentityAll_pages_witness:
  "\<exists>r. IdentityAll (offset_paginate mem_kv) ex_keeper example_store (Some \<lparr>AllReq_Pagination = None\<rparr>) = Ok r
    \<and> GetAllIdentity ex_keeper example_store = Ok (AllResp_Identity r)"
proof -
  have law: "paginate_lawful (storeService ex_keeper) (offset_paginate mem_kv) offset_page offset_resp"
    using offset_paginate_lawful [of mem_kv] by (simp add: mem_keeper_def)
  obtain l where l: "GetAllIdentity ex_keeper example_store = Ok l" "set l = {example_identity}"
    "distinct (map Address l)"
    using keeper_store.all_OkE [OF example_inv] keeper_store.all_distinct [OF example_inv]
    by (metis example_identities ran_map_upd ran_empty)
  then have "l = [example_identity]"
    by (cases l; cases "tl l") auto
  with l pfx_entries [OF example_inv l(1)]
  have es: "pfx_iter (storeService ex_keeper) example_store (KeyPrefix IdentityKeyPrefix)
      = [(IdentityKey (Address example_identity), enc_Identity example_identity)]" by simp
  obtain r where r: "IdentityAll (offset_paginate mem_kv) ex_keeper example_store
      (Some \<lparr>AllReq_Pagination = None\<rparr>) = Ok r"
    by (rule paginated_handlers [OF example_inv l(1) law, of None]) (auto simp: offset_resp_def)
  have "offset_page None (pfx_iter (storeService ex_keeper) example_store (KeyPrefix IdentityKeyPrefix))
      = pfx_iter (storeService ex_keeper) example_store (KeyPrefix IdentityKeyPrefix)"
    by (simp add: es offset_page_def)
  with IdentityAll_pages [OF example_inv law r] r show ?thesis by blast
qed

text \<open>
  \<open>IdentityByCccdId\<close> is \<open>IdentityAll\<close> for the same page request with the identities of other
  hashes left out: it fails when that fails, with the same error, and its page response is the
  one of the unfiltered page, so a page can be empty although a later one has a match.
\<close>

theorem IdentityByCccdId_filters:
  assumes "keeper_inv k s" "paginate_lawful (storeService k) paginate page resp"
  shows "IdentityByCccdId paginate k s (Some \<lparr>ByIdReq_IdHash = h, ByIdReq_Pagination = req\<rparr>)
    = bind_res (IdentityAll paginate k s (Some \<lparr>AllReq_Pagination = req\<rparr>)) (\<lambda>r.
        Ok \<lparr>ByIdResp_Identity = filter (\<lambda>i. IdHash i = h) (AllResp_Identity r),
            ByIdResp_Pagination = AllResp_Pagination r\<rparr>)"
proof -
  obtain l where l: "GetAllIdentity k s = Ok l" using keeper_store.all_OkE [OF assms(1)] by metis
  show ?thesis
    by (rule paginated_handlers [OF assms(1) l assms(2), of req]) (simp split: sum.split)
qed

theorem IdentityByCccdId_filters_witness:
  "IdentityByCccdId (offset_paginate mem_kv) ex_keeper example_store
      (Some \<lparr>ByIdReq_IdHash = ''ab12'', ByIdReq_Pagination = Some (0, 1, False)\<rparr>)
    = bind_res (IdentityAll (offset_paginate mem_kv) ex_keeper example_store
        (Some \<lparr>AllReq_Pagination = Some (0, 1, False)\<rparr>)) (\<lambda>r.
        Ok \<lparr>ByIdResp_Identity = filter (\<lambda>i. IdHash i = ''ab12'') (AllResp_Identity r),
            ByIdResp_Pagination = AllResp_Pagination r\<rparr>)"
  using offset_paginate_lawful [of mem_kv]
  by (intro IdentityByCccdId_filters [OF example_inv]) (simp add: mem_keeper_def)

end
