(* ===== verification/Genesis_Properties.thy ===== *)
theory Genesis_Properties
  imports Store_Properties
begin

text \<open>
  Validation, import and export of the module's genesis state: what a valid genesis state is,
  and that import and export are inverse.
\<close>

text \<open>
  A genesis state is valid if and only if no two of its identities have the same address;
  otherwise validation returns the duplicate error. The default genesis state is valid.
\<close>

theorem GenesisState_Validate_spec:
  "GenesisState_Validate gs = (if distinct (map Address (IdentityList gs)) then Ok ()
     else Err (Errorf ''duplicated index for identity'' []))
   \<and> GenesisState_Validate DefaultGenesis = Ok ()"
  using GenesisState_Validate_Ok [of gs] GenesisState_Validate_Err [of gs]
    GenesisState_Validate_Ok [of DefaultGenesis]
  by (simp add: DefaultGenesis_def)

text \<open>
  A valid genesis state imported into an empty store is exported again with the same
  identities, in the order of their keys, and the export is valid.
\<close>

theorem InitGenesis_ExportGenesis:
  assumes "keeper_inv k s" "identities k s = Map.empty" "small_genesis gs"
    and "GenesisState_Validate gs = Ok ()"
  shows "\<exists>s' gs'. InitGenesis k s gs = Ok s' \<and> ExportGenesis k s' = Ok gs'
    \<and> set (IdentityList gs') = set (IdentityList gs) \<and> length (IdentityList gs') = length (IdentityList gs)
    \<and> GenesisParams gs' = GenesisParams gs \<and> GenesisState_Validate gs' = Ok ()"
proof -
  have d: "distinct (map Address (IdentityList gs))" using assms(4) by (simp add: GenesisState_Validate_Ok)
  from InitGenesis_Ok [OF assms(1,3)] assms(2) obtain s' where s': "InitGenesis k s gs = Ok s'"
      "keeper_inv k s'" "identities k s' = map_of (rev (map (\<lambda>i. (Address i, i)) (IdentityList gs)))"
    by auto
  obtain l where l: "ExportGenesis k s' = Ok \<lparr>GenesisParams = Params, IdentityList = l\<rparr>"
      "set l = ran (identities k s')" "distinct (map Address l)"
    using ExportGenesis_Ok [OF s'(2)] .
  have "set l = set (IdentityList gs)" using l(2) s'(3) ran_map_of_Address [OF d] by simp
  moreover from this have "length l = length (IdentityList gs)"
    using d l(3) by (metis distinct_card distinct_map)
  ultimately show ?thesis
    using s'(1) l(1,3) Params_all [of "GenesisParams gs"] by (auto simp: GenesisState_Validate_Ok)
qed

definition example_genesis :: GenesisState where
  "example_genesis = \<lparr>GenesisParams = Params,
     IdentityList = [example_identity, example_identity\<lparr>Address := ''nexelra1bob''\<rparr>]\<rparr>"

lemma example_genesis_ok: "small_genesis example_genesis" "GenesisState_Validate example_genesis = Ok ()"
  by (auto simp: small_genesis_def example_genesis_def example_identity_def GenesisState_Validate_Ok
      intro!: small_IdentityI)

theorem InitGenesis_ExportGenesis_witness:
  "\<exists>s' gs'. InitGenesis ex_keeper [] example_genesis = Ok s' \<and> ExportGenesis ex_keeper s' = Ok gs'
    \<and> length (IdentityList gs') = 2 \<and> GenesisState_Validate gs' = Ok ()"
proof -
  have "length (IdentityList example_genesis) = 2" by (simp add: example_genesis_def)
  with InitGenesis_ExportGenesis [OF mem_keeper_empty example_genesis_ok, of "''gov''"]
  show ?thesis by metis
qed

text \<open>
  C6: What any well-formed store exports is valid, and imported into an empty store it gives a
  store that exports exactly the same state: nothing is lost in an upgrade by export and import.
\<close>

theorem ExportGenesis_reimport:
  assumes "keeper_inv k s" "keeper_inv k0 s0" "identities k0 s0 = Map.empty"
  shows "\<exists>gs s'. ExportGenesis k s = Ok gs \<and> GenesisState_Validate gs = Ok ()
    \<and> InitGenesis k0 s0 gs = Ok s' \<and> ExportGenesis k0 s' = Ok gs
    \<and> (\<forall>a. GetIdentity k0 s' a = GetIdentity k s a)"
proof -
  obtain l where l: "ExportGenesis k s = Ok \<lparr>GenesisParams = Params, IdentityList = l\<rparr>"
      "set l = ran (identities k s)" "distinct (map Address l)" "\<forall>i \<in> set l. small_Identity i"
    using ExportGenesis_Ok [OF assms(1)] .
  let ?gs = "\<lparr>GenesisParams = Params, IdentityList = l\<rparr>"
  have "small_genesis ?gs" using l(4) by (simp add: small_genesis_def)
  from InitGenesis_Ok [OF assms(2) this] assms(3) obtain s' where s': "InitGenesis k0 s0 ?gs = Ok s'"
      "keeper_inv k0 s'" "identities k0 s' = map_of (rev (map (\<lambda>i. (Address i, i)) l))"
    by auto
  have "identities k0 s' a = Some i \<longleftrightarrow> identities k s a = Some i" for a i
    using map_of_Address [OF l(3), of a i] l(2) keeper_store.lookup_own [OF assms(1)]
    by (auto simp: s'(3) ran_def)
  then have "identities k0 s' = identities k s" by (intro ext) (metis not_Some_eq)
  with ExportGenesis_determined [OF s'(2) assms(1)] s' l(1,3) assms(1) show ?thesis
    by (intro exI [of _ ?gs] exI [of _ s'])
      (simp add: GenesisState_Validate_Ok keeper_store.get_lookup)
qed

theorem ExportGenesis_reimport_witness:
  "\<exists>gs s'. ExportGenesis ex_keeper example_store = Ok gs \<and> InitGenesis ex_keeper [] gs = Ok s'
    \<and> GetIdentity ex_keeper s' ''nexelra1alice'' = GetIdentity ex_keeper example_store ''nexelra1alice''"
  using ExportGenesis_reimport [OF example_inv mem_keeper_empty [of "''gov''"]] by blast

end
