(* ===== verification/Ante.thy ===== *)
theory Ante
  imports Module
begin

text \<open>
  \<open>app/ante/ante.go\<close>: the decorator that lets a transaction through only if the signers and
  the recipients of its messages have registered an identity, and the construction of the
  ante handler around it. The identity keeper is a keeper of theory \<open>Keeper\<close> and reads the
  module's store; logging is left out.
\<close>

section \<open>Messages\<close>

text \<open>
  What the decorator can see of an \<open>sdk.Msg\<close>: its type URL, the result of a
  \<open>GetSigners() []sdk.AccAddress\<close> method if its type has one, and the value itself, which is
  a bank message or something reflection can look into.
\<close>

datatype field_value = StringField string | OtherField

datatype msg_body =
    MsgSend (FromAddress: string) (ToAddress: string)
  | MsgMultiSend (Inputs: "string list") (Outputs: "string list")
  | StructMsg (struct_fields: "(string \<times> field_value) list")
  | OtherMsg

record sdk_msg =
  MsgTypeURL :: string
  GetSigners :: "bytes list option"
  Body :: msg_body

text \<open>\<open>reflect.Value.FieldByName\<close>, followed by the checks for validity and for a string.\<close>

definition string_field :: "(string \<times> field_value) list \<Rightarrow> string \<Rightarrow> string option" where
  "string_field fs name =
     (case map_of fs name of Some (StringField s) \<Rightarrow> Some s | _ \<Rightarrow> None)"

fun msg_struct :: "msg_body \<Rightarrow> (string \<times> field_value) list option" where
  "msg_struct (MsgSend from to) =
     Some [(''FromAddress'', StringField from), (''ToAddress'', StringField to), (''Amount'', OtherField)]"
| "msg_struct (MsgMultiSend ins outs) = Some [(''Inputs'', OtherField), (''Outputs'', OtherField)]"
| "msg_struct (StructMsg fs) = Some fs"
| "msg_struct OtherMsg = None"

definition extractCreatorFromMessage :: "msg_body \<Rightarrow> string" where
  "extractCreatorFromMessage msg = (case msg_struct msg of
       Some fs \<Rightarrow>
         (case string_field fs ''Creator'' of Some s \<Rightarrow> s
          | None \<Rightarrow> (case string_field fs ''Signer'' of Some s \<Rightarrow> s
          | None \<Rightarrow> (case string_field fs ''FromAddress'' of Some s \<Rightarrow> s
          | None \<Rightarrow> '''')))
     | None \<Rightarrow> '''')"

fun extractRecipients :: "msg_body \<Rightarrow> string list" where
  "extractRecipients (MsgSend from to) = [to]"
| "extractRecipients (MsgMultiSend ins outs) = outs"
| "extractRecipients _ = []"

definition identityMsgTypes :: "(string \<times> bool) list" where
  "identityMsgTypes =
     [(''/Nexelra.identity.MsgCreateIdentity'', True),
      (''/Nexelra.identity.MsgUpdateParams'', True)]"

definition isIdentityModuleMsg :: "string \<Rightarrow> bool" where
  "isIdentityModuleMsg msgType = (case map_of identityMsgTypes msgType of Some b \<Rightarrow> b | None \<Rightarrow> False)"

section \<open>The checks\<close>

text \<open>
  The two texts of the rejections, without their diacritics: the sender (the recipient) has
  not registered an identity.
\<close>

definition sender_unregistered :: "string \<Rightarrow> error" where
  "sender_unregistered a = Errorf ''NGUOI GUI CHUA DANG KY DANH TINH: %s'' a"

definition recipient_unregistered :: "string \<Rightarrow> error" where
  "recipient_unregistered a = Errorf ''NGUOI NHAN CHUA DANG KY DANH TINH: %s'' a"

text \<open>
  The SDK's address functions are parameters: \<open>acc\<close> is \<open>sdk.AccAddressFromBech32\<close>, whose
  \<open>Must\<close> variant panics, and \<open>str\<close> the \<open>String\<close> method of an address.
\<close>

definition MustAccAddressFromBech32 :: "bech32_decoder \<Rightarrow> string \<Rightarrow> bytes res" where
  "MustAccAddressFromBech32 acc s = (case acc s of Inl e \<Rightarrow> Panic | Inr a \<Rightarrow> Ok a)"

fun must_addresses :: "bech32_decoder \<Rightarrow> string list \<Rightarrow> bytes list \<Rightarrow> bytes list res" where
  "must_addresses acc [] signers = Ok signers"
| "must_addresses acc (s # rest) signers =
     bind_res (MustAccAddressFromBech32 acc s) (\<lambda>a. must_addresses acc rest (signers @ [a]))"

definition msg_signers :: "bech32_decoder \<Rightarrow> sdk_msg \<Rightarrow> bytes list res" where
  "msg_signers acc msg = (case GetSigners msg of
       Some signers \<Rightarrow> Ok signers
     | None \<Rightarrow> (case Body msg of
           MsgSend from to \<Rightarrow> bind_res (MustAccAddressFromBech32 acc from) (\<lambda>a. Ok [a])
         | MsgMultiSend ins outs \<Rightarrow> must_addresses acc ins []
         | m \<Rightarrow>
             (let creatorAddr = extractCreatorFromMessage m in
              if creatorAddr \<noteq> '''' then bind_res (MustAccAddressFromBech32 acc creatorAddr) (\<lambda>a. Ok [a])
              else Ok [])))"

fun check_registered :: "'s Keeper \<Rightarrow> 's \<Rightarrow> (string \<Rightarrow> error) \<Rightarrow> string list \<Rightarrow> unit res" where
  "check_registered k s reject [] = Ok ()"
| "check_registered k s reject (a # rest) =
     bind_res (GetIdentity k s a) (\<lambda>(_, found).
       if \<not> found then Err (reject a) else check_registered k s reject rest)"

definition check_msg ::
    "bech32_decoder \<Rightarrow> (bytes \<Rightarrow> string) \<Rightarrow> 's Keeper \<Rightarrow> 's \<Rightarrow> sdk_msg \<Rightarrow> unit res" where
  "check_msg acc str k s msg =
     (if isIdentityModuleMsg (MsgTypeURL msg) then Ok ()
      else bind_res (msg_signers acc msg) (\<lambda>signers.
        if length signers = 0 then Err (sender_unregistered ''address_not_found'')
        else bind_res (check_registered k s sender_unregistered (map str signers)) (\<lambda>_.
          check_registered k s recipient_unregistered (extractRecipients (Body msg)))))"

fun check_msgs ::
    "bech32_decoder \<Rightarrow> (bytes \<Rightarrow> string) \<Rightarrow> 's Keeper \<Rightarrow> 's \<Rightarrow> sdk_msg list \<Rightarrow> unit res" where
  "check_msgs acc str k s [] = Ok ()"
| "check_msgs acc str k s (msg # rest) =
     bind_res (check_msg acc str k s msg) (\<lambda>_. check_msgs acc str k s rest)"

text \<open>
  \<open>AnteHandle\<close>: \<open>s\<close> is the store the context carries, \<open>height\<close> its block height, and
  \<open>next\<close> the rest of the chain of decorators.
\<close>

definition AnteHandle ::
    "bech32_decoder \<Rightarrow> (bytes \<Rightarrow> string) \<Rightarrow> 's Keeper \<Rightarrow> int \<Rightarrow> 's \<Rightarrow> sdk_msg list \<Rightarrow> bool
      \<Rightarrow> ('s \<Rightarrow> sdk_msg list \<Rightarrow> bool \<Rightarrow> 's res) \<Rightarrow> 's res" where
  "AnteHandle acc str k height s tx simulate next =
     (if height = 0 then next s tx simulate
      else if simulate then next s tx simulate
      else if length tx = 0 then next s tx simulate
      else bind_res (check_msgs acc str k s tx) (\<lambda>_. next s tx simulate))"

section \<open>What passes\<close>

text \<open>The specification: who a message needs to be registered, and when it is let through.\<close>

definition registered :: "'s Keeper \<Rightarrow> 's \<Rightarrow> string \<Rightarrow> bool" where
  "registered k s a \<longleftrightarrow> identities k s a \<noteq> None"

definition msg_allowed ::
    "bech32_decoder \<Rightarrow> (bytes \<Rightarrow> string) \<Rightarrow> 's Keeper \<Rightarrow> 's \<Rightarrow> sdk_msg \<Rightarrow> bool" where
  "msg_allowed acc str k s msg \<longleftrightarrow>
     isIdentityModuleMsg (MsgTypeURL msg)
   \<or> (\<exists>signers. msg_signers acc msg = Ok signers \<and> signers \<noteq> []
        \<and> (\<forall>a \<in> set signers. registered k s (str a))
        \<and> (\<forall>r \<in> set (extractRecipients (Body msg)). registered k s r))"

lemma check_registered_eq:
  assumes "keeper_inv k s"
  shows "check_registered k s reject as =
    (case List.find (\<lambda>a. \<not> registered k s a) as of None \<Rightarrow> Ok () | Some a \<Rightarrow> Err (reject a))"
  by (induction "as")
    (simp_all add: keeper_store.get_lookup [OF assms] registered_def split: option.split)

lemma check_registered_Ok:
  "keeper_inv k s \<Longrightarrow> check_registered k s reject as = Ok () \<longleftrightarrow> (\<forall>a \<in> set as. registered k s a)"
  by (auto simp: check_registered_eq find_None_iff find_Some_iff split: option.split)

lemma check_msg_Ok:
  assumes "keeper_inv k s"
  shows "check_msg acc str k s msg = Ok () \<longleftrightarrow> msg_allowed acc str k s msg"
  by (cases "msg_signers acc msg")
    (auto simp: check_msg_def msg_allowed_def res_simps check_registered_Ok [OF assms])

lemma check_msgs_Ok:
  assumes "keeper_inv k s"
  shows "check_msgs acc str k s msgs = Ok () \<longleftrightarrow> (\<forall>msg \<in> set msgs. msg_allowed acc str k s msg)"
  by (induction msgs) (simp_all add: res_simps check_msg_Ok [OF assms])

lemma AnteHandle_checked:
  assumes "keeper_inv k s" "height \<noteq> 0" "\<not> simulate"
  shows "AnteHandle acc str k height s tx simulate next = Ok s'
    \<longleftrightarrow> (\<forall>msg \<in> set tx. msg_allowed acc str k s msg) \<and> next s tx simulate = Ok s'"
  using assms check_msgs_Ok [OF assms(1), of acc str tx]
  by (auto simp: AnteHandle_def res_simps)

text \<open>A rejection names the first address that is not registered, the sender's side first.\<close>

lemma check_msg_unregistered:
  assumes "keeper_inv k s" "\<not> isIdentityModuleMsg (MsgTypeURL msg)" "msg_signers acc msg = Ok signers"
  shows "check_msg acc str k s msg =
    (if signers = [] then Err (sender_unregistered ''address_not_found'')
     else case List.find (\<lambda>a. \<not> registered k s a) (map str signers) of
         Some a \<Rightarrow> Err (sender_unregistered a)
       | None \<Rightarrow> (case List.find (\<lambda>a. \<not> registered k s a) (extractRecipients (Body msg)) of
           Some a \<Rightarrow> Err (recipient_unregistered a)
         | None \<Rightarrow> Ok ()))"
  using assms by (simp add: check_msg_def check_registered_eq split: option.split)

text \<open>A message whose type reflection finds no signer in is rejected for every signer.\<close>

lemma check_msg_no_signer_field:
  assumes "\<not> isIdentityModuleMsg (MsgTypeURL msg)" "GetSigners msg = None"
    and "Body msg = StructMsg fs" "\<forall>f \<in> {''Creator'', ''Signer'', ''FromAddress''}. string_field fs f = None"
  shows "check_msg acc str k s msg = Err (sender_unregistered ''address_not_found'')"
  using assms by (simp add: check_msg_def msg_signers_def extractCreatorFromMessage_def)

lemma isIdentityModuleMsg_iff:
  "isIdentityModuleMsg url \<longleftrightarrow>
     url = ''/Nexelra.identity.MsgCreateIdentity'' \<or> url = ''/Nexelra.identity.MsgUpdateParams''"
  by (auto simp: isIdentityModuleMsg_def identityMsgTypes_def)

section \<open>The ante handler\<close>

text \<open>
  \<open>NewAnteHandler\<close>: the three required options, and the decorators in their order, the
  identity verification last. The SDK's decorators and their chaining are parameters, the
  former named as in the source.
\<close>

type_synonym 's ante_handler = "'s \<Rightarrow> sdk_msg list \<Rightarrow> bool \<Rightarrow> 's res"
type_synonym 's decorator = "'s ante_handler \<Rightarrow> 's ante_handler"

record handler_options =
  AccountKeeper :: bool \<comment> \<open>whether the option is not \<open>nil\<close>\<close>
  BankKeeper :: bool
  SignModeHandler :: bool

definition sdk_decorators :: "string list" where
  "sdk_decorators =
     [''SetUpContext'', ''ExtensionOptions'', ''ValidateBasic'', ''TxTimeoutHeight'',
      ''ValidateMemo'', ''ConsumeGasForTxSize'', ''DeductFee'', ''SetPubKey'',
      ''ValidateSigCount'', ''SigGasConsume'', ''SigVerification'', ''IncrementSequence'']"

definition NewIdentityVerificationDecorator ::
    "bech32_decoder \<Rightarrow> (bytes \<Rightarrow> string) \<Rightarrow> int \<Rightarrow> 's Keeper \<Rightarrow> 's decorator" where
  "NewIdentityVerificationDecorator acc str height keeper =
     (\<lambda>next s tx simulate. AnteHandle acc str keeper height s tx simulate next)"

definition NewAnteHandler ::
    "('s decorator list \<Rightarrow> 's ante_handler) \<Rightarrow> (string \<Rightarrow> 's decorator) \<Rightarrow> 's decorator
      \<Rightarrow> handler_options \<Rightarrow> 's ante_handler res" where
  "NewAnteHandler ChainAnteDecorators sdk_decorator identity_decorator options =
     (if \<not> AccountKeeper options
      then Err (Errorf ''account keeper is required for ante builder'' '''')
      else if \<not> BankKeeper options
      then Err (Errorf ''bank keeper is required for ante builder'' '''')
      else if \<not> SignModeHandler options
      then Err (Errorf ''sign mode handler is required for ante builder'' '''')
      else let anteDecorators = map sdk_decorator sdk_decorators @ [identity_decorator]
           in Ok (ChainAnteDecorators anteDecorators))"

text \<open>\<open>setAnteHandler\<close> of \<open>app/app.go\<close> supplies all three options; an error would panic.\<close>

definition setAnteHandler ::
    "('s decorator list \<Rightarrow> 's ante_handler) \<Rightarrow> (string \<Rightarrow> 's decorator) \<Rightarrow> 's decorator
      \<Rightarrow> 's ante_handler res" where
  "setAnteHandler ChainAnteDecorators sdk_decorator identity_decorator =
     must (NewAnteHandler ChainAnteDecorators sdk_decorator identity_decorator
       \<lparr>AccountKeeper = True, BankKeeper = True, SignModeHandler = True\<rparr>)"

text \<open>The documented chaining: each decorator's \<open>next\<close> is the chain of those after it.\<close>

definition chain_decorators :: "'s decorator list \<Rightarrow> 's ante_handler" where
  "chain_decorators ds = foldr (\<lambda>d next. d next) ds (\<lambda>s tx simulate. Ok s)"

lemma setAnteHandler_Ok:
  "setAnteHandler chain_decorators sdk d
     = Ok (foldr (\<lambda>d next. d next) (map sdk sdk_decorators) (d (\<lambda>s tx simulate. Ok s)))"
  by (simp add: setAnteHandler_def NewAnteHandler_def chain_decorators_def)

text \<open>
  A decorator is \<open>passing\<close> if it can only succeed by calling the next one on the same
  transaction, after changes to the store that keep the invariant and the identities.
\<close>

definition passing :: "'s Keeper \<Rightarrow> 's decorator \<Rightarrow> bool" where
  "passing k d \<longleftrightarrow> (\<forall>next s tx simulate s'. keeper_inv k s \<longrightarrow> d next s tx simulate = Ok s'
     \<longrightarrow> (\<exists>t t'. keeper_inv k t \<and> identities k t = identities k s \<and> next t tx simulate = Ok t'))"

lemma chain_reaches_last:
  assumes "\<forall>d \<in> set ds. passing k d" "keeper_inv k s"
    and "foldr (\<lambda>d next. d next) ds final s tx simulate = Ok s'"
  shows "\<exists>t t'. keeper_inv k t \<and> identities k t = identities k s \<and> final t tx simulate = Ok t'"
  using assms
proof (induction ds arbitrary: s s')
  case (Cons d ds)
  let ?next = "foldr (\<lambda>d next. d next) ds final"
  from Cons.prems have "passing k d" "d ?next s tx simulate = Ok s'" by simp_all
  then obtain t t' where t: "keeper_inv k t" "identities k t = identities k s" "?next t tx simulate = Ok t'"
    using Cons.prems(2) unfolding passing_def by blast
  from Cons.IH [OF _ t(1,3)] Cons.prems(1) t(2) show ?case by auto
qed auto

lemma msg_allowed_identities:
  "identities k t = identities k s \<Longrightarrow> msg_allowed acc str k t msg = msg_allowed acc str k s msg"
  by (simp add: msg_allowed_def registered_def)

end
