(* ===== verification/Chain.thy ===== *)
theory Chain
  imports Ante Service
begin

text \<open>
  The module inside the running chain: what a transaction, a governance proposal and a new
  block do to the module's store, as a step relation over block height and store, and what
  holds in every state that is reached. A transaction runs the checks of its messages, the
  ante decorator and then the handlers in order; if any of them fails, its effects are
  dropped. Messages of other modules do not touch the store of this one.
\<close>

section \<open>Transactions\<close>

datatype call =
    CreateCall MsgCreateIdentity
  | UpdateCall MsgUpdateParams
  | ForeignCall sdk_msg

text \<open>
  What the ante decorator sees of the generated messages: the registered name as type URL, no
  \<open>GetSigners\<close> method, and the fields of the struct.
\<close>

fun call_msg :: "call \<Rightarrow> sdk_msg" where
  "call_msg (CreateCall msg) = \<lparr>MsgTypeURL = url_MsgCreateIdentity, GetSigners = None,
     Body = StructMsg [(''Creator'', StringField (Creator msg)), (''CccdId'', StringField (CccdId msg))]\<rparr>"
| "call_msg (UpdateCall req) = \<lparr>MsgTypeURL = url_MsgUpdateParams, GetSigners = None,
     Body = StructMsg [(''Authority'', StringField (Authority req)), (''Params'', OtherField)]\<rparr>"
| "call_msg (ForeignCall msg) = msg"

fun validate_call :: "bech32_decoder \<Rightarrow> call \<Rightarrow> unit res" where
  "validate_call acc (CreateCall msg) = MsgCreateIdentity_ValidateBasic acc msg"
| "validate_call acc (UpdateCall req) = MsgUpdateParams_ValidateBasic acc req"
| "validate_call acc (ForeignCall msg) = Ok ()"

fun run_call :: "'s Keeper \<Rightarrow> u64 \<Rightarrow> 's \<Rightarrow> call \<Rightarrow> 's res" where
  "run_call k now s (CreateCall msg) = bind_res (CreateIdentity k now s msg) (\<lambda>(s, _). Ok s)"
| "run_call k now s (UpdateCall req) = bind_res (UpdateParams k s req) (\<lambda>(s, _). Ok s)"
| "run_call k now s (ForeignCall msg) = Ok s"

fun validate_calls :: "bech32_decoder \<Rightarrow> call list \<Rightarrow> unit res" where
  "validate_calls acc [] = Ok ()"
| "validate_calls acc (c # cs) = bind_res (validate_call acc c) (\<lambda>_. validate_calls acc cs)"

fun run_calls :: "'s Keeper \<Rightarrow> u64 \<Rightarrow> 's \<Rightarrow> call list \<Rightarrow> 's res" where
  "run_calls k now s [] = Ok s"
| "run_calls k now s (c # cs) = bind_res (run_call k now s c) (\<lambda>s. run_calls k now s cs)"

definition deliver_tx ::
    "bech32_decoder \<Rightarrow> (bytes \<Rightarrow> string) \<Rightarrow> 's Keeper \<Rightarrow> int \<Rightarrow> u64 \<Rightarrow> 's \<Rightarrow> call list \<Rightarrow> 's res" where
  "deliver_tx acc str k height now s calls =
     bind_res (validate_calls acc calls) (\<lambda>_.
     bind_res (AnteHandle acc str k height s (map call_msg calls) False (\<lambda>s tx simulate. Ok s)) (\<lambda>s.
       run_calls k now s calls))"

text \<open>Every address in a transaction is shorter than a slice can be.\<close>

fun small_call :: "call \<Rightarrow> bool" where
  "small_call (CreateCall msg) = small_creator msg"
| "small_call _ = True"

section \<open>Steps\<close>

inductive chain_step ::
    "bech32_decoder \<Rightarrow> (bytes \<Rightarrow> string) \<Rightarrow> 's Keeper \<Rightarrow> int \<times> 's \<Rightarrow> int \<times> 's \<Rightarrow> bool"
  for acc str k where
  deliver: "deliver_tx acc str k height now s calls = Ok s' \<Longrightarrow> \<forall>c \<in> set calls. small_call c
    \<Longrightarrow> chain_step acc str k (height, s) (height, s')"
| proposal: "UpdateParams k s req = Ok (s', r) \<Longrightarrow> chain_step acc str k (height, s) (height, s')"
| next_block: "chain_step acc str k (height, s) (height + 1, s)"

inductive_cases chain_stepE: "chain_step acc str k (height, s) (height', s')"

abbreviation chain_steps where
  "chain_steps acc str k \<equiv> (chain_step acc str k)\<^sup>*\<^sup>*"

section \<open>What a step keeps\<close>

text \<open>\<open>keeps k s s'\<close>: well-formed after well-formed, and no identity is changed or removed.\<close>

definition keeps :: "'s Keeper \<Rightarrow> 's \<Rightarrow> 's \<Rightarrow> bool" where
  "keeps k s s' \<longleftrightarrow> keeper_inv k s' \<and> identities k s \<subseteq>\<^sub>m identities k s'"

lemma keeps_refl: "keeper_inv k s \<Longrightarrow> keeps k s s"
  by (simp add: keeps_def)

lemma keeps_trans: "keeps k s t \<Longrightarrow> keeps k t u \<Longrightarrow> keeps k s u"
  using map_le_trans by (auto simp: keeps_def)

lemma run_call_keeps:
  assumes "keeper_inv k s" "small_call c" "run_call k now s c = Ok s'"
  shows "keeps k s s'"
proof (cases c)
  case (CreateCall msg)
  with assms obtain r where "CreateIdentity k now s msg = Ok (s', r)" "small_creator msg"
    by (auto simp: res_simps)
  from CreateIdentity_OkD [OF assms(1) this(2,1)] show ?thesis
    by (simp add: keeps_def map_le_def dom_def)
next
  case (UpdateCall req)
  with assms obtain r where "UpdateParams k s req = Ok (s', r)" by (auto simp: res_simps)
  from UpdateParams_OkD [OF assms(1) this] show ?thesis by (simp add: keeps_def)
next
  case (ForeignCall msg)
  with assms show ?thesis by (simp add: keeps_refl)
qed

lemma run_calls_keeps:
  assumes "keeper_inv k s" "\<forall>c \<in> set cs. small_call c" "run_calls k now s cs = Ok s'"
  shows "keeps k s s'"
  using assms
proof (induction cs arbitrary: s)
  case (Cons c cs)
  then obtain t where t: "run_call k now s c = Ok t" "run_calls k now t cs = Ok s'"
    by (auto simp: res_simps)
  with Cons.prems have st: "keeps k s t" by (auto intro: run_call_keeps)
  then have "keeps k t s'" using Cons t(2) by (auto simp: keeps_def)
  with st show ?case by (rule keeps_trans)
qed (simp add: keeps_refl)

lemma deliver_tx_runs:
  assumes "keeper_inv k s" "deliver_tx acc str k height now s calls = Ok s'"
  shows "run_calls k now s calls = Ok s'"
    and "height \<noteq> 0 \<Longrightarrow> \<forall>c \<in> set calls. msg_allowed acc str k s (call_msg c)"
  using assms check_msgs_Ok [OF assms(1), of acc str "map call_msg calls"]
  by (auto simp: deliver_tx_def AnteHandle_def res_simps split: if_splits)

lemma chain_step_keeps:
  assumes "chain_step acc str k (height, s) (height', s')" "keeper_inv k s"
  shows "keeps k s s'"
  using assms(1)
proof (rule chain_stepE)
  fix now calls assume "deliver_tx acc str k height now s calls = Ok s'" "\<forall>c \<in> set calls. small_call c"
  then show ?thesis using run_calls_keeps [OF assms(2)] deliver_tx_runs(1) [OF assms(2)] by blast
next
  fix req r assume "UpdateParams k s req = Ok (s', r)"
  then show ?thesis using UpdateParams_OkD [OF assms(2)] by (simp add: keeps_def)
next
  assume "s' = s"
  then show ?thesis using assms(2) by (simp add: keeps_refl)
qed

lemma chain_steps_keeps:
  assumes "chain_steps acc str k (height, s) (height', s')" "keeper_inv k s"
  shows "keeps k s s'"
  using assms(1)
proof (induction rule: rtranclp_induct2)
  case refl
  then show ?case using assms(2) by (simp add: keeps_refl)
next
  case (step h t h' t')
  then have "keeper_inv k t" by (simp add: keeps_def)
  with step(2) have "keeps k t t'" by (rule chain_step_keeps)
  with step.IH show ?case by (rule keeps_trans)
qed

section \<open>Registration after genesis\<close>

text \<open>
  The ante decorator exempts \<open>/Nexelra.identity.MsgCreateIdentity\<close>, but the message's type URL
  is \<open>/nexelra.identity.MsgCreateIdentity\<close>: a registration is checked like any message, and its
  creator must already be registered, while the handler demands that it is not.
\<close>

lemma identity_urls_not_exempt:
  "\<not> isIdentityModuleMsg url_MsgCreateIdentity" "\<not> isIdentityModuleMsg url_MsgUpdateParams"
  by (simp_all add: isIdentityModuleMsg_iff url_MsgCreateIdentity_def url_MsgUpdateParams_def
      registered_names_def)

lemma create_signers:
  "msg_signers acc (call_msg (CreateCall msg)) =
     (if Creator msg = '''' then Ok []
      else bind_res (MustAccAddressFromBech32 acc (Creator msg)) (\<lambda>a. Ok [a]))"
  by (simp add: msg_signers_def extractCreatorFromMessage_def string_field_def)

lemma create_allowed:
  "msg_allowed acc str k s (call_msg (CreateCall msg)) \<longleftrightarrow>
     Creator msg \<noteq> '''' \<and> (\<exists>a. acc (Creator msg) = Inr a \<and> registered k s (str a))"
proof -
  have "MsgTypeURL (call_msg (CreateCall msg)) = url_MsgCreateIdentity"
    "extractRecipients (Body (call_msg (CreateCall msg))) = []" by simp_all
  then show ?thesis
    unfolding msg_allowed_def create_signers MustAccAddressFromBech32_def
    using identity_urls_not_exempt(1)
    by (cases "acc (Creator msg)") auto
qed

lemma run_calls_create:
  assumes "keeper_inv k s" "\<forall>c \<in> set cs. small_call c" "run_calls k now s cs = Ok s'"
    and "CreateCall msg \<in> set cs"
  shows "identities k s (Creator msg) = None"
  using assms
proof (induction cs arbitrary: s)
  case (Cons c cs)
  then obtain t where t: "run_call k now s c = Ok t" "run_calls k now t cs = Ok s'"
    by (auto simp: res_simps)
  show ?case
  proof (cases "c = CreateCall msg")
    case True
    with t(1) obtain r where "CreateIdentity k now s msg = Ok (t, r)" by (auto simp: res_simps)
    moreover have "small_creator msg" using True Cons.prems(2) by simp
    ultimately show ?thesis using CreateIdentity_OkD(1) [OF Cons.prems(1)] by blast
  next
    case False
    with t Cons have k: "keeps k s t" by (auto intro: run_call_keeps)
    then have "identities k t (Creator msg) = None"
      using Cons False t(2) by (auto simp: keeps_def)
    with k show ?thesis by (auto simp: keeps_def map_le_def dom_def)
  qed
qed simp

text \<open>Calls without a registration leave the identities alone.\<close>

lemma run_calls_no_create:
  assumes "keeper_inv k s" "run_calls k now s cs = Ok s'" "\<forall>msg. CreateCall msg \<notin> set cs"
  shows "keeper_inv k s' \<and> identities k s' = identities k s"
  using assms
proof (induction cs arbitrary: s)
  case (Cons c cs)
  then obtain t where t: "run_call k now s c = Ok t" "run_calls k now t cs = Ok s'"
    by (auto simp: res_simps)
  have "keeper_inv k t \<and> identities k t = identities k s"
    using Cons.prems(1,3) t(1) UpdateParams_OkD by (cases c) (auto simp: res_simps)
  with Cons t(2) show ?case by auto
qed simp

text \<open>A transaction with a registration fails at every height but 0.\<close>

lemma deliver_create_fails:
  assumes "keeper_inv k s" "height \<noteq> 0" "CreateCall msg \<in> set calls" "\<forall>c \<in> set calls. small_call c"
    and "\<And>a. acc (Creator msg) = Inr a \<Longrightarrow> str a = Creator msg"
  shows "deliver_tx acc str k height now s calls \<noteq> Ok s'"
proof
  assume "deliver_tx acc str k height now s calls = Ok s'"
  note d = deliver_tx_runs [OF assms(1) this]
  have "msg_allowed acc str k s (call_msg (CreateCall msg))" using d(2) assms(2,3) by blast
  then obtain a where "acc (Creator msg) = Inr a" "registered k s (str a)"
    unfolding create_allowed by blast
  then have "registered k s (Creator msg)" using assms(5) by metis
  moreover have "identities k s (Creator msg) = None"
    using run_calls_create [OF assms(1,4) d(1) assms(3)] .
  ultimately show False by (simp add: registered_def)
qed

section \<open>Registration at genesis\<close>

lemma deliver_create_at_genesis:
  assumes "keeper_inv k s" "small_creator msg" "MsgCreateIdentity_ValidateBasic acc msg = Ok ()"
    and "identities k s (Creator msg) = None"
  obtains s' where "deliver_tx acc str k 0 now s [CreateCall msg] = Ok s'" "keeper_inv k s'"
    "identities k s' = (identities k s)(Creator msg \<mapsto> identity_of now msg)"
proof -
  obtain s' where s': "CreateIdentity k now s msg = Ok (s', MsgCreateIdentityResponse)" "keeper_inv k s'"
      "identities k s' = (identities k s)(Creator msg \<mapsto> identity_of now msg)"
    using CreateIdentity_new [OF assms(1,2,4)] .
  then have "deliver_tx acc str k 0 now s [CreateCall msg] = Ok s'"
    using assms(3) by (simp add: deliver_tx_def AnteHandle_def)
  from this s'(2,3) show thesis by (rule that)
qed

end
