(* ===== verification/Access_Properties.thy ===== *)
theory Access_Properties
  imports Chain Store_Properties
begin

text \<open>
  Who may use the chain: what the ante decorator lets through, and what holds of the registered
  identities in every state of the chain. In the examples an address decodes to its own bytes.
\<close>

definition ex_acc :: bech32_decoder where
  "ex_acc s = (if s = '''' then Inl (ErrExternal ''empty address string is not allowed'')
     else Inr (bytes_of s))"

lemma example_registered: "registered ex_keeper example_store a \<longleftrightarrow> a = ''nexelra1alice''"
  by (simp add: registered_def example_identities)

section \<open>The ante decorator\<close>

text \<open>
  C2: After genesis and outside simulation, \<open>AnteHandle\<close> lets a transaction pass if and only if
  every message in it is exempt, or has signers, all of which are registered, and only
  registered recipients; then it behaves as the rest of the chain.
\<close>

theorem AnteHandle_decides:
  assumes "keeper_inv k s" "height \<noteq> 0"
  shows "((\<forall>msg \<in> set tx. msg_allowed acc str k s msg)
        \<longrightarrow> AnteHandle acc str k height s tx False next = next s tx False)
    \<and> (AnteHandle acc str k height s tx False next = Ok s'
        \<longleftrightarrow> (\<forall>msg \<in> set tx. msg_allowed acc str k s msg) \<and> next s tx False = Ok s')"
  using AnteHandle_checked [OF assms, of False acc str tx "next" s']
    check_msgs_Ok [OF assms(1), of acc str tx] assms(2)
  by (auto simp: AnteHandle_def)

abbreviation ex_send :: "string \<Rightarrow> string \<Rightarrow> sdk_msg" where
  "ex_send from to \<equiv> \<lparr>MsgTypeURL = ''/cosmos.bank.v1beta1.MsgSend'', GetSigners = None,
     Body = MsgSend from to\<rparr>"

theorem AnteHandle_decides_witness:
  "AnteHandle ex_acc string_of ex_keeper 7 example_store [ex_send ''nexelra1alice'' ''nexelra1alice''] False
     (\<lambda>s tx simulate. Ok s) = Ok example_store"
proof -
  have "\<forall>msg \<in> set [ex_send ''nexelra1alice'' ''nexelra1alice''].
      msg_allowed ex_acc string_of ex_keeper example_store msg"
    by (simp add: msg_allowed_def msg_signers_def MustAccAddressFromBech32_def ex_acc_def
        example_registered)
  with AnteHandle_decides [OF example_inv, of 7 "[ex_send ''nexelra1alice'' ''nexelra1alice'']" ex_acc
      string_of "\<lambda>s tx simulate. Ok s"] show ?thesis by simp
qed

text \<open>
  During genesis, in simulation and for a transaction without messages nothing is checked.
\<close>

theorem AnteHandle_exempt:
  assumes "height = 0 \<or> simulate \<or> tx = []"
  shows "AnteHandle acc str k height s tx simulate next = next s tx simulate"
  using assms by (auto simp: AnteHandle_def)

theorem AnteHandle_exempt_witness:
  "AnteHandle ex_acc string_of ex_keeper 0 [] [ex_send ''a'' ''b''] False (\<lambda>s tx simulate. Ok s) = Ok []"
  by (subst AnteHandle_exempt) simp_all

text \<open>
  C10: A message that is not exempt is answered in a fixed order: no signers, the first signer
  without identity, the first recipient without identity, each with its own error that names
  the address; only then the rest of the chain is called.
\<close>

theorem AnteHandle_rejects:
  assumes "keeper_inv k s" "height \<noteq> 0" "\<not> isIdentityModuleMsg (MsgTypeURL msg)"
    and "msg_signers acc msg = Ok signers"
  shows "AnteHandle acc str k height s [msg] False next =
    (if signers = [] then Err (sender_unregistered ''address_not_found'')
     else case List.find (\<lambda>a. identities k s a = None) (map str signers) of
         Some a \<Rightarrow> Err (sender_unregistered a)
       | None \<Rightarrow> (case List.find (\<lambda>a. identities k s a = None) (extractRecipients (Body msg)) of
           Some a \<Rightarrow> Err (recipient_unregistered a)
         | None \<Rightarrow> next s [msg] False))"
  using assms(2) check_msg_unregistered [OF assms(1,3,4), of str]
  by (simp add: AnteHandle_def registered_def split: option.split)

theorem AnteHandle_rejects_witness:
  "AnteHandle ex_acc string_of ex_keeper 7 example_store [ex_send ''nexelra1alice'' ''nexelra1bob''] False
      (\<lambda>s tx simulate. Ok s) = Err (recipient_unregistered ''nexelra1bob'')
   \<and> AnteHandle ex_acc string_of ex_keeper 7 example_store [ex_send ''nexelra1bob'' ''nexelra1alice''] False
      (\<lambda>s tx simulate. Ok s) = Err (sender_unregistered ''nexelra1bob'')"
proof -
  have e: "\<not> isIdentityModuleMsg (MsgTypeURL (ex_send a b))" for a b
    by (simp add: isIdentityModuleMsg_iff)
  have s: "msg_signers ex_acc (ex_send ''nexelra1alice'' ''nexelra1bob'') = Ok [bytes_of ''nexelra1alice'']"
    "msg_signers ex_acc (ex_send ''nexelra1bob'' ''nexelra1alice'') = Ok [bytes_of ''nexelra1bob'']"
    by (simp_all add: msg_signers_def MustAccAddressFromBech32_def ex_acc_def)
  show ?thesis
    by (simp add: AnteHandle_rejects [OF example_inv _ e s(1)] AnteHandle_rejects [OF example_inv _ e s(2)]
        example_identities)
qed

text \<open>
  C17: A bank transfer passes exactly if both the sender's account and the recipient are
  registered; a sender that is not an address makes the decorator panic.
\<close>

theorem AnteHandle_send:
  assumes "keeper_inv k s" "height \<noteq> 0" "\<not> isIdentityModuleMsg url"
  shows "case acc sender of
      Inl e \<Rightarrow> AnteHandle acc str k height s [\<lparr>MsgTypeURL = url, GetSigners = None, Body = MsgSend sender to\<rparr>]
          False rest = Panic
    | Inr a \<Rightarrow> AnteHandle acc str k height s [\<lparr>MsgTypeURL = url, GetSigners = None, Body = MsgSend sender to\<rparr>]
          False (\<lambda>s tx simulate. Ok s) = Ok s \<longleftrightarrow> registered k s (str a) \<and> registered k s to"
  using assms AnteHandle_checked [OF assms(1,2), of False acc str
      "[\<lparr>MsgTypeURL = url, GetSigners = None, Body = MsgSend sender to\<rparr>]" "\<lambda>s tx simulate. Ok s" s]
  by (auto simp: AnteHandle_def check_msg_def msg_allowed_def msg_signers_def
      MustAccAddressFromBech32_def split: sum.splits)

theorem AnteHandle_send_witness:
  "AnteHandle ex_acc string_of ex_keeper 7 example_store [ex_send '''' ''nexelra1alice''] False
      (\<lambda>s tx simulate. Ok s) = Panic"
  using AnteHandle_send [OF example_inv, where height = 7 and url = "''/cosmos.bank.v1beta1.MsgSend''"
      and acc = ex_acc and sender = "''''" and str = string_of and to = "''nexelra1alice''"
      and rest = "\<lambda>s tx simulate. Ok s"]
  by (simp add: ex_acc_def isIdentityModuleMsg_iff)

text \<open>
  C20: A message whose type has neither a \<open>GetSigners\<close> method nor a string field \<open>Creator\<close>,
  \<open>Signer\<close> or \<open>FromAddress\<close> is rejected whoever signed it, also if everyone is registered.
\<close>

theorem AnteHandle_unknown_signer:
  assumes "height \<noteq> 0" "\<not> isIdentityModuleMsg (MsgTypeURL msg)" "GetSigners msg = None"
    and "Body msg = StructMsg fs" "\<forall>f \<in> {''Creator'', ''Signer'', ''FromAddress''}. string_field fs f = None"
  shows "AnteHandle acc str k height s (msg # rest) False next = Err (sender_unregistered ''address_not_found'')"
  using assms(1) check_msg_no_signer_field [OF assms(2-5), of acc str k s]
  by (simp add: AnteHandle_def)

theorem AnteHandle_unknown_signer_witness:
  "AnteHandle ex_acc string_of ex_keeper 7 example_store
     [\<lparr>MsgTypeURL = ''/cosmos.staking.v1beta1.MsgDelegate'', GetSigners = None,
       Body = StructMsg [(''DelegatorAddress'', StringField ''nexelra1alice''),
         (''ValidatorAddress'', StringField ''nexelravaloper1alice''), (''Amount'', OtherField)]\<rparr>] False
     (\<lambda>s tx simulate. Ok s) = Err (sender_unregistered ''address_not_found'')"
  by (rule AnteHandle_unknown_signer [where fs = "[(''DelegatorAddress'', StringField ''nexelra1alice''),
        (''ValidatorAddress'', StringField ''nexelravaloper1alice''), (''Amount'', OtherField)]"])
    (simp_all add: isIdentityModuleMsg_iff string_field_def)

text \<open>
  The handler \<open>setAnteHandler\<close> installs: if the SDK's twelve decorators succeed only by
  calling the next one with the transaction, and leave the identities alone, then a transaction
  that the whole chain accepts after genesis has passed the identity checks.
\<close>

theorem installed_handler_checks:
  assumes "\<forall>name \<in> set sdk_decorators. passing k (sdk name)"
    and "setAnteHandler chain_decorators sdk (NewIdentityVerificationDecorator acc str height k) = Ok handler"
    and "keeper_inv k s" "height \<noteq> 0" "handler s tx False = Ok s'"
  shows "\<forall>msg \<in> set tx. msg_allowed acc str k s msg"
proof -
  let ?final = "NewIdentityVerificationDecorator acc str height k (\<lambda>s tx simulate. Ok s)"
  have "foldr (\<lambda>d next. d next) (map sdk sdk_decorators) ?final s tx False = Ok s'"
    using assms(2,5) setAnteHandler_Ok by (metis res.inject(1))
  moreover have "\<forall>d \<in> set (map sdk sdk_decorators). passing k d" using assms(1) by simp
  ultimately obtain t t' where t: "keeper_inv k t" "identities k t = identities k s"
      "?final t tx False = Ok t'"
    using chain_reaches_last [OF _ assms(3)] by blast
  then have "\<forall>msg \<in> set tx. msg_allowed acc str k t msg"
    using AnteHandle_checked [OF t(1) assms(4), of False acc str tx "\<lambda>s tx simulate. Ok s" t']
    unfolding NewIdentityVerificationDecorator_def by blast
  then show ?thesis using msg_allowed_identities [OF t(2)] by blast
qed

theorem installed_handler_checks_witness:
  "\<exists>handler. setAnteHandler chain_decorators (\<lambda>name next. next)
       (NewIdentityVerificationDecorator ex_acc string_of 7 ex_keeper) = Ok handler
     \<and> (\<forall>s'. handler example_store [ex_send ''nexelra1bob'' ''nexelra1alice''] False \<noteq> Ok s')"
proof -
  have p: "\<forall>name \<in> set sdk_decorators. passing ex_keeper ((\<lambda>name next. next) name)"
    by (auto simp: passing_def)
  have n: "\<not> msg_allowed ex_acc string_of ex_keeper example_store (ex_send ''nexelra1bob'' ''nexelra1alice'')"
    by (simp add: msg_allowed_def isIdentityModuleMsg_iff msg_signers_def MustAccAddressFromBech32_def
        ex_acc_def example_registered)
  obtain handler where h: "setAnteHandler chain_decorators (\<lambda>name next. next)
      (NewIdentityVerificationDecorator ex_acc string_of 7 ex_keeper) = Ok handler"
    using setAnteHandler_Ok by blast
  have "handler example_store [ex_send ''nexelra1bob'' ''nexelra1alice''] False \<noteq> Ok s'" for s'
    using installed_handler_checks [OF p h example_inv, of "[ex_send ''nexelra1bob'' ''nexelra1alice'']" s'] n
    by auto
  with h show ?thesis by blast
qed

section \<open>The identities of the chain\<close>



text \<open>
  C1: After genesis no address can be registered: a transaction with a \<open>MsgCreateIdentity\<close> whose
  creator is written the way the chain prints it never succeeds. An unregistered creator is
  stopped by the ante decorator, which does not recognise the message's type URL, and a
  registered one by the handler.
\<close>

theorem no_registration_after_genesis:
  assumes "keeper_inv k s" "height \<noteq> 0" "CreateCall msg \<in> set calls" "\<forall>c \<in> set calls. small_call c"
    and "\<And>a. acc (Creator msg) = Inr a \<Longrightarrow> str a = Creator msg"
  shows "deliver_tx acc str k height now s calls \<noteq> Ok s'"
  using assms by (rule deliver_create_fails)

theorem no_registration_after_genesis_witness:
  "\<forall>s'. deliver_tx ex_acc string_of ex_keeper 1 5 example_store
      [CreateCall (NewMsgCreateIdentity ''nexelra1bob'' ''001099012345'')] \<noteq> Ok s'"
  using no_registration_after_genesis [OF example_inv, of 1 "NewMsgCreateIdentity ''nexelra1bob'' ''001099012345''"
      "[CreateCall (NewMsgCreateIdentity ''nexelra1bob'' ''001099012345'')]" ex_acc string_of]
  by (auto simp: small_creator_def NewMsgCreateIdentity_def ex_acc_def)



text \<open>
  C12: An account is not an identity's key: if two spellings of an address decode to the same
  account, a registered account can register once more under the other spelling, also after
  genesis, and then has two identities.
\<close>

theorem second_spelling_registers:
  assumes "keeper_inv k s" "acc c = Inr a" "acc c' = Inr a" "str a = c" "c \<noteq> c'" "c' \<noteq> ''''"
    and "length c' < 2 ^ 61" "cccd \<noteq> ''''" "registered k s c" "\<not> registered k s c'"
  shows "\<exists>s'. deliver_tx acc str k height now s [CreateCall (NewMsgCreateIdentity c' cccd)] = Ok s'
    \<and> registered k s' c \<and> registered k s' c'"
proof -
  let ?m = "NewMsgCreateIdentity c' cccd"
  have m: "Creator ?m = c'" "CccdId ?m = cccd" by (simp_all add: NewMsgCreateIdentity_def)
  have "validate_calls acc [CreateCall ?m] = Ok ()"
    using assms(3,8) by (simp add: MsgCreateIdentity_ValidateBasic_def m)
  moreover have "msg_allowed acc str k s (call_msg (CreateCall ?m))"
    unfolding create_allowed m using assms(3,4,6,9) by simp
  then have "AnteHandle acc str k height s [call_msg (CreateCall ?m)] False (\<lambda>s tx simulate. Ok s) = Ok s"
    using check_msgs_Ok [OF assms(1), of acc str "[call_msg (CreateCall ?m)]"] by (simp add: AnteHandle_def)
  moreover obtain s' where "CreateIdentity k now s ?m = Ok (s', MsgCreateIdentityResponse)"
      "identities k s' = (identities k s)(c' \<mapsto> identity_of now ?m)"
    using CreateIdentity_new [OF assms(1), of ?m now] assms(7,10)
    by (auto simp: small_creator_def m registered_def)
  ultimately show ?thesis
    using assms(9) by (intro exI [of _ s']) (simp add: deliver_tx_def registered_def)
qed

theorem second_spelling_registers_witness:
  "\<exists>acc s'. acc ''NEXELRA1ALICE'' = acc ''nexelra1alice''
    \<and> deliver_tx acc string_of ex_keeper 9 5 example_store
        [CreateCall (NewMsgCreateIdentity ''NEXELRA1ALICE'' ''1'')] = Ok s'
    \<and> registered ex_keeper s' ''nexelra1alice'' \<and> registered ex_keeper s' ''NEXELRA1ALICE''"
proof -
  let ?acc = "\<lambda>s. if s = ''NEXELRA1ALICE'' then Inr (bytes_of ''nexelra1alice'') else Inr (bytes_of s) :: error + bytes"
  show ?thesis
    using second_spelling_registers [OF example_inv, of ?acc "''nexelra1alice''" "bytes_of ''nexelra1alice''"
        "''NEXELRA1ALICE''" string_of "''1''" 9 5]
    by (intro exI [of _ ?acc]) (auto simp: example_registered)
qed

text \<open>
  A \<open>MsgUpdateParams\<close> in a transaction after genesis is always rejected by the ante decorator
  for want of signers, also when the authority sends it; parameters change by proposals only.
\<close>

theorem UpdateParams_not_by_transaction:
  assumes "keeper_inv k s" "height \<noteq> 0" "UpdateCall req \<in> set calls"
  shows "deliver_tx acc str k height now s calls \<noteq> Ok s'"
proof
  assume "deliver_tx acc str k height now s calls = Ok s'"
  then have "msg_allowed acc str k s (call_msg (UpdateCall req))"
    using deliver_tx_runs(2) [OF assms(1)] assms(2,3) by blast
  then show False
    using identity_urls_not_exempt(2)
    by (simp add: msg_allowed_def msg_signers_def extractCreatorFromMessage_def string_field_def)
qed

theorem UpdateParams_not_by_transaction_witness:
  "\<forall>s'. deliver_tx ex_acc string_of ex_keeper 3 5 example_store
    [UpdateCall \<lparr>Authority = ''gov'', MsgParams = Params\<rparr>] \<noteq> Ok s'"
  using UpdateParams_not_by_transaction [OF example_inv, of 3 "\<lparr>Authority = ''gov'', MsgParams = Params\<rparr>"]
  by simp

section \<open>Genesis\<close>



end
