(* ===== verification/Vectors.thy ===== *)
theory Vectors
  imports Sha256 Decoder
begin

text \<open>
  Known answers: the one-block example of FIPS 180-4 for SHA-256, and the varint and the
  string field of the protobuf encoding guide.
\<close>

lemma Sum256_abc:
  "hex_of (Sum256 (bytes_of ''abc'')) = ''ba7816bf8f01cfea414140de5dae2223b00361a396177a9cb410ff61f20015ad''"
  by code_simp

lemma uvarint_150: "uvarint 150 = [0x96, 0x01]"
  by code_simp

lemma enc_str_testing:
  "enc_str 0x12 ''testing'' = [0x12, 0x07, 0x74, 0x65, 0x73, 0x74, 0x69, 0x6e, 0x67]"
  by code_simp

end
