(* ===== verification/Text.thy ===== *)
theory Text
  imports Prelude "HOL-Library.Sublist"
begin

text \<open>
  The parts of Go's \<open>strconv\<close>, \<open>strings\<close> and \<open>path/filepath\<close> the command-line code uses:
  decimal printing and parsing of 64-bit integers, splitting, and the joining of paths.
\<close>

section \<open>Decimal numbers\<close>

definition digit_char :: "nat \<Rightarrow> char" where
  "digit_char n = char_of (48 + n)"

definition is_digit :: "char \<Rightarrow> bool" where
  "is_digit c \<longleftrightarrow> 48 \<le> (of_char c :: nat) \<and> (of_char c :: nat) \<le> 57"

definition digit_value :: "char \<Rightarrow> nat" where
  "digit_value c = of_char c - 48"

fun dec :: "nat \<Rightarrow> string" where
  "dec n = (if n < 10 then [digit_char n] else dec (n div 10) @ [digit_char (n mod 10)])"

declare dec.simps [simp del]

definition Itoa :: "int \<Rightarrow> string" where
  "Itoa i = (if i < 0 then CHR ''-'' # dec (nat (- i)) else dec (nat i))"

definition dec_value :: "string \<Rightarrow> nat" where
  "dec_value s = foldl (\<lambda>a c. 10 * a + digit_value c) 0 s"

text \<open>\<open>ParseInt(s, 10, 64)\<close>: an optional sign and digits, in the range of an \<open>int64\<close>.\<close>

definition ParseInt :: "string \<Rightarrow> error + int" where
  "ParseInt s =
     (let (neg, ds) = (case s of
            c # r \<Rightarrow> if c = CHR ''-'' then (True, r) else if c = CHR ''+'' then (False, r) else (False, s)
          | [] \<Rightarrow> (False, s))
      in if ds = [] \<or> \<not> list_all is_digit ds then Inl (Errorf ''invalid syntax'' s)
         else let v = int (dec_value ds) in
           if neg \<and> 2 ^ 63 < v \<or> \<not> neg \<and> 2 ^ 63 \<le> v then Inl (Errorf ''value out of range'' s)
           else Inr (if neg then - v else v))"

text \<open>\<open>Atoi\<close> on a 64-bit machine.\<close>

definition Atoi :: "string \<Rightarrow> error + int" where
  "Atoi = ParseInt"

lemma of_digit_char: "n < 10 \<Longrightarrow> of_char (digit_char n) = (48 + n :: nat)"
  by (simp add: digit_char_def of_char_of)

lemma is_digit_char: "n < 10 \<Longrightarrow> is_digit (digit_char n)"
  by (simp add: is_digit_def of_digit_char)

lemma digit_value_char: "n < 10 \<Longrightarrow> digit_value (digit_char n) = n"
  by (simp add: digit_value_def of_digit_char)

lemma dec_digits: "list_all is_digit (dec n)"
proof (induction n rule: dec.induct)
  case (1 n)
  then show ?case by (subst dec.simps) (simp add: is_digit_char)
qed

lemma dec_not_Nil [simp]: "dec n \<noteq> []"
  by (subst dec.simps) simp

lemma dec_value_dec [simp]: "dec_value (dec n) = n"
proof (induction n rule: dec.induct)
  case (1 n)
  then show ?case by (subst dec.simps) (simp add: dec_value_def digit_value_char)
qed

lemma dec_inj [simp]: "dec m = dec n \<longleftrightarrow> m = n"
  by (metis dec_value_dec)

lemma dec_hd: "is_digit (hd (dec n))"
  using dec_digits [of n] by (cases "dec n") (auto simp: list_all_iff)

lemma sign_not_digit: "\<not> is_digit (CHR ''-'')" "\<not> is_digit (CHR ''+'')"
  by (simp_all add: is_digit_def)

lemma dec_no_sign: "dec n = c # r \<Longrightarrow> c \<noteq> CHR ''-'' \<and> c \<noteq> CHR ''+''"
  using dec_hd [of n] sign_not_digit by auto

lemma ParseInt_dec: "n < 2 ^ 63 \<Longrightarrow> ParseInt (dec n) = Inr (int n)"
proof -
  assume "n < 2 ^ 63"
  then have n: "int n < 2 ^ 63" by (simp flip: of_nat_less_iff)
  obtain c r where "dec n = c # r" by (cases "dec n") auto
  with dec_no_sign [OF this] dec_digits [of n] dec_value_dec [of n] n show ?thesis
    by (simp add: ParseInt_def)
qed

text \<open>Digits alone are never negative; they are rejected when they are out of range.\<close>

lemma ParseInt_digits:
  assumes "ds \<noteq> []" "list_all is_digit ds"
  shows "ParseInt ds = (if dec_value ds < 2 ^ 63 then Inr (int (dec_value ds))
    else Inl (Errorf ''value out of range'' ds))"
proof -
  obtain c r where ds: "ds = c # r" using assms(1) by (cases ds) auto
  then have "c \<noteq> CHR ''-''" "c \<noteq> CHR ''+''" using assms(2) sign_not_digit by auto
  moreover have "(2 :: int) ^ 63 \<le> int (dec_value ds) \<longleftrightarrow> \<not> dec_value ds < 2 ^ 63"
    by (simp flip: of_nat_le_iff add: not_less)
  ultimately show ?thesis using assms by (simp add: ParseInt_def ds)
qed

lemma ParseInt_Itoa:
  assumes "- (2 ^ 63) \<le> i" "i < 2 ^ 63"
  shows "ParseInt (Itoa i) = Inr i"
proof (cases "i < 0")
  case True
  then have "int (nat (- i)) \<le> 2 ^ 63" using assms(1) by simp
  with True dec_digits [of "nat (- i)"] show ?thesis by (simp add: Itoa_def ParseInt_def)
next
  case False
  then have "nat i < 2 ^ 63" using assms(2) by (simp add: nat_less_iff)
  with False ParseInt_dec show ?thesis by (simp add: Itoa_def)
qed

lemma Itoa_inj [simp]: "Itoa i = Itoa j \<longleftrightarrow> i = j"
proof
  assume e: "Itoa i = Itoa j"
  have "hd (dec n) \<noteq> CHR ''-''" for n using dec_hd [of n] sign_not_digit by metis
  then have "dec n \<noteq> CHR ''-'' # s" for s n by (metis list.sel(1))
  with this [symmetric] e show "i = j" by (auto simp: Itoa_def split: if_splits)
qed simp

section \<open>Splitting\<close>

text \<open>\<open>strings.Split(s, sep)\<close> for a separator of one character.\<close>

fun split_on :: "char \<Rightarrow> string \<Rightarrow> string list" where
  "split_on c [] = [[]]"
| "split_on c (x # xs) = (if x = c then [] # split_on c xs
     else (case split_on c xs of y # ys \<Rightarrow> (x # y) # ys | [] \<Rightarrow> [[x]]))"

fun join_with :: "string \<Rightarrow> string list \<Rightarrow> string" where
  "join_with sep [] = []"
| "join_with sep [x] = x"
| "join_with sep (x # y # ys) = x @ sep @ join_with sep (y # ys)"

lemma split_on_not_Nil [simp]: "split_on c s \<noteq> []"
  by (induction s) (auto split: list.split)

lemma split_on_append:
  "c \<notin> set x \<Longrightarrow> split_on c (x @ c # s) = x # split_on c s"
  by (induction x) auto

lemma split_on_none: "c \<notin> set x \<Longrightarrow> split_on c x = [x]"
  by (induction x) auto

lemma split_on_join:
  assumes "xs \<noteq> []" "\<forall>x \<in> set xs. c \<notin> set x"
  shows "split_on c (join_with [c] xs) = xs"
  using assms
  by (induction "[c]" xs rule: join_with.induct) (auto simp: split_on_append split_on_none)

section \<open>Paths\<close>

text \<open>
  An absolute path is the list of its components. \<open>clean\<close> is what \<open>filepath.Clean\<close> does to
  them, with the components already seen in reverse; \<open>path_join\<close> is \<open>filepath.Join\<close> of a
  path and a relative name.
\<close>

type_synonym path = "string list"

fun clean :: "string list \<Rightarrow> string list \<Rightarrow> path" where
  "clean seen [] = rev seen"
| "clean seen (x # xs) =
     (if x = '''' \<or> x = ''.'' then clean seen xs
      else if x = ''..'' then clean (tl seen) xs
      else clean (x # seen) xs)"

definition path_join :: "path \<Rightarrow> string \<Rightarrow> path" where
  "path_join base name = clean [] (base @ split_on (CHR ''/'') name)"

definition clean_path :: "path \<Rightarrow> bool" where
  "clean_path p \<longleftrightarrow> (\<forall>x \<in> set p. x \<noteq> '''' \<and> x \<noteq> ''.'' \<and> x \<noteq> ''..'')"

lemma clean_append: "clean_path p \<Longrightarrow> clean seen (p @ q) = clean (rev p @ seen) q"
  by (induction p arbitrary: seen) (auto simp: clean_path_def)

lemma path_join_plain:
  assumes "clean_path base" "clean_path [name]" "CHR ''/'' \<notin> set name"
  shows "path_join base name = base @ [name]"
  using assms by (auto simp: path_join_def clean_append split_on_none clean_path_def)

end
