(* ===== verification/Snapshot.thy ===== *)
theory Snapshot
  imports Text "HOL-Library.Signed_Division"
begin

text \<open>
  The snapshot commands of \<open>cmd/Nexelrad/cmd/commands.go\<close>: reading heights from directory
  names and settings from \<open>app.toml\<close>, the progress bar, the status report, and listing,
  creating, restoring and deleting snapshots on a tree of files. What a command prints is
  the list of its lines, one constructor per \<open>Print\<close> statement, without borders and emoji.
\<close>

section \<open>The file system\<close>

text \<open>
  A file carries its size, its printed modification time and its content; a directory lists
  its entries in the order of their names, which is the order of \<open>os.ReadDir\<close>. Links and
  permissions are left out.
\<close>

datatype node =
    File (node_size: nat) (node_time: string) (content: string)
  | Dir (entries: "(string \<times> node) list")

datatype stat = Found node | NotExist | NotDir

fun IsDir :: "node \<Rightarrow> bool" where
  "IsDir (Dir _) = True"
| "IsDir (File _ _ _) = False"

text \<open>\<open>os.Stat\<close>: a path through a file fails, but not with \<open>ErrNotExist\<close>.\<close>

fun Stat :: "node \<Rightarrow> path \<Rightarrow> stat" where
  "Stat n [] = Found n"
| "Stat (File _ _ _) (x # p) = NotDir"
| "Stat (Dir es) (x # p) = (case map_of es x of None \<Rightarrow> NotExist | Some n \<Rightarrow> Stat n p)"

definition ReadDir :: "node \<Rightarrow> path \<Rightarrow> error + (string \<times> node) list" where
  "ReadDir fs p = (case Stat fs p of
       Found (Dir es) \<Rightarrow> Inr es
     | Found (File _ _ _) \<Rightarrow> Inl (ErrExternal ''not a directory'')
     | NotExist \<Rightarrow> Inl (ErrExternal ''no such file or directory'')
     | NotDir \<Rightarrow> Inl (ErrExternal ''not a directory''))"

definition ReadFile :: "node \<Rightarrow> path \<Rightarrow> error + string" where
  "ReadFile fs p = (case Stat fs p of
       Found (File _ _ c) \<Rightarrow> Inr c
     | Found (Dir _) \<Rightarrow> Inl (ErrExternal ''is a directory'')
     | NotExist \<Rightarrow> Inl (ErrExternal ''no such file or directory'')
     | NotDir \<Rightarrow> Inl (ErrExternal ''not a directory''))"

text \<open>The tree without the entry at a path.\<close>

fun drop_path :: "node \<Rightarrow> path \<Rightarrow> node" where
  "drop_path (File s t c) p = File s t c"
| "drop_path n [] = n"
| "drop_path (Dir es) [x] = Dir (filter (\<lambda>e. fst e \<noteq> x) es)"
| "drop_path (Dir es) (x # y # p) =
     Dir (map (\<lambda>(z, n). (z, if z = x then drop_path n (y # p) else n)) es)"

text \<open>\<open>os.Remove\<close>: a file or an empty directory.\<close>

definition Remove :: "node \<Rightarrow> path \<Rightarrow> error + node" where
  "Remove fs p = (case Stat fs p of
       Found (File _ _ _) \<Rightarrow> Inr (drop_path fs p)
     | Found (Dir es) \<Rightarrow>
         if p = [] then Inl (ErrExternal ''device or resource busy'')
         else if es \<noteq> [] then Inl (ErrExternal ''directory not empty'')
         else Inr (drop_path fs p)
     | NotExist \<Rightarrow> Inl (ErrExternal ''no such file or directory'')
     | NotDir \<Rightarrow> Inl (ErrExternal ''not a directory''))"

lemma Stat_append: "Stat fs (p @ q) = (case Stat fs p of Found n \<Rightarrow> Stat n q
    | NotExist \<Rightarrow> NotExist | NotDir \<Rightarrow> NotDir)"
  if "q \<noteq> []" using that
  by (induction fs p rule: Stat.induct) (auto split: option.split)

lemma map_of_filter_fst:
  "map_of (filter (\<lambda>e. fst e \<noteq> x) es) y = (if y = x then None else map_of es y)"
  by (induction es) auto

lemma map_of_map_at:
  "map_of (map (\<lambda>(z, n). (z, if z = x then f n else n)) es) y
     = map_option (\<lambda>n. if y = x then f n else n) (map_of es y)"
  by (induction es) auto

text \<open>Dropping a path removes what is there and nothing that does not lie below it.\<close>

lemma Stat_drop_path_same:
  "Stat fs p = Found n \<Longrightarrow> p \<noteq> [] \<Longrightarrow> Stat (drop_path fs p) p = NotExist"
proof (induction p arbitrary: fs)
  case (Cons x p)
  then obtain es where [simp]: "fs = Dir es" by (cases fs) auto
  show ?case using Cons by (cases p) (auto simp: map_of_filter_fst map_of_map_at split: option.splits)
qed simp

lemma Stat_drop_path_other:
  "\<not> prefix p q \<Longrightarrow> Stat fs q = Found (File s t c) \<Longrightarrow> Stat (drop_path fs p) q = Found (File s t c)"
proof (induction p arbitrary: fs q)
  case (Cons x p)
  show ?case
  proof (cases q)
    case Nil
    with Cons.prems show ?thesis by simp
  next
    case (Cons y r)
    with Cons.prems(2) obtain es m where [simp]: "fs = Dir es"
        and m: "map_of es y = Some m" "Stat m r = Found (File s t c)"
      by (cases fs) (auto split: option.splits)
    show ?thesis
      using Cons.IH [of r m] Cons.prems Cons m
      by (cases p) (auto simp: map_of_filter_fst map_of_map_at)
  qed
qed simp

section \<open>Heights in directory names\<close>

text \<open>The match of \<open>^(\d+)\<close> is the longest run of digits the name starts with.\<close>

definition extractHeightFromDirname :: "string \<Rightarrow> int" where
  "extractHeightFromDirname dirname =
     (let digits = takeWhile is_digit dirname in
      if digits = [] then 0
      else case ParseInt digits of Inr height \<Rightarrow> height | Inl e \<Rightarrow> 0)"

fun count_entries :: "(string \<times> node) list \<Rightarrow> int \<Rightarrow> int" where
  "count_entries [] count = count"
| "count_entries ((name, n) # es) count =
     (if IsDir n \<and> name \<noteq> ''metadata.db'' \<and> extractHeightFromDirname name > 0
      then count_entries es (int64 (count + 1)) else count_entries es count)"

definition countSnapshotFiles :: "node \<Rightarrow> path \<Rightarrow> int" where
  "countSnapshotFiles fs snapshotDir =
     (case ReadDir fs snapshotDir of Inl e \<Rightarrow> 0 | Inr es \<Rightarrow> count_entries es 0)"

fun latest_entry :: "(string \<times> node) list \<Rightarrow> int \<Rightarrow> int" where
  "latest_entry [] latestHeight = latestHeight"
| "latest_entry ((name, n) # es) latestHeight =
     (if IsDir n \<and> name \<noteq> ''metadata.db'' then
        (let height = extractHeightFromDirname name in
         if height > latestHeight then latest_entry es height else latest_entry es latestHeight)
      else latest_entry es latestHeight)"

definition getLatestSnapshotHeight :: "node \<Rightarrow> path \<Rightarrow> int" where
  "getLatestSnapshotHeight fs snapshotDir =
     (case ReadDir fs snapshotDir of Inl e \<Rightarrow> 0 | Inr es \<Rightarrow> latest_entry es 0)"

text \<open>The heights the two loops look at.\<close>

definition snapshot_heights :: "(string \<times> node) list \<Rightarrow> int list" where
  "snapshot_heights es = map (extractHeightFromDirname \<circ> fst)
     (filter (\<lambda>(name, n). IsDir n \<and> name \<noteq> ''metadata.db'' \<and> extractHeightFromDirname name > 0) es)"

lemma extractHeight_eq:
  "extractHeightFromDirname s =
    (let v = dec_value (takeWhile is_digit s) in
     if takeWhile is_digit s \<noteq> [] \<and> v < 2 ^ 63 then int v else 0)"
proof -
  have "list_all is_digit (takeWhile is_digit s)" by (auto simp: list_all_iff dest: set_takeWhileD)
  then show ?thesis by (simp add: extractHeightFromDirname_def Let_def ParseInt_digits)
qed

lemma extractHeight_nonneg: "0 \<le> extractHeightFromDirname s"
  by (simp add: extractHeight_eq Let_def)

lemma takeWhile_digits_append:
  "list_all is_digit ds \<Longrightarrow> (\<forall>c r. s = c # r \<longrightarrow> \<not> is_digit c) \<Longrightarrow> takeWhile is_digit (ds @ s) = ds"
  by (cases s) (simp_all add: takeWhile_append2 takeWhile_tail list_all_iff)

lemma extractHeight_dec:
  assumes "n < 2 ^ 63" "\<forall>c r. s = c # r \<longrightarrow> \<not> is_digit c"
  shows "extractHeightFromDirname (dec n @ s) = int n"
  using assms by (simp add: extractHeight_eq takeWhile_digits_append dec_digits)

lemma count_entries_eq:
  assumes "0 \<le> c" "c + int (length es) < 2 ^ 63"
  shows "count_entries es c = c + int (length (snapshot_heights es))"
  using assms
proof (induction es c rule: count_entries.induct)
  case (2 name n es c)
  then have "int64 (c + 1) = c + 1" by (intro int64_id) auto
  with 2 show ?case by (auto simp: snapshot_heights_def)
qed (simp add: snapshot_heights_def)

lemma latest_entry_eq:
  "0 \<le> m \<Longrightarrow> latest_entry es m = fold max (snapshot_heights es) m"
proof (induction es m rule: latest_entry.induct)
  case (2 name n es m)
  let ?h = "extractHeightFromDirname name"
  show ?case
  proof (cases "IsDir n \<and> name \<noteq> ''metadata.db'' \<and> ?h > m")
    case True
    then have "snapshot_heights ((name, n) # es) = ?h # snapshot_heights es" "max ?h m = ?h"
      using 2(4) by (auto simp: snapshot_heights_def)
    with True 2 show ?thesis by (simp add: Let_def)
  next
    case False
    then have "latest_entry ((name, n) # es) m = latest_entry es m" by (auto simp: Let_def)
    moreover have "latest_entry es m = fold max (snapshot_heights es) m"
      using 2 False by auto
    moreover have "fold max (snapshot_heights ((name, n) # es)) m = fold max (snapshot_heights es) m"
      using False by (auto simp: snapshot_heights_def max_def)
    ultimately show ?thesis by simp
  qed
qed (simp add: snapshot_heights_def)

lemma fold_max_Max: "fold max hs (m :: int) = Max (insert m (set hs))"
  by (simp add: Max.set_eq_fold [symmetric])

section \<open>Settings\<close>

text \<open>The class \<open>\s\<close> of Go's regular expressions.\<close>

definition regex_space :: "char \<Rightarrow> bool" where
  "regex_space c \<longleftrightarrow> c \<in> {CHR '' '', CHR 0x09, CHR 0x0A, CHR 0x0C, CHR 0x0D}"

text \<open>
  The digits that \<open>key\s*=\s*(\d+)\<close> captures when it matches at the start of a text, and
  those of its leftmost match. The keys contain no character with a meaning in an expression.
\<close>

definition match_here :: "string \<Rightarrow> string \<Rightarrow> string option" where
  "match_here key s =
     (if prefix key s then
        (case dropWhile regex_space (drop (length key) s) of
           c # r \<Rightarrow>
             if c = CHR ''='' then
               (let digits = takeWhile is_digit (dropWhile regex_space r) in
                if digits = [] then None else Some digits)
             else None
         | [] \<Rightarrow> None)
      else None)"

fun FindStringSubmatch :: "string \<Rightarrow> string \<Rightarrow> string option" where
  "FindStringSubmatch key [] = match_here key []"
| "FindStringSubmatch key (c # s) =
     (case match_here key (c # s) of Some m \<Rightarrow> Some m | None \<Rightarrow> FindStringSubmatch key s)"

definition config_default :: "string \<Rightarrow> int" where
  "config_default key =
     (if key = ''snapshot-interval'' then 100
      else if key = ''snapshot-keep-recent'' then 2
      else 0)"

definition parseConfigValueInt :: "node \<Rightarrow> path \<Rightarrow> string \<Rightarrow> int" where
  "parseConfigValueInt fs configPath key =
     (case ReadFile fs configPath of
        Inl e \<Rightarrow> config_default key
      | Inr txt \<Rightarrow>
          (case FindStringSubmatch key txt of
             Some m \<Rightarrow> (case Atoi m of Inr val \<Rightarrow> val | Inl e \<Rightarrow> config_default key)
           | None \<Rightarrow> config_default key))"

definition getSnapshotIntervalFromConfig :: "path \<Rightarrow> node \<Rightarrow> int" where
  "getSnapshotIntervalFromConfig home fs =
     parseConfigValueInt fs (home @ [''config'', ''app.toml'']) ''snapshot-interval''"

definition getSnapshotKeepRecentFromConfig :: "path \<Rightarrow> node \<Rightarrow> int" where
  "getSnapshotKeepRecentFromConfig home fs =
     parseConfigValueInt fs (home @ [''config'', ''app.toml'']) ''snapshot-keep-recent''"

lemma match_here_digits: "match_here key s = Some m \<Longrightarrow> m \<noteq> [] \<and> list_all is_digit m"
  by (auto simp: match_here_def Let_def list_all_iff dest: set_takeWhileD
      split: if_splits list.splits)

lemma FindStringSubmatch_digits:
  "FindStringSubmatch key s = Some m \<Longrightarrow> m \<noteq> [] \<and> list_all is_digit m"
  by (induction s) (auto dest: match_here_digits split: option.splits)

lemma parseConfigValueInt_bounds:
  "0 \<le> parseConfigValueInt fs p key" "parseConfigValueInt fs p key < 2 ^ 63"
proof -
  have "0 \<le> v \<and> v < 2 ^ 63" if "FindStringSubmatch key c = Some m" "Atoi m = Inr v" for c m v
    using FindStringSubmatch_digits [OF that(1)] that(2)
    by (auto simp: Atoi_def ParseInt_digits split: if_splits simp flip: of_nat_less_iff)
  then show "0 \<le> parseConfigValueInt fs p key" "parseConfigValueInt fs p key < 2 ^ 63"
    by (auto simp: parseConfigValueInt_def config_default_def split: sum.split option.split)
qed

section \<open>The progress bar\<close>

datatype cell = Full | Shade

text \<open>
  \<open>strings.Repeat\<close> panics on a negative count; its panic on a result too long for memory is
  left out. Division truncates towards zero.
\<close>

definition Repeat :: "'a \<Rightarrow> int \<Rightarrow> 'a list res" where
  "Repeat x count = (if count < 0 then Panic else Ok (replicate (nat count) x))"

definition createProgressBar :: "int \<Rightarrow> int \<Rightarrow> int \<Rightarrow> cell list res" where
  "createProgressBar current goal width =
     (if goal = 0 then Repeat Shade width
      else
        (let filled = int64 (int64 (current * width) sdiv goal);
             filled = (if filled > width then width else filled)
         in bind_res (Repeat Full filled) (\<lambda>a.
            bind_res (Repeat Shade (int64 (width - filled))) (\<lambda>b. Ok (a @ b)))))"

lemma sdiv_nonneg: "0 \<le> a \<Longrightarrow> 0 < b \<Longrightarrow> a sdiv b = a div (b :: int)"
  by (simp add: signed_divide_int_def sgn_if)

lemma createProgressBar_eq:
  assumes "0 \<le> current" "0 < goal" "goal < 2 ^ 63" "0 \<le> width" "width < 2 ^ 63"
    and "current * width < 2 ^ 63"
  shows "createProgressBar current goal width =
    (let filled = min (current * width div goal) width
     in Ok (replicate (nat filled) Full @ replicate (nat (width - filled)) Shade))"
proof -
  let ?q = "current * width div goal"
  have c: "0 \<le> current * width" using assms by simp
  then have w: "int64 (current * width) = current * width"
    using assms by (intro int64_id) (auto intro: order_trans [of _ 0])
  have d: "0 \<le> ?q" "?q < 2 ^ 63"
    using c assms int_div_le_self [of "current * width" goal]
    by (cases "current * width = 0"; auto simp: pos_imp_zdiv_nonneg_iff)+
  then have q: "int64 ?q = ?q" by (intro int64_id) auto
  have "int64 (width - f) = width - f" if "0 \<le> f" "f \<le> width" for f
    using that assms by (intro int64_id) auto
  then show ?thesis
    using d assms int64_id [of 0] by (simp add: createProgressBar_def Repeat_def Let_def w sdiv_nonneg [OF c] q min_def)
qed

section \<open>The status of the node\<close>

text \<open>
  What the node answers to \<open>/status\<close>: no connection, a body that does not decode, or the
  height as a string, the printed time and the flag.
\<close>

datatype rpc_reply =
    ConnectionFailed
  | DecodeFailed
  | StatusReply (latest_block_height: string) (latest_block_time: string) (catching_up: bool)

definition getRealDataFromRPC :: "rpc_reply \<Rightarrow> int \<times> string \<times> bool" where
  "getRealDataFromRPC reply =
     (case reply of
        ConnectionFailed \<Rightarrow> (0, ''[RPC CONNECTION FAILED]'', False)
      | DecodeFailed \<Rightarrow> (0, ''[JSON PARSE FAILED]'', False)
      | StatusReply h t c \<Rightarrow>
          (case ParseInt h of
             Inr height \<Rightarrow> (height, t, c)
           | Inl e \<Rightarrow> (0, ''[HEIGHT PARSE FAILED]'', False)))"

definition getRealBlockchainStatus :: "rpc_reply \<Rightarrow> string \<times> int \<times> string \<times> bool" where
  "getRealBlockchainStatus reply =
     (let (realHeight, realTime, realCatchingUp) = getRealDataFromRPC reply in
      if realHeight > 0 then (''nexelra'', realHeight, realTime, realCatchingUp)
      else (''nexelra'', 0, ''[NODE OFFLINE]'', False))"

definition isNodeRunning :: "rpc_reply \<Rightarrow> bool" where
  "isNodeRunning reply \<longleftrightarrow> reply \<noteq> ConnectionFailed"

definition getSimulatedBlockHeight :: int where
  "getSimulatedBlockHeight = 0"

lemma ParseInt_bounds: "ParseInt s = Inr i \<Longrightarrow> - (2 ^ 63) \<le> i \<and> i < 2 ^ 63"
  by (auto simp: ParseInt_def Let_def split: list.splits if_splits)

lemma getRealBlockchainStatus_cases:
  obtains t c where "getRealBlockchainStatus reply = (''nexelra'', 0, t, c)"
  | h t c where "getRealBlockchainStatus reply = (''nexelra'', h, t, c)" "0 < h" "h < 2 ^ 63"
proof (cases "0 < fst (getRealDataFromRPC reply)")
  case True
  then obtain h t c where r: "getRealDataFromRPC reply = (h, t, c)" "0 < h" by (metis eq_fst_iff)
  then have "h < 2 ^ 63"
    by (auto simp: getRealDataFromRPC_def dest: ParseInt_bounds split: rpc_reply.splits sum.splits)
  with r show thesis by (intro that(2)) (simp_all add: getRealBlockchainStatus_def)
next
  case False
  obtain h t c where "getRealDataFromRPC reply = (h, t, c)" by (metis prod.exhaust)
  with False show thesis by (intro that(1)) (simp add: getRealBlockchainStatus_def)
qed

section \<open>The status report\<close>

text \<open>\<open>Progress\<close> carries the two numbers printed and the two whose quotient is the percentage.\<close>

datatype info_line =
    ChainID string
  | CurrentHeight int
  | LatestTime string
  | CatchingUp bool
  | Disabled
  | Enabled
  | SnapshotInterval int
  | KeepRecent int
  | LastSnapshot int
  | NoSnapshotYet
  | NextSnapshot int
  | Progress int int int int
  | Bar "cell list"
  | Directory path
  | AvailableFiles int
  | LatestSnapshot int
  | Heading string
  | Hint string

definition progress_lines :: "int \<Rightarrow> int \<Rightarrow> info_line list res" where
  "progress_lines blockHeight interval =
     (let lastSnapshotHeight = int64 (int64 (blockHeight sdiv interval) * interval);
          nextSnapshotHeight = int64 (lastSnapshotHeight + interval);
          progressToNext = int64 (blockHeight - lastSnapshotHeight)
      in bind_res (createProgressBar progressToNext interval 40) (\<lambda>progressBar.
           Ok ([Heading ''SNAPSHOT PROGRESS'',
                if lastSnapshotHeight > 0 then LastSnapshot lastSnapshotHeight else NoSnapshotYet,
                NextSnapshot nextSnapshotHeight,
                Progress progressToNext interval (int64 (progressToNext * 100)) interval,
                Bar progressBar])))"

definition files_lines :: "path \<Rightarrow> node \<Rightarrow> info_line list" where
  "files_lines home fs =
     (let snapshotDir = home @ [''data'', ''snapshots''];
          snapshotCount = countSnapshotFiles fs snapshotDir;
          latestHeight = getLatestSnapshotHeight fs snapshotDir
      in [Heading ''SNAPSHOT FILES'', Directory snapshotDir, AvailableFiles snapshotCount]
         @ (if snapshotCount > 0 \<and> latestHeight > 0 then [LatestSnapshot latestHeight] else []))"

definition runSnapshotInfo :: "path \<Rightarrow> node \<Rightarrow> rpc_reply \<Rightarrow> info_line list res" where
  "runSnapshotInfo home fs reply =
     (let (chainID, blockHeight, blockTime, catchingUp) = getRealBlockchainStatus reply;
          interval = getSnapshotIntervalFromConfig home fs;
          keepRecent = getSnapshotKeepRecentFromConfig home fs
      in bind_res
           (if interval = 0
            then Ok [Disabled, Hint ''Fix: Edit ~/.nexelra/config/app.toml'',
                     Hint ''Set snapshot-interval = 100'']
            else bind_res (progress_lines blockHeight interval) (\<lambda>ls.
              Ok ([Enabled, SnapshotInterval interval, KeepRecent keepRecent] @ ls)))
           (\<lambda>configuration.
             Ok ([Heading ''SNAPSHOT & BLOCKCHAIN STATUS'', Heading ''BLOCKCHAIN STATUS'',
                  ChainID chainID, CurrentHeight blockHeight, LatestTime blockTime,
                  CatchingUp catchingUp, Heading ''SNAPSHOT CONFIGURATION'']
               @ configuration @ files_lines home fs
               @ Heading ''USEFUL COMMANDS:''
               # (if interval = 0
                  then [Hint ''Enable snapshots'', Hint ''Restart node'']
                  else [Hint ''Monitor progress'', Hint ''List snapshots'', Hint ''Current height'']))))"

lemma createProgressBar_40:
  assumes "0 \<le> x" "x < i" "i \<le> 92233720368547758"
  shows "createProgressBar x i 40 =
    (let filled = min (x * 40 div i) 40
     in Ok (replicate (nat filled) Full @ replicate (nat (40 - filled)) Shade))"
  using assms by (intro createProgressBar_eq) simp_all

lemma progress_lines_eq:
  assumes "0 \<le> h" "h < 2 ^ 63" "0 < i" "i \<le> 2 ^ 63 div 100" "h + i < 2 ^ 63"
  shows "progress_lines h i =
    Ok [Heading ''SNAPSHOT PROGRESS'',
        if i \<le> h then LastSnapshot (h - h mod i) else NoSnapshotYet,
        NextSnapshot (h - h mod i + i), Progress (h mod i) i (h mod i * 100) i,
        Bar (replicate (nat (h mod i * 40 div i)) Full @ replicate (nat (40 - h mod i * 40 div i)) Shade)]"
proof -
  have d: "0 \<le> h div i" "h div i \<le> h" using assms int_div_le_self [of h i]
    by (cases "h = 0"; auto simp: pos_imp_zdiv_nonneg_iff)+
  then have q: "int64 (h sdiv i) = h div i"
    using assms by (subst sdiv_nonneg) (auto intro!: int64_id)
  have i: "i \<le> 92233720368547758" using assms(4) by simp
  have m: "0 \<le> h mod i" "h mod i < i" using assms by auto
  then have m': "h mod i \<le> h" using assms by (metis zmod_le_nonneg_dividend)
  have l: "h div i * i = h - h mod i" by (simp add: minus_mod_eq_div_mult)
  then have "int64 (h div i * i) = h - h mod i"
    using m m' assms by (subst l) (intro int64_id; linarith)
  moreover have "int64 (h - h mod i + i) = h - h mod i + i" "int64 (h - (h - h mod i)) = h mod i"
    "int64 (h mod i * 100) = h mod i * 100"
    using m m' assms(5) i by (auto intro!: int64_id)
  moreover have "h mod i * 40 div i \<le> 40"
    using zdiv_mono1 [of "h mod i * 40" "i * 40" i] m assms(3) by simp
  moreover have "0 < h - h mod i \<longleftrightarrow> i \<le> h"
    using assms m m' by (cases "h < i") (auto simp: not_less intro: less_le_trans [of _ i])
  moreover note createProgressBar_40 [OF m i]
  ultimately show ?thesis by (simp add: progress_lines_def q Let_def min_def)
qed

section \<open>Listing, creating, restoring and deleting\<close>

text \<open>\<open>fmt.Scanln\<close> into one string: the first word of the line that was typed.\<close>

definition blank :: "char \<Rightarrow> bool" where
  "blank c \<longleftrightarrow> c \<in> {CHR '' '', CHR 0x09, CHR 0x0B, CHR 0x0C, CHR 0x0D}"

definition Scanln :: "string \<Rightarrow> string" where
  "Scanln line = takeWhile (\<lambda>c. \<not> blank c) (dropWhile blank line)"

definition confirmed :: "string \<Rightarrow> bool" where
  "confirmed line \<longleftrightarrow> (let response = Scanln line in \<not> (response \<noteq> ''y'' \<and> response \<noteq> ''Y''))"

datatype out_line = Say string | SayOf string string | SayPath string path | Listed nat string nat string

fun list_entries :: "nat \<Rightarrow> (string \<times> node) list \<Rightarrow> out_line list" where
  "list_entries i [] = []"
| "list_entries i ((name, Dir es) # files) = list_entries (i + 1) files"
| "list_entries i ((name, File sz modified c) # files) =
     Listed (i + 1) name sz modified # list_entries (i + 1) files"

definition runSnapshotList :: "path \<Rightarrow> node \<Rightarrow> error + out_line list" where
  "runSnapshotList home fs =
     (let snapshotDir = home @ [''data'', ''snapshots''] in
      if Stat fs snapshotDir = NotExist
      then Inr [SayPath ''Snapshot directory not found: %s'' snapshotDir]
      else case ReadDir fs snapshotDir of
          Inl err \<Rightarrow> Inl (ErrWrapped ''failed to read snapshot directory: %w'' err)
        | Inr files \<Rightarrow>
            if length files = 0 then Inr [Say ''No snapshots found'']
            else Inr ([Say ''Available Snapshots:'', Say (replicate 51 (CHR ''=''))]
                      @ list_entries 0 files))"

definition runSnapshotCreate :: "out_line list" where
  "runSnapshotCreate =
     [Say ''Creating snapshot...'',
      Say ''This may take a few minutes depending on blockchain size...'',
      Say ''Snapshot creation initiated'',
      Say ''Use 'nexelrad snapshot-list' to see the new snapshot'']"

definition runSnapshotRestoreWithForce :: "string \<Rightarrow> bool \<Rightarrow> string \<Rightarrow> out_line list" where
  "runSnapshotRestoreWithForce snapshotFile force typed =
     (let question = (if force then []
            else [SayOf ''This will restore blockchain state from: %s'' snapshotFile,
                  Say ''Do you want to continue? (y/N): ''])
      in if \<not> force \<and> \<not> confirmed typed then question @ [Say ''Restore cancelled'']
         else question @
           [SayOf ''Restoring from snapshot: %s'' snapshotFile,
            Say ''This may take several minutes...'',
            Say ''Snapshot restore completed'',
            Say ''Please restart the blockchain node''])"

definition runSnapshotRestore :: "string \<Rightarrow> string \<Rightarrow> out_line list" where
  "runSnapshotRestore snapshotFile typed = runSnapshotRestoreWithForce snapshotFile False typed"

text \<open>The lines, the file system afterwards and the error returned.\<close>

definition runSnapshotDelete ::
    "path \<Rightarrow> node \<Rightarrow> string \<Rightarrow> string \<Rightarrow> out_line list \<times> node \<times> error option" where
  "runSnapshotDelete home fs snapshotFile typed =
     (let snapshotDir = home @ [''data'', ''snapshots''];
          fullPath = path_join snapshotDir snapshotFile
      in if Stat fs fullPath = NotExist
         then ([], fs, Some (Errorf ''snapshot file not found: %s'' snapshotFile))
         else
           (let question = [SayOf ''This will permanently delete: %s'' snapshotFile,
                  Say ''Do you want to continue? (y/N): '']
            in if \<not> confirmed typed then (question @ [Say ''Delete cancelled''], fs, None)
               else case Remove fs fullPath of
                   Inl err \<Rightarrow> (question, fs, Some (ErrWrapped ''failed to delete snapshot: %w'' err))
                 | Inr fs' \<Rightarrow> (question @ [SayOf ''Snapshot deleted: %s'' snapshotFile], fs', None)))"

lemma list_entries_files:
  "Listed i name sz modified \<in> set (list_entries j es) \<Longrightarrow>
     \<exists>c. (name, File sz modified c) \<in> set es"
  by (induction j es rule: list_entries.induct) auto

lemma list_entries_dirs: "\<forall>(name, n) \<in> set es. IsDir n \<Longrightarrow> list_entries j es = []"
  by (induction j es rule: list_entries.induct) auto

lemma runSnapshotDelete_changed:
  assumes "runSnapshotDelete home fs f typed = (out, fs', err)" "fs' \<noteq> fs"
  shows "confirmed typed" "Remove fs (path_join (home @ [''data'', ''snapshots'']) f) = Inr fs'" "err = None"
  using assms by (auto simp: runSnapshotDelete_def Let_def split: if_splits sum.splits)

lemma Remove_other:
  assumes "Remove fs p = Inr fs'" "Stat fs q = Found (File s t c)" "q \<noteq> p"
  shows "Stat fs' q = Found (File s t c)"
proof -
  have "\<not> prefix p q" if "fs' = drop_path fs p" "p \<noteq> []"
  proof
    assume "prefix p q"
    then obtain r where r: "q = p @ r" "r \<noteq> []" using assms(3) by (auto simp: prefix_def)
    with assms(2) obtain n where n: "Stat fs p = Found n" "Stat n r = Found (File s t c)"
      by (auto simp: Stat_append split: stat.splits)
    with assms(1) have "n = Dir []"
      by (auto simp: Remove_def split: node.splits if_splits)
        (metis Stat.simps(2) list.exhaust r(2) stat.distinct(4))
    with n r(2) show False by (cases r) auto
  qed
  moreover have "fs' = drop_path fs p"
    using assms(1) by (auto simp: Remove_def split: stat.splits node.splits if_splits)
  ultimately show ?thesis
    using Stat_drop_path_other [OF _ assms(2)] assms(1,2) by (cases p; cases fs; cases q) auto
qed

section \<open>Export\<close>

text \<open>
  \<open>appExport\<close>: the application options are the home flag, if it is a string, whether they
  are a viper value, and the invariant check period. \<open>app.New\<close>, \<open>LoadHeight\<close> and
  \<open>ExportAppStateAndValidators\<close> run the SDK and are parameters.
\<close>

record app_opts =
  FlagHome :: "string option"
  IsViper :: bool
  InvCheckPeriod :: nat

definition appExport ::
    "(bool \<Rightarrow> app_opts \<Rightarrow> error + 'a) \<Rightarrow> ('a \<Rightarrow> int \<Rightarrow> error + 'a) \<Rightarrow> ('a \<Rightarrow> bool \<Rightarrow> string list \<Rightarrow> string list \<Rightarrow> error + 'e)
      \<Rightarrow> int \<Rightarrow> bool \<Rightarrow> string list \<Rightarrow> app_opts \<Rightarrow> string list \<Rightarrow> error + 'e" where
  "appExport new load export height forZeroHeight jailAllowedAddrs appOpts modulesToExport =
     (if FlagHome appOpts = None \<or> FlagHome appOpts = Some ''''
      then Inl (Errorf ''application home not set'' '''')
      else if \<not> IsViper appOpts then Inl (Errorf ''appOpts is not viper.Viper'' '''')
      else
        (let appOpts = appOpts\<lparr>InvCheckPeriod := 1\<rparr> in
         if height \<noteq> -1 then
           (case new False appOpts of
              Inl err \<Rightarrow> Inl err
            | Inr bApp \<Rightarrow> (case load bApp height of
                Inl err \<Rightarrow> Inl err
              | Inr bApp \<Rightarrow> export bApp forZeroHeight jailAllowedAddrs modulesToExport))
         else
           (case new True appOpts of
              Inl err \<Rightarrow> Inl err
            | Inr bApp \<Rightarrow> export bApp forZeroHeight jailAllowedAddrs modulesToExport)))"

end
