(* ===== verification/Command_Properties.thy ===== *)
theory Command_Properties
  imports Snapshot
begin

text \<open>
  What the command-line code does: the settings it reads, the status report, and the
  listing and deletion of snapshots.
\<close>

section \<open>Settings\<close>

lemma not_prefix_before:
  assumes "\<not> sublist key (x @ butlast key)" "x \<noteq> []" "key \<noteq> []"
  shows "\<not> prefix key (x @ key @ rest)"
proof
  assume p: "prefix key (x @ key @ rest)"
  have "key = butlast key @ [last key]" using assms(3) by simp
  then have "prefix (x @ butlast key) (x @ key @ rest)"
    by (metis append.assoc append_assoc prefixI)
  moreover have "length key \<le> length (x @ butlast key)" using assms(2,3) by (cases x) auto
  ultimately have "prefix key (x @ butlast key)" using p prefix_length_prefix by blast
  with assms(1) show False by blast
qed

lemma sublist_Cons_drop: "\<not> sublist k (c # x) \<Longrightarrow> \<not> sublist k x"
  by (simp add: sublist_Cons_right)

lemma FindStringSubmatch_first:
  assumes "\<not> sublist key (pre @ butlast key)" "key \<noteq> []" "match_here key (key @ rest) = Some m"
  shows "FindStringSubmatch key (pre @ key @ rest) = Some m"
  using assms(1)
proof (induction pre)
  case Nil
  from assms(2) obtain c k where "key = c # k" by (cases key) auto
  with assms(3) show ?case by simp
next
  case (Cons c pre)
  have "\<not> prefix key (c # pre @ key @ rest)"
    using not_prefix_before [OF Cons.prems _ assms(2), of rest] by simp
  then have "match_here key (c # pre @ key @ rest) = None" by (simp add: match_here_def)
  with Cons show ?case by (simp add: sublist_Cons_drop)
qed

lemma dropWhile_all_append: "\<forall>c \<in> set xs. P c \<Longrightarrow> dropWhile P (xs @ ys) = dropWhile P ys"
  by (induction xs) auto

lemma match_here_setting:
  assumes "\<forall>c \<in> set ws. regex_space c" "\<forall>c \<in> set ws'. regex_space c"
    and "\<forall>c r. post = c # r \<longrightarrow> \<not> is_digit c"
  shows "match_here key (key @ ws @ ''='' @ ws' @ dec n @ post) = Some (dec n)"
proof -
  obtain d r where d: "dec n = d # r" by (cases "dec n") auto
  then have "is_digit d" using dec_hd [of n] by simp
  then have "\<not> regex_space d" by (auto simp: regex_space_def is_digit_def)
  then have "dropWhile regex_space (ws' @ dec n @ post) = dec n @ post"
    using assms(2) d by (simp add: dropWhile_all_append)
  moreover have "\<not> regex_space (CHR ''='')" by (simp add: regex_space_def)
  ultimately show ?thesis using assms(1)
    by (simp add: match_here_def dropWhile_all_append Let_def
        takeWhile_digits_append [OF dec_digits assms(3)])
qed

lemma parse_first_setting:
  assumes "ReadFile fs p = Inr (pre @ key @ ws @ ''='' @ ws' @ dec n @ post)"
    and "\<not> sublist key (pre @ butlast key)" "key \<noteq> []"
    and "\<forall>c \<in> set ws. regex_space c" "\<forall>c \<in> set ws'. regex_space c"
    and "\<forall>c r. post = c # r \<longrightarrow> \<not> is_digit c"
  shows "parseConfigValueInt fs p key = (if n < 2 ^ 63 then int n else config_default key)"
proof -
  have "FindStringSubmatch key (pre @ key @ ws @ ''='' @ ws' @ dec n @ post) = Some (dec n)"
    using match_here_setting [OF assms(4-6)] assms(2,3) by (intro FindStringSubmatch_first) simp_all
  then show ?thesis
    by (simp add: parseConfigValueInt_def assms(1) Atoi_def ParseInt_digits dec_digits)
qed

text \<open>
  A setting is read from the first place of the file where its key is followed by an equals
  sign and a number, whatever precedes that place (a comment mark, too) and whatever white
  space surrounds the sign; a number that does not fit 63 bits gives the default.
\<close>

theorem parseConfigValueInt_first:
  assumes "ReadFile fs p = Inr (pre @ key @ ws @ ''='' @ ws' @ dec n @ post)"
    and "\<not> sublist key (pre @ butlast key)" "key \<noteq> []"
    and "\<forall>c \<in> set ws. regex_space c" "\<forall>c \<in> set ws'. regex_space c"
    and "\<forall>c r. post = c # r \<longrightarrow> \<not> is_digit c"
  shows "parseConfigValueInt fs p key = (if n < 2 ^ 63 then int n else config_default key)"
  using assms by (rule parse_first_setting)

definition example_config :: node where
  "example_config = Dir [(''app.toml'', File 24 ''now'' ''# snapshot-interval =250 #'')]"

theorem parseConfigValueInt_first_witness:
  "parseConfigValueInt example_config [''app.toml''] ''snapshot-interval'' = 250"
proof -
  have "dec 250 = ''250''" by (simp add: dec.simps digit_char_def char_of_def bit_iff_odd)
  then show ?thesis
    using parseConfigValueInt_first [of example_config "[''app.toml'']" "''# ''" "''snapshot-interval''"
        "'' ''" "[]" 250 "'' #''"]
    by (simp add: example_config_def ReadFile_def regex_space_def is_digit_def
        sublist_Cons_right)
qed

section \<open>Snapshot directories\<close>

text \<open>
  The number of snapshots and the latest height the report shows agree: both look at the
  directories whose names begin with a positive height that fits 63 bits, the count is their
  number and the latest height their maximum, 0 when there is none.
\<close>

theorem snapshot_count_and_latest:
  assumes "ReadDir fs p = Inr es" "length es < 2 ^ 63"
  shows "countSnapshotFiles fs p = int (length (snapshot_heights es))
    \<and> getLatestSnapshotHeight fs p = Max (insert 0 (set (snapshot_heights es)))"
proof -
  have "int (length es) < 2 ^ 63" using assms(2) by (simp flip: of_nat_less_iff)
  with assms(1) count_entries_eq [of 0 es] latest_entry_eq [of 0 es] show ?thesis
    by (simp add: countSnapshotFiles_def getLatestSnapshotHeight_def fold_max_Max)
qed

definition example_snapshots :: "(string \<times> node) list" where
  "example_snapshots = [(''100'', Dir []), (''200-ab'', Dir []), (''300'', File 1 ''now'' '''')]"

theorem snapshot_count_and_latest_witness:
  "countSnapshotFiles (Dir example_snapshots) [] = 2
   \<and> getLatestSnapshotHeight (Dir example_snapshots) [] = 200"
proof -
  have "dec_value ''100'' = 100" "dec_value ''200'' = 200"
    by (simp_all add: dec_value_def digit_value_def)
  then show ?thesis
    using snapshot_count_and_latest [of "Dir example_snapshots" "[]" example_snapshots]
    by (simp add: ReadDir_def example_snapshots_def snapshot_heights_def extractHeight_eq is_digit_def Let_def)
qed

text \<open>
  The list prints files and never directories, so a snapshot directory that holds heights
  only, which the report counts, is listed as an empty table.
\<close>

theorem runSnapshotList_directories:
  assumes "ReadDir fs (home @ [''data'', ''snapshots'']) = Inr es" "\<forall>(name, n) \<in> set es. IsDir n"
  shows "\<exists>out. runSnapshotList home fs = Inr out \<and> (\<forall>i name sz modified. Listed i name sz modified \<notin> set out)"
proof -
  have "Stat fs (home @ [''data'', ''snapshots'']) \<noteq> NotExist"
    using assms(1) by (auto simp: ReadDir_def)
  with assms list_entries_dirs [OF assms(2), of 0] show ?thesis
    by (auto simp: runSnapshotList_def Let_def)
qed

theorem runSnapshotList_directories_witness:
  "runSnapshotList [] (Dir [(''data'', Dir [(''snapshots'', Dir [(''100'', Dir [])])])])
     = Inr [Say ''Available Snapshots:'', Say (replicate 51 (CHR ''=''))]
   \<and> (\<exists>out. runSnapshotList [] (Dir [(''data'', Dir [(''snapshots'', Dir [(''100'', Dir [])])])]) = Inr out
        \<and> (\<forall>i name sz modified. Listed i name sz modified \<notin> set out))"
proof
  show "runSnapshotList [] (Dir [(''data'', Dir [(''snapshots'', Dir [(''100'', Dir [])])])])
      = Inr [Say ''Available Snapshots:'', Say (replicate 51 (CHR ''=''))]"
    by (simp add: runSnapshotList_def ReadDir_def Let_def)
qed (rule runSnapshotList_directories [of _ _ "[(''100'', Dir [])]"]; simp add: ReadDir_def)

section \<open>Deleting\<close>

text \<open>
  C37: Deleting a snapshot changes the file system only after a confirmation; then exactly the
  entry at the joined path is gone, every other file is what it was, and no error is returned.
\<close>

theorem runSnapshotDelete_exact:
  assumes "runSnapshotDelete home fs f typed = (out, fs', err)" "fs' \<noteq> fs"
  defines "p \<equiv> path_join (home @ [''data'', ''snapshots'']) f"
  shows "confirmed typed \<and> err = None \<and> Stat fs' p = NotExist
    \<and> (\<forall>q s t c. Stat fs q = Found (File s t c) \<and> q \<noteq> p \<longrightarrow> Stat fs' q = Found (File s t c))"
proof -
  have r: "confirmed typed" "Remove fs p = Inr fs'" "err = None"
    unfolding p_def using runSnapshotDelete_changed [OF assms(1,2)] by auto
  then have d: "fs' = drop_path fs p"
    by (auto simp: Remove_def split: stat.splits node.splits if_splits)
  with assms(2) have "p \<noteq> []" by (cases fs) auto
  moreover obtain n where "Stat fs p = Found n"
    using r(2) by (auto simp: Remove_def split: stat.splits)
  ultimately have "Stat fs' p = NotExist" using Stat_drop_path_same d by simp
  with r Remove_other [OF r(2)] show ?thesis by blast
qed

definition example_fs :: node where
  "example_fs = Dir [(''config'', Dir [(''app.toml'', File 3 ''now'' ''a=1'')]),
     (''data'', Dir [(''snapshots'', Dir [(''100'', Dir [(''chunk'', File 1 ''now'' ''x'')]), (''old'', File 1 ''now'' ''y'')])])]"

lemma example_paths:
  "path_join [''data'', ''snapshots''] ''old'' = [''data'', ''snapshots'', ''old'']"
  "path_join [''data'', ''snapshots''] ''100'' = [''data'', ''snapshots'', ''100'']"
  "path_join [''data'', ''snapshots''] ''../../config/app.toml'' = [''config'', ''app.toml'']"
  by (simp_all add: path_join_def)

lemma typed_y: "confirmed ''y''"
  by (simp add: confirmed_def Scanln_def blank_def Let_def)

definition example_deleted :: node where
  "example_deleted = Dir [(''config'', Dir [(''app.toml'', File 3 ''now'' ''a=1'')]),
     (''data'', Dir [(''snapshots'', Dir [(''100'', Dir [(''chunk'', File 1 ''now'' ''x'')])])])]"

lemma example_delete:
  "runSnapshotDelete [] example_fs ''old'' ''y'' =
    ([SayOf ''This will permanently delete: %s'' ''old'', Say ''Do you want to continue? (y/N): '',
      SayOf ''Snapshot deleted: %s'' ''old''],
     example_deleted, None)"
  by (simp add: runSnapshotDelete_def example_paths typed_y Remove_def example_fs_def example_deleted_def)

lemma example_deleted_differs: "example_deleted \<noteq> example_fs"
  by (simp add: example_fs_def example_deleted_def)

theorem runSnapshotDelete_exact_witness:
  "\<exists>fs'. snd (runSnapshotDelete [] example_fs ''old'' ''y'') = (fs', None)
     \<and> Stat fs' [''data'', ''snapshots'', ''old''] = NotExist"
  using runSnapshotDelete_exact [OF example_delete example_deleted_differs]
  by (simp add: example_delete example_paths)

text \<open>
  A snapshot that is a directory with something in it is never deleted: \<open>os.Remove\<close> fails
  on it, and the command returns that error and leaves the file system as it was.
\<close>

theorem runSnapshotDelete_directory:
  assumes "Stat fs (path_join (home @ [''data'', ''snapshots'']) f) = Found (Dir (e # es))" "confirmed typed"
  shows "\<exists>out reason. runSnapshotDelete home fs f typed =
    (out, fs, Some (ErrWrapped ''failed to delete snapshot: %w'' reason))"
  using assms by (simp add: runSnapshotDelete_def Remove_def Let_def)

theorem runSnapshotDelete_directory_witness:
  "\<exists>out reason. runSnapshotDelete [] example_fs ''100'' ''y'' =
    (out, example_fs, Some (ErrWrapped ''failed to delete snapshot: %w'' reason))"
  by (rule runSnapshotDelete_directory [OF _ typed_y]) (simp add: example_paths example_fs_def)

text \<open>
  C38: The name may lead out of the snapshot directory: with \<open>../../config/app.toml\<close> the
  command deletes the node's configuration.
\<close>

theorem runSnapshotDelete_escapes:
  assumes "clean_path home" "Stat fs (home @ [''config'', ''app.toml'']) = Found (File s t c)" "confirmed typed"
  shows "\<exists>out fs'. runSnapshotDelete home fs ''../../config/app.toml'' typed = (out, fs', None)
    \<and> Stat fs' (home @ [''config'', ''app.toml'']) = NotExist"
proof -
  have "path_join (home @ [''data'', ''snapshots'']) ''../../config/app.toml'' = home @ [''config'', ''app.toml'']"
    using assms(1) by (simp add: path_join_def clean_append)
  moreover have "Stat (drop_path fs (home @ [''config'', ''app.toml''])) (home @ [''config'', ''app.toml'']) = NotExist"
    using Stat_drop_path_same [OF assms(2)] by simp
  ultimately show ?thesis using assms(2,3)
    by (simp add: runSnapshotDelete_def Remove_def Let_def)
qed

theorem runSnapshotDelete_escapes_witness:
  "\<exists>out fs'. runSnapshotDelete [] example_fs ''../../config/app.toml'' ''y'' = (out, fs', None)
    \<and> Stat fs' [''config'', ''app.toml''] = NotExist"
  using runSnapshotDelete_escapes [of "[]" example_fs 3 "''now''" "''a=1''" "''y''", OF _ _ typed_y]
  by (simp add: example_fs_def clean_path_def)

section \<open>The status report\<close>

text \<open>
  C36: For a node that answers with height \<open>h\<close> and a configured interval \<open>i\<close>, the report names
  the last multiple of \<open>i\<close> up to \<open>h\<close> (or none yet) and the next one after \<open>h\<close>, and its bar has
  40 cells, of which the share of the way to that next height is full.
\<close>

theorem runSnapshotInfo_report:
  assumes "0 < h" "int h < 2 ^ 63" "getSnapshotIntervalFromConfig home fs = i" "0 < i"
    and "i \<le> 2 ^ 63 div 100" "int h + i < 2 ^ 63"
  shows "\<exists>out. runSnapshotInfo home fs (StatusReply (dec h) t c) = Ok out
    \<and> CurrentHeight (int h) \<in> set out
    \<and> (\<forall>n. NextSnapshot n \<in> set out \<longleftrightarrow> n = int h - int h mod i + i)
    \<and> (\<forall>n. LastSnapshot n \<in> set out \<longleftrightarrow> i \<le> int h \<and> n = int h - int h mod i)
    \<and> (\<forall>b. Bar b \<in> set out \<longleftrightarrow> b = replicate (nat (int h mod i * 40 div i)) Full
         @ replicate (nat (40 - int h mod i * 40 div i)) Shade)"
proof -
  have "h < 2 ^ 63" using assms(2) by (simp flip: of_nat_less_iff)
  then have "getRealBlockchainStatus (StatusReply (dec h) t c) = (''nexelra'', int h, t, c)"
    using assms(1) by (simp add: getRealBlockchainStatus_def getRealDataFromRPC_def ParseInt_dec)
  then show ?thesis
    using assms(3,4) progress_lines_eq [of "int h" i] assms(2,5,6)
    by (auto simp: runSnapshotInfo_def files_lines_def Let_def split: if_splits)
qed

lemma interval_default: "getSnapshotIntervalFromConfig home (Dir []) = 100" if "home \<noteq> []"
  using that by (cases home)
    (simp_all add: getSnapshotIntervalFromConfig_def parseConfigValueInt_def ReadFile_def config_default_def)

theorem runSnapshotInfo_report_witness:
  "\<exists>out. runSnapshotInfo [''root''] (Dir []) (StatusReply (dec 250) ''now'' False) = Ok out
    \<and> NextSnapshot 300 \<in> set out \<and> LastSnapshot 200 \<in> set out
    \<and> Bar (replicate 20 Full @ replicate 20 Shade) \<in> set out"
  using runSnapshotInfo_report [of 250 "[''root'']" "Dir []" 100 "''now''" False] interval_default
  by auto

text \<open>
  With a large interval the product of the progress and the width of the bar wraps around,
  the number of full cells is negative, and the command panics.
\<close>

theorem runSnapshotInfo_large_interval:
  assumes "getSnapshotIntervalFromConfig home fs = 2 ^ 62"
  shows "runSnapshotInfo home fs (StatusReply (dec (2 ^ 58)) t c) = Panic"
proof -
  have "getRealBlockchainStatus (StatusReply (dec (2 ^ 58)) t c) = (''nexelra'', 2 ^ 58, t, c)"
    using ParseInt_dec [of "2 ^ 58"]
    by (simp add: getRealBlockchainStatus_def getRealDataFromRPC_def)
  moreover have "progress_lines (2 ^ 58) (2 ^ 62) = Panic"
    by (simp add: progress_lines_def Let_def signed_divide_int_def int64_def createProgressBar_def
        Repeat_def signed_take_bit_eq_if_positive)
  ultimately show ?thesis using assms by (simp add: runSnapshotInfo_def Let_def)
qed

theorem runSnapshotInfo_large_interval_witness:
  "\<exists>fs. runSnapshotInfo [] fs (StatusReply (dec (2 ^ 58)) ''now'' False) = Panic"
proof -
  let ?fs = "Dir [(''config'', Dir [(''app.toml'', File 37 ''now'' (''snapshot-interval='' @ dec (2 ^ 62)))])]"
  have "parseConfigValueInt ?fs [''config'', ''app.toml''] ''snapshot-interval'' = 2 ^ 62"
    using parse_first_setting [of ?fs "[''config'', ''app.toml'']" "[]" "''snapshot-interval''" "[]" "[]" "2 ^ 62" "[]"]
    by (simp add: ReadFile_def sublist_Cons_right)
  then have "runSnapshotInfo [] ?fs (StatusReply (dec (2 ^ 58)) ''now'' False) = Panic"
    by (intro runSnapshotInfo_large_interval) (simp add: getSnapshotIntervalFromConfig_def)
  then show ?thesis by blast
qed

end
