(* ===== verification/Pulsar.thy ===== *)
theory Pulsar
  imports Decoder
begin

text \<open>
  What the generated files under \<open>api/nexelra/identity\<close> (\<open>*.pulsar.go\<close>) have in common: the
  second implementation of the module's messages, which clients use. They call the packages
  \<open>cosmos-proto/runtime\<close> (varints, skipping) and \<open>proto\<close> (sizing, encoding and decoding an
  embedded message), which are parameters here with their contracts as the locales
  \<open>pulsar_runtime\<close> and \<open>proto_methods\<close>, and they implement \<open>protoreflect.Message\<close>, whose
  contract is the locale \<open>fast_message\<close>.
\<close>

section \<open>The run time\<close>

text \<open>\<open>EncodeVarint\<close> writes into the buffer it is given and returns the new index.\<close>

record pulsar_rt =
  rt_Sov :: "u64 \<Rightarrow> int"
  rt_EncodeVarint :: "bytes \<Rightarrow> int \<Rightarrow> u64 \<Rightarrow> writer res"
  rt_Skip :: "bytes \<Rightarrow> int res"

text \<open>
  The documented behaviour: \<open>Sov\<close> is the length of a varint, \<open>EncodeVarint\<close> writes it just
  before the index, \<open>Skip\<close> returns the positive length of the field at the start of its
  argument, or an error.
\<close>

locale pulsar_runtime =
  fixes rt :: pulsar_rt
  assumes Sov_varint: "rt_Sov rt v = int (length (uvarint v))"
    and EncodeVarint_prep:
      "room st (length (uvarint v)) \<Longrightarrow> rt_EncodeVarint rt (fst st) (snd st) v = Ok (prep (uvarint v) st)"
    and Skip_returns: "returns (rt_Skip rt d)"
    and Skip_pos: "rt_Skip rt d = Ok n \<Longrightarrow> 0 < n \<and> n < 2 ^ 63"
    and Skip_len: "t < 128 \<Longrightarrow> t AND 7 = 2 \<Longrightarrow> fits (enc_len (ucast (t :: u64)) s @ r)
      \<Longrightarrow> rt_Skip rt (enc_len (ucast t) s @ r) = Ok (int (length (enc_len (ucast t) s)))"
    and Skip_int: "t < 128 \<Longrightarrow> t AND 7 = 0 \<Longrightarrow> fits (enc_int (ucast (t :: u64)) v @ r)
      \<Longrightarrow> rt_Skip rt (enc_int (ucast t) v @ r) = Ok (int (length (enc_int (ucast t) v)))"

text \<open>The repository's own copies of these functions, in the gogo files, satisfy it.\<close>

definition gogo_rt :: pulsar_rt where
  "gogo_rt = \<lparr>rt_Sov = sov, rt_EncodeVarint = encodeVarint, rt_Skip = skip_field\<rparr>"

lemma skip_field_len:
  assumes "t < 128" "t AND 7 = 2" and f: "fits (enc_len (ucast (t :: u64)) s @ r)"
  shows "skip_field (enc_len (ucast t) s @ r) = Ok (int (length (enc_len (ucast t) s)))"
proof -
  let ?d = "enc_len (ucast t) s @ r"
  have v: "varint_load ?d 0 0 0 = Ok (t, 1)"
    using varint_load_byte [OF assms(1), of "[]"] f by (simp add: enc_len_def)
  from read_len_enc [of "[]" "ucast t" s r "[]"] f
  have "read_len [] 2 ?d 1 = Ok (s, int (length (enc_len (ucast t) s)))" by simp
  then obtain n k where "varint_load ?d 1 0 0 = Ok (n, k)" "\<not> sint n < 0"
      "int64 (k + sint n) = int (length (enc_len (ucast t) s))"
    by (auto simp: read_len_def Let_def res_simps split: if_splits)
  then have "skip_value ?d (t AND 7) 1 0 = Ok (int (length (enc_len (ucast t) s)), 0)"
    by (simp add: skip_value_def assms(2))
  moreover have "0 < glen ?d" using f by (simp add: glen_fits enc_len_def)
  ultimately show ?thesis
    unfolding skip_field_def by (subst skip_loop.simps) (simp add: v)
qed

lemma skip_field_int:
  assumes "t < 128" "t AND 7 = 0" and f: "fits (enc_int (ucast (t :: u64)) v @ r)"
  shows "skip_field (enc_int (ucast t) v @ r) = Ok (int (length (enc_int (ucast t) v)))"
proof -
  let ?d = "enc_int (ucast t) v @ r"
  have l: "varint_load ?d 0 0 0 = Ok (t, 1)"
    using varint_load_byte [OF assms(1), of "[]"] f by (simp add: enc_int_def)
  from read_int_enc [of "[]" "ucast t" v r "[]"] f
  have "varint_load ?d 1 0 0 = Ok (v, int (length (enc_int (ucast t) v)))"
    by (simp add: read_int_def)
  then have "skip_value ?d (t AND 7) 1 0 = Ok (int (length (enc_int (ucast t) v)), 0)"
    by (simp add: skip_value_def assms(2) varint_skip_load [where acc = 0])
  moreover have "0 < glen ?d" using f by (simp add: glen_fits enc_int_def)
  ultimately show ?thesis
    unfolding skip_field_def by (subst skip_loop.simps) (simp add: l)
qed

interpretation gogo_runtime: pulsar_runtime gogo_rt
proof unfold_locales
  fix st v assume "room st (length (uvarint v))"
  then show "rt_EncodeVarint gogo_rt (fst st) (snd st) v = Ok (prep (uvarint v) st)"
    using put_varint_prep by (simp add: gogo_rt_def put_varint_def case_prod_beta)
qed (simp_all add: gogo_rt_def sov_uvarint skip_field_returns skip_field_pos
    skip_field_less [simplified] skip_field_len skip_field_int)

section \<open>Writing\<close>

definition rt_put_len :: "pulsar_rt \<Rightarrow> byte \<Rightarrow> bytes \<Rightarrow> writer \<Rightarrow> writer res" where
  "rt_put_len rt tag s st =
     bind_res (put_raw s st) (\<lambda>(d, i).
     bind_res (rt_EncodeVarint rt d i (of_nat (length s))) (put_byte tag))"

definition rt_put_int :: "pulsar_rt \<Rightarrow> byte \<Rightarrow> u64 \<Rightarrow> writer \<Rightarrow> writer res" where
  "rt_put_int rt tag v st =
     (case st of (d, i) \<Rightarrow> bind_res (rt_EncodeVarint rt d i v) (put_byte tag))"

definition rt_size_len :: "pulsar_rt \<Rightarrow> int \<Rightarrow> int" where
  "rt_size_len rt l = 1 + l + rt_Sov rt (word_of_int l)"

definition rt_put_str :: "pulsar_rt \<Rightarrow> byte \<Rightarrow> string \<Rightarrow> writer \<Rightarrow> writer res" where
  "rt_put_str rt tag s = (if glen s > 0 then rt_put_len rt tag (bytes_of s) else Ok)"

definition rt_put_opt_int :: "pulsar_rt \<Rightarrow> byte \<Rightarrow> u64 \<Rightarrow> writer \<Rightarrow> writer res" where
  "rt_put_opt_int rt tag v = (if v \<noteq> 0 then rt_put_int rt tag v else Ok)"

definition rt_size_str :: "pulsar_rt \<Rightarrow> string \<Rightarrow> int" where
  "rt_size_str rt s = (let l = glen s in if l > 0 then rt_size_len rt l else 0)"

definition rt_size_opt_int :: "pulsar_rt \<Rightarrow> u64 \<Rightarrow> int" where
  "rt_size_opt_int rt v = (if v \<noteq> 0 then 1 + rt_Sov rt v else 0)"

text \<open>The unknown fields stand at the end of an encoding; \<open>nil\<close> and empty are the same here.\<close>

definition put_unknown :: "bytes \<Rightarrow> writer \<Rightarrow> writer res" where
  "put_unknown u = (if u \<noteq> [] then put_raw u else Ok)"

definition size_unknown :: "bytes \<Rightarrow> int" where
  "size_unknown u = (if u \<noteq> [] then glen u else 0)"

lemma writes_unknown: "fits u \<Longrightarrow> writes (put_unknown u) u"
  by (auto simp: writes_def put_unknown_def put_raw_prep prep_Nil)

lemma size_unknown_eq: "fits u \<Longrightarrow> size_unknown u = int (length u)"
  by (simp add: size_unknown_def glen_fits)

context pulsar_runtime
begin

lemma put_int_writes: "writes (rt_put_int rt tag v) (enc_int tag v)"
  unfolding writes_def
proof (intro allI impI)
  fix st assume "room st (length (enc_int tag v))"
  then have r: "room st (length (uvarint v) + length [tag])" by (simp add: length_enc_int)
  then have "room st (length (uvarint v))" by (rule room_mono) simp
  moreover have "room (prep (uvarint v) st) 1" using room_prep [OF r] by simp
  ultimately show "rt_put_int rt tag v st = Ok (prep (enc_int tag v) st)"
    using prep_prep [OF r] EncodeVarint_prep [of st v]
    by (simp add: rt_put_int_def put_byte_prep enc_int_def case_prod_beta)
qed

lemma put_len_writes:
  assumes "fits s"
  shows "writes (rt_put_len rt tag s) (enc_len tag s)"
  unfolding writes_def
proof (intro allI impI)
  fix st assume room: "room st (length (enc_len tag s))"
  let ?u = "uvarint (of_nat (length s))"
  have r1: "room st (length s + length ?u)" and r2: "room st (length (?u @ s) + length [tag])"
    using room by (auto simp: length_enc_len intro: room_mono)
  have "room st (length s)" using r1 by (rule room_mono) simp
  moreover have "room (prep s st) (length ?u)" using r1 by (rule room_prep)
  moreover have "room (prep (?u @ s) st) 1" using room_prep [OF r2] by simp
  ultimately show "rt_put_len rt tag s st = Ok (prep (enc_len tag s) st)"
    using prep_prep [OF r1] prep_prep [OF r2] assms EncodeVarint_prep [of "prep s st" "of_nat (length s)"]
    by (simp add: rt_put_len_def put_raw_prep put_byte_prep enc_len_def case_prod_beta)
qed

lemma put_str_writes: "fits s \<Longrightarrow> writes (rt_put_str rt tag s) (enc_str tag s)"
  using put_len_writes [of "bytes_of s" tag]
  by (auto simp: rt_put_str_def enc_str_def glen_fits fits_def writes_Nil)

lemma put_opt_int_writes: "writes (rt_put_opt_int rt tag v) (enc_opt_int tag v)"
  by (simp add: rt_put_opt_int_def enc_opt_int_def put_int_writes writes_Nil)

lemma size_len_length: "rt_size_len rt (int (length s)) = int (length (enc_len tag s))"
  by (simp add: rt_size_len_def Sov_varint length_enc_len)

lemma size_str_length: "fits s \<Longrightarrow> rt_size_str rt s = int (length (enc_str tag s))"
  using size_len_length [of "bytes_of s" tag]
  by (auto simp: rt_size_str_def enc_str_def glen_fits Let_def)

lemma size_opt_int_length: "rt_size_opt_int rt v = int (length (enc_opt_int tag v))"
  by (simp add: rt_size_opt_int_def enc_opt_int_def Sov_varint length_enc_int)

end

section \<open>Unknown fields\<close>

text \<open>
  The \<open>default\<close> case of \<open>unmarshal\<close>: the bytes of the field, from its tag on, and the index
  after it. They are appended to the message's unknown fields unless the caller asked to
  discard them.
\<close>

definition rt_skip_unknown :: "pulsar_rt \<Rightarrow> bytes \<Rightarrow> int \<Rightarrow> (bytes \<times> int) res" where
  "rt_skip_unknown rt d preIndex =
     bind_res (slice_from d preIndex) (\<lambda>rest.
     bind_res (rt_Skip rt rest) (\<lambda>skippy.
       if skippy < 0 \<or> int64 (preIndex + skippy) < 0 then Err ErrInvalidLength
       else if glen d < int64 (preIndex + skippy) then Err ErrUnexpectedEOF
       else bind_res (subslice d preIndex (int64 (preIndex + skippy)))
         (\<lambda>s. Ok (s, int64 (preIndex + skippy)))))"

definition keep_unknown :: "bool \<Rightarrow> bytes \<Rightarrow> bytes \<Rightarrow> bytes" where
  "keep_unknown discard u s = (if \<not> discard then u @ s else u)"

text \<open>
  \<open>foreign nums u\<close>: \<open>u\<close> is a sequence of well-formed fields, each with a tag of one byte and
  a number that is not in \<open>nums\<close>, the numbers a message declares.
\<close>

inductive foreign :: "int set \<Rightarrow> bytes \<Rightarrow> bool" for nums where
  foreign_Nil: "foreign nums []"
| foreign_len: "t < 128 \<Longrightarrow> t AND 7 = 2 \<Longrightarrow> 0 < sint (ucast (drop_bit 3 t) :: 32 word)
    \<Longrightarrow> sint (ucast (drop_bit 3 t) :: 32 word) \<notin> nums \<Longrightarrow> foreign nums u
    \<Longrightarrow> foreign nums (enc_len (ucast (t :: u64)) s @ u)"
| foreign_int: "t < 128 \<Longrightarrow> t AND 7 = 0 \<Longrightarrow> 0 < sint (ucast (drop_bit 3 t) :: 32 word)
    \<Longrightarrow> sint (ucast (drop_bit 3 t) :: 32 word) \<notin> nums \<Longrightarrow> foreign nums u
    \<Longrightarrow> foreign nums (enc_int (ucast (t :: u64)) v @ u)"

context pulsar_runtime
begin

lemma skip_returns: "0 \<le> i \<Longrightarrow> i < glen d \<Longrightarrow> returns (rt_skip_unknown rt d i)"
proof -
  assume i: "0 \<le> i" "i < glen d"
  have "returns (subslice d i (int64 (i + n)))"
    if "rt_Skip rt r = Ok n" "\<not> int64 (i + n) < 0" "\<not> glen d < int64 (i + n)" for n r
    using Skip_pos [OF that(1)] that int64_add_le [of i d n] i glen_le_length [of d]
    by (auto simp: subslice_def)
  with i glen_le_length [of d] show ?thesis
    by (auto simp: rt_skip_unknown_def slice_from_def intro!: returns_bind Skip_returns)
qed

lemma skip_progress:
  assumes "rt_skip_unknown rt d i = Ok (s, j)" "0 \<le> i" "i < glen d"
  shows "i < j \<and> j \<le> glen d"
proof -
  from assms(1) obtain rest n where n: "rt_Skip rt rest = Ok n"
      and j: "j = int64 (i + n)" "\<not> int64 (i + n) < 0" "j \<le> glen d"
    by (auto simp: rt_skip_unknown_def res_simps split: if_splits)
  from Skip_pos [OF n] assms(2,3) j int64_add_le [of i d n] show ?thesis by auto
qed

lemma part_skip_rt [part_intros]:
  "0 \<le> i \<Longrightarrow> i < glen d \<Longrightarrow> part_ok d i (bind_res (rt_skip_unknown rt d i) (\<lambda>(s, j). Ok (j, g s)))"
  by (auto simp: part_ok_def res_simps intro!: returns_bind skip_returns dest: skip_progress)

lemma skip_here:
  assumes "fits (p @ e @ r)" "rt_Skip rt (e @ r) = Ok (int (length e))"
  shows "rt_skip_unknown rt (p @ e @ r) (int (length p)) = Ok (e, int (length p + length e))"
proof -
  have "length p + length e < 2 ^ 63" using assms(1) by (simp add: fits_def)
  then have "int (length p + length e) < int (2 ^ 63)" by (simp only: of_nat_less_iff)
  then have "int64 (int (length p) + int (length e)) = int (length p) + int (length e)"
    by (intro int64_id) auto
  then show ?thesis using assms
    by (simp add: rt_skip_unknown_def slice_from_def glen_fits)
qed

text \<open>A decoder that keeps unknown fields reads back a sequence of foreign ones.\<close>

lemma reads_foreign:
  assumes "foreign nums u"
    and skip: "\<And>d i j n wt w. read_tag name d i = Ok (n, wt, j) \<Longrightarrow> n \<notin> nums
      \<Longrightarrow> field d i (st w) = bind_res (rt_skip_unknown rt d i) (\<lambda>(s, j). Ok (j, st (w @ s)))"
  shows "reads field u (st w) (st (w @ u))"
  using assms(1)
proof (induction arbitrary: w rule: foreign.induct)
  case foreign_Nil
  show ?case by (simp add: reads_Nil)
next
  case (foreign_len t u s)
  let ?e = "enc_len (ucast t) s"
  have ne: "t AND 7 \<noteq> 4" using foreign_len.hyps(2) by simp
  have "reads_one field ?e (st w) (st (w @ ?e))"
    unfolding reads_one_def
  proof (intro conjI allI impI)
    fix p r assume f: "fits (p @ ?e @ r)"
    then have "fits (?e @ r)" by (auto dest: fits_appendD)
    from skip_here [OF f Skip_len [OF foreign_len.hyps(1,2) this]]
      skip [OF read_tag_enc_len [OF foreign_len.hyps(1) ne foreign_len.hyps(3) f] foreign_len.hyps(4)]
    show "field (p @ ?e @ r) (int (length p)) (st w) = Ok (int (length p + length ?e), st (w @ ?e))"
      by simp
  qed (simp add: enc_len_def)
  from reads_step [OF this foreign_len.IH] show ?case by simp
next
  case (foreign_int t u v)
  let ?e = "enc_int (ucast t) v"
  have ne: "t AND 7 \<noteq> 4" using foreign_int.hyps(2) by simp
  have "reads_one field ?e (st w) (st (w @ ?e))"
    unfolding reads_one_def
  proof (intro conjI allI impI)
    fix p r assume f: "fits (p @ ?e @ r)"
    then have "fits (?e @ r)" by (auto dest: fits_appendD)
    from skip_here [OF f Skip_int [OF foreign_int.hyps(1,2) this]]
      skip [OF read_tag_enc_int [OF foreign_int.hyps(1) ne foreign_int.hyps(3) f] foreign_int.hyps(4)]
    show "field (p @ ?e @ r) (int (length p)) (st w) = Ok (int (length p + length ?e), st (w @ ?e))"
      by simp
  qed (simp add: enc_int_def)
  from reads_step [OF this foreign_int.IH] show ?case by simp
qed

end

section \<open>Embedded messages\<close>

text \<open>
  \<open>options.Size\<close>, \<open>options.Marshal\<close> and \<open>options.Unmarshal\<close> of the \<open>proto\<close> package, for one
  type of message, and a new message of the type. The first two take a pointer, which may be
  nil.
\<close>

record 'p proto_ops =
  op_New :: 'p
  op_Size :: "'p option \<Rightarrow> int"
  op_Marshal :: "'p option \<Rightarrow> bytes res"
  op_Unmarshal :: "bytes \<Rightarrow> 'p \<Rightarrow> 'p res"

locale proto_methods =
  fixes ops :: "'p proto_ops" and penc :: "'p \<Rightarrow> bytes" and psmall :: "'p \<Rightarrow> bool" and pzero :: 'p
  assumes op_size: "psmall p \<Longrightarrow> op_Size ops (Some p) = int (length (penc p))"
    and op_marshal: "psmall p \<Longrightarrow> op_Marshal ops (Some p) = Ok (penc p)"
    and op_fits: "psmall p \<Longrightarrow> fits (penc p)"
    and op_unmarshal: "psmall p \<Longrightarrow> op_Unmarshal ops (penc p) pzero = Ok p"
    and op_total: "returns (op_Unmarshal ops s p)"

definition rt_put_msg :: "pulsar_rt \<Rightarrow> 'p proto_ops \<Rightarrow> byte \<Rightarrow> 'p option \<Rightarrow> writer \<Rightarrow> writer res" where
  "rt_put_msg rt ops tag p st = bind_res (op_Marshal ops p) (\<lambda>encoded. rt_put_len rt tag encoded st)"

definition rt_put_opt_msg :: "pulsar_rt \<Rightarrow> 'p proto_ops \<Rightarrow> byte \<Rightarrow> 'p option \<Rightarrow> writer \<Rightarrow> writer res" where
  "rt_put_opt_msg rt ops tag p = (if p \<noteq> None then rt_put_msg rt ops tag p else Ok)"

fun rt_put_msgs :: "pulsar_rt \<Rightarrow> 'p proto_ops \<Rightarrow> byte \<Rightarrow> 'p option list \<Rightarrow> writer \<Rightarrow> writer res" where
  "rt_put_msgs rt ops tag [] st = Ok st"
| "rt_put_msgs rt ops tag (p # ps) st =
     bind_res (rt_put_msgs rt ops tag ps st) (rt_put_msg rt ops tag p)"

definition rt_size_opt_msg :: "pulsar_rt \<Rightarrow> 'p proto_ops \<Rightarrow> 'p option \<Rightarrow> int" where
  "rt_size_opt_msg rt ops p = (if p \<noteq> None then rt_size_len rt (op_Size ops p) else 0)"

fun rt_size_msgs :: "pulsar_rt \<Rightarrow> 'p proto_ops \<Rightarrow> 'p option list \<Rightarrow> int" where
  "rt_size_msgs rt ops [] = 0"
| "rt_size_msgs rt ops (p # ps) = rt_size_len rt (op_Size ops p) + rt_size_msgs rt ops ps"

locale pulsar_embedded = pulsar_runtime rt + proto_methods ops penc psmall pzero
  for rt :: pulsar_rt and ops :: "'p proto_ops" and penc psmall pzero
begin

lemma put_msg_writes: "psmall p \<Longrightarrow> writes (rt_put_msg rt ops tag (Some p)) (enc_len tag (penc p))"
  using put_len_writes [OF op_fits, of p tag] by (simp add: writes_def rt_put_msg_def op_marshal)

lemma put_opt_msg_writes:
  assumes "\<And>q. p = Some q \<Longrightarrow> psmall q"
  shows "writes (rt_put_opt_msg rt ops tag p) (enc_opt_msg tag penc p)"
  using assms put_msg_writes
  by (cases p) (auto simp: rt_put_opt_msg_def enc_opt_msg_def writes_Nil)

lemma put_msgs_writes:
  assumes "\<forall>q \<in> set ps. psmall q"
  shows "writes (rt_put_msgs rt ops tag (map Some ps)) (enc_msgs tag penc ps)"
  using assms
proof (induction ps)
  case Nil
  then show ?case by (simp add: enc_msgs_def writes_def prep_Nil)
next
  case (Cons p ps)
  then have "writes (\<lambda>st. bind_res (rt_put_msgs rt ops tag (map Some ps) st) (rt_put_msg rt ops tag (Some p)))
      (enc_len tag (penc p) @ enc_msgs tag penc ps)"
    by (intro writes_bind put_msg_writes) auto
  then show ?case by (simp add: enc_msgs_def writes_def)
qed

lemma size_opt_msg_length:
  "(\<And>q. p = Some q \<Longrightarrow> psmall q) \<Longrightarrow> rt_size_opt_msg rt ops p = int (length (enc_opt_msg tag penc p))"
  using size_len_length by (cases p) (auto simp: rt_size_opt_msg_def enc_opt_msg_def op_size)

lemma size_msgs_length:
  "\<forall>q \<in> set ps. psmall q \<Longrightarrow> rt_size_msgs rt ops (map Some ps) = int (length (enc_msgs tag penc ps))"
  using size_len_length [where tag = tag] by (induction ps) (auto simp: enc_msgs_def op_size)

end

section \<open>The methods of a message\<close>

text \<open>
  \<open>ProtoMethods\<close>: the three functions take a pointer to the message. \<open>size\<close> of nil is 0;
  \<open>marshal\<close> makes a buffer of the size that \<open>options.Size\<close> reports, fills it from its end and
  appends the whole of it to the caller's buffer; \<open>unmarshal\<close> works in place.
\<close>

definition fast_size :: "('m \<Rightarrow> int) \<Rightarrow> 'm option \<Rightarrow> int" where
  "fast_size n x = (case x of None \<Rightarrow> 0 | Some m \<Rightarrow> n m)"

definition fast_marshal ::
    "('m option \<Rightarrow> int) \<Rightarrow> ('m \<Rightarrow> writer \<Rightarrow> writer res) \<Rightarrow> 'm option \<Rightarrow> bytes option \<Rightarrow> bytes option res" where
  "fast_marshal options_Size write x buf =
     (case x of
        None \<Rightarrow> Ok buf
      | Some m \<Rightarrow>
          (let n = options_Size x in
           if n < 0 then Panic
           else bind_res (write m (replicate (nat n) 0, glen (replicate (nat n) (0 :: byte)))) (\<lambda>(dAtA, i).
             Ok (Some (case buf of Some b \<Rightarrow> b @ dAtA | None \<Rightarrow> dAtA)))))"

definition fast_unmarshal :: "'m field_reader \<Rightarrow> bytes \<Rightarrow> 'm option \<Rightarrow> 'm option res" where
  "fast_unmarshal field dAtA x =
     (case x of None \<Rightarrow> Ok None | Some m \<Rightarrow> bind_res (unmarshal_loop field dAtA m) (\<lambda>m. Ok (Some m)))"

lemma fast_unmarshal_returns: "field_decoder field \<Longrightarrow> returns (fast_unmarshal field d x)"
  by (cases x) (auto simp: fast_unmarshal_def intro!: returns_bind field_decoder.unmarshal_loop_returns)

lemma fast_marshal_enc:
  assumes "options_Size (Some m) = int (length e)" "writes (w m) e" "fits e"
  shows "fast_marshal options_Size w (Some m) buf
    = Ok (Some (case buf of Some b \<Rightarrow> b @ e | None \<Rightarrow> e))"
proof -
  have "fits (replicate (length e) (0 :: byte))" using assms(3) by (simp add: fits_def)
  moreover from this assms(2) have "w m (replicate (length e) 0, int (length e)) = Ok (e, 0)"
    by (simp add: writes_def)
  ultimately show ?thesis using assms(1) by (simp add: fast_marshal_def glen_fits)
qed

text \<open>What the \<open>proto\<close> package does with these functions for a message on its own.\<close>

definition direct_ops ::
    "'m \<Rightarrow> ('m option \<Rightarrow> int) \<Rightarrow> ('m option \<Rightarrow> bytes option \<Rightarrow> bytes option res)
      \<Rightarrow> (bytes \<Rightarrow> 'm option \<Rightarrow> 'm option res) \<Rightarrow> 'm proto_ops" where
  "direct_ops zero sz marshal unmarshal =
     \<lparr>op_New = zero,
      op_Size = sz,
      op_Marshal = (\<lambda>x. bind_res (marshal x None) (\<lambda>b. Ok (case b of None \<Rightarrow> [] | Some d \<Rightarrow> d))),
      op_Unmarshal = (\<lambda>d m. bind_res (unmarshal d (Some m))
        (\<lambda>x. case x of None \<Rightarrow> Panic | Some m \<Rightarrow> Ok m))\<rparr>"

lemma direct_methods:
  assumes "\<And>m. small m \<Longrightarrow> n m = int (length (enc m))" "\<And>m. small m \<Longrightarrow> writes (w m) (enc m)"
    and "\<And>m. small m \<Longrightarrow> fits (enc m)" "\<And>m. small m \<Longrightarrow> reads field (enc m) z m" "field_decoder field"
  shows "proto_methods (direct_ops z (fast_size n) (fast_marshal (fast_size n) w) (fast_unmarshal field)) enc small z"
proof unfold_locales
  fix p s
  assume p: "small p"
  with assms(1-3) show "op_Marshal (direct_ops z (fast_size n) (fast_marshal (fast_size n) w) (fast_unmarshal field)) (Some p)
      = Ok (enc p)"
    by (subst direct_ops_def) (simp add: fast_marshal_enc [where e = "enc p"] fast_size_def)
  show "op_Unmarshal (direct_ops z (fast_size n) (fast_marshal (fast_size n) w) (fast_unmarshal field)) (enc p) z = Ok p"
    using field_decoder.unmarshal_loop_reads [OF assms(5) assms(4) assms(3)] p
    by (simp add: direct_ops_def fast_unmarshal_def)
next
  fix p s
  show "returns (op_Unmarshal (direct_ops z (fast_size n) (fast_marshal (fast_size n) w) (fast_unmarshal field)) s p)"
    using field_decoder.unmarshal_loop_returns [OF assms(5), of s p]
    by (auto simp: direct_ops_def fast_unmarshal_def intro!: returns_bind split: option.splits)
      (auto simp: res_simps)
qed (simp_all add: assms direct_ops_def fast_size_def)

end
