(* ===== verification/Reflect.thy ===== *)
theory Reflect
  imports Prelude
begin

text \<open>
  The interface \<open>protoreflect.Message\<close>, which every message under \<open>api/nexelra/identity\<close>
  implements by its \<open>fastReflection_\<close> type: fields are named by descriptors and their contents
  passed as dynamically typed values. The contract of the methods is the locale
  \<open>fast_message\<close>; a message can be copied through it (\<open>copy_by_range\<close>).
\<close>

section \<open>Values and descriptors\<close>

text \<open>
  A \<open>protoreflect.Value\<close>: the kinds the messages of the repository use, and any other. A
  message value holds a pointer to one of the messages (\<open>'msg\<close>), a list value one of the list
  types (\<open>'lst\<close>).
\<close>

datatype ('msg, 'lst) pvalue =
    ValueOfString string
  | ValueOfInt64 u64
  | ValueOfMessage 'msg
  | ValueOfList 'lst
  | OtherValue

record field_desc =
  FullName :: string
  IsExtension :: bool

text \<open>\<open>value.Interface().(string)\<close>, \<open>value.Int()\<close>, \<open>value.Message()\<close> and \<open>value.List()\<close>.\<close>

fun string_value :: "('msg, 'lst) pvalue \<Rightarrow> string res" where
  "string_value (ValueOfString s) = Ok s"
| "string_value _ = Panic"

fun int_value :: "('msg, 'lst) pvalue \<Rightarrow> u64 res" where
  "int_value (ValueOfInt64 v) = Ok v"
| "int_value _ = Panic"

fun message_value :: "('msg, 'lst) pvalue \<Rightarrow> 'msg res" where
  "message_value (ValueOfMessage m) = Ok m"
| "message_value _ = Panic"

fun list_value :: "('msg, 'lst) pvalue \<Rightarrow> 'lst res" where
  "list_value (ValueOfList l) = Ok l"
| "list_value _ = Panic"

text \<open>The receiver is a pointer: reading a field of nil panics.\<close>

definition deref :: "'m option \<Rightarrow> ('m \<Rightarrow> 'b res) \<Rightarrow> 'b res" where
  "deref x f = (case x of None \<Rightarrow> Panic | Some m \<Rightarrow> f m)"

lemma deref_simps [simp]: "deref None f = Panic" "deref (Some m) f = f m"
  by (simp_all add: deref_def)

text \<open>
  The panic at the end of every \<open>switch\<close>: for an extension, and for a field of another
  message; only the texts differ.
\<close>

definition unknown_field :: "field_desc \<Rightarrow> 'b res" where
  "unknown_field fd = (if IsExtension fd then Panic else Panic)"

lemma unknown_field_Panic [simp]: "unknown_field fd = Panic"
  by (simp add: unknown_field_def)

text \<open>
  One \<open>if\<close> of \<open>Range\<close>: the callback, here with a state of its own and the possibility to
  panic, is called when the field is populated and says whether to go on.
\<close>

definition visit ::
    "bool \<Rightarrow> field_desc \<Rightarrow> 'v \<Rightarrow> (field_desc \<Rightarrow> 'v \<Rightarrow> 's \<Rightarrow> ('s \<times> bool) res) \<Rightarrow> 's \<Rightarrow> ('s \<Rightarrow> 's res) \<Rightarrow> 's res" where
  "visit c fd value f s rest =
     (if c then bind_res (f fd value s) (\<lambda>(s, continue). if \<not> continue then Ok s else rest s)
      else rest s)"

lemma visit_False [simp]: "visit False fd value f s rest = rest s"
  by (simp add: visit_def)

section \<open>List values\<close>

text \<open>
  The list types wrap a pointer to a slice of message pointers, \<open>None\<close> being the nil pointer.
  A wrapper is modelled by what it points to; the methods that change the slice return the new
  contents, which for a wrapper made by \<open>Mutable\<close> are the message's field.
\<close>

type_synonym 'e list_ptr = "'e option list option"

definition list_Len :: "'e list_ptr \<Rightarrow> int" where
  "list_Len x = (case x of None \<Rightarrow> 0 | Some xs \<Rightarrow> glen xs)"

definition list_Get :: "'e list_ptr \<Rightarrow> int \<Rightarrow> 'e option res" where
  "list_Get x i = deref x (\<lambda>xs. index_at xs i)"

definition list_Set :: "'e list_ptr \<Rightarrow> int \<Rightarrow> 'e option \<Rightarrow> 'e list_ptr res" where
  "list_Set x i v = deref x (\<lambda>xs. bind_res (store_at xs i v) (\<lambda>xs. Ok (Some xs)))"

definition list_Append :: "'e list_ptr \<Rightarrow> 'e option \<Rightarrow> 'e list_ptr res" where
  "list_Append x v = deref x (\<lambda>xs. Ok (Some (xs @ [v])))"

text \<open>
  \<open>Truncate\<close> sets the elements from \<open>n\<close> on to nil and cuts the slice to length \<open>n\<close>. A length
  beyond the slice exposes \<open>spare\<close>, what lies behind it in its backing array.
\<close>

function clear_from :: "'e option list \<Rightarrow> int \<Rightarrow> 'e option list res" where
  "clear_from xs i =
     (if i < int (length xs) then bind_res (store_at xs i None) (\<lambda>xs. clear_from xs (i + 1)) else Ok xs)"
  by pat_completeness auto
termination
proof (relation "measure (\<lambda>(xs, i). nat (int (length xs) - i))")
  fix xs ys :: "'e option list" and i
  assume "i < int (length xs)" "store_at xs i None = Ok ys"
  then show "((ys, i + 1), xs, i) \<in> measure (\<lambda>(xs, i). nat (int (length xs) - i))"
    by (auto simp: store_at_def split: if_splits)
qed simp

declare clear_from.simps [simp del]

definition list_Truncate :: "'e list_ptr \<Rightarrow> 'e option list \<Rightarrow> int \<Rightarrow> 'e list_ptr res" where
  "list_Truncate x spare n = deref x (\<lambda>xs.
     bind_res (clear_from xs n) (\<lambda>xs.
     bind_res (subslice (xs @ spare) 0 n) (\<lambda>xs. Ok (Some xs))))"

lemma clear_from_take:
  "0 \<le> n \<Longrightarrow> n \<le> int (length xs) \<Longrightarrow>
     clear_from xs n = Ok (take (nat n) xs @ replicate (length xs - nat n) None)"
proof (induction xs n rule: clear_from.induct)
  case (1 xs n)
  show ?case
  proof (cases "n < int (length xs)")
    case True
    then have s: "store_at xs n None = Ok (xs[nat n := None])" using 1 by (simp add: store_at_def)
    have "nat (n + 1) = Suc (nat n)" using 1 by simp
    moreover have "take (Suc (nat n)) (xs[nat n := None]) = take (nat n) xs @ [None]"
      using True 1 by (simp add: take_Suc_conv_app_nth)
    moreover have "length xs - nat n = Suc (length xs - Suc (nat n))" using True 1 by simp
    ultimately show ?thesis
      using 1(1) [OF True s] True 1(2) s by (subst clear_from.simps) simp
  qed (use 1 in \<open>subst clear_from.simps; simp\<close>)
qed

lemma list_Truncate_eq:
  assumes "0 \<le> n" "n \<le> int (length xs)"
  shows "list_Truncate (Some xs) spare n = Ok (Some (take (nat n) xs))"
  using assms by (simp add: list_Truncate_def clear_from_take subslice_def)

text \<open>The contract of \<open>protoreflect.List\<close> over the elements of the list.\<close>

locale fast_list =
  fixes len :: "'l \<Rightarrow> int" and elem :: "'l \<Rightarrow> int \<Rightarrow> 'v res" and put :: "'l \<Rightarrow> int \<Rightarrow> 'v \<Rightarrow> 'l res"
    and add :: "'l \<Rightarrow> 'v \<Rightarrow> 'l res" and cut :: "'l \<Rightarrow> int \<Rightarrow> 'l res"
    and valid :: "'l \<Rightarrow> bool" and elems :: "'l \<Rightarrow> 'v list" and holds :: "'v \<Rightarrow> bool"
  assumes len_elems: "fits (elems l) \<Longrightarrow> len l = int (length (elems l))"
    and elem_elems: "valid l \<Longrightarrow> elem l i = index_at (elems l) i"
    and put_elems: "valid l \<Longrightarrow> holds v \<Longrightarrow> 0 \<le> i \<Longrightarrow> i < int (length (elems l))
      \<Longrightarrow> \<exists>l'. put l i v = Ok l' \<and> valid l' \<and> elems l' = (elems l)[nat i := v]"
    and add_elems: "valid l \<Longrightarrow> holds v \<Longrightarrow> \<exists>l'. add l v = Ok l' \<and> valid l' \<and> elems l' = elems l @ [v]"
    and cut_elems: "valid l \<Longrightarrow> 0 \<le> n \<Longrightarrow> n \<le> int (length (elems l))
      \<Longrightarrow> \<exists>l'. cut l n = Ok l' \<and> valid l' \<and> elems l' = take (nat n) (elems l)"
begin

lemma cut_after_add:
  assumes "valid l" "holds v"
  shows "\<exists>l' l''. add l v = Ok l' \<and> elem l' (int (length (elems l))) = Ok v
    \<and> cut l' (int (length (elems l))) = Ok l'' \<and> elems l'' = elems l"
proof -
  from add_elems [OF assms] obtain l'
    where l': "add l v = Ok l'" "valid l'" "elems l' = elems l @ [v]" by blast
  with cut_elems [OF l'(2), of "int (length (elems l))"] obtain l''
    where "cut l' (int (length (elems l))) = Ok l''" "elems l'' = elems l" by auto
  moreover have "elem l' (int (length (elems l))) = Ok v"
    using l' by (simp add: elem_elems index_at_def)
  ultimately show ?thesis using l'(1) by blast
qed

lemma put_same: "valid l \<Longrightarrow> elem l i = Ok v \<Longrightarrow> holds v \<Longrightarrow> \<exists>l'. put l i v = Ok l' \<and> elems l' = elems l"
  using put_elems [of l v i] by (auto simp: elem_elems index_at_def split: if_splits)

end

section \<open>The contract of a message\<close>

fun visits :: "(field_desc \<times> 'v) list \<Rightarrow> (field_desc \<Rightarrow> 'v \<Rightarrow> 's \<Rightarrow> ('s \<times> bool) res) \<Rightarrow> 's \<Rightarrow> 's res" where
  "visits [] f s = Ok s"
| "visits ((fd, value) # rest) f s = visit True fd value f s (visits rest f)"

fun populated ::
    "('m option \<Rightarrow> field_desc \<Rightarrow> bool res) \<Rightarrow> ('m option \<Rightarrow> field_desc \<Rightarrow> 'v res) \<Rightarrow> 'm \<Rightarrow> field_desc list
      \<Rightarrow> (field_desc \<times> 'v) list" where
  "populated has get m [] = []"
| "populated has get m (fd # fds) =
     (case (has (Some m) fd, get (Some m) fd) of
        (Ok True, Ok value) \<Rightarrow> (fd, value) # populated has get m fds
      | _ \<Rightarrow> populated has get m fds)"

lemma visits_Nil: "visits (populated has get m []) f = Ok"
  by (simp add: fun_eq_iff)

lemma visits_populated:
  assumes "has (Some m) fd = Ok b" "get (Some m) fd = Ok value"
  shows "visits (populated has get m (fd # fds)) f
    = (\<lambda>s. visit b fd value f s (visits (populated has get m fds) f))"
  using assms by (cases b) (simp_all add: visit_def fun_eq_iff)

text \<open>A callback that stores every field it is shown in another message.\<close>

definition copy_field ::
    "('m option \<Rightarrow> field_desc \<Rightarrow> 'v \<Rightarrow> 'm res) \<Rightarrow> field_desc \<Rightarrow> 'v \<Rightarrow> 'm \<Rightarrow> ('m \<times> bool) res" where
  "copy_field put fd value m = bind_res (put (Some m) fd value) (\<lambda>m. Ok (m, True))"

text \<open>Two messages that reflection cannot tell apart agree in each of their fields.\<close>

lemma same_field:
  assumes "\<forall>fd \<in> set fds. has (Some m) fd = has (Some n) fd
      \<and> (has (Some m) fd = Ok True \<longrightarrow> get (Some m) fd = get (Some n) fd)"
    and "fd \<in> set fds" "\<And>x. has (Some x) fd = Ok (F x \<noteq> d)" "\<And>x. get (Some x) fd = Ok (V (F x))"
    and "\<And>a b. V a = V b \<Longrightarrow> a \<noteq> d \<Longrightarrow> b \<noteq> d \<Longrightarrow> a = b"
  shows "F m = F n"
proof -
  from bspec [OF assms(1,2)]
  have "(F m \<noteq> d) = (F n \<noteq> d)" "F m \<noteq> d \<Longrightarrow> V (F m) = V (F n)" by (simp_all add: assms(3,4))
  then show ?thesis using assms(5) [of "F m" "F n"] by (cases "F m = d") auto
qed

locale fast_message =
  fixes fds :: "field_desc list"
    and has :: "'m option \<Rightarrow> field_desc \<Rightarrow> bool res"
    and get :: "'m option \<Rightarrow> field_desc \<Rightarrow> 'v res"
    and put :: "'m option \<Rightarrow> field_desc \<Rightarrow> 'v \<Rightarrow> 'm res"
    and clear :: "'m option \<Rightarrow> field_desc \<Rightarrow> 'm res"
    and range_fields :: "'m option \<Rightarrow> (field_desc \<Rightarrow> 'v \<Rightarrow> 'm \<Rightarrow> ('m \<times> bool) res) \<Rightarrow> 'm \<Rightarrow> 'm res"
    and unknown :: "'m \<Rightarrow> bytes"
    and empty :: 'm
  assumes fds_distinct: "distinct (map FullName fds)"
    and has_ok: "fd \<in> set fds \<Longrightarrow> \<exists>b. has (Some m) fd = Ok b"
    and get_ok: "fd \<in> set fds \<Longrightarrow> \<exists>v. get (Some m) fd = Ok v"
    and no_field: "FullName fd \<notin> FullName ` set fds \<Longrightarrow>
      has x fd = Panic \<and> get x fd = Panic \<and> put x fd v = Panic \<and> clear x fd = Panic"
    and put_populated: "fd \<in> set fds \<Longrightarrow> has (Some m) fd = Ok True \<Longrightarrow> get (Some m) fd = Ok v
      \<Longrightarrow> \<exists>n'. put (Some n) fd v = Ok n' \<and> get (Some n') fd = Ok v \<and> has (Some n') fd = Ok True"
    and put_frame: "fd \<in> set fds \<Longrightarrow> put (Some n) fd v = Ok n' \<Longrightarrow> unknown n' = unknown n
      \<and> (\<forall>fd' \<in> set fds. fd' \<noteq> fd \<longrightarrow> has (Some n') fd' = has (Some n) fd' \<and> get (Some n') fd' = get (Some n) fd')"
    and clear_frame: "fd \<in> set fds \<Longrightarrow> \<exists>n'. clear (Some n) fd = Ok n' \<and> has (Some n') fd = Ok False
      \<and> unknown n' = unknown n
      \<and> (\<forall>fd' \<in> set fds. fd' \<noteq> fd \<longrightarrow> has (Some n') fd' = has (Some n) fd' \<and> get (Some n') fd' = get (Some n) fd')"
    and empty_has: "fd \<in> set fds \<Longrightarrow> has (Some empty) fd = Ok False"
    and same: "(\<forall>fd \<in> set fds. has (Some m) fd = has (Some n) fd
        \<and> (has (Some m) fd = Ok True \<longrightarrow> get (Some m) fd = get (Some n) fd))
      \<Longrightarrow> unknown m = unknown n \<Longrightarrow> m = n"
    and range_visits: "range_fields (Some m) f s = visits (populated has get m fds) f s"
begin

lemma fds_distinct': "distinct fds"
  using fds_distinct by (rule distinct_map [THEN iffD1, THEN conjunct1])

lemma copy_step:
  assumes "set done \<inter> set todo = {}" "distinct todo" "set done \<union> set todo = set fds"
    and "\<forall>fd \<in> set done. has (Some n) fd = has (Some m) fd
        \<and> (has (Some m) fd = Ok True \<longrightarrow> get (Some n) fd = get (Some m) fd)"
    and "\<forall>fd \<in> set todo. has (Some n) fd = Ok False" and "unknown n = unknown m"
  shows "visits (populated has get m todo) (copy_field put) n = Ok m"
  using assms
proof (induction todo arbitrary: "done" n)
  case Nil
  then have "n = m" by (intro same) auto
  then show ?case by simp
next
  case (Cons fd todo)
  have fd: "fd \<in> set fds" using Cons.prems(3) by auto
  obtain v where v: "get (Some m) fd = Ok v" using get_ok [OF fd] by blast
  obtain b where b: "has (Some m) fd = Ok b" using has_ok [OF fd] by blast
  show ?case
  proof (cases b)
    case False
    with b v have "populated has get m (fd # todo) = populated has get m todo" by simp
    with False Cons.prems b show ?thesis by (simp only:, intro Cons.IH [of "fd # done"]) auto
  next
    case True
    with b put_populated [OF fd _ v, of n] obtain n' where n': "put (Some n) fd v = Ok n'"
      "get (Some n') fd = Ok v" "has (Some n') fd = Ok True" by auto
    from put_frame [OF fd n'(1)] have fr: "unknown n' = unknown n"
      "\<forall>fd' \<in> set fds. fd' \<noteq> fd \<longrightarrow> has (Some n') fd' = has (Some n) fd' \<and> get (Some n') fd' = get (Some n) fd'"
      by auto
    have "visits (populated has get m todo) (copy_field put) n' = Ok m"
    proof (rule Cons.IH [of "fd # done"])
      show "\<forall>fd' \<in> set (fd # done). has (Some n') fd' = has (Some m) fd'
          \<and> (has (Some m) fd' = Ok True \<longrightarrow> get (Some n') fd' = get (Some m) fd')"
        using Cons.prems(1,3,4) fr(2) n' b v True by fastforce
      show "\<forall>fd' \<in> set todo. has (Some n') fd' = Ok False"
        using Cons.prems(2,3,5) fr(2) by fastforce
    qed (use Cons.prems fr in auto)
    with True b v n'(1) show ?thesis by (simp add: visit_def copy_field_def [of put fd])
  qed
qed

text \<open>Ranging over a message and storing what one sees copies it, up to unknown fields.\<close>

lemma copy_by_range:
  assumes "unknown m = unknown empty"
  shows "range_fields (Some m) (copy_field put) empty = Ok m"
  unfolding range_visits
  by (rule copy_step [of "[]"]) (use assms fds_distinct' empty_has in auto)

lemma clear_put:
  assumes "fd \<in> set fds" "has (Some m) fd = Ok True" "get (Some m) fd = Ok v"
  shows "\<exists>n n'. clear (Some m) fd = Ok n \<and> has (Some n) fd = Ok False \<and> put (Some n) fd v = Ok n' \<and> n' = m"
proof -
  from clear_frame [OF assms(1), of m] obtain n where n: "clear (Some m) fd = Ok n"
      "has (Some n) fd = Ok False" "unknown n = unknown m"
      "\<forall>fd' \<in> set fds. fd' \<noteq> fd \<longrightarrow> has (Some n) fd' = has (Some m) fd' \<and> get (Some n) fd' = get (Some m) fd'"
    by blast
  from put_populated [OF assms, of n] obtain n' where n': "put (Some n) fd v = Ok n'"
      "get (Some n') fd = Ok v" "has (Some n') fd = Ok True" by blast
  from put_frame [OF assms(1) n'(1)] n n' assms have "n' = m" by (intro same) auto
  with n n' show ?thesis by blast
qed

end

end
