(* ===== verification/PulsarIdentity.thy ===== *)
theory PulsarIdentity
  imports Pulsar Reflect
begin

text \<open>
  \<open>api/nexelra/identity/identity.pulsar.go\<close> and \<open>params.pulsar.go\<close>: the client's \<open>Identity\<close> and
  \<open>Params\<close>, with their fast encoders and decoders and their reflection methods, and the values
  that reflection on the messages of the package passes around.
\<close>

section \<open>Identity\<close>

record api_Identity =
  api_Identity_Address :: "string"
  api_Identity_IdHash :: "string"
  api_Identity_CreatedAt :: "u64"
  api_Identity_unknownFields :: bytes

definition zero_api_Identity :: "api_Identity" where
  "zero_api_Identity = \<lparr>api_Identity_Address = '''', api_Identity_IdHash = '''',
      api_Identity_CreatedAt = 0, api_Identity_unknownFields = []\<rparr>"

definition Identity_GetAddress :: "api_Identity option \<Rightarrow> string" where
  "Identity_GetAddress x = (case x of None \<Rightarrow> '''' | Some x \<Rightarrow> api_Identity_Address x)"

definition Identity_GetIdHash :: "api_Identity option \<Rightarrow> string" where
  "Identity_GetIdHash x = (case x of None \<Rightarrow> '''' | Some x \<Rightarrow> api_Identity_IdHash x)"

definition Identity_GetCreatedAt :: "api_Identity option \<Rightarrow> u64" where
  "Identity_GetCreatedAt x = (case x of None \<Rightarrow> 0 | Some x \<Rightarrow> api_Identity_CreatedAt x)"

subsection \<open>Size, marshal and unmarshal\<close>

definition fastReflection_Identity_size :: "pulsar_rt \<Rightarrow> api_Identity option \<Rightarrow> int" where
  "fastReflection_Identity_size rt = fast_size (\<lambda>x. rt_size_str rt (api_Identity_Address x) +
      rt_size_str rt (api_Identity_IdHash x) + rt_size_opt_int rt (api_Identity_CreatedAt x) +
          size_unknown (api_Identity_unknownFields x))"

definition fastReflection_Identity_marshal ::
    "pulsar_rt \<Rightarrow> (api_Identity option \<Rightarrow> int) \<Rightarrow> api_Identity option \<Rightarrow> bytes option \<Rightarrow> bytes
        option res" where
  "fastReflection_Identity_marshal rt options_Size = fast_marshal options_Size (\<lambda>x. \<lambda>st.
     bind_res (put_unknown (api_Identity_unknownFields x) st) (\<lambda>st.
     bind_res (rt_put_opt_int rt 0x18 (api_Identity_CreatedAt x) st) (\<lambda>st.
     bind_res (rt_put_str rt 0x12 (api_Identity_IdHash x) st)
       (rt_put_str rt 0xa (api_Identity_Address x)))))"

definition fastReflection_Identity_field :: "pulsar_rt \<Rightarrow> bool \<Rightarrow> api_Identity field_reader" where
  "fastReflection_Identity_field rt discard d i x =
     bind_res (read_tag ''Identity'' d i) (\<lambda>(fieldNum, wireType, j).
       if fieldNum = 1 then bind_res (read_len ''Address'' wireType d j)
         (\<lambda>(s, j). Ok (j, x\<lparr>api_Identity_Address := string_of s\<rparr>))
       else if fieldNum = 2 then bind_res (read_len ''IdHash'' wireType d j)
         (\<lambda>(s, j). Ok (j, x\<lparr>api_Identity_IdHash := string_of s\<rparr>))
       else if fieldNum = 3 then bind_res (read_int ''CreatedAt'' wireType d j)
         (\<lambda>(v, j). Ok (j, x\<lparr>api_Identity_CreatedAt := v\<rparr>))
       else bind_res (rt_skip_unknown rt d i) (\<lambda>(s, j).
         Ok (j, x\<lparr>api_Identity_unknownFields := keep_unknown discard
             (api_Identity_unknownFields x) s\<rparr>)))"

definition fastReflection_Identity_unmarshal ::
    "pulsar_rt \<Rightarrow> bool \<Rightarrow> bytes \<Rightarrow> api_Identity option \<Rightarrow> api_Identity option res" where
  "fastReflection_Identity_unmarshal rt discard = fast_unmarshal (fastReflection_Identity_field
      rt discard)"

definition api_Identity_ops :: "pulsar_rt \<Rightarrow> api_Identity proto_ops" where
  "api_Identity_ops rt = direct_ops zero_api_Identity (fastReflection_Identity_size rt)
     (fastReflection_Identity_marshal rt (fastReflection_Identity_size rt))
         (fastReflection_Identity_unmarshal rt False)"

definition enc_api_Identity :: "api_Identity \<Rightarrow> bytes" where
  "enc_api_Identity x = enc_str 0xa (api_Identity_Address x) @ enc_str 0x12
      (api_Identity_IdHash x) @ enc_opt_int 0x18 (api_Identity_CreatedAt x) @
          api_Identity_unknownFields x"

definition wf_api_Identity :: "api_Identity \<Rightarrow> bool" where
  "wf_api_Identity x \<longleftrightarrow> fits (enc_api_Identity x)
     \<and> foreign {1, 2, 3} (api_Identity_unknownFields x)"

context pulsar_runtime
begin

lemma wf_api_IdentityD:
  assumes "wf_api_Identity x"
  shows "fits (api_Identity_Address x)"
    and "fits (api_Identity_IdHash x)"
    and "fits (api_Identity_unknownFields x)"
    and "fits (enc_api_Identity x)"
    and "foreign {1, 2, 3} (api_Identity_unknownFields x)"
  using assms
  by (auto simp: wf_api_Identity_def enc_api_Identity_def image_iff intro!: map_idI dest!:
      fits_appendD bspec dest: fits_enc_str)

lemma api_Identity_size:
  assumes "wf_api_Identity x"
  shows "fastReflection_Identity_size rt (Some x) = int (length (enc_api_Identity x))"
  using wf_api_IdentityD [OF assms] size_unknown_eq [of "api_Identity_unknownFields x"]
    size_str_length [of "api_Identity_Address x" "0xa"]
    size_str_length [of "api_Identity_IdHash x" "0x12"]
    size_opt_int_length [of "api_Identity_CreatedAt x" "0x18"]
  by (simp add: fastReflection_Identity_size_def fast_size_def enc_api_Identity_def)

lemma api_Identity_writes:
  assumes "wf_api_Identity x"
  shows "writes (\<lambda>st.
     bind_res (put_unknown (api_Identity_unknownFields x) st) (\<lambda>st.
     bind_res (rt_put_opt_int rt 0x18 (api_Identity_CreatedAt x) st) (\<lambda>st.
     bind_res (rt_put_str rt 0x12 (api_Identity_IdHash x) st)
       (rt_put_str rt 0xa (api_Identity_Address x))))) (enc_api_Identity x)"
proof -
  note D = wf_api_IdentityD [OF assms]
  show ?thesis
    unfolding enc_api_Identity_def append_assoc [symmetric]
    by (intro writes_bind writes_unknown put_str_writes put_opt_int_writes D)
qed

lemma api_Identity_field_decoder: "field_decoder (fastReflection_Identity_field rt discard)"
  unfolding fastReflection_Identity_field_def [abs_def]
  by (rule field_decoderI) (intro part_intros; simp)

lemma api_Identity_reads:
  assumes "wf_api_Identity x"
  shows "reads (fastReflection_Identity_field rt False) (enc_api_Identity x) zero_api_Identity x"
proof -
  let ?f = "fastReflection_Identity_field rt False"
  note D = wf_api_IdentityD [OF assms]
  let ?s1 = "zero_api_Identity\<lparr>api_Identity_Address := api_Identity_Address x\<rparr>"
  let ?s2 = "?s1\<lparr>api_Identity_IdHash := api_Identity_IdHash x\<rparr>"
  let ?s3 = "?s2\<lparr>api_Identity_CreatedAt := api_Identity_CreatedAt x\<rparr>"
  have r0: "reads ?f (enc_str 0xa (api_Identity_Address x)) zero_api_Identity
      ?s1"
    by (intro reads_str reads_one_len [where t = "0xa" and name = "''Identity''" and f =
        "''Address''"])
      (simp_all add: fastReflection_Identity_field_def zero_api_Identity_def)
  have r1: "reads ?f (enc_str 0x12 (api_Identity_IdHash x)) ?s1
      ?s2"
    by (intro reads_str reads_one_len [where t = "0x12" and name = "''Identity''" and f =
        "''IdHash''"])
      (simp_all add: fastReflection_Identity_field_def zero_api_Identity_def)
  have r2: "reads ?f (enc_opt_int 0x18 (api_Identity_CreatedAt x)) ?s2
      ?s3"
    by (intro reads_opt_int reads_one_int [where t = "0x18" and name = "''Identity''" and f =
        "''CreatedAt''"])
      (simp_all add: fastReflection_Identity_field_def zero_api_Identity_def)
  have ru: "reads ?f (api_Identity_unknownFields x) ?s3
      (?s3\<lparr>api_Identity_unknownFields := api_Identity_unknownFields x\<rparr>)"
    using reads_foreign [of _ "api_Identity_unknownFields x" "''Identity''" ?f
        "\<lambda>w. ?s3\<lparr>api_Identity_unknownFields := w\<rparr>" "[]", OF D(5)]
    by (simp add: fastReflection_Identity_field_def zero_api_Identity_def keep_unknown_def)
  have "?s3\<lparr>api_Identity_unknownFields := api_Identity_unknownFields x\<rparr> = x" by (cases x)
      (simp add: zero_api_Identity_def)
  with ru have "reads ?f (api_Identity_unknownFields x) ?s3 x" by simp
  then show ?thesis
    unfolding enc_api_Identity_def by (intro reads_append [OF r0] reads_append [OF r1]
        reads_append [OF r2])
qed

lemma api_Identity_proto: "proto_methods (api_Identity_ops rt) (enc_api_Identity)
    (wf_api_Identity) zero_api_Identity"
  unfolding api_Identity_ops_def fastReflection_Identity_size_def
      fastReflection_Identity_marshal_def fastReflection_Identity_unmarshal_def
  by (rule direct_methods) (use api_Identity_size api_Identity_writes
      api_Identity_reads wf_api_IdentityD(4) api_Identity_field_decoder in
      \<open>simp_all add: fastReflection_Identity_size_def fast_size_def\<close>)

end

lemma api_Identity_ops_New: "op_New (api_Identity_ops rt) = zero_api_Identity"
  by (simp add: api_Identity_ops_def direct_ops_def)

interpretation api_Identity_direct: pulsar_embedded gogo_rt "api_Identity_ops gogo_rt"
    enc_api_Identity wf_api_Identity zero_api_Identity
  by (intro pulsar_embedded.intro gogo_runtime.pulsar_runtime_axioms gogo_runtime.api_Identity_proto)

subsection \<open>Reflection\<close>

definition fd_Identity_address :: field_desc where
  "fd_Identity_address = \<lparr>FullName = ''nexelra.identity.Identity.address'', IsExtension = False\<rparr>"

definition fd_Identity_idHash :: field_desc where
  "fd_Identity_idHash = \<lparr>FullName = ''nexelra.identity.Identity.idHash'', IsExtension = False\<rparr>"

definition fd_Identity_createdAt :: field_desc where
  "fd_Identity_createdAt = \<lparr>FullName = ''nexelra.identity.Identity.createdAt'',
      IsExtension = False\<rparr>"

definition fastReflection_Identity_Range ::
    "api_Identity option \<Rightarrow> (field_desc \<Rightarrow> ('msg, 'lst) pvalue \<Rightarrow> 's \<Rightarrow> ('s \<times> bool) res) \<Rightarrow> 's
        \<Rightarrow> 's res" where
  "fastReflection_Identity_Range x f s = deref x (\<lambda>x.
     visit (api_Identity_Address x \<noteq> '''') fd_Identity_address (ValueOfString
         (api_Identity_Address x)) f s (\<lambda>s.
     visit (api_Identity_IdHash x \<noteq> '''') fd_Identity_idHash (ValueOfString
         (api_Identity_IdHash x)) f s (\<lambda>s.
     visit (api_Identity_CreatedAt x \<noteq> 0) fd_Identity_createdAt (ValueOfInt64
         (api_Identity_CreatedAt x)) f s (\<lambda>s. Ok s))))"

definition fastReflection_Identity_Has :: "api_Identity option \<Rightarrow> field_desc \<Rightarrow> bool res" where
  "fastReflection_Identity_Has x fd =
     (if FullName fd = ''nexelra.identity.Identity.address'' then deref x (\<lambda>x. Ok
         (api_Identity_Address x \<noteq> ''''))
      else if FullName fd = ''nexelra.identity.Identity.idHash'' then deref x (\<lambda>x. Ok
          (api_Identity_IdHash x \<noteq> ''''))
      else if FullName fd = ''nexelra.identity.Identity.createdAt'' then deref x (\<lambda>x. Ok
          (api_Identity_CreatedAt x \<noteq> 0))
      else unknown_field fd)"

definition fastReflection_Identity_Clear :: "api_Identity option \<Rightarrow> field_desc \<Rightarrow>
    api_Identity res" where
  "fastReflection_Identity_Clear x fd =
     (if FullName fd = ''nexelra.identity.Identity.address'' then deref x (\<lambda>x. Ok
         (x\<lparr>api_Identity_Address := ''''\<rparr>))
      else if FullName fd = ''nexelra.identity.Identity.idHash'' then deref x (\<lambda>x. Ok
          (x\<lparr>api_Identity_IdHash := ''''\<rparr>))
      else if FullName fd = ''nexelra.identity.Identity.createdAt'' then deref x (\<lambda>x. Ok
          (x\<lparr>api_Identity_CreatedAt := 0\<rparr>))
      else unknown_field fd)"

definition fastReflection_Identity_Get :: "api_Identity option \<Rightarrow> field_desc \<Rightarrow> ('msg, 'lst)
    pvalue res" where
  "fastReflection_Identity_Get x descriptor =
     (if FullName descriptor = ''nexelra.identity.Identity.address'' then deref x (\<lambda>x. Ok
         (ValueOfString (api_Identity_Address x)))
      else if FullName descriptor = ''nexelra.identity.Identity.idHash'' then deref x (\<lambda>x. Ok
          (ValueOfString (api_Identity_IdHash x)))
      else if FullName descriptor = ''nexelra.identity.Identity.createdAt'' then deref x (\<lambda>x. Ok
          (ValueOfInt64 (api_Identity_CreatedAt x)))
      else unknown_field descriptor)"

definition fastReflection_Identity_Set :: "api_Identity option \<Rightarrow> field_desc \<Rightarrow> ('msg, 'lst) pvalue
    \<Rightarrow> api_Identity res" where
  "fastReflection_Identity_Set x fd value =
     (if FullName fd = ''nexelra.identity.Identity.address'' then deref x (\<lambda>x.
          bind_res (string_value value) (\<lambda>v. Ok (x\<lparr>api_Identity_Address := v\<rparr>)))
      else if FullName fd = ''nexelra.identity.Identity.idHash'' then deref x (\<lambda>x.
          bind_res (string_value value) (\<lambda>v. Ok (x\<lparr>api_Identity_IdHash := v\<rparr>)))
      else if FullName fd = ''nexelra.identity.Identity.createdAt'' then deref x (\<lambda>x.
          bind_res (int_value value) (\<lambda>v. Ok (x\<lparr>api_Identity_CreatedAt := v\<rparr>)))
      else unknown_field fd)"

definition fastReflection_Identity_Mutable ::
    "api_Identity option \<Rightarrow> field_desc \<Rightarrow> (api_Identity \<times> ('msg, 'lst) pvalue) res" where
  "fastReflection_Identity_Mutable x fd =
     (if FullName fd = ''nexelra.identity.Identity.address'' then Panic
      else if FullName fd = ''nexelra.identity.Identity.idHash'' then Panic
      else if FullName fd = ''nexelra.identity.Identity.createdAt'' then Panic
      else unknown_field fd)"

definition fastReflection_Identity_NewField :: "field_desc \<Rightarrow> ('msg, 'lst) pvalue res" where
  "fastReflection_Identity_NewField fd =
     (if FullName fd = ''nexelra.identity.Identity.address'' then Ok (ValueOfString '''')
      else if FullName fd = ''nexelra.identity.Identity.idHash'' then Ok (ValueOfString '''')
      else if FullName fd = ''nexelra.identity.Identity.createdAt'' then Ok (ValueOfInt64 0)
      else unknown_field fd)"

definition fastReflection_Identity_WhichOneof :: "api_Identity option \<Rightarrow> string \<Rightarrow>
    field_desc res" where
  "fastReflection_Identity_WhichOneof x d = Panic"

definition fastReflection_Identity_GetUnknown :: "api_Identity option \<Rightarrow> bytes res" where
  "fastReflection_Identity_GetUnknown x = deref x (\<lambda>x. Ok (api_Identity_unknownFields x))"

definition fastReflection_Identity_SetUnknown :: "api_Identity option \<Rightarrow> bytes \<Rightarrow>
    api_Identity res" where
  "fastReflection_Identity_SetUnknown x raw = deref x (\<lambda>x. Ok
      (x\<lparr>api_Identity_unknownFields := raw\<rparr>))"

definition fastReflection_Identity_IsValid :: "api_Identity option \<Rightarrow> bool" where
  "fastReflection_Identity_IsValid x \<longleftrightarrow> x \<noteq> None"

definition fastReflection_Identity_New :: "api_Identity option" where
  "fastReflection_Identity_New = Some zero_api_Identity"

lemma api_Identity_reflect:
  "fastReflection_Identity_Has (Some x) fd_Identity_address = Ok (api_Identity_Address x \<noteq> '''')"
  "fastReflection_Identity_Get (Some x) fd_Identity_address = Ok (ValueOfString
      (api_Identity_Address x))"
  "fastReflection_Identity_Clear (Some x) fd_Identity_address = Ok
      (x\<lparr>api_Identity_Address := ''''\<rparr>)"
  "fastReflection_Identity_Set (Some x) fd_Identity_address value =
      bind_res (string_value value) (\<lambda>v. Ok (x\<lparr>api_Identity_Address := v\<rparr>))"
  "fastReflection_Identity_Has (Some x) fd_Identity_idHash = Ok (api_Identity_IdHash x \<noteq> '''')"
  "fastReflection_Identity_Get (Some x) fd_Identity_idHash = Ok (ValueOfString
      (api_Identity_IdHash x))"
  "fastReflection_Identity_Clear (Some x) fd_Identity_idHash = Ok (x\<lparr>api_Identity_IdHash := ''''\<rparr>)"
  "fastReflection_Identity_Set (Some x) fd_Identity_idHash value =
      bind_res (string_value value) (\<lambda>v. Ok (x\<lparr>api_Identity_IdHash := v\<rparr>))"
  "fastReflection_Identity_Has (Some x) fd_Identity_createdAt = Ok (api_Identity_CreatedAt x \<noteq> 0)"
  "fastReflection_Identity_Get (Some x) fd_Identity_createdAt = Ok (ValueOfInt64
      (api_Identity_CreatedAt x))"
  "fastReflection_Identity_Clear (Some x) fd_Identity_createdAt = Ok
      (x\<lparr>api_Identity_CreatedAt := 0\<rparr>)"
  "fastReflection_Identity_Set (Some x) fd_Identity_createdAt value =
      bind_res (int_value value) (\<lambda>v. Ok (x\<lparr>api_Identity_CreatedAt := v\<rparr>))"
  by (simp_all add: fastReflection_Identity_Has_def fastReflection_Identity_Get_def
      fastReflection_Identity_Clear_def fastReflection_Identity_Set_def fd_Identity_address_def
          fd_Identity_idHash_def fd_Identity_createdAt_def)

lemma api_Identity_no_field:
  assumes "FullName fd \<notin> FullName `
      set [fd_Identity_address, fd_Identity_idHash, fd_Identity_createdAt]"
  shows "fastReflection_Identity_Has x fd = Panic" "fastReflection_Identity_Get x fd = Panic"
      "fastReflection_Identity_Set x fd value = Panic" "fastReflection_Identity_Clear x fd = Panic"
  using assms by (simp_all add: fastReflection_Identity_Has_def fastReflection_Identity_Get_def
      fastReflection_Identity_Clear_def fastReflection_Identity_Set_def fd_Identity_address_def
          fd_Identity_idHash_def fd_Identity_createdAt_def)

lemma api_Identity_fds: "distinct (map
    FullName [fd_Identity_address, fd_Identity_idHash, fd_Identity_createdAt])"
        "distinct [fd_Identity_address, fd_Identity_idHash, fd_Identity_createdAt]"
  by (simp_all add: fd_Identity_address_def fd_Identity_idHash_def fd_Identity_createdAt_def)

interpretation api_Identity_message: fast_message
    "[fd_Identity_address, fd_Identity_idHash, fd_Identity_createdAt]"
  fastReflection_Identity_Has fastReflection_Identity_Get
      fastReflection_Identity_Set fastReflection_Identity_Clear
  fastReflection_Identity_Range api_Identity_unknownFields zero_api_Identity
proof unfold_locales
  fix m n :: "api_Identity"
  assume h: "\<forall>fd \<in> set [fd_Identity_address, fd_Identity_idHash, fd_Identity_createdAt].
      fastReflection_Identity_Has (Some m) fd = fastReflection_Identity_Has (Some n) fd
      \<and> (fastReflection_Identity_Has (Some m) fd = Ok True \<longrightarrow> fastReflection_Identity_Get (Some m)
          fd = fastReflection_Identity_Get (Some n) fd)"
    and u: "api_Identity_unknownFields m = api_Identity_unknownFields n"
  have e0: "api_Identity_Address m = api_Identity_Address n"
    by (rule same_field [OF h, where fd = fd_Identity_address and d = "''''" and V =
        "ValueOfString"])
      (simp_all add: api_Identity_reflect split: if_splits)
  have e1: "api_Identity_IdHash m = api_Identity_IdHash n"
    by (rule same_field [OF h, where fd = fd_Identity_idHash and d = "''''" and V =
        "ValueOfString"])
      (simp_all add: api_Identity_reflect split: if_splits)
  have e2: "api_Identity_CreatedAt m = api_Identity_CreatedAt n"
    by (rule same_field [OF h, where fd = fd_Identity_createdAt and d = "0" and V = "ValueOfInt64"])
      (simp_all add: api_Identity_reflect split: if_splits)
  from u e0 e1 e2 show "m = n" by simp
next
  fix m :: "api_Identity" and f :: "field_desc \<Rightarrow> ('a, 'b) pvalue \<Rightarrow> api_Identity \<Rightarrow>
      (api_Identity \<times> bool) res" and s
  show "fastReflection_Identity_Range (Some m) f s = visits (populated fastReflection_Identity_Has
      fastReflection_Identity_Get
          m [fd_Identity_address, fd_Identity_idHash, fd_Identity_createdAt]) f s"
    by (simp add: fastReflection_Identity_Range_def 
      visits_populated [where has = fastReflection_Identity_Has and
          get = fastReflection_Identity_Get, OF api_Identity_reflect(1,2)] 
      visits_populated [where has = fastReflection_Identity_Has and
          get = fastReflection_Identity_Get, OF api_Identity_reflect(5,6)] 
      visits_populated [where has = fastReflection_Identity_Has and
          get = fastReflection_Identity_Get, OF api_Identity_reflect(9,10)]
      visits_Nil del: populated.simps)
next
  fix fd :: field_desc and x :: "api_Identity option" and v
  assume "FullName fd \<notin> FullName `
      set [fd_Identity_address, fd_Identity_idHash, fd_Identity_createdAt]"
  then show "fastReflection_Identity_Has x fd = Panic \<and> fastReflection_Identity_Get x fd = Panic \<and>
      fastReflection_Identity_Set x fd v = Panic
      \<and> fastReflection_Identity_Clear x fd = Panic"
    by (intro conjI api_Identity_no_field)
next
  fix fd :: field_desc and m n :: "api_Identity" and v
  assume "fd \<in> set [fd_Identity_address, fd_Identity_idHash, fd_Identity_createdAt]"
      "fastReflection_Identity_Has (Some m) fd = Ok True" "fastReflection_Identity_Get (Some m)
          fd = Ok v"
  then show "\<exists>n'. fastReflection_Identity_Set (Some n) fd v = Ok n' \<and> fastReflection_Identity_Get
      (Some n') fd = Ok v \<and> fastReflection_Identity_Has (Some n') fd = Ok True"
    by (fastforce simp: api_Identity_reflect)
next
  fix fd :: field_desc and n n' :: "api_Identity" and v
  assume "fd \<in> set [fd_Identity_address, fd_Identity_idHash, fd_Identity_createdAt]"
      "fastReflection_Identity_Set (Some n) fd v = Ok n'"
  then have "fd = fd_Identity_address \<and> (\<exists>v. n' = n\<lparr>api_Identity_Address := v\<rparr>)
      \<or> fd = fd_Identity_idHash \<and> (\<exists>v. n' = n\<lparr>api_Identity_IdHash := v\<rparr>)
      \<or> fd = fd_Identity_createdAt \<and> (\<exists>v. n' = n\<lparr>api_Identity_CreatedAt := v\<rparr>)"
    by (auto simp: api_Identity_reflect res_simps deref_def split: option.splits; blast)
  then show "api_Identity_unknownFields n' = api_Identity_unknownFields n \<and> (\<forall>fd' \<in>
      set [fd_Identity_address, fd_Identity_idHash, fd_Identity_createdAt]. fd' \<noteq> fd
      \<longrightarrow> fastReflection_Identity_Has (Some n') fd' = fastReflection_Identity_Has (Some n) fd' \<and>
          fastReflection_Identity_Get (Some n') fd' = fastReflection_Identity_Get (Some n) fd')"
    by (auto simp: api_Identity_reflect)
next
  fix fd :: field_desc and n :: "api_Identity"
  assume "fd \<in> set [fd_Identity_address, fd_Identity_idHash, fd_Identity_createdAt]"
  then obtain n' where c: "fastReflection_Identity_Clear (Some n) fd = Ok n'"
      "fd = fd_Identity_address \<and> n' = n\<lparr>api_Identity_Address := ''''\<rparr>
      \<or> fd = fd_Identity_idHash \<and> n' = n\<lparr>api_Identity_IdHash := ''''\<rparr>
      \<or> fd = fd_Identity_createdAt \<and> n' = n\<lparr>api_Identity_CreatedAt := 0\<rparr>"
    by (auto simp: api_Identity_reflect)
  then have "fastReflection_Identity_Has (Some n') fd = Ok False \<and> api_Identity_unknownFields n' =
      api_Identity_unknownFields n
      \<and> (\<forall>fd' \<in> set [fd_Identity_address, fd_Identity_idHash, fd_Identity_createdAt]. fd' \<noteq> fd
      \<longrightarrow> fastReflection_Identity_Has (Some n') fd' = fastReflection_Identity_Has (Some n) fd' \<and>
          fastReflection_Identity_Get (Some n') fd' = fastReflection_Identity_Get (Some n) fd')"
    by (auto simp: api_Identity_reflect)
  with c(1) show "\<exists>n'. fastReflection_Identity_Clear (Some n) fd = Ok n' \<and>
      fastReflection_Identity_Has (Some n') fd = Ok False \<and> api_Identity_unknownFields n' =
          api_Identity_unknownFields n
      \<and> (\<forall>fd' \<in> set [fd_Identity_address, fd_Identity_idHash, fd_Identity_createdAt]. fd' \<noteq> fd
      \<longrightarrow> fastReflection_Identity_Has (Some n') fd' = fastReflection_Identity_Has (Some n) fd' \<and>
          fastReflection_Identity_Get (Some n') fd' = fastReflection_Identity_Get (Some n) fd')"
    by blast
qed (use api_Identity_fds in \<open>auto simp: api_Identity_reflect zero_api_Identity_def\<close>)


section \<open>Params\<close>

record api_Params =
  api_Params_unknownFields :: bytes

definition zero_api_Params :: "api_Params" where
  "zero_api_Params = \<lparr>api_Params_unknownFields = []\<rparr>"

subsection \<open>Size, marshal and unmarshal\<close>

definition fastReflection_Params_size :: "pulsar_rt \<Rightarrow> api_Params option \<Rightarrow> int" where
  "fastReflection_Params_size rt = fast_size (\<lambda>x. size_unknown (api_Params_unknownFields x))"

definition fastReflection_Params_marshal ::
    "pulsar_rt \<Rightarrow> (api_Params option \<Rightarrow> int) \<Rightarrow> api_Params option \<Rightarrow> bytes option \<Rightarrow> bytes
        option res" where
  "fastReflection_Params_marshal rt options_Size = fast_marshal options_Size (\<lambda>x. put_unknown
      (api_Params_unknownFields x))"

definition fastReflection_Params_field :: "pulsar_rt \<Rightarrow> bool \<Rightarrow> api_Params field_reader" where
  "fastReflection_Params_field rt discard d i x =
     bind_res (read_tag ''Params'' d i) (\<lambda>(fieldNum, wireType, j).
       bind_res (rt_skip_unknown rt d i) (\<lambda>(s, j).
         Ok (j, x\<lparr>api_Params_unknownFields := keep_unknown discard
             (api_Params_unknownFields x) s\<rparr>)))"

definition fastReflection_Params_unmarshal ::
    "pulsar_rt \<Rightarrow> bool \<Rightarrow> bytes \<Rightarrow> api_Params option \<Rightarrow> api_Params option res" where
  "fastReflection_Params_unmarshal rt discard = fast_unmarshal (fastReflection_Params_field
      rt discard)"

definition api_Params_ops :: "pulsar_rt \<Rightarrow> api_Params proto_ops" where
  "api_Params_ops rt = direct_ops zero_api_Params (fastReflection_Params_size rt)
     (fastReflection_Params_marshal rt (fastReflection_Params_size rt))
         (fastReflection_Params_unmarshal rt False)"

definition enc_api_Params :: "api_Params \<Rightarrow> bytes" where
  "enc_api_Params x = api_Params_unknownFields x"

definition wf_api_Params :: "api_Params \<Rightarrow> bool" where
  "wf_api_Params x \<longleftrightarrow> fits (enc_api_Params x)
     \<and> foreign {} (api_Params_unknownFields x)"

context pulsar_runtime
begin

lemma wf_api_ParamsD:
  assumes "wf_api_Params x"
  shows "fits (api_Params_unknownFields x)"
    and "fits (enc_api_Params x)"
    and "foreign {} (api_Params_unknownFields x)"
  using assms
  by (auto simp: wf_api_Params_def enc_api_Params_def image_iff intro!: map_idI dest!:
      fits_appendD bspec dest: fits_enc_str)

lemma api_Params_size:
  assumes "wf_api_Params x"
  shows "fastReflection_Params_size rt (Some x) = int (length (enc_api_Params x))"
  using wf_api_ParamsD [OF assms] size_unknown_eq [of "api_Params_unknownFields x"]
  by (simp add: fastReflection_Params_size_def fast_size_def enc_api_Params_def)

lemma api_Params_writes:
  assumes "wf_api_Params x"
  shows "writes (put_unknown (api_Params_unknownFields x)) (enc_api_Params x)"
proof -
  note D = wf_api_ParamsD [OF assms]
  show ?thesis
    unfolding enc_api_Params_def append_assoc [symmetric]
    by (intro writes_bind writes_unknown D)
qed

lemma api_Params_field_decoder: "field_decoder (fastReflection_Params_field rt discard)"
  unfolding fastReflection_Params_field_def [abs_def]
  by (rule field_decoderI) (intro part_intros; simp)

lemma api_Params_reads:
  assumes "wf_api_Params x"
  shows "reads (fastReflection_Params_field rt False) (enc_api_Params x) zero_api_Params x"
proof -
  let ?f = "fastReflection_Params_field rt False"
  note D = wf_api_ParamsD [OF assms]
  have ru: "reads ?f (api_Params_unknownFields x) zero_api_Params
      (zero_api_Params\<lparr>api_Params_unknownFields := api_Params_unknownFields x\<rparr>)"
    using reads_foreign [of _ "api_Params_unknownFields x" "''Params''" ?f
        "\<lambda>w. zero_api_Params\<lparr>api_Params_unknownFields := w\<rparr>" "[]", OF D(3)]
    by (simp add: fastReflection_Params_field_def zero_api_Params_def keep_unknown_def)
  have "zero_api_Params\<lparr>api_Params_unknownFields := api_Params_unknownFields x\<rparr> = x" by (cases x)
      (simp add: zero_api_Params_def)
  with ru show ?thesis by (simp add: enc_api_Params_def)
qed

lemma api_Params_proto: "proto_methods (api_Params_ops rt) (enc_api_Params)
    (wf_api_Params) zero_api_Params"
  unfolding api_Params_ops_def fastReflection_Params_size_def
      fastReflection_Params_marshal_def fastReflection_Params_unmarshal_def
  by (rule direct_methods) (use api_Params_size api_Params_writes
      api_Params_reads wf_api_ParamsD(2) api_Params_field_decoder in
      \<open>simp_all add: fastReflection_Params_size_def fast_size_def\<close>)

end

lemma api_Params_ops_New: "op_New (api_Params_ops rt) = zero_api_Params"
  by (simp add: api_Params_ops_def direct_ops_def)

interpretation api_Params_direct: pulsar_embedded gogo_rt "api_Params_ops gogo_rt" enc_api_Params
    wf_api_Params zero_api_Params
  by (intro pulsar_embedded.intro gogo_runtime.pulsar_runtime_axioms gogo_runtime.api_Params_proto)

subsection \<open>Reflection\<close>

definition fastReflection_Params_Range ::
    "api_Params option \<Rightarrow> (field_desc \<Rightarrow> ('msg, 'lst) pvalue \<Rightarrow> 's \<Rightarrow> ('s \<times> bool) res) \<Rightarrow> 's
        \<Rightarrow> 's res" where
  "fastReflection_Params_Range x f s = Ok s"

definition fastReflection_Params_Has :: "api_Params option \<Rightarrow> field_desc \<Rightarrow> bool res" where
  "fastReflection_Params_Has x fd =
     unknown_field fd"

definition fastReflection_Params_Clear :: "api_Params option \<Rightarrow> field_desc \<Rightarrow> api_Params res" where
  "fastReflection_Params_Clear x fd =
     unknown_field fd"

definition fastReflection_Params_Get :: "api_Params option \<Rightarrow> field_desc \<Rightarrow> ('msg, 'lst)
    pvalue res" where
  "fastReflection_Params_Get x descriptor =
     unknown_field descriptor"

definition fastReflection_Params_Set :: "api_Params option \<Rightarrow> field_desc \<Rightarrow> ('msg, 'lst) pvalue \<Rightarrow>
    api_Params res" where
  "fastReflection_Params_Set x fd value =
     unknown_field fd"

definition fastReflection_Params_Mutable ::
    "api_Params option \<Rightarrow> field_desc \<Rightarrow> (api_Params \<times> ('msg, 'lst) pvalue) res" where
  "fastReflection_Params_Mutable x fd =
     unknown_field fd"

definition fastReflection_Params_NewField :: "field_desc \<Rightarrow> ('msg, 'lst) pvalue res" where
  "fastReflection_Params_NewField fd =
     unknown_field fd"

definition fastReflection_Params_WhichOneof :: "api_Params option \<Rightarrow> string \<Rightarrow> field_desc res" where
  "fastReflection_Params_WhichOneof x d = Panic"

definition fastReflection_Params_GetUnknown :: "api_Params option \<Rightarrow> bytes res" where
  "fastReflection_Params_GetUnknown x = deref x (\<lambda>x. Ok (api_Params_unknownFields x))"

definition fastReflection_Params_SetUnknown :: "api_Params option \<Rightarrow> bytes \<Rightarrow> api_Params res" where
  "fastReflection_Params_SetUnknown x raw = deref x (\<lambda>x. Ok (x\<lparr>api_Params_unknownFields := raw\<rparr>))"

definition fastReflection_Params_IsValid :: "api_Params option \<Rightarrow> bool" where
  "fastReflection_Params_IsValid x \<longleftrightarrow> x \<noteq> None"

definition fastReflection_Params_New :: "api_Params option" where
  "fastReflection_Params_New = Some zero_api_Params"

interpretation api_Params_message: fast_message "[]"
  fastReflection_Params_Has fastReflection_Params_Get
      fastReflection_Params_Set fastReflection_Params_Clear
  fastReflection_Params_Range api_Params_unknownFields zero_api_Params
proof unfold_locales
  fix m n :: "api_Params"
  assume "api_Params_unknownFields m = api_Params_unknownFields n"
  then show "m = n" by simp
qed (simp_all add: fastReflection_Params_Has_def fastReflection_Params_Get_def
    fastReflection_Params_Set_def fastReflection_Params_Clear_def fastReflection_Params_Range_def)


section \<open>Messages and lists as values\<close>

text \<open>
  The pointers that a message value of these files may hold, and the list types. The pages
  \<open>PageRequest\<close> and \<open>PageResponse\<close> belong to the Cosmos SDK and are the types \<open>'q\<close> and \<open>'r\<close>.
  \<open>as_\<close> functions are the type assertions \<open>.Interface().(*T)\<close> and \<open>.(*T_list)\<close>.
\<close>

datatype ('q, 'r) api_message =
    PtrParams "api_Params option"
  | PtrIdentity "api_Identity option"
  | PtrPageRequest "'q option"
  | PtrPageResponse "'r option"
  | PtrOther

datatype api_list =
    GenesisState_2_list "api_Identity list_ptr"
  | QueryAllIdentityResponse_1_list "api_Identity list_ptr"
  | QueryIdentityByCccdIdResponse_1_list "api_Identity list_ptr"
  | OtherList

type_synonym ('q, 'r) api_value = "(('q, 'r) api_message, api_list) pvalue"

fun as_Params :: "('q, 'r) api_message \<Rightarrow> api_Params option res" where
  "as_Params (PtrParams p) = Ok p"
| "as_Params _ = Panic"

fun as_Identity :: "('q, 'r) api_message \<Rightarrow> api_Identity option res" where
  "as_Identity (PtrIdentity p) = Ok p"
| "as_Identity _ = Panic"

fun as_PageRequest :: "('q, 'r) api_message \<Rightarrow> 'q option res" where
  "as_PageRequest (PtrPageRequest p) = Ok p"
| "as_PageRequest _ = Panic"

fun as_PageResponse :: "('q, 'r) api_message \<Rightarrow> 'r option res" where
  "as_PageResponse (PtrPageResponse p) = Ok p"
| "as_PageResponse _ = Panic"

fun as_GenesisState_2_list :: "api_list \<Rightarrow> api_Identity list_ptr res" where
  "as_GenesisState_2_list (GenesisState_2_list l) = Ok l"
| "as_GenesisState_2_list _ = Panic"

fun as_QueryAllIdentityResponse_1_list :: "api_list \<Rightarrow> api_Identity list_ptr res" where
  "as_QueryAllIdentityResponse_1_list (QueryAllIdentityResponse_1_list l) = Ok l"
| "as_QueryAllIdentityResponse_1_list _ = Panic"

fun as_QueryIdentityByCccdIdResponse_1_list :: "api_list \<Rightarrow> api_Identity list_ptr res" where
  "as_QueryIdentityByCccdIdResponse_1_list (QueryIdentityByCccdIdResponse_1_list l) = Ok l"
| "as_QueryIdentityByCccdIdResponse_1_list _ = Panic"

text \<open>The elements of a list of identities as values, for the contract of the list types.\<close>

definition Identity_values :: "api_Identity list_ptr \<Rightarrow> ('q, 'r) api_value list" where
  "Identity_values x = (case x of None \<Rightarrow> [] | Some xs \<Rightarrow> map (\<lambda>e. ValueOfMessage
      (PtrIdentity e)) xs)"

definition is_Identity_value :: "('q, 'r) api_value \<Rightarrow> bool" where
  "is_Identity_value v \<longleftrightarrow> (case v of ValueOfMessage (PtrIdentity e) \<Rightarrow> True | _ \<Rightarrow> False)"

lemma is_Identity_valueE:
  assumes "is_Identity_value v"
  obtains e where "v = ValueOfMessage (PtrIdentity e)"
  using assms by (auto simp: is_Identity_value_def split: pvalue.splits api_message.splits)

lemma Identity_list_contract:
  "fast_list list_Len (\<lambda>x i. bind_res (list_Get x i) (\<lambda>e. Ok (ValueOfMessage (PtrIdentity e))))
    (\<lambda>x i value. bind_res (message_value value) (\<lambda>v. bind_res (as_Identity v) (\<lambda>e. list_Set x i e)))
    (\<lambda>x value. bind_res (message_value value) (\<lambda>v. bind_res (as_Identity v) (\<lambda>e. list_Append x e)))
    (\<lambda>x. list_Truncate x spare) (\<lambda>x. x \<noteq> None) Identity_values is_Identity_value"
proof unfold_locales
  fix l :: "api_Identity list_ptr"
  assume "fits (Identity_values l :: ('q, 'r) api_value list)"
  then show "list_Len l = int (length (Identity_values l :: ('q, 'r) api_value list))"
    by (cases l) (simp_all add: list_Len_def Identity_values_def glen_fits fits_def)
qed (auto simp: list_Get_def list_Set_def list_Append_def list_Truncate_eq Identity_values_def
    index_at_def store_at_def map_update take_map elim!: is_Identity_valueE)

end
