(* ===== verification/PulsarTx.thy ===== *)
theory PulsarTx
  imports PulsarIdentity
begin

text \<open>
  \<open>api/nexelra/identity/tx.pulsar.go\<close>: the client's transaction messages and their responses.
\<close>

section \<open>MsgUpdateParams\<close>

record api_MsgUpdateParams =
  api_MsgUpdateParams_Authority :: "string"
  api_MsgUpdateParams_Params :: "api_Params option"
  api_MsgUpdateParams_unknownFields :: bytes

definition zero_api_MsgUpdateParams :: "api_MsgUpdateParams" where
  "zero_api_MsgUpdateParams = \<lparr>api_MsgUpdateParams_Authority = '''',
      api_MsgUpdateParams_Params = None, api_MsgUpdateParams_unknownFields = []\<rparr>"

definition MsgUpdateParams_GetAuthority :: "api_MsgUpdateParams option \<Rightarrow> string" where
  "MsgUpdateParams_GetAuthority x = (case x of None \<Rightarrow> '''' | Some x \<Rightarrow>
      api_MsgUpdateParams_Authority x)"

definition MsgUpdateParams_GetParams :: "api_MsgUpdateParams option \<Rightarrow> api_Params option" where
  "MsgUpdateParams_GetParams x = (case x of None \<Rightarrow> None | Some x \<Rightarrow> api_MsgUpdateParams_Params x)"

subsection \<open>Size, marshal and unmarshal\<close>

definition fastReflection_MsgUpdateParams_size :: "pulsar_rt \<Rightarrow> api_Params proto_ops \<Rightarrow>
    api_MsgUpdateParams option \<Rightarrow> int" where
  "fastReflection_MsgUpdateParams_size rt Params_ops = fast_size (\<lambda>x. rt_size_str rt
      (api_MsgUpdateParams_Authority x) + rt_size_opt_msg rt Params_ops
          (api_MsgUpdateParams_Params x) + size_unknown (api_MsgUpdateParams_unknownFields x))"

definition fastReflection_MsgUpdateParams_marshal ::
    "pulsar_rt \<Rightarrow> api_Params proto_ops \<Rightarrow> (api_MsgUpdateParams option \<Rightarrow> int) \<Rightarrow> api_MsgUpdateParams
        option \<Rightarrow> bytes option \<Rightarrow> bytes option res" where
  "fastReflection_MsgUpdateParams_marshal rt Params_ops options_Size = fast_marshal options_Size
      (\<lambda>x. \<lambda>st.
     bind_res (put_unknown (api_MsgUpdateParams_unknownFields x) st) (\<lambda>st.
     bind_res (rt_put_opt_msg rt Params_ops 0x12 (api_MsgUpdateParams_Params x) st)
       (rt_put_str rt 0xa (api_MsgUpdateParams_Authority x))))"

definition fastReflection_MsgUpdateParams_field :: "pulsar_rt \<Rightarrow> api_Params proto_ops \<Rightarrow> bool \<Rightarrow>
    api_MsgUpdateParams field_reader" where
  "fastReflection_MsgUpdateParams_field rt Params_ops discard d i x =
     bind_res (read_tag ''MsgUpdateParams'' d i) (\<lambda>(fieldNum, wireType, j).
       if fieldNum = 1 then bind_res (read_len ''Authority'' wireType d j)
         (\<lambda>(s, j). Ok (j, x\<lparr>api_MsgUpdateParams_Authority := string_of s\<rparr>))
       else if fieldNum = 2 then bind_res (read_len ''Params'' wireType d j)
         (\<lambda>(s, j). bind_res (op_Unmarshal Params_ops s (case api_MsgUpdateParams_Params x of None
             \<Rightarrow> zero_api_Params | Some p \<Rightarrow> p))
           (\<lambda>p. Ok (j, x\<lparr>api_MsgUpdateParams_Params := Some p\<rparr>)))
       else bind_res (rt_skip_unknown rt d i) (\<lambda>(s, j).
         Ok (j, x\<lparr>api_MsgUpdateParams_unknownFields := keep_unknown discard
             (api_MsgUpdateParams_unknownFields x) s\<rparr>)))"

definition fastReflection_MsgUpdateParams_unmarshal ::
    "pulsar_rt \<Rightarrow> api_Params proto_ops \<Rightarrow> bool \<Rightarrow> bytes \<Rightarrow> api_MsgUpdateParams option \<Rightarrow>
        api_MsgUpdateParams option res" where
  "fastReflection_MsgUpdateParams_unmarshal rt Params_ops discard = fast_unmarshal
      (fastReflection_MsgUpdateParams_field rt Params_ops discard)"

definition api_MsgUpdateParams_ops :: "pulsar_rt \<Rightarrow> api_Params proto_ops \<Rightarrow>
    api_MsgUpdateParams proto_ops" where
  "api_MsgUpdateParams_ops rt Params_ops = direct_ops zero_api_MsgUpdateParams
      (fastReflection_MsgUpdateParams_size rt Params_ops)
     (fastReflection_MsgUpdateParams_marshal rt Params_ops (fastReflection_MsgUpdateParams_size
         rt Params_ops)) (fastReflection_MsgUpdateParams_unmarshal rt Params_ops False)"

definition enc_api_MsgUpdateParams :: "api_MsgUpdateParams \<Rightarrow> bytes" where
  "enc_api_MsgUpdateParams x = enc_str 0xa (api_MsgUpdateParams_Authority x) @ enc_opt_msg 0x12
      enc_api_Params (api_MsgUpdateParams_Params x) @ api_MsgUpdateParams_unknownFields x"

definition wf_api_MsgUpdateParams :: "api_MsgUpdateParams \<Rightarrow> bool" where
  "wf_api_MsgUpdateParams x \<longleftrightarrow> fits (enc_api_MsgUpdateParams x)
     \<and> foreign {1, 2} (api_MsgUpdateParams_unknownFields x)
     \<and> (\<forall>p. api_MsgUpdateParams_Params x = Some p \<longrightarrow> wf_api_Params p)"

locale api_MsgUpdateParams_methods =
  Params: pulsar_embedded rt Params_ops enc_api_Params wf_api_Params zero_api_Params
  for rt :: pulsar_rt and Params_ops :: "api_Params proto_ops"
begin

lemma wf_api_MsgUpdateParamsD:
  assumes "wf_api_MsgUpdateParams x"
  shows "fits (api_MsgUpdateParams_Authority x)"
    and "\<And>p. api_MsgUpdateParams_Params x = Some p \<Longrightarrow> wf_api_Params p"
    and "fits (api_MsgUpdateParams_unknownFields x)"
    and "fits (enc_api_MsgUpdateParams x)"
    and "foreign {1, 2} (api_MsgUpdateParams_unknownFields x)"
  using assms
  by (auto simp: wf_api_MsgUpdateParams_def enc_api_MsgUpdateParams_def image_iff intro!: map_idI
      dest!: fits_appendD bspec dest: fits_enc_str)

lemma api_MsgUpdateParams_size:
  assumes "wf_api_MsgUpdateParams x"
  shows "fastReflection_MsgUpdateParams_size rt Params_ops (Some x) = int (length
      (enc_api_MsgUpdateParams x))"
  using wf_api_MsgUpdateParamsD [OF assms] size_unknown_eq [of
      "api_MsgUpdateParams_unknownFields x"]
    Params.size_str_length [of "api_MsgUpdateParams_Authority x" "0xa"]
    Params.size_opt_msg_length [of "api_MsgUpdateParams_Params x" "0x12"]
  by (simp add: fastReflection_MsgUpdateParams_size_def fast_size_def enc_api_MsgUpdateParams_def)

lemma api_MsgUpdateParams_writes:
  assumes "wf_api_MsgUpdateParams x"
  shows "writes (\<lambda>st.
     bind_res (put_unknown (api_MsgUpdateParams_unknownFields x) st) (\<lambda>st.
     bind_res (rt_put_opt_msg rt Params_ops 0x12 (api_MsgUpdateParams_Params x) st)
       (rt_put_str rt 0xa (api_MsgUpdateParams_Authority x)))) (enc_api_MsgUpdateParams x)"
proof -
  note D = wf_api_MsgUpdateParamsD [OF assms]
  show ?thesis
    unfolding enc_api_MsgUpdateParams_def append_assoc [symmetric]
    by (intro writes_bind writes_unknown Params.put_str_writes Params.put_opt_msg_writes D)
qed

lemma api_MsgUpdateParams_field_decoder: "field_decoder (fastReflection_MsgUpdateParams_field rt
    Params_ops discard)"
  unfolding fastReflection_MsgUpdateParams_field_def [abs_def]
  by (rule field_decoderI) (intro part_intros Params.op_total Params.part_skip_rt; simp)

lemma api_MsgUpdateParams_reads:
  assumes "wf_api_MsgUpdateParams x"
  shows "reads (fastReflection_MsgUpdateParams_field rt Params_ops False)
      (enc_api_MsgUpdateParams x) zero_api_MsgUpdateParams x"
proof -
  let ?f = "fastReflection_MsgUpdateParams_field rt Params_ops False"
  note D = wf_api_MsgUpdateParamsD [OF assms]
  let ?s1 = "zero_api_MsgUpdateParams\<lparr>api_MsgUpdateParams_Authority :=
      api_MsgUpdateParams_Authority x\<rparr>"
  let ?s2 = "?s1\<lparr>api_MsgUpdateParams_Params := api_MsgUpdateParams_Params x\<rparr>"
  have r0: "reads ?f (enc_str 0xa (api_MsgUpdateParams_Authority x)) zero_api_MsgUpdateParams
      ?s1"
    by (intro reads_str reads_one_len [where t = "0xa" and name = "''MsgUpdateParams''" and f =
        "''Authority''"])
      (simp_all add: fastReflection_MsgUpdateParams_field_def zero_api_MsgUpdateParams_def)
  have r1: "reads ?f (enc_opt_msg 0x12 enc_api_Params (api_MsgUpdateParams_Params x)) ?s1
      ?s2"
    using D by (intro reads_opt_msg reads_one_len [where t = "0x12" and name =
        "''MsgUpdateParams''" and f = "''Params''"])
      (simp_all add: fastReflection_MsgUpdateParams_field_def
          zero_api_MsgUpdateParams_def Params.op_unmarshal)
  have ru: "reads ?f (api_MsgUpdateParams_unknownFields x) ?s2
      (?s2\<lparr>api_MsgUpdateParams_unknownFields := api_MsgUpdateParams_unknownFields x\<rparr>)"
    using Params.reads_foreign [of _ "api_MsgUpdateParams_unknownFields x"
        "''MsgUpdateParams''" ?f "\<lambda>w. ?s2\<lparr>api_MsgUpdateParams_unknownFields := w\<rparr>" "[]", OF D(5)]
    by (simp add: fastReflection_MsgUpdateParams_field_def
        zero_api_MsgUpdateParams_def keep_unknown_def)
  have "?s2\<lparr>api_MsgUpdateParams_unknownFields := api_MsgUpdateParams_unknownFields x\<rparr> = x" by
      (cases x) (simp add: zero_api_MsgUpdateParams_def)
  with ru have "reads ?f (api_MsgUpdateParams_unknownFields x) ?s2 x" by simp
  then show ?thesis
    unfolding enc_api_MsgUpdateParams_def by (intro reads_append [OF r0] reads_append [OF r1])
qed

lemma api_MsgUpdateParams_proto: "proto_methods (api_MsgUpdateParams_ops rt Params_ops)
    (enc_api_MsgUpdateParams) (wf_api_MsgUpdateParams) zero_api_MsgUpdateParams"
  unfolding api_MsgUpdateParams_ops_def fastReflection_MsgUpdateParams_size_def
      fastReflection_MsgUpdateParams_marshal_def fastReflection_MsgUpdateParams_unmarshal_def
  by (rule direct_methods) (use api_MsgUpdateParams_size api_MsgUpdateParams_writes
      api_MsgUpdateParams_reads wf_api_MsgUpdateParamsD(4) api_MsgUpdateParams_field_decoder in
      \<open>simp_all add: fastReflection_MsgUpdateParams_size_def fast_size_def\<close>)

end

interpretation api_MsgUpdateParams_direct: api_MsgUpdateParams_methods gogo_rt
    "api_Params_ops gogo_rt"
  by (intro api_MsgUpdateParams_methods.intro)
    (simp_all add: api_Params_direct.pulsar_embedded_axioms api_Identity_direct.pulsar_embedded_axioms
      api_Identity_ops_New)

subsection \<open>Reflection\<close>

definition fd_MsgUpdateParams_authority :: field_desc where
  "fd_MsgUpdateParams_authority = \<lparr>FullName = ''nexelra.identity.MsgUpdateParams.authority'',
      IsExtension = False\<rparr>"

definition fd_MsgUpdateParams_params :: field_desc where
  "fd_MsgUpdateParams_params = \<lparr>FullName = ''nexelra.identity.MsgUpdateParams.params'',
      IsExtension = False\<rparr>"

definition fastReflection_MsgUpdateParams_Range ::
    "api_MsgUpdateParams option \<Rightarrow> (field_desc \<Rightarrow> ('q, 'r) api_value \<Rightarrow> 's \<Rightarrow> ('s \<times> bool) res) \<Rightarrow> 's
        \<Rightarrow> 's res" where
  "fastReflection_MsgUpdateParams_Range x f s = deref x (\<lambda>x.
     visit (api_MsgUpdateParams_Authority x \<noteq> '''') fd_MsgUpdateParams_authority (ValueOfString
         (api_MsgUpdateParams_Authority x)) f s (\<lambda>s.
     visit (api_MsgUpdateParams_Params x \<noteq> None) fd_MsgUpdateParams_params (ValueOfMessage
         (PtrParams (api_MsgUpdateParams_Params x))) f s (\<lambda>s. Ok s)))"

definition fastReflection_MsgUpdateParams_Has :: "api_MsgUpdateParams option \<Rightarrow> field_desc \<Rightarrow>
    bool res" where
  "fastReflection_MsgUpdateParams_Has x fd =
     (if FullName fd = ''nexelra.identity.MsgUpdateParams.authority'' then deref x (\<lambda>x. Ok
         (api_MsgUpdateParams_Authority x \<noteq> ''''))
      else if FullName fd = ''nexelra.identity.MsgUpdateParams.params'' then deref x (\<lambda>x. Ok
          (api_MsgUpdateParams_Params x \<noteq> None))
      else unknown_field fd)"

definition fastReflection_MsgUpdateParams_Clear :: "api_MsgUpdateParams option \<Rightarrow> field_desc \<Rightarrow>
    api_MsgUpdateParams res" where
  "fastReflection_MsgUpdateParams_Clear x fd =
     (if FullName fd = ''nexelra.identity.MsgUpdateParams.authority'' then deref x (\<lambda>x. Ok
         (x\<lparr>api_MsgUpdateParams_Authority := ''''\<rparr>))
      else if FullName fd = ''nexelra.identity.MsgUpdateParams.params'' then deref x (\<lambda>x. Ok
          (x\<lparr>api_MsgUpdateParams_Params := None\<rparr>))
      else unknown_field fd)"

definition fastReflection_MsgUpdateParams_Get :: "api_MsgUpdateParams option \<Rightarrow> field_desc \<Rightarrow>
    ('q, 'r) api_value res" where
  "fastReflection_MsgUpdateParams_Get x descriptor =
     (if FullName descriptor = ''nexelra.identity.MsgUpdateParams.authority'' then deref x (\<lambda>x. Ok
         (ValueOfString (api_MsgUpdateParams_Authority x)))
      else if FullName descriptor = ''nexelra.identity.MsgUpdateParams.params'' then deref x (\<lambda>x.
          Ok (ValueOfMessage (PtrParams (api_MsgUpdateParams_Params x))))
      else unknown_field descriptor)"

definition fastReflection_MsgUpdateParams_Set :: "api_MsgUpdateParams option \<Rightarrow> field_desc \<Rightarrow>
    ('q, 'r) api_value \<Rightarrow> api_MsgUpdateParams res" where
  "fastReflection_MsgUpdateParams_Set x fd value =
     (if FullName fd = ''nexelra.identity.MsgUpdateParams.authority'' then deref x (\<lambda>x.
          bind_res (string_value value) (\<lambda>v. Ok (x\<lparr>api_MsgUpdateParams_Authority := v\<rparr>)))
      else if FullName fd = ''nexelra.identity.MsgUpdateParams.params'' then deref x (\<lambda>x.
          bind_res (message_value value) (\<lambda>v. bind_res (as_Params v) (\<lambda>v. Ok
              (x\<lparr>api_MsgUpdateParams_Params := v\<rparr>))))
      else unknown_field fd)"

definition fastReflection_MsgUpdateParams_Mutable ::
    "api_MsgUpdateParams option \<Rightarrow> field_desc \<Rightarrow> (api_MsgUpdateParams \<times> ('q, 'r) api_value) res" where
  "fastReflection_MsgUpdateParams_Mutable x fd =
     (if FullName fd = ''nexelra.identity.MsgUpdateParams.authority'' then Panic
      else if FullName fd = ''nexelra.identity.MsgUpdateParams.params'' then deref x (\<lambda>x.
          let x = (if api_MsgUpdateParams_Params x = None then x\<lparr>api_MsgUpdateParams_Params :=
              Some zero_api_Params\<rparr> else x)
          in Ok (x, ValueOfMessage (PtrParams (api_MsgUpdateParams_Params x))))
      else unknown_field fd)"

definition fastReflection_MsgUpdateParams_NewField :: "field_desc \<Rightarrow> ('q, 'r) api_value res" where
  "fastReflection_MsgUpdateParams_NewField fd =
     (if FullName fd = ''nexelra.identity.MsgUpdateParams.authority'' then Ok (ValueOfString '''')
      else if FullName fd = ''nexelra.identity.MsgUpdateParams.params'' then Ok (ValueOfMessage
          (PtrParams (Some zero_api_Params)))
      else unknown_field fd)"

definition fastReflection_MsgUpdateParams_WhichOneof :: "api_MsgUpdateParams option \<Rightarrow> string \<Rightarrow>
    field_desc res" where
  "fastReflection_MsgUpdateParams_WhichOneof x d = Panic"

definition fastReflection_MsgUpdateParams_GetUnknown :: "api_MsgUpdateParams option \<Rightarrow>
    bytes res" where
  "fastReflection_MsgUpdateParams_GetUnknown x = deref x (\<lambda>x. Ok
      (api_MsgUpdateParams_unknownFields x))"

definition fastReflection_MsgUpdateParams_SetUnknown :: "api_MsgUpdateParams option \<Rightarrow> bytes \<Rightarrow>
    api_MsgUpdateParams res" where
  "fastReflection_MsgUpdateParams_SetUnknown x raw = deref x (\<lambda>x. Ok
      (x\<lparr>api_MsgUpdateParams_unknownFields := raw\<rparr>))"

definition fastReflection_MsgUpdateParams_IsValid :: "api_MsgUpdateParams option \<Rightarrow> bool" where
  "fastReflection_MsgUpdateParams_IsValid x \<longleftrightarrow> x \<noteq> None"

definition fastReflection_MsgUpdateParams_New :: "api_MsgUpdateParams option" where
  "fastReflection_MsgUpdateParams_New = Some zero_api_MsgUpdateParams"

lemma api_MsgUpdateParams_reflect:
  "fastReflection_MsgUpdateParams_Has (Some x) fd_MsgUpdateParams_authority = Ok
      (api_MsgUpdateParams_Authority x \<noteq> '''')"
  "fastReflection_MsgUpdateParams_Get (Some x) fd_MsgUpdateParams_authority = Ok (ValueOfString
      (api_MsgUpdateParams_Authority x))"
  "fastReflection_MsgUpdateParams_Clear (Some x) fd_MsgUpdateParams_authority = Ok
      (x\<lparr>api_MsgUpdateParams_Authority := ''''\<rparr>)"
  "fastReflection_MsgUpdateParams_Set (Some x) fd_MsgUpdateParams_authority value =
      bind_res (string_value value) (\<lambda>v. Ok (x\<lparr>api_MsgUpdateParams_Authority := v\<rparr>))"
  "fastReflection_MsgUpdateParams_Has (Some x) fd_MsgUpdateParams_params = Ok
      (api_MsgUpdateParams_Params x \<noteq> None)"
  "fastReflection_MsgUpdateParams_Get (Some x) fd_MsgUpdateParams_params = Ok (ValueOfMessage
      (PtrParams (api_MsgUpdateParams_Params x)))"
  "fastReflection_MsgUpdateParams_Clear (Some x) fd_MsgUpdateParams_params = Ok
      (x\<lparr>api_MsgUpdateParams_Params := None\<rparr>)"
  "fastReflection_MsgUpdateParams_Set (Some x) fd_MsgUpdateParams_params value =
      bind_res (message_value value) (\<lambda>v. bind_res (as_Params v) (\<lambda>v. Ok
          (x\<lparr>api_MsgUpdateParams_Params := v\<rparr>)))"
  by (simp_all add: fastReflection_MsgUpdateParams_Has_def fastReflection_MsgUpdateParams_Get_def
      fastReflection_MsgUpdateParams_Clear_def fastReflection_MsgUpdateParams_Set_def
          fd_MsgUpdateParams_authority_def fd_MsgUpdateParams_params_def)

lemma api_MsgUpdateParams_no_field:
  assumes "FullName fd \<notin> FullName ` set [fd_MsgUpdateParams_authority, fd_MsgUpdateParams_params]"
  shows "fastReflection_MsgUpdateParams_Has x fd = Panic" "fastReflection_MsgUpdateParams_Get x
      fd = Panic" "fastReflection_MsgUpdateParams_Set x fd value = Panic"
          "fastReflection_MsgUpdateParams_Clear x fd = Panic"
  using assms by (simp_all add: fastReflection_MsgUpdateParams_Has_def
      fastReflection_MsgUpdateParams_Get_def fastReflection_MsgUpdateParams_Clear_def
          fastReflection_MsgUpdateParams_Set_def
              fd_MsgUpdateParams_authority_def fd_MsgUpdateParams_params_def)

lemma api_MsgUpdateParams_fds: "distinct (map
    FullName [fd_MsgUpdateParams_authority, fd_MsgUpdateParams_params])"
        "distinct [fd_MsgUpdateParams_authority, fd_MsgUpdateParams_params]"
  by (simp_all add: fd_MsgUpdateParams_authority_def fd_MsgUpdateParams_params_def)

interpretation api_MsgUpdateParams_message: fast_message
    "[fd_MsgUpdateParams_authority, fd_MsgUpdateParams_params]"
  fastReflection_MsgUpdateParams_Has fastReflection_MsgUpdateParams_Get
      fastReflection_MsgUpdateParams_Set fastReflection_MsgUpdateParams_Clear
  fastReflection_MsgUpdateParams_Range api_MsgUpdateParams_unknownFields zero_api_MsgUpdateParams
proof unfold_locales
  fix m n :: "api_MsgUpdateParams"
  assume h: "\<forall>fd \<in> set [fd_MsgUpdateParams_authority, fd_MsgUpdateParams_params].
      fastReflection_MsgUpdateParams_Has (Some m) fd = fastReflection_MsgUpdateParams_Has
          (Some n) fd
      \<and> (fastReflection_MsgUpdateParams_Has (Some m) fd = Ok True \<longrightarrow>
          fastReflection_MsgUpdateParams_Get (Some m) fd = fastReflection_MsgUpdateParams_Get
              (Some n) fd)"
    and u: "api_MsgUpdateParams_unknownFields m = api_MsgUpdateParams_unknownFields n"
  have e0: "api_MsgUpdateParams_Authority m = api_MsgUpdateParams_Authority n"
    by (rule same_field [OF h, where fd = fd_MsgUpdateParams_authority and d = "''''" and V =
        "ValueOfString"])
      (simp_all add: api_MsgUpdateParams_reflect split: if_splits)
  have e1: "api_MsgUpdateParams_Params m = api_MsgUpdateParams_Params n"
    by (rule same_field [OF h, where fd = fd_MsgUpdateParams_params and d = "None" and V = "\<lambda>v.
        ValueOfMessage (PtrParams v)"])
      (simp_all add: api_MsgUpdateParams_reflect split: if_splits)
  from u e0 e1 show "m = n" by simp
next
  fix m :: "api_MsgUpdateParams" and f :: "field_desc \<Rightarrow> ('q, 'r) api_value \<Rightarrow> api_MsgUpdateParams \<Rightarrow>
      (api_MsgUpdateParams \<times> bool) res" and s
  show "fastReflection_MsgUpdateParams_Range (Some m) f s = visits (populated
      fastReflection_MsgUpdateParams_Has fastReflection_MsgUpdateParams_Get
          m [fd_MsgUpdateParams_authority, fd_MsgUpdateParams_params]) f s"
    by (simp add: fastReflection_MsgUpdateParams_Range_def 
      visits_populated [where has = fastReflection_MsgUpdateParams_Has and
          get = fastReflection_MsgUpdateParams_Get, OF api_MsgUpdateParams_reflect(1,2)] 
      visits_populated [where has = fastReflection_MsgUpdateParams_Has and
          get = fastReflection_MsgUpdateParams_Get, OF api_MsgUpdateParams_reflect(5,6)]
      visits_Nil del: populated.simps)
next
  fix fd :: field_desc and x :: "api_MsgUpdateParams option" and v
  assume "FullName fd \<notin> FullName ` set [fd_MsgUpdateParams_authority, fd_MsgUpdateParams_params]"
  then show "fastReflection_MsgUpdateParams_Has x fd = Panic \<and> fastReflection_MsgUpdateParams_Get
      x fd = Panic \<and> fastReflection_MsgUpdateParams_Set x fd v = Panic
      \<and> fastReflection_MsgUpdateParams_Clear x fd = Panic"
    by (intro conjI api_MsgUpdateParams_no_field)
next
  fix fd :: field_desc and m n :: "api_MsgUpdateParams" and v
  assume "fd \<in> set [fd_MsgUpdateParams_authority, fd_MsgUpdateParams_params]"
      "fastReflection_MsgUpdateParams_Has (Some m) fd = Ok True"
          "fastReflection_MsgUpdateParams_Get (Some m) fd = Ok v"
  then show "\<exists>n'. fastReflection_MsgUpdateParams_Set (Some n) fd v = Ok n' \<and>
      fastReflection_MsgUpdateParams_Get (Some n') fd = Ok v \<and> fastReflection_MsgUpdateParams_Has
          (Some n') fd = Ok True"
    by (fastforce simp: api_MsgUpdateParams_reflect)
next
  fix fd :: field_desc and n n' :: "api_MsgUpdateParams" and v
  assume "fd \<in> set [fd_MsgUpdateParams_authority, fd_MsgUpdateParams_params]"
      "fastReflection_MsgUpdateParams_Set (Some n) fd v = Ok n'"
  then have "fd = fd_MsgUpdateParams_authority \<and> (\<exists>v. n' = n\<lparr>api_MsgUpdateParams_Authority := v\<rparr>)
      \<or> fd = fd_MsgUpdateParams_params \<and> (\<exists>v. n' = n\<lparr>api_MsgUpdateParams_Params := v\<rparr>)"
    by (auto simp: api_MsgUpdateParams_reflect res_simps deref_def split: option.splits; blast)
  then show "api_MsgUpdateParams_unknownFields n' = api_MsgUpdateParams_unknownFields n \<and> (\<forall>fd' \<in>
      set [fd_MsgUpdateParams_authority, fd_MsgUpdateParams_params]. fd' \<noteq> fd
      \<longrightarrow> fastReflection_MsgUpdateParams_Has (Some n') fd' = fastReflection_MsgUpdateParams_Has
          (Some n) fd' \<and> fastReflection_MsgUpdateParams_Get (Some n') fd' =
              fastReflection_MsgUpdateParams_Get (Some n) fd')"
    by (auto simp: api_MsgUpdateParams_reflect)
next
  fix fd :: field_desc and n :: "api_MsgUpdateParams"
  assume "fd \<in> set [fd_MsgUpdateParams_authority, fd_MsgUpdateParams_params]"
  then obtain n' where c: "fastReflection_MsgUpdateParams_Clear (Some n) fd = Ok n'"
      "fd = fd_MsgUpdateParams_authority \<and> n' = n\<lparr>api_MsgUpdateParams_Authority := ''''\<rparr>
      \<or> fd = fd_MsgUpdateParams_params \<and> n' = n\<lparr>api_MsgUpdateParams_Params := None\<rparr>"
    by (auto simp: api_MsgUpdateParams_reflect)
  then have "fastReflection_MsgUpdateParams_Has (Some n') fd = Ok False \<and>
      api_MsgUpdateParams_unknownFields n' = api_MsgUpdateParams_unknownFields n
      \<and> (\<forall>fd' \<in> set [fd_MsgUpdateParams_authority, fd_MsgUpdateParams_params]. fd' \<noteq> fd
      \<longrightarrow> fastReflection_MsgUpdateParams_Has (Some n') fd' = fastReflection_MsgUpdateParams_Has
          (Some n) fd' \<and> fastReflection_MsgUpdateParams_Get (Some n') fd' =
              fastReflection_MsgUpdateParams_Get (Some n) fd')"
    by (auto simp: api_MsgUpdateParams_reflect)
  with c(1) show "\<exists>n'. fastReflection_MsgUpdateParams_Clear (Some n) fd = Ok n' \<and>
      fastReflection_MsgUpdateParams_Has (Some n') fd = Ok False \<and>
          api_MsgUpdateParams_unknownFields n' = api_MsgUpdateParams_unknownFields n
      \<and> (\<forall>fd' \<in> set [fd_MsgUpdateParams_authority, fd_MsgUpdateParams_params]. fd' \<noteq> fd
      \<longrightarrow> fastReflection_MsgUpdateParams_Has (Some n') fd' = fastReflection_MsgUpdateParams_Has
          (Some n) fd' \<and> fastReflection_MsgUpdateParams_Get (Some n') fd' =
              fastReflection_MsgUpdateParams_Get (Some n) fd')"
    by blast
qed (use api_MsgUpdateParams_fds in \<open>auto simp:
    api_MsgUpdateParams_reflect zero_api_MsgUpdateParams_def\<close>)


section \<open>MsgUpdateParamsResponse\<close>

record api_MsgUpdateParamsResponse =
  api_MsgUpdateParamsResponse_unknownFields :: bytes

definition zero_api_MsgUpdateParamsResponse :: "api_MsgUpdateParamsResponse" where
  "zero_api_MsgUpdateParamsResponse = \<lparr>api_MsgUpdateParamsResponse_unknownFields = []\<rparr>"

subsection \<open>Size, marshal and unmarshal\<close>

definition fastReflection_MsgUpdateParamsResponse_size :: "pulsar_rt \<Rightarrow> api_MsgUpdateParamsResponse
    option \<Rightarrow> int" where
  "fastReflection_MsgUpdateParamsResponse_size rt = fast_size (\<lambda>x. size_unknown
      (api_MsgUpdateParamsResponse_unknownFields x))"

definition fastReflection_MsgUpdateParamsResponse_marshal ::
    "pulsar_rt \<Rightarrow> (api_MsgUpdateParamsResponse option \<Rightarrow> int) \<Rightarrow> api_MsgUpdateParamsResponse option \<Rightarrow>
        bytes option \<Rightarrow> bytes option res" where
  "fastReflection_MsgUpdateParamsResponse_marshal rt options_Size = fast_marshal options_Size (\<lambda>x.
      put_unknown (api_MsgUpdateParamsResponse_unknownFields x))"

definition fastReflection_MsgUpdateParamsResponse_field :: "pulsar_rt \<Rightarrow> bool \<Rightarrow>
    api_MsgUpdateParamsResponse field_reader" where
  "fastReflection_MsgUpdateParamsResponse_field rt discard d i x =
     bind_res (read_tag ''MsgUpdateParamsResponse'' d i) (\<lambda>(fieldNum, wireType, j).
       bind_res (rt_skip_unknown rt d i) (\<lambda>(s, j).
         Ok (j, x\<lparr>api_MsgUpdateParamsResponse_unknownFields := keep_unknown discard
             (api_MsgUpdateParamsResponse_unknownFields x) s\<rparr>)))"

definition fastReflection_MsgUpdateParamsResponse_unmarshal ::
    "pulsar_rt \<Rightarrow> bool \<Rightarrow> bytes \<Rightarrow> api_MsgUpdateParamsResponse option \<Rightarrow> api_MsgUpdateParamsResponse
        option res" where
  "fastReflection_MsgUpdateParamsResponse_unmarshal rt discard = fast_unmarshal
      (fastReflection_MsgUpdateParamsResponse_field rt discard)"

definition api_MsgUpdateParamsResponse_ops :: "pulsar_rt \<Rightarrow>
    api_MsgUpdateParamsResponse proto_ops" where
  "api_MsgUpdateParamsResponse_ops rt = direct_ops zero_api_MsgUpdateParamsResponse
      (fastReflection_MsgUpdateParamsResponse_size rt)
     (fastReflection_MsgUpdateParamsResponse_marshal rt
         (fastReflection_MsgUpdateParamsResponse_size rt))
             (fastReflection_MsgUpdateParamsResponse_unmarshal rt False)"

definition enc_api_MsgUpdateParamsResponse :: "api_MsgUpdateParamsResponse \<Rightarrow> bytes" where
  "enc_api_MsgUpdateParamsResponse x = api_MsgUpdateParamsResponse_unknownFields x"

definition wf_api_MsgUpdateParamsResponse :: "api_MsgUpdateParamsResponse \<Rightarrow> bool" where
  "wf_api_MsgUpdateParamsResponse x \<longleftrightarrow> fits (enc_api_MsgUpdateParamsResponse x)
     \<and> foreign {} (api_MsgUpdateParamsResponse_unknownFields x)"

context pulsar_runtime
begin

lemma wf_api_MsgUpdateParamsResponseD:
  assumes "wf_api_MsgUpdateParamsResponse x"
  shows "fits (api_MsgUpdateParamsResponse_unknownFields x)"
    and "fits (enc_api_MsgUpdateParamsResponse x)"
    and "foreign {} (api_MsgUpdateParamsResponse_unknownFields x)"
  using assms
  by (auto simp: wf_api_MsgUpdateParamsResponse_def enc_api_MsgUpdateParamsResponse_def
      image_iff intro!: map_idI dest!: fits_appendD bspec dest: fits_enc_str)

lemma api_MsgUpdateParamsResponse_size:
  assumes "wf_api_MsgUpdateParamsResponse x"
  shows "fastReflection_MsgUpdateParamsResponse_size rt (Some x) = int (length
      (enc_api_MsgUpdateParamsResponse x))"
  using wf_api_MsgUpdateParamsResponseD [OF assms] size_unknown_eq [of
      "api_MsgUpdateParamsResponse_unknownFields x"]
  by (simp add: fastReflection_MsgUpdateParamsResponse_size_def
      fast_size_def enc_api_MsgUpdateParamsResponse_def)

lemma api_MsgUpdateParamsResponse_writes:
  assumes "wf_api_MsgUpdateParamsResponse x"
  shows "writes (put_unknown (api_MsgUpdateParamsResponse_unknownFields x))
      (enc_api_MsgUpdateParamsResponse x)"
proof -
  note D = wf_api_MsgUpdateParamsResponseD [OF assms]
  show ?thesis
    unfolding enc_api_MsgUpdateParamsResponse_def append_assoc [symmetric]
    by (intro writes_bind writes_unknown D)
qed

lemma api_MsgUpdateParamsResponse_field_decoder: "field_decoder
    (fastReflection_MsgUpdateParamsResponse_field rt discard)"
  unfolding fastReflection_MsgUpdateParamsResponse_field_def [abs_def]
  by (rule field_decoderI) (intro part_intros; simp)

lemma api_MsgUpdateParamsResponse_reads:
  assumes "wf_api_MsgUpdateParamsResponse x"
  shows "reads (fastReflection_MsgUpdateParamsResponse_field rt False)
      (enc_api_MsgUpdateParamsResponse x) zero_api_MsgUpdateParamsResponse x"
proof -
  let ?f = "fastReflection_MsgUpdateParamsResponse_field rt False"
  note D = wf_api_MsgUpdateParamsResponseD [OF assms]
  have ru: "reads ?f (api_MsgUpdateParamsResponse_unknownFields x) zero_api_MsgUpdateParamsResponse
      (zero_api_MsgUpdateParamsResponse\<lparr>api_MsgUpdateParamsResponse_unknownFields :=
          api_MsgUpdateParamsResponse_unknownFields x\<rparr>)"
    using reads_foreign [of _ "api_MsgUpdateParamsResponse_unknownFields x"
        "''MsgUpdateParamsResponse''" ?f
            "\<lambda>w. zero_api_MsgUpdateParamsResponse\<lparr>api_MsgUpdateParamsResponse_unknownFields := w\<rparr>"
                "[]", OF D(3)]
    by (simp add: fastReflection_MsgUpdateParamsResponse_field_def
        zero_api_MsgUpdateParamsResponse_def keep_unknown_def)
  have "zero_api_MsgUpdateParamsResponse\<lparr>api_MsgUpdateParamsResponse_unknownFields :=
      api_MsgUpdateParamsResponse_unknownFields x\<rparr> = x" by (cases x)
          (simp add: zero_api_MsgUpdateParamsResponse_def)
  with ru show ?thesis by (simp add: enc_api_MsgUpdateParamsResponse_def)
qed

lemma api_MsgUpdateParamsResponse_proto: "proto_methods (api_MsgUpdateParamsResponse_ops rt)
    (enc_api_MsgUpdateParamsResponse)
        (wf_api_MsgUpdateParamsResponse) zero_api_MsgUpdateParamsResponse"
  unfolding api_MsgUpdateParamsResponse_ops_def fastReflection_MsgUpdateParamsResponse_size_def
      fastReflection_MsgUpdateParamsResponse_marshal_def fastReflection_MsgUpdateParamsResponse_unmarshal_def
  by (rule direct_methods) (use api_MsgUpdateParamsResponse_size
      api_MsgUpdateParamsResponse_writes
          api_MsgUpdateParamsResponse_reads wf_api_MsgUpdateParamsResponseD(2)
              api_MsgUpdateParamsResponse_field_decoder in
      \<open>simp_all add: fastReflection_MsgUpdateParamsResponse_size_def fast_size_def\<close>)

end

subsection \<open>Reflection\<close>

definition fastReflection_MsgUpdateParamsResponse_Range ::
    "api_MsgUpdateParamsResponse option \<Rightarrow> (field_desc \<Rightarrow> ('msg, 'lst) pvalue \<Rightarrow> 's \<Rightarrow>
        ('s \<times> bool) res) \<Rightarrow> 's \<Rightarrow> 's res" where
  "fastReflection_MsgUpdateParamsResponse_Range x f s = Ok s"

definition fastReflection_MsgUpdateParamsResponse_Has :: "api_MsgUpdateParamsResponse option \<Rightarrow>
    field_desc \<Rightarrow> bool res" where
  "fastReflection_MsgUpdateParamsResponse_Has x fd =
     unknown_field fd"

definition fastReflection_MsgUpdateParamsResponse_Clear :: "api_MsgUpdateParamsResponse option \<Rightarrow>
    field_desc \<Rightarrow> api_MsgUpdateParamsResponse res" where
  "fastReflection_MsgUpdateParamsResponse_Clear x fd =
     unknown_field fd"

definition fastReflection_MsgUpdateParamsResponse_Get :: "api_MsgUpdateParamsResponse option \<Rightarrow>
    field_desc \<Rightarrow> ('msg, 'lst) pvalue res" where
  "fastReflection_MsgUpdateParamsResponse_Get x descriptor =
     unknown_field descriptor"

definition fastReflection_MsgUpdateParamsResponse_Set :: "api_MsgUpdateParamsResponse option \<Rightarrow>
    field_desc \<Rightarrow> ('msg, 'lst) pvalue \<Rightarrow> api_MsgUpdateParamsResponse res" where
  "fastReflection_MsgUpdateParamsResponse_Set x fd value =
     unknown_field fd"

definition fastReflection_MsgUpdateParamsResponse_Mutable ::
    "api_MsgUpdateParamsResponse option \<Rightarrow> field_desc \<Rightarrow> (api_MsgUpdateParamsResponse \<times>
        ('msg, 'lst) pvalue) res" where
  "fastReflection_MsgUpdateParamsResponse_Mutable x fd =
     unknown_field fd"

definition fastReflection_MsgUpdateParamsResponse_NewField :: "field_desc \<Rightarrow> ('msg, 'lst)
    pvalue res" where
  "fastReflection_MsgUpdateParamsResponse_NewField fd =
     unknown_field fd"

definition fastReflection_MsgUpdateParamsResponse_WhichOneof :: "api_MsgUpdateParamsResponse
    option \<Rightarrow> string \<Rightarrow> field_desc res" where
  "fastReflection_MsgUpdateParamsResponse_WhichOneof x d = Panic"

definition fastReflection_MsgUpdateParamsResponse_GetUnknown :: "api_MsgUpdateParamsResponse
    option \<Rightarrow> bytes res" where
  "fastReflection_MsgUpdateParamsResponse_GetUnknown x = deref x (\<lambda>x. Ok
      (api_MsgUpdateParamsResponse_unknownFields x))"

definition fastReflection_MsgUpdateParamsResponse_SetUnknown :: "api_MsgUpdateParamsResponse
    option \<Rightarrow> bytes \<Rightarrow> api_MsgUpdateParamsResponse res" where
  "fastReflection_MsgUpdateParamsResponse_SetUnknown x raw = deref x (\<lambda>x. Ok
      (x\<lparr>api_MsgUpdateParamsResponse_unknownFields := raw\<rparr>))"

definition fastReflection_MsgUpdateParamsResponse_IsValid :: "api_MsgUpdateParamsResponse option
    \<Rightarrow> bool" where
  "fastReflection_MsgUpdateParamsResponse_IsValid x \<longleftrightarrow> x \<noteq> None"

definition fastReflection_MsgUpdateParamsResponse_New :: "api_MsgUpdateParamsResponse option" where
  "fastReflection_MsgUpdateParamsResponse_New = Some zero_api_MsgUpdateParamsResponse"

interpretation api_MsgUpdateParamsResponse_message: fast_message "[]"
  fastReflection_MsgUpdateParamsResponse_Has fastReflection_MsgUpdateParamsResponse_Get
      fastReflection_MsgUpdateParamsResponse_Set fastReflection_MsgUpdateParamsResponse_Clear
  fastReflection_MsgUpdateParamsResponse_Range
      api_MsgUpdateParamsResponse_unknownFields zero_api_MsgUpdateParamsResponse
proof unfold_locales
  fix m n :: "api_MsgUpdateParamsResponse"
  assume "api_MsgUpdateParamsResponse_unknownFields m = api_MsgUpdateParamsResponse_unknownFields n"
  then show "m = n" by simp
qed (simp_all add: fastReflection_MsgUpdateParamsResponse_Has_def
    fastReflection_MsgUpdateParamsResponse_Get_def fastReflection_MsgUpdateParamsResponse_Set_def
        fastReflection_MsgUpdateParamsResponse_Clear_def fastReflection_MsgUpdateParamsResponse_Range_def)


section \<open>MsgCreateIdentity\<close>

record api_MsgCreateIdentity =
  api_MsgCreateIdentity_Creator :: "string"
  api_MsgCreateIdentity_CccdId :: "string"
  api_MsgCreateIdentity_unknownFields :: bytes

definition zero_api_MsgCreateIdentity :: "api_MsgCreateIdentity" where
  "zero_api_MsgCreateIdentity = \<lparr>api_MsgCreateIdentity_Creator = '''',
      api_MsgCreateIdentity_CccdId = '''', api_MsgCreateIdentity_unknownFields = []\<rparr>"

definition MsgCreateIdentity_GetCreator :: "api_MsgCreateIdentity option \<Rightarrow> string" where
  "MsgCreateIdentity_GetCreator x = (case x of None \<Rightarrow> '''' | Some x \<Rightarrow>
      api_MsgCreateIdentity_Creator x)"

definition MsgCreateIdentity_GetCccdId :: "api_MsgCreateIdentity option \<Rightarrow> string" where
  "MsgCreateIdentity_GetCccdId x = (case x of None \<Rightarrow> '''' | Some x \<Rightarrow>
      api_MsgCreateIdentity_CccdId x)"

subsection \<open>Size, marshal and unmarshal\<close>

definition fastReflection_MsgCreateIdentity_size :: "pulsar_rt \<Rightarrow> api_MsgCreateIdentity option
    \<Rightarrow> int" where
  "fastReflection_MsgCreateIdentity_size rt = fast_size (\<lambda>x. rt_size_str rt
      (api_MsgCreateIdentity_Creator x) + rt_size_str rt (api_MsgCreateIdentity_CccdId x) +
          size_unknown (api_MsgCreateIdentity_unknownFields x))"

definition fastReflection_MsgCreateIdentity_marshal ::
    "pulsar_rt \<Rightarrow> (api_MsgCreateIdentity option \<Rightarrow> int) \<Rightarrow> api_MsgCreateIdentity option \<Rightarrow> bytes
        option \<Rightarrow> bytes option res" where
  "fastReflection_MsgCreateIdentity_marshal rt options_Size = fast_marshal options_Size (\<lambda>x. \<lambda>st.
     bind_res (put_unknown (api_MsgCreateIdentity_unknownFields x) st) (\<lambda>st.
     bind_res (rt_put_str rt 0x12 (api_MsgCreateIdentity_CccdId x) st)
       (rt_put_str rt 0xa (api_MsgCreateIdentity_Creator x))))"

definition fastReflection_MsgCreateIdentity_field :: "pulsar_rt \<Rightarrow> bool \<Rightarrow>
    api_MsgCreateIdentity field_reader" where
  "fastReflection_MsgCreateIdentity_field rt discard d i x =
     bind_res (read_tag ''MsgCreateIdentity'' d i) (\<lambda>(fieldNum, wireType, j).
       if fieldNum = 1 then bind_res (read_len ''Creator'' wireType d j)
         (\<lambda>(s, j). Ok (j, x\<lparr>api_MsgCreateIdentity_Creator := string_of s\<rparr>))
       else if fieldNum = 2 then bind_res (read_len ''CccdId'' wireType d j)
         (\<lambda>(s, j). Ok (j, x\<lparr>api_MsgCreateIdentity_CccdId := string_of s\<rparr>))
       else bind_res (rt_skip_unknown rt d i) (\<lambda>(s, j).
         Ok (j, x\<lparr>api_MsgCreateIdentity_unknownFields := keep_unknown discard
             (api_MsgCreateIdentity_unknownFields x) s\<rparr>)))"

definition fastReflection_MsgCreateIdentity_unmarshal ::
    "pulsar_rt \<Rightarrow> bool \<Rightarrow> bytes \<Rightarrow> api_MsgCreateIdentity option \<Rightarrow> api_MsgCreateIdentity
        option res" where
  "fastReflection_MsgCreateIdentity_unmarshal rt discard = fast_unmarshal
      (fastReflection_MsgCreateIdentity_field rt discard)"

definition api_MsgCreateIdentity_ops :: "pulsar_rt \<Rightarrow> api_MsgCreateIdentity proto_ops" where
  "api_MsgCreateIdentity_ops rt = direct_ops zero_api_MsgCreateIdentity
      (fastReflection_MsgCreateIdentity_size rt)
     (fastReflection_MsgCreateIdentity_marshal rt (fastReflection_MsgCreateIdentity_size rt))
         (fastReflection_MsgCreateIdentity_unmarshal rt False)"

definition enc_api_MsgCreateIdentity :: "api_MsgCreateIdentity \<Rightarrow> bytes" where
  "enc_api_MsgCreateIdentity x = enc_str 0xa (api_MsgCreateIdentity_Creator x) @ enc_str 0x12
      (api_MsgCreateIdentity_CccdId x) @ api_MsgCreateIdentity_unknownFields x"

definition wf_api_MsgCreateIdentity :: "api_MsgCreateIdentity \<Rightarrow> bool" where
  "wf_api_MsgCreateIdentity x \<longleftrightarrow> fits (enc_api_MsgCreateIdentity x)
     \<and> foreign {1, 2} (api_MsgCreateIdentity_unknownFields x)"

context pulsar_runtime
begin

lemma wf_api_MsgCreateIdentityD:
  assumes "wf_api_MsgCreateIdentity x"
  shows "fits (api_MsgCreateIdentity_Creator x)"
    and "fits (api_MsgCreateIdentity_CccdId x)"
    and "fits (api_MsgCreateIdentity_unknownFields x)"
    and "fits (enc_api_MsgCreateIdentity x)"
    and "foreign {1, 2} (api_MsgCreateIdentity_unknownFields x)"
  using assms
  by (auto simp: wf_api_MsgCreateIdentity_def enc_api_MsgCreateIdentity_def image_iff intro!:
      map_idI dest!: fits_appendD bspec dest: fits_enc_str)

lemma api_MsgCreateIdentity_size:
  assumes "wf_api_MsgCreateIdentity x"
  shows "fastReflection_MsgCreateIdentity_size rt (Some x) = int (length
      (enc_api_MsgCreateIdentity x))"
  using wf_api_MsgCreateIdentityD [OF assms] size_unknown_eq [of
      "api_MsgCreateIdentity_unknownFields x"]
    size_str_length [of "api_MsgCreateIdentity_Creator x" "0xa"]
    size_str_length [of "api_MsgCreateIdentity_CccdId x" "0x12"]
  by (simp add: fastReflection_MsgCreateIdentity_size_def
      fast_size_def enc_api_MsgCreateIdentity_def)

lemma api_MsgCreateIdentity_writes:
  assumes "wf_api_MsgCreateIdentity x"
  shows "writes (\<lambda>st.
     bind_res (put_unknown (api_MsgCreateIdentity_unknownFields x) st) (\<lambda>st.
     bind_res (rt_put_str rt 0x12 (api_MsgCreateIdentity_CccdId x) st)
       (rt_put_str rt 0xa (api_MsgCreateIdentity_Creator x)))) (enc_api_MsgCreateIdentity x)"
proof -
  note D = wf_api_MsgCreateIdentityD [OF assms]
  show ?thesis
    unfolding enc_api_MsgCreateIdentity_def append_assoc [symmetric]
    by (intro writes_bind writes_unknown put_str_writes D)
qed

lemma api_MsgCreateIdentity_field_decoder: "field_decoder (fastReflection_MsgCreateIdentity_field
    rt discard)"
  unfolding fastReflection_MsgCreateIdentity_field_def [abs_def]
  by (rule field_decoderI) (intro part_intros; simp)

lemma api_MsgCreateIdentity_reads:
  assumes "wf_api_MsgCreateIdentity x"
  shows "reads (fastReflection_MsgCreateIdentity_field rt False) (enc_api_MsgCreateIdentity x)
      zero_api_MsgCreateIdentity x"
proof -
  let ?f = "fastReflection_MsgCreateIdentity_field rt False"
  note D = wf_api_MsgCreateIdentityD [OF assms]
  let ?s1 = "zero_api_MsgCreateIdentity\<lparr>api_MsgCreateIdentity_Creator :=
      api_MsgCreateIdentity_Creator x\<rparr>"
  let ?s2 = "?s1\<lparr>api_MsgCreateIdentity_CccdId := api_MsgCreateIdentity_CccdId x\<rparr>"
  have r0: "reads ?f (enc_str 0xa (api_MsgCreateIdentity_Creator x)) zero_api_MsgCreateIdentity
      ?s1"
    by (intro reads_str reads_one_len [where t = "0xa" and name = "''MsgCreateIdentity''" and f =
        "''Creator''"])
      (simp_all add: fastReflection_MsgCreateIdentity_field_def zero_api_MsgCreateIdentity_def)
  have r1: "reads ?f (enc_str 0x12 (api_MsgCreateIdentity_CccdId x)) ?s1
      ?s2"
    by (intro reads_str reads_one_len [where t = "0x12" and name = "''MsgCreateIdentity''" and f =
        "''CccdId''"])
      (simp_all add: fastReflection_MsgCreateIdentity_field_def zero_api_MsgCreateIdentity_def)
  have ru: "reads ?f (api_MsgCreateIdentity_unknownFields x) ?s2
      (?s2\<lparr>api_MsgCreateIdentity_unknownFields := api_MsgCreateIdentity_unknownFields x\<rparr>)"
    using reads_foreign [of _ "api_MsgCreateIdentity_unknownFields x" "''MsgCreateIdentity''" ?f
        "\<lambda>w. ?s2\<lparr>api_MsgCreateIdentity_unknownFields := w\<rparr>" "[]", OF D(5)]
    by (simp add: fastReflection_MsgCreateIdentity_field_def
        zero_api_MsgCreateIdentity_def keep_unknown_def)
  have "?s2\<lparr>api_MsgCreateIdentity_unknownFields := api_MsgCreateIdentity_unknownFields x\<rparr> = x" by
      (cases x) (simp add: zero_api_MsgCreateIdentity_def)
  with ru have "reads ?f (api_MsgCreateIdentity_unknownFields x) ?s2 x" by simp
  then show ?thesis
    unfolding enc_api_MsgCreateIdentity_def by (intro reads_append [OF r0] reads_append [OF r1])
qed

lemma api_MsgCreateIdentity_proto: "proto_methods (api_MsgCreateIdentity_ops rt)
    (enc_api_MsgCreateIdentity) (wf_api_MsgCreateIdentity) zero_api_MsgCreateIdentity"
  unfolding api_MsgCreateIdentity_ops_def fastReflection_MsgCreateIdentity_size_def
      fastReflection_MsgCreateIdentity_marshal_def fastReflection_MsgCreateIdentity_unmarshal_def
  by (rule direct_methods) (use api_MsgCreateIdentity_size api_MsgCreateIdentity_writes
      api_MsgCreateIdentity_reads wf_api_MsgCreateIdentityD(4)
          api_MsgCreateIdentity_field_decoder in
      \<open>simp_all add: fastReflection_MsgCreateIdentity_size_def fast_size_def\<close>)

end

subsection \<open>Reflection\<close>

definition fd_MsgCreateIdentity_creator :: field_desc where
  "fd_MsgCreateIdentity_creator = \<lparr>FullName = ''nexelra.identity.MsgCreateIdentity.creator'',
      IsExtension = False\<rparr>"

definition fd_MsgCreateIdentity_cccdId :: field_desc where
  "fd_MsgCreateIdentity_cccdId = \<lparr>FullName = ''nexelra.identity.MsgCreateIdentity.cccdId'',
      IsExtension = False\<rparr>"

definition fastReflection_MsgCreateIdentity_Range ::
    "api_MsgCreateIdentity option \<Rightarrow> (field_desc \<Rightarrow> ('msg, 'lst) pvalue \<Rightarrow> 's \<Rightarrow> ('s \<times> bool) res) \<Rightarrow> 's
        \<Rightarrow> 's res" where
  "fastReflection_MsgCreateIdentity_Range x f s = deref x (\<lambda>x.
     visit (api_MsgCreateIdentity_Creator x \<noteq> '''') fd_MsgCreateIdentity_creator (ValueOfString
         (api_MsgCreateIdentity_Creator x)) f s (\<lambda>s.
     visit (api_MsgCreateIdentity_CccdId x \<noteq> '''') fd_MsgCreateIdentity_cccdId (ValueOfString
         (api_MsgCreateIdentity_CccdId x)) f s (\<lambda>s. Ok s)))"

definition fastReflection_MsgCreateIdentity_Has :: "api_MsgCreateIdentity option \<Rightarrow> field_desc \<Rightarrow>
    bool res" where
  "fastReflection_MsgCreateIdentity_Has x fd =
     (if FullName fd = ''nexelra.identity.MsgCreateIdentity.creator'' then deref x (\<lambda>x. Ok
         (api_MsgCreateIdentity_Creator x \<noteq> ''''))
      else if FullName fd = ''nexelra.identity.MsgCreateIdentity.cccdId'' then deref x (\<lambda>x. Ok
          (api_MsgCreateIdentity_CccdId x \<noteq> ''''))
      else unknown_field fd)"

definition fastReflection_MsgCreateIdentity_Clear :: "api_MsgCreateIdentity option \<Rightarrow> field_desc \<Rightarrow>
    api_MsgCreateIdentity res" where
  "fastReflection_MsgCreateIdentity_Clear x fd =
     (if FullName fd = ''nexelra.identity.MsgCreateIdentity.creator'' then deref x (\<lambda>x. Ok
         (x\<lparr>api_MsgCreateIdentity_Creator := ''''\<rparr>))
      else if FullName fd = ''nexelra.identity.MsgCreateIdentity.cccdId'' then deref x (\<lambda>x. Ok
          (x\<lparr>api_MsgCreateIdentity_CccdId := ''''\<rparr>))
      else unknown_field fd)"

definition fastReflection_MsgCreateIdentity_Get :: "api_MsgCreateIdentity option \<Rightarrow> field_desc \<Rightarrow>
    ('msg, 'lst) pvalue res" where
  "fastReflection_MsgCreateIdentity_Get x descriptor =
     (if FullName descriptor = ''nexelra.identity.MsgCreateIdentity.creator'' then deref x (\<lambda>x. Ok
         (ValueOfString (api_MsgCreateIdentity_Creator x)))
      else if FullName descriptor = ''nexelra.identity.MsgCreateIdentity.cccdId'' then deref x
          (\<lambda>x. Ok (ValueOfString (api_MsgCreateIdentity_CccdId x)))
      else unknown_field descriptor)"

definition fastReflection_MsgCreateIdentity_Set :: "api_MsgCreateIdentity option \<Rightarrow> field_desc \<Rightarrow>
    ('msg, 'lst) pvalue \<Rightarrow> api_MsgCreateIdentity res" where
  "fastReflection_MsgCreateIdentity_Set x fd value =
     (if FullName fd = ''nexelra.identity.MsgCreateIdentity.creator'' then deref x (\<lambda>x.
          bind_res (string_value value) (\<lambda>v. Ok (x\<lparr>api_MsgCreateIdentity_Creator := v\<rparr>)))
      else if FullName fd = ''nexelra.identity.MsgCreateIdentity.cccdId'' then deref x (\<lambda>x.
          bind_res (string_value value) (\<lambda>v. Ok (x\<lparr>api_MsgCreateIdentity_CccdId := v\<rparr>)))
      else unknown_field fd)"

definition fastReflection_MsgCreateIdentity_Mutable ::
    "api_MsgCreateIdentity option \<Rightarrow> field_desc \<Rightarrow> (api_MsgCreateIdentity \<times>
        ('msg, 'lst) pvalue) res" where
  "fastReflection_MsgCreateIdentity_Mutable x fd =
     (if FullName fd = ''nexelra.identity.MsgCreateIdentity.creator'' then Panic
      else if FullName fd = ''nexelra.identity.MsgCreateIdentity.cccdId'' then Panic
      else unknown_field fd)"

definition fastReflection_MsgCreateIdentity_NewField :: "field_desc \<Rightarrow> ('msg, 'lst) pvalue res" where
  "fastReflection_MsgCreateIdentity_NewField fd =
     (if FullName fd = ''nexelra.identity.MsgCreateIdentity.creator'' then Ok (ValueOfString '''')
      else if FullName fd = ''nexelra.identity.MsgCreateIdentity.cccdId'' then Ok
          (ValueOfString '''')
      else unknown_field fd)"

definition fastReflection_MsgCreateIdentity_WhichOneof :: "api_MsgCreateIdentity option \<Rightarrow> string \<Rightarrow>
    field_desc res" where
  "fastReflection_MsgCreateIdentity_WhichOneof x d = Panic"

definition fastReflection_MsgCreateIdentity_GetUnknown :: "api_MsgCreateIdentity option \<Rightarrow>
    bytes res" where
  "fastReflection_MsgCreateIdentity_GetUnknown x = deref x (\<lambda>x. Ok
      (api_MsgCreateIdentity_unknownFields x))"

definition fastReflection_MsgCreateIdentity_SetUnknown :: "api_MsgCreateIdentity option \<Rightarrow> bytes \<Rightarrow>
    api_MsgCreateIdentity res" where
  "fastReflection_MsgCreateIdentity_SetUnknown x raw = deref x (\<lambda>x. Ok
      (x\<lparr>api_MsgCreateIdentity_unknownFields := raw\<rparr>))"

definition fastReflection_MsgCreateIdentity_IsValid :: "api_MsgCreateIdentity option \<Rightarrow> bool" where
  "fastReflection_MsgCreateIdentity_IsValid x \<longleftrightarrow> x \<noteq> None"

definition fastReflection_MsgCreateIdentity_New :: "api_MsgCreateIdentity option" where
  "fastReflection_MsgCreateIdentity_New = Some zero_api_MsgCreateIdentity"

lemma api_MsgCreateIdentity_reflect:
  "fastReflection_MsgCreateIdentity_Has (Some x) fd_MsgCreateIdentity_creator = Ok
      (api_MsgCreateIdentity_Creator x \<noteq> '''')"
  "fastReflection_MsgCreateIdentity_Get (Some x) fd_MsgCreateIdentity_creator = Ok (ValueOfString
      (api_MsgCreateIdentity_Creator x))"
  "fastReflection_MsgCreateIdentity_Clear (Some x) fd_MsgCreateIdentity_creator = Ok
      (x\<lparr>api_MsgCreateIdentity_Creator := ''''\<rparr>)"
  "fastReflection_MsgCreateIdentity_Set (Some x) fd_MsgCreateIdentity_creator value =
      bind_res (string_value value) (\<lambda>v. Ok (x\<lparr>api_MsgCreateIdentity_Creator := v\<rparr>))"
  "fastReflection_MsgCreateIdentity_Has (Some x) fd_MsgCreateIdentity_cccdId = Ok
      (api_MsgCreateIdentity_CccdId x \<noteq> '''')"
  "fastReflection_MsgCreateIdentity_Get (Some x) fd_MsgCreateIdentity_cccdId = Ok (ValueOfString
      (api_MsgCreateIdentity_CccdId x))"
  "fastReflection_MsgCreateIdentity_Clear (Some x) fd_MsgCreateIdentity_cccdId = Ok
      (x\<lparr>api_MsgCreateIdentity_CccdId := ''''\<rparr>)"
  "fastReflection_MsgCreateIdentity_Set (Some x) fd_MsgCreateIdentity_cccdId value =
      bind_res (string_value value) (\<lambda>v. Ok (x\<lparr>api_MsgCreateIdentity_CccdId := v\<rparr>))"
  by (simp_all add: fastReflection_MsgCreateIdentity_Has_def
      fastReflection_MsgCreateIdentity_Get_def fastReflection_MsgCreateIdentity_Clear_def
          fastReflection_MsgCreateIdentity_Set_def
              fd_MsgCreateIdentity_creator_def fd_MsgCreateIdentity_cccdId_def)

lemma api_MsgCreateIdentity_no_field:
  assumes "FullName fd \<notin> FullName ` set [fd_MsgCreateIdentity_creator, fd_MsgCreateIdentity_cccdId]"
  shows "fastReflection_MsgCreateIdentity_Has x fd = Panic" "fastReflection_MsgCreateIdentity_Get
      x fd = Panic" "fastReflection_MsgCreateIdentity_Set x fd value = Panic"
          "fastReflection_MsgCreateIdentity_Clear x fd = Panic"
  using assms by (simp_all add: fastReflection_MsgCreateIdentity_Has_def
      fastReflection_MsgCreateIdentity_Get_def fastReflection_MsgCreateIdentity_Clear_def
          fastReflection_MsgCreateIdentity_Set_def
              fd_MsgCreateIdentity_creator_def fd_MsgCreateIdentity_cccdId_def)

lemma api_MsgCreateIdentity_fds: "distinct (map
    FullName [fd_MsgCreateIdentity_creator, fd_MsgCreateIdentity_cccdId])"
        "distinct [fd_MsgCreateIdentity_creator, fd_MsgCreateIdentity_cccdId]"
  by (simp_all add: fd_MsgCreateIdentity_creator_def fd_MsgCreateIdentity_cccdId_def)

interpretation api_MsgCreateIdentity_message: fast_message
    "[fd_MsgCreateIdentity_creator, fd_MsgCreateIdentity_cccdId]"
  fastReflection_MsgCreateIdentity_Has fastReflection_MsgCreateIdentity_Get
      fastReflection_MsgCreateIdentity_Set fastReflection_MsgCreateIdentity_Clear
  fastReflection_MsgCreateIdentity_Range
      api_MsgCreateIdentity_unknownFields zero_api_MsgCreateIdentity
proof unfold_locales
  fix m n :: "api_MsgCreateIdentity"
  assume h: "\<forall>fd \<in> set [fd_MsgCreateIdentity_creator, fd_MsgCreateIdentity_cccdId].
      fastReflection_MsgCreateIdentity_Has (Some m) fd = fastReflection_MsgCreateIdentity_Has
          (Some n) fd
      \<and> (fastReflection_MsgCreateIdentity_Has (Some m) fd = Ok True \<longrightarrow>
          fastReflection_MsgCreateIdentity_Get (Some m) fd = fastReflection_MsgCreateIdentity_Get
              (Some n) fd)"
    and u: "api_MsgCreateIdentity_unknownFields m = api_MsgCreateIdentity_unknownFields n"
  have e0: "api_MsgCreateIdentity_Creator m = api_MsgCreateIdentity_Creator n"
    by (rule same_field [OF h, where fd = fd_MsgCreateIdentity_creator and d = "''''" and V =
        "ValueOfString"])
      (simp_all add: api_MsgCreateIdentity_reflect split: if_splits)
  have e1: "api_MsgCreateIdentity_CccdId m = api_MsgCreateIdentity_CccdId n"
    by (rule same_field [OF h, where fd = fd_MsgCreateIdentity_cccdId and d = "''''" and V =
        "ValueOfString"])
      (simp_all add: api_MsgCreateIdentity_reflect split: if_splits)
  from u e0 e1 show "m = n" by simp
next
  fix m :: "api_MsgCreateIdentity" and f :: "field_desc \<Rightarrow> ('a, 'b) pvalue \<Rightarrow> api_MsgCreateIdentity
      \<Rightarrow> (api_MsgCreateIdentity \<times> bool) res" and s
  show "fastReflection_MsgCreateIdentity_Range (Some m) f s = visits (populated
      fastReflection_MsgCreateIdentity_Has fastReflection_MsgCreateIdentity_Get
          m [fd_MsgCreateIdentity_creator, fd_MsgCreateIdentity_cccdId]) f s"
    by (simp add: fastReflection_MsgCreateIdentity_Range_def 
      visits_populated [where has = fastReflection_MsgCreateIdentity_Has and
          get = fastReflection_MsgCreateIdentity_Get, OF api_MsgCreateIdentity_reflect(1,2)] 
      visits_populated [where has = fastReflection_MsgCreateIdentity_Has and
          get = fastReflection_MsgCreateIdentity_Get, OF api_MsgCreateIdentity_reflect(5,6)]
      visits_Nil del: populated.simps)
next
  fix fd :: field_desc and x :: "api_MsgCreateIdentity option" and v
  assume "FullName fd \<notin> FullName ` set [fd_MsgCreateIdentity_creator, fd_MsgCreateIdentity_cccdId]"
  then show "fastReflection_MsgCreateIdentity_Has x fd = Panic \<and>
      fastReflection_MsgCreateIdentity_Get x fd = Panic \<and> fastReflection_MsgCreateIdentity_Set x
          fd v = Panic
      \<and> fastReflection_MsgCreateIdentity_Clear x fd = Panic"
    by (intro conjI api_MsgCreateIdentity_no_field)
next
  fix fd :: field_desc and m n :: "api_MsgCreateIdentity" and v
  assume "fd \<in> set [fd_MsgCreateIdentity_creator, fd_MsgCreateIdentity_cccdId]"
      "fastReflection_MsgCreateIdentity_Has (Some m) fd = Ok True"
          "fastReflection_MsgCreateIdentity_Get (Some m) fd = Ok v"
  then show "\<exists>n'. fastReflection_MsgCreateIdentity_Set (Some n) fd v = Ok n' \<and>
      fastReflection_MsgCreateIdentity_Get (Some n') fd = Ok v \<and>
          fastReflection_MsgCreateIdentity_Has (Some n') fd = Ok True"
    by (fastforce simp: api_MsgCreateIdentity_reflect)
next
  fix fd :: field_desc and n n' :: "api_MsgCreateIdentity" and v
  assume "fd \<in> set [fd_MsgCreateIdentity_creator, fd_MsgCreateIdentity_cccdId]"
      "fastReflection_MsgCreateIdentity_Set (Some n) fd v = Ok n'"
  then have "fd = fd_MsgCreateIdentity_creator \<and> (\<exists>v. n' = n\<lparr>api_MsgCreateIdentity_Creator := v\<rparr>)
      \<or> fd = fd_MsgCreateIdentity_cccdId \<and> (\<exists>v. n' = n\<lparr>api_MsgCreateIdentity_CccdId := v\<rparr>)"
    by (auto simp: api_MsgCreateIdentity_reflect res_simps deref_def split: option.splits; blast)
  then show "api_MsgCreateIdentity_unknownFields n' = api_MsgCreateIdentity_unknownFields n \<and>
      (\<forall>fd' \<in> set [fd_MsgCreateIdentity_creator, fd_MsgCreateIdentity_cccdId]. fd' \<noteq> fd
      \<longrightarrow> fastReflection_MsgCreateIdentity_Has (Some n') fd' = fastReflection_MsgCreateIdentity_Has
          (Some n) fd' \<and> fastReflection_MsgCreateIdentity_Get (Some n') fd' =
              fastReflection_MsgCreateIdentity_Get (Some n) fd')"
    by (auto simp: api_MsgCreateIdentity_reflect)
next
  fix fd :: field_desc and n :: "api_MsgCreateIdentity"
  assume "fd \<in> set [fd_MsgCreateIdentity_creator, fd_MsgCreateIdentity_cccdId]"
  then obtain n' where c: "fastReflection_MsgCreateIdentity_Clear (Some n) fd = Ok n'"
      "fd = fd_MsgCreateIdentity_creator \<and> n' = n\<lparr>api_MsgCreateIdentity_Creator := ''''\<rparr>
      \<or> fd = fd_MsgCreateIdentity_cccdId \<and> n' = n\<lparr>api_MsgCreateIdentity_CccdId := ''''\<rparr>"
    by (auto simp: api_MsgCreateIdentity_reflect)
  then have "fastReflection_MsgCreateIdentity_Has (Some n') fd = Ok False \<and>
      api_MsgCreateIdentity_unknownFields n' = api_MsgCreateIdentity_unknownFields n
      \<and> (\<forall>fd' \<in> set [fd_MsgCreateIdentity_creator, fd_MsgCreateIdentity_cccdId]. fd' \<noteq> fd
      \<longrightarrow> fastReflection_MsgCreateIdentity_Has (Some n') fd' = fastReflection_MsgCreateIdentity_Has
          (Some n) fd' \<and> fastReflection_MsgCreateIdentity_Get (Some n') fd' =
              fastReflection_MsgCreateIdentity_Get (Some n) fd')"
    by (auto simp: api_MsgCreateIdentity_reflect)
  with c(1) show "\<exists>n'. fastReflection_MsgCreateIdentity_Clear (Some n) fd = Ok n' \<and>
      fastReflection_MsgCreateIdentity_Has (Some n') fd = Ok False \<and>
          api_MsgCreateIdentity_unknownFields n' = api_MsgCreateIdentity_unknownFields n
      \<and> (\<forall>fd' \<in> set [fd_MsgCreateIdentity_creator, fd_MsgCreateIdentity_cccdId]. fd' \<noteq> fd
      \<longrightarrow> fastReflection_MsgCreateIdentity_Has (Some n') fd' = fastReflection_MsgCreateIdentity_Has
          (Some n) fd' \<and> fastReflection_MsgCreateIdentity_Get (Some n') fd' =
              fastReflection_MsgCreateIdentity_Get (Some n) fd')"
    by blast
qed (use api_MsgCreateIdentity_fds in \<open>auto simp:
    api_MsgCreateIdentity_reflect zero_api_MsgCreateIdentity_def\<close>)


section \<open>MsgCreateIdentityResponse\<close>

record api_MsgCreateIdentityResponse =
  api_MsgCreateIdentityResponse_unknownFields :: bytes

definition zero_api_MsgCreateIdentityResponse :: "api_MsgCreateIdentityResponse" where
  "zero_api_MsgCreateIdentityResponse = \<lparr>api_MsgCreateIdentityResponse_unknownFields = []\<rparr>"

subsection \<open>Size, marshal and unmarshal\<close>

definition fastReflection_MsgCreateIdentityResponse_size :: "pulsar_rt \<Rightarrow>
    api_MsgCreateIdentityResponse option \<Rightarrow> int" where
  "fastReflection_MsgCreateIdentityResponse_size rt = fast_size (\<lambda>x. size_unknown
      (api_MsgCreateIdentityResponse_unknownFields x))"

definition fastReflection_MsgCreateIdentityResponse_marshal ::
    "pulsar_rt \<Rightarrow> (api_MsgCreateIdentityResponse option \<Rightarrow> int) \<Rightarrow> api_MsgCreateIdentityResponse
        option \<Rightarrow> bytes option \<Rightarrow> bytes option res" where
  "fastReflection_MsgCreateIdentityResponse_marshal rt options_Size = fast_marshal options_Size
      (\<lambda>x. put_unknown (api_MsgCreateIdentityResponse_unknownFields x))"

definition fastReflection_MsgCreateIdentityResponse_field :: "pulsar_rt \<Rightarrow> bool \<Rightarrow>
    api_MsgCreateIdentityResponse field_reader" where
  "fastReflection_MsgCreateIdentityResponse_field rt discard d i x =
     bind_res (read_tag ''MsgCreateIdentityResponse'' d i) (\<lambda>(fieldNum, wireType, j).
       bind_res (rt_skip_unknown rt d i) (\<lambda>(s, j).
         Ok (j, x\<lparr>api_MsgCreateIdentityResponse_unknownFields := keep_unknown discard
             (api_MsgCreateIdentityResponse_unknownFields x) s\<rparr>)))"

definition fastReflection_MsgCreateIdentityResponse_unmarshal ::
    "pulsar_rt \<Rightarrow> bool \<Rightarrow> bytes \<Rightarrow> api_MsgCreateIdentityResponse option \<Rightarrow>
        api_MsgCreateIdentityResponse option res" where
  "fastReflection_MsgCreateIdentityResponse_unmarshal rt discard = fast_unmarshal
      (fastReflection_MsgCreateIdentityResponse_field rt discard)"

definition api_MsgCreateIdentityResponse_ops :: "pulsar_rt \<Rightarrow>
    api_MsgCreateIdentityResponse proto_ops" where
  "api_MsgCreateIdentityResponse_ops rt = direct_ops zero_api_MsgCreateIdentityResponse
      (fastReflection_MsgCreateIdentityResponse_size rt)
     (fastReflection_MsgCreateIdentityResponse_marshal rt
         (fastReflection_MsgCreateIdentityResponse_size rt))
             (fastReflection_MsgCreateIdentityResponse_unmarshal rt False)"

definition enc_api_MsgCreateIdentityResponse :: "api_MsgCreateIdentityResponse \<Rightarrow> bytes" where
  "enc_api_MsgCreateIdentityResponse x = api_MsgCreateIdentityResponse_unknownFields x"

definition wf_api_MsgCreateIdentityResponse :: "api_MsgCreateIdentityResponse \<Rightarrow> bool" where
  "wf_api_MsgCreateIdentityResponse x \<longleftrightarrow> fits (enc_api_MsgCreateIdentityResponse x)
     \<and> foreign {} (api_MsgCreateIdentityResponse_unknownFields x)"

context pulsar_runtime
begin

lemma wf_api_MsgCreateIdentityResponseD:
  assumes "wf_api_MsgCreateIdentityResponse x"
  shows "fits (api_MsgCreateIdentityResponse_unknownFields x)"
    and "fits (enc_api_MsgCreateIdentityResponse x)"
    and "foreign {} (api_MsgCreateIdentityResponse_unknownFields x)"
  using assms
  by (auto simp: wf_api_MsgCreateIdentityResponse_def enc_api_MsgCreateIdentityResponse_def
      image_iff intro!: map_idI dest!: fits_appendD bspec dest: fits_enc_str)

lemma api_MsgCreateIdentityResponse_size:
  assumes "wf_api_MsgCreateIdentityResponse x"
  shows "fastReflection_MsgCreateIdentityResponse_size rt (Some x) = int (length
      (enc_api_MsgCreateIdentityResponse x))"
  using wf_api_MsgCreateIdentityResponseD [OF assms] size_unknown_eq [of
      "api_MsgCreateIdentityResponse_unknownFields x"]
  by (simp add: fastReflection_MsgCreateIdentityResponse_size_def
      fast_size_def enc_api_MsgCreateIdentityResponse_def)

lemma api_MsgCreateIdentityResponse_writes:
  assumes "wf_api_MsgCreateIdentityResponse x"
  shows "writes (put_unknown (api_MsgCreateIdentityResponse_unknownFields x))
      (enc_api_MsgCreateIdentityResponse x)"
proof -
  note D = wf_api_MsgCreateIdentityResponseD [OF assms]
  show ?thesis
    unfolding enc_api_MsgCreateIdentityResponse_def append_assoc [symmetric]
    by (intro writes_bind writes_unknown D)
qed

lemma api_MsgCreateIdentityResponse_field_decoder: "field_decoder
    (fastReflection_MsgCreateIdentityResponse_field rt discard)"
  unfolding fastReflection_MsgCreateIdentityResponse_field_def [abs_def]
  by (rule field_decoderI) (intro part_intros; simp)

lemma api_MsgCreateIdentityResponse_reads:
  assumes "wf_api_MsgCreateIdentityResponse x"
  shows "reads (fastReflection_MsgCreateIdentityResponse_field rt False)
      (enc_api_MsgCreateIdentityResponse x) zero_api_MsgCreateIdentityResponse x"
proof -
  let ?f = "fastReflection_MsgCreateIdentityResponse_field rt False"
  note D = wf_api_MsgCreateIdentityResponseD [OF assms]
  have ru: "reads ?f
      (api_MsgCreateIdentityResponse_unknownFields x) zero_api_MsgCreateIdentityResponse
      (zero_api_MsgCreateIdentityResponse\<lparr>api_MsgCreateIdentityResponse_unknownFields :=
          api_MsgCreateIdentityResponse_unknownFields x\<rparr>)"
    using reads_foreign [of _ "api_MsgCreateIdentityResponse_unknownFields x"
        "''MsgCreateIdentityResponse''" ?f
            "\<lambda>w. zero_api_MsgCreateIdentityResponse\<lparr>api_MsgCreateIdentityResponse_unknownFields := w\<rparr>" "[]", OF D(3)]
    by (simp add: fastReflection_MsgCreateIdentityResponse_field_def
        zero_api_MsgCreateIdentityResponse_def keep_unknown_def)
  have "zero_api_MsgCreateIdentityResponse\<lparr>api_MsgCreateIdentityResponse_unknownFields :=
      api_MsgCreateIdentityResponse_unknownFields x\<rparr> = x" by (cases x)
          (simp add: zero_api_MsgCreateIdentityResponse_def)
  with ru show ?thesis by (simp add: enc_api_MsgCreateIdentityResponse_def)
qed

lemma api_MsgCreateIdentityResponse_proto: "proto_methods (api_MsgCreateIdentityResponse_ops rt)
    (enc_api_MsgCreateIdentityResponse)
        (wf_api_MsgCreateIdentityResponse) zero_api_MsgCreateIdentityResponse"
  unfolding api_MsgCreateIdentityResponse_ops_def
      fastReflection_MsgCreateIdentityResponse_size_def
          fastReflection_MsgCreateIdentityResponse_marshal_def fastReflection_MsgCreateIdentityResponse_unmarshal_def
  by (rule direct_methods) (use api_MsgCreateIdentityResponse_size
      api_MsgCreateIdentityResponse_writes
          api_MsgCreateIdentityResponse_reads wf_api_MsgCreateIdentityResponseD(2)
              api_MsgCreateIdentityResponse_field_decoder in
      \<open>simp_all add: fastReflection_MsgCreateIdentityResponse_size_def fast_size_def\<close>)

end

subsection \<open>Reflection\<close>

definition fastReflection_MsgCreateIdentityResponse_Range ::
    "api_MsgCreateIdentityResponse option \<Rightarrow> (field_desc \<Rightarrow> ('msg, 'lst) pvalue \<Rightarrow> 's \<Rightarrow>
        ('s \<times> bool) res) \<Rightarrow> 's \<Rightarrow> 's res" where
  "fastReflection_MsgCreateIdentityResponse_Range x f s = Ok s"

definition fastReflection_MsgCreateIdentityResponse_Has :: "api_MsgCreateIdentityResponse option \<Rightarrow>
    field_desc \<Rightarrow> bool res" where
  "fastReflection_MsgCreateIdentityResponse_Has x fd =
     unknown_field fd"

definition fastReflection_MsgCreateIdentityResponse_Clear :: "api_MsgCreateIdentityResponse option
    \<Rightarrow> field_desc \<Rightarrow> api_MsgCreateIdentityResponse res" where
  "fastReflection_MsgCreateIdentityResponse_Clear x fd =
     unknown_field fd"

definition fastReflection_MsgCreateIdentityResponse_Get :: "api_MsgCreateIdentityResponse option \<Rightarrow>
    field_desc \<Rightarrow> ('msg, 'lst) pvalue res" where
  "fastReflection_MsgCreateIdentityResponse_Get x descriptor =
     unknown_field descriptor"

definition fastReflection_MsgCreateIdentityResponse_Set :: "api_MsgCreateIdentityResponse option \<Rightarrow>
    field_desc \<Rightarrow> ('msg, 'lst) pvalue \<Rightarrow> api_MsgCreateIdentityResponse res" where
  "fastReflection_MsgCreateIdentityResponse_Set x fd value =
     unknown_field fd"

definition fastReflection_MsgCreateIdentityResponse_Mutable ::
    "api_MsgCreateIdentityResponse option \<Rightarrow> field_desc \<Rightarrow> (api_MsgCreateIdentityResponse \<times>
        ('msg, 'lst) pvalue) res" where
  "fastReflection_MsgCreateIdentityResponse_Mutable x fd =
     unknown_field fd"

definition fastReflection_MsgCreateIdentityResponse_NewField :: "field_desc \<Rightarrow> ('msg, 'lst)
    pvalue res" where
  "fastReflection_MsgCreateIdentityResponse_NewField fd =
     unknown_field fd"

definition fastReflection_MsgCreateIdentityResponse_WhichOneof :: "api_MsgCreateIdentityResponse
    option \<Rightarrow> string \<Rightarrow> field_desc res" where
  "fastReflection_MsgCreateIdentityResponse_WhichOneof x d = Panic"

definition fastReflection_MsgCreateIdentityResponse_GetUnknown :: "api_MsgCreateIdentityResponse
    option \<Rightarrow> bytes res" where
  "fastReflection_MsgCreateIdentityResponse_GetUnknown x = deref x (\<lambda>x. Ok
      (api_MsgCreateIdentityResponse_unknownFields x))"

definition fastReflection_MsgCreateIdentityResponse_SetUnknown :: "api_MsgCreateIdentityResponse
    option \<Rightarrow> bytes \<Rightarrow> api_MsgCreateIdentityResponse res" where
  "fastReflection_MsgCreateIdentityResponse_SetUnknown x raw = deref x (\<lambda>x. Ok
      (x\<lparr>api_MsgCreateIdentityResponse_unknownFields := raw\<rparr>))"

definition fastReflection_MsgCreateIdentityResponse_IsValid :: "api_MsgCreateIdentityResponse
    option \<Rightarrow> bool" where
  "fastReflection_MsgCreateIdentityResponse_IsValid x \<longleftrightarrow> x \<noteq> None"

definition fastReflection_MsgCreateIdentityResponse_New ::
    "api_MsgCreateIdentityResponse option" where
  "fastReflection_MsgCreateIdentityResponse_New = Some zero_api_MsgCreateIdentityResponse"

interpretation api_MsgCreateIdentityResponse_message: fast_message "[]"
  fastReflection_MsgCreateIdentityResponse_Has fastReflection_MsgCreateIdentityResponse_Get
      fastReflection_MsgCreateIdentityResponse_Set fastReflection_MsgCreateIdentityResponse_Clear
  fastReflection_MsgCreateIdentityResponse_Range
      api_MsgCreateIdentityResponse_unknownFields zero_api_MsgCreateIdentityResponse
proof unfold_locales
  fix m n :: "api_MsgCreateIdentityResponse"
  assume "api_MsgCreateIdentityResponse_unknownFields m =
      api_MsgCreateIdentityResponse_unknownFields n"
  then show "m = n" by simp
qed (simp_all add: fastReflection_MsgCreateIdentityResponse_Has_def
    fastReflection_MsgCreateIdentityResponse_Get_def
        fastReflection_MsgCreateIdentityResponse_Set_def
            fastReflection_MsgCreateIdentityResponse_Clear_def fastReflection_MsgCreateIdentityResponse_Range_def)

end
