(* ===== verification/PulsarGenesis.thy ===== *)
theory PulsarGenesis
  imports PulsarIdentity
begin

text \<open>
  \<open>api/nexelra/identity/genesis.pulsar.go\<close>: the client's genesis state and its list type.
\<close>

section \<open>GenesisState\<close>

record api_GenesisState =
  api_GenesisState_Params :: "api_Params option"
  api_GenesisState_IdentityList :: "api_Identity option list"
  api_GenesisState_unknownFields :: bytes

definition zero_api_GenesisState :: "api_GenesisState" where
  "zero_api_GenesisState = \<lparr>api_GenesisState_Params = None, api_GenesisState_IdentityList = [],
      api_GenesisState_unknownFields = []\<rparr>"

definition GenesisState_GetParams :: "api_GenesisState option \<Rightarrow> api_Params option" where
  "GenesisState_GetParams x = (case x of None \<Rightarrow> None | Some x \<Rightarrow> api_GenesisState_Params x)"

definition GenesisState_GetIdentityList :: "api_GenesisState option \<Rightarrow> api_Identity
    option list" where
  "GenesisState_GetIdentityList x = (case x of None \<Rightarrow> [] | Some x \<Rightarrow>
      api_GenesisState_IdentityList x)"

subsection \<open>Size, marshal and unmarshal\<close>

definition fastReflection_GenesisState_size :: "pulsar_rt \<Rightarrow> api_Params proto_ops \<Rightarrow> api_Identity
    proto_ops \<Rightarrow> api_GenesisState option \<Rightarrow> int" where
  "fastReflection_GenesisState_size rt Params_ops Identity_ops = fast_size (\<lambda>x. rt_size_opt_msg rt
      Params_ops (api_GenesisState_Params x) + rt_size_msgs rt Identity_ops
          (api_GenesisState_IdentityList x) + size_unknown (api_GenesisState_unknownFields x))"

definition fastReflection_GenesisState_marshal ::
    "pulsar_rt \<Rightarrow> api_Params proto_ops \<Rightarrow> api_Identity proto_ops \<Rightarrow> (api_GenesisState option \<Rightarrow> int) \<Rightarrow>
        api_GenesisState option \<Rightarrow> bytes option \<Rightarrow> bytes option res" where
  "fastReflection_GenesisState_marshal rt Params_ops Identity_ops options_Size = fast_marshal
      options_Size (\<lambda>x. \<lambda>st.
     bind_res (put_unknown (api_GenesisState_unknownFields x) st) (\<lambda>st.
     bind_res (rt_put_msgs rt Identity_ops 0x12 (api_GenesisState_IdentityList x) st)
       (rt_put_opt_msg rt Params_ops 0xa (api_GenesisState_Params x))))"

definition fastReflection_GenesisState_field :: "pulsar_rt \<Rightarrow> api_Params proto_ops \<Rightarrow> api_Identity
    proto_ops \<Rightarrow> bool \<Rightarrow> api_GenesisState field_reader" where
  "fastReflection_GenesisState_field rt Params_ops Identity_ops discard d i x =
     bind_res (read_tag ''GenesisState'' d i) (\<lambda>(fieldNum, wireType, j).
       if fieldNum = 1 then bind_res (read_len ''Params'' wireType d j)
         (\<lambda>(s, j). bind_res (op_Unmarshal Params_ops s (case api_GenesisState_Params x of None \<Rightarrow>
             zero_api_Params | Some p \<Rightarrow> p))
           (\<lambda>p. Ok (j, x\<lparr>api_GenesisState_Params := Some p\<rparr>)))
       else if fieldNum = 2 then bind_res (read_len ''IdentityList'' wireType d j)
         (\<lambda>(s, j). bind_res (op_Unmarshal Identity_ops s zero_api_Identity)
           (\<lambda>p. Ok (j, x\<lparr>api_GenesisState_IdentityList := api_GenesisState_IdentityList x
               @ [Some p]\<rparr>)))
       else bind_res (rt_skip_unknown rt d i) (\<lambda>(s, j).
         Ok (j, x\<lparr>api_GenesisState_unknownFields := keep_unknown discard
             (api_GenesisState_unknownFields x) s\<rparr>)))"

definition fastReflection_GenesisState_unmarshal ::
    "pulsar_rt \<Rightarrow> api_Params proto_ops \<Rightarrow> api_Identity proto_ops \<Rightarrow> bool \<Rightarrow> bytes \<Rightarrow> api_GenesisState
        option \<Rightarrow> api_GenesisState option res" where
  "fastReflection_GenesisState_unmarshal rt Params_ops Identity_ops discard = fast_unmarshal
      (fastReflection_GenesisState_field rt Params_ops Identity_ops discard)"

definition api_GenesisState_ops :: "pulsar_rt \<Rightarrow> api_Params proto_ops \<Rightarrow> api_Identity proto_ops \<Rightarrow>
    api_GenesisState proto_ops" where
  "api_GenesisState_ops rt Params_ops Identity_ops = direct_ops zero_api_GenesisState
      (fastReflection_GenesisState_size rt Params_ops Identity_ops)
     (fastReflection_GenesisState_marshal rt Params_ops Identity_ops
         (fastReflection_GenesisState_size rt Params_ops Identity_ops))
             (fastReflection_GenesisState_unmarshal rt Params_ops Identity_ops False)"

definition enc_api_GenesisState :: "api_GenesisState \<Rightarrow> bytes" where
  "enc_api_GenesisState x = enc_opt_msg 0xa enc_api_Params (api_GenesisState_Params x) @
      enc_msgs 0x12 enc_api_Identity (map the (api_GenesisState_IdentityList x)) @
          api_GenesisState_unknownFields x"

definition wf_api_GenesisState :: "api_GenesisState \<Rightarrow> bool" where
  "wf_api_GenesisState x \<longleftrightarrow> fits (enc_api_GenesisState x)
     \<and> foreign {1, 2} (api_GenesisState_unknownFields x)
     \<and> (\<forall>p. api_GenesisState_Params x = Some p \<longrightarrow> wf_api_Params p)
     \<and> (\<forall>p \<in> set (api_GenesisState_IdentityList x). \<exists>q. p = Some q \<and> wf_api_Identity q)"

locale api_GenesisState_methods =
  Params: pulsar_embedded rt Params_ops enc_api_Params wf_api_Params zero_api_Params +
  Identity: pulsar_embedded rt Identity_ops enc_api_Identity wf_api_Identity zero_api_Identity
  for rt :: pulsar_rt and Params_ops :: "api_Params proto_ops" and Identity_ops ::
      "api_Identity proto_ops"
begin

lemma wf_api_GenesisStateD:
  assumes "wf_api_GenesisState x"
  shows "\<And>p. api_GenesisState_Params x = Some p \<Longrightarrow> wf_api_Params p"
    and "\<forall>p \<in> set (map the (api_GenesisState_IdentityList x)). wf_api_Identity p"
    and "map Some (map the (api_GenesisState_IdentityList x)) = api_GenesisState_IdentityList x"
    and "fits (api_GenesisState_unknownFields x)"
    and "fits (enc_api_GenesisState x)"
    and "foreign {1, 2} (api_GenesisState_unknownFields x)"
  using assms
  by (auto simp: wf_api_GenesisState_def enc_api_GenesisState_def image_iff intro!: map_idI dest!:
      fits_appendD bspec dest: fits_enc_str)

lemma api_GenesisState_size:
  assumes "wf_api_GenesisState x"
  shows "fastReflection_GenesisState_size rt Params_ops Identity_ops (Some x) = int (length
      (enc_api_GenesisState x))"
  using wf_api_GenesisStateD [OF assms] size_unknown_eq [of "api_GenesisState_unknownFields x"]
    Params.size_opt_msg_length [of "api_GenesisState_Params x" "0xa"]
    Identity.size_msgs_length [of "map the (api_GenesisState_IdentityList x)" "0x12"]
  by (simp add: fastReflection_GenesisState_size_def fast_size_def enc_api_GenesisState_def)

lemma api_GenesisState_writes:
  assumes "wf_api_GenesisState x"
  shows "writes (\<lambda>st.
     bind_res (put_unknown (api_GenesisState_unknownFields x) st) (\<lambda>st.
     bind_res (rt_put_msgs rt Identity_ops 0x12 (api_GenesisState_IdentityList x) st)
       (rt_put_opt_msg rt Params_ops 0xa (api_GenesisState_Params x)))) (enc_api_GenesisState x)"
proof -
  note D = wf_api_GenesisStateD [OF assms]
  have l: "writes (rt_put_msgs rt Identity_ops 0x12 (api_GenesisState_IdentityList x))
      (enc_msgs 0x12 enc_api_Identity (map the (api_GenesisState_IdentityList x)))"
    using Identity.put_msgs_writes [of "map the (api_GenesisState_IdentityList x)" "0x12"] D by simp
  show ?thesis
    unfolding enc_api_GenesisState_def append_assoc [symmetric]
    by (intro writes_bind writes_unknown Params.put_opt_msg_writes l D)
qed

lemma api_GenesisState_field_decoder: "field_decoder (fastReflection_GenesisState_field rt
    Params_ops Identity_ops discard)"
  unfolding fastReflection_GenesisState_field_def [abs_def]
  by (rule field_decoderI) (intro
      part_intros Params.op_total Identity.op_total Params.part_skip_rt; simp)

lemma api_GenesisState_reads:
  assumes "wf_api_GenesisState x"
  shows "reads (fastReflection_GenesisState_field rt Params_ops Identity_ops False)
      (enc_api_GenesisState x) zero_api_GenesisState x"
proof -
  let ?f = "fastReflection_GenesisState_field rt Params_ops Identity_ops False"
  note D = wf_api_GenesisStateD [OF assms]
  let ?s1 = "zero_api_GenesisState\<lparr>api_GenesisState_Params := api_GenesisState_Params x\<rparr>"
  let ?s2 = "?s1\<lparr>api_GenesisState_IdentityList := api_GenesisState_IdentityList x\<rparr>"
  have r0: "reads ?f (enc_opt_msg 0xa enc_api_Params
      (api_GenesisState_Params x)) zero_api_GenesisState
      ?s1"
    using D by (intro reads_opt_msg reads_one_len [where t = "0xa" and name = "''GenesisState''"
        and f = "''Params''"])
      (simp_all add: fastReflection_GenesisState_field_def
          zero_api_GenesisState_def Params.op_unmarshal)
  let ?st = "\<lambda>ps. ?s1\<lparr>api_GenesisState_IdentityList := map Some ps\<rparr>"
  have "reads ?f (enc_msgs 0x12 enc_api_Identity (map the (api_GenesisState_IdentityList x)))
      (?st []) (?st ([] @ map the (api_GenesisState_IdentityList x)))"
  proof (rule reads_msgs [where st = ?st])
    fix p ps assume "p \<in> set (map the (api_GenesisState_IdentityList x))"
    then have "wf_api_Identity p" using D by blast
    then show "reads_one ?f (enc_len 0x12 (enc_api_Identity p)) (?st ps) (?st (ps @ [p]))"
      by (intro reads_one_len [where t = "0x12" and name = "''GenesisState''" and f =
          "''IdentityList''"])
        (simp_all add: fastReflection_GenesisState_field_def
            zero_api_GenesisState_def Identity.op_unmarshal)
  qed
  then have r1: "reads ?f (enc_msgs 0x12 enc_api_Identity (map the
      (api_GenesisState_IdentityList x))) ?s1 ?s2"
    using D by (simp add: zero_api_GenesisState_def)
  have ru: "reads ?f (api_GenesisState_unknownFields x) ?s2
      (?s2\<lparr>api_GenesisState_unknownFields := api_GenesisState_unknownFields x\<rparr>)"
    using Params.reads_foreign [of _ "api_GenesisState_unknownFields x" "''GenesisState''" ?f
        "\<lambda>w. ?s2\<lparr>api_GenesisState_unknownFields := w\<rparr>" "[]", OF D(6)]
    by (simp add: fastReflection_GenesisState_field_def zero_api_GenesisState_def keep_unknown_def)
  have "?s2\<lparr>api_GenesisState_unknownFields := api_GenesisState_unknownFields x\<rparr> = x" by (cases x)
      (simp add: zero_api_GenesisState_def)
  with ru have "reads ?f (api_GenesisState_unknownFields x) ?s2 x" by simp
  then show ?thesis
    unfolding enc_api_GenesisState_def by (intro reads_append [OF r0] reads_append [OF r1])
qed

lemma api_GenesisState_proto: "proto_methods (api_GenesisState_ops rt Params_ops Identity_ops)
    (enc_api_GenesisState) (wf_api_GenesisState) zero_api_GenesisState"
  unfolding api_GenesisState_ops_def fastReflection_GenesisState_size_def
      fastReflection_GenesisState_marshal_def fastReflection_GenesisState_unmarshal_def
  by (rule direct_methods) (use api_GenesisState_size api_GenesisState_writes
      api_GenesisState_reads wf_api_GenesisStateD(5) api_GenesisState_field_decoder in
      \<open>simp_all add: fastReflection_GenesisState_size_def fast_size_def\<close>)

end

interpretation api_GenesisState_direct: api_GenesisState_methods gogo_rt "api_Params_ops gogo_rt"
    "api_Identity_ops gogo_rt"
  by (intro api_GenesisState_methods.intro)
    (simp_all add: api_Params_direct.pulsar_embedded_axioms api_Identity_direct.pulsar_embedded_axioms
      api_Identity_ops_New)

subsection \<open>Reflection\<close>

definition fd_GenesisState_params :: field_desc where
  "fd_GenesisState_params = \<lparr>FullName = ''nexelra.identity.GenesisState.params'',
      IsExtension = False\<rparr>"

definition fd_GenesisState_identityList :: field_desc where
  "fd_GenesisState_identityList = \<lparr>FullName = ''nexelra.identity.GenesisState.identityList'',
      IsExtension = False\<rparr>"

definition fastReflection_GenesisState_Range ::
    "api_GenesisState option \<Rightarrow> (field_desc \<Rightarrow> ('q, 'r) api_value \<Rightarrow> 's \<Rightarrow> ('s \<times> bool) res) \<Rightarrow> 's
        \<Rightarrow> 's res" where
  "fastReflection_GenesisState_Range x f s = deref x (\<lambda>x.
     visit (api_GenesisState_Params x \<noteq> None) fd_GenesisState_params (ValueOfMessage (PtrParams
         (api_GenesisState_Params x))) f s (\<lambda>s.
     visit (api_GenesisState_IdentityList x \<noteq> []) fd_GenesisState_identityList (ValueOfList
         (GenesisState_2_list (Some (api_GenesisState_IdentityList x)))) f s (\<lambda>s. Ok s)))"

definition fastReflection_GenesisState_Has :: "api_GenesisState option \<Rightarrow> field_desc \<Rightarrow>
    bool res" where
  "fastReflection_GenesisState_Has x fd =
     (if FullName fd = ''nexelra.identity.GenesisState.params'' then deref x (\<lambda>x. Ok
         (api_GenesisState_Params x \<noteq> None))
      else if FullName fd = ''nexelra.identity.GenesisState.identityList'' then deref x (\<lambda>x. Ok
          (api_GenesisState_IdentityList x \<noteq> []))
      else unknown_field fd)"

definition fastReflection_GenesisState_Clear :: "api_GenesisState option \<Rightarrow> field_desc \<Rightarrow>
    api_GenesisState res" where
  "fastReflection_GenesisState_Clear x fd =
     (if FullName fd = ''nexelra.identity.GenesisState.params'' then deref x (\<lambda>x. Ok
         (x\<lparr>api_GenesisState_Params := None\<rparr>))
      else if FullName fd = ''nexelra.identity.GenesisState.identityList'' then deref x (\<lambda>x. Ok
          (x\<lparr>api_GenesisState_IdentityList := []\<rparr>))
      else unknown_field fd)"

definition fastReflection_GenesisState_Get :: "api_GenesisState option \<Rightarrow> field_desc \<Rightarrow> ('q, 'r)
    api_value res" where
  "fastReflection_GenesisState_Get x descriptor =
     (if FullName descriptor = ''nexelra.identity.GenesisState.params'' then deref x (\<lambda>x. Ok
         (ValueOfMessage (PtrParams (api_GenesisState_Params x))))
      else if FullName descriptor = ''nexelra.identity.GenesisState.identityList'' then deref x (\<lambda>x.
          if api_GenesisState_IdentityList x = [] then Ok (ValueOfList (GenesisState_2_list None))
              else Ok (ValueOfList (GenesisState_2_list (Some (api_GenesisState_IdentityList x)))))
      else unknown_field descriptor)"

definition fastReflection_GenesisState_Set :: "api_GenesisState option \<Rightarrow> field_desc \<Rightarrow> ('q, 'r)
    api_value \<Rightarrow> api_GenesisState res" where
  "fastReflection_GenesisState_Set x fd value =
     (if FullName fd = ''nexelra.identity.GenesisState.params'' then deref x (\<lambda>x.
          bind_res (message_value value) (\<lambda>v. bind_res (as_Params v) (\<lambda>v. Ok
              (x\<lparr>api_GenesisState_Params := v\<rparr>))))
      else if FullName fd = ''nexelra.identity.GenesisState.identityList'' then deref x (\<lambda>x.
          bind_res (list_value value) (\<lambda>lv. bind_res (as_GenesisState_2_list lv) (\<lambda>clv.
          deref clv (\<lambda>xs. Ok (x\<lparr>api_GenesisState_IdentityList := xs\<rparr>)))))
      else unknown_field fd)"

definition fastReflection_GenesisState_Mutable ::
    "api_GenesisState option \<Rightarrow> field_desc \<Rightarrow> (api_GenesisState \<times> ('q, 'r) api_value) res" where
  "fastReflection_GenesisState_Mutable x fd =
     (if FullName fd = ''nexelra.identity.GenesisState.params'' then deref x (\<lambda>x.
          let x = (if api_GenesisState_Params x = None then x\<lparr>api_GenesisState_Params :=
              Some zero_api_Params\<rparr> else x)
          in Ok (x, ValueOfMessage (PtrParams (api_GenesisState_Params x))))
      else if FullName fd = ''nexelra.identity.GenesisState.identityList'' then deref x (\<lambda>x. Ok
          (x, ValueOfList (GenesisState_2_list (Some (api_GenesisState_IdentityList x)))))
      else unknown_field fd)"

definition fastReflection_GenesisState_NewField :: "field_desc \<Rightarrow> ('q, 'r) api_value res" where
  "fastReflection_GenesisState_NewField fd =
     (if FullName fd = ''nexelra.identity.GenesisState.params'' then Ok (ValueOfMessage (PtrParams
         (Some zero_api_Params)))
      else if FullName fd = ''nexelra.identity.GenesisState.identityList'' then Ok (ValueOfList
          (GenesisState_2_list (Some [])))
      else unknown_field fd)"

definition fastReflection_GenesisState_WhichOneof :: "api_GenesisState option \<Rightarrow> string \<Rightarrow>
    field_desc res" where
  "fastReflection_GenesisState_WhichOneof x d = Panic"

definition fastReflection_GenesisState_GetUnknown :: "api_GenesisState option \<Rightarrow> bytes res" where
  "fastReflection_GenesisState_GetUnknown x = deref x (\<lambda>x. Ok (api_GenesisState_unknownFields x))"

definition fastReflection_GenesisState_SetUnknown :: "api_GenesisState option \<Rightarrow> bytes \<Rightarrow>
    api_GenesisState res" where
  "fastReflection_GenesisState_SetUnknown x raw = deref x (\<lambda>x. Ok
      (x\<lparr>api_GenesisState_unknownFields := raw\<rparr>))"

definition fastReflection_GenesisState_IsValid :: "api_GenesisState option \<Rightarrow> bool" where
  "fastReflection_GenesisState_IsValid x \<longleftrightarrow> x \<noteq> None"

definition fastReflection_GenesisState_New :: "api_GenesisState option" where
  "fastReflection_GenesisState_New = Some zero_api_GenesisState"

lemma api_GenesisState_reflect:
  "fastReflection_GenesisState_Has (Some x) fd_GenesisState_params = Ok (api_GenesisState_Params
      x \<noteq> None)"
  "fastReflection_GenesisState_Get (Some x) fd_GenesisState_params = Ok (ValueOfMessage (PtrParams
      (api_GenesisState_Params x)))"
  "fastReflection_GenesisState_Clear (Some x) fd_GenesisState_params = Ok
      (x\<lparr>api_GenesisState_Params := None\<rparr>)"
  "fastReflection_GenesisState_Set (Some x) fd_GenesisState_params value =
      bind_res (message_value value) (\<lambda>v. bind_res (as_Params v) (\<lambda>v. Ok
          (x\<lparr>api_GenesisState_Params := v\<rparr>)))"
  "fastReflection_GenesisState_Has (Some x) fd_GenesisState_identityList = Ok
      (api_GenesisState_IdentityList x \<noteq> [])"
  "fastReflection_GenesisState_Get (Some x) fd_GenesisState_identityList =
      Ok (if api_GenesisState_IdentityList x = [] then ValueOfList (GenesisState_2_list None) else
          ValueOfList (GenesisState_2_list (Some (api_GenesisState_IdentityList x))))"
  "fastReflection_GenesisState_Clear (Some x) fd_GenesisState_identityList = Ok
      (x\<lparr>api_GenesisState_IdentityList := []\<rparr>)"
  "fastReflection_GenesisState_Set (Some x) fd_GenesisState_identityList value =
      bind_res (list_value value) (\<lambda>lv. bind_res (as_GenesisState_2_list lv)
        (\<lambda>clv. deref clv (\<lambda>xs. Ok (x\<lparr>api_GenesisState_IdentityList := xs\<rparr>))))"
  by (simp_all add: fastReflection_GenesisState_Has_def fastReflection_GenesisState_Get_def
      fastReflection_GenesisState_Clear_def fastReflection_GenesisState_Set_def
          fd_GenesisState_params_def fd_GenesisState_identityList_def)

lemma api_GenesisState_no_field:
  assumes "FullName fd \<notin> FullName ` set [fd_GenesisState_params, fd_GenesisState_identityList]"
  shows "fastReflection_GenesisState_Has x fd = Panic" "fastReflection_GenesisState_Get x
      fd = Panic" "fastReflection_GenesisState_Set x fd value = Panic"
          "fastReflection_GenesisState_Clear x fd = Panic"
  using assms by (simp_all add: fastReflection_GenesisState_Has_def
      fastReflection_GenesisState_Get_def fastReflection_GenesisState_Clear_def
          fastReflection_GenesisState_Set_def
              fd_GenesisState_params_def fd_GenesisState_identityList_def)

lemma api_GenesisState_fds: "distinct (map
    FullName [fd_GenesisState_params, fd_GenesisState_identityList])"
        "distinct [fd_GenesisState_params, fd_GenesisState_identityList]"
  by (simp_all add: fd_GenesisState_params_def fd_GenesisState_identityList_def)

interpretation api_GenesisState_message: fast_message
    "[fd_GenesisState_params, fd_GenesisState_identityList]"
  fastReflection_GenesisState_Has fastReflection_GenesisState_Get
      fastReflection_GenesisState_Set fastReflection_GenesisState_Clear
  fastReflection_GenesisState_Range api_GenesisState_unknownFields zero_api_GenesisState
proof unfold_locales
  fix m n :: "api_GenesisState"
  assume h: "\<forall>fd \<in> set [fd_GenesisState_params, fd_GenesisState_identityList].
      fastReflection_GenesisState_Has (Some m) fd = fastReflection_GenesisState_Has (Some n) fd
      \<and> (fastReflection_GenesisState_Has (Some m) fd = Ok True \<longrightarrow> fastReflection_GenesisState_Get
          (Some m) fd = fastReflection_GenesisState_Get (Some n) fd)"
    and u: "api_GenesisState_unknownFields m = api_GenesisState_unknownFields n"
  have e0: "api_GenesisState_Params m = api_GenesisState_Params n"
    by (rule same_field [OF h, where fd = fd_GenesisState_params and d = "None" and V = "\<lambda>v.
        ValueOfMessage (PtrParams v)"])
      (simp_all add: api_GenesisState_reflect split: if_splits)
  have e1: "api_GenesisState_IdentityList m = api_GenesisState_IdentityList n"
    by (rule same_field [OF h, where fd = fd_GenesisState_identityList and d = "[]" and V = "\<lambda>v.
        if v = [] then ValueOfList (GenesisState_2_list None) else ValueOfList
            (GenesisState_2_list (Some v))"])
      (simp_all add: api_GenesisState_reflect split: if_splits)
  from u e0 e1 show "m = n" by simp
next
  fix m :: "api_GenesisState" and f :: "field_desc \<Rightarrow> ('q, 'r) api_value \<Rightarrow> api_GenesisState \<Rightarrow>
      (api_GenesisState \<times> bool) res" and s
  show "fastReflection_GenesisState_Range (Some m) f s = visits (populated
      fastReflection_GenesisState_Has fastReflection_GenesisState_Get
          m [fd_GenesisState_params, fd_GenesisState_identityList]) f s"
    by (cases "api_GenesisState_IdentityList m = []"; simp add:
        fastReflection_GenesisState_Range_def 
      visits_populated [where has = fastReflection_GenesisState_Has and
          get = fastReflection_GenesisState_Get, OF api_GenesisState_reflect(1,2)] 
      visits_populated [where has = fastReflection_GenesisState_Has and
          get = fastReflection_GenesisState_Get, OF api_GenesisState_reflect(5,6)]
      visits_Nil del: populated.simps)
next
  fix fd :: field_desc and x :: "api_GenesisState option" and v
  assume "FullName fd \<notin> FullName ` set [fd_GenesisState_params, fd_GenesisState_identityList]"
  then show "fastReflection_GenesisState_Has x fd = Panic \<and> fastReflection_GenesisState_Get x fd =
      Panic \<and> fastReflection_GenesisState_Set x fd v = Panic
      \<and> fastReflection_GenesisState_Clear x fd = Panic"
    by (intro conjI api_GenesisState_no_field)
next
  fix fd :: field_desc and m n :: "api_GenesisState" and v
  assume "fd \<in> set [fd_GenesisState_params, fd_GenesisState_identityList]"
      "fastReflection_GenesisState_Has (Some m) fd = Ok True" "fastReflection_GenesisState_Get
          (Some m) fd = Ok v"
  then show "\<exists>n'. fastReflection_GenesisState_Set (Some n) fd v = Ok n' \<and>
      fastReflection_GenesisState_Get (Some n') fd = Ok v \<and> fastReflection_GenesisState_Has
          (Some n') fd = Ok True"
    by (fastforce simp: api_GenesisState_reflect)
next
  fix fd :: field_desc and n n' :: "api_GenesisState" and v
  assume "fd \<in> set [fd_GenesisState_params, fd_GenesisState_identityList]"
      "fastReflection_GenesisState_Set (Some n) fd v = Ok n'"
  then have "fd = fd_GenesisState_params \<and> (\<exists>v. n' = n\<lparr>api_GenesisState_Params := v\<rparr>)
      \<or> fd = fd_GenesisState_identityList \<and> (\<exists>v. n' = n\<lparr>api_GenesisState_IdentityList := v\<rparr>)"
    by (auto simp: api_GenesisState_reflect res_simps deref_def split: option.splits; blast)
  then show "api_GenesisState_unknownFields n' = api_GenesisState_unknownFields n \<and> (\<forall>fd' \<in>
      set [fd_GenesisState_params, fd_GenesisState_identityList]. fd' \<noteq> fd
      \<longrightarrow> fastReflection_GenesisState_Has (Some n') fd' = fastReflection_GenesisState_Has
          (Some n) fd' \<and> fastReflection_GenesisState_Get (Some n') fd' =
              fastReflection_GenesisState_Get (Some n) fd')"
    by (auto simp: api_GenesisState_reflect)
next
  fix fd :: field_desc and n :: "api_GenesisState"
  assume "fd \<in> set [fd_GenesisState_params, fd_GenesisState_identityList]"
  then obtain n' where c: "fastReflection_GenesisState_Clear (Some n) fd = Ok n'"
      "fd = fd_GenesisState_params \<and> n' = n\<lparr>api_GenesisState_Params := None\<rparr>
      \<or> fd = fd_GenesisState_identityList \<and> n' = n\<lparr>api_GenesisState_IdentityList := []\<rparr>"
    by (auto simp: api_GenesisState_reflect)
  then have "fastReflection_GenesisState_Has (Some n') fd = Ok False \<and>
      api_GenesisState_unknownFields n' = api_GenesisState_unknownFields n
      \<and> (\<forall>fd' \<in> set [fd_GenesisState_params, fd_GenesisState_identityList]. fd' \<noteq> fd
      \<longrightarrow> fastReflection_GenesisState_Has (Some n') fd' = fastReflection_GenesisState_Has
          (Some n) fd' \<and> fastReflection_GenesisState_Get (Some n') fd' =
              fastReflection_GenesisState_Get (Some n) fd')"
    by (auto simp: api_GenesisState_reflect)
  with c(1) show "\<exists>n'. fastReflection_GenesisState_Clear (Some n) fd = Ok n' \<and>
      fastReflection_GenesisState_Has (Some n') fd = Ok False \<and>
          api_GenesisState_unknownFields n' = api_GenesisState_unknownFields n
      \<and> (\<forall>fd' \<in> set [fd_GenesisState_params, fd_GenesisState_identityList]. fd' \<noteq> fd
      \<longrightarrow> fastReflection_GenesisState_Has (Some n') fd' = fastReflection_GenesisState_Has
          (Some n) fd' \<and> fastReflection_GenesisState_Get (Some n') fd' =
              fastReflection_GenesisState_Get (Some n) fd')"
    by blast
qed (use api_GenesisState_fds in \<open>auto simp: api_GenesisState_reflect zero_api_GenesisState_def\<close>)

subsection \<open>The list type of \<open>GenesisState.IdentityList\<close>\<close>

definition GenesisState_2_list_Len :: "api_Identity list_ptr \<Rightarrow> int" where
  "GenesisState_2_list_Len x = list_Len x"

definition GenesisState_2_list_Get :: "api_Identity list_ptr \<Rightarrow> int \<Rightarrow> ('q, 'r) api_value res" where
  "GenesisState_2_list_Get x i = bind_res (list_Get x i) (\<lambda>e. Ok (ValueOfMessage (PtrIdentity e)))"

definition GenesisState_2_list_Set :: "api_Identity list_ptr \<Rightarrow> int \<Rightarrow> ('q, 'r) api_value \<Rightarrow>
    api_Identity list_ptr res" where
  "GenesisState_2_list_Set x i value =
     bind_res (message_value value) (\<lambda>v. bind_res (as_Identity v) (\<lambda>concreteValue. list_Set x
         i concreteValue))"

definition GenesisState_2_list_Append :: "api_Identity list_ptr \<Rightarrow> ('q, 'r) api_value \<Rightarrow>
    api_Identity list_ptr res" where
  "GenesisState_2_list_Append x value =
     bind_res (message_value value) (\<lambda>v. bind_res (as_Identity v) (\<lambda>concreteValue. list_Append
         x concreteValue))"

definition GenesisState_2_list_AppendMutable :: "api_Identity list_ptr \<Rightarrow> (api_Identity list_ptr \<times>
    ('q, 'r) api_value) res" where
  "GenesisState_2_list_AppendMutable x =
     (let v = Some zero_api_Identity in bind_res (list_Append x v) (\<lambda>x. Ok (x, ValueOfMessage
         (PtrIdentity v))))"

definition GenesisState_2_list_Truncate :: "api_Identity list_ptr \<Rightarrow> api_Identity option list \<Rightarrow> int
    \<Rightarrow> api_Identity list_ptr res" where
  "GenesisState_2_list_Truncate x spare n = list_Truncate x spare n"

definition GenesisState_2_list_NewElement :: "('q, 'r) api_value" where
  "GenesisState_2_list_NewElement = ValueOfMessage (PtrIdentity (Some zero_api_Identity))"

definition GenesisState_2_list_IsValid :: "api_Identity list_ptr \<Rightarrow> bool" where
  "GenesisState_2_list_IsValid x \<longleftrightarrow> x \<noteq> None"

interpretation GenesisState_2_list: fast_list GenesisState_2_list_Len GenesisState_2_list_Get
    GenesisState_2_list_Set GenesisState_2_list_Append
  "\<lambda>x. GenesisState_2_list_Truncate x spare" GenesisState_2_list_IsValid
      Identity_values is_Identity_value
  unfolding GenesisState_2_list_Len_def [abs_def] GenesisState_2_list_Get_def [abs_def]
      GenesisState_2_list_Set_def [abs_def] GenesisState_2_list_Append_def [abs_def]
    GenesisState_2_list_Truncate_def [abs_def] GenesisState_2_list_IsValid_def [abs_def]
  by (rule Identity_list_contract)

end
