(* ===== verification/PulsarQuery.thy ===== *)
theory PulsarQuery
  imports PulsarIdentity
begin

text \<open>
  \<open>api/nexelra/identity/query.pulsar.go\<close>, first half: the messages of \<open>Params\<close> and \<open>Identity\<close>.
\<close>

section \<open>QueryParamsRequest\<close>

record api_QueryParamsRequest =
  api_QueryParamsRequest_unknownFields :: bytes

definition zero_api_QueryParamsRequest :: "api_QueryParamsRequest" where
  "zero_api_QueryParamsRequest = \<lparr>api_QueryParamsRequest_unknownFields = []\<rparr>"

subsection \<open>Size, marshal and unmarshal\<close>

definition fastReflection_QueryParamsRequest_size :: "pulsar_rt \<Rightarrow> api_QueryParamsRequest option
    \<Rightarrow> int" where
  "fastReflection_QueryParamsRequest_size rt = fast_size (\<lambda>x. size_unknown
      (api_QueryParamsRequest_unknownFields x))"

definition fastReflection_QueryParamsRequest_marshal ::
    "pulsar_rt \<Rightarrow> (api_QueryParamsRequest option \<Rightarrow> int) \<Rightarrow> api_QueryParamsRequest option \<Rightarrow> bytes
        option \<Rightarrow> bytes option res" where
  "fastReflection_QueryParamsRequest_marshal rt options_Size = fast_marshal options_Size (\<lambda>x.
      put_unknown (api_QueryParamsRequest_unknownFields x))"

definition fastReflection_QueryParamsRequest_field :: "pulsar_rt \<Rightarrow> bool \<Rightarrow>
    api_QueryParamsRequest field_reader" where
  "fastReflection_QueryParamsRequest_field rt discard d i x =
     bind_res (read_tag ''QueryParamsRequest'' d i) (\<lambda>(fieldNum, wireType, j).
       bind_res (rt_skip_unknown rt d i) (\<lambda>(s, j).
         Ok (j, x\<lparr>api_QueryParamsRequest_unknownFields := keep_unknown discard
             (api_QueryParamsRequest_unknownFields x) s\<rparr>)))"

definition fastReflection_QueryParamsRequest_unmarshal ::
    "pulsar_rt \<Rightarrow> bool \<Rightarrow> bytes \<Rightarrow> api_QueryParamsRequest option \<Rightarrow> api_QueryParamsRequest
        option res" where
  "fastReflection_QueryParamsRequest_unmarshal rt discard = fast_unmarshal
      (fastReflection_QueryParamsRequest_field rt discard)"

definition api_QueryParamsRequest_ops :: "pulsar_rt \<Rightarrow> api_QueryParamsRequest proto_ops" where
  "api_QueryParamsRequest_ops rt = direct_ops zero_api_QueryParamsRequest
      (fastReflection_QueryParamsRequest_size rt)
     (fastReflection_QueryParamsRequest_marshal rt (fastReflection_QueryParamsRequest_size rt))
         (fastReflection_QueryParamsRequest_unmarshal rt False)"

definition enc_api_QueryParamsRequest :: "api_QueryParamsRequest \<Rightarrow> bytes" where
  "enc_api_QueryParamsRequest x = api_QueryParamsRequest_unknownFields x"

definition wf_api_QueryParamsRequest :: "api_QueryParamsRequest \<Rightarrow> bool" where
  "wf_api_QueryParamsRequest x \<longleftrightarrow> fits (enc_api_QueryParamsRequest x)
     \<and> foreign {} (api_QueryParamsRequest_unknownFields x)"

context pulsar_runtime
begin

lemma wf_api_QueryParamsRequestD:
  assumes "wf_api_QueryParamsRequest x"
  shows "fits (api_QueryParamsRequest_unknownFields x)"
    and "fits (enc_api_QueryParamsRequest x)"
    and "foreign {} (api_QueryParamsRequest_unknownFields x)"
  using assms
  by (auto simp: wf_api_QueryParamsRequest_def enc_api_QueryParamsRequest_def image_iff intro!:
      map_idI dest!: fits_appendD bspec dest: fits_enc_str)

lemma api_QueryParamsRequest_size:
  assumes "wf_api_QueryParamsRequest x"
  shows "fastReflection_QueryParamsRequest_size rt (Some x) = int (length
      (enc_api_QueryParamsRequest x))"
  using wf_api_QueryParamsRequestD [OF assms] size_unknown_eq [of
      "api_QueryParamsRequest_unknownFields x"]
  by (simp add: fastReflection_QueryParamsRequest_size_def
      fast_size_def enc_api_QueryParamsRequest_def)

lemma api_QueryParamsRequest_writes:
  assumes "wf_api_QueryParamsRequest x"
  shows "writes (put_unknown (api_QueryParamsRequest_unknownFields x))
      (enc_api_QueryParamsRequest x)"
proof -
  note D = wf_api_QueryParamsRequestD [OF assms]
  show ?thesis
    unfolding enc_api_QueryParamsRequest_def append_assoc [symmetric]
    by (intro writes_bind writes_unknown D)
qed

lemma api_QueryParamsRequest_field_decoder: "field_decoder
    (fastReflection_QueryParamsRequest_field rt discard)"
  unfolding fastReflection_QueryParamsRequest_field_def [abs_def]
  by (rule field_decoderI) (intro part_intros; simp)

lemma api_QueryParamsRequest_reads:
  assumes "wf_api_QueryParamsRequest x"
  shows "reads (fastReflection_QueryParamsRequest_field rt False) (enc_api_QueryParamsRequest x)
      zero_api_QueryParamsRequest x"
proof -
  let ?f = "fastReflection_QueryParamsRequest_field rt False"
  note D = wf_api_QueryParamsRequestD [OF assms]
  have ru: "reads ?f (api_QueryParamsRequest_unknownFields x) zero_api_QueryParamsRequest
      (zero_api_QueryParamsRequest\<lparr>api_QueryParamsRequest_unknownFields :=
          api_QueryParamsRequest_unknownFields x\<rparr>)"
    using reads_foreign [of _ "api_QueryParamsRequest_unknownFields x" "''QueryParamsRequest''" ?f
        "\<lambda>w. zero_api_QueryParamsRequest\<lparr>api_QueryParamsRequest_unknownFields := w\<rparr>" "[]", OF D(3)]
    by (simp add: fastReflection_QueryParamsRequest_field_def
        zero_api_QueryParamsRequest_def keep_unknown_def)
  have "zero_api_QueryParamsRequest\<lparr>api_QueryParamsRequest_unknownFields :=
      api_QueryParamsRequest_unknownFields x\<rparr> = x" by (cases x)
          (simp add: zero_api_QueryParamsRequest_def)
  with ru show ?thesis by (simp add: enc_api_QueryParamsRequest_def)
qed

lemma api_QueryParamsRequest_proto: "proto_methods (api_QueryParamsRequest_ops rt)
    (enc_api_QueryParamsRequest) (wf_api_QueryParamsRequest) zero_api_QueryParamsRequest"
  unfolding api_QueryParamsRequest_ops_def fastReflection_QueryParamsRequest_size_def
      fastReflection_QueryParamsRequest_marshal_def fastReflection_QueryParamsRequest_unmarshal_def
  by (rule direct_methods) (use api_QueryParamsRequest_size api_QueryParamsRequest_writes
      api_QueryParamsRequest_reads wf_api_QueryParamsRequestD(2)
          api_QueryParamsRequest_field_decoder in
      \<open>simp_all add: fastReflection_QueryParamsRequest_size_def fast_size_def\<close>)

end

subsection \<open>Reflection\<close>

definition fastReflection_QueryParamsRequest_Range ::
    "api_QueryParamsRequest option \<Rightarrow> (field_desc \<Rightarrow> ('msg, 'lst) pvalue \<Rightarrow> 's \<Rightarrow> ('s \<times> bool) res)
        \<Rightarrow> 's \<Rightarrow> 's res" where
  "fastReflection_QueryParamsRequest_Range x f s = Ok s"

definition fastReflection_QueryParamsRequest_Has :: "api_QueryParamsRequest option \<Rightarrow> field_desc \<Rightarrow>
    bool res" where
  "fastReflection_QueryParamsRequest_Has x fd =
     unknown_field fd"

definition fastReflection_QueryParamsRequest_Clear :: "api_QueryParamsRequest option \<Rightarrow> field_desc
    \<Rightarrow> api_QueryParamsRequest res" where
  "fastReflection_QueryParamsRequest_Clear x fd =
     unknown_field fd"

definition fastReflection_QueryParamsRequest_Get :: "api_QueryParamsRequest option \<Rightarrow> field_desc \<Rightarrow>
    ('msg, 'lst) pvalue res" where
  "fastReflection_QueryParamsRequest_Get x descriptor =
     unknown_field descriptor"

definition fastReflection_QueryParamsRequest_Set :: "api_QueryParamsRequest option \<Rightarrow> field_desc \<Rightarrow>
    ('msg, 'lst) pvalue \<Rightarrow> api_QueryParamsRequest res" where
  "fastReflection_QueryParamsRequest_Set x fd value =
     unknown_field fd"

definition fastReflection_QueryParamsRequest_Mutable ::
    "api_QueryParamsRequest option \<Rightarrow> field_desc \<Rightarrow> (api_QueryParamsRequest \<times>
        ('msg, 'lst) pvalue) res" where
  "fastReflection_QueryParamsRequest_Mutable x fd =
     unknown_field fd"

definition fastReflection_QueryParamsRequest_NewField :: "field_desc \<Rightarrow> ('msg, 'lst)
    pvalue res" where
  "fastReflection_QueryParamsRequest_NewField fd =
     unknown_field fd"

definition fastReflection_QueryParamsRequest_WhichOneof :: "api_QueryParamsRequest option \<Rightarrow> string
    \<Rightarrow> field_desc res" where
  "fastReflection_QueryParamsRequest_WhichOneof x d = Panic"

definition fastReflection_QueryParamsRequest_GetUnknown :: "api_QueryParamsRequest option \<Rightarrow>
    bytes res" where
  "fastReflection_QueryParamsRequest_GetUnknown x = deref x (\<lambda>x. Ok
      (api_QueryParamsRequest_unknownFields x))"

definition fastReflection_QueryParamsRequest_SetUnknown :: "api_QueryParamsRequest option \<Rightarrow> bytes
    \<Rightarrow> api_QueryParamsRequest res" where
  "fastReflection_QueryParamsRequest_SetUnknown x raw = deref x (\<lambda>x. Ok
      (x\<lparr>api_QueryParamsRequest_unknownFields := raw\<rparr>))"

definition fastReflection_QueryParamsRequest_IsValid :: "api_QueryParamsRequest option \<Rightarrow> bool" where
  "fastReflection_QueryParamsRequest_IsValid x \<longleftrightarrow> x \<noteq> None"

definition fastReflection_QueryParamsRequest_New :: "api_QueryParamsRequest option" where
  "fastReflection_QueryParamsRequest_New = Some zero_api_QueryParamsRequest"

interpretation api_QueryParamsRequest_message: fast_message "[]"
  fastReflection_QueryParamsRequest_Has fastReflection_QueryParamsRequest_Get
      fastReflection_QueryParamsRequest_Set fastReflection_QueryParamsRequest_Clear
  fastReflection_QueryParamsRequest_Range
      api_QueryParamsRequest_unknownFields zero_api_QueryParamsRequest
proof unfold_locales
  fix m n :: "api_QueryParamsRequest"
  assume "api_QueryParamsRequest_unknownFields m = api_QueryParamsRequest_unknownFields n"
  then show "m = n" by simp
qed (simp_all add: fastReflection_QueryParamsRequest_Has_def
    fastReflection_QueryParamsRequest_Get_def fastReflection_QueryParamsRequest_Set_def
        fastReflection_QueryParamsRequest_Clear_def fastReflection_QueryParamsRequest_Range_def)


section \<open>QueryParamsResponse\<close>

record api_QueryParamsResponse =
  api_QueryParamsResponse_Params :: "api_Params option"
  api_QueryParamsResponse_unknownFields :: bytes

definition zero_api_QueryParamsResponse :: "api_QueryParamsResponse" where
  "zero_api_QueryParamsResponse = \<lparr>api_QueryParamsResponse_Params = None,
      api_QueryParamsResponse_unknownFields = []\<rparr>"

definition QueryParamsResponse_GetParams :: "api_QueryParamsResponse option \<Rightarrow>
    api_Params option" where
  "QueryParamsResponse_GetParams x = (case x of None \<Rightarrow> None | Some x \<Rightarrow>
      api_QueryParamsResponse_Params x)"

subsection \<open>Size, marshal and unmarshal\<close>

definition fastReflection_QueryParamsResponse_size :: "pulsar_rt \<Rightarrow> api_Params proto_ops \<Rightarrow>
    api_QueryParamsResponse option \<Rightarrow> int" where
  "fastReflection_QueryParamsResponse_size rt Params_ops = fast_size (\<lambda>x. rt_size_opt_msg rt
      Params_ops (api_QueryParamsResponse_Params x) + size_unknown
          (api_QueryParamsResponse_unknownFields x))"

definition fastReflection_QueryParamsResponse_marshal ::
    "pulsar_rt \<Rightarrow> api_Params proto_ops \<Rightarrow> (api_QueryParamsResponse option \<Rightarrow> int) \<Rightarrow>
        api_QueryParamsResponse option \<Rightarrow> bytes option \<Rightarrow> bytes option res" where
  "fastReflection_QueryParamsResponse_marshal rt Params_ops options_Size = fast_marshal
      options_Size (\<lambda>x. \<lambda>st.
     bind_res (put_unknown (api_QueryParamsResponse_unknownFields x) st)
       (rt_put_opt_msg rt Params_ops 0xa (api_QueryParamsResponse_Params x)))"

definition fastReflection_QueryParamsResponse_field :: "pulsar_rt \<Rightarrow> api_Params proto_ops \<Rightarrow> bool \<Rightarrow>
    api_QueryParamsResponse field_reader" where
  "fastReflection_QueryParamsResponse_field rt Params_ops discard d i x =
     bind_res (read_tag ''QueryParamsResponse'' d i) (\<lambda>(fieldNum, wireType, j).
       if fieldNum = 1 then bind_res (read_len ''Params'' wireType d j)
         (\<lambda>(s, j). bind_res (op_Unmarshal Params_ops s (case api_QueryParamsResponse_Params x of
             None \<Rightarrow> zero_api_Params | Some p \<Rightarrow> p))
           (\<lambda>p. Ok (j, x\<lparr>api_QueryParamsResponse_Params := Some p\<rparr>)))
       else bind_res (rt_skip_unknown rt d i) (\<lambda>(s, j).
         Ok (j, x\<lparr>api_QueryParamsResponse_unknownFields := keep_unknown discard
             (api_QueryParamsResponse_unknownFields x) s\<rparr>)))"

definition fastReflection_QueryParamsResponse_unmarshal ::
    "pulsar_rt \<Rightarrow> api_Params proto_ops \<Rightarrow> bool \<Rightarrow> bytes \<Rightarrow> api_QueryParamsResponse option \<Rightarrow>
        api_QueryParamsResponse option res" where
  "fastReflection_QueryParamsResponse_unmarshal rt Params_ops discard = fast_unmarshal
      (fastReflection_QueryParamsResponse_field rt Params_ops discard)"

definition api_QueryParamsResponse_ops :: "pulsar_rt \<Rightarrow> api_Params proto_ops \<Rightarrow>
    api_QueryParamsResponse proto_ops" where
  "api_QueryParamsResponse_ops rt Params_ops = direct_ops zero_api_QueryParamsResponse
      (fastReflection_QueryParamsResponse_size rt Params_ops)
     (fastReflection_QueryParamsResponse_marshal rt Params_ops
         (fastReflection_QueryParamsResponse_size rt Params_ops))
             (fastReflection_QueryParamsResponse_unmarshal rt Params_ops False)"

definition enc_api_QueryParamsResponse :: "api_QueryParamsResponse \<Rightarrow> bytes" where
  "enc_api_QueryParamsResponse x = enc_opt_msg 0xa enc_api_Params
      (api_QueryParamsResponse_Params x) @ api_QueryParamsResponse_unknownFields x"

definition wf_api_QueryParamsResponse :: "api_QueryParamsResponse \<Rightarrow> bool" where
  "wf_api_QueryParamsResponse x \<longleftrightarrow> fits (enc_api_QueryParamsResponse x)
     \<and> foreign {1} (api_QueryParamsResponse_unknownFields x)
     \<and> (\<forall>p. api_QueryParamsResponse_Params x = Some p \<longrightarrow> wf_api_Params p)"

locale api_QueryParamsResponse_methods =
  Params: pulsar_embedded rt Params_ops enc_api_Params wf_api_Params zero_api_Params
  for rt :: pulsar_rt and Params_ops :: "api_Params proto_ops"
begin

lemma wf_api_QueryParamsResponseD:
  assumes "wf_api_QueryParamsResponse x"
  shows "\<And>p. api_QueryParamsResponse_Params x = Some p \<Longrightarrow> wf_api_Params p"
    and "fits (api_QueryParamsResponse_unknownFields x)"
    and "fits (enc_api_QueryParamsResponse x)"
    and "foreign {1} (api_QueryParamsResponse_unknownFields x)"
  using assms
  by (auto simp: wf_api_QueryParamsResponse_def enc_api_QueryParamsResponse_def image_iff intro!:
      map_idI dest!: fits_appendD bspec dest: fits_enc_str)

lemma api_QueryParamsResponse_size:
  assumes "wf_api_QueryParamsResponse x"
  shows "fastReflection_QueryParamsResponse_size rt Params_ops (Some x) = int (length
      (enc_api_QueryParamsResponse x))"
  using wf_api_QueryParamsResponseD [OF assms] size_unknown_eq [of
      "api_QueryParamsResponse_unknownFields x"]
    Params.size_opt_msg_length [of "api_QueryParamsResponse_Params x" "0xa"]
  by (simp add: fastReflection_QueryParamsResponse_size_def
      fast_size_def enc_api_QueryParamsResponse_def)

lemma api_QueryParamsResponse_writes:
  assumes "wf_api_QueryParamsResponse x"
  shows "writes (\<lambda>st.
     bind_res (put_unknown (api_QueryParamsResponse_unknownFields x) st)
       (rt_put_opt_msg rt Params_ops 0xa (api_QueryParamsResponse_Params x)))
           (enc_api_QueryParamsResponse x)"
proof -
  note D = wf_api_QueryParamsResponseD [OF assms]
  show ?thesis
    unfolding enc_api_QueryParamsResponse_def append_assoc [symmetric]
    by (intro writes_bind writes_unknown Params.put_opt_msg_writes D)
qed

lemma api_QueryParamsResponse_field_decoder: "field_decoder
    (fastReflection_QueryParamsResponse_field rt Params_ops discard)"
  unfolding fastReflection_QueryParamsResponse_field_def [abs_def]
  by (rule field_decoderI) (intro part_intros Params.op_total Params.part_skip_rt; simp)

lemma api_QueryParamsResponse_reads:
  assumes "wf_api_QueryParamsResponse x"
  shows "reads (fastReflection_QueryParamsResponse_field rt Params_ops False)
      (enc_api_QueryParamsResponse x) zero_api_QueryParamsResponse x"
proof -
  let ?f = "fastReflection_QueryParamsResponse_field rt Params_ops False"
  note D = wf_api_QueryParamsResponseD [OF assms]
  let ?s1 = "zero_api_QueryParamsResponse\<lparr>api_QueryParamsResponse_Params :=
      api_QueryParamsResponse_Params x\<rparr>"
  have r0: "reads ?f (enc_opt_msg 0xa enc_api_Params
      (api_QueryParamsResponse_Params x)) zero_api_QueryParamsResponse
      ?s1"
    using D by (intro reads_opt_msg reads_one_len [where t = "0xa" and name =
        "''QueryParamsResponse''" and f = "''Params''"])
      (simp_all add: fastReflection_QueryParamsResponse_field_def
          zero_api_QueryParamsResponse_def Params.op_unmarshal)
  have ru: "reads ?f (api_QueryParamsResponse_unknownFields x) ?s1
      (?s1\<lparr>api_QueryParamsResponse_unknownFields := api_QueryParamsResponse_unknownFields x\<rparr>)"
    using Params.reads_foreign [of _ "api_QueryParamsResponse_unknownFields x"
        "''QueryParamsResponse''" ?f "\<lambda>w. ?s1\<lparr>api_QueryParamsResponse_unknownFields := w\<rparr>" "[]",
            OF D(4)]
    by (simp add: fastReflection_QueryParamsResponse_field_def
        zero_api_QueryParamsResponse_def keep_unknown_def)
  have "?s1\<lparr>api_QueryParamsResponse_unknownFields := api_QueryParamsResponse_unknownFields x\<rparr> = x"
      by (cases x) (simp add: zero_api_QueryParamsResponse_def)
  with ru have "reads ?f (api_QueryParamsResponse_unknownFields x) ?s1 x" by simp
  then show ?thesis
    unfolding enc_api_QueryParamsResponse_def by (intro reads_append [OF r0])
qed

lemma api_QueryParamsResponse_proto: "proto_methods (api_QueryParamsResponse_ops rt Params_ops)
    (enc_api_QueryParamsResponse) (wf_api_QueryParamsResponse) zero_api_QueryParamsResponse"
  unfolding api_QueryParamsResponse_ops_def fastReflection_QueryParamsResponse_size_def
      fastReflection_QueryParamsResponse_marshal_def fastReflection_QueryParamsResponse_unmarshal_def
  by (rule direct_methods) (use api_QueryParamsResponse_size api_QueryParamsResponse_writes
      api_QueryParamsResponse_reads wf_api_QueryParamsResponseD(3)
          api_QueryParamsResponse_field_decoder in
      \<open>simp_all add: fastReflection_QueryParamsResponse_size_def fast_size_def\<close>)

end

interpretation api_QueryParamsResponse_direct: api_QueryParamsResponse_methods gogo_rt
    "api_Params_ops gogo_rt"
  by (intro api_QueryParamsResponse_methods.intro)
    (simp_all add: api_Params_direct.pulsar_embedded_axioms api_Identity_direct.pulsar_embedded_axioms
      api_Identity_ops_New)

subsection \<open>Reflection\<close>

definition fd_QueryParamsResponse_params :: field_desc where
  "fd_QueryParamsResponse_params = \<lparr>FullName = ''nexelra.identity.QueryParamsResponse.params'',
      IsExtension = False\<rparr>"

definition fastReflection_QueryParamsResponse_Range ::
    "api_QueryParamsResponse option \<Rightarrow> (field_desc \<Rightarrow> ('q, 'r) api_value \<Rightarrow> 's \<Rightarrow> ('s \<times> bool) res)
        \<Rightarrow> 's \<Rightarrow> 's res" where
  "fastReflection_QueryParamsResponse_Range x f s = deref x (\<lambda>x.
     visit (api_QueryParamsResponse_Params x \<noteq> None) fd_QueryParamsResponse_params (ValueOfMessage
         (PtrParams (api_QueryParamsResponse_Params x))) f s (\<lambda>s. Ok s))"

definition fastReflection_QueryParamsResponse_Has :: "api_QueryParamsResponse option \<Rightarrow> field_desc
    \<Rightarrow> bool res" where
  "fastReflection_QueryParamsResponse_Has x fd =
     (if FullName fd = ''nexelra.identity.QueryParamsResponse.params'' then deref x (\<lambda>x. Ok
         (api_QueryParamsResponse_Params x \<noteq> None))
      else unknown_field fd)"

definition fastReflection_QueryParamsResponse_Clear :: "api_QueryParamsResponse option \<Rightarrow>
    field_desc \<Rightarrow> api_QueryParamsResponse res" where
  "fastReflection_QueryParamsResponse_Clear x fd =
     (if FullName fd = ''nexelra.identity.QueryParamsResponse.params'' then deref x (\<lambda>x. Ok
         (x\<lparr>api_QueryParamsResponse_Params := None\<rparr>))
      else unknown_field fd)"

definition fastReflection_QueryParamsResponse_Get :: "api_QueryParamsResponse option \<Rightarrow> field_desc
    \<Rightarrow> ('q, 'r) api_value res" where
  "fastReflection_QueryParamsResponse_Get x descriptor =
     (if FullName descriptor = ''nexelra.identity.QueryParamsResponse.params'' then deref x (\<lambda>x.
         Ok (ValueOfMessage (PtrParams (api_QueryParamsResponse_Params x))))
      else unknown_field descriptor)"

definition fastReflection_QueryParamsResponse_Set :: "api_QueryParamsResponse option \<Rightarrow> field_desc
    \<Rightarrow> ('q, 'r) api_value \<Rightarrow> api_QueryParamsResponse res" where
  "fastReflection_QueryParamsResponse_Set x fd value =
     (if FullName fd = ''nexelra.identity.QueryParamsResponse.params'' then deref x (\<lambda>x.
          bind_res (message_value value) (\<lambda>v. bind_res (as_Params v) (\<lambda>v. Ok
              (x\<lparr>api_QueryParamsResponse_Params := v\<rparr>))))
      else unknown_field fd)"

definition fastReflection_QueryParamsResponse_Mutable ::
    "api_QueryParamsResponse option \<Rightarrow> field_desc \<Rightarrow> (api_QueryParamsResponse \<times>
        ('q, 'r) api_value) res" where
  "fastReflection_QueryParamsResponse_Mutable x fd =
     (if FullName fd = ''nexelra.identity.QueryParamsResponse.params'' then deref x (\<lambda>x.
          let x = (if api_QueryParamsResponse_Params x = None
              then x\<lparr>api_QueryParamsResponse_Params := Some zero_api_Params\<rparr> else x)
          in Ok (x, ValueOfMessage (PtrParams (api_QueryParamsResponse_Params x))))
      else unknown_field fd)"

definition fastReflection_QueryParamsResponse_NewField :: "field_desc \<Rightarrow> ('q, 'r)
    api_value res" where
  "fastReflection_QueryParamsResponse_NewField fd =
     (if FullName fd = ''nexelra.identity.QueryParamsResponse.params'' then Ok (ValueOfMessage
         (PtrParams (Some zero_api_Params)))
      else unknown_field fd)"

definition fastReflection_QueryParamsResponse_WhichOneof :: "api_QueryParamsResponse option \<Rightarrow>
    string \<Rightarrow> field_desc res" where
  "fastReflection_QueryParamsResponse_WhichOneof x d = Panic"

definition fastReflection_QueryParamsResponse_GetUnknown :: "api_QueryParamsResponse option \<Rightarrow>
    bytes res" where
  "fastReflection_QueryParamsResponse_GetUnknown x = deref x (\<lambda>x. Ok
      (api_QueryParamsResponse_unknownFields x))"

definition fastReflection_QueryParamsResponse_SetUnknown :: "api_QueryParamsResponse option \<Rightarrow>
    bytes \<Rightarrow> api_QueryParamsResponse res" where
  "fastReflection_QueryParamsResponse_SetUnknown x raw = deref x (\<lambda>x. Ok
      (x\<lparr>api_QueryParamsResponse_unknownFields := raw\<rparr>))"

definition fastReflection_QueryParamsResponse_IsValid :: "api_QueryParamsResponse option
    \<Rightarrow> bool" where
  "fastReflection_QueryParamsResponse_IsValid x \<longleftrightarrow> x \<noteq> None"

definition fastReflection_QueryParamsResponse_New :: "api_QueryParamsResponse option" where
  "fastReflection_QueryParamsResponse_New = Some zero_api_QueryParamsResponse"

lemma api_QueryParamsResponse_reflect:
  "fastReflection_QueryParamsResponse_Has (Some x) fd_QueryParamsResponse_params = Ok
      (api_QueryParamsResponse_Params x \<noteq> None)"
  "fastReflection_QueryParamsResponse_Get (Some x) fd_QueryParamsResponse_params = Ok
      (ValueOfMessage (PtrParams (api_QueryParamsResponse_Params x)))"
  "fastReflection_QueryParamsResponse_Clear (Some x) fd_QueryParamsResponse_params = Ok
      (x\<lparr>api_QueryParamsResponse_Params := None\<rparr>)"
  "fastReflection_QueryParamsResponse_Set (Some x) fd_QueryParamsResponse_params value =
      bind_res (message_value value) (\<lambda>v. bind_res (as_Params v) (\<lambda>v. Ok
          (x\<lparr>api_QueryParamsResponse_Params := v\<rparr>)))"
  by (simp_all add: fastReflection_QueryParamsResponse_Has_def
      fastReflection_QueryParamsResponse_Get_def fastReflection_QueryParamsResponse_Clear_def
          fastReflection_QueryParamsResponse_Set_def fd_QueryParamsResponse_params_def)

lemma api_QueryParamsResponse_no_field:
  assumes "FullName fd \<notin> FullName ` set [fd_QueryParamsResponse_params]"
  shows "fastReflection_QueryParamsResponse_Has x fd = Panic"
      "fastReflection_QueryParamsResponse_Get x fd = Panic"
          "fastReflection_QueryParamsResponse_Set x fd value = Panic"
              "fastReflection_QueryParamsResponse_Clear x fd = Panic"
  using assms by (simp_all add: fastReflection_QueryParamsResponse_Has_def
      fastReflection_QueryParamsResponse_Get_def fastReflection_QueryParamsResponse_Clear_def
          fastReflection_QueryParamsResponse_Set_def fd_QueryParamsResponse_params_def)

lemma api_QueryParamsResponse_fds: "distinct (map FullName [fd_QueryParamsResponse_params])"
    "distinct [fd_QueryParamsResponse_params]"
  by (simp_all add: fd_QueryParamsResponse_params_def)

interpretation api_QueryParamsResponse_message: fast_message "[fd_QueryParamsResponse_params]"
  fastReflection_QueryParamsResponse_Has fastReflection_QueryParamsResponse_Get
      fastReflection_QueryParamsResponse_Set fastReflection_QueryParamsResponse_Clear
  fastReflection_QueryParamsResponse_Range
      api_QueryParamsResponse_unknownFields zero_api_QueryParamsResponse
proof unfold_locales
  fix m n :: "api_QueryParamsResponse"
  assume h: "\<forall>fd \<in> set [fd_QueryParamsResponse_params]. fastReflection_QueryParamsResponse_Has
      (Some m) fd = fastReflection_QueryParamsResponse_Has (Some n) fd
      \<and> (fastReflection_QueryParamsResponse_Has (Some m) fd = Ok True \<longrightarrow>
          fastReflection_QueryParamsResponse_Get (Some m) fd =
              fastReflection_QueryParamsResponse_Get (Some n) fd)"
    and u: "api_QueryParamsResponse_unknownFields m = api_QueryParamsResponse_unknownFields n"
  have e0: "api_QueryParamsResponse_Params m = api_QueryParamsResponse_Params n"
    by (rule same_field [OF h, where fd = fd_QueryParamsResponse_params and d = "None" and V =
        "\<lambda>v. ValueOfMessage (PtrParams v)"])
      (simp_all add: api_QueryParamsResponse_reflect split: if_splits)
  from u e0 show "m = n" by simp
next
  fix m :: "api_QueryParamsResponse" and f :: "field_desc \<Rightarrow> ('q, 'r) api_value \<Rightarrow>
      api_QueryParamsResponse \<Rightarrow> (api_QueryParamsResponse \<times> bool) res" and s
  show "fastReflection_QueryParamsResponse_Range (Some m) f s = visits (populated
      fastReflection_QueryParamsResponse_Has fastReflection_QueryParamsResponse_Get
          m [fd_QueryParamsResponse_params]) f s"
    by (simp add: fastReflection_QueryParamsResponse_Range_def 
      visits_populated [where has = fastReflection_QueryParamsResponse_Has and
          get = fastReflection_QueryParamsResponse_Get, OF api_QueryParamsResponse_reflect(1,2)]
      visits_Nil del: populated.simps)
next
  fix fd :: field_desc and x :: "api_QueryParamsResponse option" and v
  assume "FullName fd \<notin> FullName ` set [fd_QueryParamsResponse_params]"
  then show "fastReflection_QueryParamsResponse_Has x fd = Panic \<and>
      fastReflection_QueryParamsResponse_Get x fd = Panic \<and> fastReflection_QueryParamsResponse_Set
          x fd v = Panic
      \<and> fastReflection_QueryParamsResponse_Clear x fd = Panic"
    by (intro conjI api_QueryParamsResponse_no_field)
next
  fix fd :: field_desc and m n :: "api_QueryParamsResponse" and v
  assume "fd \<in> set [fd_QueryParamsResponse_params]" "fastReflection_QueryParamsResponse_Has
      (Some m) fd = Ok True" "fastReflection_QueryParamsResponse_Get (Some m) fd = Ok v"
  then show "\<exists>n'. fastReflection_QueryParamsResponse_Set (Some n) fd v = Ok n' \<and>
      fastReflection_QueryParamsResponse_Get (Some n') fd = Ok v \<and>
          fastReflection_QueryParamsResponse_Has (Some n') fd = Ok True"
    by (fastforce simp: api_QueryParamsResponse_reflect)
next
  fix fd :: field_desc and n n' :: "api_QueryParamsResponse" and v
  assume "fd \<in> set [fd_QueryParamsResponse_params]" "fastReflection_QueryParamsResponse_Set
      (Some n) fd v = Ok n'"
  then have "fd = fd_QueryParamsResponse_params \<and> (\<exists>v. n' = n\<lparr>api_QueryParamsResponse_Params := v\<rparr>)"
    by (auto simp: api_QueryParamsResponse_reflect res_simps deref_def split: option.splits; blast)
  then show "api_QueryParamsResponse_unknownFields n' = api_QueryParamsResponse_unknownFields n \<and>
      (\<forall>fd' \<in> set [fd_QueryParamsResponse_params]. fd' \<noteq> fd
      \<longrightarrow> fastReflection_QueryParamsResponse_Has (Some n') fd' =
          fastReflection_QueryParamsResponse_Has (Some n) fd' \<and>
              fastReflection_QueryParamsResponse_Get (Some n') fd' =
                  fastReflection_QueryParamsResponse_Get (Some n) fd')"
    by (auto simp: api_QueryParamsResponse_reflect)
next
  fix fd :: field_desc and n :: "api_QueryParamsResponse"
  assume "fd \<in> set [fd_QueryParamsResponse_params]"
  then obtain n' where c: "fastReflection_QueryParamsResponse_Clear (Some n) fd = Ok n'"
      "fd = fd_QueryParamsResponse_params \<and> n' = n\<lparr>api_QueryParamsResponse_Params := None\<rparr>"
    by (auto simp: api_QueryParamsResponse_reflect)
  then have "fastReflection_QueryParamsResponse_Has (Some n') fd = Ok False \<and>
      api_QueryParamsResponse_unknownFields n' = api_QueryParamsResponse_unknownFields n
      \<and> (\<forall>fd' \<in> set [fd_QueryParamsResponse_params]. fd' \<noteq> fd
      \<longrightarrow> fastReflection_QueryParamsResponse_Has (Some n') fd' =
          fastReflection_QueryParamsResponse_Has (Some n) fd' \<and>
              fastReflection_QueryParamsResponse_Get (Some n') fd' =
                  fastReflection_QueryParamsResponse_Get (Some n) fd')"
    by (auto simp: api_QueryParamsResponse_reflect)
  with c(1) show "\<exists>n'. fastReflection_QueryParamsResponse_Clear (Some n) fd = Ok n' \<and>
      fastReflection_QueryParamsResponse_Has (Some n') fd = Ok False \<and>
          api_QueryParamsResponse_unknownFields n' = api_QueryParamsResponse_unknownFields n
      \<and> (\<forall>fd' \<in> set [fd_QueryParamsResponse_params]. fd' \<noteq> fd
      \<longrightarrow> fastReflection_QueryParamsResponse_Has (Some n') fd' =
          fastReflection_QueryParamsResponse_Has (Some n) fd' \<and>
              fastReflection_QueryParamsResponse_Get (Some n') fd' =
                  fastReflection_QueryParamsResponse_Get (Some n) fd')"
    by blast
qed (use api_QueryParamsResponse_fds in \<open>auto simp:
    api_QueryParamsResponse_reflect zero_api_QueryParamsResponse_def\<close>)


section \<open>QueryGetIdentityRequest\<close>

record api_QueryGetIdentityRequest =
  api_QueryGetIdentityRequest_Address :: "string"
  api_QueryGetIdentityRequest_unknownFields :: bytes

definition zero_api_QueryGetIdentityRequest :: "api_QueryGetIdentityRequest" where
  "zero_api_QueryGetIdentityRequest = \<lparr>api_QueryGetIdentityRequest_Address = '''',
      api_QueryGetIdentityRequest_unknownFields = []\<rparr>"

definition QueryGetIdentityRequest_GetAddress :: "api_QueryGetIdentityRequest option \<Rightarrow> string" where
  "QueryGetIdentityRequest_GetAddress x = (case x of None \<Rightarrow> '''' | Some x \<Rightarrow>
      api_QueryGetIdentityRequest_Address x)"

subsection \<open>Size, marshal and unmarshal\<close>

definition fastReflection_QueryGetIdentityRequest_size :: "pulsar_rt \<Rightarrow> api_QueryGetIdentityRequest
    option \<Rightarrow> int" where
  "fastReflection_QueryGetIdentityRequest_size rt = fast_size (\<lambda>x. rt_size_str rt
      (api_QueryGetIdentityRequest_Address x) + size_unknown
          (api_QueryGetIdentityRequest_unknownFields x))"

definition fastReflection_QueryGetIdentityRequest_marshal ::
    "pulsar_rt \<Rightarrow> (api_QueryGetIdentityRequest option \<Rightarrow> int) \<Rightarrow> api_QueryGetIdentityRequest option \<Rightarrow>
        bytes option \<Rightarrow> bytes option res" where
  "fastReflection_QueryGetIdentityRequest_marshal rt options_Size = fast_marshal options_Size
      (\<lambda>x. \<lambda>st.
     bind_res (put_unknown (api_QueryGetIdentityRequest_unknownFields x) st)
       (rt_put_str rt 0xa (api_QueryGetIdentityRequest_Address x)))"

definition fastReflection_QueryGetIdentityRequest_field :: "pulsar_rt \<Rightarrow> bool \<Rightarrow>
    api_QueryGetIdentityRequest field_reader" where
  "fastReflection_QueryGetIdentityRequest_field rt discard d i x =
     bind_res (read_tag ''QueryGetIdentityRequest'' d i) (\<lambda>(fieldNum, wireType, j).
       if fieldNum = 1 then bind_res (read_len ''Address'' wireType d j)
         (\<lambda>(s, j). Ok (j, x\<lparr>api_QueryGetIdentityRequest_Address := string_of s\<rparr>))
       else bind_res (rt_skip_unknown rt d i) (\<lambda>(s, j).
         Ok (j, x\<lparr>api_QueryGetIdentityRequest_unknownFields := keep_unknown discard
             (api_QueryGetIdentityRequest_unknownFields x) s\<rparr>)))"

definition fastReflection_QueryGetIdentityRequest_unmarshal ::
    "pulsar_rt \<Rightarrow> bool \<Rightarrow> bytes \<Rightarrow> api_QueryGetIdentityRequest option \<Rightarrow> api_QueryGetIdentityRequest
        option res" where
  "fastReflection_QueryGetIdentityRequest_unmarshal rt discard = fast_unmarshal
      (fastReflection_QueryGetIdentityRequest_field rt discard)"

definition api_QueryGetIdentityRequest_ops :: "pulsar_rt \<Rightarrow>
    api_QueryGetIdentityRequest proto_ops" where
  "api_QueryGetIdentityRequest_ops rt = direct_ops zero_api_QueryGetIdentityRequest
      (fastReflection_QueryGetIdentityRequest_size rt)
     (fastReflection_QueryGetIdentityRequest_marshal rt
         (fastReflection_QueryGetIdentityRequest_size rt))
             (fastReflection_QueryGetIdentityRequest_unmarshal rt False)"

definition enc_api_QueryGetIdentityRequest :: "api_QueryGetIdentityRequest \<Rightarrow> bytes" where
  "enc_api_QueryGetIdentityRequest x = enc_str 0xa (api_QueryGetIdentityRequest_Address x) @
      api_QueryGetIdentityRequest_unknownFields x"

definition wf_api_QueryGetIdentityRequest :: "api_QueryGetIdentityRequest \<Rightarrow> bool" where
  "wf_api_QueryGetIdentityRequest x \<longleftrightarrow> fits (enc_api_QueryGetIdentityRequest x)
     \<and> foreign {1} (api_QueryGetIdentityRequest_unknownFields x)"

context pulsar_runtime
begin

lemma wf_api_QueryGetIdentityRequestD:
  assumes "wf_api_QueryGetIdentityRequest x"
  shows "fits (api_QueryGetIdentityRequest_Address x)"
    and "fits (api_QueryGetIdentityRequest_unknownFields x)"
    and "fits (enc_api_QueryGetIdentityRequest x)"
    and "foreign {1} (api_QueryGetIdentityRequest_unknownFields x)"
  using assms
  by (auto simp: wf_api_QueryGetIdentityRequest_def enc_api_QueryGetIdentityRequest_def
      image_iff intro!: map_idI dest!: fits_appendD bspec dest: fits_enc_str)

lemma api_QueryGetIdentityRequest_size:
  assumes "wf_api_QueryGetIdentityRequest x"
  shows "fastReflection_QueryGetIdentityRequest_size rt (Some x) = int (length
      (enc_api_QueryGetIdentityRequest x))"
  using wf_api_QueryGetIdentityRequestD [OF assms] size_unknown_eq [of
      "api_QueryGetIdentityRequest_unknownFields x"]
    size_str_length [of "api_QueryGetIdentityRequest_Address x" "0xa"]
  by (simp add: fastReflection_QueryGetIdentityRequest_size_def
      fast_size_def enc_api_QueryGetIdentityRequest_def)

lemma api_QueryGetIdentityRequest_writes:
  assumes "wf_api_QueryGetIdentityRequest x"
  shows "writes (\<lambda>st.
     bind_res (put_unknown (api_QueryGetIdentityRequest_unknownFields x) st)
       (rt_put_str rt 0xa (api_QueryGetIdentityRequest_Address x)))
           (enc_api_QueryGetIdentityRequest x)"
proof -
  note D = wf_api_QueryGetIdentityRequestD [OF assms]
  show ?thesis
    unfolding enc_api_QueryGetIdentityRequest_def append_assoc [symmetric]
    by (intro writes_bind writes_unknown put_str_writes D)
qed

lemma api_QueryGetIdentityRequest_field_decoder: "field_decoder
    (fastReflection_QueryGetIdentityRequest_field rt discard)"
  unfolding fastReflection_QueryGetIdentityRequest_field_def [abs_def]
  by (rule field_decoderI) (intro part_intros; simp)

lemma api_QueryGetIdentityRequest_reads:
  assumes "wf_api_QueryGetIdentityRequest x"
  shows "reads (fastReflection_QueryGetIdentityRequest_field rt False)
      (enc_api_QueryGetIdentityRequest x) zero_api_QueryGetIdentityRequest x"
proof -
  let ?f = "fastReflection_QueryGetIdentityRequest_field rt False"
  note D = wf_api_QueryGetIdentityRequestD [OF assms]
  let ?s1 = "zero_api_QueryGetIdentityRequest\<lparr>api_QueryGetIdentityRequest_Address :=
      api_QueryGetIdentityRequest_Address x\<rparr>"
  have r0: "reads ?f (enc_str 0xa
      (api_QueryGetIdentityRequest_Address x)) zero_api_QueryGetIdentityRequest
      ?s1"
    by (intro reads_str reads_one_len [where t = "0xa" and name = "''QueryGetIdentityRequest''"
        and f = "''Address''"])
      (simp_all add:
          fastReflection_QueryGetIdentityRequest_field_def zero_api_QueryGetIdentityRequest_def)
  have ru: "reads ?f (api_QueryGetIdentityRequest_unknownFields x) ?s1
      (?s1\<lparr>api_QueryGetIdentityRequest_unknownFields :=
          api_QueryGetIdentityRequest_unknownFields x\<rparr>)"
    using reads_foreign [of _ "api_QueryGetIdentityRequest_unknownFields x"
        "''QueryGetIdentityRequest''" ?f "\<lambda>w. ?s1\<lparr>api_QueryGetIdentityRequest_unknownFields := w\<rparr>"
            "[]", OF D(4)]
    by (simp add: fastReflection_QueryGetIdentityRequest_field_def
        zero_api_QueryGetIdentityRequest_def keep_unknown_def)
  have "?s1\<lparr>api_QueryGetIdentityRequest_unknownFields :=
      api_QueryGetIdentityRequest_unknownFields x\<rparr> = x" by (cases x)
          (simp add: zero_api_QueryGetIdentityRequest_def)
  with ru have "reads ?f (api_QueryGetIdentityRequest_unknownFields x) ?s1 x" by simp
  then show ?thesis
    unfolding enc_api_QueryGetIdentityRequest_def by (intro reads_append [OF r0])
qed

lemma api_QueryGetIdentityRequest_proto: "proto_methods (api_QueryGetIdentityRequest_ops rt)
    (enc_api_QueryGetIdentityRequest)
        (wf_api_QueryGetIdentityRequest) zero_api_QueryGetIdentityRequest"
  unfolding api_QueryGetIdentityRequest_ops_def fastReflection_QueryGetIdentityRequest_size_def
      fastReflection_QueryGetIdentityRequest_marshal_def fastReflection_QueryGetIdentityRequest_unmarshal_def
  by (rule direct_methods) (use api_QueryGetIdentityRequest_size
      api_QueryGetIdentityRequest_writes
          api_QueryGetIdentityRequest_reads wf_api_QueryGetIdentityRequestD(3)
              api_QueryGetIdentityRequest_field_decoder in
      \<open>simp_all add: fastReflection_QueryGetIdentityRequest_size_def fast_size_def\<close>)

end

subsection \<open>Reflection\<close>

definition fd_QueryGetIdentityRequest_address :: field_desc where
  "fd_QueryGetIdentityRequest_address =
      \<lparr>FullName = ''nexelra.identity.QueryGetIdentityRequest.address'', IsExtension = False\<rparr>"

definition fastReflection_QueryGetIdentityRequest_Range ::
    "api_QueryGetIdentityRequest option \<Rightarrow> (field_desc \<Rightarrow> ('msg, 'lst) pvalue \<Rightarrow> 's \<Rightarrow>
        ('s \<times> bool) res) \<Rightarrow> 's \<Rightarrow> 's res" where
  "fastReflection_QueryGetIdentityRequest_Range x f s = deref x (\<lambda>x.
     visit (api_QueryGetIdentityRequest_Address x \<noteq> '''') fd_QueryGetIdentityRequest_address
         (ValueOfString (api_QueryGetIdentityRequest_Address x)) f s (\<lambda>s. Ok s))"

definition fastReflection_QueryGetIdentityRequest_Has :: "api_QueryGetIdentityRequest option \<Rightarrow>
    field_desc \<Rightarrow> bool res" where
  "fastReflection_QueryGetIdentityRequest_Has x fd =
     (if FullName fd = ''nexelra.identity.QueryGetIdentityRequest.address'' then deref x (\<lambda>x. Ok
         (api_QueryGetIdentityRequest_Address x \<noteq> ''''))
      else unknown_field fd)"

definition fastReflection_QueryGetIdentityRequest_Clear :: "api_QueryGetIdentityRequest option \<Rightarrow>
    field_desc \<Rightarrow> api_QueryGetIdentityRequest res" where
  "fastReflection_QueryGetIdentityRequest_Clear x fd =
     (if FullName fd = ''nexelra.identity.QueryGetIdentityRequest.address'' then deref x (\<lambda>x. Ok
         (x\<lparr>api_QueryGetIdentityRequest_Address := ''''\<rparr>))
      else unknown_field fd)"

definition fastReflection_QueryGetIdentityRequest_Get :: "api_QueryGetIdentityRequest option \<Rightarrow>
    field_desc \<Rightarrow> ('msg, 'lst) pvalue res" where
  "fastReflection_QueryGetIdentityRequest_Get x descriptor =
     (if FullName descriptor = ''nexelra.identity.QueryGetIdentityRequest.address'' then deref x
         (\<lambda>x. Ok (ValueOfString (api_QueryGetIdentityRequest_Address x)))
      else unknown_field descriptor)"

definition fastReflection_QueryGetIdentityRequest_Set :: "api_QueryGetIdentityRequest option \<Rightarrow>
    field_desc \<Rightarrow> ('msg, 'lst) pvalue \<Rightarrow> api_QueryGetIdentityRequest res" where
  "fastReflection_QueryGetIdentityRequest_Set x fd value =
     (if FullName fd = ''nexelra.identity.QueryGetIdentityRequest.address'' then deref x (\<lambda>x.
          bind_res (string_value value) (\<lambda>v. Ok (x\<lparr>api_QueryGetIdentityRequest_Address := v\<rparr>)))
      else unknown_field fd)"

definition fastReflection_QueryGetIdentityRequest_Mutable ::
    "api_QueryGetIdentityRequest option \<Rightarrow> field_desc \<Rightarrow> (api_QueryGetIdentityRequest \<times>
        ('msg, 'lst) pvalue) res" where
  "fastReflection_QueryGetIdentityRequest_Mutable x fd =
     (if FullName fd = ''nexelra.identity.QueryGetIdentityRequest.address'' then Panic
      else unknown_field fd)"

definition fastReflection_QueryGetIdentityRequest_NewField :: "field_desc \<Rightarrow> ('msg, 'lst)
    pvalue res" where
  "fastReflection_QueryGetIdentityRequest_NewField fd =
     (if FullName fd = ''nexelra.identity.QueryGetIdentityRequest.address'' then Ok
         (ValueOfString '''')
      else unknown_field fd)"

definition fastReflection_QueryGetIdentityRequest_WhichOneof :: "api_QueryGetIdentityRequest
    option \<Rightarrow> string \<Rightarrow> field_desc res" where
  "fastReflection_QueryGetIdentityRequest_WhichOneof x d = Panic"

definition fastReflection_QueryGetIdentityRequest_GetUnknown :: "api_QueryGetIdentityRequest
    option \<Rightarrow> bytes res" where
  "fastReflection_QueryGetIdentityRequest_GetUnknown x = deref x (\<lambda>x. Ok
      (api_QueryGetIdentityRequest_unknownFields x))"

definition fastReflection_QueryGetIdentityRequest_SetUnknown :: "api_QueryGetIdentityRequest
    option \<Rightarrow> bytes \<Rightarrow> api_QueryGetIdentityRequest res" where
  "fastReflection_QueryGetIdentityRequest_SetUnknown x raw = deref x (\<lambda>x. Ok
      (x\<lparr>api_QueryGetIdentityRequest_unknownFields := raw\<rparr>))"

definition fastReflection_QueryGetIdentityRequest_IsValid :: "api_QueryGetIdentityRequest option
    \<Rightarrow> bool" where
  "fastReflection_QueryGetIdentityRequest_IsValid x \<longleftrightarrow> x \<noteq> None"

definition fastReflection_QueryGetIdentityRequest_New :: "api_QueryGetIdentityRequest option" where
  "fastReflection_QueryGetIdentityRequest_New = Some zero_api_QueryGetIdentityRequest"

lemma api_QueryGetIdentityRequest_reflect:
  "fastReflection_QueryGetIdentityRequest_Has (Some x) fd_QueryGetIdentityRequest_address = Ok
      (api_QueryGetIdentityRequest_Address x \<noteq> '''')"
  "fastReflection_QueryGetIdentityRequest_Get (Some x) fd_QueryGetIdentityRequest_address = Ok
      (ValueOfString (api_QueryGetIdentityRequest_Address x))"
  "fastReflection_QueryGetIdentityRequest_Clear (Some x) fd_QueryGetIdentityRequest_address = Ok
      (x\<lparr>api_QueryGetIdentityRequest_Address := ''''\<rparr>)"
  "fastReflection_QueryGetIdentityRequest_Set (Some x) fd_QueryGetIdentityRequest_address value =
      bind_res (string_value value) (\<lambda>v. Ok (x\<lparr>api_QueryGetIdentityRequest_Address := v\<rparr>))"
  by (simp_all add: fastReflection_QueryGetIdentityRequest_Has_def
      fastReflection_QueryGetIdentityRequest_Get_def
          fastReflection_QueryGetIdentityRequest_Clear_def
              fastReflection_QueryGetIdentityRequest_Set_def fd_QueryGetIdentityRequest_address_def)

lemma api_QueryGetIdentityRequest_no_field:
  assumes "FullName fd \<notin> FullName ` set [fd_QueryGetIdentityRequest_address]"
  shows "fastReflection_QueryGetIdentityRequest_Has x fd = Panic"
      "fastReflection_QueryGetIdentityRequest_Get x fd = Panic"
          "fastReflection_QueryGetIdentityRequest_Set x fd value = Panic"
              "fastReflection_QueryGetIdentityRequest_Clear x fd = Panic"
  using assms by (simp_all add: fastReflection_QueryGetIdentityRequest_Has_def
      fastReflection_QueryGetIdentityRequest_Get_def
          fastReflection_QueryGetIdentityRequest_Clear_def
              fastReflection_QueryGetIdentityRequest_Set_def fd_QueryGetIdentityRequest_address_def)

lemma api_QueryGetIdentityRequest_fds: "distinct (map
    FullName [fd_QueryGetIdentityRequest_address])" "distinct [fd_QueryGetIdentityRequest_address]"
  by (simp_all add: fd_QueryGetIdentityRequest_address_def)

interpretation api_QueryGetIdentityRequest_message: fast_message
    "[fd_QueryGetIdentityRequest_address]"
  fastReflection_QueryGetIdentityRequest_Has fastReflection_QueryGetIdentityRequest_Get
      fastReflection_QueryGetIdentityRequest_Set fastReflection_QueryGetIdentityRequest_Clear
  fastReflection_QueryGetIdentityRequest_Range
      api_QueryGetIdentityRequest_unknownFields zero_api_QueryGetIdentityRequest
proof unfold_locales
  fix m n :: "api_QueryGetIdentityRequest"
  assume h: "\<forall>fd \<in> set [fd_QueryGetIdentityRequest_address].
      fastReflection_QueryGetIdentityRequest_Has (Some m) fd =
          fastReflection_QueryGetIdentityRequest_Has (Some n) fd
      \<and> (fastReflection_QueryGetIdentityRequest_Has (Some m) fd = Ok True \<longrightarrow>
          fastReflection_QueryGetIdentityRequest_Get (Some m) fd =
              fastReflection_QueryGetIdentityRequest_Get (Some n) fd)"
    and u: "api_QueryGetIdentityRequest_unknownFields m =
        api_QueryGetIdentityRequest_unknownFields n"
  have e0: "api_QueryGetIdentityRequest_Address m = api_QueryGetIdentityRequest_Address n"
    by (rule same_field [OF h, where fd = fd_QueryGetIdentityRequest_address and d = "''''" and
        V = "ValueOfString"])
      (simp_all add: api_QueryGetIdentityRequest_reflect split: if_splits)
  from u e0 show "m = n" by simp
next
  fix m :: "api_QueryGetIdentityRequest" and f :: "field_desc \<Rightarrow> ('a, 'b) pvalue \<Rightarrow>
      api_QueryGetIdentityRequest \<Rightarrow> (api_QueryGetIdentityRequest \<times> bool) res" and s
  show "fastReflection_QueryGetIdentityRequest_Range (Some m) f s = visits (populated
      fastReflection_QueryGetIdentityRequest_Has fastReflection_QueryGetIdentityRequest_Get
          m [fd_QueryGetIdentityRequest_address]) f s"
    by (simp add: fastReflection_QueryGetIdentityRequest_Range_def 
      visits_populated [where has = fastReflection_QueryGetIdentityRequest_Has and
          get = fastReflection_QueryGetIdentityRequest_Get,
              OF api_QueryGetIdentityRequest_reflect(1,2)]
      visits_Nil del: populated.simps)
next
  fix fd :: field_desc and x :: "api_QueryGetIdentityRequest option" and v
  assume "FullName fd \<notin> FullName ` set [fd_QueryGetIdentityRequest_address]"
  then show "fastReflection_QueryGetIdentityRequest_Has x fd = Panic \<and>
      fastReflection_QueryGetIdentityRequest_Get x fd = Panic \<and>
          fastReflection_QueryGetIdentityRequest_Set x fd v = Panic
      \<and> fastReflection_QueryGetIdentityRequest_Clear x fd = Panic"
    by (intro conjI api_QueryGetIdentityRequest_no_field)
next
  fix fd :: field_desc and m n :: "api_QueryGetIdentityRequest" and v
  assume "fd \<in> set [fd_QueryGetIdentityRequest_address]"
      "fastReflection_QueryGetIdentityRequest_Has (Some m) fd = Ok True"
          "fastReflection_QueryGetIdentityRequest_Get (Some m) fd = Ok v"
  then show "\<exists>n'. fastReflection_QueryGetIdentityRequest_Set (Some n) fd v = Ok n' \<and>
      fastReflection_QueryGetIdentityRequest_Get (Some n') fd = Ok v \<and>
          fastReflection_QueryGetIdentityRequest_Has (Some n') fd = Ok True"
    by (fastforce simp: api_QueryGetIdentityRequest_reflect)
next
  fix fd :: field_desc and n n' :: "api_QueryGetIdentityRequest" and v
  assume "fd \<in> set [fd_QueryGetIdentityRequest_address]"
      "fastReflection_QueryGetIdentityRequest_Set (Some n) fd v = Ok n'"
  then have "fd = fd_QueryGetIdentityRequest_address \<and>
      (\<exists>v. n' = n\<lparr>api_QueryGetIdentityRequest_Address := v\<rparr>)"
    by (auto simp: api_QueryGetIdentityRequest_reflect res_simps
        deref_def split: option.splits; blast)
  then show "api_QueryGetIdentityRequest_unknownFields n' =
      api_QueryGetIdentityRequest_unknownFields n \<and> (\<forall>fd' \<in>
          set [fd_QueryGetIdentityRequest_address]. fd' \<noteq> fd
      \<longrightarrow> fastReflection_QueryGetIdentityRequest_Has (Some n') fd' =
          fastReflection_QueryGetIdentityRequest_Has (Some n) fd' \<and>
              fastReflection_QueryGetIdentityRequest_Get (Some n') fd' =
                  fastReflection_QueryGetIdentityRequest_Get (Some n) fd')"
    by (auto simp: api_QueryGetIdentityRequest_reflect)
next
  fix fd :: field_desc and n :: "api_QueryGetIdentityRequest"
  assume "fd \<in> set [fd_QueryGetIdentityRequest_address]"
  then obtain n' where c: "fastReflection_QueryGetIdentityRequest_Clear (Some n) fd = Ok n'"
      "fd = fd_QueryGetIdentityRequest_address
          \<and> n' = n\<lparr>api_QueryGetIdentityRequest_Address := ''''\<rparr>"
    by (auto simp: api_QueryGetIdentityRequest_reflect)
  then have "fastReflection_QueryGetIdentityRequest_Has (Some n') fd = Ok False \<and>
      api_QueryGetIdentityRequest_unknownFields n' = api_QueryGetIdentityRequest_unknownFields n
      \<and> (\<forall>fd' \<in> set [fd_QueryGetIdentityRequest_address]. fd' \<noteq> fd
      \<longrightarrow> fastReflection_QueryGetIdentityRequest_Has (Some n') fd' =
          fastReflection_QueryGetIdentityRequest_Has (Some n) fd' \<and>
              fastReflection_QueryGetIdentityRequest_Get (Some n') fd' =
                  fastReflection_QueryGetIdentityRequest_Get (Some n) fd')"
    by (auto simp: api_QueryGetIdentityRequest_reflect)
  with c(1) show "\<exists>n'. fastReflection_QueryGetIdentityRequest_Clear (Some n) fd = Ok n' \<and>
      fastReflection_QueryGetIdentityRequest_Has (Some n') fd = Ok False \<and>
          api_QueryGetIdentityRequest_unknownFields n' = api_QueryGetIdentityRequest_unknownFields n
      \<and> (\<forall>fd' \<in> set [fd_QueryGetIdentityRequest_address]. fd' \<noteq> fd
      \<longrightarrow> fastReflection_QueryGetIdentityRequest_Has (Some n') fd' =
          fastReflection_QueryGetIdentityRequest_Has (Some n) fd' \<and>
              fastReflection_QueryGetIdentityRequest_Get (Some n') fd' =
                  fastReflection_QueryGetIdentityRequest_Get (Some n) fd')"
    by blast
qed (use api_QueryGetIdentityRequest_fds in \<open>auto simp:
    api_QueryGetIdentityRequest_reflect zero_api_QueryGetIdentityRequest_def\<close>)


section \<open>QueryGetIdentityResponse\<close>

record api_QueryGetIdentityResponse =
  api_QueryGetIdentityResponse_Identity :: "api_Identity option"
  api_QueryGetIdentityResponse_unknownFields :: bytes

definition zero_api_QueryGetIdentityResponse :: "api_QueryGetIdentityResponse" where
  "zero_api_QueryGetIdentityResponse = \<lparr>api_QueryGetIdentityResponse_Identity = None,
      api_QueryGetIdentityResponse_unknownFields = []\<rparr>"

definition QueryGetIdentityResponse_GetIdentity :: "api_QueryGetIdentityResponse option \<Rightarrow>
    api_Identity option" where
  "QueryGetIdentityResponse_GetIdentity x = (case x of None \<Rightarrow> None | Some x \<Rightarrow>
      api_QueryGetIdentityResponse_Identity x)"

subsection \<open>Size, marshal and unmarshal\<close>

definition fastReflection_QueryGetIdentityResponse_size :: "pulsar_rt \<Rightarrow> api_Identity proto_ops \<Rightarrow>
    api_QueryGetIdentityResponse option \<Rightarrow> int" where
  "fastReflection_QueryGetIdentityResponse_size rt Identity_ops = fast_size (\<lambda>x. rt_size_opt_msg
      rt Identity_ops (api_QueryGetIdentityResponse_Identity x) + size_unknown
          (api_QueryGetIdentityResponse_unknownFields x))"

definition fastReflection_QueryGetIdentityResponse_marshal ::
    "pulsar_rt \<Rightarrow> api_Identity proto_ops \<Rightarrow> (api_QueryGetIdentityResponse option \<Rightarrow> int) \<Rightarrow>
        api_QueryGetIdentityResponse option \<Rightarrow> bytes option \<Rightarrow> bytes option res" where
  "fastReflection_QueryGetIdentityResponse_marshal rt Identity_ops options_Size = fast_marshal
      options_Size (\<lambda>x. \<lambda>st.
     bind_res (put_unknown (api_QueryGetIdentityResponse_unknownFields x) st)
       (rt_put_opt_msg rt Identity_ops 0xa (api_QueryGetIdentityResponse_Identity x)))"

definition fastReflection_QueryGetIdentityResponse_field :: "pulsar_rt \<Rightarrow> api_Identity proto_ops \<Rightarrow>
    bool \<Rightarrow> api_QueryGetIdentityResponse field_reader" where
  "fastReflection_QueryGetIdentityResponse_field rt Identity_ops discard d i x =
     bind_res (read_tag ''QueryGetIdentityResponse'' d i) (\<lambda>(fieldNum, wireType, j).
       if fieldNum = 1 then bind_res (read_len ''Identity'' wireType d j)
         (\<lambda>(s, j). bind_res (op_Unmarshal Identity_ops s (case
             api_QueryGetIdentityResponse_Identity x of None \<Rightarrow> zero_api_Identity | Some p \<Rightarrow> p))
           (\<lambda>p. Ok (j, x\<lparr>api_QueryGetIdentityResponse_Identity := Some p\<rparr>)))
       else bind_res (rt_skip_unknown rt d i) (\<lambda>(s, j).
         Ok (j, x\<lparr>api_QueryGetIdentityResponse_unknownFields := keep_unknown discard
             (api_QueryGetIdentityResponse_unknownFields x) s\<rparr>)))"

definition fastReflection_QueryGetIdentityResponse_unmarshal ::
    "pulsar_rt \<Rightarrow> api_Identity proto_ops \<Rightarrow> bool \<Rightarrow> bytes \<Rightarrow> api_QueryGetIdentityResponse option \<Rightarrow>
        api_QueryGetIdentityResponse option res" where
  "fastReflection_QueryGetIdentityResponse_unmarshal rt Identity_ops discard = fast_unmarshal
      (fastReflection_QueryGetIdentityResponse_field rt Identity_ops discard)"

definition api_QueryGetIdentityResponse_ops :: "pulsar_rt \<Rightarrow> api_Identity proto_ops \<Rightarrow>
    api_QueryGetIdentityResponse proto_ops" where
  "api_QueryGetIdentityResponse_ops rt Identity_ops = direct_ops zero_api_QueryGetIdentityResponse
      (fastReflection_QueryGetIdentityResponse_size rt Identity_ops)
     (fastReflection_QueryGetIdentityResponse_marshal rt Identity_ops
         (fastReflection_QueryGetIdentityResponse_size rt Identity_ops))
             (fastReflection_QueryGetIdentityResponse_unmarshal rt Identity_ops False)"

definition enc_api_QueryGetIdentityResponse :: "api_QueryGetIdentityResponse \<Rightarrow> bytes" where
  "enc_api_QueryGetIdentityResponse x = enc_opt_msg 0xa enc_api_Identity
      (api_QueryGetIdentityResponse_Identity x) @ api_QueryGetIdentityResponse_unknownFields x"

definition wf_api_QueryGetIdentityResponse :: "api_QueryGetIdentityResponse \<Rightarrow> bool" where
  "wf_api_QueryGetIdentityResponse x \<longleftrightarrow> fits (enc_api_QueryGetIdentityResponse x)
     \<and> foreign {1} (api_QueryGetIdentityResponse_unknownFields x)
     \<and> (\<forall>p. api_QueryGetIdentityResponse_Identity x = Some p \<longrightarrow> wf_api_Identity p)"

locale api_QueryGetIdentityResponse_methods =
  Identity: pulsar_embedded rt Identity_ops enc_api_Identity wf_api_Identity zero_api_Identity
  for rt :: pulsar_rt and Identity_ops :: "api_Identity proto_ops"
begin

lemma wf_api_QueryGetIdentityResponseD:
  assumes "wf_api_QueryGetIdentityResponse x"
  shows "\<And>p. api_QueryGetIdentityResponse_Identity x = Some p \<Longrightarrow> wf_api_Identity p"
    and "fits (api_QueryGetIdentityResponse_unknownFields x)"
    and "fits (enc_api_QueryGetIdentityResponse x)"
    and "foreign {1} (api_QueryGetIdentityResponse_unknownFields x)"
  using assms
  by (auto simp: wf_api_QueryGetIdentityResponse_def enc_api_QueryGetIdentityResponse_def
      image_iff intro!: map_idI dest!: fits_appendD bspec dest: fits_enc_str)

lemma api_QueryGetIdentityResponse_size:
  assumes "wf_api_QueryGetIdentityResponse x"
  shows "fastReflection_QueryGetIdentityResponse_size rt Identity_ops (Some x) = int (length
      (enc_api_QueryGetIdentityResponse x))"
  using wf_api_QueryGetIdentityResponseD [OF assms] size_unknown_eq [of
      "api_QueryGetIdentityResponse_unknownFields x"]
    Identity.size_opt_msg_length [of "api_QueryGetIdentityResponse_Identity x" "0xa"]
  by (simp add: fastReflection_QueryGetIdentityResponse_size_def
      fast_size_def enc_api_QueryGetIdentityResponse_def)

lemma api_QueryGetIdentityResponse_writes:
  assumes "wf_api_QueryGetIdentityResponse x"
  shows "writes (\<lambda>st.
     bind_res (put_unknown (api_QueryGetIdentityResponse_unknownFields x) st)
       (rt_put_opt_msg rt Identity_ops 0xa (api_QueryGetIdentityResponse_Identity x)))
           (enc_api_QueryGetIdentityResponse x)"
proof -
  note D = wf_api_QueryGetIdentityResponseD [OF assms]
  show ?thesis
    unfolding enc_api_QueryGetIdentityResponse_def append_assoc [symmetric]
    by (intro writes_bind writes_unknown Identity.put_opt_msg_writes D)
qed

lemma api_QueryGetIdentityResponse_field_decoder: "field_decoder
    (fastReflection_QueryGetIdentityResponse_field rt Identity_ops discard)"
  unfolding fastReflection_QueryGetIdentityResponse_field_def [abs_def]
  by (rule field_decoderI) (intro part_intros Identity.op_total Identity.part_skip_rt; simp)

lemma api_QueryGetIdentityResponse_reads:
  assumes "wf_api_QueryGetIdentityResponse x"
  shows "reads (fastReflection_QueryGetIdentityResponse_field rt Identity_ops False)
      (enc_api_QueryGetIdentityResponse x) zero_api_QueryGetIdentityResponse x"
proof -
  let ?f = "fastReflection_QueryGetIdentityResponse_field rt Identity_ops False"
  note D = wf_api_QueryGetIdentityResponseD [OF assms]
  let ?s1 = "zero_api_QueryGetIdentityResponse\<lparr>api_QueryGetIdentityResponse_Identity :=
      api_QueryGetIdentityResponse_Identity x\<rparr>"
  have r0: "reads ?f (enc_opt_msg 0xa enc_api_Identity
      (api_QueryGetIdentityResponse_Identity x)) zero_api_QueryGetIdentityResponse
      ?s1"
    using D by (intro reads_opt_msg reads_one_len [where t = "0xa" and name =
        "''QueryGetIdentityResponse''" and f = "''Identity''"])
      (simp_all add: fastReflection_QueryGetIdentityResponse_field_def
          zero_api_QueryGetIdentityResponse_def Identity.op_unmarshal)
  have ru: "reads ?f (api_QueryGetIdentityResponse_unknownFields x) ?s1
      (?s1\<lparr>api_QueryGetIdentityResponse_unknownFields :=
          api_QueryGetIdentityResponse_unknownFields x\<rparr>)"
    using Identity.reads_foreign [of _ "api_QueryGetIdentityResponse_unknownFields x"
        "''QueryGetIdentityResponse''" ?f
            "\<lambda>w. ?s1\<lparr>api_QueryGetIdentityResponse_unknownFields := w\<rparr>" "[]", OF D(4)]
    by (simp add: fastReflection_QueryGetIdentityResponse_field_def
        zero_api_QueryGetIdentityResponse_def keep_unknown_def)
  have "?s1\<lparr>api_QueryGetIdentityResponse_unknownFields :=
      api_QueryGetIdentityResponse_unknownFields x\<rparr> = x" by (cases x)
          (simp add: zero_api_QueryGetIdentityResponse_def)
  with ru have "reads ?f (api_QueryGetIdentityResponse_unknownFields x) ?s1 x" by simp
  then show ?thesis
    unfolding enc_api_QueryGetIdentityResponse_def by (intro reads_append [OF r0])
qed

lemma api_QueryGetIdentityResponse_proto: "proto_methods (api_QueryGetIdentityResponse_ops
    rt Identity_ops) (enc_api_QueryGetIdentityResponse)
        (wf_api_QueryGetIdentityResponse) zero_api_QueryGetIdentityResponse"
  unfolding api_QueryGetIdentityResponse_ops_def fastReflection_QueryGetIdentityResponse_size_def
      fastReflection_QueryGetIdentityResponse_marshal_def fastReflection_QueryGetIdentityResponse_unmarshal_def
  by (rule direct_methods) (use api_QueryGetIdentityResponse_size
      api_QueryGetIdentityResponse_writes
          api_QueryGetIdentityResponse_reads wf_api_QueryGetIdentityResponseD(3)
              api_QueryGetIdentityResponse_field_decoder in
      \<open>simp_all add: fastReflection_QueryGetIdentityResponse_size_def fast_size_def\<close>)

end

interpretation api_QueryGetIdentityResponse_direct: api_QueryGetIdentityResponse_methods gogo_rt
    "api_Identity_ops gogo_rt"
  by (intro api_QueryGetIdentityResponse_methods.intro)
    (simp_all add: api_Params_direct.pulsar_embedded_axioms api_Identity_direct.pulsar_embedded_axioms
      api_Identity_ops_New)

subsection \<open>Reflection\<close>

definition fd_QueryGetIdentityResponse_identity :: field_desc where
  "fd_QueryGetIdentityResponse_identity =
      \<lparr>FullName = ''nexelra.identity.QueryGetIdentityResponse.identity'', IsExtension = False\<rparr>"

definition fastReflection_QueryGetIdentityResponse_Range ::
    "api_QueryGetIdentityResponse option \<Rightarrow> (field_desc \<Rightarrow> ('q, 'r) api_value \<Rightarrow> 's \<Rightarrow>
        ('s \<times> bool) res) \<Rightarrow> 's \<Rightarrow> 's res" where
  "fastReflection_QueryGetIdentityResponse_Range x f s = deref x (\<lambda>x.
     visit (api_QueryGetIdentityResponse_Identity x \<noteq> None) fd_QueryGetIdentityResponse_identity
         (ValueOfMessage (PtrIdentity (api_QueryGetIdentityResponse_Identity x))) f s (\<lambda>s. Ok s))"

definition fastReflection_QueryGetIdentityResponse_Has :: "api_QueryGetIdentityResponse option \<Rightarrow>
    field_desc \<Rightarrow> bool res" where
  "fastReflection_QueryGetIdentityResponse_Has x fd =
     (if FullName fd = ''nexelra.identity.QueryGetIdentityResponse.identity'' then deref x (\<lambda>x. Ok
         (api_QueryGetIdentityResponse_Identity x \<noteq> None))
      else unknown_field fd)"

definition fastReflection_QueryGetIdentityResponse_Clear :: "api_QueryGetIdentityResponse option \<Rightarrow>
    field_desc \<Rightarrow> api_QueryGetIdentityResponse res" where
  "fastReflection_QueryGetIdentityResponse_Clear x fd =
     (if FullName fd = ''nexelra.identity.QueryGetIdentityResponse.identity'' then deref x (\<lambda>x. Ok
         (x\<lparr>api_QueryGetIdentityResponse_Identity := None\<rparr>))
      else unknown_field fd)"

definition fastReflection_QueryGetIdentityResponse_Get :: "api_QueryGetIdentityResponse option \<Rightarrow>
    field_desc \<Rightarrow> ('q, 'r) api_value res" where
  "fastReflection_QueryGetIdentityResponse_Get x descriptor =
     (if FullName descriptor = ''nexelra.identity.QueryGetIdentityResponse.identity'' then deref x
         (\<lambda>x. Ok (ValueOfMessage (PtrIdentity (api_QueryGetIdentityResponse_Identity x))))
      else unknown_field descriptor)"

definition fastReflection_QueryGetIdentityResponse_Set :: "api_QueryGetIdentityResponse option \<Rightarrow>
    field_desc \<Rightarrow> ('q, 'r) api_value \<Rightarrow> api_QueryGetIdentityResponse res" where
  "fastReflection_QueryGetIdentityResponse_Set x fd value =
     (if FullName fd = ''nexelra.identity.QueryGetIdentityResponse.identity'' then deref x (\<lambda>x.
          bind_res (message_value value) (\<lambda>v. bind_res (as_Identity v) (\<lambda>v. Ok
              (x\<lparr>api_QueryGetIdentityResponse_Identity := v\<rparr>))))
      else unknown_field fd)"

definition fastReflection_QueryGetIdentityResponse_Mutable ::
    "api_QueryGetIdentityResponse option \<Rightarrow> field_desc \<Rightarrow> (api_QueryGetIdentityResponse \<times>
        ('q, 'r) api_value) res" where
  "fastReflection_QueryGetIdentityResponse_Mutable x fd =
     (if FullName fd = ''nexelra.identity.QueryGetIdentityResponse.identity'' then deref x (\<lambda>x.
          let x = (if api_QueryGetIdentityResponse_Identity x = None
              then x\<lparr>api_QueryGetIdentityResponse_Identity := Some zero_api_Identity\<rparr> else x)
          in Ok (x, ValueOfMessage (PtrIdentity (api_QueryGetIdentityResponse_Identity x))))
      else unknown_field fd)"

definition fastReflection_QueryGetIdentityResponse_NewField :: "field_desc \<Rightarrow> ('q, 'r)
    api_value res" where
  "fastReflection_QueryGetIdentityResponse_NewField fd =
     (if FullName fd = ''nexelra.identity.QueryGetIdentityResponse.identity'' then Ok
         (ValueOfMessage (PtrIdentity (Some zero_api_Identity)))
      else unknown_field fd)"

definition fastReflection_QueryGetIdentityResponse_WhichOneof :: "api_QueryGetIdentityResponse
    option \<Rightarrow> string \<Rightarrow> field_desc res" where
  "fastReflection_QueryGetIdentityResponse_WhichOneof x d = Panic"

definition fastReflection_QueryGetIdentityResponse_GetUnknown :: "api_QueryGetIdentityResponse
    option \<Rightarrow> bytes res" where
  "fastReflection_QueryGetIdentityResponse_GetUnknown x = deref x (\<lambda>x. Ok
      (api_QueryGetIdentityResponse_unknownFields x))"

definition fastReflection_QueryGetIdentityResponse_SetUnknown :: "api_QueryGetIdentityResponse
    option \<Rightarrow> bytes \<Rightarrow> api_QueryGetIdentityResponse res" where
  "fastReflection_QueryGetIdentityResponse_SetUnknown x raw = deref x (\<lambda>x. Ok
      (x\<lparr>api_QueryGetIdentityResponse_unknownFields := raw\<rparr>))"

definition fastReflection_QueryGetIdentityResponse_IsValid :: "api_QueryGetIdentityResponse option
    \<Rightarrow> bool" where
  "fastReflection_QueryGetIdentityResponse_IsValid x \<longleftrightarrow> x \<noteq> None"

definition fastReflection_QueryGetIdentityResponse_New ::
    "api_QueryGetIdentityResponse option" where
  "fastReflection_QueryGetIdentityResponse_New = Some zero_api_QueryGetIdentityResponse"

lemma api_QueryGetIdentityResponse_reflect:
  "fastReflection_QueryGetIdentityResponse_Has (Some x) fd_QueryGetIdentityResponse_identity = Ok
      (api_QueryGetIdentityResponse_Identity x \<noteq> None)"
  "fastReflection_QueryGetIdentityResponse_Get (Some x) fd_QueryGetIdentityResponse_identity = Ok
      (ValueOfMessage (PtrIdentity (api_QueryGetIdentityResponse_Identity x)))"
  "fastReflection_QueryGetIdentityResponse_Clear (Some x) fd_QueryGetIdentityResponse_identity =
      Ok (x\<lparr>api_QueryGetIdentityResponse_Identity := None\<rparr>)"
  "fastReflection_QueryGetIdentityResponse_Set (Some x) fd_QueryGetIdentityResponse_identity value =
      bind_res (message_value value) (\<lambda>v. bind_res (as_Identity v) (\<lambda>v. Ok
          (x\<lparr>api_QueryGetIdentityResponse_Identity := v\<rparr>)))"
  by (simp_all add: fastReflection_QueryGetIdentityResponse_Has_def
      fastReflection_QueryGetIdentityResponse_Get_def
          fastReflection_QueryGetIdentityResponse_Clear_def
              fastReflection_QueryGetIdentityResponse_Set_def fd_QueryGetIdentityResponse_identity_def)

lemma api_QueryGetIdentityResponse_no_field:
  assumes "FullName fd \<notin> FullName ` set [fd_QueryGetIdentityResponse_identity]"
  shows "fastReflection_QueryGetIdentityResponse_Has x fd = Panic"
      "fastReflection_QueryGetIdentityResponse_Get x fd = Panic"
          "fastReflection_QueryGetIdentityResponse_Set x fd value = Panic"
              "fastReflection_QueryGetIdentityResponse_Clear x fd = Panic"
  using assms by (simp_all add: fastReflection_QueryGetIdentityResponse_Has_def
      fastReflection_QueryGetIdentityResponse_Get_def
          fastReflection_QueryGetIdentityResponse_Clear_def
              fastReflection_QueryGetIdentityResponse_Set_def fd_QueryGetIdentityResponse_identity_def)

lemma api_QueryGetIdentityResponse_fds: "distinct (map
    FullName [fd_QueryGetIdentityResponse_identity])"
        "distinct [fd_QueryGetIdentityResponse_identity]"
  by (simp_all add: fd_QueryGetIdentityResponse_identity_def)

interpretation api_QueryGetIdentityResponse_message: fast_message
    "[fd_QueryGetIdentityResponse_identity]"
  fastReflection_QueryGetIdentityResponse_Has fastReflection_QueryGetIdentityResponse_Get
      fastReflection_QueryGetIdentityResponse_Set fastReflection_QueryGetIdentityResponse_Clear
  fastReflection_QueryGetIdentityResponse_Range
      api_QueryGetIdentityResponse_unknownFields zero_api_QueryGetIdentityResponse
proof unfold_locales
  fix m n :: "api_QueryGetIdentityResponse"
  assume h: "\<forall>fd \<in> set [fd_QueryGetIdentityResponse_identity].
      fastReflection_QueryGetIdentityResponse_Has (Some m) fd =
          fastReflection_QueryGetIdentityResponse_Has (Some n) fd
      \<and> (fastReflection_QueryGetIdentityResponse_Has (Some m) fd = Ok True \<longrightarrow>
          fastReflection_QueryGetIdentityResponse_Get (Some m) fd =
              fastReflection_QueryGetIdentityResponse_Get (Some n) fd)"
    and u: "api_QueryGetIdentityResponse_unknownFields m =
        api_QueryGetIdentityResponse_unknownFields n"
  have e0: "api_QueryGetIdentityResponse_Identity m = api_QueryGetIdentityResponse_Identity n"
    by (rule same_field [OF h, where fd = fd_QueryGetIdentityResponse_identity and d = "None" and
        V = "\<lambda>v. ValueOfMessage (PtrIdentity v)"])
      (simp_all add: api_QueryGetIdentityResponse_reflect split: if_splits)
  from u e0 show "m = n" by simp
next
  fix m :: "api_QueryGetIdentityResponse" and f :: "field_desc \<Rightarrow> ('q, 'r) api_value \<Rightarrow>
      api_QueryGetIdentityResponse \<Rightarrow> (api_QueryGetIdentityResponse \<times> bool) res" and s
  show "fastReflection_QueryGetIdentityResponse_Range (Some m) f s = visits (populated
      fastReflection_QueryGetIdentityResponse_Has fastReflection_QueryGetIdentityResponse_Get
          m [fd_QueryGetIdentityResponse_identity]) f s"
    by (simp add: fastReflection_QueryGetIdentityResponse_Range_def 
      visits_populated [where has = fastReflection_QueryGetIdentityResponse_Has and
          get = fastReflection_QueryGetIdentityResponse_Get,
              OF api_QueryGetIdentityResponse_reflect(1,2)]
      visits_Nil del: populated.simps)
next
  fix fd :: field_desc and x :: "api_QueryGetIdentityResponse option" and v
  assume "FullName fd \<notin> FullName ` set [fd_QueryGetIdentityResponse_identity]"
  then show "fastReflection_QueryGetIdentityResponse_Has x fd = Panic \<and>
      fastReflection_QueryGetIdentityResponse_Get x fd = Panic \<and>
          fastReflection_QueryGetIdentityResponse_Set x fd v = Panic
      \<and> fastReflection_QueryGetIdentityResponse_Clear x fd = Panic"
    by (intro conjI api_QueryGetIdentityResponse_no_field)
next
  fix fd :: field_desc and m n :: "api_QueryGetIdentityResponse" and v
  assume "fd \<in> set [fd_QueryGetIdentityResponse_identity]"
      "fastReflection_QueryGetIdentityResponse_Has (Some m) fd = Ok True"
          "fastReflection_QueryGetIdentityResponse_Get (Some m) fd = Ok v"
  then show "\<exists>n'. fastReflection_QueryGetIdentityResponse_Set (Some n) fd v = Ok n' \<and>
      fastReflection_QueryGetIdentityResponse_Get (Some n') fd = Ok v \<and>
          fastReflection_QueryGetIdentityResponse_Has (Some n') fd = Ok True"
    by (fastforce simp: api_QueryGetIdentityResponse_reflect)
next
  fix fd :: field_desc and n n' :: "api_QueryGetIdentityResponse" and v
  assume "fd \<in> set [fd_QueryGetIdentityResponse_identity]"
      "fastReflection_QueryGetIdentityResponse_Set (Some n) fd v = Ok n'"
  then have "fd = fd_QueryGetIdentityResponse_identity \<and>
      (\<exists>v. n' = n\<lparr>api_QueryGetIdentityResponse_Identity := v\<rparr>)"
    by (auto simp: api_QueryGetIdentityResponse_reflect res_simps
        deref_def split: option.splits; blast)
  then show "api_QueryGetIdentityResponse_unknownFields n' =
      api_QueryGetIdentityResponse_unknownFields n \<and> (\<forall>fd' \<in>
          set [fd_QueryGetIdentityResponse_identity]. fd' \<noteq> fd
      \<longrightarrow> fastReflection_QueryGetIdentityResponse_Has (Some n') fd' =
          fastReflection_QueryGetIdentityResponse_Has (Some n) fd' \<and>
              fastReflection_QueryGetIdentityResponse_Get (Some n') fd' =
                  fastReflection_QueryGetIdentityResponse_Get (Some n) fd')"
    by (auto simp: api_QueryGetIdentityResponse_reflect)
next
  fix fd :: field_desc and n :: "api_QueryGetIdentityResponse"
  assume "fd \<in> set [fd_QueryGetIdentityResponse_identity]"
  then obtain n' where c: "fastReflection_QueryGetIdentityResponse_Clear (Some n) fd = Ok n'"
      "fd = fd_QueryGetIdentityResponse_identity
          \<and> n' = n\<lparr>api_QueryGetIdentityResponse_Identity := None\<rparr>"
    by (auto simp: api_QueryGetIdentityResponse_reflect)
  then have "fastReflection_QueryGetIdentityResponse_Has (Some n') fd = Ok False \<and>
      api_QueryGetIdentityResponse_unknownFields n' = api_QueryGetIdentityResponse_unknownFields n
      \<and> (\<forall>fd' \<in> set [fd_QueryGetIdentityResponse_identity]. fd' \<noteq> fd
      \<longrightarrow> fastReflection_QueryGetIdentityResponse_Has (Some n') fd' =
          fastReflection_QueryGetIdentityResponse_Has (Some n) fd' \<and>
              fastReflection_QueryGetIdentityResponse_Get (Some n') fd' =
                  fastReflection_QueryGetIdentityResponse_Get (Some n) fd')"
    by (auto simp: api_QueryGetIdentityResponse_reflect)
  with c(1) show "\<exists>n'. fastReflection_QueryGetIdentityResponse_Clear (Some n) fd = Ok n' \<and>
      fastReflection_QueryGetIdentityResponse_Has (Some n') fd = Ok False \<and>
          api_QueryGetIdentityResponse_unknownFields n' =
              api_QueryGetIdentityResponse_unknownFields n
      \<and> (\<forall>fd' \<in> set [fd_QueryGetIdentityResponse_identity]. fd' \<noteq> fd
      \<longrightarrow> fastReflection_QueryGetIdentityResponse_Has (Some n') fd' =
          fastReflection_QueryGetIdentityResponse_Has (Some n) fd' \<and>
              fastReflection_QueryGetIdentityResponse_Get (Some n') fd' =
                  fastReflection_QueryGetIdentityResponse_Get (Some n) fd')"
    by blast
qed (use api_QueryGetIdentityResponse_fds in \<open>auto simp:
    api_QueryGetIdentityResponse_reflect zero_api_QueryGetIdentityResponse_def\<close>)

end
