(* ===== verification/PulsarPages.thy ===== *)
theory PulsarPages
  imports PulsarIdentity
begin

text \<open>
  \<open>api/nexelra/identity/query.pulsar.go\<close>, second half: the messages of \<open>IdentityAll\<close> and
  \<open>IdentityByCccdId\<close>, which embed the pages of the Cosmos SDK. The functions for these are the
  parameters \<open>PageRequest_ops\<close> and \<open>PageResponse_ops\<close>.
\<close>

section \<open>QueryAllIdentityRequest\<close>

record 'q api_QueryAllIdentityRequest =
  api_QueryAllIdentityRequest_Pagination :: "'q option"
  api_QueryAllIdentityRequest_unknownFields :: bytes

definition zero_api_QueryAllIdentityRequest :: "'q api_QueryAllIdentityRequest" where
  "zero_api_QueryAllIdentityRequest = \<lparr>api_QueryAllIdentityRequest_Pagination = None,
      api_QueryAllIdentityRequest_unknownFields = []\<rparr>"

definition QueryAllIdentityRequest_GetPagination :: "'q api_QueryAllIdentityRequest option
    \<Rightarrow> 'q option" where
  "QueryAllIdentityRequest_GetPagination x = (case x of None \<Rightarrow> None | Some x \<Rightarrow>
      api_QueryAllIdentityRequest_Pagination x)"

subsection \<open>Size, marshal and unmarshal\<close>

definition fastReflection_QueryAllIdentityRequest_size :: "pulsar_rt \<Rightarrow> 'q proto_ops \<Rightarrow> 'q
    api_QueryAllIdentityRequest option \<Rightarrow> int" where
  "fastReflection_QueryAllIdentityRequest_size rt PageRequest_ops = fast_size (\<lambda>x. rt_size_opt_msg
      rt PageRequest_ops (api_QueryAllIdentityRequest_Pagination x) + size_unknown
          (api_QueryAllIdentityRequest_unknownFields x))"

definition fastReflection_QueryAllIdentityRequest_marshal ::
    "pulsar_rt \<Rightarrow> 'q proto_ops \<Rightarrow> ('q api_QueryAllIdentityRequest option \<Rightarrow> int) \<Rightarrow> 'q
        api_QueryAllIdentityRequest option \<Rightarrow> bytes option \<Rightarrow> bytes option res" where
  "fastReflection_QueryAllIdentityRequest_marshal rt PageRequest_ops options_Size = fast_marshal
      options_Size (\<lambda>x. \<lambda>st.
     bind_res (put_unknown (api_QueryAllIdentityRequest_unknownFields x) st)
       (rt_put_opt_msg rt PageRequest_ops 0xa (api_QueryAllIdentityRequest_Pagination x)))"

definition fastReflection_QueryAllIdentityRequest_field :: "pulsar_rt \<Rightarrow> 'q proto_ops \<Rightarrow> bool \<Rightarrow> 'q
    api_QueryAllIdentityRequest field_reader" where
  "fastReflection_QueryAllIdentityRequest_field rt PageRequest_ops discard d i x =
     bind_res (read_tag ''QueryAllIdentityRequest'' d i) (\<lambda>(fieldNum, wireType, j).
       if fieldNum = 1 then bind_res (read_len ''Pagination'' wireType d j)
         (\<lambda>(s, j). bind_res (op_Unmarshal PageRequest_ops s (case
             api_QueryAllIdentityRequest_Pagination x of None \<Rightarrow> (op_New PageRequest_ops) | Some p
                 \<Rightarrow> p))
           (\<lambda>p. Ok (j, x\<lparr>api_QueryAllIdentityRequest_Pagination := Some p\<rparr>)))
       else bind_res (rt_skip_unknown rt d i) (\<lambda>(s, j).
         Ok (j, x\<lparr>api_QueryAllIdentityRequest_unknownFields := keep_unknown discard
             (api_QueryAllIdentityRequest_unknownFields x) s\<rparr>)))"

definition fastReflection_QueryAllIdentityRequest_unmarshal ::
    "pulsar_rt \<Rightarrow> 'q proto_ops \<Rightarrow> bool \<Rightarrow> bytes \<Rightarrow> 'q api_QueryAllIdentityRequest option \<Rightarrow> 'q
        api_QueryAllIdentityRequest option res" where
  "fastReflection_QueryAllIdentityRequest_unmarshal rt PageRequest_ops discard = fast_unmarshal
      (fastReflection_QueryAllIdentityRequest_field rt PageRequest_ops discard)"

definition api_QueryAllIdentityRequest_ops :: "pulsar_rt \<Rightarrow> 'q proto_ops \<Rightarrow> 'q
    api_QueryAllIdentityRequest proto_ops" where
  "api_QueryAllIdentityRequest_ops rt PageRequest_ops = direct_ops
      zero_api_QueryAllIdentityRequest (fastReflection_QueryAllIdentityRequest_size
          rt PageRequest_ops)
     (fastReflection_QueryAllIdentityRequest_marshal rt PageRequest_ops
         (fastReflection_QueryAllIdentityRequest_size rt PageRequest_ops))
             (fastReflection_QueryAllIdentityRequest_unmarshal rt PageRequest_ops False)"

definition enc_api_QueryAllIdentityRequest :: "('q \<Rightarrow> bytes) \<Rightarrow> 'q api_QueryAllIdentityRequest
    \<Rightarrow> bytes" where
  "enc_api_QueryAllIdentityRequest enc_PageRequest x = enc_opt_msg 0xa enc_PageRequest
      (api_QueryAllIdentityRequest_Pagination x) @ api_QueryAllIdentityRequest_unknownFields x"

definition wf_api_QueryAllIdentityRequest :: "('q \<Rightarrow> bytes) \<Rightarrow> ('q \<Rightarrow> bool) \<Rightarrow> 'q
    api_QueryAllIdentityRequest \<Rightarrow> bool" where
  "wf_api_QueryAllIdentityRequest enc_PageRequest wf_PageRequest x \<longleftrightarrow> fits
      (enc_api_QueryAllIdentityRequest enc_PageRequest x)
     \<and> foreign {1} (api_QueryAllIdentityRequest_unknownFields x)
     \<and> (\<forall>p. api_QueryAllIdentityRequest_Pagination x = Some p \<longrightarrow> wf_PageRequest p)"

locale api_QueryAllIdentityRequest_methods =
  PageRequest: pulsar_embedded rt PageRequest_ops enc_PageRequest wf_PageRequest
      "op_New PageRequest_ops"
  for rt :: pulsar_rt and PageRequest_ops :: "'q proto_ops"
    and enc_PageRequest :: "'q \<Rightarrow> bytes" and wf_PageRequest :: "'q \<Rightarrow> bool"
begin

lemma wf_api_QueryAllIdentityRequestD:
  assumes "wf_api_QueryAllIdentityRequest enc_PageRequest wf_PageRequest x"
  shows "\<And>p. api_QueryAllIdentityRequest_Pagination x = Some p \<Longrightarrow> wf_PageRequest p"
    and "fits (api_QueryAllIdentityRequest_unknownFields x)"
    and "fits (enc_api_QueryAllIdentityRequest enc_PageRequest x)"
    and "foreign {1} (api_QueryAllIdentityRequest_unknownFields x)"
  using assms
  by (auto simp: wf_api_QueryAllIdentityRequest_def enc_api_QueryAllIdentityRequest_def
      image_iff intro!: map_idI dest!: fits_appendD bspec dest: fits_enc_str)

lemma api_QueryAllIdentityRequest_size:
  assumes "wf_api_QueryAllIdentityRequest enc_PageRequest wf_PageRequest x"
  shows "fastReflection_QueryAllIdentityRequest_size rt PageRequest_ops (Some x) = int (length
      (enc_api_QueryAllIdentityRequest enc_PageRequest x))"
  using wf_api_QueryAllIdentityRequestD [OF assms] size_unknown_eq [of
      "api_QueryAllIdentityRequest_unknownFields x"]
    PageRequest.size_opt_msg_length [of "api_QueryAllIdentityRequest_Pagination x" "0xa"]
  by (simp add: fastReflection_QueryAllIdentityRequest_size_def
      fast_size_def enc_api_QueryAllIdentityRequest_def)

lemma api_QueryAllIdentityRequest_writes:
  assumes "wf_api_QueryAllIdentityRequest enc_PageRequest wf_PageRequest x"
  shows "writes (\<lambda>st.
     bind_res (put_unknown (api_QueryAllIdentityRequest_unknownFields x) st)
       (rt_put_opt_msg rt PageRequest_ops 0xa (api_QueryAllIdentityRequest_Pagination x)))
           (enc_api_QueryAllIdentityRequest enc_PageRequest x)"
proof -
  note D = wf_api_QueryAllIdentityRequestD [OF assms]
  show ?thesis
    unfolding enc_api_QueryAllIdentityRequest_def append_assoc [symmetric]
    by (intro writes_bind writes_unknown PageRequest.put_opt_msg_writes D)
qed

lemma api_QueryAllIdentityRequest_field_decoder: "field_decoder
    (fastReflection_QueryAllIdentityRequest_field rt PageRequest_ops discard)"
  unfolding fastReflection_QueryAllIdentityRequest_field_def [abs_def]
  by (rule field_decoderI) (intro part_intros PageRequest.op_total PageRequest.part_skip_rt; simp)

lemma api_QueryAllIdentityRequest_reads:
  assumes "wf_api_QueryAllIdentityRequest enc_PageRequest wf_PageRequest x"
  shows "reads (fastReflection_QueryAllIdentityRequest_field rt PageRequest_ops False)
      (enc_api_QueryAllIdentityRequest enc_PageRequest x) zero_api_QueryAllIdentityRequest x"
proof -
  let ?f = "fastReflection_QueryAllIdentityRequest_field rt PageRequest_ops False"
  note D = wf_api_QueryAllIdentityRequestD [OF assms]
  let ?s1 = "zero_api_QueryAllIdentityRequest\<lparr>api_QueryAllIdentityRequest_Pagination :=
      api_QueryAllIdentityRequest_Pagination x\<rparr>"
  have r0: "reads ?f (enc_opt_msg 0xa enc_PageRequest
      (api_QueryAllIdentityRequest_Pagination x)) zero_api_QueryAllIdentityRequest
      ?s1"
    using D by (intro reads_opt_msg reads_one_len [where t = "0xa" and name =
        "''QueryAllIdentityRequest''" and f = "''Pagination''"])
      (simp_all add: fastReflection_QueryAllIdentityRequest_field_def
          zero_api_QueryAllIdentityRequest_def PageRequest.op_unmarshal)
  have ru: "reads ?f (api_QueryAllIdentityRequest_unknownFields x) ?s1
      (?s1\<lparr>api_QueryAllIdentityRequest_unknownFields :=
          api_QueryAllIdentityRequest_unknownFields x\<rparr>)"
    using PageRequest.reads_foreign [of _ "api_QueryAllIdentityRequest_unknownFields x"
        "''QueryAllIdentityRequest''" ?f "\<lambda>w. ?s1\<lparr>api_QueryAllIdentityRequest_unknownFields := w\<rparr>"
            "[]", OF D(4)]
    by (simp add: fastReflection_QueryAllIdentityRequest_field_def
        zero_api_QueryAllIdentityRequest_def keep_unknown_def)
  have "?s1\<lparr>api_QueryAllIdentityRequest_unknownFields :=
      api_QueryAllIdentityRequest_unknownFields x\<rparr> = x" by (cases x)
          (simp add: zero_api_QueryAllIdentityRequest_def)
  with ru have "reads ?f (api_QueryAllIdentityRequest_unknownFields x) ?s1 x" by simp
  then show ?thesis
    unfolding enc_api_QueryAllIdentityRequest_def by (intro reads_append [OF r0])
qed

lemma api_QueryAllIdentityRequest_proto: "proto_methods (api_QueryAllIdentityRequest_ops
    rt PageRequest_ops) (enc_api_QueryAllIdentityRequest enc_PageRequest)
        (wf_api_QueryAllIdentityRequest
            enc_PageRequest wf_PageRequest) zero_api_QueryAllIdentityRequest"
  unfolding api_QueryAllIdentityRequest_ops_def fastReflection_QueryAllIdentityRequest_size_def
      fastReflection_QueryAllIdentityRequest_marshal_def fastReflection_QueryAllIdentityRequest_unmarshal_def
  by (rule direct_methods) (use api_QueryAllIdentityRequest_size
      api_QueryAllIdentityRequest_writes
          api_QueryAllIdentityRequest_reads wf_api_QueryAllIdentityRequestD(3)
              api_QueryAllIdentityRequest_field_decoder in
      \<open>simp_all add: fastReflection_QueryAllIdentityRequest_size_def fast_size_def\<close>)

end

interpretation api_QueryAllIdentityRequest_direct: api_QueryAllIdentityRequest_methods gogo_rt
    "api_Identity_ops gogo_rt" enc_api_Identity wf_api_Identity
  by (intro api_QueryAllIdentityRequest_methods.intro)
    (simp_all add: api_Params_direct.pulsar_embedded_axioms api_Identity_direct.pulsar_embedded_axioms
      api_Identity_ops_New)

subsection \<open>Reflection\<close>

definition fd_QueryAllIdentityRequest_pagination :: field_desc where
  "fd_QueryAllIdentityRequest_pagination =
      \<lparr>FullName = ''nexelra.identity.QueryAllIdentityRequest.pagination'', IsExtension = False\<rparr>"

definition fastReflection_QueryAllIdentityRequest_Range ::
    "'q api_QueryAllIdentityRequest option \<Rightarrow> (field_desc \<Rightarrow> ('q, 'r) api_value \<Rightarrow> 's \<Rightarrow>
        ('s \<times> bool) res) \<Rightarrow> 's \<Rightarrow> 's res" where
  "fastReflection_QueryAllIdentityRequest_Range x f s = deref x (\<lambda>x.
     visit (api_QueryAllIdentityRequest_Pagination x \<noteq> None) fd_QueryAllIdentityRequest_pagination
         (ValueOfMessage (PtrPageRequest (api_QueryAllIdentityRequest_Pagination x))) f s (\<lambda>s.
             Ok s))"

definition fastReflection_QueryAllIdentityRequest_Has :: "'q api_QueryAllIdentityRequest option \<Rightarrow>
    field_desc \<Rightarrow> bool res" where
  "fastReflection_QueryAllIdentityRequest_Has x fd =
     (if FullName fd = ''nexelra.identity.QueryAllIdentityRequest.pagination'' then deref x (\<lambda>x.
         Ok (api_QueryAllIdentityRequest_Pagination x \<noteq> None))
      else unknown_field fd)"

definition fastReflection_QueryAllIdentityRequest_Clear :: "'q api_QueryAllIdentityRequest option
    \<Rightarrow> field_desc \<Rightarrow> 'q api_QueryAllIdentityRequest res" where
  "fastReflection_QueryAllIdentityRequest_Clear x fd =
     (if FullName fd = ''nexelra.identity.QueryAllIdentityRequest.pagination'' then deref x (\<lambda>x.
         Ok (x\<lparr>api_QueryAllIdentityRequest_Pagination := None\<rparr>))
      else unknown_field fd)"

definition fastReflection_QueryAllIdentityRequest_Get :: "'q api_QueryAllIdentityRequest option \<Rightarrow>
    field_desc \<Rightarrow> ('q, 'r) api_value res" where
  "fastReflection_QueryAllIdentityRequest_Get x descriptor =
     (if FullName descriptor = ''nexelra.identity.QueryAllIdentityRequest.pagination'' then deref
         x (\<lambda>x. Ok (ValueOfMessage (PtrPageRequest (api_QueryAllIdentityRequest_Pagination x))))
      else unknown_field descriptor)"

definition fastReflection_QueryAllIdentityRequest_Set :: "'q api_QueryAllIdentityRequest option \<Rightarrow>
    field_desc \<Rightarrow> ('q, 'r) api_value \<Rightarrow> 'q api_QueryAllIdentityRequest res" where
  "fastReflection_QueryAllIdentityRequest_Set x fd value =
     (if FullName fd = ''nexelra.identity.QueryAllIdentityRequest.pagination'' then deref x (\<lambda>x.
          bind_res (message_value value) (\<lambda>v. bind_res (as_PageRequest v) (\<lambda>v. Ok
              (x\<lparr>api_QueryAllIdentityRequest_Pagination := v\<rparr>))))
      else unknown_field fd)"

definition fastReflection_QueryAllIdentityRequest_Mutable ::
    "'q proto_ops \<Rightarrow> 'q api_QueryAllIdentityRequest option \<Rightarrow> field_desc \<Rightarrow> ('q
        api_QueryAllIdentityRequest \<times> ('q, 'r) api_value) res" where
  "fastReflection_QueryAllIdentityRequest_Mutable PageRequest_ops x fd =
     (if FullName fd = ''nexelra.identity.QueryAllIdentityRequest.pagination'' then deref x (\<lambda>x.
          let x = (if api_QueryAllIdentityRequest_Pagination x = None
              then x\<lparr>api_QueryAllIdentityRequest_Pagination := Some (op_New PageRequest_ops)\<rparr>
                  else x)
          in Ok (x, ValueOfMessage (PtrPageRequest (api_QueryAllIdentityRequest_Pagination x))))
      else unknown_field fd)"

definition fastReflection_QueryAllIdentityRequest_NewField :: "'q proto_ops \<Rightarrow> field_desc \<Rightarrow>
    ('q, 'r) api_value res" where
  "fastReflection_QueryAllIdentityRequest_NewField PageRequest_ops fd =
     (if FullName fd = ''nexelra.identity.QueryAllIdentityRequest.pagination'' then Ok
         (ValueOfMessage (PtrPageRequest (Some (op_New PageRequest_ops))))
      else unknown_field fd)"

definition fastReflection_QueryAllIdentityRequest_WhichOneof :: "'q api_QueryAllIdentityRequest
    option \<Rightarrow> string \<Rightarrow> field_desc res" where
  "fastReflection_QueryAllIdentityRequest_WhichOneof x d = Panic"

definition fastReflection_QueryAllIdentityRequest_GetUnknown :: "'q api_QueryAllIdentityRequest
    option \<Rightarrow> bytes res" where
  "fastReflection_QueryAllIdentityRequest_GetUnknown x = deref x (\<lambda>x. Ok
      (api_QueryAllIdentityRequest_unknownFields x))"

definition fastReflection_QueryAllIdentityRequest_SetUnknown :: "'q api_QueryAllIdentityRequest
    option \<Rightarrow> bytes \<Rightarrow> 'q api_QueryAllIdentityRequest res" where
  "fastReflection_QueryAllIdentityRequest_SetUnknown x raw = deref x (\<lambda>x. Ok
      (x\<lparr>api_QueryAllIdentityRequest_unknownFields := raw\<rparr>))"

definition fastReflection_QueryAllIdentityRequest_IsValid :: "'q api_QueryAllIdentityRequest
    option \<Rightarrow> bool" where
  "fastReflection_QueryAllIdentityRequest_IsValid x \<longleftrightarrow> x \<noteq> None"

definition fastReflection_QueryAllIdentityRequest_New :: "'q
    api_QueryAllIdentityRequest option" where
  "fastReflection_QueryAllIdentityRequest_New = Some zero_api_QueryAllIdentityRequest"

lemma api_QueryAllIdentityRequest_reflect:
  "fastReflection_QueryAllIdentityRequest_Has (Some x) fd_QueryAllIdentityRequest_pagination = Ok
      (api_QueryAllIdentityRequest_Pagination x \<noteq> None)"
  "fastReflection_QueryAllIdentityRequest_Get (Some x) fd_QueryAllIdentityRequest_pagination = Ok
      (ValueOfMessage (PtrPageRequest (api_QueryAllIdentityRequest_Pagination x)))"
  "fastReflection_QueryAllIdentityRequest_Clear (Some x) fd_QueryAllIdentityRequest_pagination =
      Ok (x\<lparr>api_QueryAllIdentityRequest_Pagination := None\<rparr>)"
  "fastReflection_QueryAllIdentityRequest_Set (Some x) fd_QueryAllIdentityRequest_pagination value =
      bind_res (message_value value) (\<lambda>v. bind_res (as_PageRequest v) (\<lambda>v. Ok
          (x\<lparr>api_QueryAllIdentityRequest_Pagination := v\<rparr>)))"
  by (simp_all add: fastReflection_QueryAllIdentityRequest_Has_def
      fastReflection_QueryAllIdentityRequest_Get_def
          fastReflection_QueryAllIdentityRequest_Clear_def
              fastReflection_QueryAllIdentityRequest_Set_def fd_QueryAllIdentityRequest_pagination_def)

lemma api_QueryAllIdentityRequest_no_field:
  assumes "FullName fd \<notin> FullName ` set [fd_QueryAllIdentityRequest_pagination]"
  shows "fastReflection_QueryAllIdentityRequest_Has x fd = Panic"
      "fastReflection_QueryAllIdentityRequest_Get x fd = Panic"
          "fastReflection_QueryAllIdentityRequest_Set x fd value = Panic"
              "fastReflection_QueryAllIdentityRequest_Clear x fd = Panic"
  using assms by (simp_all add: fastReflection_QueryAllIdentityRequest_Has_def
      fastReflection_QueryAllIdentityRequest_Get_def
          fastReflection_QueryAllIdentityRequest_Clear_def
              fastReflection_QueryAllIdentityRequest_Set_def fd_QueryAllIdentityRequest_pagination_def)

lemma api_QueryAllIdentityRequest_fds: "distinct (map
    FullName [fd_QueryAllIdentityRequest_pagination])"
        "distinct [fd_QueryAllIdentityRequest_pagination]"
  by (simp_all add: fd_QueryAllIdentityRequest_pagination_def)

interpretation api_QueryAllIdentityRequest_message: fast_message
    "[fd_QueryAllIdentityRequest_pagination]"
  fastReflection_QueryAllIdentityRequest_Has fastReflection_QueryAllIdentityRequest_Get
      fastReflection_QueryAllIdentityRequest_Set fastReflection_QueryAllIdentityRequest_Clear
  fastReflection_QueryAllIdentityRequest_Range
      api_QueryAllIdentityRequest_unknownFields zero_api_QueryAllIdentityRequest
proof unfold_locales
  fix m n :: "'q api_QueryAllIdentityRequest"
  assume h: "\<forall>fd \<in> set [fd_QueryAllIdentityRequest_pagination].
      fastReflection_QueryAllIdentityRequest_Has (Some m) fd =
          fastReflection_QueryAllIdentityRequest_Has (Some n) fd
      \<and> (fastReflection_QueryAllIdentityRequest_Has (Some m) fd = Ok True \<longrightarrow>
          fastReflection_QueryAllIdentityRequest_Get (Some m) fd =
              fastReflection_QueryAllIdentityRequest_Get (Some n) fd)"
    and u: "api_QueryAllIdentityRequest_unknownFields m =
        api_QueryAllIdentityRequest_unknownFields n"
  have e0: "api_QueryAllIdentityRequest_Pagination m = api_QueryAllIdentityRequest_Pagination n"
    by (rule same_field [OF h, where fd = fd_QueryAllIdentityRequest_pagination and d = "None" and
        V = "\<lambda>v. ValueOfMessage (PtrPageRequest v)"])
      (simp_all add: api_QueryAllIdentityRequest_reflect split: if_splits)
  from u e0 show "m = n" by simp
next
  fix m :: "'q api_QueryAllIdentityRequest" and f :: "field_desc \<Rightarrow> ('q, 'r) api_value \<Rightarrow> 'q
      api_QueryAllIdentityRequest \<Rightarrow> ('q api_QueryAllIdentityRequest \<times> bool) res" and s
  show "fastReflection_QueryAllIdentityRequest_Range (Some m) f s = visits (populated
      fastReflection_QueryAllIdentityRequest_Has fastReflection_QueryAllIdentityRequest_Get
          m [fd_QueryAllIdentityRequest_pagination]) f s"
    by (simp add: fastReflection_QueryAllIdentityRequest_Range_def 
      visits_populated [where has = fastReflection_QueryAllIdentityRequest_Has and
          get = fastReflection_QueryAllIdentityRequest_Get,
              OF api_QueryAllIdentityRequest_reflect(1,2)]
      visits_Nil del: populated.simps)
next
  fix fd :: field_desc and x :: "'q api_QueryAllIdentityRequest option" and v
  assume "FullName fd \<notin> FullName ` set [fd_QueryAllIdentityRequest_pagination]"
  then show "fastReflection_QueryAllIdentityRequest_Has x fd = Panic \<and>
      fastReflection_QueryAllIdentityRequest_Get x fd = Panic \<and>
          fastReflection_QueryAllIdentityRequest_Set x fd v = Panic
      \<and> fastReflection_QueryAllIdentityRequest_Clear x fd = Panic"
    by (intro conjI api_QueryAllIdentityRequest_no_field)
next
  fix fd :: field_desc and m n :: "'q api_QueryAllIdentityRequest" and v
  assume "fd \<in> set [fd_QueryAllIdentityRequest_pagination]"
      "fastReflection_QueryAllIdentityRequest_Has (Some m) fd = Ok True"
          "fastReflection_QueryAllIdentityRequest_Get (Some m) fd = Ok v"
  then show "\<exists>n'. fastReflection_QueryAllIdentityRequest_Set (Some n) fd v = Ok n' \<and>
      fastReflection_QueryAllIdentityRequest_Get (Some n') fd = Ok v \<and>
          fastReflection_QueryAllIdentityRequest_Has (Some n') fd = Ok True"
    by (fastforce simp: api_QueryAllIdentityRequest_reflect)
next
  fix fd :: field_desc and n n' :: "'q api_QueryAllIdentityRequest" and v
  assume "fd \<in> set [fd_QueryAllIdentityRequest_pagination]"
      "fastReflection_QueryAllIdentityRequest_Set (Some n) fd v = Ok n'"
  then have "fd = fd_QueryAllIdentityRequest_pagination \<and>
      (\<exists>v. n' = n\<lparr>api_QueryAllIdentityRequest_Pagination := v\<rparr>)"
    by (auto simp: api_QueryAllIdentityRequest_reflect res_simps
        deref_def split: option.splits; blast)
  then show "api_QueryAllIdentityRequest_unknownFields n' =
      api_QueryAllIdentityRequest_unknownFields n \<and> (\<forall>fd' \<in>
          set [fd_QueryAllIdentityRequest_pagination]. fd' \<noteq> fd
      \<longrightarrow> fastReflection_QueryAllIdentityRequest_Has (Some n') fd' =
          fastReflection_QueryAllIdentityRequest_Has (Some n) fd' \<and>
              fastReflection_QueryAllIdentityRequest_Get (Some n') fd' =
                  fastReflection_QueryAllIdentityRequest_Get (Some n) fd')"
    by (auto simp: api_QueryAllIdentityRequest_reflect)
next
  fix fd :: field_desc and n :: "'q api_QueryAllIdentityRequest"
  assume "fd \<in> set [fd_QueryAllIdentityRequest_pagination]"
  then obtain n' where c: "fastReflection_QueryAllIdentityRequest_Clear (Some n) fd = Ok n'"
      "fd = fd_QueryAllIdentityRequest_pagination
          \<and> n' = n\<lparr>api_QueryAllIdentityRequest_Pagination := None\<rparr>"
    by (auto simp: api_QueryAllIdentityRequest_reflect)
  then have "fastReflection_QueryAllIdentityRequest_Has (Some n') fd = Ok False \<and>
      api_QueryAllIdentityRequest_unknownFields n' = api_QueryAllIdentityRequest_unknownFields n
      \<and> (\<forall>fd' \<in> set [fd_QueryAllIdentityRequest_pagination]. fd' \<noteq> fd
      \<longrightarrow> fastReflection_QueryAllIdentityRequest_Has (Some n') fd' =
          fastReflection_QueryAllIdentityRequest_Has (Some n) fd' \<and>
              fastReflection_QueryAllIdentityRequest_Get (Some n') fd' =
                  fastReflection_QueryAllIdentityRequest_Get (Some n) fd')"
    by (auto simp: api_QueryAllIdentityRequest_reflect)
  with c(1) show "\<exists>n'. fastReflection_QueryAllIdentityRequest_Clear (Some n) fd = Ok n' \<and>
      fastReflection_QueryAllIdentityRequest_Has (Some n') fd = Ok False \<and>
          api_QueryAllIdentityRequest_unknownFields n' = api_QueryAllIdentityRequest_unknownFields n
      \<and> (\<forall>fd' \<in> set [fd_QueryAllIdentityRequest_pagination]. fd' \<noteq> fd
      \<longrightarrow> fastReflection_QueryAllIdentityRequest_Has (Some n') fd' =
          fastReflection_QueryAllIdentityRequest_Has (Some n) fd' \<and>
              fastReflection_QueryAllIdentityRequest_Get (Some n') fd' =
                  fastReflection_QueryAllIdentityRequest_Get (Some n) fd')"
    by blast
qed (use api_QueryAllIdentityRequest_fds in \<open>auto simp:
    api_QueryAllIdentityRequest_reflect zero_api_QueryAllIdentityRequest_def\<close>)


section \<open>QueryAllIdentityResponse\<close>

record 'r api_QueryAllIdentityResponse =
  api_QueryAllIdentityResponse_Identity :: "api_Identity option list"
  api_QueryAllIdentityResponse_Pagination :: "'r option"
  api_QueryAllIdentityResponse_unknownFields :: bytes

definition zero_api_QueryAllIdentityResponse :: "'r api_QueryAllIdentityResponse" where
  "zero_api_QueryAllIdentityResponse = \<lparr>api_QueryAllIdentityResponse_Identity = [],
      api_QueryAllIdentityResponse_Pagination = None,
          api_QueryAllIdentityResponse_unknownFields = []\<rparr>"

definition QueryAllIdentityResponse_GetIdentity :: "'r api_QueryAllIdentityResponse option \<Rightarrow>
    api_Identity option list" where
  "QueryAllIdentityResponse_GetIdentity x = (case x of None \<Rightarrow> [] | Some x \<Rightarrow>
      api_QueryAllIdentityResponse_Identity x)"

definition QueryAllIdentityResponse_GetPagination :: "'r api_QueryAllIdentityResponse option
    \<Rightarrow> 'r option" where
  "QueryAllIdentityResponse_GetPagination x = (case x of None \<Rightarrow> None | Some x \<Rightarrow>
      api_QueryAllIdentityResponse_Pagination x)"

subsection \<open>Size, marshal and unmarshal\<close>

definition fastReflection_QueryAllIdentityResponse_size :: "pulsar_rt \<Rightarrow> api_Identity proto_ops
    \<Rightarrow> 'r proto_ops \<Rightarrow> 'r api_QueryAllIdentityResponse option \<Rightarrow> int" where
  "fastReflection_QueryAllIdentityResponse_size rt Identity_ops PageResponse_ops = fast_size (\<lambda>x.
      rt_size_msgs rt Identity_ops (api_QueryAllIdentityResponse_Identity x) + rt_size_opt_msg rt
          PageResponse_ops (api_QueryAllIdentityResponse_Pagination x) + size_unknown
              (api_QueryAllIdentityResponse_unknownFields x))"

definition fastReflection_QueryAllIdentityResponse_marshal ::
    "pulsar_rt \<Rightarrow> api_Identity proto_ops \<Rightarrow> 'r proto_ops \<Rightarrow> ('r api_QueryAllIdentityResponse option
        \<Rightarrow> int) \<Rightarrow> 'r api_QueryAllIdentityResponse option \<Rightarrow> bytes option \<Rightarrow> bytes option res" where
  "fastReflection_QueryAllIdentityResponse_marshal rt Identity_ops PageResponse_ops options_Size =
      fast_marshal options_Size (\<lambda>x. \<lambda>st.
     bind_res (put_unknown (api_QueryAllIdentityResponse_unknownFields x) st) (\<lambda>st.
     bind_res (rt_put_opt_msg rt PageResponse_ops 0x12
         (api_QueryAllIdentityResponse_Pagination x) st)
       (rt_put_msgs rt Identity_ops 0xa (api_QueryAllIdentityResponse_Identity x))))"

definition fastReflection_QueryAllIdentityResponse_field :: "pulsar_rt \<Rightarrow> api_Identity proto_ops
    \<Rightarrow> 'r proto_ops \<Rightarrow> bool \<Rightarrow> 'r api_QueryAllIdentityResponse field_reader" where
  "fastReflection_QueryAllIdentityResponse_field rt Identity_ops PageResponse_ops discard d i x =
     bind_res (read_tag ''QueryAllIdentityResponse'' d i) (\<lambda>(fieldNum, wireType, j).
       if fieldNum = 1 then bind_res (read_len ''Identity'' wireType d j)
         (\<lambda>(s, j). bind_res (op_Unmarshal Identity_ops s zero_api_Identity)
           (\<lambda>p. Ok (j, x\<lparr>api_QueryAllIdentityResponse_Identity :=
               api_QueryAllIdentityResponse_Identity x @ [Some p]\<rparr>)))
       else if fieldNum = 2 then bind_res (read_len ''Pagination'' wireType d j)
         (\<lambda>(s, j). bind_res (op_Unmarshal PageResponse_ops s (case
             api_QueryAllIdentityResponse_Pagination x of None \<Rightarrow> (op_New PageResponse_ops) | Some
                 p \<Rightarrow> p))
           (\<lambda>p. Ok (j, x\<lparr>api_QueryAllIdentityResponse_Pagination := Some p\<rparr>)))
       else bind_res (rt_skip_unknown rt d i) (\<lambda>(s, j).
         Ok (j, x\<lparr>api_QueryAllIdentityResponse_unknownFields := keep_unknown discard
             (api_QueryAllIdentityResponse_unknownFields x) s\<rparr>)))"

definition fastReflection_QueryAllIdentityResponse_unmarshal ::
    "pulsar_rt \<Rightarrow> api_Identity proto_ops \<Rightarrow> 'r proto_ops \<Rightarrow> bool \<Rightarrow> bytes \<Rightarrow> 'r
        api_QueryAllIdentityResponse option \<Rightarrow> 'r api_QueryAllIdentityResponse option res" where
  "fastReflection_QueryAllIdentityResponse_unmarshal rt Identity_ops PageResponse_ops discard =
      fast_unmarshal (fastReflection_QueryAllIdentityResponse_field rt Identity_ops
          PageResponse_ops discard)"

definition api_QueryAllIdentityResponse_ops :: "pulsar_rt \<Rightarrow> api_Identity proto_ops \<Rightarrow> 'r proto_ops
    \<Rightarrow> 'r api_QueryAllIdentityResponse proto_ops" where
  "api_QueryAllIdentityResponse_ops rt Identity_ops PageResponse_ops = direct_ops
      zero_api_QueryAllIdentityResponse (fastReflection_QueryAllIdentityResponse_size rt
          Identity_ops PageResponse_ops)
     (fastReflection_QueryAllIdentityResponse_marshal rt Identity_ops PageResponse_ops
         (fastReflection_QueryAllIdentityResponse_size rt Identity_ops PageResponse_ops))
             (fastReflection_QueryAllIdentityResponse_unmarshal rt Identity_ops
                 PageResponse_ops False)"

definition enc_api_QueryAllIdentityResponse :: "('r \<Rightarrow> bytes) \<Rightarrow> 'r api_QueryAllIdentityResponse
    \<Rightarrow> bytes" where
  "enc_api_QueryAllIdentityResponse enc_PageResponse x = enc_msgs 0xa enc_api_Identity (map the
      (api_QueryAllIdentityResponse_Identity x)) @ enc_opt_msg 0x12 enc_PageResponse
          (api_QueryAllIdentityResponse_Pagination x) @
              api_QueryAllIdentityResponse_unknownFields x"

definition wf_api_QueryAllIdentityResponse :: "('r \<Rightarrow> bytes) \<Rightarrow> ('r \<Rightarrow> bool) \<Rightarrow> 'r
    api_QueryAllIdentityResponse \<Rightarrow> bool" where
  "wf_api_QueryAllIdentityResponse enc_PageResponse wf_PageResponse x \<longleftrightarrow> fits
      (enc_api_QueryAllIdentityResponse enc_PageResponse x)
     \<and> foreign {1, 2} (api_QueryAllIdentityResponse_unknownFields x)
     \<and> (\<forall>p \<in> set (api_QueryAllIdentityResponse_Identity x). \<exists>q. p = Some q \<and> wf_api_Identity q)
     \<and> (\<forall>p. api_QueryAllIdentityResponse_Pagination x = Some p \<longrightarrow> wf_PageResponse p)"

locale api_QueryAllIdentityResponse_methods =
  Identity: pulsar_embedded rt Identity_ops enc_api_Identity wf_api_Identity zero_api_Identity +
  PageResponse: pulsar_embedded rt PageResponse_ops enc_PageResponse wf_PageResponse
      "op_New PageResponse_ops"
  for rt :: pulsar_rt and Identity_ops :: "api_Identity proto_ops" and PageResponse_ops ::
      "'r proto_ops"
    and enc_PageResponse :: "'r \<Rightarrow> bytes" and wf_PageResponse :: "'r \<Rightarrow> bool"
begin

lemma wf_api_QueryAllIdentityResponseD:
  assumes "wf_api_QueryAllIdentityResponse enc_PageResponse wf_PageResponse x"
  shows "\<forall>p \<in> set (map the (api_QueryAllIdentityResponse_Identity x)). wf_api_Identity p"
    and "map Some (map the (api_QueryAllIdentityResponse_Identity x)) =
        api_QueryAllIdentityResponse_Identity x"
    and "\<And>p. api_QueryAllIdentityResponse_Pagination x = Some p \<Longrightarrow> wf_PageResponse p"
    and "fits (api_QueryAllIdentityResponse_unknownFields x)"
    and "fits (enc_api_QueryAllIdentityResponse enc_PageResponse x)"
    and "foreign {1, 2} (api_QueryAllIdentityResponse_unknownFields x)"
  using assms
  by (auto simp: wf_api_QueryAllIdentityResponse_def enc_api_QueryAllIdentityResponse_def
      image_iff intro!: map_idI dest!: fits_appendD bspec dest: fits_enc_str)

lemma api_QueryAllIdentityResponse_size:
  assumes "wf_api_QueryAllIdentityResponse enc_PageResponse wf_PageResponse x"
  shows "fastReflection_QueryAllIdentityResponse_size rt Identity_ops PageResponse_ops (Some x) =
      int (length (enc_api_QueryAllIdentityResponse enc_PageResponse x))"
  using wf_api_QueryAllIdentityResponseD [OF assms] size_unknown_eq [of
      "api_QueryAllIdentityResponse_unknownFields x"]
    Identity.size_msgs_length [of "map the (api_QueryAllIdentityResponse_Identity x)" "0xa"]
    PageResponse.size_opt_msg_length [of "api_QueryAllIdentityResponse_Pagination x" "0x12"]
  by (simp add: fastReflection_QueryAllIdentityResponse_size_def
      fast_size_def enc_api_QueryAllIdentityResponse_def)

lemma api_QueryAllIdentityResponse_writes:
  assumes "wf_api_QueryAllIdentityResponse enc_PageResponse wf_PageResponse x"
  shows "writes (\<lambda>st.
     bind_res (put_unknown (api_QueryAllIdentityResponse_unknownFields x) st) (\<lambda>st.
     bind_res (rt_put_opt_msg rt PageResponse_ops 0x12
         (api_QueryAllIdentityResponse_Pagination x) st)
       (rt_put_msgs rt Identity_ops 0xa (api_QueryAllIdentityResponse_Identity x))))
           (enc_api_QueryAllIdentityResponse enc_PageResponse x)"
proof -
  note D = wf_api_QueryAllIdentityResponseD [OF assms]
  have l: "writes (rt_put_msgs rt Identity_ops 0xa (api_QueryAllIdentityResponse_Identity x))
      (enc_msgs 0xa enc_api_Identity (map the (api_QueryAllIdentityResponse_Identity x)))"
    using Identity.put_msgs_writes [of "map the (api_QueryAllIdentityResponse_Identity x)" "0xa"]
        D by simp
  show ?thesis
    unfolding enc_api_QueryAllIdentityResponse_def append_assoc [symmetric]
    by (intro writes_bind writes_unknown PageResponse.put_opt_msg_writes l D)
qed

lemma api_QueryAllIdentityResponse_field_decoder: "field_decoder
    (fastReflection_QueryAllIdentityResponse_field rt Identity_ops PageResponse_ops discard)"
  unfolding fastReflection_QueryAllIdentityResponse_field_def [abs_def]
  by (rule field_decoderI) (intro
      part_intros Identity.op_total PageResponse.op_total Identity.part_skip_rt; simp)

lemma api_QueryAllIdentityResponse_reads:
  assumes "wf_api_QueryAllIdentityResponse enc_PageResponse wf_PageResponse x"
  shows "reads (fastReflection_QueryAllIdentityResponse_field rt Identity_ops
      PageResponse_ops False) (enc_api_QueryAllIdentityResponse enc_PageResponse x)
          zero_api_QueryAllIdentityResponse x"
proof -
  let ?f = "fastReflection_QueryAllIdentityResponse_field rt Identity_ops PageResponse_ops False"
  note D = wf_api_QueryAllIdentityResponseD [OF assms]
  let ?s1 = "zero_api_QueryAllIdentityResponse\<lparr>api_QueryAllIdentityResponse_Identity :=
      api_QueryAllIdentityResponse_Identity x\<rparr>"
  let ?s2 = "?s1\<lparr>api_QueryAllIdentityResponse_Pagination :=
      api_QueryAllIdentityResponse_Pagination x\<rparr>"
  let ?st = "\<lambda>ps. zero_api_QueryAllIdentityResponse\<lparr>api_QueryAllIdentityResponse_Identity := map
      Some ps\<rparr>"
  have "reads ?f (enc_msgs 0xa enc_api_Identity (map the
      (api_QueryAllIdentityResponse_Identity x))) (?st []) (?st ([] @ map the
          (api_QueryAllIdentityResponse_Identity x)))"
  proof (rule reads_msgs [where st = ?st])
    fix p ps assume "p \<in> set (map the (api_QueryAllIdentityResponse_Identity x))"
    then have "wf_api_Identity p" using D by blast
    then show "reads_one ?f (enc_len 0xa (enc_api_Identity p)) (?st ps) (?st (ps @ [p]))"
      by (intro reads_one_len [where t = "0xa" and name = "''QueryAllIdentityResponse''" and f =
          "''Identity''"])
        (simp_all add: fastReflection_QueryAllIdentityResponse_field_def
            zero_api_QueryAllIdentityResponse_def Identity.op_unmarshal)
  qed
  then have r0: "reads ?f (enc_msgs 0xa enc_api_Identity (map the
      (api_QueryAllIdentityResponse_Identity x))) zero_api_QueryAllIdentityResponse ?s1"
    using D by (simp add: zero_api_QueryAllIdentityResponse_def)
  have r1: "reads ?f (enc_opt_msg 0x12 enc_PageResponse
      (api_QueryAllIdentityResponse_Pagination x)) ?s1
      ?s2"
    using D by (intro reads_opt_msg reads_one_len [where t = "0x12" and name =
        "''QueryAllIdentityResponse''" and f = "''Pagination''"])
      (simp_all add: fastReflection_QueryAllIdentityResponse_field_def
          zero_api_QueryAllIdentityResponse_def PageResponse.op_unmarshal)
  have ru: "reads ?f (api_QueryAllIdentityResponse_unknownFields x) ?s2
      (?s2\<lparr>api_QueryAllIdentityResponse_unknownFields :=
          api_QueryAllIdentityResponse_unknownFields x\<rparr>)"
    using Identity.reads_foreign [of _ "api_QueryAllIdentityResponse_unknownFields x"
        "''QueryAllIdentityResponse''" ?f
            "\<lambda>w. ?s2\<lparr>api_QueryAllIdentityResponse_unknownFields := w\<rparr>" "[]", OF D(6)]
    by (simp add: fastReflection_QueryAllIdentityResponse_field_def
        zero_api_QueryAllIdentityResponse_def keep_unknown_def)
  have "?s2\<lparr>api_QueryAllIdentityResponse_unknownFields :=
      api_QueryAllIdentityResponse_unknownFields x\<rparr> = x" by (cases x)
          (simp add: zero_api_QueryAllIdentityResponse_def)
  with ru have "reads ?f (api_QueryAllIdentityResponse_unknownFields x) ?s2 x" by simp
  then show ?thesis
    unfolding enc_api_QueryAllIdentityResponse_def by (intro reads_append [OF r0]
        reads_append [OF r1])
qed

lemma api_QueryAllIdentityResponse_proto: "proto_methods (api_QueryAllIdentityResponse_ops rt
    Identity_ops PageResponse_ops) (enc_api_QueryAllIdentityResponse enc_PageResponse)
        (wf_api_QueryAllIdentityResponse
            enc_PageResponse wf_PageResponse) zero_api_QueryAllIdentityResponse"
  unfolding api_QueryAllIdentityResponse_ops_def fastReflection_QueryAllIdentityResponse_size_def
      fastReflection_QueryAllIdentityResponse_marshal_def fastReflection_QueryAllIdentityResponse_unmarshal_def
  by (rule direct_methods) (use api_QueryAllIdentityResponse_size
      api_QueryAllIdentityResponse_writes
          api_QueryAllIdentityResponse_reads wf_api_QueryAllIdentityResponseD(5)
              api_QueryAllIdentityResponse_field_decoder in
      \<open>simp_all add: fastReflection_QueryAllIdentityResponse_size_def fast_size_def\<close>)

end

interpretation api_QueryAllIdentityResponse_direct: api_QueryAllIdentityResponse_methods gogo_rt
    "api_Identity_ops gogo_rt" "api_Identity_ops gogo_rt" enc_api_Identity wf_api_Identity
  by (intro api_QueryAllIdentityResponse_methods.intro)
    (simp_all add: api_Params_direct.pulsar_embedded_axioms api_Identity_direct.pulsar_embedded_axioms
      api_Identity_ops_New)

subsection \<open>Reflection\<close>

definition fd_QueryAllIdentityResponse_identity :: field_desc where
  "fd_QueryAllIdentityResponse_identity =
      \<lparr>FullName = ''nexelra.identity.QueryAllIdentityResponse.identity'', IsExtension = False\<rparr>"

definition fd_QueryAllIdentityResponse_pagination :: field_desc where
  "fd_QueryAllIdentityResponse_pagination =
      \<lparr>FullName = ''nexelra.identity.QueryAllIdentityResponse.pagination'', IsExtension = False\<rparr>"

definition fastReflection_QueryAllIdentityResponse_Range ::
    "'r api_QueryAllIdentityResponse option \<Rightarrow> (field_desc \<Rightarrow> ('q, 'r) api_value \<Rightarrow> 's \<Rightarrow>
        ('s \<times> bool) res) \<Rightarrow> 's \<Rightarrow> 's res" where
  "fastReflection_QueryAllIdentityResponse_Range x f s = deref x (\<lambda>x.
     visit (api_QueryAllIdentityResponse_Identity x \<noteq> []) fd_QueryAllIdentityResponse_identity
         (ValueOfList (QueryAllIdentityResponse_1_list (Some
             (api_QueryAllIdentityResponse_Identity x)))) f s (\<lambda>s.
     visit (api_QueryAllIdentityResponse_Pagination x \<noteq> None)
         fd_QueryAllIdentityResponse_pagination (ValueOfMessage (PtrPageResponse
             (api_QueryAllIdentityResponse_Pagination x))) f s (\<lambda>s. Ok s)))"

definition fastReflection_QueryAllIdentityResponse_Has :: "'r api_QueryAllIdentityResponse option
    \<Rightarrow> field_desc \<Rightarrow> bool res" where
  "fastReflection_QueryAllIdentityResponse_Has x fd =
     (if FullName fd = ''nexelra.identity.QueryAllIdentityResponse.identity'' then deref x (\<lambda>x. Ok
         (api_QueryAllIdentityResponse_Identity x \<noteq> []))
      else if FullName fd = ''nexelra.identity.QueryAllIdentityResponse.pagination'' then deref x
          (\<lambda>x. Ok (api_QueryAllIdentityResponse_Pagination x \<noteq> None))
      else unknown_field fd)"

definition fastReflection_QueryAllIdentityResponse_Clear :: "'r api_QueryAllIdentityResponse
    option \<Rightarrow> field_desc \<Rightarrow> 'r api_QueryAllIdentityResponse res" where
  "fastReflection_QueryAllIdentityResponse_Clear x fd =
     (if FullName fd = ''nexelra.identity.QueryAllIdentityResponse.identity'' then deref x (\<lambda>x. Ok
         (x\<lparr>api_QueryAllIdentityResponse_Identity := []\<rparr>))
      else if FullName fd = ''nexelra.identity.QueryAllIdentityResponse.pagination'' then deref x
          (\<lambda>x. Ok (x\<lparr>api_QueryAllIdentityResponse_Pagination := None\<rparr>))
      else unknown_field fd)"

definition fastReflection_QueryAllIdentityResponse_Get :: "'r api_QueryAllIdentityResponse option
    \<Rightarrow> field_desc \<Rightarrow> ('q, 'r) api_value res" where
  "fastReflection_QueryAllIdentityResponse_Get x descriptor =
     (if FullName descriptor = ''nexelra.identity.QueryAllIdentityResponse.identity'' then deref x
         (\<lambda>x.
          if api_QueryAllIdentityResponse_Identity x = [] then Ok (ValueOfList
              (QueryAllIdentityResponse_1_list None)) else Ok (ValueOfList
                  (QueryAllIdentityResponse_1_list (Some
                      (api_QueryAllIdentityResponse_Identity x)))))
      else if FullName descriptor = ''nexelra.identity.QueryAllIdentityResponse.pagination'' then
          deref x (\<lambda>x. Ok (ValueOfMessage (PtrPageResponse
              (api_QueryAllIdentityResponse_Pagination x))))
      else unknown_field descriptor)"

definition fastReflection_QueryAllIdentityResponse_Set :: "'r api_QueryAllIdentityResponse option
    \<Rightarrow> field_desc \<Rightarrow> ('q, 'r) api_value \<Rightarrow> 'r api_QueryAllIdentityResponse res" where
  "fastReflection_QueryAllIdentityResponse_Set x fd value =
     (if FullName fd = ''nexelra.identity.QueryAllIdentityResponse.identity'' then deref x (\<lambda>x.
          bind_res (list_value value) (\<lambda>lv. bind_res (as_QueryAllIdentityResponse_1_list lv) (\<lambda>clv.
          deref clv (\<lambda>xs. Ok (x\<lparr>api_QueryAllIdentityResponse_Identity := xs\<rparr>)))))
      else if FullName fd = ''nexelra.identity.QueryAllIdentityResponse.pagination'' then deref x
          (\<lambda>x.
          bind_res (message_value value) (\<lambda>v. bind_res (as_PageResponse v) (\<lambda>v. Ok
              (x\<lparr>api_QueryAllIdentityResponse_Pagination := v\<rparr>))))
      else unknown_field fd)"

definition fastReflection_QueryAllIdentityResponse_Mutable ::
    "'r proto_ops \<Rightarrow> 'r api_QueryAllIdentityResponse option \<Rightarrow> field_desc \<Rightarrow> ('r
        api_QueryAllIdentityResponse \<times> ('q, 'r) api_value) res" where
  "fastReflection_QueryAllIdentityResponse_Mutable PageResponse_ops x fd =
     (if FullName fd = ''nexelra.identity.QueryAllIdentityResponse.identity'' then deref x (\<lambda>x. Ok
         (x, ValueOfList (QueryAllIdentityResponse_1_list (Some
             (api_QueryAllIdentityResponse_Identity x)))))
      else if FullName fd = ''nexelra.identity.QueryAllIdentityResponse.pagination'' then deref x
          (\<lambda>x.
          let x = (if api_QueryAllIdentityResponse_Pagination x = None
              then x\<lparr>api_QueryAllIdentityResponse_Pagination := Some (op_New PageResponse_ops)\<rparr>
                  else x)
          in Ok (x, ValueOfMessage (PtrPageResponse (api_QueryAllIdentityResponse_Pagination x))))
      else unknown_field fd)"

definition fastReflection_QueryAllIdentityResponse_NewField :: "'r proto_ops \<Rightarrow> field_desc \<Rightarrow>
    ('q, 'r) api_value res" where
  "fastReflection_QueryAllIdentityResponse_NewField PageResponse_ops fd =
     (if FullName fd = ''nexelra.identity.QueryAllIdentityResponse.identity'' then Ok (ValueOfList
         (QueryAllIdentityResponse_1_list (Some [])))
      else if FullName fd = ''nexelra.identity.QueryAllIdentityResponse.pagination'' then Ok
          (ValueOfMessage (PtrPageResponse (Some (op_New PageResponse_ops))))
      else unknown_field fd)"

definition fastReflection_QueryAllIdentityResponse_WhichOneof :: "'r api_QueryAllIdentityResponse
    option \<Rightarrow> string \<Rightarrow> field_desc res" where
  "fastReflection_QueryAllIdentityResponse_WhichOneof x d = Panic"

definition fastReflection_QueryAllIdentityResponse_GetUnknown :: "'r api_QueryAllIdentityResponse
    option \<Rightarrow> bytes res" where
  "fastReflection_QueryAllIdentityResponse_GetUnknown x = deref x (\<lambda>x. Ok
      (api_QueryAllIdentityResponse_unknownFields x))"

definition fastReflection_QueryAllIdentityResponse_SetUnknown :: "'r api_QueryAllIdentityResponse
    option \<Rightarrow> bytes \<Rightarrow> 'r api_QueryAllIdentityResponse res" where
  "fastReflection_QueryAllIdentityResponse_SetUnknown x raw = deref x (\<lambda>x. Ok
      (x\<lparr>api_QueryAllIdentityResponse_unknownFields := raw\<rparr>))"

definition fastReflection_QueryAllIdentityResponse_IsValid :: "'r api_QueryAllIdentityResponse
    option \<Rightarrow> bool" where
  "fastReflection_QueryAllIdentityResponse_IsValid x \<longleftrightarrow> x \<noteq> None"

definition fastReflection_QueryAllIdentityResponse_New :: "'r
    api_QueryAllIdentityResponse option" where
  "fastReflection_QueryAllIdentityResponse_New = Some zero_api_QueryAllIdentityResponse"

lemma api_QueryAllIdentityResponse_reflect:
  "fastReflection_QueryAllIdentityResponse_Has (Some x) fd_QueryAllIdentityResponse_identity = Ok
      (api_QueryAllIdentityResponse_Identity x \<noteq> [])"
  "fastReflection_QueryAllIdentityResponse_Get (Some x) fd_QueryAllIdentityResponse_identity =
      Ok (if api_QueryAllIdentityResponse_Identity x = [] then ValueOfList
          (QueryAllIdentityResponse_1_list None) else ValueOfList (QueryAllIdentityResponse_1_list
              (Some (api_QueryAllIdentityResponse_Identity x))))"
  "fastReflection_QueryAllIdentityResponse_Clear (Some x) fd_QueryAllIdentityResponse_identity =
      Ok (x\<lparr>api_QueryAllIdentityResponse_Identity := []\<rparr>)"
  "fastReflection_QueryAllIdentityResponse_Set (Some x) fd_QueryAllIdentityResponse_identity value =
      bind_res (list_value value) (\<lambda>lv. bind_res (as_QueryAllIdentityResponse_1_list lv)
        (\<lambda>clv. deref clv (\<lambda>xs. Ok (x\<lparr>api_QueryAllIdentityResponse_Identity := xs\<rparr>))))"
  "fastReflection_QueryAllIdentityResponse_Has (Some x) fd_QueryAllIdentityResponse_pagination =
      Ok (api_QueryAllIdentityResponse_Pagination x \<noteq> None)"
  "fastReflection_QueryAllIdentityResponse_Get (Some x) fd_QueryAllIdentityResponse_pagination =
      Ok (ValueOfMessage (PtrPageResponse (api_QueryAllIdentityResponse_Pagination x)))"
  "fastReflection_QueryAllIdentityResponse_Clear (Some x) fd_QueryAllIdentityResponse_pagination =
      Ok (x\<lparr>api_QueryAllIdentityResponse_Pagination := None\<rparr>)"
  "fastReflection_QueryAllIdentityResponse_Set (Some x) fd_QueryAllIdentityResponse_pagination
      value =
      bind_res (message_value value) (\<lambda>v. bind_res (as_PageResponse v) (\<lambda>v. Ok
          (x\<lparr>api_QueryAllIdentityResponse_Pagination := v\<rparr>)))"
  by (simp_all add: fastReflection_QueryAllIdentityResponse_Has_def
      fastReflection_QueryAllIdentityResponse_Get_def
          fastReflection_QueryAllIdentityResponse_Clear_def
              fastReflection_QueryAllIdentityResponse_Set_def
                  fd_QueryAllIdentityResponse_identity_def fd_QueryAllIdentityResponse_pagination_def)

lemma api_QueryAllIdentityResponse_no_field:
  assumes "FullName fd \<notin> FullName `
      set [fd_QueryAllIdentityResponse_identity, fd_QueryAllIdentityResponse_pagination]"
  shows "fastReflection_QueryAllIdentityResponse_Has x fd = Panic"
      "fastReflection_QueryAllIdentityResponse_Get x fd = Panic"
          "fastReflection_QueryAllIdentityResponse_Set x fd value = Panic"
              "fastReflection_QueryAllIdentityResponse_Clear x fd = Panic"
  using assms by (simp_all add: fastReflection_QueryAllIdentityResponse_Has_def
      fastReflection_QueryAllIdentityResponse_Get_def
          fastReflection_QueryAllIdentityResponse_Clear_def
              fastReflection_QueryAllIdentityResponse_Set_def
                  fd_QueryAllIdentityResponse_identity_def fd_QueryAllIdentityResponse_pagination_def)

lemma api_QueryAllIdentityResponse_fds: "distinct (map
    FullName [fd_QueryAllIdentityResponse_identity, fd_QueryAllIdentityResponse_pagination])"
        "distinct [fd_QueryAllIdentityResponse_identity, fd_QueryAllIdentityResponse_pagination]"
  by (simp_all add:
      fd_QueryAllIdentityResponse_identity_def fd_QueryAllIdentityResponse_pagination_def)

interpretation api_QueryAllIdentityResponse_message: fast_message
    "[fd_QueryAllIdentityResponse_identity, fd_QueryAllIdentityResponse_pagination]"
  fastReflection_QueryAllIdentityResponse_Has fastReflection_QueryAllIdentityResponse_Get
      fastReflection_QueryAllIdentityResponse_Set fastReflection_QueryAllIdentityResponse_Clear
  fastReflection_QueryAllIdentityResponse_Range
      api_QueryAllIdentityResponse_unknownFields zero_api_QueryAllIdentityResponse
proof unfold_locales
  fix m n :: "'r api_QueryAllIdentityResponse"
  assume h: "\<forall>fd \<in>
      set [fd_QueryAllIdentityResponse_identity, fd_QueryAllIdentityResponse_pagination].
          fastReflection_QueryAllIdentityResponse_Has (Some m) fd =
              fastReflection_QueryAllIdentityResponse_Has (Some n) fd
      \<and> (fastReflection_QueryAllIdentityResponse_Has (Some m) fd = Ok True \<longrightarrow>
          fastReflection_QueryAllIdentityResponse_Get (Some m) fd =
              fastReflection_QueryAllIdentityResponse_Get (Some n) fd)"
    and u: "api_QueryAllIdentityResponse_unknownFields m =
        api_QueryAllIdentityResponse_unknownFields n"
  have e0: "api_QueryAllIdentityResponse_Identity m = api_QueryAllIdentityResponse_Identity n"
    by (rule same_field [OF h, where fd = fd_QueryAllIdentityResponse_identity and d = "[]" and
        V = "\<lambda>v. if v = [] then ValueOfList (QueryAllIdentityResponse_1_list None) else
            ValueOfList (QueryAllIdentityResponse_1_list (Some v))"])
      (simp_all add: api_QueryAllIdentityResponse_reflect split: if_splits)
  have e1: "api_QueryAllIdentityResponse_Pagination m = api_QueryAllIdentityResponse_Pagination n"
    by (rule same_field [OF h, where fd = fd_QueryAllIdentityResponse_pagination and d = "None"
        and V = "\<lambda>v. ValueOfMessage (PtrPageResponse v)"])
      (simp_all add: api_QueryAllIdentityResponse_reflect split: if_splits)
  from u e0 e1 show "m = n" by simp
next
  fix m :: "'r api_QueryAllIdentityResponse" and f :: "field_desc \<Rightarrow> ('q, 'r) api_value \<Rightarrow> 'r
      api_QueryAllIdentityResponse \<Rightarrow> ('r api_QueryAllIdentityResponse \<times> bool) res" and s
  show "fastReflection_QueryAllIdentityResponse_Range (Some m) f s = visits (populated
      fastReflection_QueryAllIdentityResponse_Has fastReflection_QueryAllIdentityResponse_Get
          m [fd_QueryAllIdentityResponse_identity, fd_QueryAllIdentityResponse_pagination]) f s"
    by (cases "api_QueryAllIdentityResponse_Identity m = []"; simp add:
        fastReflection_QueryAllIdentityResponse_Range_def 
      visits_populated [where has = fastReflection_QueryAllIdentityResponse_Has and
          get = fastReflection_QueryAllIdentityResponse_Get,
              OF api_QueryAllIdentityResponse_reflect(1,2)] 
      visits_populated [where has = fastReflection_QueryAllIdentityResponse_Has and
          get = fastReflection_QueryAllIdentityResponse_Get,
              OF api_QueryAllIdentityResponse_reflect(5,6)]
      visits_Nil del: populated.simps)
next
  fix fd :: field_desc and x :: "'r api_QueryAllIdentityResponse option" and v
  assume "FullName fd \<notin> FullName `
      set [fd_QueryAllIdentityResponse_identity, fd_QueryAllIdentityResponse_pagination]"
  then show "fastReflection_QueryAllIdentityResponse_Has x fd = Panic \<and>
      fastReflection_QueryAllIdentityResponse_Get x fd = Panic \<and>
          fastReflection_QueryAllIdentityResponse_Set x fd v = Panic
      \<and> fastReflection_QueryAllIdentityResponse_Clear x fd = Panic"
    by (intro conjI api_QueryAllIdentityResponse_no_field)
next
  fix fd :: field_desc and m n :: "'r api_QueryAllIdentityResponse" and v
  assume "fd \<in> set [fd_QueryAllIdentityResponse_identity, fd_QueryAllIdentityResponse_pagination]"
      "fastReflection_QueryAllIdentityResponse_Has (Some m) fd = Ok True"
          "fastReflection_QueryAllIdentityResponse_Get (Some m) fd = Ok v"
  then show "\<exists>n'. fastReflection_QueryAllIdentityResponse_Set (Some n) fd v = Ok n' \<and>
      fastReflection_QueryAllIdentityResponse_Get (Some n') fd = Ok v \<and>
          fastReflection_QueryAllIdentityResponse_Has (Some n') fd = Ok True"
    by (fastforce simp: api_QueryAllIdentityResponse_reflect)
next
  fix fd :: field_desc and n n' :: "'r api_QueryAllIdentityResponse" and v
  assume "fd \<in> set [fd_QueryAllIdentityResponse_identity, fd_QueryAllIdentityResponse_pagination]"
      "fastReflection_QueryAllIdentityResponse_Set (Some n) fd v = Ok n'"
  then have "fd = fd_QueryAllIdentityResponse_identity \<and>
      (\<exists>v. n' = n\<lparr>api_QueryAllIdentityResponse_Identity := v\<rparr>)
      \<or> fd = fd_QueryAllIdentityResponse_pagination \<and>
          (\<exists>v. n' = n\<lparr>api_QueryAllIdentityResponse_Pagination := v\<rparr>)"
    by (auto simp: api_QueryAllIdentityResponse_reflect res_simps
        deref_def split: option.splits; blast)
  then show "api_QueryAllIdentityResponse_unknownFields n' =
      api_QueryAllIdentityResponse_unknownFields n \<and> (\<forall>fd' \<in>
          set [fd_QueryAllIdentityResponse_identity, fd_QueryAllIdentityResponse_pagination]. fd' \<noteq> fd
      \<longrightarrow> fastReflection_QueryAllIdentityResponse_Has (Some n') fd' =
          fastReflection_QueryAllIdentityResponse_Has (Some n) fd' \<and>
              fastReflection_QueryAllIdentityResponse_Get (Some n') fd' =
                  fastReflection_QueryAllIdentityResponse_Get (Some n) fd')"
    by (auto simp: api_QueryAllIdentityResponse_reflect)
next
  fix fd :: field_desc and n :: "'r api_QueryAllIdentityResponse"
  assume "fd \<in> set [fd_QueryAllIdentityResponse_identity, fd_QueryAllIdentityResponse_pagination]"
  then obtain n' where c: "fastReflection_QueryAllIdentityResponse_Clear (Some n) fd = Ok n'"
      "fd = fd_QueryAllIdentityResponse_identity
          \<and> n' = n\<lparr>api_QueryAllIdentityResponse_Identity := []\<rparr>
      \<or> fd = fd_QueryAllIdentityResponse_pagination
          \<and> n' = n\<lparr>api_QueryAllIdentityResponse_Pagination := None\<rparr>"
    by (auto simp: api_QueryAllIdentityResponse_reflect)
  then have "fastReflection_QueryAllIdentityResponse_Has (Some n') fd = Ok False \<and>
      api_QueryAllIdentityResponse_unknownFields n' = api_QueryAllIdentityResponse_unknownFields n
      \<and> (\<forall>fd' \<in>
          set [fd_QueryAllIdentityResponse_identity, fd_QueryAllIdentityResponse_pagination]. fd' \<noteq> fd
      \<longrightarrow> fastReflection_QueryAllIdentityResponse_Has (Some n') fd' =
          fastReflection_QueryAllIdentityResponse_Has (Some n) fd' \<and>
              fastReflection_QueryAllIdentityResponse_Get (Some n') fd' =
                  fastReflection_QueryAllIdentityResponse_Get (Some n) fd')"
    by (auto simp: api_QueryAllIdentityResponse_reflect)
  with c(1) show "\<exists>n'. fastReflection_QueryAllIdentityResponse_Clear (Some n) fd = Ok n' \<and>
      fastReflection_QueryAllIdentityResponse_Has (Some n') fd = Ok False \<and>
          api_QueryAllIdentityResponse_unknownFields n' =
              api_QueryAllIdentityResponse_unknownFields n
      \<and> (\<forall>fd' \<in>
          set [fd_QueryAllIdentityResponse_identity, fd_QueryAllIdentityResponse_pagination]. fd' \<noteq> fd
      \<longrightarrow> fastReflection_QueryAllIdentityResponse_Has (Some n') fd' =
          fastReflection_QueryAllIdentityResponse_Has (Some n) fd' \<and>
              fastReflection_QueryAllIdentityResponse_Get (Some n') fd' =
                  fastReflection_QueryAllIdentityResponse_Get (Some n) fd')"
    by blast
qed (use api_QueryAllIdentityResponse_fds in \<open>auto simp:
    api_QueryAllIdentityResponse_reflect zero_api_QueryAllIdentityResponse_def\<close>)

subsection \<open>The list type of \<open>QueryAllIdentityResponse.Identity\<close>\<close>

definition QueryAllIdentityResponse_1_list_Len :: "api_Identity list_ptr \<Rightarrow> int" where
  "QueryAllIdentityResponse_1_list_Len x = list_Len x"

definition QueryAllIdentityResponse_1_list_Get :: "api_Identity list_ptr \<Rightarrow> int \<Rightarrow> ('q, 'r)
    api_value res" where
  "QueryAllIdentityResponse_1_list_Get x i = bind_res (list_Get x i) (\<lambda>e. Ok (ValueOfMessage
      (PtrIdentity e)))"

definition QueryAllIdentityResponse_1_list_Set :: "api_Identity list_ptr \<Rightarrow> int \<Rightarrow> ('q, 'r)
    api_value \<Rightarrow> api_Identity list_ptr res" where
  "QueryAllIdentityResponse_1_list_Set x i value =
     bind_res (message_value value) (\<lambda>v. bind_res (as_Identity v) (\<lambda>concreteValue. list_Set x
         i concreteValue))"

definition QueryAllIdentityResponse_1_list_Append :: "api_Identity list_ptr \<Rightarrow> ('q, 'r) api_value \<Rightarrow>
    api_Identity list_ptr res" where
  "QueryAllIdentityResponse_1_list_Append x value =
     bind_res (message_value value) (\<lambda>v. bind_res (as_Identity v) (\<lambda>concreteValue. list_Append
         x concreteValue))"

definition QueryAllIdentityResponse_1_list_AppendMutable :: "api_Identity list_ptr \<Rightarrow> (api_Identity
    list_ptr \<times> ('q, 'r) api_value) res" where
  "QueryAllIdentityResponse_1_list_AppendMutable x =
     (let v = Some zero_api_Identity in bind_res (list_Append x v) (\<lambda>x. Ok (x, ValueOfMessage
         (PtrIdentity v))))"

definition QueryAllIdentityResponse_1_list_Truncate :: "api_Identity list_ptr \<Rightarrow> api_Identity
    option list \<Rightarrow> int \<Rightarrow> api_Identity list_ptr res" where
  "QueryAllIdentityResponse_1_list_Truncate x spare n = list_Truncate x spare n"

definition QueryAllIdentityResponse_1_list_NewElement :: "('q, 'r) api_value" where
  "QueryAllIdentityResponse_1_list_NewElement = ValueOfMessage (PtrIdentity
      (Some zero_api_Identity))"

definition QueryAllIdentityResponse_1_list_IsValid :: "api_Identity list_ptr \<Rightarrow> bool" where
  "QueryAllIdentityResponse_1_list_IsValid x \<longleftrightarrow> x \<noteq> None"

interpretation QueryAllIdentityResponse_1_list: fast_list QueryAllIdentityResponse_1_list_Len
    QueryAllIdentityResponse_1_list_Get
        QueryAllIdentityResponse_1_list_Set QueryAllIdentityResponse_1_list_Append
  "\<lambda>x. QueryAllIdentityResponse_1_list_Truncate x spare" QueryAllIdentityResponse_1_list_IsValid
      Identity_values is_Identity_value
  unfolding QueryAllIdentityResponse_1_list_Len_def [abs_def]
      QueryAllIdentityResponse_1_list_Get_def [abs_def]
          QueryAllIdentityResponse_1_list_Set_def [abs_def]
              QueryAllIdentityResponse_1_list_Append_def [abs_def]
    QueryAllIdentityResponse_1_list_Truncate_def [abs_def]
        QueryAllIdentityResponse_1_list_IsValid_def [abs_def]
  by (rule Identity_list_contract)

section \<open>QueryIdentityByCccdIdRequest\<close>

record 'q api_QueryIdentityByCccdIdRequest =
  api_QueryIdentityByCccdIdRequest_IdHash :: "string"
  api_QueryIdentityByCccdIdRequest_Pagination :: "'q option"
  api_QueryIdentityByCccdIdRequest_unknownFields :: bytes

definition zero_api_QueryIdentityByCccdIdRequest :: "'q api_QueryIdentityByCccdIdRequest" where
  "zero_api_QueryIdentityByCccdIdRequest = \<lparr>api_QueryIdentityByCccdIdRequest_IdHash = '''',
      api_QueryIdentityByCccdIdRequest_Pagination = None,
          api_QueryIdentityByCccdIdRequest_unknownFields = []\<rparr>"

definition QueryIdentityByCccdIdRequest_GetIdHash :: "'q api_QueryIdentityByCccdIdRequest option
    \<Rightarrow> string" where
  "QueryIdentityByCccdIdRequest_GetIdHash x = (case x of None \<Rightarrow> '''' | Some x \<Rightarrow>
      api_QueryIdentityByCccdIdRequest_IdHash x)"

definition QueryIdentityByCccdIdRequest_GetPagination :: "'q api_QueryIdentityByCccdIdRequest
    option \<Rightarrow> 'q option" where
  "QueryIdentityByCccdIdRequest_GetPagination x = (case x of None \<Rightarrow> None | Some x \<Rightarrow>
      api_QueryIdentityByCccdIdRequest_Pagination x)"

subsection \<open>Size, marshal and unmarshal\<close>

definition fastReflection_QueryIdentityByCccdIdRequest_size :: "pulsar_rt \<Rightarrow> 'q proto_ops \<Rightarrow> 'q
    api_QueryIdentityByCccdIdRequest option \<Rightarrow> int" where
  "fastReflection_QueryIdentityByCccdIdRequest_size rt PageRequest_ops = fast_size (\<lambda>x.
      rt_size_str rt (api_QueryIdentityByCccdIdRequest_IdHash x) + rt_size_opt_msg rt
          PageRequest_ops (api_QueryIdentityByCccdIdRequest_Pagination x) + size_unknown
              (api_QueryIdentityByCccdIdRequest_unknownFields x))"

definition fastReflection_QueryIdentityByCccdIdRequest_marshal ::
    "pulsar_rt \<Rightarrow> 'q proto_ops \<Rightarrow> ('q api_QueryIdentityByCccdIdRequest option \<Rightarrow> int) \<Rightarrow> 'q
        api_QueryIdentityByCccdIdRequest option \<Rightarrow> bytes option \<Rightarrow> bytes option res" where
  "fastReflection_QueryIdentityByCccdIdRequest_marshal rt PageRequest_ops options_Size =
      fast_marshal options_Size (\<lambda>x. \<lambda>st.
     bind_res (put_unknown (api_QueryIdentityByCccdIdRequest_unknownFields x) st) (\<lambda>st.
     bind_res (rt_put_opt_msg rt PageRequest_ops 0x12
         (api_QueryIdentityByCccdIdRequest_Pagination x) st)
       (rt_put_str rt 0xa (api_QueryIdentityByCccdIdRequest_IdHash x))))"

definition fastReflection_QueryIdentityByCccdIdRequest_field :: "pulsar_rt \<Rightarrow> 'q proto_ops \<Rightarrow> bool
    \<Rightarrow> 'q api_QueryIdentityByCccdIdRequest field_reader" where
  "fastReflection_QueryIdentityByCccdIdRequest_field rt PageRequest_ops discard d i x =
     bind_res (read_tag ''QueryIdentityByCccdIdRequest'' d i) (\<lambda>(fieldNum, wireType, j).
       if fieldNum = 1 then bind_res (read_len ''IdHash'' wireType d j)
         (\<lambda>(s, j). Ok (j, x\<lparr>api_QueryIdentityByCccdIdRequest_IdHash := string_of s\<rparr>))
       else if fieldNum = 2 then bind_res (read_len ''Pagination'' wireType d j)
         (\<lambda>(s, j). bind_res (op_Unmarshal PageRequest_ops s (case
             api_QueryIdentityByCccdIdRequest_Pagination x of None \<Rightarrow> (op_New PageRequest_ops) |
                 Some p \<Rightarrow> p))
           (\<lambda>p. Ok (j, x\<lparr>api_QueryIdentityByCccdIdRequest_Pagination := Some p\<rparr>)))
       else bind_res (rt_skip_unknown rt d i) (\<lambda>(s, j).
         Ok (j, x\<lparr>api_QueryIdentityByCccdIdRequest_unknownFields := keep_unknown discard
             (api_QueryIdentityByCccdIdRequest_unknownFields x) s\<rparr>)))"

definition fastReflection_QueryIdentityByCccdIdRequest_unmarshal ::
    "pulsar_rt \<Rightarrow> 'q proto_ops \<Rightarrow> bool \<Rightarrow> bytes \<Rightarrow> 'q api_QueryIdentityByCccdIdRequest option \<Rightarrow> 'q
        api_QueryIdentityByCccdIdRequest option res" where
  "fastReflection_QueryIdentityByCccdIdRequest_unmarshal rt PageRequest_ops discard =
      fast_unmarshal (fastReflection_QueryIdentityByCccdIdRequest_field rt PageRequest_ops discard)"

definition api_QueryIdentityByCccdIdRequest_ops :: "pulsar_rt \<Rightarrow> 'q proto_ops \<Rightarrow> 'q
    api_QueryIdentityByCccdIdRequest proto_ops" where
  "api_QueryIdentityByCccdIdRequest_ops rt PageRequest_ops = direct_ops
      zero_api_QueryIdentityByCccdIdRequest (fastReflection_QueryIdentityByCccdIdRequest_size
          rt PageRequest_ops)
     (fastReflection_QueryIdentityByCccdIdRequest_marshal rt PageRequest_ops
         (fastReflection_QueryIdentityByCccdIdRequest_size rt PageRequest_ops))
             (fastReflection_QueryIdentityByCccdIdRequest_unmarshal rt PageRequest_ops False)"

definition enc_api_QueryIdentityByCccdIdRequest :: "('q \<Rightarrow> bytes) \<Rightarrow> 'q
    api_QueryIdentityByCccdIdRequest \<Rightarrow> bytes" where
  "enc_api_QueryIdentityByCccdIdRequest enc_PageRequest x = enc_str 0xa
      (api_QueryIdentityByCccdIdRequest_IdHash x) @ enc_opt_msg 0x12 enc_PageRequest
          (api_QueryIdentityByCccdIdRequest_Pagination x) @
              api_QueryIdentityByCccdIdRequest_unknownFields x"

definition wf_api_QueryIdentityByCccdIdRequest :: "('q \<Rightarrow> bytes) \<Rightarrow> ('q \<Rightarrow> bool) \<Rightarrow> 'q
    api_QueryIdentityByCccdIdRequest \<Rightarrow> bool" where
  "wf_api_QueryIdentityByCccdIdRequest enc_PageRequest wf_PageRequest x \<longleftrightarrow> fits
      (enc_api_QueryIdentityByCccdIdRequest enc_PageRequest x)
     \<and> foreign {1, 2} (api_QueryIdentityByCccdIdRequest_unknownFields x)
     \<and> (\<forall>p. api_QueryIdentityByCccdIdRequest_Pagination x = Some p \<longrightarrow> wf_PageRequest p)"

locale api_QueryIdentityByCccdIdRequest_methods =
  PageRequest: pulsar_embedded rt PageRequest_ops enc_PageRequest wf_PageRequest
      "op_New PageRequest_ops"
  for rt :: pulsar_rt and PageRequest_ops :: "'q proto_ops"
    and enc_PageRequest :: "'q \<Rightarrow> bytes" and wf_PageRequest :: "'q \<Rightarrow> bool"
begin

lemma wf_api_QueryIdentityByCccdIdRequestD:
  assumes "wf_api_QueryIdentityByCccdIdRequest enc_PageRequest wf_PageRequest x"
  shows "fits (api_QueryIdentityByCccdIdRequest_IdHash x)"
    and "\<And>p. api_QueryIdentityByCccdIdRequest_Pagination x = Some p \<Longrightarrow> wf_PageRequest p"
    and "fits (api_QueryIdentityByCccdIdRequest_unknownFields x)"
    and "fits (enc_api_QueryIdentityByCccdIdRequest enc_PageRequest x)"
    and "foreign {1, 2} (api_QueryIdentityByCccdIdRequest_unknownFields x)"
  using assms
  by (auto simp: wf_api_QueryIdentityByCccdIdRequest_def enc_api_QueryIdentityByCccdIdRequest_def
      image_iff intro!: map_idI dest!: fits_appendD bspec dest: fits_enc_str)

lemma api_QueryIdentityByCccdIdRequest_size:
  assumes "wf_api_QueryIdentityByCccdIdRequest enc_PageRequest wf_PageRequest x"
  shows "fastReflection_QueryIdentityByCccdIdRequest_size rt PageRequest_ops (Some x) = int
      (length (enc_api_QueryIdentityByCccdIdRequest enc_PageRequest x))"
  using wf_api_QueryIdentityByCccdIdRequestD [OF assms] size_unknown_eq [of
      "api_QueryIdentityByCccdIdRequest_unknownFields x"]
    PageRequest.size_str_length [of "api_QueryIdentityByCccdIdRequest_IdHash x" "0xa"]
    PageRequest.size_opt_msg_length [of "api_QueryIdentityByCccdIdRequest_Pagination x" "0x12"]
  by (simp add: fastReflection_QueryIdentityByCccdIdRequest_size_def
      fast_size_def enc_api_QueryIdentityByCccdIdRequest_def)

lemma api_QueryIdentityByCccdIdRequest_writes:
  assumes "wf_api_QueryIdentityByCccdIdRequest enc_PageRequest wf_PageRequest x"
  shows "writes (\<lambda>st.
     bind_res (put_unknown (api_QueryIdentityByCccdIdRequest_unknownFields x) st) (\<lambda>st.
     bind_res (rt_put_opt_msg rt PageRequest_ops 0x12
         (api_QueryIdentityByCccdIdRequest_Pagination x) st)
       (rt_put_str rt 0xa (api_QueryIdentityByCccdIdRequest_IdHash x))))
           (enc_api_QueryIdentityByCccdIdRequest enc_PageRequest x)"
proof -
  note D = wf_api_QueryIdentityByCccdIdRequestD [OF assms]
  show ?thesis
    unfolding enc_api_QueryIdentityByCccdIdRequest_def append_assoc [symmetric]
    by (intro writes_bind
        writes_unknown PageRequest.put_str_writes PageRequest.put_opt_msg_writes D)
qed

lemma api_QueryIdentityByCccdIdRequest_field_decoder: "field_decoder
    (fastReflection_QueryIdentityByCccdIdRequest_field rt PageRequest_ops discard)"
  unfolding fastReflection_QueryIdentityByCccdIdRequest_field_def [abs_def]
  by (rule field_decoderI) (intro part_intros PageRequest.op_total PageRequest.part_skip_rt; simp)

lemma api_QueryIdentityByCccdIdRequest_reads:
  assumes "wf_api_QueryIdentityByCccdIdRequest enc_PageRequest wf_PageRequest x"
  shows "reads (fastReflection_QueryIdentityByCccdIdRequest_field rt PageRequest_ops False)
      (enc_api_QueryIdentityByCccdIdRequest enc_PageRequest x)
          zero_api_QueryIdentityByCccdIdRequest x"
proof -
  let ?f = "fastReflection_QueryIdentityByCccdIdRequest_field rt PageRequest_ops False"
  note D = wf_api_QueryIdentityByCccdIdRequestD [OF assms]
  let ?s1 = "zero_api_QueryIdentityByCccdIdRequest\<lparr>api_QueryIdentityByCccdIdRequest_IdHash :=
      api_QueryIdentityByCccdIdRequest_IdHash x\<rparr>"
  let ?s2 = "?s1\<lparr>api_QueryIdentityByCccdIdRequest_Pagination :=
      api_QueryIdentityByCccdIdRequest_Pagination x\<rparr>"
  have r0: "reads ?f (enc_str 0xa
      (api_QueryIdentityByCccdIdRequest_IdHash x)) zero_api_QueryIdentityByCccdIdRequest
      ?s1"
    by (intro reads_str reads_one_len [where t = "0xa" and name =
        "''QueryIdentityByCccdIdRequest''" and f = "''IdHash''"])
      (simp_all add:
          fastReflection_QueryIdentityByCccdIdRequest_field_def zero_api_QueryIdentityByCccdIdRequest_def)
  have r1: "reads ?f (enc_opt_msg 0x12 enc_PageRequest
      (api_QueryIdentityByCccdIdRequest_Pagination x)) ?s1
      ?s2"
    using D by (intro reads_opt_msg reads_one_len [where t = "0x12" and name =
        "''QueryIdentityByCccdIdRequest''" and f = "''Pagination''"])
      (simp_all add: fastReflection_QueryIdentityByCccdIdRequest_field_def
          zero_api_QueryIdentityByCccdIdRequest_def PageRequest.op_unmarshal)
  have ru: "reads ?f (api_QueryIdentityByCccdIdRequest_unknownFields x) ?s2
      (?s2\<lparr>api_QueryIdentityByCccdIdRequest_unknownFields :=
          api_QueryIdentityByCccdIdRequest_unknownFields x\<rparr>)"
    using PageRequest.reads_foreign [of _ "api_QueryIdentityByCccdIdRequest_unknownFields x"
        "''QueryIdentityByCccdIdRequest''" ?f
            "\<lambda>w. ?s2\<lparr>api_QueryIdentityByCccdIdRequest_unknownFields := w\<rparr>" "[]", OF D(5)]
    by (simp add: fastReflection_QueryIdentityByCccdIdRequest_field_def
        zero_api_QueryIdentityByCccdIdRequest_def keep_unknown_def)
  have "?s2\<lparr>api_QueryIdentityByCccdIdRequest_unknownFields :=
      api_QueryIdentityByCccdIdRequest_unknownFields x\<rparr> = x" by (cases x)
          (simp add: zero_api_QueryIdentityByCccdIdRequest_def)
  with ru have "reads ?f (api_QueryIdentityByCccdIdRequest_unknownFields x) ?s2 x" by simp
  then show ?thesis
    unfolding enc_api_QueryIdentityByCccdIdRequest_def by (intro reads_append [OF r0]
        reads_append [OF r1])
qed

lemma api_QueryIdentityByCccdIdRequest_proto: "proto_methods (api_QueryIdentityByCccdIdRequest_ops
    rt PageRequest_ops) (enc_api_QueryIdentityByCccdIdRequest enc_PageRequest)
        (wf_api_QueryIdentityByCccdIdRequest
            enc_PageRequest wf_PageRequest) zero_api_QueryIdentityByCccdIdRequest"
  unfolding api_QueryIdentityByCccdIdRequest_ops_def
      fastReflection_QueryIdentityByCccdIdRequest_size_def
          fastReflection_QueryIdentityByCccdIdRequest_marshal_def fastReflection_QueryIdentityByCccdIdRequest_unmarshal_def
  by (rule direct_methods) (use api_QueryIdentityByCccdIdRequest_size
      api_QueryIdentityByCccdIdRequest_writes
          api_QueryIdentityByCccdIdRequest_reads wf_api_QueryIdentityByCccdIdRequestD(4)
              api_QueryIdentityByCccdIdRequest_field_decoder in
      \<open>simp_all add: fastReflection_QueryIdentityByCccdIdRequest_size_def fast_size_def\<close>)

end

interpretation api_QueryIdentityByCccdIdRequest_direct: api_QueryIdentityByCccdIdRequest_methods
    gogo_rt "api_Identity_ops gogo_rt" enc_api_Identity wf_api_Identity
  by (intro api_QueryIdentityByCccdIdRequest_methods.intro)
    (simp_all add: api_Params_direct.pulsar_embedded_axioms api_Identity_direct.pulsar_embedded_axioms
      api_Identity_ops_New)

subsection \<open>Reflection\<close>

definition fd_QueryIdentityByCccdIdRequest_idHash :: field_desc where
  "fd_QueryIdentityByCccdIdRequest_idHash =
      \<lparr>FullName = ''nexelra.identity.QueryIdentityByCccdIdRequest.idHash'', IsExtension = False\<rparr>"

definition fd_QueryIdentityByCccdIdRequest_pagination :: field_desc where
  "fd_QueryIdentityByCccdIdRequest_pagination =
      \<lparr>FullName = ''nexelra.identity.QueryIdentityByCccdIdRequest.pagination'',
          IsExtension = False\<rparr>"

definition fastReflection_QueryIdentityByCccdIdRequest_Range ::
    "'q api_QueryIdentityByCccdIdRequest option \<Rightarrow> (field_desc \<Rightarrow> ('q, 'r) api_value \<Rightarrow> 's \<Rightarrow>
        ('s \<times> bool) res) \<Rightarrow> 's \<Rightarrow> 's res" where
  "fastReflection_QueryIdentityByCccdIdRequest_Range x f s = deref x (\<lambda>x.
     visit (api_QueryIdentityByCccdIdRequest_IdHash x \<noteq> '''')
         fd_QueryIdentityByCccdIdRequest_idHash (ValueOfString
             (api_QueryIdentityByCccdIdRequest_IdHash x)) f s (\<lambda>s.
     visit (api_QueryIdentityByCccdIdRequest_Pagination x \<noteq> None)
         fd_QueryIdentityByCccdIdRequest_pagination (ValueOfMessage (PtrPageRequest
             (api_QueryIdentityByCccdIdRequest_Pagination x))) f s (\<lambda>s. Ok s)))"

definition fastReflection_QueryIdentityByCccdIdRequest_Has :: "'q api_QueryIdentityByCccdIdRequest
    option \<Rightarrow> field_desc \<Rightarrow> bool res" where
  "fastReflection_QueryIdentityByCccdIdRequest_Has x fd =
     (if FullName fd = ''nexelra.identity.QueryIdentityByCccdIdRequest.idHash'' then deref x (\<lambda>x.
         Ok (api_QueryIdentityByCccdIdRequest_IdHash x \<noteq> ''''))
      else if FullName fd = ''nexelra.identity.QueryIdentityByCccdIdRequest.pagination'' then
          deref x (\<lambda>x. Ok (api_QueryIdentityByCccdIdRequest_Pagination x \<noteq> None))
      else unknown_field fd)"

definition fastReflection_QueryIdentityByCccdIdRequest_Clear :: "'q
    api_QueryIdentityByCccdIdRequest option \<Rightarrow> field_desc \<Rightarrow> 'q
        api_QueryIdentityByCccdIdRequest res" where
  "fastReflection_QueryIdentityByCccdIdRequest_Clear x fd =
     (if FullName fd = ''nexelra.identity.QueryIdentityByCccdIdRequest.idHash'' then deref x (\<lambda>x.
         Ok (x\<lparr>api_QueryIdentityByCccdIdRequest_IdHash := ''''\<rparr>))
      else if FullName fd = ''nexelra.identity.QueryIdentityByCccdIdRequest.pagination'' then
          deref x (\<lambda>x. Ok (x\<lparr>api_QueryIdentityByCccdIdRequest_Pagination := None\<rparr>))
      else unknown_field fd)"

definition fastReflection_QueryIdentityByCccdIdRequest_Get :: "'q api_QueryIdentityByCccdIdRequest
    option \<Rightarrow> field_desc \<Rightarrow> ('q, 'r) api_value res" where
  "fastReflection_QueryIdentityByCccdIdRequest_Get x descriptor =
     (if FullName descriptor = ''nexelra.identity.QueryIdentityByCccdIdRequest.idHash'' then deref
         x (\<lambda>x. Ok (ValueOfString (api_QueryIdentityByCccdIdRequest_IdHash x)))
      else if FullName descriptor = ''nexelra.identity.QueryIdentityByCccdIdRequest.pagination''
          then deref x (\<lambda>x. Ok (ValueOfMessage (PtrPageRequest
              (api_QueryIdentityByCccdIdRequest_Pagination x))))
      else unknown_field descriptor)"

definition fastReflection_QueryIdentityByCccdIdRequest_Set :: "'q api_QueryIdentityByCccdIdRequest
    option \<Rightarrow> field_desc \<Rightarrow> ('q, 'r) api_value \<Rightarrow> 'q api_QueryIdentityByCccdIdRequest res" where
  "fastReflection_QueryIdentityByCccdIdRequest_Set x fd value =
     (if FullName fd = ''nexelra.identity.QueryIdentityByCccdIdRequest.idHash'' then deref x (\<lambda>x.
          bind_res (string_value value) (\<lambda>v. Ok (x\<lparr>api_QueryIdentityByCccdIdRequest_IdHash := v\<rparr>)))
      else if FullName fd = ''nexelra.identity.QueryIdentityByCccdIdRequest.pagination'' then
          deref x (\<lambda>x.
          bind_res (message_value value) (\<lambda>v. bind_res (as_PageRequest v) (\<lambda>v. Ok
              (x\<lparr>api_QueryIdentityByCccdIdRequest_Pagination := v\<rparr>))))
      else unknown_field fd)"

definition fastReflection_QueryIdentityByCccdIdRequest_Mutable ::
    "'q proto_ops \<Rightarrow> 'q api_QueryIdentityByCccdIdRequest option \<Rightarrow> field_desc \<Rightarrow> ('q
        api_QueryIdentityByCccdIdRequest \<times> ('q, 'r) api_value) res" where
  "fastReflection_QueryIdentityByCccdIdRequest_Mutable PageRequest_ops x fd =
     (if FullName fd = ''nexelra.identity.QueryIdentityByCccdIdRequest.idHash'' then Panic
      else if FullName fd = ''nexelra.identity.QueryIdentityByCccdIdRequest.pagination'' then
          deref x (\<lambda>x.
          let x = (if api_QueryIdentityByCccdIdRequest_Pagination x = None
              then x\<lparr>api_QueryIdentityByCccdIdRequest_Pagination := Some (op_New PageRequest_ops)\<rparr>
                  else x)
          in Ok (x, ValueOfMessage (PtrPageRequest
              (api_QueryIdentityByCccdIdRequest_Pagination x))))
      else unknown_field fd)"

definition fastReflection_QueryIdentityByCccdIdRequest_NewField :: "'q proto_ops \<Rightarrow> field_desc \<Rightarrow>
    ('q, 'r) api_value res" where
  "fastReflection_QueryIdentityByCccdIdRequest_NewField PageRequest_ops fd =
     (if FullName fd = ''nexelra.identity.QueryIdentityByCccdIdRequest.idHash'' then Ok
         (ValueOfString '''')
      else if FullName fd = ''nexelra.identity.QueryIdentityByCccdIdRequest.pagination'' then Ok
          (ValueOfMessage (PtrPageRequest (Some (op_New PageRequest_ops))))
      else unknown_field fd)"

definition fastReflection_QueryIdentityByCccdIdRequest_WhichOneof :: "'q
    api_QueryIdentityByCccdIdRequest option \<Rightarrow> string \<Rightarrow> field_desc res" where
  "fastReflection_QueryIdentityByCccdIdRequest_WhichOneof x d = Panic"

definition fastReflection_QueryIdentityByCccdIdRequest_GetUnknown :: "'q
    api_QueryIdentityByCccdIdRequest option \<Rightarrow> bytes res" where
  "fastReflection_QueryIdentityByCccdIdRequest_GetUnknown x = deref x (\<lambda>x. Ok
      (api_QueryIdentityByCccdIdRequest_unknownFields x))"

definition fastReflection_QueryIdentityByCccdIdRequest_SetUnknown :: "'q
    api_QueryIdentityByCccdIdRequest option \<Rightarrow> bytes \<Rightarrow> 'q api_QueryIdentityByCccdIdRequest res" where
  "fastReflection_QueryIdentityByCccdIdRequest_SetUnknown x raw = deref x (\<lambda>x. Ok
      (x\<lparr>api_QueryIdentityByCccdIdRequest_unknownFields := raw\<rparr>))"

definition fastReflection_QueryIdentityByCccdIdRequest_IsValid :: "'q
    api_QueryIdentityByCccdIdRequest option \<Rightarrow> bool" where
  "fastReflection_QueryIdentityByCccdIdRequest_IsValid x \<longleftrightarrow> x \<noteq> None"

definition fastReflection_QueryIdentityByCccdIdRequest_New :: "'q
    api_QueryIdentityByCccdIdRequest option" where
  "fastReflection_QueryIdentityByCccdIdRequest_New = Some zero_api_QueryIdentityByCccdIdRequest"

lemma api_QueryIdentityByCccdIdRequest_reflect:
  "fastReflection_QueryIdentityByCccdIdRequest_Has (Some x)
      fd_QueryIdentityByCccdIdRequest_idHash = Ok (api_QueryIdentityByCccdIdRequest_IdHash
          x \<noteq> '''')"
  "fastReflection_QueryIdentityByCccdIdRequest_Get (Some x)
      fd_QueryIdentityByCccdIdRequest_idHash = Ok (ValueOfString
          (api_QueryIdentityByCccdIdRequest_IdHash x))"
  "fastReflection_QueryIdentityByCccdIdRequest_Clear (Some x)
      fd_QueryIdentityByCccdIdRequest_idHash = Ok
          (x\<lparr>api_QueryIdentityByCccdIdRequest_IdHash := ''''\<rparr>)"
  "fastReflection_QueryIdentityByCccdIdRequest_Set (Some x) fd_QueryIdentityByCccdIdRequest_idHash
      value =
      bind_res (string_value value) (\<lambda>v. Ok (x\<lparr>api_QueryIdentityByCccdIdRequest_IdHash := v\<rparr>))"
  "fastReflection_QueryIdentityByCccdIdRequest_Has (Some x)
      fd_QueryIdentityByCccdIdRequest_pagination = Ok (api_QueryIdentityByCccdIdRequest_Pagination
          x \<noteq> None)"
  "fastReflection_QueryIdentityByCccdIdRequest_Get (Some x)
      fd_QueryIdentityByCccdIdRequest_pagination = Ok (ValueOfMessage (PtrPageRequest
          (api_QueryIdentityByCccdIdRequest_Pagination x)))"
  "fastReflection_QueryIdentityByCccdIdRequest_Clear (Some x)
      fd_QueryIdentityByCccdIdRequest_pagination = Ok
          (x\<lparr>api_QueryIdentityByCccdIdRequest_Pagination := None\<rparr>)"
  "fastReflection_QueryIdentityByCccdIdRequest_Set (Some x)
      fd_QueryIdentityByCccdIdRequest_pagination value =
      bind_res (message_value value) (\<lambda>v. bind_res (as_PageRequest v) (\<lambda>v. Ok
          (x\<lparr>api_QueryIdentityByCccdIdRequest_Pagination := v\<rparr>)))"
  by (simp_all add: fastReflection_QueryIdentityByCccdIdRequest_Has_def
      fastReflection_QueryIdentityByCccdIdRequest_Get_def
          fastReflection_QueryIdentityByCccdIdRequest_Clear_def
              fastReflection_QueryIdentityByCccdIdRequest_Set_def
                  fd_QueryIdentityByCccdIdRequest_idHash_def fd_QueryIdentityByCccdIdRequest_pagination_def)

lemma api_QueryIdentityByCccdIdRequest_no_field:
  assumes "FullName fd \<notin> FullName `
      set [fd_QueryIdentityByCccdIdRequest_idHash, fd_QueryIdentityByCccdIdRequest_pagination]"
  shows "fastReflection_QueryIdentityByCccdIdRequest_Has x fd = Panic"
      "fastReflection_QueryIdentityByCccdIdRequest_Get x fd = Panic"
          "fastReflection_QueryIdentityByCccdIdRequest_Set x fd value = Panic"
              "fastReflection_QueryIdentityByCccdIdRequest_Clear x fd = Panic"
  using assms by (simp_all add: fastReflection_QueryIdentityByCccdIdRequest_Has_def
      fastReflection_QueryIdentityByCccdIdRequest_Get_def
          fastReflection_QueryIdentityByCccdIdRequest_Clear_def
              fastReflection_QueryIdentityByCccdIdRequest_Set_def
                  fd_QueryIdentityByCccdIdRequest_idHash_def fd_QueryIdentityByCccdIdRequest_pagination_def)

lemma api_QueryIdentityByCccdIdRequest_fds: "distinct (map
    FullName [fd_QueryIdentityByCccdIdRequest_idHash, fd_QueryIdentityByCccdIdRequest_pagination])" "distinct [fd_QueryIdentityByCccdIdRequest_idHash, fd_QueryIdentityByCccdIdRequest_pagination]"
  by (simp_all add:
      fd_QueryIdentityByCccdIdRequest_idHash_def fd_QueryIdentityByCccdIdRequest_pagination_def)

interpretation api_QueryIdentityByCccdIdRequest_message: fast_message
    "[fd_QueryIdentityByCccdIdRequest_idHash, fd_QueryIdentityByCccdIdRequest_pagination]"
  fastReflection_QueryIdentityByCccdIdRequest_Has fastReflection_QueryIdentityByCccdIdRequest_Get
      fastReflection_QueryIdentityByCccdIdRequest_Set fastReflection_QueryIdentityByCccdIdRequest_Clear
  fastReflection_QueryIdentityByCccdIdRequest_Range
      api_QueryIdentityByCccdIdRequest_unknownFields zero_api_QueryIdentityByCccdIdRequest
proof unfold_locales
  fix m n :: "'q api_QueryIdentityByCccdIdRequest"
  assume h: "\<forall>fd \<in>
      set [fd_QueryIdentityByCccdIdRequest_idHash, fd_QueryIdentityByCccdIdRequest_pagination].
          fastReflection_QueryIdentityByCccdIdRequest_Has (Some m) fd =
              fastReflection_QueryIdentityByCccdIdRequest_Has (Some n) fd
      \<and> (fastReflection_QueryIdentityByCccdIdRequest_Has (Some m) fd = Ok True \<longrightarrow>
          fastReflection_QueryIdentityByCccdIdRequest_Get (Some m) fd =
              fastReflection_QueryIdentityByCccdIdRequest_Get (Some n) fd)"
    and u: "api_QueryIdentityByCccdIdRequest_unknownFields m =
        api_QueryIdentityByCccdIdRequest_unknownFields n"
  have e0: "api_QueryIdentityByCccdIdRequest_IdHash m = api_QueryIdentityByCccdIdRequest_IdHash n"
    by (rule same_field [OF h, where fd = fd_QueryIdentityByCccdIdRequest_idHash and d = "''''"
        and V = "ValueOfString"])
      (simp_all add: api_QueryIdentityByCccdIdRequest_reflect split: if_splits)
  have e1: "api_QueryIdentityByCccdIdRequest_Pagination m =
      api_QueryIdentityByCccdIdRequest_Pagination n"
    by (rule same_field [OF h, where fd = fd_QueryIdentityByCccdIdRequest_pagination and d =
        "None" and V = "\<lambda>v. ValueOfMessage (PtrPageRequest v)"])
      (simp_all add: api_QueryIdentityByCccdIdRequest_reflect split: if_splits)
  from u e0 e1 show "m = n" by simp
next
  fix m :: "'q api_QueryIdentityByCccdIdRequest" and f :: "field_desc \<Rightarrow> ('q, 'r) api_value \<Rightarrow> 'q
      api_QueryIdentityByCccdIdRequest \<Rightarrow> ('q api_QueryIdentityByCccdIdRequest \<times> bool) res" and s
  show "fastReflection_QueryIdentityByCccdIdRequest_Range (Some m) f s = visits (populated
      fastReflection_QueryIdentityByCccdIdRequest_Has
          fastReflection_QueryIdentityByCccdIdRequest_Get
              m [fd_QueryIdentityByCccdIdRequest_idHash, fd_QueryIdentityByCccdIdRequest_pagination]) f s"
    by (simp add: fastReflection_QueryIdentityByCccdIdRequest_Range_def 
      visits_populated [where has = fastReflection_QueryIdentityByCccdIdRequest_Has and
          get = fastReflection_QueryIdentityByCccdIdRequest_Get,
              OF api_QueryIdentityByCccdIdRequest_reflect(1,2)] 
      visits_populated [where has = fastReflection_QueryIdentityByCccdIdRequest_Has and
          get = fastReflection_QueryIdentityByCccdIdRequest_Get,
              OF api_QueryIdentityByCccdIdRequest_reflect(5,6)]
      visits_Nil del: populated.simps)
next
  fix fd :: field_desc and x :: "'q api_QueryIdentityByCccdIdRequest option" and v
  assume "FullName fd \<notin> FullName `
      set [fd_QueryIdentityByCccdIdRequest_idHash, fd_QueryIdentityByCccdIdRequest_pagination]"
  then show "fastReflection_QueryIdentityByCccdIdRequest_Has x fd = Panic \<and>
      fastReflection_QueryIdentityByCccdIdRequest_Get x fd = Panic \<and>
          fastReflection_QueryIdentityByCccdIdRequest_Set x fd v = Panic
      \<and> fastReflection_QueryIdentityByCccdIdRequest_Clear x fd = Panic"
    by (intro conjI api_QueryIdentityByCccdIdRequest_no_field)
next
  fix fd :: field_desc and m n :: "'q api_QueryIdentityByCccdIdRequest" and v
  assume "fd \<in>
      set [fd_QueryIdentityByCccdIdRequest_idHash, fd_QueryIdentityByCccdIdRequest_pagination]"
          "fastReflection_QueryIdentityByCccdIdRequest_Has (Some m) fd = Ok True"
              "fastReflection_QueryIdentityByCccdIdRequest_Get (Some m) fd = Ok v"
  then show "\<exists>n'. fastReflection_QueryIdentityByCccdIdRequest_Set (Some n) fd v = Ok n' \<and>
      fastReflection_QueryIdentityByCccdIdRequest_Get (Some n') fd = Ok v \<and>
          fastReflection_QueryIdentityByCccdIdRequest_Has (Some n') fd = Ok True"
    by (fastforce simp: api_QueryIdentityByCccdIdRequest_reflect)
next
  fix fd :: field_desc and n n' :: "'q api_QueryIdentityByCccdIdRequest" and v
  assume "fd \<in>
      set [fd_QueryIdentityByCccdIdRequest_idHash, fd_QueryIdentityByCccdIdRequest_pagination]"
          "fastReflection_QueryIdentityByCccdIdRequest_Set (Some n) fd v = Ok n'"
  then have "fd = fd_QueryIdentityByCccdIdRequest_idHash \<and>
      (\<exists>v. n' = n\<lparr>api_QueryIdentityByCccdIdRequest_IdHash := v\<rparr>)
      \<or> fd = fd_QueryIdentityByCccdIdRequest_pagination \<and>
          (\<exists>v. n' = n\<lparr>api_QueryIdentityByCccdIdRequest_Pagination := v\<rparr>)"
    by (auto simp: api_QueryIdentityByCccdIdRequest_reflect res_simps
        deref_def split: option.splits; blast)
  then show "api_QueryIdentityByCccdIdRequest_unknownFields n' =
      api_QueryIdentityByCccdIdRequest_unknownFields n \<and> (\<forall>fd' \<in>
          set [fd_QueryIdentityByCccdIdRequest_idHash, fd_QueryIdentityByCccdIdRequest_pagination]. fd' \<noteq> fd
      \<longrightarrow> fastReflection_QueryIdentityByCccdIdRequest_Has (Some n') fd' =
          fastReflection_QueryIdentityByCccdIdRequest_Has (Some n) fd' \<and>
              fastReflection_QueryIdentityByCccdIdRequest_Get (Some n') fd' =
                  fastReflection_QueryIdentityByCccdIdRequest_Get (Some n) fd')"
    by (auto simp: api_QueryIdentityByCccdIdRequest_reflect)
next
  fix fd :: field_desc and n :: "'q api_QueryIdentityByCccdIdRequest"
  assume "fd \<in>
      set [fd_QueryIdentityByCccdIdRequest_idHash, fd_QueryIdentityByCccdIdRequest_pagination]"
  then obtain n' where c: "fastReflection_QueryIdentityByCccdIdRequest_Clear (Some n) fd = Ok n'"
      "fd = fd_QueryIdentityByCccdIdRequest_idHash
          \<and> n' = n\<lparr>api_QueryIdentityByCccdIdRequest_IdHash := ''''\<rparr>
      \<or> fd = fd_QueryIdentityByCccdIdRequest_pagination
          \<and> n' = n\<lparr>api_QueryIdentityByCccdIdRequest_Pagination := None\<rparr>"
    by (auto simp: api_QueryIdentityByCccdIdRequest_reflect)
  then have "fastReflection_QueryIdentityByCccdIdRequest_Has (Some n') fd = Ok False \<and>
      api_QueryIdentityByCccdIdRequest_unknownFields n' =
          api_QueryIdentityByCccdIdRequest_unknownFields n
      \<and> (\<forall>fd' \<in>
          set [fd_QueryIdentityByCccdIdRequest_idHash, fd_QueryIdentityByCccdIdRequest_pagination]. fd' \<noteq> fd
      \<longrightarrow> fastReflection_QueryIdentityByCccdIdRequest_Has (Some n') fd' =
          fastReflection_QueryIdentityByCccdIdRequest_Has (Some n) fd' \<and>
              fastReflection_QueryIdentityByCccdIdRequest_Get (Some n') fd' =
                  fastReflection_QueryIdentityByCccdIdRequest_Get (Some n) fd')"
    by (auto simp: api_QueryIdentityByCccdIdRequest_reflect)
  with c(1) show "\<exists>n'. fastReflection_QueryIdentityByCccdIdRequest_Clear (Some n) fd = Ok n' \<and>
      fastReflection_QueryIdentityByCccdIdRequest_Has (Some n') fd = Ok False \<and>
          api_QueryIdentityByCccdIdRequest_unknownFields n' =
              api_QueryIdentityByCccdIdRequest_unknownFields n
      \<and> (\<forall>fd' \<in>
          set [fd_QueryIdentityByCccdIdRequest_idHash, fd_QueryIdentityByCccdIdRequest_pagination]. fd' \<noteq> fd
      \<longrightarrow> fastReflection_QueryIdentityByCccdIdRequest_Has (Some n') fd' =
          fastReflection_QueryIdentityByCccdIdRequest_Has (Some n) fd' \<and>
              fastReflection_QueryIdentityByCccdIdRequest_Get (Some n') fd' =
                  fastReflection_QueryIdentityByCccdIdRequest_Get (Some n) fd')"
    by blast
qed (use api_QueryIdentityByCccdIdRequest_fds in \<open>auto simp:
    api_QueryIdentityByCccdIdRequest_reflect zero_api_QueryIdentityByCccdIdRequest_def\<close>)


section \<open>QueryIdentityByCccdIdResponse\<close>

record 'r api_QueryIdentityByCccdIdResponse =
  api_QueryIdentityByCccdIdResponse_Identity :: "api_Identity option list"
  api_QueryIdentityByCccdIdResponse_Pagination :: "'r option"
  api_QueryIdentityByCccdIdResponse_unknownFields :: bytes

definition zero_api_QueryIdentityByCccdIdResponse :: "'r api_QueryIdentityByCccdIdResponse" where
  "zero_api_QueryIdentityByCccdIdResponse = \<lparr>api_QueryIdentityByCccdIdResponse_Identity = [],
      api_QueryIdentityByCccdIdResponse_Pagination = None,
          api_QueryIdentityByCccdIdResponse_unknownFields = []\<rparr>"

definition QueryIdentityByCccdIdResponse_GetIdentity :: "'r api_QueryIdentityByCccdIdResponse
    option \<Rightarrow> api_Identity option list" where
  "QueryIdentityByCccdIdResponse_GetIdentity x = (case x of None \<Rightarrow> [] | Some x \<Rightarrow>
      api_QueryIdentityByCccdIdResponse_Identity x)"

definition QueryIdentityByCccdIdResponse_GetPagination :: "'r api_QueryIdentityByCccdIdResponse
    option \<Rightarrow> 'r option" where
  "QueryIdentityByCccdIdResponse_GetPagination x = (case x of None \<Rightarrow> None | Some x \<Rightarrow>
      api_QueryIdentityByCccdIdResponse_Pagination x)"

subsection \<open>Size, marshal and unmarshal\<close>

definition fastReflection_QueryIdentityByCccdIdResponse_size :: "pulsar_rt \<Rightarrow> api_Identity
    proto_ops \<Rightarrow> 'r proto_ops \<Rightarrow> 'r api_QueryIdentityByCccdIdResponse option \<Rightarrow> int" where
  "fastReflection_QueryIdentityByCccdIdResponse_size rt Identity_ops PageResponse_ops = fast_size
      (\<lambda>x. rt_size_msgs rt Identity_ops (api_QueryIdentityByCccdIdResponse_Identity x) +
          rt_size_opt_msg rt PageResponse_ops (api_QueryIdentityByCccdIdResponse_Pagination x) +
              size_unknown (api_QueryIdentityByCccdIdResponse_unknownFields x))"

definition fastReflection_QueryIdentityByCccdIdResponse_marshal ::
    "pulsar_rt \<Rightarrow> api_Identity proto_ops \<Rightarrow> 'r proto_ops \<Rightarrow> ('r api_QueryIdentityByCccdIdResponse
        option \<Rightarrow> int) \<Rightarrow> 'r api_QueryIdentityByCccdIdResponse option \<Rightarrow> bytes option \<Rightarrow> bytes
            option res" where
  "fastReflection_QueryIdentityByCccdIdResponse_marshal rt Identity_ops PageResponse_ops
      options_Size = fast_marshal options_Size (\<lambda>x. \<lambda>st.
     bind_res (put_unknown (api_QueryIdentityByCccdIdResponse_unknownFields x) st) (\<lambda>st.
     bind_res (rt_put_opt_msg rt PageResponse_ops 0x12
         (api_QueryIdentityByCccdIdResponse_Pagination x) st)
       (rt_put_msgs rt Identity_ops 0xa (api_QueryIdentityByCccdIdResponse_Identity x))))"

definition fastReflection_QueryIdentityByCccdIdResponse_field :: "pulsar_rt \<Rightarrow> api_Identity
    proto_ops \<Rightarrow> 'r proto_ops \<Rightarrow> bool \<Rightarrow> 'r api_QueryIdentityByCccdIdResponse field_reader" where
  "fastReflection_QueryIdentityByCccdIdResponse_field rt Identity_ops PageResponse_ops discard d i
      x =
     bind_res (read_tag ''QueryIdentityByCccdIdResponse'' d i) (\<lambda>(fieldNum, wireType, j).
       if fieldNum = 1 then bind_res (read_len ''Identity'' wireType d j)
         (\<lambda>(s, j). bind_res (op_Unmarshal Identity_ops s zero_api_Identity)
           (\<lambda>p. Ok (j, x\<lparr>api_QueryIdentityByCccdIdResponse_Identity :=
               api_QueryIdentityByCccdIdResponse_Identity x @ [Some p]\<rparr>)))
       else if fieldNum = 2 then bind_res (read_len ''Pagination'' wireType d j)
         (\<lambda>(s, j). bind_res (op_Unmarshal PageResponse_ops s (case
             api_QueryIdentityByCccdIdResponse_Pagination x of None \<Rightarrow> (op_New PageResponse_ops) |
                 Some p \<Rightarrow> p))
           (\<lambda>p. Ok (j, x\<lparr>api_QueryIdentityByCccdIdResponse_Pagination := Some p\<rparr>)))
       else bind_res (rt_skip_unknown rt d i) (\<lambda>(s, j).
         Ok (j, x\<lparr>api_QueryIdentityByCccdIdResponse_unknownFields := keep_unknown discard
             (api_QueryIdentityByCccdIdResponse_unknownFields x) s\<rparr>)))"

definition fastReflection_QueryIdentityByCccdIdResponse_unmarshal ::
    "pulsar_rt \<Rightarrow> api_Identity proto_ops \<Rightarrow> 'r proto_ops \<Rightarrow> bool \<Rightarrow> bytes \<Rightarrow> 'r
        api_QueryIdentityByCccdIdResponse option \<Rightarrow> 'r api_QueryIdentityByCccdIdResponse
            option res" where
  "fastReflection_QueryIdentityByCccdIdResponse_unmarshal rt Identity_ops PageResponse_ops
      discard = fast_unmarshal (fastReflection_QueryIdentityByCccdIdResponse_field rt Identity_ops
          PageResponse_ops discard)"

definition api_QueryIdentityByCccdIdResponse_ops :: "pulsar_rt \<Rightarrow> api_Identity proto_ops \<Rightarrow> 'r
    proto_ops \<Rightarrow> 'r api_QueryIdentityByCccdIdResponse proto_ops" where
  "api_QueryIdentityByCccdIdResponse_ops rt Identity_ops PageResponse_ops = direct_ops
      zero_api_QueryIdentityByCccdIdResponse (fastReflection_QueryIdentityByCccdIdResponse_size rt
          Identity_ops PageResponse_ops)
     (fastReflection_QueryIdentityByCccdIdResponse_marshal rt Identity_ops PageResponse_ops
         (fastReflection_QueryIdentityByCccdIdResponse_size rt Identity_ops PageResponse_ops))
             (fastReflection_QueryIdentityByCccdIdResponse_unmarshal rt Identity_ops
                 PageResponse_ops False)"

definition enc_api_QueryIdentityByCccdIdResponse :: "('r \<Rightarrow> bytes) \<Rightarrow> 'r
    api_QueryIdentityByCccdIdResponse \<Rightarrow> bytes" where
  "enc_api_QueryIdentityByCccdIdResponse enc_PageResponse x = enc_msgs 0xa enc_api_Identity (map
      the (api_QueryIdentityByCccdIdResponse_Identity x)) @ enc_opt_msg 0x12 enc_PageResponse
          (api_QueryIdentityByCccdIdResponse_Pagination x) @
              api_QueryIdentityByCccdIdResponse_unknownFields x"

definition wf_api_QueryIdentityByCccdIdResponse :: "('r \<Rightarrow> bytes) \<Rightarrow> ('r \<Rightarrow> bool) \<Rightarrow> 'r
    api_QueryIdentityByCccdIdResponse \<Rightarrow> bool" where
  "wf_api_QueryIdentityByCccdIdResponse enc_PageResponse wf_PageResponse x \<longleftrightarrow> fits
      (enc_api_QueryIdentityByCccdIdResponse enc_PageResponse x)
     \<and> foreign {1, 2} (api_QueryIdentityByCccdIdResponse_unknownFields x)
     \<and> (\<forall>p \<in> set (api_QueryIdentityByCccdIdResponse_Identity x). \<exists>q. p = Some q \<and> wf_api_Identity q)
     \<and> (\<forall>p. api_QueryIdentityByCccdIdResponse_Pagination x = Some p \<longrightarrow> wf_PageResponse p)"

locale api_QueryIdentityByCccdIdResponse_methods =
  Identity: pulsar_embedded rt Identity_ops enc_api_Identity wf_api_Identity zero_api_Identity +
  PageResponse: pulsar_embedded rt PageResponse_ops enc_PageResponse wf_PageResponse
      "op_New PageResponse_ops"
  for rt :: pulsar_rt and Identity_ops :: "api_Identity proto_ops" and PageResponse_ops ::
      "'r proto_ops"
    and enc_PageResponse :: "'r \<Rightarrow> bytes" and wf_PageResponse :: "'r \<Rightarrow> bool"
begin

lemma wf_api_QueryIdentityByCccdIdResponseD:
  assumes "wf_api_QueryIdentityByCccdIdResponse enc_PageResponse wf_PageResponse x"
  shows "\<forall>p \<in> set (map the (api_QueryIdentityByCccdIdResponse_Identity x)). wf_api_Identity p"
    and "map Some (map the (api_QueryIdentityByCccdIdResponse_Identity x)) =
        api_QueryIdentityByCccdIdResponse_Identity x"
    and "\<And>p. api_QueryIdentityByCccdIdResponse_Pagination x = Some p \<Longrightarrow> wf_PageResponse p"
    and "fits (api_QueryIdentityByCccdIdResponse_unknownFields x)"
    and "fits (enc_api_QueryIdentityByCccdIdResponse enc_PageResponse x)"
    and "foreign {1, 2} (api_QueryIdentityByCccdIdResponse_unknownFields x)"
  using assms
  by (auto simp: wf_api_QueryIdentityByCccdIdResponse_def
      enc_api_QueryIdentityByCccdIdResponse_def image_iff intro!: map_idI dest!: fits_appendD
          bspec dest: fits_enc_str)

lemma api_QueryIdentityByCccdIdResponse_size:
  assumes "wf_api_QueryIdentityByCccdIdResponse enc_PageResponse wf_PageResponse x"
  shows "fastReflection_QueryIdentityByCccdIdResponse_size rt Identity_ops PageResponse_ops
      (Some x) = int (length (enc_api_QueryIdentityByCccdIdResponse enc_PageResponse x))"
  using wf_api_QueryIdentityByCccdIdResponseD [OF assms] size_unknown_eq [of
      "api_QueryIdentityByCccdIdResponse_unknownFields x"]
    Identity.size_msgs_length [of "map the (api_QueryIdentityByCccdIdResponse_Identity x)" "0xa"]
    PageResponse.size_opt_msg_length [of "api_QueryIdentityByCccdIdResponse_Pagination x" "0x12"]
  by (simp add: fastReflection_QueryIdentityByCccdIdResponse_size_def
      fast_size_def enc_api_QueryIdentityByCccdIdResponse_def)

lemma api_QueryIdentityByCccdIdResponse_writes:
  assumes "wf_api_QueryIdentityByCccdIdResponse enc_PageResponse wf_PageResponse x"
  shows "writes (\<lambda>st.
     bind_res (put_unknown (api_QueryIdentityByCccdIdResponse_unknownFields x) st) (\<lambda>st.
     bind_res (rt_put_opt_msg rt PageResponse_ops 0x12
         (api_QueryIdentityByCccdIdResponse_Pagination x) st)
       (rt_put_msgs rt Identity_ops 0xa (api_QueryIdentityByCccdIdResponse_Identity x))))
           (enc_api_QueryIdentityByCccdIdResponse enc_PageResponse x)"
proof -
  note D = wf_api_QueryIdentityByCccdIdResponseD [OF assms]
  have l: "writes (rt_put_msgs rt Identity_ops 0xa (api_QueryIdentityByCccdIdResponse_Identity x))
      (enc_msgs 0xa enc_api_Identity (map the (api_QueryIdentityByCccdIdResponse_Identity x)))"
    using Identity.put_msgs_writes [of "map the (api_QueryIdentityByCccdIdResponse_Identity x)"
        "0xa"] D by simp
  show ?thesis
    unfolding enc_api_QueryIdentityByCccdIdResponse_def append_assoc [symmetric]
    by (intro writes_bind writes_unknown PageResponse.put_opt_msg_writes l D)
qed

lemma api_QueryIdentityByCccdIdResponse_field_decoder: "field_decoder
    (fastReflection_QueryIdentityByCccdIdResponse_field rt Identity_ops PageResponse_ops discard)"
  unfolding fastReflection_QueryIdentityByCccdIdResponse_field_def [abs_def]
  by (rule field_decoderI) (intro
      part_intros Identity.op_total PageResponse.op_total Identity.part_skip_rt; simp)

lemma api_QueryIdentityByCccdIdResponse_reads:
  assumes "wf_api_QueryIdentityByCccdIdResponse enc_PageResponse wf_PageResponse x"
  shows "reads (fastReflection_QueryIdentityByCccdIdResponse_field rt Identity_ops
      PageResponse_ops False) (enc_api_QueryIdentityByCccdIdResponse enc_PageResponse x)
          zero_api_QueryIdentityByCccdIdResponse x"
proof -
  let ?f = "fastReflection_QueryIdentityByCccdIdResponse_field rt Identity_ops
      PageResponse_ops False"
  note D = wf_api_QueryIdentityByCccdIdResponseD [OF assms]
  let ?s1 = "zero_api_QueryIdentityByCccdIdResponse\<lparr>api_QueryIdentityByCccdIdResponse_Identity :=
      api_QueryIdentityByCccdIdResponse_Identity x\<rparr>"
  let ?s2 = "?s1\<lparr>api_QueryIdentityByCccdIdResponse_Pagination :=
      api_QueryIdentityByCccdIdResponse_Pagination x\<rparr>"
  let ?st = "\<lambda>ps. zero_api_QueryIdentityByCccdIdResponse\<lparr>api_QueryIdentityByCccdIdResponse_Identity := map Some ps\<rparr>"
  have "reads ?f (enc_msgs 0xa enc_api_Identity (map the
      (api_QueryIdentityByCccdIdResponse_Identity x))) (?st []) (?st ([] @ map the
          (api_QueryIdentityByCccdIdResponse_Identity x)))"
  proof (rule reads_msgs [where st = ?st])
    fix p ps assume "p \<in> set (map the (api_QueryIdentityByCccdIdResponse_Identity x))"
    then have "wf_api_Identity p" using D by blast
    then show "reads_one ?f (enc_len 0xa (enc_api_Identity p)) (?st ps) (?st (ps @ [p]))"
      by (intro reads_one_len [where t = "0xa" and name = "''QueryIdentityByCccdIdResponse''" and
          f = "''Identity''"])
        (simp_all add: fastReflection_QueryIdentityByCccdIdResponse_field_def
            zero_api_QueryIdentityByCccdIdResponse_def Identity.op_unmarshal)
  qed
  then have r0: "reads ?f (enc_msgs 0xa enc_api_Identity (map the
      (api_QueryIdentityByCccdIdResponse_Identity x))) zero_api_QueryIdentityByCccdIdResponse ?s1"
    using D by (simp add: zero_api_QueryIdentityByCccdIdResponse_def)
  have r1: "reads ?f (enc_opt_msg 0x12 enc_PageResponse
      (api_QueryIdentityByCccdIdResponse_Pagination x)) ?s1
      ?s2"
    using D by (intro reads_opt_msg reads_one_len [where t = "0x12" and name =
        "''QueryIdentityByCccdIdResponse''" and f = "''Pagination''"])
      (simp_all add: fastReflection_QueryIdentityByCccdIdResponse_field_def
          zero_api_QueryIdentityByCccdIdResponse_def PageResponse.op_unmarshal)
  have ru: "reads ?f (api_QueryIdentityByCccdIdResponse_unknownFields x) ?s2
      (?s2\<lparr>api_QueryIdentityByCccdIdResponse_unknownFields :=
          api_QueryIdentityByCccdIdResponse_unknownFields x\<rparr>)"
    using Identity.reads_foreign [of _ "api_QueryIdentityByCccdIdResponse_unknownFields x"
        "''QueryIdentityByCccdIdResponse''" ?f
            "\<lambda>w. ?s2\<lparr>api_QueryIdentityByCccdIdResponse_unknownFields := w\<rparr>" "[]", OF D(6)]
    by (simp add: fastReflection_QueryIdentityByCccdIdResponse_field_def
        zero_api_QueryIdentityByCccdIdResponse_def keep_unknown_def)
  have "?s2\<lparr>api_QueryIdentityByCccdIdResponse_unknownFields :=
      api_QueryIdentityByCccdIdResponse_unknownFields x\<rparr> = x" by (cases x)
          (simp add: zero_api_QueryIdentityByCccdIdResponse_def)
  with ru have "reads ?f (api_QueryIdentityByCccdIdResponse_unknownFields x) ?s2 x" by simp
  then show ?thesis
    unfolding enc_api_QueryIdentityByCccdIdResponse_def by (intro reads_append [OF r0]
        reads_append [OF r1])
qed

lemma api_QueryIdentityByCccdIdResponse_proto: "proto_methods
    (api_QueryIdentityByCccdIdResponse_ops rt Identity_ops PageResponse_ops)
        (enc_api_QueryIdentityByCccdIdResponse enc_PageResponse)
            (wf_api_QueryIdentityByCccdIdResponse
                enc_PageResponse wf_PageResponse) zero_api_QueryIdentityByCccdIdResponse"
  unfolding api_QueryIdentityByCccdIdResponse_ops_def
      fastReflection_QueryIdentityByCccdIdResponse_size_def
          fastReflection_QueryIdentityByCccdIdResponse_marshal_def fastReflection_QueryIdentityByCccdIdResponse_unmarshal_def
  by (rule direct_methods) (use api_QueryIdentityByCccdIdResponse_size
      api_QueryIdentityByCccdIdResponse_writes
          api_QueryIdentityByCccdIdResponse_reads wf_api_QueryIdentityByCccdIdResponseD(5)
              api_QueryIdentityByCccdIdResponse_field_decoder in
      \<open>simp_all add: fastReflection_QueryIdentityByCccdIdResponse_size_def fast_size_def\<close>)

end

interpretation api_QueryIdentityByCccdIdResponse_direct: api_QueryIdentityByCccdIdResponse_methods
    gogo_rt "api_Identity_ops gogo_rt" "api_Identity_ops gogo_rt" enc_api_Identity wf_api_Identity
  by (intro api_QueryIdentityByCccdIdResponse_methods.intro)
    (simp_all add: api_Params_direct.pulsar_embedded_axioms api_Identity_direct.pulsar_embedded_axioms
      api_Identity_ops_New)

subsection \<open>Reflection\<close>

definition fd_QueryIdentityByCccdIdResponse_identity :: field_desc where
  "fd_QueryIdentityByCccdIdResponse_identity =
      \<lparr>FullName = ''nexelra.identity.QueryIdentityByCccdIdResponse.identity'', IsExtension = False\<rparr>"

definition fd_QueryIdentityByCccdIdResponse_pagination :: field_desc where
  "fd_QueryIdentityByCccdIdResponse_pagination =
      \<lparr>FullName = ''nexelra.identity.QueryIdentityByCccdIdResponse.pagination'',
          IsExtension = False\<rparr>"

definition fastReflection_QueryIdentityByCccdIdResponse_Range ::
    "'r api_QueryIdentityByCccdIdResponse option \<Rightarrow> (field_desc \<Rightarrow> ('q, 'r) api_value \<Rightarrow> 's \<Rightarrow>
        ('s \<times> bool) res) \<Rightarrow> 's \<Rightarrow> 's res" where
  "fastReflection_QueryIdentityByCccdIdResponse_Range x f s = deref x (\<lambda>x.
     visit (api_QueryIdentityByCccdIdResponse_Identity x \<noteq> [])
         fd_QueryIdentityByCccdIdResponse_identity (ValueOfList
             (QueryIdentityByCccdIdResponse_1_list (Some
                 (api_QueryIdentityByCccdIdResponse_Identity x)))) f s (\<lambda>s.
     visit (api_QueryIdentityByCccdIdResponse_Pagination x \<noteq> None)
         fd_QueryIdentityByCccdIdResponse_pagination (ValueOfMessage (PtrPageResponse
             (api_QueryIdentityByCccdIdResponse_Pagination x))) f s (\<lambda>s. Ok s)))"

definition fastReflection_QueryIdentityByCccdIdResponse_Has :: "'r
    api_QueryIdentityByCccdIdResponse option \<Rightarrow> field_desc \<Rightarrow> bool res" where
  "fastReflection_QueryIdentityByCccdIdResponse_Has x fd =
     (if FullName fd = ''nexelra.identity.QueryIdentityByCccdIdResponse.identity'' then deref x
         (\<lambda>x. Ok (api_QueryIdentityByCccdIdResponse_Identity x \<noteq> []))
      else if FullName fd = ''nexelra.identity.QueryIdentityByCccdIdResponse.pagination'' then
          deref x (\<lambda>x. Ok (api_QueryIdentityByCccdIdResponse_Pagination x \<noteq> None))
      else unknown_field fd)"

definition fastReflection_QueryIdentityByCccdIdResponse_Clear :: "'r
    api_QueryIdentityByCccdIdResponse option \<Rightarrow> field_desc \<Rightarrow> 'r
        api_QueryIdentityByCccdIdResponse res" where
  "fastReflection_QueryIdentityByCccdIdResponse_Clear x fd =
     (if FullName fd = ''nexelra.identity.QueryIdentityByCccdIdResponse.identity'' then deref x
         (\<lambda>x. Ok (x\<lparr>api_QueryIdentityByCccdIdResponse_Identity := []\<rparr>))
      else if FullName fd = ''nexelra.identity.QueryIdentityByCccdIdResponse.pagination'' then
          deref x (\<lambda>x. Ok (x\<lparr>api_QueryIdentityByCccdIdResponse_Pagination := None\<rparr>))
      else unknown_field fd)"

definition fastReflection_QueryIdentityByCccdIdResponse_Get :: "'r
    api_QueryIdentityByCccdIdResponse option \<Rightarrow> field_desc \<Rightarrow> ('q, 'r) api_value res" where
  "fastReflection_QueryIdentityByCccdIdResponse_Get x descriptor =
     (if FullName descriptor = ''nexelra.identity.QueryIdentityByCccdIdResponse.identity'' then
         deref x (\<lambda>x.
          if api_QueryIdentityByCccdIdResponse_Identity x = [] then Ok (ValueOfList
              (QueryIdentityByCccdIdResponse_1_list None)) else Ok (ValueOfList
                  (QueryIdentityByCccdIdResponse_1_list (Some
                      (api_QueryIdentityByCccdIdResponse_Identity x)))))
      else if FullName descriptor = ''nexelra.identity.QueryIdentityByCccdIdResponse.pagination''
          then deref x (\<lambda>x. Ok (ValueOfMessage (PtrPageResponse
              (api_QueryIdentityByCccdIdResponse_Pagination x))))
      else unknown_field descriptor)"

definition fastReflection_QueryIdentityByCccdIdResponse_Set :: "'r
    api_QueryIdentityByCccdIdResponse option \<Rightarrow> field_desc \<Rightarrow> ('q, 'r) api_value \<Rightarrow> 'r
        api_QueryIdentityByCccdIdResponse res" where
  "fastReflection_QueryIdentityByCccdIdResponse_Set x fd value =
     (if FullName fd = ''nexelra.identity.QueryIdentityByCccdIdResponse.identity'' then deref x (\<lambda>x.
          bind_res (list_value value) (\<lambda>lv. bind_res (as_QueryIdentityByCccdIdResponse_1_list lv)
              (\<lambda>clv.
          deref clv (\<lambda>xs. Ok (x\<lparr>api_QueryIdentityByCccdIdResponse_Identity := xs\<rparr>)))))
      else if FullName fd = ''nexelra.identity.QueryIdentityByCccdIdResponse.pagination'' then
          deref x (\<lambda>x.
          bind_res (message_value value) (\<lambda>v. bind_res (as_PageResponse v) (\<lambda>v. Ok
              (x\<lparr>api_QueryIdentityByCccdIdResponse_Pagination := v\<rparr>))))
      else unknown_field fd)"

definition fastReflection_QueryIdentityByCccdIdResponse_Mutable ::
    "'r proto_ops \<Rightarrow> 'r api_QueryIdentityByCccdIdResponse option \<Rightarrow> field_desc \<Rightarrow> ('r
        api_QueryIdentityByCccdIdResponse \<times> ('q, 'r) api_value) res" where
  "fastReflection_QueryIdentityByCccdIdResponse_Mutable PageResponse_ops x fd =
     (if FullName fd = ''nexelra.identity.QueryIdentityByCccdIdResponse.identity'' then deref x
         (\<lambda>x. Ok (x, ValueOfList (QueryIdentityByCccdIdResponse_1_list (Some
             (api_QueryIdentityByCccdIdResponse_Identity x)))))
      else if FullName fd = ''nexelra.identity.QueryIdentityByCccdIdResponse.pagination'' then
          deref x (\<lambda>x.
          let x = (if api_QueryIdentityByCccdIdResponse_Pagination x = None
              then x\<lparr>api_QueryIdentityByCccdIdResponse_Pagination := Some
                  (op_New PageResponse_ops)\<rparr> else x)
          in Ok (x, ValueOfMessage (PtrPageResponse
              (api_QueryIdentityByCccdIdResponse_Pagination x))))
      else unknown_field fd)"

definition fastReflection_QueryIdentityByCccdIdResponse_NewField :: "'r proto_ops \<Rightarrow> field_desc \<Rightarrow>
    ('q, 'r) api_value res" where
  "fastReflection_QueryIdentityByCccdIdResponse_NewField PageResponse_ops fd =
     (if FullName fd = ''nexelra.identity.QueryIdentityByCccdIdResponse.identity'' then Ok
         (ValueOfList (QueryIdentityByCccdIdResponse_1_list (Some [])))
      else if FullName fd = ''nexelra.identity.QueryIdentityByCccdIdResponse.pagination'' then Ok
          (ValueOfMessage (PtrPageResponse (Some (op_New PageResponse_ops))))
      else unknown_field fd)"

definition fastReflection_QueryIdentityByCccdIdResponse_WhichOneof :: "'r
    api_QueryIdentityByCccdIdResponse option \<Rightarrow> string \<Rightarrow> field_desc res" where
  "fastReflection_QueryIdentityByCccdIdResponse_WhichOneof x d = Panic"

definition fastReflection_QueryIdentityByCccdIdResponse_GetUnknown :: "'r
    api_QueryIdentityByCccdIdResponse option \<Rightarrow> bytes res" where
  "fastReflection_QueryIdentityByCccdIdResponse_GetUnknown x = deref x (\<lambda>x. Ok
      (api_QueryIdentityByCccdIdResponse_unknownFields x))"

definition fastReflection_QueryIdentityByCccdIdResponse_SetUnknown :: "'r
    api_QueryIdentityByCccdIdResponse option \<Rightarrow> bytes \<Rightarrow> 'r
        api_QueryIdentityByCccdIdResponse res" where
  "fastReflection_QueryIdentityByCccdIdResponse_SetUnknown x raw = deref x (\<lambda>x. Ok
      (x\<lparr>api_QueryIdentityByCccdIdResponse_unknownFields := raw\<rparr>))"

definition fastReflection_QueryIdentityByCccdIdResponse_IsValid :: "'r
    api_QueryIdentityByCccdIdResponse option \<Rightarrow> bool" where
  "fastReflection_QueryIdentityByCccdIdResponse_IsValid x \<longleftrightarrow> x \<noteq> None"

definition fastReflection_QueryIdentityByCccdIdResponse_New :: "'r
    api_QueryIdentityByCccdIdResponse option" where
  "fastReflection_QueryIdentityByCccdIdResponse_New = Some zero_api_QueryIdentityByCccdIdResponse"

lemma api_QueryIdentityByCccdIdResponse_reflect:
  "fastReflection_QueryIdentityByCccdIdResponse_Has (Some x)
      fd_QueryIdentityByCccdIdResponse_identity = Ok (api_QueryIdentityByCccdIdResponse_Identity
          x \<noteq> [])"
  "fastReflection_QueryIdentityByCccdIdResponse_Get (Some x)
      fd_QueryIdentityByCccdIdResponse_identity =
      Ok (if api_QueryIdentityByCccdIdResponse_Identity x = [] then ValueOfList
          (QueryIdentityByCccdIdResponse_1_list None) else ValueOfList
              (QueryIdentityByCccdIdResponse_1_list (Some
                  (api_QueryIdentityByCccdIdResponse_Identity x))))"
  "fastReflection_QueryIdentityByCccdIdResponse_Clear (Some x)
      fd_QueryIdentityByCccdIdResponse_identity = Ok
          (x\<lparr>api_QueryIdentityByCccdIdResponse_Identity := []\<rparr>)"
  "fastReflection_QueryIdentityByCccdIdResponse_Set (Some x)
      fd_QueryIdentityByCccdIdResponse_identity value =
      bind_res (list_value value) (\<lambda>lv. bind_res (as_QueryIdentityByCccdIdResponse_1_list lv)
        (\<lambda>clv. deref clv (\<lambda>xs. Ok (x\<lparr>api_QueryIdentityByCccdIdResponse_Identity := xs\<rparr>))))"
  "fastReflection_QueryIdentityByCccdIdResponse_Has (Some x)
      fd_QueryIdentityByCccdIdResponse_pagination = Ok
          (api_QueryIdentityByCccdIdResponse_Pagination x \<noteq> None)"
  "fastReflection_QueryIdentityByCccdIdResponse_Get (Some x)
      fd_QueryIdentityByCccdIdResponse_pagination = Ok (ValueOfMessage (PtrPageResponse
          (api_QueryIdentityByCccdIdResponse_Pagination x)))"
  "fastReflection_QueryIdentityByCccdIdResponse_Clear (Some x)
      fd_QueryIdentityByCccdIdResponse_pagination = Ok
          (x\<lparr>api_QueryIdentityByCccdIdResponse_Pagination := None\<rparr>)"
  "fastReflection_QueryIdentityByCccdIdResponse_Set (Some x)
      fd_QueryIdentityByCccdIdResponse_pagination value =
      bind_res (message_value value) (\<lambda>v. bind_res (as_PageResponse v) (\<lambda>v. Ok
          (x\<lparr>api_QueryIdentityByCccdIdResponse_Pagination := v\<rparr>)))"
  by (simp_all add: fastReflection_QueryIdentityByCccdIdResponse_Has_def
      fastReflection_QueryIdentityByCccdIdResponse_Get_def
          fastReflection_QueryIdentityByCccdIdResponse_Clear_def
              fastReflection_QueryIdentityByCccdIdResponse_Set_def
                  fd_QueryIdentityByCccdIdResponse_identity_def fd_QueryIdentityByCccdIdResponse_pagination_def)

lemma api_QueryIdentityByCccdIdResponse_no_field:
  assumes "FullName fd \<notin> FullName `
      set [fd_QueryIdentityByCccdIdResponse_identity, fd_QueryIdentityByCccdIdResponse_pagination]"
  shows "fastReflection_QueryIdentityByCccdIdResponse_Has x fd = Panic"
      "fastReflection_QueryIdentityByCccdIdResponse_Get x fd = Panic"
          "fastReflection_QueryIdentityByCccdIdResponse_Set x fd value = Panic"
              "fastReflection_QueryIdentityByCccdIdResponse_Clear x fd = Panic"
  using assms by (simp_all add: fastReflection_QueryIdentityByCccdIdResponse_Has_def
      fastReflection_QueryIdentityByCccdIdResponse_Get_def
          fastReflection_QueryIdentityByCccdIdResponse_Clear_def
              fastReflection_QueryIdentityByCccdIdResponse_Set_def
                  fd_QueryIdentityByCccdIdResponse_identity_def fd_QueryIdentityByCccdIdResponse_pagination_def)

lemma api_QueryIdentityByCccdIdResponse_fds: "distinct (map
    FullName [fd_QueryIdentityByCccdIdResponse_identity, fd_QueryIdentityByCccdIdResponse_pagination])" "distinct [fd_QueryIdentityByCccdIdResponse_identity, fd_QueryIdentityByCccdIdResponse_pagination]"
  by (simp_all add:
      fd_QueryIdentityByCccdIdResponse_identity_def fd_QueryIdentityByCccdIdResponse_pagination_def)

interpretation api_QueryIdentityByCccdIdResponse_message: fast_message
    "[fd_QueryIdentityByCccdIdResponse_identity, fd_QueryIdentityByCccdIdResponse_pagination]"
  fastReflection_QueryIdentityByCccdIdResponse_Has
      fastReflection_QueryIdentityByCccdIdResponse_Get
          fastReflection_QueryIdentityByCccdIdResponse_Set fastReflection_QueryIdentityByCccdIdResponse_Clear
  fastReflection_QueryIdentityByCccdIdResponse_Range
      api_QueryIdentityByCccdIdResponse_unknownFields zero_api_QueryIdentityByCccdIdResponse
proof unfold_locales
  fix m n :: "'r api_QueryIdentityByCccdIdResponse"
  assume h: "\<forall>fd \<in>
      set [fd_QueryIdentityByCccdIdResponse_identity, fd_QueryIdentityByCccdIdResponse_pagination]. fastReflection_QueryIdentityByCccdIdResponse_Has (Some m) fd = fastReflection_QueryIdentityByCccdIdResponse_Has (Some n) fd
      \<and> (fastReflection_QueryIdentityByCccdIdResponse_Has (Some m) fd = Ok True \<longrightarrow>
          fastReflection_QueryIdentityByCccdIdResponse_Get (Some m) fd =
              fastReflection_QueryIdentityByCccdIdResponse_Get (Some n) fd)"
    and u: "api_QueryIdentityByCccdIdResponse_unknownFields m =
        api_QueryIdentityByCccdIdResponse_unknownFields n"
  have e0: "api_QueryIdentityByCccdIdResponse_Identity m =
      api_QueryIdentityByCccdIdResponse_Identity n"
    by (rule same_field [OF h, where fd = fd_QueryIdentityByCccdIdResponse_identity and d = "[]"
        and V = "\<lambda>v. if v = [] then ValueOfList (QueryIdentityByCccdIdResponse_1_list None) else
            ValueOfList (QueryIdentityByCccdIdResponse_1_list (Some v))"])
      (simp_all add: api_QueryIdentityByCccdIdResponse_reflect split: if_splits)
  have e1: "api_QueryIdentityByCccdIdResponse_Pagination m =
      api_QueryIdentityByCccdIdResponse_Pagination n"
    by (rule same_field [OF h, where fd = fd_QueryIdentityByCccdIdResponse_pagination and d =
        "None" and V = "\<lambda>v. ValueOfMessage (PtrPageResponse v)"])
      (simp_all add: api_QueryIdentityByCccdIdResponse_reflect split: if_splits)
  from u e0 e1 show "m = n" by simp
next
  fix m :: "'r api_QueryIdentityByCccdIdResponse" and f :: "field_desc \<Rightarrow> ('q, 'r) api_value \<Rightarrow> 'r
      api_QueryIdentityByCccdIdResponse \<Rightarrow> ('r api_QueryIdentityByCccdIdResponse \<times> bool) res" and s
  show "fastReflection_QueryIdentityByCccdIdResponse_Range (Some m) f s = visits (populated
      fastReflection_QueryIdentityByCccdIdResponse_Has
          fastReflection_QueryIdentityByCccdIdResponse_Get
              m [fd_QueryIdentityByCccdIdResponse_identity, fd_QueryIdentityByCccdIdResponse_pagination]) f s"
    by (cases "api_QueryIdentityByCccdIdResponse_Identity m = []"; simp add:
        fastReflection_QueryIdentityByCccdIdResponse_Range_def 
      visits_populated [where has = fastReflection_QueryIdentityByCccdIdResponse_Has and
          get = fastReflection_QueryIdentityByCccdIdResponse_Get,
              OF api_QueryIdentityByCccdIdResponse_reflect(1,2)] 
      visits_populated [where has = fastReflection_QueryIdentityByCccdIdResponse_Has and
          get = fastReflection_QueryIdentityByCccdIdResponse_Get,
              OF api_QueryIdentityByCccdIdResponse_reflect(5,6)]
      visits_Nil del: populated.simps)
next
  fix fd :: field_desc and x :: "'r api_QueryIdentityByCccdIdResponse option" and v
  assume "FullName fd \<notin> FullName `
      set [fd_QueryIdentityByCccdIdResponse_identity, fd_QueryIdentityByCccdIdResponse_pagination]"
  then show "fastReflection_QueryIdentityByCccdIdResponse_Has x fd = Panic \<and>
      fastReflection_QueryIdentityByCccdIdResponse_Get x fd = Panic \<and>
          fastReflection_QueryIdentityByCccdIdResponse_Set x fd v = Panic
      \<and> fastReflection_QueryIdentityByCccdIdResponse_Clear x fd = Panic"
    by (intro conjI api_QueryIdentityByCccdIdResponse_no_field)
next
  fix fd :: field_desc and m n :: "'r api_QueryIdentityByCccdIdResponse" and v
  assume "fd \<in>
      set [fd_QueryIdentityByCccdIdResponse_identity, fd_QueryIdentityByCccdIdResponse_pagination]" "fastReflection_QueryIdentityByCccdIdResponse_Has (Some m) fd = Ok True" "fastReflection_QueryIdentityByCccdIdResponse_Get (Some m) fd = Ok v"
  then show "\<exists>n'. fastReflection_QueryIdentityByCccdIdResponse_Set (Some n) fd v = Ok n' \<and>
      fastReflection_QueryIdentityByCccdIdResponse_Get (Some n') fd = Ok v \<and>
          fastReflection_QueryIdentityByCccdIdResponse_Has (Some n') fd = Ok True"
    by (fastforce simp: api_QueryIdentityByCccdIdResponse_reflect)
next
  fix fd :: field_desc and n n' :: "'r api_QueryIdentityByCccdIdResponse" and v
  assume "fd \<in>
      set [fd_QueryIdentityByCccdIdResponse_identity, fd_QueryIdentityByCccdIdResponse_pagination]" "fastReflection_QueryIdentityByCccdIdResponse_Set (Some n) fd v = Ok n'"
  then have "fd = fd_QueryIdentityByCccdIdResponse_identity \<and>
      (\<exists>v. n' = n\<lparr>api_QueryIdentityByCccdIdResponse_Identity := v\<rparr>)
      \<or> fd = fd_QueryIdentityByCccdIdResponse_pagination \<and>
          (\<exists>v. n' = n\<lparr>api_QueryIdentityByCccdIdResponse_Pagination := v\<rparr>)"
    by (auto simp: api_QueryIdentityByCccdIdResponse_reflect res_simps
        deref_def split: option.splits; blast)
  then show "api_QueryIdentityByCccdIdResponse_unknownFields n' =
      api_QueryIdentityByCccdIdResponse_unknownFields n \<and> (\<forall>fd' \<in>
          set [fd_QueryIdentityByCccdIdResponse_identity, fd_QueryIdentityByCccdIdResponse_pagination]. fd' \<noteq> fd
      \<longrightarrow> fastReflection_QueryIdentityByCccdIdResponse_Has (Some n') fd' =
          fastReflection_QueryIdentityByCccdIdResponse_Has (Some n) fd' \<and>
              fastReflection_QueryIdentityByCccdIdResponse_Get (Some n') fd' =
                  fastReflection_QueryIdentityByCccdIdResponse_Get (Some n) fd')"
    by (auto simp: api_QueryIdentityByCccdIdResponse_reflect)
next
  fix fd :: field_desc and n :: "'r api_QueryIdentityByCccdIdResponse"
  assume "fd \<in>
      set [fd_QueryIdentityByCccdIdResponse_identity, fd_QueryIdentityByCccdIdResponse_pagination]"
  then obtain n' where c: "fastReflection_QueryIdentityByCccdIdResponse_Clear (Some n) fd = Ok n'"
      "fd = fd_QueryIdentityByCccdIdResponse_identity
          \<and> n' = n\<lparr>api_QueryIdentityByCccdIdResponse_Identity := []\<rparr>
      \<or> fd = fd_QueryIdentityByCccdIdResponse_pagination
          \<and> n' = n\<lparr>api_QueryIdentityByCccdIdResponse_Pagination := None\<rparr>"
    by (auto simp: api_QueryIdentityByCccdIdResponse_reflect)
  then have "fastReflection_QueryIdentityByCccdIdResponse_Has (Some n') fd = Ok False \<and>
      api_QueryIdentityByCccdIdResponse_unknownFields n' =
          api_QueryIdentityByCccdIdResponse_unknownFields n
      \<and> (\<forall>fd' \<in>
          set [fd_QueryIdentityByCccdIdResponse_identity, fd_QueryIdentityByCccdIdResponse_pagination]. fd' \<noteq> fd
      \<longrightarrow> fastReflection_QueryIdentityByCccdIdResponse_Has (Some n') fd' =
          fastReflection_QueryIdentityByCccdIdResponse_Has (Some n) fd' \<and>
              fastReflection_QueryIdentityByCccdIdResponse_Get (Some n') fd' =
                  fastReflection_QueryIdentityByCccdIdResponse_Get (Some n) fd')"
    by (auto simp: api_QueryIdentityByCccdIdResponse_reflect)
  with c(1) show "\<exists>n'. fastReflection_QueryIdentityByCccdIdResponse_Clear (Some n) fd = Ok n' \<and>
      fastReflection_QueryIdentityByCccdIdResponse_Has (Some n') fd = Ok False \<and>
          api_QueryIdentityByCccdIdResponse_unknownFields n' =
              api_QueryIdentityByCccdIdResponse_unknownFields n
      \<and> (\<forall>fd' \<in>
          set [fd_QueryIdentityByCccdIdResponse_identity, fd_QueryIdentityByCccdIdResponse_pagination]. fd' \<noteq> fd
      \<longrightarrow> fastReflection_QueryIdentityByCccdIdResponse_Has (Some n') fd' =
          fastReflection_QueryIdentityByCccdIdResponse_Has (Some n) fd' \<and>
              fastReflection_QueryIdentityByCccdIdResponse_Get (Some n') fd' =
                  fastReflection_QueryIdentityByCccdIdResponse_Get (Some n) fd')"
    by blast
qed (use api_QueryIdentityByCccdIdResponse_fds in \<open>auto simp:
    api_QueryIdentityByCccdIdResponse_reflect zero_api_QueryIdentityByCccdIdResponse_def\<close>)

subsection \<open>The list type of \<open>QueryIdentityByCccdIdResponse.Identity\<close>\<close>

definition QueryIdentityByCccdIdResponse_1_list_Len :: "api_Identity list_ptr \<Rightarrow> int" where
  "QueryIdentityByCccdIdResponse_1_list_Len x = list_Len x"

definition QueryIdentityByCccdIdResponse_1_list_Get :: "api_Identity list_ptr \<Rightarrow> int \<Rightarrow> ('q, 'r)
    api_value res" where
  "QueryIdentityByCccdIdResponse_1_list_Get x i = bind_res (list_Get x i) (\<lambda>e. Ok (ValueOfMessage
      (PtrIdentity e)))"

definition QueryIdentityByCccdIdResponse_1_list_Set :: "api_Identity list_ptr \<Rightarrow> int \<Rightarrow> ('q, 'r)
    api_value \<Rightarrow> api_Identity list_ptr res" where
  "QueryIdentityByCccdIdResponse_1_list_Set x i value =
     bind_res (message_value value) (\<lambda>v. bind_res (as_Identity v) (\<lambda>concreteValue. list_Set x
         i concreteValue))"

definition QueryIdentityByCccdIdResponse_1_list_Append :: "api_Identity list_ptr \<Rightarrow> ('q, 'r)
    api_value \<Rightarrow> api_Identity list_ptr res" where
  "QueryIdentityByCccdIdResponse_1_list_Append x value =
     bind_res (message_value value) (\<lambda>v. bind_res (as_Identity v) (\<lambda>concreteValue. list_Append
         x concreteValue))"

definition QueryIdentityByCccdIdResponse_1_list_AppendMutable :: "api_Identity list_ptr \<Rightarrow>
    (api_Identity list_ptr \<times> ('q, 'r) api_value) res" where
  "QueryIdentityByCccdIdResponse_1_list_AppendMutable x =
     (let v = Some zero_api_Identity in bind_res (list_Append x v) (\<lambda>x. Ok (x, ValueOfMessage
         (PtrIdentity v))))"

definition QueryIdentityByCccdIdResponse_1_list_Truncate :: "api_Identity list_ptr \<Rightarrow> api_Identity
    option list \<Rightarrow> int \<Rightarrow> api_Identity list_ptr res" where
  "QueryIdentityByCccdIdResponse_1_list_Truncate x spare n = list_Truncate x spare n"

definition QueryIdentityByCccdIdResponse_1_list_NewElement :: "('q, 'r) api_value" where
  "QueryIdentityByCccdIdResponse_1_list_NewElement = ValueOfMessage (PtrIdentity
      (Some zero_api_Identity))"

definition QueryIdentityByCccdIdResponse_1_list_IsValid :: "api_Identity list_ptr \<Rightarrow> bool" where
  "QueryIdentityByCccdIdResponse_1_list_IsValid x \<longleftrightarrow> x \<noteq> None"

interpretation QueryIdentityByCccdIdResponse_1_list: fast_list
    QueryIdentityByCccdIdResponse_1_list_Len QueryIdentityByCccdIdResponse_1_list_Get
        QueryIdentityByCccdIdResponse_1_list_Set QueryIdentityByCccdIdResponse_1_list_Append
  "\<lambda>x. QueryIdentityByCccdIdResponse_1_list_Truncate x spare"
      QueryIdentityByCccdIdResponse_1_list_IsValid Identity_values is_Identity_value
  unfolding QueryIdentityByCccdIdResponse_1_list_Len_def [abs_def]
      QueryIdentityByCccdIdResponse_1_list_Get_def [abs_def]
          QueryIdentityByCccdIdResponse_1_list_Set_def [abs_def]
              QueryIdentityByCccdIdResponse_1_list_Append_def [abs_def]
    QueryIdentityByCccdIdResponse_1_list_Truncate_def [abs_def]
        QueryIdentityByCccdIdResponse_1_list_IsValid_def [abs_def]
  by (rule Identity_list_contract)

end
