(* ===== verification/PulsarModule.thy ===== *)
theory PulsarModule
  imports Pulsar Reflect
begin

text \<open>
  \<open>api/nexelra/identity/module/module.pulsar.go\<close>: the module's configuration message.
\<close>

section \<open>Module\<close>

record api_Module =
  api_Module_Authority :: "string"
  api_Module_unknownFields :: bytes

definition zero_api_Module :: "api_Module" where
  "zero_api_Module = \<lparr>api_Module_Authority = '''', api_Module_unknownFields = []\<rparr>"

definition Module_GetAuthority :: "api_Module option \<Rightarrow> string" where
  "Module_GetAuthority x = (case x of None \<Rightarrow> '''' | Some x \<Rightarrow> api_Module_Authority x)"

subsection \<open>Size, marshal and unmarshal\<close>

definition fastReflection_Module_size :: "pulsar_rt \<Rightarrow> api_Module option \<Rightarrow> int" where
  "fastReflection_Module_size rt = fast_size (\<lambda>x. rt_size_str rt (api_Module_Authority x) +
      size_unknown (api_Module_unknownFields x))"

definition fastReflection_Module_marshal ::
    "pulsar_rt \<Rightarrow> (api_Module option \<Rightarrow> int) \<Rightarrow> api_Module option \<Rightarrow> bytes option \<Rightarrow> bytes
        option res" where
  "fastReflection_Module_marshal rt options_Size = fast_marshal options_Size (\<lambda>x. \<lambda>st.
     bind_res (put_unknown (api_Module_unknownFields x) st)
       (rt_put_str rt 0xa (api_Module_Authority x)))"

definition fastReflection_Module_field :: "pulsar_rt \<Rightarrow> bool \<Rightarrow> api_Module field_reader" where
  "fastReflection_Module_field rt discard d i x =
     bind_res (read_tag ''Module'' d i) (\<lambda>(fieldNum, wireType, j).
       if fieldNum = 1 then bind_res (read_len ''Authority'' wireType d j)
         (\<lambda>(s, j). Ok (j, x\<lparr>api_Module_Authority := string_of s\<rparr>))
       else bind_res (rt_skip_unknown rt d i) (\<lambda>(s, j).
         Ok (j, x\<lparr>api_Module_unknownFields := keep_unknown discard
             (api_Module_unknownFields x) s\<rparr>)))"

definition fastReflection_Module_unmarshal ::
    "pulsar_rt \<Rightarrow> bool \<Rightarrow> bytes \<Rightarrow> api_Module option \<Rightarrow> api_Module option res" where
  "fastReflection_Module_unmarshal rt discard = fast_unmarshal (fastReflection_Module_field
      rt discard)"

definition api_Module_ops :: "pulsar_rt \<Rightarrow> api_Module proto_ops" where
  "api_Module_ops rt = direct_ops zero_api_Module (fastReflection_Module_size rt)
     (fastReflection_Module_marshal rt (fastReflection_Module_size rt))
         (fastReflection_Module_unmarshal rt False)"

definition enc_api_Module :: "api_Module \<Rightarrow> bytes" where
  "enc_api_Module x = enc_str 0xa (api_Module_Authority x) @ api_Module_unknownFields x"

definition wf_api_Module :: "api_Module \<Rightarrow> bool" where
  "wf_api_Module x \<longleftrightarrow> fits (enc_api_Module x)
     \<and> foreign {1} (api_Module_unknownFields x)"

context pulsar_runtime
begin

lemma wf_api_ModuleD:
  assumes "wf_api_Module x"
  shows "fits (api_Module_Authority x)"
    and "fits (api_Module_unknownFields x)"
    and "fits (enc_api_Module x)"
    and "foreign {1} (api_Module_unknownFields x)"
  using assms
  by (auto simp: wf_api_Module_def enc_api_Module_def image_iff intro!: map_idI dest!:
      fits_appendD bspec dest: fits_enc_str)

lemma api_Module_size:
  assumes "wf_api_Module x"
  shows "fastReflection_Module_size rt (Some x) = int (length (enc_api_Module x))"
  using wf_api_ModuleD [OF assms] size_unknown_eq [of "api_Module_unknownFields x"]
    size_str_length [of "api_Module_Authority x" "0xa"]
  by (simp add: fastReflection_Module_size_def fast_size_def enc_api_Module_def)

lemma api_Module_writes:
  assumes "wf_api_Module x"
  shows "writes (\<lambda>st.
     bind_res (put_unknown (api_Module_unknownFields x) st)
       (rt_put_str rt 0xa (api_Module_Authority x))) (enc_api_Module x)"
proof -
  note D = wf_api_ModuleD [OF assms]
  show ?thesis
    unfolding enc_api_Module_def append_assoc [symmetric]
    by (intro writes_bind writes_unknown put_str_writes D)
qed

lemma api_Module_field_decoder: "field_decoder (fastReflection_Module_field rt discard)"
  unfolding fastReflection_Module_field_def [abs_def]
  by (rule field_decoderI) (intro part_intros; simp)

lemma api_Module_reads:
  assumes "wf_api_Module x"
  shows "reads (fastReflection_Module_field rt False) (enc_api_Module x) zero_api_Module x"
proof -
  let ?f = "fastReflection_Module_field rt False"
  note D = wf_api_ModuleD [OF assms]
  let ?s1 = "zero_api_Module\<lparr>api_Module_Authority := api_Module_Authority x\<rparr>"
  have r0: "reads ?f (enc_str 0xa (api_Module_Authority x)) zero_api_Module
      ?s1"
    by (intro reads_str reads_one_len [where t = "0xa" and name = "''Module''" and f =
        "''Authority''"])
      (simp_all add: fastReflection_Module_field_def zero_api_Module_def)
  have ru: "reads ?f (api_Module_unknownFields x) ?s1
      (?s1\<lparr>api_Module_unknownFields := api_Module_unknownFields x\<rparr>)"
    using reads_foreign [of _ "api_Module_unknownFields x" "''Module''" ?f
        "\<lambda>w. ?s1\<lparr>api_Module_unknownFields := w\<rparr>" "[]", OF D(4)]
    by (simp add: fastReflection_Module_field_def zero_api_Module_def keep_unknown_def)
  have "?s1\<lparr>api_Module_unknownFields := api_Module_unknownFields x\<rparr> = x" by (cases x)
      (simp add: zero_api_Module_def)
  with ru have "reads ?f (api_Module_unknownFields x) ?s1 x" by simp
  then show ?thesis
    unfolding enc_api_Module_def by (intro reads_append [OF r0])
qed

lemma api_Module_proto: "proto_methods (api_Module_ops rt) (enc_api_Module)
    (wf_api_Module) zero_api_Module"
  unfolding api_Module_ops_def fastReflection_Module_size_def
      fastReflection_Module_marshal_def fastReflection_Module_unmarshal_def
  by (rule direct_methods) (use api_Module_size api_Module_writes
      api_Module_reads wf_api_ModuleD(3) api_Module_field_decoder in
      \<open>simp_all add: fastReflection_Module_size_def fast_size_def\<close>)

end

subsection \<open>Reflection\<close>

definition fd_Module_authority :: field_desc where
  "fd_Module_authority = \<lparr>FullName = ''nexelra.identity.module.Module.authority'',
      IsExtension = False\<rparr>"

definition fastReflection_Module_Range ::
    "api_Module option \<Rightarrow> (field_desc \<Rightarrow> ('msg, 'lst) pvalue \<Rightarrow> 's \<Rightarrow> ('s \<times> bool) res) \<Rightarrow> 's
        \<Rightarrow> 's res" where
  "fastReflection_Module_Range x f s = deref x (\<lambda>x.
     visit (api_Module_Authority x \<noteq> '''') fd_Module_authority (ValueOfString
         (api_Module_Authority x)) f s (\<lambda>s. Ok s))"

definition fastReflection_Module_Has :: "api_Module option \<Rightarrow> field_desc \<Rightarrow> bool res" where
  "fastReflection_Module_Has x fd =
     (if FullName fd = ''nexelra.identity.module.Module.authority'' then deref x (\<lambda>x. Ok
         (api_Module_Authority x \<noteq> ''''))
      else unknown_field fd)"

definition fastReflection_Module_Clear :: "api_Module option \<Rightarrow> field_desc \<Rightarrow> api_Module res" where
  "fastReflection_Module_Clear x fd =
     (if FullName fd = ''nexelra.identity.module.Module.authority'' then deref x (\<lambda>x. Ok
         (x\<lparr>api_Module_Authority := ''''\<rparr>))
      else unknown_field fd)"

definition fastReflection_Module_Get :: "api_Module option \<Rightarrow> field_desc \<Rightarrow> ('msg, 'lst)
    pvalue res" where
  "fastReflection_Module_Get x descriptor =
     (if FullName descriptor = ''nexelra.identity.module.Module.authority'' then deref x (\<lambda>x. Ok
         (ValueOfString (api_Module_Authority x)))
      else unknown_field descriptor)"

definition fastReflection_Module_Set :: "api_Module option \<Rightarrow> field_desc \<Rightarrow> ('msg, 'lst) pvalue \<Rightarrow>
    api_Module res" where
  "fastReflection_Module_Set x fd value =
     (if FullName fd = ''nexelra.identity.module.Module.authority'' then deref x (\<lambda>x.
          bind_res (string_value value) (\<lambda>v. Ok (x\<lparr>api_Module_Authority := v\<rparr>)))
      else unknown_field fd)"

definition fastReflection_Module_Mutable ::
    "api_Module option \<Rightarrow> field_desc \<Rightarrow> (api_Module \<times> ('msg, 'lst) pvalue) res" where
  "fastReflection_Module_Mutable x fd =
     (if FullName fd = ''nexelra.identity.module.Module.authority'' then Panic
      else unknown_field fd)"

definition fastReflection_Module_NewField :: "field_desc \<Rightarrow> ('msg, 'lst) pvalue res" where
  "fastReflection_Module_NewField fd =
     (if FullName fd = ''nexelra.identity.module.Module.authority'' then Ok (ValueOfString '''')
      else unknown_field fd)"

definition fastReflection_Module_WhichOneof :: "api_Module option \<Rightarrow> string \<Rightarrow> field_desc res" where
  "fastReflection_Module_WhichOneof x d = Panic"

definition fastReflection_Module_GetUnknown :: "api_Module option \<Rightarrow> bytes res" where
  "fastReflection_Module_GetUnknown x = deref x (\<lambda>x. Ok (api_Module_unknownFields x))"

definition fastReflection_Module_SetUnknown :: "api_Module option \<Rightarrow> bytes \<Rightarrow> api_Module res" where
  "fastReflection_Module_SetUnknown x raw = deref x (\<lambda>x. Ok (x\<lparr>api_Module_unknownFields := raw\<rparr>))"

definition fastReflection_Module_IsValid :: "api_Module option \<Rightarrow> bool" where
  "fastReflection_Module_IsValid x \<longleftrightarrow> x \<noteq> None"

definition fastReflection_Module_New :: "api_Module option" where
  "fastReflection_Module_New = Some zero_api_Module"

lemma api_Module_reflect:
  "fastReflection_Module_Has (Some x) fd_Module_authority = Ok (api_Module_Authority x \<noteq> '''')"
  "fastReflection_Module_Get (Some x) fd_Module_authority = Ok (ValueOfString
      (api_Module_Authority x))"
  "fastReflection_Module_Clear (Some x) fd_Module_authority = Ok (x\<lparr>api_Module_Authority := ''''\<rparr>)"
  "fastReflection_Module_Set (Some x) fd_Module_authority value =
      bind_res (string_value value) (\<lambda>v. Ok (x\<lparr>api_Module_Authority := v\<rparr>))"
  by (simp_all add: fastReflection_Module_Has_def fastReflection_Module_Get_def
      fastReflection_Module_Clear_def fastReflection_Module_Set_def fd_Module_authority_def)

lemma api_Module_no_field:
  assumes "FullName fd \<notin> FullName ` set [fd_Module_authority]"
  shows "fastReflection_Module_Has x fd = Panic" "fastReflection_Module_Get x fd = Panic"
      "fastReflection_Module_Set x fd value = Panic" "fastReflection_Module_Clear x fd = Panic"
  using assms by (simp_all add: fastReflection_Module_Has_def fastReflection_Module_Get_def
      fastReflection_Module_Clear_def fastReflection_Module_Set_def fd_Module_authority_def)

lemma api_Module_fds: "distinct (map FullName [fd_Module_authority])"
    "distinct [fd_Module_authority]"
  by (simp_all add: fd_Module_authority_def)

interpretation api_Module_message: fast_message "[fd_Module_authority]"
  fastReflection_Module_Has fastReflection_Module_Get
      fastReflection_Module_Set fastReflection_Module_Clear
  fastReflection_Module_Range api_Module_unknownFields zero_api_Module
proof unfold_locales
  fix m n :: "api_Module"
  assume h: "\<forall>fd \<in> set [fd_Module_authority]. fastReflection_Module_Has (Some m) fd =
      fastReflection_Module_Has (Some n) fd
      \<and> (fastReflection_Module_Has (Some m) fd = Ok True \<longrightarrow> fastReflection_Module_Get (Some m) fd =
          fastReflection_Module_Get (Some n) fd)"
    and u: "api_Module_unknownFields m = api_Module_unknownFields n"
  have e0: "api_Module_Authority m = api_Module_Authority n"
    by (rule same_field [OF h, where fd = fd_Module_authority and d = "''''" and V =
        "ValueOfString"])
      (simp_all add: api_Module_reflect split: if_splits)
  from u e0 show "m = n" by simp
next
  fix m :: "api_Module" and f :: "field_desc \<Rightarrow> ('a, 'b) pvalue \<Rightarrow> api_Module \<Rightarrow>
      (api_Module \<times> bool) res" and s
  show "fastReflection_Module_Range (Some m) f s = visits (populated fastReflection_Module_Has
      fastReflection_Module_Get m [fd_Module_authority]) f s"
    by (simp add: fastReflection_Module_Range_def 
      visits_populated [where has = fastReflection_Module_Has and get = fastReflection_Module_Get,
          OF api_Module_reflect(1,2)]
      visits_Nil del: populated.simps)
next
  fix fd :: field_desc and x :: "api_Module option" and v
  assume "FullName fd \<notin> FullName ` set [fd_Module_authority]"
  then show "fastReflection_Module_Has x fd = Panic \<and> fastReflection_Module_Get x fd = Panic \<and>
      fastReflection_Module_Set x fd v = Panic
      \<and> fastReflection_Module_Clear x fd = Panic"
    by (intro conjI api_Module_no_field)
next
  fix fd :: field_desc and m n :: "api_Module" and v
  assume "fd \<in> set [fd_Module_authority]" "fastReflection_Module_Has (Some m) fd = Ok True"
      "fastReflection_Module_Get (Some m) fd = Ok v"
  then show "\<exists>n'. fastReflection_Module_Set (Some n) fd v = Ok n' \<and> fastReflection_Module_Get
      (Some n') fd = Ok v \<and> fastReflection_Module_Has (Some n') fd = Ok True"
    by (fastforce simp: api_Module_reflect)
next
  fix fd :: field_desc and n n' :: "api_Module" and v
  assume "fd \<in> set [fd_Module_authority]" "fastReflection_Module_Set (Some n) fd v = Ok n'"
  then have "fd = fd_Module_authority \<and> (\<exists>v. n' = n\<lparr>api_Module_Authority := v\<rparr>)"
    by (auto simp: api_Module_reflect res_simps deref_def split: option.splits; blast)
  then show "api_Module_unknownFields n' = api_Module_unknownFields n \<and> (\<forall>fd' \<in>
      set [fd_Module_authority]. fd' \<noteq> fd
      \<longrightarrow> fastReflection_Module_Has (Some n') fd' = fastReflection_Module_Has (Some n) fd' \<and>
          fastReflection_Module_Get (Some n') fd' = fastReflection_Module_Get (Some n) fd')"
    by (auto simp: api_Module_reflect)
next
  fix fd :: field_desc and n :: "api_Module"
  assume "fd \<in> set [fd_Module_authority]"
  then obtain n' where c: "fastReflection_Module_Clear (Some n) fd = Ok n'"
      "fd = fd_Module_authority \<and> n' = n\<lparr>api_Module_Authority := ''''\<rparr>"
    by (auto simp: api_Module_reflect)
  then have "fastReflection_Module_Has (Some n') fd = Ok False \<and> api_Module_unknownFields n' =
      api_Module_unknownFields n
      \<and> (\<forall>fd' \<in> set [fd_Module_authority]. fd' \<noteq> fd
      \<longrightarrow> fastReflection_Module_Has (Some n') fd' = fastReflection_Module_Has (Some n) fd' \<and>
          fastReflection_Module_Get (Some n') fd' = fastReflection_Module_Get (Some n) fd')"
    by (auto simp: api_Module_reflect)
  with c(1) show "\<exists>n'. fastReflection_Module_Clear (Some n) fd = Ok n' \<and> fastReflection_Module_Has
      (Some n') fd = Ok False \<and> api_Module_unknownFields n' = api_Module_unknownFields n
      \<and> (\<forall>fd' \<in> set [fd_Module_authority]. fd' \<noteq> fd
      \<longrightarrow> fastReflection_Module_Has (Some n') fd' = fastReflection_Module_Has (Some n) fd' \<and>
          fastReflection_Module_Get (Some n') fd' = fastReflection_Module_Get (Some n) fd')"
    by blast
qed (use api_Module_fds in \<open>auto simp: api_Module_reflect zero_api_Module_def\<close>)

end
