(* ===== verification/Api_Equiv.thy ===== *)
theory Api_Equiv
  imports PulsarTx PulsarGenesis PulsarQuery PulsarPages PulsarModule TxPb GenesisPb
begin

text \<open>
  The two implementations of a message, the chain's under \<open>x/identity/types\<close> (gogo) and the
  client's under \<open>api/nexelra/identity\<close> (pulsar), related by the function that forgets a
  client message's unknown fields. The loops over the fields commute with such a function when
  the bodies do (\<open>unmarshal_loop_sim\<close>).
\<close>

section \<open>Loops that simulate each other\<close>

lemma field_loop_sim:
  assumes step: "\<And>i m. 0 \<le> i \<Longrightarrow> i < glen d \<Longrightarrow>
      bind_res (field d i m) (\<lambda>(j, m). Ok (j, f m)) = bind_res (field' d i (f m)) Ok"
    and fd: "field_decoder field" and "0 \<le> i"
  shows "bind_res (field_loop fuel field d i m) (\<lambda>(j, m). Ok (j, f m)) = field_loop fuel field' d i (f m)"
  using assms(3)
proof (induction fuel arbitrary: i m)
  case 0
  then show ?case by simp
next
  case (Suc fuel)
  show ?case
  proof (cases "i < glen d")
    case True
    note s = step [OF Suc.prems True, of m]
    show ?thesis
    proof (cases "field d i m")
      case (Ok jm)
      obtain j m' where jm: "jm = (j, m')" by (cases jm)
      with Ok field_decoder.field_progress [OF fd _ Suc.prems True, of m j m'] Suc.prems
      have "0 \<le> j" by simp
      moreover from s Ok jm have "field' d i (f m) = Ok (j, f m')" by simp
      ultimately show ?thesis using Suc.IH [of j m'] Ok jm True by simp
    qed (use s [symmetric] True in simp_all)
  qed simp
qed

lemma unmarshal_loop_sim:
  assumes "\<And>i m. 0 \<le> i \<Longrightarrow> i < glen d \<Longrightarrow>
      bind_res (field d i m) (\<lambda>(j, m). Ok (j, f m)) = bind_res (field' d i (f m)) Ok"
    and "field_decoder field"
  shows "unmarshal_loop field' d (f m) = bind_res (unmarshal_loop field d m) (\<lambda>m. Ok (f m))"
proof -
  have "unmarshal_loop field' d (f m) = bind_res (bind_res (field_loop (length d) field d 0 m)
      (\<lambda>(j, m). Ok (j, f m))) (\<lambda>(i, m). if glen d < i then Err ErrUnexpectedEOF else Ok m)"
    using field_loop_sim [where f = f and field' = field', OF assms, of 0 "length d" m] by (simp add: unmarshal_loop_def)
  then show ?thesis
    by (cases "field_loop (length d) field d 0 m") (auto simp: unmarshal_loop_def)
qed

text \<open>
  \<open>runtime.Skip\<close> is the function that the gogo files contain as \<open>skipIdentity\<close>: then the two
  \<open>default\<close> cases step over the same bytes.
\<close>

definition skips_alike :: "pulsar_rt \<Rightarrow> bool" where
  "skips_alike rt \<longleftrightarrow> rt_Skip rt = skip_field"

lemma skips_alike_gogo: "skips_alike gogo_rt"
  by (simp add: skips_alike_def gogo_rt_def)

lemma skip_sim:
  assumes "skips_alike rt" "0 \<le> i" "i < glen d"
  shows "bind_res (rt_skip_unknown rt d i) (\<lambda>(s, j). Ok (j, m)) = bind_res (skip_unknown d i) (\<lambda>j. Ok (j, m))"
proof (cases "slice_from d i")
  case (Ok rest)
  show ?thesis
  proof (cases "skip_field rest")
    case (Ok n)
    from skip_field_pos [OF Ok] skip_field_less [OF Ok] int64_add_le [of i d n] assms(2,3) glen_le_length [of d]
    have "\<not> int64 (i + n) < 0 \<Longrightarrow> \<not> glen d < int64 (i + n) \<Longrightarrow>
        \<exists>s. subslice d i (int64 (i + n)) = Ok s"
      by (auto simp: subslice_def)
    with Ok \<open>slice_from d i = Ok rest\<close> assms(1) show ?thesis
      by (auto simp: rt_skip_unknown_def skip_unknown_def skips_alike_def)
  qed (use Ok assms(1) in \<open>simp_all add: rt_skip_unknown_def skip_unknown_def skips_alike_def\<close>)
qed (simp_all add: rt_skip_unknown_def skip_unknown_def)

lemma fast_unmarshal_Some:
  "fast_unmarshal field d (Some m) = bind_res (unmarshal_loop field d m) (\<lambda>m. Ok (Some m))"
  by (simp add: fast_unmarshal_def)

section \<open>The messages of the client and of the chain\<close>

definition chain_Identity :: "api_Identity \<Rightarrow> Identity" where
  "chain_Identity x = \<lparr>Address = api_Identity_Address x, IdHash = api_Identity_IdHash x,
     CreatedAt = api_Identity_CreatedAt x\<rparr>"

definition chain_MsgCreateIdentity :: "api_MsgCreateIdentity \<Rightarrow> MsgCreateIdentity" where
  "chain_MsgCreateIdentity x = \<lparr>Creator = api_MsgCreateIdentity_Creator x,
     CccdId = api_MsgCreateIdentity_CccdId x\<rparr>"

lemma chain_zero:
  "chain_Identity zero_api_Identity = zero_Identity"
  "chain_MsgCreateIdentity zero_api_MsgCreateIdentity = zero_MsgCreateIdentity"
  by (simp_all add: chain_Identity_def zero_api_Identity_def zero_Identity_def chain_MsgCreateIdentity_def
      zero_api_MsgCreateIdentity_def zero_MsgCreateIdentity_def)

text \<open>The parts of a field, one rule each.\<close>

named_theorems sim_intros \<open>parts of two decoders that correspond\<close>

lemma sim_tag [sim_intros]:
  assumes "\<And>n wt j. bind_res (b n wt j) g = c n wt j"
  shows "bind_res (bind_res (read_tag name d i) (\<lambda>(n, wt, j). b n wt j)) g
    = bind_res (read_tag name d i) (\<lambda>(n, wt, j). c n wt j)"
  using assms by (cases "read_tag name d i") auto

lemma sim_if [sim_intros]:
  "bind_res a g = a' \<Longrightarrow> bind_res b g = b' \<Longrightarrow> bind_res (if c then a else b) g = (if c then a' else b')"
  by simp

lemma sim_len [sim_intros]:
  assumes "\<And>s k. g (k, h s) = Ok (k, h' s)"
  shows "bind_res (bind_res (read_len f wt d j) (\<lambda>(s, k). Ok (k, h s))) g
    = bind_res (read_len f wt d j) (\<lambda>(s, k). Ok (k, h' s))"
  using assms by (cases "read_len f wt d j") auto

lemma sim_int [sim_intros]:
  assumes "\<And>v k. g (k, h v) = Ok (k, h' v)"
  shows "bind_res (bind_res (read_int f wt d j) (\<lambda>(v, k). Ok (k, h v))) g
    = bind_res (read_int f wt d j) (\<lambda>(v, k). Ok (k, h' v))"
  using assms by (cases "read_int f wt d j") auto

lemma sim_skip [sim_intros]:
  assumes "skips_alike rt" "0 \<le> i" "i < glen d" and "\<And>s k. g (k, h s) = Ok (k, m')"
  shows "bind_res (bind_res (rt_skip_unknown rt d i) (\<lambda>(s, k). Ok (k, h s))) g
    = bind_res (skip_unknown d i) (\<lambda>k. Ok (k, m'))"
  using skip_sim [OF assms(1-3), of m'] assms(4)
  by (cases "rt_skip_unknown rt d i") auto

lemma Identity_field_sim:
  assumes "skips_alike rt" "0 \<le> i" "i < glen d"
  shows "bind_res (fastReflection_Identity_field rt discard d i m) (\<lambda>(j, m). Ok (j, chain_Identity m))
    = Identity_field d i (chain_Identity m)"
  unfolding fastReflection_Identity_field_def Identity_field_def
  by (intro sim_intros assms) (simp_all add: chain_Identity_def)

lemma MsgCreateIdentity_field_sim:
  assumes "skips_alike rt" "0 \<le> i" "i < glen d"
  shows "bind_res (fastReflection_MsgCreateIdentity_field rt discard d i m) (\<lambda>(j, m). Ok (j, chain_MsgCreateIdentity m))
    = MsgCreateIdentity_field d i (chain_MsgCreateIdentity m)"
  unfolding fastReflection_MsgCreateIdentity_field_def MsgCreateIdentity_field_def
  by (intro sim_intros assms) (simp_all add: chain_MsgCreateIdentity_def)

text \<open>
  Decoding by the client and forgetting unknown fields is decoding by the chain, whatever the
  input: the two succeed together, with the same message, and fail with the same error.
\<close>

lemma Identity_unmarshal_sim:
  assumes "pulsar_runtime rt" "skips_alike rt"
  shows "bind_res (fastReflection_Identity_unmarshal rt discard d (Some m)) (\<lambda>x. Ok (map_option chain_Identity x))
    = bind_res (Identity_Unmarshal d (chain_Identity m)) (\<lambda>m. Ok (Some m))"
  using unmarshal_loop_sim [where f = chain_Identity and field' = Identity_field,
      OF _ pulsar_runtime.api_Identity_field_decoder [OF assms(1), of discard], of d m]
    Identity_field_sim [OF assms(2)]
  by (cases "unmarshal_loop (fastReflection_Identity_field rt discard) d m")
    (simp_all add: fastReflection_Identity_unmarshal_def fast_unmarshal_Some Identity_Unmarshal_def)

lemma MsgCreateIdentity_unmarshal_sim:
  assumes "pulsar_runtime rt" "skips_alike rt"
  shows "bind_res (fastReflection_MsgCreateIdentity_unmarshal rt discard d (Some m)) (\<lambda>x. Ok (map_option chain_MsgCreateIdentity x))
    = bind_res (MsgCreateIdentity_Unmarshal d (chain_MsgCreateIdentity m)) (\<lambda>m. Ok (Some m))"
  using unmarshal_loop_sim [where f = chain_MsgCreateIdentity and field' = MsgCreateIdentity_field,
      OF _ pulsar_runtime.api_MsgCreateIdentity_field_decoder [OF assms(1), of discard], of d m]
    MsgCreateIdentity_field_sim [OF assms(2)]
  by (cases "unmarshal_loop (fastReflection_MsgCreateIdentity_field rt discard) d m")
    (simp_all add: fastReflection_MsgCreateIdentity_unmarshal_def fast_unmarshal_Some
      MsgCreateIdentity_Unmarshal_def)

section \<open>The genesis state\<close>

text \<open>
  The chain embeds its \<open>Params\<close> and its identities by value, the client by pointers: \<open>None\<close>
  reads as the empty message.
\<close>

definition chain_GenesisState :: "api_GenesisState \<Rightarrow> GenesisState" where
  "chain_GenesisState x = \<lparr>GenesisParams = Params,
     IdentityList = map (\<lambda>p. case p of None \<Rightarrow> zero_Identity | Some i \<Rightarrow> chain_Identity i)
       (api_GenesisState_IdentityList x)\<rparr>"

lemma chain_GenesisState_zero: "chain_GenesisState zero_api_GenesisState = zero_GenesisState"
  by (simp add: chain_GenesisState_def zero_api_GenesisState_def zero_GenesisState_def)

lemma direct_op_Unmarshal:
  "op_Unmarshal (direct_ops z n w (fast_unmarshal field)) d m = unmarshal_loop field d m"
  by (cases "unmarshal_loop field d m") (simp_all add: direct_ops_def fast_unmarshal_def)

lemma Identity_op_sim:
  assumes "pulsar_runtime rt" "skips_alike rt"
  shows "bind_res (op_Unmarshal (api_Identity_ops rt) d m) (\<lambda>m. Ok (chain_Identity m))
    = Identity_Unmarshal d (chain_Identity m)"
  unfolding api_Identity_ops_def fastReflection_Identity_unmarshal_def direct_op_Unmarshal
    Identity_Unmarshal_def
  by (rule unmarshal_loop_sim [symmetric])
    (use Identity_field_sim [OF assms(2)] pulsar_runtime.api_Identity_field_decoder [OF assms(1)] in simp_all)

lemma empty_field_eq:
  "empty_field name d i m
    = bind_res (read_tag name d i) (\<lambda>(n, wt, j). bind_res (skip_unknown d i) (\<lambda>j. Ok (j, m)))"
  by (simp add: empty_field_def case_prod_unfold)

lemma Params_op_sim:
  assumes "pulsar_runtime rt" "skips_alike rt"
  shows "bind_res (op_Unmarshal (api_Params_ops rt) d m) (\<lambda>m. Ok Params) = Params_Unmarshal d p"
proof -
  have "bind_res (fastReflection_Params_field rt False d i m) (\<lambda>(j, m). Ok (j, Params))
      = bind_res (empty_field ''Params'' d i Params) Ok" if "0 \<le> i" "i < glen d" for i m
    unfolding fastReflection_Params_field_def empty_field_eq bind_res_Ok_right
    by (intro sim_intros assms that) simp_all
  from unmarshal_loop_sim [where f = "\<lambda>m. Params" and field' = "empty_field ''Params''", OF this
      pulsar_runtime.api_Params_field_decoder [OF assms(1)]]
  show ?thesis
    unfolding api_Params_ops_def fastReflection_Params_unmarshal_def direct_op_Unmarshal
      Params_Unmarshal_def Params_all [of p] by simp
qed

lemma sim_msg:
  assumes "\<And>s. bind_res (u s) (\<lambda>q. Ok (f q)) = u' s" and "\<And>q k. g (k, h q) = Ok (k, h' (f q))"
  shows "bind_res (bind_res (read_len n wt d j) (\<lambda>(s, k). bind_res (u s) (\<lambda>q. Ok (k, h q)))) g
    = bind_res (read_len n wt d j) (\<lambda>(s, k). bind_res (u' s) (\<lambda>q. Ok (k, h' q)))"
proof (cases "read_len n wt d j")
  case (Ok sk)
  obtain s k where "sk = (s, k)" by (cases sk)
  with Ok assms(1) [of s, symmetric] assms(2) show ?thesis by (cases "u s") simp_all
qed simp_all

lemma GenesisState_field_sim:
  assumes "pulsar_runtime rt" "skips_alike rt" "0 \<le> i" "i < glen d"
  shows "bind_res (fastReflection_GenesisState_field rt (api_Params_ops rt) (api_Identity_ops rt) discard d i m)
      (\<lambda>(j, m). Ok (j, chain_GenesisState m))
    = GenesisState_field d i (chain_GenesisState m)"
  unfolding fastReflection_GenesisState_field_def GenesisState_field_def
  by (intro sim_intros assms sim_msg [where f = "\<lambda>m. Params"] sim_msg [where f = chain_Identity]
      Params_op_sim Identity_op_sim [OF assms(1,2), of _ zero_api_Identity, unfolded chain_zero])
    (simp_all add: chain_GenesisState_def Params_all)

lemma direct_GenesisState_methods:
  assumes "pulsar_runtime rt"
  shows "api_GenesisState_methods rt (api_Params_ops rt) (api_Identity_ops rt)"
  by (intro api_GenesisState_methods.intro pulsar_embedded.intro assms
      pulsar_runtime.api_Params_proto pulsar_runtime.api_Identity_proto)

lemma GenesisState_unmarshal_sim:
  assumes "pulsar_runtime rt" "skips_alike rt"
  shows "bind_res (fastReflection_GenesisState_unmarshal rt (api_Params_ops rt) (api_Identity_ops rt) discard d (Some m))
      (\<lambda>x. Ok (map_option chain_GenesisState x))
    = bind_res (GenesisState_Unmarshal d (chain_GenesisState m)) (\<lambda>m. Ok (Some m))"
  using unmarshal_loop_sim [where f = chain_GenesisState and field' = GenesisState_field,
      OF _ api_GenesisState_methods.api_GenesisState_field_decoder [OF direct_GenesisState_methods [OF assms(1)], of discard],
      of d m] GenesisState_field_sim [OF assms]
  by (cases "unmarshal_loop (fastReflection_GenesisState_field rt (api_Params_ops rt) (api_Identity_ops rt) discard) d m")
    (simp_all add: fastReflection_GenesisState_unmarshal_def fast_unmarshal_Some GenesisState_Unmarshal_def)

section \<open>The two encoders\<close>

text \<open>The client writes what the chain writes, followed by its unknown fields.\<close>

lemma enc_api_chain:
  "enc_api_Identity x = enc_Identity (chain_Identity x) @ api_Identity_unknownFields x"
  "enc_api_MsgCreateIdentity m
    = enc_MsgCreateIdentity (chain_MsgCreateIdentity m) @ api_MsgCreateIdentity_unknownFields m"
  by (simp_all add: enc_api_Identity_def enc_Identity_def chain_Identity_def
      enc_api_MsgCreateIdentity_def enc_MsgCreateIdentity_def chain_MsgCreateIdentity_def)

lemma wf_api_chain:
  "wf_api_Identity x \<Longrightarrow> small_Identity (chain_Identity x)"
  "wf_api_MsgCreateIdentity m \<Longrightarrow> small_MsgCreateIdentity (chain_MsgCreateIdentity m)"
  by (auto simp: wf_api_Identity_def wf_api_MsgCreateIdentity_def small_Identity_def
      small_MsgCreateIdentity_def enc_api_chain dest: fits_appendD)

text \<open>What a client sends, the chain decodes to the message without its unknown fields.\<close>

lemma chain_decodes_MsgCreateIdentity:
  assumes "pulsar_runtime rt" "skips_alike rt" "wf_api_MsgCreateIdentity m"
  shows "MsgCreateIdentity_Unmarshal (enc_api_MsgCreateIdentity m) zero_MsgCreateIdentity
    = Ok (chain_MsgCreateIdentity m)"
proof -
  have "op_Unmarshal (api_MsgCreateIdentity_ops rt) (enc_api_MsgCreateIdentity m) zero_api_MsgCreateIdentity = Ok m"
    by (rule proto_methods.op_unmarshal [OF pulsar_runtime.api_MsgCreateIdentity_proto [OF assms(1)] assms(3)])
  then have "fastReflection_MsgCreateIdentity_unmarshal rt False (enc_api_MsgCreateIdentity m)
      (Some zero_api_MsgCreateIdentity) = Ok (Some m)"
    by (simp add: api_MsgCreateIdentity_ops_def fastReflection_MsgCreateIdentity_unmarshal_def
        direct_op_Unmarshal fast_unmarshal_Some)
  with MsgCreateIdentity_unmarshal_sim [OF assms(1,2), of False "enc_api_MsgCreateIdentity m" zero_api_MsgCreateIdentity]
  show ?thesis
    by (cases "MsgCreateIdentity_Unmarshal (enc_api_MsgCreateIdentity m) zero_MsgCreateIdentity")
      (simp_all add: chain_zero)
qed

lemma chain_decodes_GenesisState:
  assumes "pulsar_runtime rt" "skips_alike rt" "wf_api_GenesisState x"
  shows "GenesisState_Unmarshal (enc_api_GenesisState x) zero_GenesisState = Ok (chain_GenesisState x)"
proof -
  have "op_Unmarshal (api_GenesisState_ops rt (api_Params_ops rt) (api_Identity_ops rt))
      (enc_api_GenesisState x) zero_api_GenesisState = Ok x"
    by (rule proto_methods.op_unmarshal [OF api_GenesisState_methods.api_GenesisState_proto
        [OF direct_GenesisState_methods [OF assms(1)]] assms(3)])
  then have "fastReflection_GenesisState_unmarshal rt (api_Params_ops rt) (api_Identity_ops rt) False
      (enc_api_GenesisState x) (Some zero_api_GenesisState) = Ok (Some x)"
    by (simp add: api_GenesisState_ops_def fastReflection_GenesisState_unmarshal_def
        direct_op_Unmarshal fast_unmarshal_Some)
  with GenesisState_unmarshal_sim [OF assms(1,2), of False "enc_api_GenesisState x" zero_api_GenesisState]
  show ?thesis
    by (cases "GenesisState_Unmarshal (enc_api_GenesisState x) zero_GenesisState")
      (simp_all add: chain_GenesisState_zero)
qed

end
