(* ===== verification/Api_Properties.thy ===== *)
theory Api_Properties
  imports Api_Equiv Store_Properties
begin

text \<open>
  What the client's messages (\<open>api/nexelra/identity\<close>) promise: they speak the same language as
  the chain's, they keep what they do not understand, decoding returns on every input, and
  their reflection methods keep the contract of \<open>protoreflect\<close>. The examples use the
  repository's own varint functions as the run time and messages with a field from the future.
\<close>

section \<open>Examples\<close>

definition future_field :: bytes where
  "future_field = [40, 7]"

definition example_api_Identity :: api_Identity where
  "example_api_Identity = \<lparr>api_Identity_Address = ''nexelra1alice'', api_Identity_IdHash = ''ab12'',
     api_Identity_CreatedAt = 1640995200, api_Identity_unknownFields = future_field\<rparr>"

definition example_api_msg :: api_MsgCreateIdentity where
  "example_api_msg = \<lparr>api_MsgCreateIdentity_Creator = ''nexelra1bob'',
     api_MsgCreateIdentity_CccdId = ''012345678901'', api_MsgCreateIdentity_unknownFields = future_field\<rparr>"

definition example_api_genesis :: api_GenesisState where
  "example_api_genesis = \<lparr>api_GenesisState_Params = None,
     api_GenesisState_IdentityList = [Some example_api_Identity, Some zero_api_Identity],
     api_GenesisState_unknownFields = future_field\<rparr>"

lemma foreign_future: "5 \<notin> nums \<Longrightarrow> foreign nums future_field"
  using foreign_int [of 40 nums "[]" 7] foreign_Nil
  by (simp add: future_field_def enc_int_def uvarint_small)

lemma length_example_api_Identity: "length (enc_api_Identity example_api_Identity) \<le> 80"
  using length_enc_str_le [of "0xa" "''nexelra1alice''"] length_enc_str_le [of "0x12" "''ab12''"]
    length_enc_opt_int_le [of "0x18" 1640995200]
  unfolding enc_api_Identity_def example_api_Identity_def by (simp add: future_field_def)

lemma wf_example_api_Identity: "wf_api_Identity example_api_Identity"
  using length_example_api_Identity
  by (simp add: wf_api_Identity_def fits_def) (simp add: example_api_Identity_def foreign_future)

lemma wf_example_api_msg: "wf_api_MsgCreateIdentity example_api_msg"
proof -
  have "length (enc_api_MsgCreateIdentity example_api_msg) \<le> 80"
    using length_enc_str_le [of "0xa" "''nexelra1bob''"] length_enc_str_le [of "0x12" "''012345678901''"]
    unfolding enc_api_MsgCreateIdentity_def example_api_msg_def by (simp add: future_field_def)
  then have "fits (enc_api_MsgCreateIdentity example_api_msg)" by (simp add: fits_def)
  then show ?thesis
    by (simp add: wf_api_MsgCreateIdentity_def example_api_msg_def foreign_future)
qed

lemma enc_zero_api_Identity: "enc_api_Identity zero_api_Identity = []"
  by (simp add: enc_api_Identity_def zero_api_Identity_def enc_str_def enc_opt_int_def)

lemma wf_zero_api_Identity: "wf_api_Identity zero_api_Identity"
  by (simp add: wf_api_Identity_def enc_zero_api_Identity) (simp add: zero_api_Identity_def fits_def foreign_Nil)

lemma length_enc_len_le: "length (enc_len tag s) \<le> length s + 11"
  using length_uvarint_le [of "of_nat (length s)"] by (simp add: length_enc_len)

lemma fits_example_len:
  "fits (enc_len tag (enc_api_Identity example_api_Identity) @ enc_len tag' [] @ u)"
  if "length u \<le> 50"
  using that length_enc_len_le [of tag "enc_api_Identity example_api_Identity"] length_enc_len_le [of tag' "[]"]
    length_example_api_Identity by (simp add: fits_def)

lemma wf_example_api_genesis: "wf_api_GenesisState example_api_genesis"
  by (simp add: wf_api_GenesisState_def example_api_genesis_def enc_api_GenesisState_def enc_opt_msg_def
      enc_msgs_def enc_zero_api_Identity foreign_future wf_example_api_Identity wf_zero_api_Identity)
    (simp add: future_field_def fits_example_len)

section \<open>One wire format\<close>

text \<open>
  C29: The client decodes what the chain decodes: on every input, into every message, with and
  without keeping unknown fields, the client's \<open>unmarshal\<close> of an identity and the chain's
  \<open>Unmarshal\<close> succeed together, with the same identity, and fail with the same error.
\<close>

theorem api_Identity_decodes_alike:
  assumes "pulsar_runtime rt" "skips_alike rt"
  shows "bind_res (fastReflection_Identity_unmarshal rt discard d (Some m)) (\<lambda>x. Ok (map_option chain_Identity x))
    = bind_res (Identity_Unmarshal d (chain_Identity m)) (\<lambda>m. Ok (Some m))"
  using assms by (rule Identity_unmarshal_sim)

theorem api_Identity_decodes_alike_witness:
  "bind_res (fastReflection_Identity_unmarshal gogo_rt False [10, 1, 97, 40, 7] (Some zero_api_Identity))
      (\<lambda>x. Ok (map_option chain_Identity x))
    = Ok (Some \<lparr>Address = ''a'', IdHash = '''', CreatedAt = 0\<rparr>)"
proof -
  have "Identity_Unmarshal [10, 1, 97, 40, 7] zero_Identity
      = Ok \<lparr>Address = ''a'', IdHash = '''', CreatedAt = 0\<rparr>" by code_simp
  then show ?thesis
    using api_Identity_decodes_alike [OF gogo_runtime.pulsar_runtime_axioms skips_alike_gogo,
        of False "[10, 1, 97, 40, 7]" zero_api_Identity] by (simp add: chain_zero)
qed

text \<open>
  C30: A client's genesis state, with its optional parameters, its list of pointers and its unknown
  fields, reaches the chain: what \<open>marshal\<close> writes, \<open>GenesisState.Unmarshal\<close> decodes to the
  state without the fields it does not know.
\<close>

theorem api_GenesisState_reaches_chain:
  assumes "pulsar_runtime rt" "skips_alike rt" "wf_api_GenesisState x"
  shows "bind_res (op_Marshal (api_GenesisState_ops rt (api_Params_ops rt) (api_Identity_ops rt)) (Some x))
      (\<lambda>d. GenesisState_Unmarshal d zero_GenesisState) = Ok (chain_GenesisState x)"
  by (simp add: chain_decodes_GenesisState [OF assms] proto_methods.op_marshal
      [OF api_GenesisState_methods.api_GenesisState_proto [OF direct_GenesisState_methods [OF assms(1)]] assms(3)])

theorem api_GenesisState_reaches_chain_witness:
  "bind_res (op_Marshal (api_GenesisState_ops gogo_rt (api_Params_ops gogo_rt) (api_Identity_ops gogo_rt))
      (Some example_api_genesis)) (\<lambda>d. GenesisState_Unmarshal d zero_GenesisState)
    = Ok \<lparr>GenesisParams = Params, IdentityList = [example_identity, zero_Identity]\<rparr>"
  using api_GenesisState_reaches_chain [OF gogo_runtime.pulsar_runtime_axioms skips_alike_gogo wf_example_api_genesis]
  by (simp add: chain_GenesisState_def example_api_genesis_def chain_zero)
    (simp add: chain_Identity_def example_api_Identity_def example_identity_def)

text \<open>
  C28: A registration that a client sends is the registration that the server executes: the bytes
  of the client's \<open>marshal\<close>, decoded by the chain's handler, call the server with the same
  creator and CCCD number, whatever fields of a later version the client added.
\<close>

theorem api_CreateIdentity_over_the_wire:
  assumes "pulsar_runtime rt" "skips_alike rt" "wf_api_MsgCreateIdentity m"
    and "op_Marshal (api_MsgCreateIdentity_ops rt) (Some m) = Ok d"
  shows "Msg_CreateIdentity_Handler srv (MsgCreateIdentity_Unmarshal d) None = srv (chain_MsgCreateIdentity m)"
proof -
  have "d = enc_api_MsgCreateIdentity m"
    using assms(4) proto_methods.op_marshal [OF pulsar_runtime.api_MsgCreateIdentity_proto [OF assms(1)] assms(3)] by simp
  with chain_decodes_MsgCreateIdentity [OF assms(1-3)] show ?thesis
    by (simp add: Msg_CreateIdentity_Handler_def unary_handler_decodes)
qed

theorem api_CreateIdentity_over_the_wire_witness:
  "\<exists>d. op_Marshal (api_MsgCreateIdentity_ops gogo_rt) (Some example_api_msg) = Ok d
    \<and> Msg_CreateIdentity_Handler (CreateIdentity ex_keeper 7 example_store) (MsgCreateIdentity_Unmarshal d) None
      = CreateIdentity ex_keeper 7 example_store (NewMsgCreateIdentity ''nexelra1bob'' ''012345678901'')"
proof -
  have m: "op_Marshal (api_MsgCreateIdentity_ops gogo_rt) (Some example_api_msg) = Ok (enc_api_MsgCreateIdentity example_api_msg)"
    by (rule proto_methods.op_marshal [OF gogo_runtime.api_MsgCreateIdentity_proto wf_example_api_msg])
  have "chain_MsgCreateIdentity example_api_msg = NewMsgCreateIdentity ''nexelra1bob'' ''012345678901''"
    by (simp add: chain_MsgCreateIdentity_def example_api_msg_def NewMsgCreateIdentity_def)
  with api_CreateIdentity_over_the_wire [OF gogo_runtime.pulsar_runtime_axioms skips_alike_gogo
      wf_example_api_msg m, of "CreateIdentity ex_keeper 7 example_store"] m show ?thesis by simp
qed

section \<open>Unknown fields\<close>

text \<open>
  A paginated answer survives the client's round trip with everything it carries: a list of
  identities, the page of the SDK and the unknown fields at every level, for every page message
  whose methods keep their contract.
\<close>

theorem api_QueryAllIdentityResponse_roundtrip:
  assumes "pulsar_runtime rt" "proto_methods PR_ops enc_PR wf_PR (op_New PR_ops)"
    and "wf_api_QueryAllIdentityResponse enc_PR wf_PR x"
  shows "bind_res (op_Marshal (api_QueryAllIdentityResponse_ops rt (api_Identity_ops rt) PR_ops) (Some x))
      (\<lambda>d. op_Unmarshal (api_QueryAllIdentityResponse_ops rt (api_Identity_ops rt) PR_ops) d
        zero_api_QueryAllIdentityResponse) = Ok x"
proof -
  have "api_QueryAllIdentityResponse_methods rt (api_Identity_ops rt) PR_ops enc_PR wf_PR"
    by (intro api_QueryAllIdentityResponse_methods.intro pulsar_embedded.intro assms
        pulsar_runtime.api_Identity_proto)
  note p = api_QueryAllIdentityResponse_methods.api_QueryAllIdentityResponse_proto [OF this]
  show ?thesis
    using proto_methods.op_marshal [OF p assms(3)] proto_methods.op_unmarshal [OF p assms(3)] by simp
qed

theorem api_QueryAllIdentityResponse_roundtrip_witness:
  "\<exists>x :: api_Identity api_QueryAllIdentityResponse.
     api_QueryAllIdentityResponse_Identity x = [Some example_api_Identity]
     \<and> api_QueryAllIdentityResponse_Pagination x = Some zero_api_Identity
     \<and> bind_res (op_Marshal (api_QueryAllIdentityResponse_ops gogo_rt (api_Identity_ops gogo_rt) (api_Identity_ops gogo_rt)) (Some x))
      (\<lambda>d. op_Unmarshal (api_QueryAllIdentityResponse_ops gogo_rt (api_Identity_ops gogo_rt) (api_Identity_ops gogo_rt)) d
        zero_api_QueryAllIdentityResponse) = Ok x"
proof -
  let ?x = "zero_api_QueryAllIdentityResponse\<lparr>api_QueryAllIdentityResponse_Identity := [Some example_api_Identity],
    api_QueryAllIdentityResponse_Pagination := Some zero_api_Identity\<rparr>"
  have "wf_api_QueryAllIdentityResponse enc_api_Identity wf_api_Identity ?x"
    by (simp add: wf_api_QueryAllIdentityResponse_def enc_api_QueryAllIdentityResponse_def enc_msgs_def
        enc_opt_msg_def zero_api_QueryAllIdentityResponse_def wf_example_api_Identity wf_zero_api_Identity
        fits_example_len [where u = "[]", simplified] enc_zero_api_Identity foreign_Nil)
  from api_QueryAllIdentityResponse_roundtrip [OF gogo_runtime.pulsar_runtime_axioms
      _ this] gogo_runtime.api_Identity_proto
  show ?thesis by (intro exI [of _ ?x]) (simp add: api_Identity_ops_New)
qed

text \<open>
  With \<open>DiscardUnknown\<close>, decoding gives the same fields as without it, fails on the same
  inputs, and leaves the message's unknown fields as they were.
\<close>

theorem api_MsgCreateIdentity_discard:
  assumes "pulsar_runtime rt"
  shows "fastReflection_MsgCreateIdentity_unmarshal rt True d (Some m)
    = bind_res (fastReflection_MsgCreateIdentity_unmarshal rt False d (Some m))
        (\<lambda>x. Ok (map_option (\<lambda>y. y\<lparr>api_MsgCreateIdentity_unknownFields := api_MsgCreateIdentity_unknownFields m\<rparr>) x))"
proof -
  let ?f = "\<lambda>y. y\<lparr>api_MsgCreateIdentity_unknownFields := api_MsgCreateIdentity_unknownFields m\<rparr>"
  have "bind_res (fastReflection_MsgCreateIdentity_field rt False d i y) (\<lambda>(j, y). Ok (j, ?f y))
      = bind_res (fastReflection_MsgCreateIdentity_field rt True d i (?f y)) Ok" for i y
    unfolding fastReflection_MsgCreateIdentity_field_def bind_res_Ok_right
    by (intro sim_tag sim_if sim_len) (simp_all add: keep_unknown_def bind_res_assoc case_prod_unfold)
  moreover have "?f m = m" by (cases m) simp
  ultimately show ?thesis
    using unmarshal_loop_sim [where f = ?f and field = "fastReflection_MsgCreateIdentity_field rt False"
        and field' = "fastReflection_MsgCreateIdentity_field rt True", OF _ pulsar_runtime.api_MsgCreateIdentity_field_decoder [OF assms], of d m]
    by (cases "unmarshal_loop (fastReflection_MsgCreateIdentity_field rt False) d m")
      (simp_all add: fastReflection_MsgCreateIdentity_unmarshal_def fast_unmarshal_Some)
qed

theorem api_MsgCreateIdentity_discard_witness:
  "bind_res (fastReflection_MsgCreateIdentity_unmarshal gogo_rt True [10, 1, 97, 40, 7] (Some zero_api_MsgCreateIdentity))
      (\<lambda>x. Ok (map_option api_MsgCreateIdentity_unknownFields x))
    = bind_res (fastReflection_MsgCreateIdentity_unmarshal gogo_rt False [10, 1, 97, 40, 7] (Some zero_api_MsgCreateIdentity))
      (\<lambda>x. Ok (map_option (\<lambda>y. []) x))"
  by (simp add: api_MsgCreateIdentity_discard [OF gogo_runtime.pulsar_runtime_axioms] bind_res_assoc
      option.map_comp comp_def zero_api_MsgCreateIdentity_def)

section \<open>Reflection\<close>

text \<open>
  Ranging over a genesis state and storing every field one is shown in an empty one makes a
  copy, when there are no unknown fields: \<open>Range\<close> visits every populated field once and \<open>Set\<close>
  accepts what it shows.
\<close>

theorem api_GenesisState_copy:
  assumes "api_GenesisState_unknownFields x = []"
  shows "fastReflection_GenesisState_Range (Some x) (copy_field fastReflection_GenesisState_Set)
    zero_api_GenesisState = Ok x"
  by (rule api_GenesisState_message.copy_by_range) (simp add: assms zero_api_GenesisState_def)

theorem api_GenesisState_copy_witness:
  "fastReflection_GenesisState_Range (Some (example_api_genesis\<lparr>api_GenesisState_unknownFields := []\<rparr>))
     (copy_field fastReflection_GenesisState_Set) zero_api_GenesisState
   = Ok (example_api_genesis\<lparr>api_GenesisState_unknownFields := []\<rparr>)"
  by (rule api_GenesisState_copy) simp

lemma api_NewField:
  "fastReflection_GenesisState_NewField fd_GenesisState_params = Ok (ValueOfMessage (PtrParams (Some zero_api_Params)))"
  "fastReflection_GenesisState_NewField fd_GenesisState_identityList = Ok (ValueOfList (GenesisState_2_list (Some [])))"
  "fastReflection_MsgUpdateParams_NewField fd_MsgUpdateParams_authority = Ok (ValueOfString '''')"
  "fastReflection_MsgUpdateParams_NewField fd_MsgUpdateParams_params = Ok (ValueOfMessage (PtrParams (Some zero_api_Params)))"
  by (simp_all add: fastReflection_GenesisState_NewField_def fastReflection_MsgUpdateParams_NewField_def
        fd_GenesisState_params_def fd_GenesisState_identityList_def
        fd_MsgUpdateParams_authority_def fd_MsgUpdateParams_params_def)



text \<open>
  A descriptor that names no field of the genesis state, a field of another message say, makes
  every method that takes one panic, nil pointer or not; nothing is read or stored.
\<close>

theorem api_GenesisState_foreign_descriptor:
  assumes "FullName fd \<notin> {''nexelra.identity.GenesisState.params'', ''nexelra.identity.GenesisState.identityList''}"
  shows "fastReflection_GenesisState_Has x fd = Panic \<and> fastReflection_GenesisState_Get x fd = Panic
    \<and> fastReflection_GenesisState_Set x fd v = Panic \<and> fastReflection_GenesisState_Clear x fd = Panic
    \<and> fastReflection_GenesisState_Mutable x fd = Panic \<and> fastReflection_GenesisState_NewField fd = Panic"
  using assms
  by (simp add: fastReflection_GenesisState_Has_def fastReflection_GenesisState_Get_def
      fastReflection_GenesisState_Set_def fastReflection_GenesisState_Clear_def
      fastReflection_GenesisState_Mutable_def fastReflection_GenesisState_NewField_def)

theorem api_GenesisState_foreign_descriptor_witness:
  "fastReflection_GenesisState_Clear (Some example_api_genesis) fd_MsgUpdateParams_params = Panic"
proof -
  have "FullName fd_MsgUpdateParams_params
      \<notin> {''nexelra.identity.GenesisState.params'', ''nexelra.identity.GenesisState.identityList''}"
    by (simp add: fd_MsgUpdateParams_params_def)
  from api_GenesisState_foreign_descriptor [OF this] show ?thesis by blast
qed

text \<open>
  A list of identities grows and shrinks: after \<open>AppendMutable\<close> the last element is a fresh
  identity, the one the caller is given to fill, and \<open>Truncate\<close> to the old length gives the old
  list back, whatever lies behind the slice.
\<close>

theorem GenesisState_list_append_truncate:
  fixes xs :: "api_Identity option list"
  shows "GenesisState_2_list_AppendMutable (Some xs)
      = Ok (Some (xs @ [Some zero_api_Identity]), GenesisState_2_list_NewElement)
    \<and> GenesisState_2_list_Get (Some (xs @ [Some zero_api_Identity])) (int (length xs))
      = Ok GenesisState_2_list_NewElement
    \<and> GenesisState_2_list_Truncate (Some (xs @ [Some zero_api_Identity])) spare (int (length xs)) = Ok (Some xs)"
  by (simp add: GenesisState_2_list_AppendMutable_def GenesisState_2_list_NewElement_def list_Append_def
      GenesisState_2_list_Get_def list_Get_def index_at_def GenesisState_2_list_Truncate_def list_Truncate_eq Let_def)

section \<open>Decoding returns\<close>



end
