(* ===== verification/Testnet.thy ===== *)
theory Testnet
  imports Text
begin

text \<open>
  \<open>cmd/Nexelrad/cmd/testnet_multi_node.go\<close>: the command that writes the directories of a local
  test network, one per validator. The files it writes are a map from paths to contents; what
  it calls of the SDK, CometBFT and the operating system, and what these return, is the record
  \<open>testnet_env\<close>. Paths are absolute.
\<close>

section \<open>Arguments\<close>

record coin =
  Denom :: string
  Amount :: int

text \<open>The maps from validators to amounts and ports: an entry that is missing is \<open>None\<close>.\<close>

record initArgs =
  algo :: string
  chainID :: string
  keyringBackend :: string
  minGasPrices :: string
  nodeDirPrefix :: string
  numValidators :: int
  outputDir :: path
  startingIPAddress :: string
  validatorsStakesAmount :: "int \<Rightarrow> coin option"
  ports :: "int \<Rightarrow> string option"

text \<open>
  The amounts of the flag, separated by commas; \<open>newInt\<close> is \<open>math.NewIntFromString\<close> and \<open>newCoin\<close>
  is \<open>sdk.NewCoin\<close> of the bond denomination, which panics on a negative amount. An amount that
  does not parse is passed over without advancing the index \<open>top\<close>.
\<close>

fun parse_stakes ::
    "(string \<Rightarrow> int option) \<Rightarrow> (int \<Rightarrow> coin res) \<Rightarrow> string list \<Rightarrow> int \<Rightarrow> (int \<Rightarrow> coin option)
      \<Rightarrow> (int \<Rightarrow> coin option) res" where
  "parse_stakes newInt newCoin [] k stakes = Ok stakes"
| "parse_stakes newInt newCoin (amount # rest) k stakes =
     (case newInt amount of
        None \<Rightarrow> parse_stakes newInt newCoin rest k stakes
      | Some a \<Rightarrow> bind_res (newCoin a) (\<lambda>c.
          parse_stakes newInt newCoin rest (int64 (k + 1)) (stakes(k \<mapsto> c))))"

text \<open>The ports of the flag, or every third one from 26657 downwards.\<close>

fun parse_ports :: "string list \<Rightarrow> int \<Rightarrow> (int \<Rightarrow> string option) \<Rightarrow> (int \<Rightarrow> string option)" where
  "parse_ports [] k m = m"
| "parse_ports (port # rest) k m = parse_ports rest (int64 (k + 1)) (m(k \<mapsto> port))"

definition indices :: "int \<Rightarrow> int list" where
  "indices n = map int [0..<nat n]"

definition list_ports :: "string \<Rightarrow> int \<Rightarrow> int \<Rightarrow> string option" where
  "list_ports s n =
     (if s = '''' then parse_ports (map (\<lambda>i. Itoa (int64 (26657 - 3 * i))) (indices n)) 0 Map.empty
      else parse_ports (split_on (CHR '','') s) 0 Map.empty)"

text \<open>\<open>args\<close> holds the flags that are taken as they are.\<close>

definition multi_node_args ::
    "(string \<Rightarrow> int option) \<Rightarrow> (int \<Rightarrow> coin res) \<Rightarrow> string \<Rightarrow> string \<Rightarrow> initArgs \<Rightarrow> initArgs res" where
  "multi_node_args newInt newCoin stakes portList args =
     bind_res (parse_stakes newInt newCoin (split_on (CHR '','') stakes) 0 Map.empty) (\<lambda>m.
       Ok (args\<lparr>validatorsStakesAmount := m, ports := list_ports portList (numValidators args)\<rparr>))"

lemma parse_ports_nth:
  "0 \<le> k \<Longrightarrow> k + int (length xs) < 2 ^ 63 \<Longrightarrow> parse_ports xs k m i
    = (if k \<le> i \<and> i < k + int (length xs) then Some (xs ! nat (i - k)) else m i)"
proof (induction xs arbitrary: k m)
  case (Cons port rest)
  then have t: "int64 (k + 1) = k + 1" by (intro int64_id) auto
  have s: "nat (i - k) = Suc (nat (i - (k + 1)))" if "k < i" using that by simp
  from Cons.IH [of "k + 1" "m(k \<mapsto> port)"] Cons.prems
  have "parse_ports rest (k + 1) (m(k \<mapsto> port)) i
      = (if k + 1 \<le> i \<and> i < k + 1 + int (length rest) then Some (rest ! nat (i - (k + 1)))
         else (m(k \<mapsto> port)) i)" by (simp only: list.size of_nat_simps)
  then show ?case by (auto simp: t s)
qed auto

lemma list_ports_default:
  assumes "n \<le> 10000" "0 \<le> i" "i < n"
  shows "list_ports '''' n i = Some (Itoa (26657 - 3 * i))"
proof -
  have "int64 (26657 - 3 * i) = 26657 - 3 * i" using assms by (intro int64_id) auto
  then show ?thesis using assms
    by (simp add: list_ports_def indices_def parse_ports_nth)
qed

text \<open>
  The amounts that parse, in their order: the first goes to validator 0, and so on.
\<close>

lemma parse_stakes_eq:
  assumes "\<And>a. a \<in> set (List.map_filter newInt amounts) \<Longrightarrow> newCoin a = Ok (mk a)"
    and "0 \<le> k" "k + int (length amounts) < 2 ^ 63"
  shows "\<exists>m'. parse_stakes newInt newCoin amounts k m = Ok m' \<and>
    (\<forall>i. m' i = (let l = List.map_filter newInt amounts in
       if k \<le> i \<and> i < k + int (length l) then Some (mk (l ! nat (i - k))) else m i))"
  using assms
proof (induction amounts arbitrary: k m)
  case Nil
  then show ?case by (auto simp: List.map_filter_simps)
next
  case (Cons amount rest)
  show ?case
  proof (cases "newInt amount")
    case None
    with Cons show ?thesis by (simp add: List.map_filter_simps)
  next
    case (Some a)
    have c: "newCoin a = Ok (mk a)" using Cons.prems(1) Some by (simp add: List.map_filter_simps)
    have t: "int64 (k + 1) = k + 1" using Cons.prems(2,3) by (intro int64_id) auto
    have s: "nat (i - k) = Suc (nat (i - (k + 1)))" if "k < i" for i using that by simp
    have "\<exists>m'. parse_stakes newInt newCoin rest (k + 1) (m(k \<mapsto> mk a)) = Ok m' \<and>
      (\<forall>i. m' i = (let l = List.map_filter newInt rest in
         if k + 1 \<le> i \<and> i < k + 1 + int (length l) then Some (mk (l ! nat (i - (k + 1))))
         else (m(k \<mapsto> mk a)) i))"
      using Cons.prems by (intro Cons.IH) (auto simp: List.map_filter_simps Some)
    then show ?thesis
      by (auto simp: Some c t s List.map_filter_simps Let_def)
  qed
qed

section \<open>Calls that may fail\<close>

text \<open>
  A run ends with a state and the error it returned, if any, or panics. \<open>or_return\<close> is
  \<open>if err != nil { return err }\<close>, \<open>each\<close> a loop whose body may return an error.
\<close>

type_synonym 's run = "('s \<times> error option) res"

definition and_then :: "'s run \<Rightarrow> ('s \<Rightarrow> 's run) \<Rightarrow> 's run" where
  "and_then r f = bind_res r (\<lambda>(s, err). case err of None \<Rightarrow> f s | Some e \<Rightarrow> Ok (s, Some e))"

definition or_return :: "error + 'a \<Rightarrow> 's \<Rightarrow> ('a \<Rightarrow> 's run) \<Rightarrow> 's run" where
  "or_return x s f = (case x of Inl e \<Rightarrow> Ok (s, Some e) | Inr a \<Rightarrow> f a)"

fun each :: "('i \<Rightarrow> 's \<Rightarrow> 's run) \<Rightarrow> 'i list \<Rightarrow> 's \<Rightarrow> 's run" where
  "each f [] s = Ok (s, None)"
| "each f (i # is) s = and_then (f i s) (each f is)"

lemma and_then_Ok: "and_then r f = Ok (s, None) \<longleftrightarrow> (\<exists>t. r = Ok (t, None) \<and> f t = Ok (s, None))"
  by (cases r) (auto simp: and_then_def split: option.splits)

lemma or_return_Ok: "or_return x s f = Ok (t, None) \<longleftrightarrow> (\<exists>a. x = Inr a \<and> f a = Ok (t, None))"
  by (cases x) (auto simp: or_return_def)

lemmas run_simps = and_then_Ok or_return_Ok bind_res_Ok_iff

text \<open>What every round of a loop keeps, the loop keeps.\<close>

lemma each_invariant:
  assumes "each f is s = Ok (s', None)" "P [] s"
    and "\<And>done i rest s t. is = done @ i # rest \<Longrightarrow> P done s \<Longrightarrow> f i s = Ok (t, None) \<Longrightarrow> P (done @ [i]) t"
  shows "P is s'"
proof -
  have "P is t'" if "each f is' t = Ok (t', None)" "P done t" "is = done @ is'" for "done" is' t t'
    using that
  proof (induction is' arbitrary: "done" t)
    case (Cons i is')
    then obtain u where u: "f i t = Ok (u, None)" "each f is' u = Ok (t', None)"
      by (auto simp: and_then_Ok)
    have "P (done @ [i]) u" using assms(3) [OF Cons.prems(3,2) u(1)] .
    with Cons.IH [OF u(2)] Cons.prems(3) show ?case by simp
  qed simp
  from this [of "is" s s' "[]"] assms(1,2) show ?thesis by simp
qed

section \<open>Files and configurations\<close>

record app_config =
  MinGasPrices :: string
  API_Enable :: bool
  GRPC_Address :: string
  API_Address :: string
  Telemetry_EnableHostnameLabel :: bool
  Telemetry_Enabled :: bool
  Telemetry_PrometheusRetentionTime :: int

record node_config =
  RootDir :: path
  Moniker :: string
  RPC_ListenAddress :: string
  P2P_PersistentPeers :: string
  P2P_AllowDuplicateIP :: bool
  P2P_ListenAddress :: string
  ProxyApp :: string
  PrometheusListenAddr :: string
  Prometheus :: bool

datatype file_content =
    KeySeed string
  | GenTx string
  | AppToml app_config
  | ConfigToml node_config
  | EmptyGenesis string string
  | CanonicalGenesis string string int

type_synonym files = "path \<Rightarrow> file_content option"

text \<open>\<open>os.RemoveAll\<close>: a directory with everything in it.\<close>

definition RemoveAll :: "path \<Rightarrow> files \<Rightarrow> files" where
  "RemoveAll p fs = (\<lambda>q. if prefix p q then None else fs q)"

text \<open>
  What the command calls: the operating system (\<open>MkdirAll\<close> and whether a file can be written),
  CometBFT and the SDK. \<open>'m\<close> are messages and \<open>'t\<close> transactions; \<open>WriteConfigFile\<close> returns
  nothing and is taken to write.
\<close>

record ('m, 't) testnet_env =
  MkdirAll :: "path \<Rightarrow> error + unit"
  Create :: "path \<Rightarrow> error + unit"
  GenesisFile :: "path \<Rightarrow> path"
  InitializeNodeValidatorFiles :: "node_config \<Rightarrow> error + string \<times> string"
  NewKeyring :: "string \<Rightarrow> path \<Rightarrow> error + unit"
  NewSigningAlgoFromString :: "string \<Rightarrow> error + unit"
  GenerateSaveCoinKey :: "path \<Rightarrow> string \<Rightarrow> error + string \<times> string"
  MarshalSecret :: "string \<Rightarrow> error + string"
  NewCoin :: "string \<Rightarrow> int \<Rightarrow> coin res"
  BondDenom :: string
  TokensFromConsensusPower :: "int \<Rightarrow> int"
  SortCoins :: "coin list \<Rightarrow> coin list"
  NewMsgCreateValidator :: "string \<Rightarrow> string \<Rightarrow> coin \<Rightarrow> string \<Rightarrow> error + 'm"
  SetMsgs :: "'m \<Rightarrow> error + 't"
  SignTx :: "string \<Rightarrow> string \<Rightarrow> string \<Rightarrow> 't \<Rightarrow> error + 't"
  TxJSONEncoder :: "'t \<Rightarrow> error + string"
  MarshalGenesis :: "string list \<Rightarrow> (string \<times> coin list) list \<Rightarrow> coin list \<Rightarrow> error + string"
  SanitizeGenesisBalances :: "(string \<times> coin list) list \<Rightarrow> (string \<times> coin list) list"
  AddCoins :: "coin list \<Rightarrow> coin list \<Rightarrow> coin list"
  AppGenesisFromFile :: "file_content option \<Rightarrow> error + string"
  GenAppStateFromConfig :: "node_config \<Rightarrow> path \<Rightarrow> files \<Rightarrow> string \<Rightarrow> error + string"

text \<open>The variables of \<open>initTestnetFiles\<close> that its loops share.\<close>

record net_state =
  files :: files
  nodeConfig :: node_config
  appConfig :: app_config
  nodeIDs :: "string list"
  valPubKeys :: "string list"
  persistentPeers :: string
  genFiles :: "path list"
  gentxsFiles :: "path list"
  genAccounts :: "string list"
  genBalances :: "(string \<times> coin list) list"

definition writeFile :: "('m, 't) testnet_env \<Rightarrow> path \<Rightarrow> path \<Rightarrow> file_content \<Rightarrow> files \<Rightarrow> error + files" where
  "writeFile env file dir contents fs =
     (case MkdirAll env dir of
        Inl err \<Rightarrow> Inl (ErrWrapped ''could not create directory'' err)
      | Inr _ \<Rightarrow> (case Create env file of
          Inl err \<Rightarrow> Inl err
        | Inr _ \<Rightarrow> Inr (fs(file \<mapsto> contents))))"

section \<open>The directory of one validator\<close>

definition node_name :: "initArgs \<Rightarrow> int \<Rightarrow> string" where
  "node_name args i = nodeDirPrefix args @ Itoa i"

definition node_dir :: "initArgs \<Rightarrow> int \<Rightarrow> path" where
  "node_dir args i = path_join (outputDir args) (node_name args i)"

definition gentx_dir :: "initArgs \<Rightarrow> int \<Rightarrow> path" where
  "gentx_dir args i = node_dir args i @ [''config'', ''gentx'']"

definition gentx_name :: "string \<Rightarrow> string" where
  "gentx_name nodeID = ''gentx-'' @ nodeID @ ''.json''"

text \<open>\<open>args.ports[i]\<close> is the empty string when the map has no entry.\<close>

definition port_of :: "initArgs \<Rightarrow> int \<Rightarrow> string" where
  "port_of args i = (case ports args i of None \<Rightarrow> '''' | Some p \<Rightarrow> p)"

definition peer_memo :: "initArgs \<Rightarrow> string \<Rightarrow> int \<Rightarrow> string" where
  "peer_memo args nodeID i =
     nodeID @ ''@'' @ startingIPAddress args @ '':'' @ Itoa (int64 (26656 - 3 * i))"

definition validator_stake :: "('m, 't) testnet_env \<Rightarrow> initArgs \<Rightarrow> int \<Rightarrow> coin res" where
  "validator_stake env args i =
     (case validatorsStakesAmount args i of
        Some c \<Rightarrow> Ok c
      | None \<Rightarrow> NewCoin env (BondDenom env) (TokensFromConsensusPower env 100))"

text \<open>The configuration and the peer list after the node's own files are made.\<close>

definition add_peer :: "string \<Rightarrow> string \<Rightarrow> string" where
  "add_peer peers memo = (if peers = '''' then memo else peers @ '','' @ memo)"

text \<open>The key, its seed and the genesis account of the validator.\<close>

definition init_account ::
    "('m, 't) testnet_env \<Rightarrow> initArgs \<Rightarrow> int \<Rightarrow> net_state \<Rightarrow> (string \<Rightarrow> net_state \<Rightarrow> net_state run) \<Rightarrow> net_state run" where
  "init_account env args i st continue =
     (let nodeDir = node_dir args i in
      or_return (NewKeyring env (keyringBackend args) nodeDir) st (\<lambda>_.
      or_return (NewSigningAlgoFromString env (algo args)) st (\<lambda>_.
      case GenerateSaveCoinKey env nodeDir (node_name args i) of
        Inl err \<Rightarrow> Ok (st\<lparr>files := RemoveAll (outputDir args) (files st)\<rparr>, Some err)
      | Inr (addr, secret) \<Rightarrow>
          or_return (MarshalSecret env secret) st (\<lambda>cliPrint.
          or_return (writeFile env (nodeDir @ [''key_seed.json'']) nodeDir (KeySeed cliPrint) (files st)) st (\<lambda>fs.
          bind_res (NewCoin env ''testtoken'' (TokensFromConsensusPower env 1000)) (\<lambda>accTokens.
          bind_res (NewCoin env (BondDenom env) (TokensFromConsensusPower env 500)) (\<lambda>accStakingTokens.
            continue addr (st\<lparr>files := fs,
              genBalances := genBalances st @ [(addr, SortCoins env [accTokens, accStakingTokens])],
              genAccounts := genAccounts st @ [addr]\<rparr>))))))))"

text \<open>The transaction that makes the account a validator, signed and written.\<close>

definition init_gentx ::
    "('m, 't) testnet_env \<Rightarrow> initArgs \<Rightarrow> int \<Rightarrow> string \<Rightarrow> string \<Rightarrow> string \<Rightarrow> string \<Rightarrow> net_state \<Rightarrow> net_state run" where
  "init_gentx env args i nodeID pubKey memo addr st =
     (let nodeDir = node_dir args i; file = gentx_dir args i @ [gentx_name nodeID] in
      bind_res (validator_stake env args i) (\<lambda>valTokens.
      or_return (NewMsgCreateValidator env addr pubKey valTokens (node_name args i)) st (\<lambda>createValMsg.
      or_return (SetMsgs env createValMsg) st (\<lambda>txBuilder.
      or_return (SignTx env (chainID args) memo (node_name args i) txBuilder) st (\<lambda>txBuilder.
      or_return (TxJSONEncoder env txBuilder) st (\<lambda>txBz.
        let st = st\<lparr>gentxsFiles := gentxsFiles st @ [file]\<rparr> in
        or_return (writeFile env file (gentx_dir args i) (GenTx txBz) (files st)) st (\<lambda>fs.
          let appCfg = (appConfig st)\<lparr>
                GRPC_Address := startingIPAddress args @ '':'' @ Itoa (int64 (9090 - 2 * i)),
                API_Address := ''tcp://localhost:'' @ Itoa (int64 (1317 - i))\<rparr>
          in Ok (st\<lparr>files := fs(nodeDir @ [''config'', ''app.toml''] \<mapsto> AppToml appCfg),
                    appConfig := appCfg\<rparr>, None))))))))"

definition start_config :: "initArgs \<Rightarrow> int \<Rightarrow> node_config \<Rightarrow> node_config" where
  "start_config args i cfg = cfg\<lparr>RootDir := node_dir args i, Moniker := node_name args i,
     RPC_ListenAddress := ''tcp://0.0.0.0:'' @ port_of args i\<rparr>"

definition init_node :: "('m, 't) testnet_env \<Rightarrow> initArgs \<Rightarrow> int \<Rightarrow> net_state \<Rightarrow> net_state run" where
  "init_node env args i st =
     (let nodeDir = node_dir args i;
          cfg = start_config args i (nodeConfig st);
          st = st\<lparr>nodeConfig := cfg\<rparr>
      in case MkdirAll env (nodeDir @ [''config'']) of
           Inl err \<Rightarrow> Ok (st\<lparr>files := RemoveAll (outputDir args) (files st)\<rparr>, Some err)
         | Inr _ \<Rightarrow>
             (case InitializeNodeValidatorFiles env cfg of
                Inl err \<Rightarrow> Ok (st\<lparr>files := RemoveAll (outputDir args) (files st)\<rparr>, Some err)
              | Inr (nodeID, pubKey) \<Rightarrow>
                  (let memo = peer_memo args nodeID i;
                       st = st\<lparr>nodeIDs := (nodeIDs st)[nat i := nodeID],
                         valPubKeys := (valPubKeys st)[nat i := pubKey],
                         persistentPeers := add_peer (persistentPeers st) memo,
                         genFiles := genFiles st @ [GenesisFile env nodeDir]\<rparr>
                   in init_account env args i st (\<lambda>addr st.
                        init_gentx env args i nodeID pubKey memo addr st))))"

section \<open>Genesis files\<close>

text \<open>
  \<open>initGenFiles\<close>: the default genesis state with the accounts, the balances and their sum as
  supply, saved under every node.
\<close>

definition initGenFiles ::
    "('m, 't) testnet_env \<Rightarrow> string \<Rightarrow> string list \<Rightarrow> (string \<times> coin list) list \<Rightarrow> path list \<Rightarrow> int
      \<Rightarrow> files \<Rightarrow> files run" where
  "initGenFiles env chain accounts balances gens n fs =
     (let balances = SanitizeGenesisBalances env balances;
          supply = foldl (\<lambda>supply bal. AddCoins env supply (snd bal)) [] balances
      in or_return (MarshalGenesis env accounts balances supply) fs (\<lambda>appGenStateJSON.
           each (\<lambda>i fs. bind_res (index_at gens i) (\<lambda>f.
             or_return (Create env f) fs (\<lambda>_. Ok (fs(f \<mapsto> EmptyGenesis chain appGenStateJSON), None))))
             (indices n) fs))"

section \<open>Copying the transactions\<close>

text \<open>
  \<open>filepath.Rel\<close> of two absolute clean paths: up from the base to the common part, then down.
  \<open>isSubDir\<close> tests the printed result for the prefix \<open>..\<close>; it is never absolute. Absolute
  paths need no working directory, so \<open>filepath.Abs\<close> does not fail.
\<close>

fun rel_path :: "path \<Rightarrow> path \<Rightarrow> path" where
  "rel_path (x # base) (y # targ) =
     (if x = y then rel_path base targ else replicate (length (x # base)) ''..'' @ y # targ)"
| "rel_path base targ = replicate (length base) ''..'' @ targ"

definition Rel :: "path \<Rightarrow> path \<Rightarrow> string" where
  "Rel base targ = (let p = rel_path base targ in if p = [] then ''.'' else join_with ''/'' p)"

definition isSubDir :: "path \<Rightarrow> path \<Rightarrow> bool" where
  "isSubDir src dstDir = (let relativePath = Rel dstDir src in \<not> prefix ''..'' relativePath)"

text \<open>
  \<open>copyFile\<close>: its results, the number of bytes and the error, are not looked at by the caller;
  the error is kept here.
\<close>

definition copyFile :: "('m, 't) testnet_env \<Rightarrow> path \<Rightarrow> path \<Rightarrow> files \<Rightarrow> error + files" where
  "copyFile env src dstDir fs =
     (let dst = dstDir @ [last src] in
      case fs src of
        None \<Rightarrow> Inl (ErrExternal ''no such file or directory'')
      | Some contents \<Rightarrow> (case Create env dst of
          Inl err \<Rightarrow> Inl err
        | Inr _ \<Rightarrow> Inr (fs(dst \<mapsto> contents))))"

definition copy_gentx :: "('m, 't) testnet_env \<Rightarrow> path \<Rightarrow> path \<Rightarrow> files \<Rightarrow> files" where
  "copy_gentx env gentxsDir file fs =
     (if isSubDir file gentxsDir then fs
      else case copyFile env file gentxsDir fs of Inl err \<Rightarrow> fs | Inr fs \<Rightarrow> fs)"

definition copy_gentxs :: "('m, 't) testnet_env \<Rightarrow> initArgs \<Rightarrow> path list \<Rightarrow> files \<Rightarrow> files" where
  "copy_gentxs env args gentxs fs =
     foldl (\<lambda>fs i. foldl (\<lambda>fs file. copy_gentx env (gentx_dir args i) file fs) fs gentxs)
       fs (indices (numValidators args))"

section \<open>Collecting\<close>

text \<open>
  \<open>collectGenFiles\<close>: the final configuration of every node and the canonical genesis file. The
  first application state is used for all. \<open>GenAppStateFromConfig\<close> also writes the node's
  configuration and genesis file, which the statements after it overwrite.
\<close>

definition final_config :: "initArgs \<Rightarrow> string \<Rightarrow> int \<Rightarrow> node_config \<Rightarrow> node_config" where
  "final_config args peers i cfg = cfg\<lparr>
     P2P_PersistentPeers := peers,
     P2P_AllowDuplicateIP := True,
     P2P_ListenAddress := ''tcp://0.0.0.0:'' @ Itoa (int64 (26656 - 3 * i)),
     RPC_ListenAddress := ''tcp://127.0.0.1:'' @ port_of args i,
     ProxyApp := ''tcp://127.0.0.1:'' @ Itoa (int64 (26658 - 3 * i)),
     PrometheusListenAddr := '':'' @ Itoa (int64 (26660 + i)),
     Prometheus := True\<rparr>"

type_synonym collecting = "files \<times> node_config \<times> string option"

definition collect_node ::
    "('m, 't) testnet_env \<Rightarrow> initArgs \<Rightarrow> string \<Rightarrow> int \<Rightarrow> string list \<Rightarrow> int \<Rightarrow> collecting \<Rightarrow> collecting run" where
  "collect_node env args peers genTime ids i = (\<lambda>(fs, cfg, appState).
     (let nodeDir = node_dir args i;
          cfg = cfg\<lparr>Moniker := node_name args i, RootDir := nodeDir\<rparr>
      in bind_res (index_at ids i) (\<lambda>nodeID.
         or_return (AppGenesisFromFile env (fs (GenesisFile env nodeDir))) (fs, cfg, appState) (\<lambda>appGenesis.
         or_return (GenAppStateFromConfig env cfg (gentx_dir args i) fs appGenesis) (fs, cfg, appState) (\<lambda>nodeAppState.
           let cfg = final_config args peers i cfg;
               fs = fs(nodeDir @ [''config'', ''config.toml''] \<mapsto> ConfigToml cfg);
               canonical = (case appState of None \<Rightarrow> nodeAppState | Some a \<Rightarrow> a);
               genFile = GenesisFile env nodeDir
           in or_return (Create env genFile) (fs, cfg, Some canonical) (\<lambda>_.
                Ok ((fs(genFile \<mapsto> CanonicalGenesis (chainID args) canonical genTime), cfg, Some canonical),
                    None)))))))"

definition collectGenFiles ::
    "('m, 't) testnet_env \<Rightarrow> initArgs \<Rightarrow> string \<Rightarrow> int \<Rightarrow> string list \<Rightarrow> node_config \<Rightarrow> files \<Rightarrow> collecting run" where
  "collectGenFiles env args peers genTime ids cfg fs =
     each (collect_node env args peers genTime ids) (indices (numValidators args)) (fs, cfg, None)"

section \<open>The command\<close>

text \<open>
  \<open>generateRandomString\<close>: \<open>intn i\<close> is what the random source returns for the \<open>i\<close>-th character.
\<close>

definition charset :: string where
  "charset = ''abcdefghijklmnopqrstuvwxyz0123456789''"

definition generateRandomString :: "(nat \<Rightarrow> int) \<Rightarrow> nat \<Rightarrow> string res" where
  "generateRandomString intn n =
     foldr (\<lambda>i r. bind_res (index_at charset (intn i)) (\<lambda>c. bind_res r (\<lambda>s. Ok (c # s)))) [0..<n] (Ok [])"

text \<open>
  \<open>make\<close> panics on a negative number of validators. \<open>appConfig.MinGasPrices\<close> is a field of the
  embedded \<open>BaseConfig\<close>, so the second assignment is to the same field.
\<close>

definition initial_app_config :: "string \<Rightarrow> string \<Rightarrow> app_config \<Rightarrow> app_config" where
  "initial_app_config minGas bondDenom cfg =
     (let cfg = cfg\<lparr>MinGasPrices := minGas\<rparr>;
          cfg = cfg\<lparr>API_Enable := False\<rparr>
      in cfg\<lparr>MinGasPrices := ''0.0001'' @ bondDenom, Telemetry_EnableHostnameLabel := False,
           Telemetry_Enabled := False, Telemetry_PrometheusRetentionTime := 0\<rparr>)"

definition start_state :: "('m, 't) testnet_env \<Rightarrow> app_config \<Rightarrow> initArgs \<Rightarrow> node_config \<Rightarrow> files \<Rightarrow> net_state" where
  "start_state env defaultConfig args cfg fs =
     \<lparr>files = fs, nodeConfig = cfg,
      appConfig = initial_app_config (minGasPrices args) (BondDenom env) defaultConfig,
      nodeIDs = replicate (nat (numValidators args)) '''', valPubKeys = replicate (nat (numValidators args)) '''',
      persistentPeers = '''', genFiles = [], gentxsFiles = [], genAccounts = [], genBalances = []\<rparr>"

definition chain_name :: "(nat \<Rightarrow> int) \<Rightarrow> initArgs \<Rightarrow> string res" where
  "chain_name intn args =
     (if chainID args = '''' then bind_res (generateRandomString intn 6) (\<lambda>s. Ok (''chain-'' @ s))
      else Ok (chainID args))"

definition finish_network ::
    "('m, 't) testnet_env \<Rightarrow> int \<Rightarrow> initArgs \<Rightarrow> net_state \<Rightarrow> files run" where
  "finish_network env genTime args st =
     and_then (initGenFiles env (chainID args) (genAccounts st) (genBalances st) (genFiles st)
         (numValidators args) (files st)) (\<lambda>fs.
       let fs = copy_gentxs env args (gentxsFiles st) fs in
       bind_res (collectGenFiles env args (persistentPeers st) genTime (nodeIDs st) (nodeConfig st) fs)
         (\<lambda>((fs, _, _), err). Ok (fs, err)))"

definition initTestnetFiles ::
    "('m, 't) testnet_env \<Rightarrow> app_config \<Rightarrow> (nat \<Rightarrow> int) \<Rightarrow> int \<Rightarrow> initArgs \<Rightarrow> node_config \<Rightarrow> files
      \<Rightarrow> files run" where
  "initTestnetFiles env defaultConfig intn genTime args cfg fs =
     bind_res (chain_name intn args) (\<lambda>chain.
     let args = args\<lparr>chainID := chain\<rparr> in
     if numValidators args < 0 then Panic
     else bind_res (each (init_node env args) (indices (numValidators args))
            (start_state env defaultConfig args cfg fs)) (\<lambda>(st, err). case err of
              Some e \<Rightarrow> Ok (files st, Some e)
            | None \<Rightarrow> finish_network env genTime args st))"

lemma initTestnetFiles_OkE:
  assumes "initTestnetFiles env defaults intn genTime args cfg fs = Ok (fs', None)"
  obtains chain st fs1 cfg' app where
    "each (init_node env (args\<lparr>chainID := chain\<rparr>)) (indices (numValidators args))
       (start_state env defaults (args\<lparr>chainID := chain\<rparr>) cfg fs) = Ok (st, None)"
    "initGenFiles env chain (genAccounts st) (genBalances st) (genFiles st) (numValidators args) (files st) = Ok (fs1, None)"
    "collectGenFiles env (args\<lparr>chainID := chain\<rparr>) (persistentPeers st) genTime (nodeIDs st) (nodeConfig st)
       (copy_gentxs env (args\<lparr>chainID := chain\<rparr>) (gentxsFiles st) fs1) = Ok ((fs', cfg', app), None)"
proof -
  from assms obtain chain st where
    l: "each (init_node env (args\<lparr>chainID := chain\<rparr>)) (indices (numValidators args))
       (start_state env defaults (args\<lparr>chainID := chain\<rparr>) cfg fs) = Ok (st, None)"
    and f: "finish_network env genTime (args\<lparr>chainID := chain\<rparr>) st = Ok (fs', None)"
    by (auto simp: initTestnetFiles_def Let_def bind_res_Ok_iff split: if_splits option.splits)
  from f obtain fs1 cfg' app where
    "initGenFiles env chain (genAccounts st) (genBalances st) (genFiles st) (numValidators args) (files st) = Ok (fs1, None)"
    "collectGenFiles env (args\<lparr>chainID := chain\<rparr>) (persistentPeers st) genTime (nodeIDs st) (nodeConfig st)
       (copy_gentxs env (args\<lparr>chainID := chain\<rparr>) (gentxsFiles st) fs1) = Ok ((fs', cfg', app), None)"
    by (auto simp: finish_network_def Let_def run_simps)
  with l show ?thesis by (rule that)
qed

end
