(* ===== verification/Testnet_Properties.thy ===== *)
theory Testnet_Properties
  imports Testnet
begin

text \<open>
  What the multi-node command promises: who gets which stake and which port, which addresses
  the nodes know of each other, that every node has every validator's transaction, and what a
  failure leaves behind.
\<close>

section \<open>Directories\<close>

definition plain_args :: "initArgs \<Rightarrow> bool" where
  "plain_args args \<longleftrightarrow> clean_path (outputDir args) \<and> CHR ''/'' \<notin> set (nodeDirPrefix args)"

lemma Itoa_dec: "0 \<le> i \<Longrightarrow> Itoa i = dec (nat i)"
  by (simp add: Itoa_def)

lemma last_dec: "is_digit (last (dec n))"
  using dec_digits [of n] by (simp add: list_all_iff)

lemma node_name_clean:
  assumes "0 \<le> i"
  shows "clean_path [node_name args i]" "CHR ''/'' \<notin> set (nodeDirPrefix args) \<Longrightarrow> CHR ''/'' \<notin> set (node_name args i)"
proof -
  have l: "last (node_name args i) = last (dec (nat i))" "node_name args i \<noteq> ''''"
    by (simp_all add: node_name_def Itoa_dec [OF assms])
  moreover have "\<not> is_digit (CHR ''.'')" "\<not> is_digit (CHR ''/'')" by (simp_all add: is_digit_def)
  moreover have "is_digit (last (node_name args i))" using l last_dec by simp
  ultimately show "clean_path [node_name args i]" by (auto simp: clean_path_def)
  assume "CHR ''/'' \<notin> set (nodeDirPrefix args)"
  then show "CHR ''/'' \<notin> set (node_name args i)"
    using dec_digits [of "nat i"] \<open>\<not> is_digit (CHR ''/'')\<close>
    by (auto simp: node_name_def Itoa_dec [OF assms] list_all_iff)
qed

lemma node_dir_eq:
  assumes "plain_args args" "0 \<le> i"
  shows "node_dir args i = outputDir args @ [node_name args i]"
  unfolding node_dir_def using assms node_name_clean [OF assms(2)]
  by (intro path_join_plain) (auto simp: plain_args_def)

lemma node_name_inj [simp]: "node_name args i = node_name args j \<longleftrightarrow> i = j"
  by (simp add: node_name_def)

lemma indices_set: "i \<in> set (indices n) \<longleftrightarrow> 0 \<le> i \<and> i < n"
  by (auto simp: indices_def image_iff intro!: bexI [of _ "nat i"])

section \<open>Copying\<close>

lemma rel_path_append: "rel_path (p @ q) (p @ r) = rel_path q r"
  by (induction p) auto

lemma gentx_name_inj [simp]: "gentx_name a = gentx_name b \<longleftrightarrow> a = b"
  by (simp add: gentx_name_def)

lemma gentx_name_up: "\<not> prefix ''..'' (gentx_name a)"
  by (simp add: gentx_name_def)

lemma isSubDir_gentx:
  assumes "plain_args args" "0 \<le> i" "0 \<le> j"
  shows "isSubDir (gentx_dir args j @ [gentx_name f]) (gentx_dir args i) \<longleftrightarrow> i = j"
  using assms
  by (auto simp: isSubDir_def Rel_def gentx_dir_def node_dir_eq rel_path_append gentx_name_up Let_def)

lemma copy_gentx_eq:
  assumes "plain_args args" "0 \<le> i" "0 \<le> j" "\<And>p. Create env p = Inr ()"
    and "fs (gentx_dir args j @ [gentx_name f]) = Some c"
  shows "copy_gentx env (gentx_dir args i) (gentx_dir args j @ [gentx_name f]) fs
    = (if i = j then fs else fs(gentx_dir args i @ [gentx_name f] \<mapsto> c))"
  using assms by (simp add: copy_gentx_def isSubDir_gentx copyFile_def)

text \<open>
  \<open>own\<close>: the transactions every node starts with, \<open>nm j\<close> naming the file of node \<open>j\<close>.
\<close>

definition has_gentx :: "initArgs \<Rightarrow> (int \<Rightarrow> string) \<Rightarrow> (int \<Rightarrow> file_content) \<Rightarrow> files \<Rightarrow> int \<Rightarrow> int \<Rightarrow> bool" where
  "has_gentx args nm tx fs i j \<longleftrightarrow> fs (gentx_dir args i @ [gentx_name (nm j)]) = Some (tx j)"

lemma copy_one:
  assumes "plain_args args" "0 \<le> i" "j \<in> set js" "\<forall>j \<in> set js. 0 \<le> j" "\<And>p. Create env p = Inr ()"
    and "inj_on nm (set js)" "\<forall>j \<in> set js. has_gentx args nm tx fs j j"
    and "fs' = copy_gentx env (gentx_dir args i) (gentx_dir args j @ [gentx_name (nm j)]) fs"
  shows "has_gentx args nm tx fs' i j"
    and "\<forall>i'. \<forall>j' \<in> set js. has_gentx args nm tx fs i' j' \<longrightarrow> has_gentx args nm tx fs' i' j'"
    and "\<forall>p. (\<forall>x. p \<noteq> gentx_dir args i @ [x]) \<longrightarrow> fs' p = fs p"
proof -
  have o: "fs (gentx_dir args j @ [gentx_name (nm j)]) = Some (tx j)"
    using assms(3,7) by (simp add: has_gentx_def)
  have "fs' = (if i = j then fs else fs(gentx_dir args i @ [gentx_name (nm j)] \<mapsto> tx j))"
    unfolding assms(8) using assms(3,4) by (intro copy_gentx_eq assms(1,2,5) o) auto
  then show "has_gentx args nm tx fs' i j"
    and "\<forall>i'. \<forall>j' \<in> set js. has_gentx args nm tx fs i' j' \<longrightarrow> has_gentx args nm tx fs' i' j'"
    and "\<forall>p. (\<forall>x. p \<noteq> gentx_dir args i @ [x]) \<longrightarrow> fs' p = fs p"
    using o assms(3,6) by (auto simp: has_gentx_def inj_on_def)
qed

lemma copy_row:
  assumes "plain_args args" "0 \<le> i" "\<forall>j \<in> set js. 0 \<le> j" "\<And>p. Create env p = Inr ()"
    and "inj_on nm (set js)" "\<forall>j \<in> set js. has_gentx args nm tx fs j j" "set ks \<subseteq> set js"
    and "fs' = foldl (\<lambda>fs file. copy_gentx env (gentx_dir args i) file fs) fs
      (map (\<lambda>j. gentx_dir args j @ [gentx_name (nm j)]) ks)"
  shows "(\<forall>j \<in> set ks. has_gentx args nm tx fs' i j)
    \<and> (\<forall>i'. \<forall>j' \<in> set js. has_gentx args nm tx fs i' j' \<longrightarrow> has_gentx args nm tx fs' i' j')
    \<and> (\<forall>p. (\<forall>x. p \<noteq> gentx_dir args i @ [x]) \<longrightarrow> fs' p = fs p)"
  using assms(6-8)
proof (induction ks arbitrary: fs)
  case (Cons j ks)
  let ?fs = "copy_gentx env (gentx_dir args i) (gentx_dir args j @ [gentx_name (nm j)]) fs"
  note c = copy_one [OF assms(1,2) _ assms(3,4,5) Cons.prems(1) refl, where j = j]
  have j: "j \<in> set js" using Cons.prems(2) by simp
  have "\<forall>j \<in> set js. has_gentx args nm tx ?fs j j" using c(2) [OF j] Cons.prems(1) by blast
  from Cons.IH [OF this] Cons.prems(2,3)
  have "(\<forall>j \<in> set ks. has_gentx args nm tx fs' i j)
    \<and> (\<forall>i'. \<forall>j' \<in> set js. has_gentx args nm tx ?fs i' j' \<longrightarrow> has_gentx args nm tx fs' i' j')
    \<and> (\<forall>p. (\<forall>x. p \<noteq> gentx_dir args i @ [x]) \<longrightarrow> fs' p = ?fs p)" by simp
  with c(1,2,3) [OF j] j show ?case by auto
qed simp

lemma copy_rows:
  assumes "plain_args args" "\<forall>i \<in> set is. 0 \<le> i" "\<forall>j \<in> set js. 0 \<le> j" "\<And>p. Create env p = Inr ()"
    and "inj_on nm (set js)" "\<forall>j \<in> set js. has_gentx args nm tx fs j j"
    and "fs' = foldl (\<lambda>fs i. foldl (\<lambda>fs file. copy_gentx env (gentx_dir args i) file fs) fs
      (map (\<lambda>j. gentx_dir args j @ [gentx_name (nm j)]) js)) fs is"
  shows "(\<forall>i \<in> set is. \<forall>j \<in> set js. has_gentx args nm tx fs' i j)
    \<and> (\<forall>i. \<forall>j \<in> set js. has_gentx args nm tx fs i j \<longrightarrow> has_gentx args nm tx fs' i j)
    \<and> (\<forall>p. (\<forall>i \<in> set is. \<forall>x. p \<noteq> gentx_dir args i @ [x]) \<longrightarrow> fs' p = fs p)"
  using assms(2,6,7)
proof (induction "is" arbitrary: fs)
  case (Cons i "is")
  let ?fs = "foldl (\<lambda>fs file. copy_gentx env (gentx_dir args i) file fs) fs
      (map (\<lambda>j. gentx_dir args j @ [gentx_name (nm j)]) js)"
  have "0 \<le> i" using Cons.prems(1) by simp
  note r = copy_row [OF assms(1) this assms(3,4,5) Cons.prems(2) subset_refl refl]
  then have "\<forall>j \<in> set js. has_gentx args nm tx ?fs j j" using Cons.prems(2) by blast
  from Cons.IH [OF _ this] Cons.prems(1,3)
  have h: "(\<forall>i \<in> set is. \<forall>j \<in> set js. has_gentx args nm tx fs' i j)
    \<and> (\<forall>i. \<forall>j \<in> set js. has_gentx args nm tx ?fs i j \<longrightarrow> has_gentx args nm tx fs' i j)
    \<and> (\<forall>p. (\<forall>i \<in> set is. \<forall>x. p \<noteq> gentx_dir args i @ [x]) \<longrightarrow> fs' p = ?fs p)" by simp
  show ?case
  proof (intro conjI allI ballI impI)
    fix i' j assume "i' \<in> set (i # is)" "j \<in> set js"
    with h r show "has_gentx args nm tx fs' i' j" by auto
  next
    fix i' j assume "j \<in> set js" "has_gentx args nm tx fs i' j"
    with h r show "has_gentx args nm tx fs' i' j" by blast
  next
    fix p assume p: "\<forall>i' \<in> set (i # is). \<forall>x. p \<noteq> gentx_dir args i' @ [x]"
    then have "?fs p = fs p" using r by simp
    with h p show "fs' p = fs p" by simp
  qed
qed simp

section \<open>The first loop\<close>

lemma writeFile_Ok: "writeFile env file dir c fs = Inr fs' \<Longrightarrow> fs' = fs(file \<mapsto> c)"
  by (auto simp: writeFile_def split: sum.splits)

lemma init_account_OkE:
  assumes "init_account env args i st continue = Ok (t, None)"
  obtains addr secret bs as where "continue addr (st\<lparr>files := (files st)(node_dir args i @ [''key_seed.json''] \<mapsto> KeySeed secret),
      genBalances := bs, genAccounts := as\<rparr>) = Ok (t, None)"
  using assms
  by (auto simp: init_account_def Let_def run_simps split: sum.splits dest!: writeFile_Ok)

lemma init_gentx_OkE:
  assumes "init_gentx env args i nodeID pubKey memo addr st = Ok (t, None)"
  obtains txBz appCfg where
    "t = st\<lparr>gentxsFiles := gentxsFiles st @ [gentx_dir args i @ [gentx_name nodeID]],
       files := (files st)(gentx_dir args i @ [gentx_name nodeID] \<mapsto> GenTx txBz,
         node_dir args i @ [''config'', ''app.toml''] \<mapsto> AppToml appCfg), appConfig := appCfg\<rparr>"
  using assms
  by (auto simp: init_gentx_def Let_def run_simps dest!: writeFile_Ok)

lemma init_node_OkE:
  assumes "init_node env args i st = Ok (t, None)"
  obtains cfg nodeID pubKey secret txBz appCfg where "RootDir cfg = node_dir args i"
    "InitializeNodeValidatorFiles env cfg = Inr (nodeID, pubKey)"
    "nodeIDs t = (nodeIDs st)[nat i := nodeID]"
    "persistentPeers t = add_peer (persistentPeers st) (peer_memo args nodeID i)"
    "gentxsFiles t = gentxsFiles st @ [gentx_dir args i @ [gentx_name nodeID]]"
    "genFiles t = genFiles st @ [GenesisFile env (node_dir args i)]"
    "files t = (files st)(node_dir args i @ [''key_seed.json''] \<mapsto> KeySeed secret,
       gentx_dir args i @ [gentx_name nodeID] \<mapsto> GenTx txBz,
       node_dir args i @ [''config'', ''app.toml''] \<mapsto> AppToml appCfg)"
proof -
  let ?cfg = "start_config args i (nodeConfig st)"
  obtain nodeID pubKey where i: "InitializeNodeValidatorFiles env ?cfg = Inr (nodeID, pubKey)"
    using assms by (auto simp: init_node_def Let_def split: sum.splits)
  define st' where "st' = st\<lparr>nodeConfig := ?cfg, nodeIDs := (nodeIDs st)[nat i := nodeID],
      valPubKeys := (valPubKeys st)[nat i := pubKey],
      persistentPeers := add_peer (persistentPeers st) (peer_memo args nodeID i),
      genFiles := genFiles st @ [GenesisFile env (node_dir args i)]\<rparr>"
  have "init_account env args i st' (\<lambda>addr st.
      init_gentx env args i nodeID pubKey (peer_memo args nodeID i) addr st) = Ok (t, None)"
    using assms i by (auto simp: init_node_def Let_def st'_def split: sum.splits)
  then obtain addr secret bs as where
    "init_gentx env args i nodeID pubKey (peer_memo args nodeID i) addr
      (st'\<lparr>files := (files st')(node_dir args i @ [''key_seed.json''] \<mapsto> KeySeed secret), genBalances := bs, genAccounts := as\<rparr>)
      = Ok (t, None)" by (rule init_account_OkE)
  then obtain txBz appCfg where
    "t = st'\<lparr>files := (files st')(node_dir args i @ [''key_seed.json''] \<mapsto> KeySeed secret), genBalances := bs, genAccounts := as,
       gentxsFiles := gentxsFiles st' @ [gentx_dir args i @ [gentx_name nodeID]],
       files := (files st')(node_dir args i @ [''key_seed.json''] \<mapsto> KeySeed secret, gentx_dir args i @ [gentx_name nodeID] \<mapsto> GenTx txBz,
         node_dir args i @ [''config'', ''app.toml''] \<mapsto> AppToml appCfg), appConfig := appCfg\<rparr>"
    by (rule init_gentx_OkE) simp
  then show ?thesis
    by (intro that [OF _ i, where secret = secret and txBz = txBz and appCfg = appCfg]) (simp_all add: st'_def start_config_def)
qed

lemma indices_split:
  assumes "indices n = done @ i # rest"
  shows "i = int (length done)" "done = map int [0..<length done]" "length done < nat n"
proof -
  have l: "length (indices n) = nat n" by (simp add: indices_def)
  with assms show n: "length done < nat n" by simp
  have "i = indices n ! length done" by (simp add: assms)
  also have "\<dots> = int (length done)" using n by (simp add: indices_def)
  finally show "i = int (length done)" .
  have "done = take (length done) (indices n)" by (simp add: assms)
  also have "\<dots> = map int [0..<length done]" using n by (simp add: indices_def take_map)
  finally show "done = map int [0..<length done]" .
qed

lemma join_with_snoc: "xs \<noteq> [] \<Longrightarrow> join_with s (xs @ [x]) = join_with s xs @ s @ x"
  by (induction s xs rule: join_with.induct) auto

lemma join_with_Nil: "join_with s xs = '''' \<Longrightarrow> '''' \<notin> set xs \<Longrightarrow> xs = []"
  by (induction s xs rule: join_with.induct) auto

lemma add_peer_join:
  assumes "'''' \<notin> set xs"
  shows "add_peer (join_with '','' xs) m = join_with '','' (xs @ [m])"
proof (cases "xs = []")
  case False
  with join_with_Nil [of "'',''" xs] assms show ?thesis by (auto simp: add_peer_def join_with_snoc)
qed (simp add: add_peer_def)

definition node_id :: "net_state \<Rightarrow> int \<Rightarrow> string" where
  "node_id st j = nodeIDs st ! nat j"

definition init_inv ::
    "('m, 't) testnet_env \<Rightarrow> initArgs \<Rightarrow> nat \<Rightarrow> int list \<Rightarrow> net_state \<Rightarrow> bool" where
  "init_inv env args n done st \<longleftrightarrow> length (nodeIDs st) = n
     \<and> (\<forall>i \<in> set done. \<exists>cfg pk. RootDir cfg = node_dir args i
          \<and> InitializeNodeValidatorFiles env cfg = Inr (node_id st i, pk))
     \<and> persistentPeers st = join_with '','' (map (\<lambda>i. peer_memo args (node_id st i) i) done)
     \<and> gentxsFiles st = map (\<lambda>j. gentx_dir args j @ [gentx_name (node_id st j)]) done
     \<and> genFiles st = map (\<lambda>i. GenesisFile env (node_dir args i)) done
     \<and> (\<forall>j \<in> set done. \<exists>tx. files st (gentx_dir args j @ [gentx_name (node_id st j)]) = Some (GenTx tx))"

lemma init_inv_step:
  assumes "plain_args args" "indices n = done @ i # rest" "init_inv env args (nat n) done st"
    and "init_node env args i st = Ok (t, None)"
  shows "init_inv env args (nat n) (done @ [i]) t"
proof -
  note s = indices_split [OF assms(2)]
  from assms(4) obtain cfg nodeID pubKey secret txBz appCfg where t: "RootDir cfg = node_dir args i"
    "InitializeNodeValidatorFiles env cfg = Inr (nodeID, pubKey)"
    "nodeIDs t = (nodeIDs st)[nat i := nodeID]"
    "persistentPeers t = add_peer (persistentPeers st) (peer_memo args nodeID i)"
    "gentxsFiles t = gentxsFiles st @ [gentx_dir args i @ [gentx_name nodeID]]"
    "genFiles t = genFiles st @ [GenesisFile env (node_dir args i)]"
    "files t = (files st)(node_dir args i @ [''key_seed.json''] \<mapsto> KeySeed secret,
       gentx_dir args i @ [gentx_name nodeID] \<mapsto> GenTx txBz,
       node_dir args i @ [''config'', ''app.toml''] \<mapsto> AppToml appCfg)"
    by (rule init_node_OkE)
  have old: "0 \<le> j \<and> j < i" if "j \<in> set done" for j
    using that s(1) by (subst (asm) s(2)) auto
  have len: "length (nodeIDs st) = nat n" using assms(3) by (simp add: init_inv_def)
  have id: "node_id t j = node_id st j" if "j \<in> set done" for j
  proof -
    have "nat i \<noteq> nat j" using old [OF that] by auto
    then show ?thesis by (simp add: node_id_def t(3))
  qed
  have idi: "node_id t i = nodeID" using s len by (simp add: node_id_def t(3))
  have m: "peer_memo args x j \<noteq> ''''" for x j by (simp add: peer_memo_def)
  have f: "files t (gentx_dir args j @ [gentx_name (node_id st j)]) = files st (gentx_dir args j @ [gentx_name (node_id st j)])"
    if "j \<in> set done" for j
    using old [OF that] s(1) assms(1) by (simp add: t(7) gentx_dir_def node_dir_eq)
  have fi: "files t (gentx_dir args i @ [gentx_name nodeID]) = Some (GenTx txBz)"
    using s(1) assms(1) by (simp add: t(7) gentx_dir_def node_dir_eq)
  have peers: "persistentPeers t = join_with '','' (map (\<lambda>j. peer_memo args (node_id t j) j) (done @ [i]))"
    using assms(3) m id by (simp add: t(4) init_inv_def add_peer_join idi image_iff cong: map_cong)
      (metis (no_types, lifting) add_peer_join imageE m map_eq_conv set_map)
  show ?thesis
    unfolding init_inv_def
  proof (intro conjI peers)
    show "\<forall>k \<in> set (done @ [i]). \<exists>cfg pk. RootDir cfg = node_dir args k
          \<and> InitializeNodeValidatorFiles env cfg = Inr (node_id t k, pk)"
      using assms(3) t(1,2) id idi by (auto simp: init_inv_def)
    show "gentxsFiles t = map (\<lambda>j. gentx_dir args j @ [gentx_name (node_id t j)]) (done @ [i])"
      using assms(3) id idi by (simp add: init_inv_def t(5))
    show "genFiles t = map (\<lambda>i. GenesisFile env (node_dir args i)) (done @ [i])"
      using assms(3) by (simp add: init_inv_def t(6))
    show "\<forall>j \<in> set (done @ [i]). \<exists>tx. files t (gentx_dir args j @ [gentx_name (node_id t j)]) = Some (GenTx tx)"
      using assms(3) id idi f fi by (auto simp: init_inv_def)
  qed (use len in \<open>simp add: t(3)\<close>)
qed

lemma init_loop:
  assumes "plain_args args" "each (init_node env args) (indices n) st = Ok (t, None)"
    and "length (nodeIDs st) = nat n" "persistentPeers st = ''''" "gentxsFiles st = []" "genFiles st = []"
  shows "init_inv env args (nat n) (indices n) t"
  using assms(2)
proof (rule each_invariant)
  show "init_inv env args (nat n) [] st" using assms(3-6) by (simp add: init_inv_def)
qed (rule init_inv_step [OF assms(1)])

section \<open>The last loop\<close>

text \<open>The file that the last loop leaves as the configuration of a node.\<close>

definition config_file :: "initArgs \<Rightarrow> int \<Rightarrow> path" where
  "config_file args i = node_dir args i @ [''config'', ''config.toml'']"

text \<open>CometBFT's default name for the genesis file.\<close>

definition default_genesis_file :: "('m, 't) testnet_env \<Rightarrow> bool" where
  "default_genesis_file env \<longleftrightarrow> (\<forall>d. GenesisFile env d = d @ [''config'', ''genesis.json''])"

definition collect_inv :: "initArgs \<Rightarrow> string \<Rightarrow> int \<Rightarrow> files \<Rightarrow> int list \<Rightarrow> collecting \<Rightarrow> bool" where
  "collect_inv args peers genTime fs0 done = (\<lambda>(fs, cfg, app).
     (\<forall>i \<in> set done. (\<exists>c. fs (config_file args i) = Some (ConfigToml (final_config args peers i c)))
        \<and> (\<exists>a. app = Some a
           \<and> fs (node_dir args i @ [''config'', ''genesis.json'']) = Some (CanonicalGenesis (chainID args) a genTime)))
     \<and> (\<forall>i x. 0 \<le> i \<longrightarrow> fs (gentx_dir args i @ [x]) = fs0 (gentx_dir args i @ [x])))"

lemma collect_node_OkE:
  assumes "collect_node env args peers genTime ids i (fs, cfg, app) = Ok (r, None)"
  obtains cfg' a where
    "r = (fs(config_file args i \<mapsto> ConfigToml (final_config args peers i (cfg\<lparr>Moniker := node_name args i, RootDir := node_dir args i\<rparr>)),
       GenesisFile env (node_dir args i) \<mapsto> CanonicalGenesis (chainID args) a genTime), cfg', Some a)"
    "app = None \<or> app = Some a"
  using assms
  by (cases app) (auto simp: collect_node_def Let_def run_simps config_file_def)

lemma collect_inv_step:
  assumes "plain_args args" "default_genesis_file env" "indices n = done @ i # rest"
    and "collect_inv args peers genTime fs0 done s"
    and "collect_node env args peers genTime ids i s = Ok (r, None)"
  shows "collect_inv args peers genTime fs0 (done @ [i]) r"
proof -
  note s = indices_split [OF assms(3)]
  have old: "0 \<le> j \<and> j < i" if "j \<in> set done" for j
    using that s(1) by (subst (asm) s(2)) auto
  obtain fs cfg app where st: "s = (fs, cfg, app)" by (cases s)
  from assms(5) obtain cfg' a where
    r: "r = (fs(config_file args i \<mapsto> ConfigToml (final_config args peers i (cfg\<lparr>Moniker := node_name args i, RootDir := node_dir args i\<rparr>)),
       GenesisFile env (node_dir args i) \<mapsto> CanonicalGenesis (chainID args) a genTime), cfg', Some a)"
    "app = None \<or> app = Some a" unfolding st by (rule collect_node_OkE)
  have i: "0 \<le> i" using s(1) by simp
  show ?thesis
    using assms(1,2,4) r(2) old i
    by (auto simp: collect_inv_def st r(1) config_file_def gentx_dir_def node_dir_eq default_genesis_file_def)
qed

lemma collect_loop:
  assumes "plain_args args" "default_genesis_file env"
    and "collectGenFiles env args peers genTime ids cfg fs = Ok ((fs', cfg', app), None)"
  shows "collect_inv args peers genTime fs (indices (numValidators args)) (fs', cfg', app)"
  using assms(3) unfolding collectGenFiles_def
proof (rule each_invariant)
  show "collect_inv args peers genTime fs [] (fs, cfg, None)" by (simp add: collect_inv_def)
qed (rule collect_inv_step [OF assms(1,2)])

lemma init_genesis_frame:
  assumes "initGenFiles env chain accounts balances gens n fs = Ok (fs', None)" "p \<notin> set gens"
  shows "fs' p = fs p"
proof -
  obtain js where "each (\<lambda>i fs. bind_res (index_at gens i) (\<lambda>f.
      or_return (Create env f) fs (\<lambda>_. Ok (fs(f \<mapsto> EmptyGenesis chain js), None)))) (indices n) fs = Ok (fs', None)"
    using assms(1) by (auto simp: initGenFiles_def Let_def run_simps)
  then show ?thesis
  proof (rule each_invariant [where P = "\<lambda>done fs'. fs' p = fs p"])
    fix "done" i rest s t
    assume "s p = fs p" "bind_res (index_at gens i) (\<lambda>f.
      or_return (Create env f) s (\<lambda>_. Ok (s(f \<mapsto> EmptyGenesis chain js), None))) = Ok (t, None)"
    moreover have "index_at gens i = Ok f \<Longrightarrow> f \<in> set gens" for f
      by (auto simp: index_at_def split: if_splits)
    ultimately show "t p = fs p" using assms(2) by (auto simp: run_simps)
  qed simp
qed

section \<open>The network\<close>

lemma args_chain [simp]:
  "node_dir (args\<lparr>chainID := c\<rparr>) = node_dir args" "gentx_dir (args\<lparr>chainID := c\<rparr>) = gentx_dir args"
  "config_file (args\<lparr>chainID := c\<rparr>) = config_file args" "peer_memo (args\<lparr>chainID := c\<rparr>) = peer_memo args"
  "plain_args (args\<lparr>chainID := c\<rparr>) = plain_args args"
  by (simp_all add: node_dir_def node_name_def gentx_dir_def config_file_def peer_memo_def plain_args_def fun_eq_iff)

text \<open>Different nodes get different IDs.\<close>

definition ids_differ :: "('m, 't) testnet_env \<Rightarrow> initArgs \<Rightarrow> bool" where
  "ids_differ env args \<longleftrightarrow> (\<forall>i j cfg cfg' x pk pk'. 0 \<le> i \<and> 0 \<le> j \<and> RootDir cfg = node_dir args i
     \<and> RootDir cfg' = node_dir args j \<and> InitializeNodeValidatorFiles env cfg = Inr (x, pk)
     \<and> InitializeNodeValidatorFiles env cfg' = Inr (x, pk') \<longrightarrow> i = j)"


definition example_env :: "(string, string) testnet_env" where
  "example_env = \<lparr>MkdirAll = (\<lambda>p. Inr ()), Create = (\<lambda>p. Inr ()),
     GenesisFile = (\<lambda>d. d @ [''config'', ''genesis.json'']),
     InitializeNodeValidatorFiles = (\<lambda>cfg. Inr (last (RootDir cfg), ''key'')),
     NewKeyring = (\<lambda>b d. Inr ()), NewSigningAlgoFromString = (\<lambda>a. Inr ()),
     GenerateSaveCoinKey = (\<lambda>d name. Inr (name, ''seed'')), MarshalSecret = Inr,
     NewCoin = (\<lambda>d a. if a < 0 then Panic else Ok \<lparr>Denom = d, Amount = a\<rparr>), BondDenom = ''stake'',
     TokensFromConsensusPower = (\<lambda>p. p * 1000000), SortCoins = (\<lambda>cs. rev cs),
     NewMsgCreateValidator = (\<lambda>addr pk c name. Inr (addr @ '' '' @ Itoa (Amount c))), SetMsgs = Inr,
     SignTx = (\<lambda>chain memo name tx. Inr (tx @ '' '' @ memo)), TxJSONEncoder = Inr,
     MarshalGenesis = (\<lambda>accs bals supply. Inr ''{}''), SanitizeGenesisBalances = (\<lambda>b. b), AddCoins = (@),
     AppGenesisFromFile = (\<lambda>f. Inr ''{}''), GenAppStateFromConfig = (\<lambda>cfg d fs g. Inr ''{}'')\<rparr>"

definition network_args :: initArgs where
  "network_args = \<lparr>algo = ''secp256k1'', chainID = ''testing-1'', keyringBackend = ''test'', minGasPrices = '''',
     nodeDirPrefix = ''validator'', numValidators = 2, outputDir = [''nets''],
     startingIPAddress = ''localhost'', validatorsStakesAmount = Map.empty, ports = list_ports '''' 2\<rparr>"

definition network_config :: node_config where
  "network_config = \<lparr>RootDir = [], Moniker = '''', RPC_ListenAddress = '''', P2P_PersistentPeers = '''',
     P2P_AllowDuplicateIP = False, P2P_ListenAddress = '''', ProxyApp = '''', PrometheusListenAddr = '''',
     Prometheus = False\<rparr>"

definition example_defaults :: app_config where
  "example_defaults = \<lparr>MinGasPrices = '''', API_Enable = False, GRPC_Address = '''', API_Address = '''',
     Telemetry_EnableHostnameLabel = False, Telemetry_Enabled = False, Telemetry_PrometheusRetentionTime = 0\<rparr>"

lemma example_env_ok: "default_genesis_file example_env" "Create example_env p = Inr ()"
  "plain_args network_args" "ids_differ example_env network_args"
proof -
  show p: "plain_args network_args" by (simp add: plain_args_def network_args_def clean_path_def)
  show "ids_differ example_env network_args"
    by (auto simp: ids_differ_def example_env_def node_dir_eq [OF p])
qed (simp_all add: default_genesis_file_def example_env_def)

lemma each_succeeds:
  assumes "\<And>i s. i \<in> set is \<Longrightarrow> \<exists>t. f i s = Ok (t, None)"
  shows "\<exists>t. each f is s = Ok (t, None)"
  using assms
proof (induction "is" arbitrary: s)
  case (Cons i "is")
  from Cons.prems [of i s] obtain t where "f i s = Ok (t, None)" by auto
  with Cons.IH [of t] Cons.prems show ?case by (auto simp: and_then_Ok)
qed simp

lemma example_init_node: "\<exists>t. init_node example_env network_args i st = Ok (t, None)"
  by (simp add: init_node_def init_account_def init_gentx_def validator_stake_def writeFile_def or_return_def
      example_env_def network_args_def Let_def start_config_def)

lemma example_collect_node:
  "i \<in> set (indices 2) \<Longrightarrow> length ids = 2
    \<Longrightarrow> \<exists>r. collect_node example_env network_args peers genTime ids i s = Ok (r, None)"
  by (cases s) (simp add: collect_node_def or_return_def indices_set index_at_def example_env_def Let_def)

lemma example_genesis_files:
  assumes "length gens = 2"
  shows "\<exists>fs'. initGenFiles example_env chain accounts balances gens 2 fs = Ok (fs', None)"
proof -
  have "\<exists>fs'. each (\<lambda>i fs. bind_res (index_at gens i) (\<lambda>f.
      or_return (Create example_env f) fs (\<lambda>_. Ok (fs(f \<mapsto> EmptyGenesis chain ''{}''), None)))) (indices 2) fs = Ok (fs', None)"
    by (rule each_succeeds) (simp add: indices_set index_at_def assms example_env_ok or_return_def)
  then show ?thesis by (simp add: initGenFiles_def or_return_def [where x = "Inr js" for js] example_env_def)
qed

lemma network_run:
  "\<exists>fs'. initTestnetFiles example_env example_defaults (\<lambda>i. 0) 7 network_args network_config Map.empty = Ok (fs', None)"
proof -
  have c: "chain_name (\<lambda>i. 0) network_args = Ok ''testing-1''" "network_args\<lparr>chainID := ''testing-1''\<rparr> = network_args"
    and n: "numValidators network_args = 2"
    by (simp_all add: chain_name_def network_args_def)
  obtain st where st: "each (init_node example_env network_args) (indices 2)
      (start_state example_env example_defaults network_args network_config Map.empty) = Ok (st, None)"
    using each_succeeds [where f = "init_node example_env network_args", OF example_init_node] by blast
  have "init_inv example_env network_args (nat 2) (indices 2) st"
    by (rule init_loop [OF _ st]) (simp_all add: start_state_def example_env_ok n)
  then have l: "length (genFiles st) = 2" "length (nodeIDs st) = 2"
    by (simp_all add: init_inv_def indices_def)
  obtain fs1 where g: "initGenFiles example_env ''testing-1'' (genAccounts st) (genBalances st) (genFiles st) 2 (files st) = Ok (fs1, None)"
    using example_genesis_files [OF l(1)] by blast
  obtain r where "collectGenFiles example_env network_args (persistentPeers st) 7 (nodeIDs st) (nodeConfig st)
      (copy_gentxs example_env network_args (gentxsFiles st) fs1) = Ok (r, None)"
    using each_succeeds [where f = "collect_node example_env network_args (persistentPeers st) 7 (nodeIDs st)",
        OF example_collect_node [OF _ l(2)]] unfolding collectGenFiles_def n by blast
  moreover obtain fs' cfg' app where "r = (fs', cfg', app)" by (cases r)
  moreover have "chainID network_args = ''testing-1''" by (simp add: network_args_def)
  ultimately show ?thesis using st g
    by (simp add: initTestnetFiles_def c n finish_network_def and_then_def)
qed


section \<open>Ports\<close>

text \<open>The ports of node \<open>i\<close> when none are listed, in the order RPC, peers, application, metrics, gRPC and API.\<close>

definition node_ports :: "int \<Rightarrow> int list" where
  "node_ports i = [26657 - 3 * i, 26656 - 3 * i, 26658 - 3 * i, 26660 + i, 9090 - 2 * i, 1317 - i]"



section \<open>Stakes\<close>

text \<open>
  The stakes of the flag go to the validators in the order of the amounts that parse: one that
  does not parse gives its validator not the default but the next validator's amount, and the
  last validators the default.
\<close>

theorem stakes_shift:
  assumes "\<And>a. a \<in> set (List.map_filter newInt (split_on (CHR '','') s)) \<Longrightarrow> newCoin a = Ok (mk a)"
    and "length s < 2 ^ 60"
  shows "\<exists>args'. multi_node_args newInt newCoin s portList args = Ok args'
    \<and> (\<forall>i. 0 \<le> i \<longrightarrow> validatorsStakesAmount args' i
        = (let l = List.map_filter newInt (split_on (CHR '','') s) in
           if i < int (length l) then Some (mk (l ! nat i)) else None))"
proof -
  have "length (split_on c s) \<le> Suc (length s)" for c
    by (induction s) (auto split: list.split)
  then have "length (split_on (CHR '','') s) \<le> Suc (length s)" .
  also have "\<dots> < 2 ^ 63" using assms(2) by simp
  finally have "0 + int (length (split_on (CHR '','') s)) < 2 ^ 63" by (simp flip: of_nat_less_iff)
  from parse_stakes_eq [where newInt = newInt and newCoin = newCoin and mk = mk
      and k = 0 and m = Map.empty, OF assms(1) _ this]
  obtain m' where "parse_stakes newInt newCoin (split_on (CHR '','') s) 0 Map.empty = Ok m'"
    "\<forall>i. m' i = (let l = List.map_filter newInt (split_on (CHR '','') s) in
       if 0 \<le> i \<and> i < 0 + int (length l) then Some (mk (l ! nat (i - 0))) else None)" by auto
  then show ?thesis by (auto simp: multi_node_args_def Let_def)
qed

definition example_newInt :: "string \<Rightarrow> int option" where
  "example_newInt s = (if s \<noteq> [] \<and> list_all is_digit s then Some (int (dec_value s)) else None)"

theorem stakes_shift_witness:
  "\<exists>args'. multi_node_args example_newInt (\<lambda>a. Ok \<lparr>Denom = ''stake'', Amount = a\<rparr>) ''7,x,9'' '''' network_args = Ok args'
    \<and> validatorsStakesAmount args' 1 = Some \<lparr>Denom = ''stake'', Amount = 9\<rparr>
    \<and> validatorsStakesAmount args' 2 = None"
proof -
  have "List.map_filter example_newInt (split_on (CHR '','') ''7,x,9'') = [7, 9]"
    by (simp add: example_newInt_def List.map_filter_simps is_digit_def dec_value_def digit_value_def)
  with stakes_shift [of example_newInt "''7,x,9''" "\<lambda>a. Ok \<lparr>Denom = ''stake'', Amount = a\<rparr>"
      "\<lambda>a. \<lparr>Denom = ''stake'', Amount = a\<rparr>" "''''" network_args]
  show ?thesis by (auto simp: Let_def)
qed

section \<open>Failures\<close>

text \<open>
  When the directory or the node's own files cannot be made, the whole output directory is
  removed, with the nodes already finished and whatever else it held, and nothing outside of it
  is touched; when the key ring cannot be opened, the error is returned and everything stays.
\<close>

theorem init_node_failure:
  assumes "MkdirAll env (node_dir args i @ [''config'']) = Inl err
    \<or> MkdirAll env (node_dir args i @ [''config'']) = Inr ()
      \<and> (InitializeNodeValidatorFiles env (start_config args i (nodeConfig st)) = Inl err
        \<or> InitializeNodeValidatorFiles env (start_config args i (nodeConfig st)) = Inr (nodeID, pubKey)
          \<and> NewKeyring env (keyringBackend args) (node_dir args i) = Inl err)"
  shows "\<exists>t. init_node env args i st = Ok (t, Some err)
    \<and> (if MkdirAll env (node_dir args i @ [''config'']) = Inr ()
          \<and> InitializeNodeValidatorFiles env (start_config args i (nodeConfig st)) = Inr (nodeID, pubKey)
       then files t = files st
       else \<forall>p. files t p = (if prefix (outputDir args) p then None else files st p))"
  using assms
  by (auto simp: init_node_def Let_def init_account_def or_return_def RemoveAll_def)

theorem init_node_failure_witness:
  "\<exists>t. init_node (example_env\<lparr>MkdirAll := (\<lambda>p. Inl (ErrExternal ''permission denied''))\<rparr>) network_args 1
      (start_state example_env example_defaults network_args network_config
        (\<lambda>p. if p = [''nets'', ''notes''] then Some (KeySeed ''x'') else None))
      = Ok (t, Some (ErrExternal ''permission denied'')) \<and> files t [''nets'', ''notes''] = None"
  using init_node_failure [of "example_env\<lparr>MkdirAll := (\<lambda>p. Inl (ErrExternal ''permission denied''))\<rparr>"
      network_args 1 "ErrExternal ''permission denied''"
      "start_state example_env example_defaults network_args network_config
        (\<lambda>p. if p = [''nets'', ''notes''] then Some (KeySeed ''x'') else None)"]
  by (auto simp: network_args_def)

end
