(* ===== verification/Exit.thy ===== *)
theory Exit
  imports Prelude
begin

text \<open>
  Code that ends the process: what \<open>app/export.go\<close> and \<open>cmd/Nexelrad/cmd/testnet.go\<close> do is to
  return, to panic, or to leave the process with \<open>log.Fatal\<close> or \<open>tmos.Exit\<close>. Here are these
  outcomes, the two ways the code handles an error, and loops over them.
\<close>

datatype 'a exit =
    Returns 'a
  | Panics
  | Exits error

fun bind_exit :: "'a exit \<Rightarrow> ('a \<Rightarrow> 'b exit) \<Rightarrow> 'b exit" where
  "bind_exit (Returns x) f = f x"
| "bind_exit Panics f = Panics"
| "bind_exit (Exits e) f = Exits e"

lemma bind_exit_cong [fundef_cong]:
  assumes "x = y" and "\<And>a. y = Returns a \<Longrightarrow> f a = g a"
  shows "bind_exit x f = bind_exit y g"
  using assms by (cases y) auto

text \<open>\<open>if err != nil { panic(err) }\<close> and \<open>if err != nil { log.Fatal(err) }\<close>.\<close>

fun or_panic :: "error + 'a \<Rightarrow> 'a exit" where
  "or_panic (Inl e) = Panics"
| "or_panic (Inr x) = Returns x"

fun or_exit :: "error + 'a \<Rightarrow> 'a exit" where
  "or_exit (Inl e) = Exits e"
| "or_exit (Inr x) = Returns x"

fun run_all :: "('i \<Rightarrow> 's \<Rightarrow> 's exit) \<Rightarrow> 'i list \<Rightarrow> 's \<Rightarrow> 's exit" where
  "run_all f [] s = Returns s"
| "run_all f (i # is) s = bind_exit (f i s) (run_all f is)"

named_theorems exit_simps \<open>when a sequence of calls returns\<close>

lemma bind_exit_Returns [exit_simps]:
  "bind_exit x f = Returns z \<longleftrightarrow> (\<exists>y. x = Returns y \<and> f y = Returns z)"
  by (cases x) auto

lemma or_panic_Returns [exit_simps]: "or_panic x = Returns z \<longleftrightarrow> x = Inr z"
  by (cases x) auto

lemma or_exit_Returns [exit_simps]: "or_exit x = Returns z \<longleftrightarrow> x = Inr z"
  by (cases x) auto

lemma run_all_append: "run_all f (xs @ ys) s = bind_exit (run_all f xs s) (run_all f ys)"
proof (induction xs arbitrary: s)
  case (Cons x xs)
  then show ?case by (cases "f x s") auto
qed simp

lemma run_all_invariant:
  assumes "run_all f is s = Returns t" "P [] s"
    and "\<And>done i rest s t. is = done @ i # rest \<Longrightarrow> P done s \<Longrightarrow> f i s = Returns t \<Longrightarrow> P (done @ [i]) t"
  shows "P is t"
proof -
  have "P is t'" if "run_all f is' u = Returns t'" "P done u" "is = done @ is'" for "done" is' u t'
    using that
  proof (induction is' arbitrary: "done" u)
    case (Cons i is')
    then obtain v where v: "f i u = Returns v" "run_all f is' v = Returns t'"
      by (auto simp: exit_simps)
    have "P (done @ [i]) v" using assms(3) [OF Cons.prems(3,2) v(1)] .
    with Cons.IH [OF v(2)] Cons.prems(3) show ?case by simp
  qed simp
  from this [of "is" s t "[]"] assms(1,2) show ?thesis by simp
qed

text \<open>What no round changes, the loop does not change.\<close>

lemma run_all_keeps:
  assumes "run_all f is s = Returns t" "\<And>i s t. f i s = Returns t \<Longrightarrow> view t = view s"
  shows "view t = view s"
  using assms(1) by (rule run_all_invariant [where P = "\<lambda>_ u. view u = view s"]) (simp_all add: assms(2))

text \<open>
  Writing back every entry of a table, changed: if writing an entry replaces the one with the
  same key in the listing, the loop maps the change over the listing.
\<close>

definition replaces :: "('s \<Rightarrow> error + 'a list) \<Rightarrow> ('a \<Rightarrow> 's \<Rightarrow> error + 's) \<Rightarrow> ('a \<Rightarrow> 'k) \<Rightarrow> bool" where
  "replaces listing put key \<longleftrightarrow> (\<forall>s xs a ys a' t. listing s = Inr (xs @ a # ys) \<longrightarrow> key a' = key a
     \<longrightarrow> put a' s = Inr t \<longrightarrow> listing t = Inr (xs @ a' # ys))"

lemma run_all_rewrites:
  assumes "replaces listing put key" "\<And>a. key (f a) = key a"
    and "listing s = Inr xs" "run_all (\<lambda>a s. or_panic (put (f a) s)) xs s = Returns t"
  shows "listing t = Inr (map f xs)"
proof -
  let ?P = "\<lambda>done u. \<exists>rest. xs = done @ rest \<and> listing u = Inr (map f done @ rest)"
  have "?P xs t"
  proof (rule run_all_invariant [where P = ?P, OF assms(4)])
    show "?P [] s" using assms(3) by simp
  next
    fix "done" i rest u v
    assume xs: "xs = done @ i # rest" and "?P done u" and v: "or_panic (put (f i) u) = Returns v"
    then have "listing u = Inr (map f done @ i # rest)" by auto
    moreover have "put (f i) u = Inr v" using v by (simp add: exit_simps)
    ultimately have "listing v = Inr (map f done @ f i # rest)"
      using assms(1,2) unfolding replaces_def by blast
    with xs show "?P (done @ [i]) v" by simp
  qed
  then show ?thesis by simp
qed

end
