(* ===== verification/Export.thy ===== *)
theory Export
  imports Exit
begin

text \<open>
  \<open>app/export.go\<close>: exporting the state of the application, as it is or prepared for a start at
  height zero. The keepers of the SDK are the parameter \<open>export_env\<close>, over a state of all
  stores; the height of the context is passed where a keeper may read it.
\<close>

section \<open>The keepers\<close>

text \<open>
  The SDK structures, with the fields the code touches; \<open>'x\<close> are the other fields. \<open>hold\<close> is a
  redelegation or an unbonding delegation.
\<close>

record 'x hold_entry =
  CreationHeight :: int
  EntryRest :: 'x

record 'x hold =
  HoldRest :: 'x
  Entries :: "'x hold_entry list"

record 'x validator =
  UnbondingHeight :: int
  Jailed :: bool
  ValidatorRest :: 'x

record 'x signing_info =
  StartHeight :: int
  InfoRest :: 'x

text \<open>
  \<open>IterateValidators\<close>, \<open>IterateRedelegations\<close>, \<open>IterateUnbondingDelegations\<close> and
  \<open>IterateValidatorSigningInfos\<close> list what they pass to the callback, in order; their errors
  come from opening the iterator, before the first callback. Operations whose result the code
  drops only return the new state.
\<close>

record ('s, 'x, 'c) export_env =
  ValAddressFromBech32 :: "string \<Rightarrow> error + bytes"
  ValAddressString :: "bytes \<Rightarrow> string"
  AccAddressFromBech32 :: "string \<Rightarrow> error + bytes"
  StringToBytes :: "string \<Rightarrow> error + bytes"
  AssertInvariants :: "'s \<Rightarrow> 's exit"
  IterateValidators :: "'s \<Rightarrow> error + string list"
  WithdrawValidatorCommission :: "int \<Rightarrow> bytes \<Rightarrow> 's \<Rightarrow> 's"
  GetAllDelegations :: "'s \<Rightarrow> error + (string \<times> string) list"
  WithdrawDelegationRewards :: "int \<Rightarrow> bytes \<Rightarrow> bytes \<Rightarrow> 's \<Rightarrow> 's"
  DeleteAllValidatorSlashEvents :: "'s \<Rightarrow> 's"
  DeleteAllValidatorHistoricalRewards :: "'s \<Rightarrow> 's"
  GetValidatorOutstandingRewardsCoins :: "bytes \<Rightarrow> 's \<Rightarrow> error + 'c"
  FeePool_Get :: "'s \<Rightarrow> error + 'c"
  FeePool_Set :: "'c \<Rightarrow> 's \<Rightarrow> error + 's"
  DecCoins_Add :: "'c \<Rightarrow> 'c \<Rightarrow> 'c"
  AfterValidatorCreated :: "int \<Rightarrow> bytes \<Rightarrow> 's \<Rightarrow> error + 's"
  BeforeDelegationCreated :: "int \<Rightarrow> bytes \<Rightarrow> bytes \<Rightarrow> 's \<Rightarrow> error + 's"
  AfterDelegationModified :: "int \<Rightarrow> bytes \<Rightarrow> bytes \<Rightarrow> 's \<Rightarrow> error + 's"
  IterateRedelegations :: "'s \<Rightarrow> error + 'x hold list"
  SetRedelegation :: "'x hold \<Rightarrow> 's \<Rightarrow> error + 's"
  IterateUnbondingDelegations :: "'s \<Rightarrow> error + 'x hold list"
  SetUnbondingDelegation :: "'x hold \<Rightarrow> 's \<Rightarrow> error + 's"
  ValidatorsKeys :: "'s \<Rightarrow> bytes list" \<comment> \<open>of \<open>KVStoreReversePrefixIterator\<close>\<close>
  AddressFromValidatorsKey :: "bytes \<Rightarrow> bytes"
  GetValidator :: "bytes \<Rightarrow> 's \<Rightarrow> error + 'x validator"
  SetValidator :: "'x validator \<Rightarrow> 's \<Rightarrow> error + 's"
  CloseIterator :: "'s \<Rightarrow> error option"
  ApplyAndReturnValidatorSetUpdates :: "int \<Rightarrow> 's \<Rightarrow> error + 's"
  IterateValidatorSigningInfos :: "'s \<Rightarrow> error + (bytes \<times> 'x signing_info) list"
  SetValidatorSigningInfo :: "bytes \<Rightarrow> 'x signing_info \<Rightarrow> 's \<Rightarrow> 's"

section \<open>Fee distribution\<close>

fun check_allowed :: "('s, 'x, 'c) export_env \<Rightarrow> string list \<Rightarrow> unit exit" where
  "check_allowed env [] = Returns ()"
| "check_allowed env (addr # addrs) =
     bind_exit (or_exit (ValAddressFromBech32 env addr)) (\<lambda>_. check_allowed env addrs)"

definition withdraw_commission :: "('s, 'x, 'c) export_env \<Rightarrow> int \<Rightarrow> string \<Rightarrow> 's \<Rightarrow> 's exit" where
  "withdraw_commission env height operator s =
     bind_exit (or_panic (StringToBytes env operator)) (\<lambda>valBz.
       Returns (WithdrawValidatorCommission env height valBz s))"

definition withdraw_rewards :: "('s, 'x, 'c) export_env \<Rightarrow> int \<Rightarrow> string \<times> string \<Rightarrow> 's \<Rightarrow> 's exit" where
  "withdraw_rewards env height delegation s =
     (let (delegator, operator) = delegation in
      bind_exit (or_panic (ValAddressFromBech32 env operator)) (\<lambda>valAddr.
      bind_exit (or_panic (AccAddressFromBech32 env delegator)) (\<lambda>delAddr.
        Returns (WithdrawDelegationRewards env height delAddr valAddr s))))"

definition reinit_validator :: "('s, 'x, 'c) export_env \<Rightarrow> int \<Rightarrow> string \<Rightarrow> 's \<Rightarrow> 's exit" where
  "reinit_validator env height operator s =
     bind_exit (or_panic (StringToBytes env operator)) (\<lambda>valBz.
     bind_exit (or_panic (GetValidatorOutstandingRewardsCoins env valBz s)) (\<lambda>scraps.
     bind_exit (or_panic (FeePool_Get env s)) (\<lambda>communityPool.
     bind_exit (or_panic (FeePool_Set env (DecCoins_Add env communityPool scraps) s)) (\<lambda>s.
       or_panic (AfterValidatorCreated env height valBz s)))))"

definition reinit_delegation :: "('s, 'x, 'c) export_env \<Rightarrow> int \<Rightarrow> string \<times> string \<Rightarrow> 's \<Rightarrow> 's exit" where
  "reinit_delegation env height delegation s =
     (let (delegator, operator) = delegation in
      bind_exit (or_panic (ValAddressFromBech32 env operator)) (\<lambda>valAddr.
      bind_exit (or_panic (AccAddressFromBech32 env delegator)) (\<lambda>delAddr.
      bind_exit (or_panic (BeforeDelegationCreated env height delAddr valAddr s)) (\<lambda>s.
        or_panic (AfterDelegationModified env height delAddr valAddr s)))))"

text \<open>
  The steps up to the staking state. The error of the second \<open>IterateValidators\<close> is assigned
  to \<open>err\<close> and never looked at.
\<close>

definition reset_distribution :: "('s, 'x, 'c) export_env \<Rightarrow> int \<Rightarrow> 's \<Rightarrow> 's exit" where
  "reset_distribution env height s =
     bind_exit (or_panic (IterateValidators env s)) (\<lambda>operators.
     bind_exit (run_all (withdraw_commission env height) operators s) (\<lambda>s.
     bind_exit (or_panic (GetAllDelegations env s)) (\<lambda>dels.
     bind_exit (run_all (withdraw_rewards env height) dels s) (\<lambda>s.
     let s = DeleteAllValidatorSlashEvents env s;
         s = DeleteAllValidatorHistoricalRewards env s
     in bind_exit (case IterateValidators env s of
            Inl err \<Rightarrow> Returns s
          | Inr operators \<Rightarrow> run_all (reinit_validator env 0) operators s) (\<lambda>s.
        run_all (reinit_delegation env 0) dels s)))))"

section \<open>Staking and slashing\<close>

definition reset_entries :: "'x hold \<Rightarrow> 'x hold" where
  "reset_entries red = red\<lparr>Entries := map (\<lambda>e. e\<lparr>CreationHeight := 0\<rparr>) (Entries red)\<rparr>"

definition reset_redelegations :: "('s, 'x, 'c) export_env \<Rightarrow> 's \<Rightarrow> 's exit" where
  "reset_redelegations env s =
     bind_exit (or_panic (IterateRedelegations env s)) (\<lambda>reds.
       run_all (\<lambda>red s. or_panic (SetRedelegation env (reset_entries red) s)) reds s)"

definition reset_unbondings :: "('s, 'x, 'c) export_env \<Rightarrow> 's \<Rightarrow> 's exit" where
  "reset_unbondings env s =
     bind_exit (or_panic (IterateUnbondingDelegations env s)) (\<lambda>ubds.
       run_all (\<lambda>ubd s. or_panic (SetUnbondingDelegation env (reset_entries ubd) s)) ubds s)"

text \<open>The loop over the validators; its counter is not used for anything.\<close>

definition jailed_validator :: "bool \<Rightarrow> string list \<Rightarrow> string \<Rightarrow> 'x validator \<Rightarrow> 'x validator" where
  "jailed_validator applyAllowedAddrs allowed addr v =
     (let v = v\<lparr>UnbondingHeight := 0\<rparr>
      in if applyAllowedAddrs \<and> addr \<notin> set allowed then v\<lparr>Jailed := True\<rparr> else v)"

definition reset_validator ::
    "('s, 'x, 'c) export_env \<Rightarrow> bool \<Rightarrow> string list \<Rightarrow> bytes \<Rightarrow> 's \<Rightarrow> 's exit" where
  "reset_validator env applyAllowedAddrs allowed key s =
     (let addr = AddressFromValidatorsKey env key in
      bind_exit (or_panic (GetValidator env addr s)) (\<lambda>v.
        or_panic (SetValidator env (jailed_validator applyAllowedAddrs allowed (ValAddressString env addr) v) s)))"

definition reset_signing_infos :: "('s, 'x, 'c) export_env \<Rightarrow> 's \<Rightarrow> 's exit" where
  "reset_signing_infos env s =
     bind_exit (or_exit (IterateValidatorSigningInfos env s)) (\<lambda>infos.
       run_all (\<lambda>(addr, info) s. Returns (SetValidatorSigningInfo env addr (info\<lparr>StartHeight := 0\<rparr>) s))
         infos s)"

section \<open>Preparing for height zero\<close>

definition prepForZeroHeightGenesis ::
    "('s, 'x, 'c) export_env \<Rightarrow> int \<Rightarrow> string list \<Rightarrow> 's \<Rightarrow> 's exit" where
  "prepForZeroHeightGenesis env height jailAllowedAddrs s =
     (let applyAllowedAddrs = jailAllowedAddrs \<noteq> [] in
      bind_exit (check_allowed env jailAllowedAddrs) (\<lambda>_.
      bind_exit (AssertInvariants env s) (\<lambda>s.
      bind_exit (reset_distribution env height s) (\<lambda>s.
      bind_exit (reset_redelegations env s) (\<lambda>s.
      bind_exit (reset_unbondings env s) (\<lambda>s.
      bind_exit (run_all (reset_validator env applyAllowedAddrs jailAllowedAddrs) (ValidatorsKeys env s) s) (\<lambda>s.
      case CloseIterator env s of
        Some err \<Rightarrow> Returns s
      | None \<Rightarrow>
          bind_exit (or_exit (ApplyAndReturnValidatorSetUpdates env height s)) (\<lambda>s.
            reset_signing_infos env s))))))))"

section \<open>The export\<close>

text \<open>
  What is exported comes from the application: its modules' genesis states, the JSON encoder,
  the validator set and the consensus parameters. \<open>WriteValidators\<close> returns what it has read
  also beside an error.
\<close>

record ('s, 'g, 'v, 'p) app_env =
  ExportGenesisForModules :: "string list \<Rightarrow> 's \<Rightarrow> error + 'g"
  MarshalIndent :: "'g \<Rightarrow> error + string"
  WriteValidators :: "'s \<Rightarrow> 'v list \<times> error option"
  GetConsensusParams :: "'s \<Rightarrow> 'p"

record ('v, 'p) ExportedApp =
  AppState :: string
  Validators :: "'v list"
  ExportHeight :: int
  ConsensusParams :: 'p

text \<open>The result with a nil \<open>ExportedApp\<close> is \<open>None\<close>; the second part is the error.\<close>

definition export_state ::
    "('s, 'g, 'v, 'p) app_env \<Rightarrow> string list \<Rightarrow> int \<Rightarrow> 's \<Rightarrow> ('v, 'p) ExportedApp option \<times> error option" where
  "export_state app modulesToExport height s =
     (case ExportGenesisForModules app modulesToExport s of
        Inl err \<Rightarrow> (None, Some err)
      | Inr genState \<Rightarrow> (case MarshalIndent app genState of
          Inl err \<Rightarrow> (None, Some err)
        | Inr appState \<Rightarrow>
            (let (validators, err) = WriteValidators app s in
             (Some \<lparr>AppState = appState, Validators = validators, ExportHeight = height,
                ConsensusParams = GetConsensusParams app s\<rparr>, err))))"

definition ExportAppStateAndValidators ::
    "('s, 'x, 'c) export_env \<Rightarrow> ('s, 'g, 'v, 'p) app_env \<Rightarrow> int \<Rightarrow> bool \<Rightarrow> string list \<Rightarrow> string list
      \<Rightarrow> 's \<Rightarrow> (('v, 'p) ExportedApp option \<times> error option) exit" where
  "ExportAppStateAndValidators env app lastBlockHeight forZeroHeight jailAllowedAddrs modulesToExport s =
     (if forZeroHeight
      then bind_exit (prepForZeroHeightGenesis env lastBlockHeight jailAllowedAddrs s) (\<lambda>s.
             Returns (export_state app modulesToExport 0 s))
      else Returns (export_state app modulesToExport (int64 (lastBlockHeight + 1)) s))"

end
