(* ===== verification/Export_Properties.thy ===== *)
theory Export_Properties
  imports Export
begin

text \<open>
  What the preparation for height zero does to the staking and slashing state, from the
  documented behaviour of the keepers.
\<close>

section \<open>What the code relies on\<close>

definition validators_view :: "('s, 'x, 'c) export_env \<Rightarrow> 's \<Rightarrow> bytes list \<times> (bytes \<Rightarrow> error + 'x validator)" where
  "validators_view env s = (ValidatorsKeys env s, \<lambda>a. GetValidator env a s)"

text \<open>The distribution keeper, its hooks and the invariants leave the validators alone.\<close>

definition distribution_keeps :: "('s, 'x, 'c) export_env \<Rightarrow> ('s \<Rightarrow> 'w) \<Rightarrow> bool" where
  "distribution_keeps env view \<longleftrightarrow>
     (\<forall>s t. AssertInvariants env s = Returns t \<longrightarrow> view t = view s)
   \<and> (\<forall>h v s. view (WithdrawValidatorCommission env h v s) = view s)
   \<and> (\<forall>h d v s. view (WithdrawDelegationRewards env h d v s) = view s)
   \<and> (\<forall>s. view (DeleteAllValidatorSlashEvents env s) = view s)
   \<and> (\<forall>s. view (DeleteAllValidatorHistoricalRewards env s) = view s)
   \<and> (\<forall>c s t. FeePool_Set env c s = Inr t \<longrightarrow> view t = view s)
   \<and> (\<forall>h v s t. AfterValidatorCreated env h v s = Inr t \<longrightarrow> view t = view s)
   \<and> (\<forall>h d v s t. BeforeDelegationCreated env h d v s = Inr t \<longrightarrow> view t = view s)
   \<and> (\<forall>h d v s t. AfterDelegationModified env h d v s = Inr t \<longrightarrow> view t = view s)"

text \<open>
  The tables of the staking and slashing keepers: writing an entry replaces the one with the
  same key and touches no other table. Applying the validator set updates moves validators
  between states but jails and frees nobody.
\<close>

definition tables_lawful :: "('s, 'x, 'c) export_env \<Rightarrow> bool" where
  "tables_lawful env \<longleftrightarrow>
     replaces (IterateRedelegations env) (SetRedelegation env) HoldRest
   \<and> replaces (IterateUnbondingDelegations env) (SetUnbondingDelegation env) HoldRest
   \<and> replaces (IterateValidatorSigningInfos env) (\<lambda>(a, i) s. Inr (SetValidatorSigningInfo env a i s))
       (\<lambda>(a, i). (a, InfoRest i))
   \<and> (\<forall>u s t. SetUnbondingDelegation env u s = Inr t \<longrightarrow> IterateRedelegations env t = IterateRedelegations env s)
   \<and> (\<forall>v s t. SetValidator env v s = Inr t \<longrightarrow> IterateRedelegations env t = IterateRedelegations env s
        \<and> IterateUnbondingDelegations env t = IterateUnbondingDelegations env s)
   \<and> (\<forall>h s t. ApplyAndReturnValidatorSetUpdates env h s = Inr t
        \<longrightarrow> IterateRedelegations env t = IterateRedelegations env s
        \<and> IterateUnbondingDelegations env t = IterateUnbondingDelegations env s)
   \<and> (\<forall>a i s. IterateRedelegations env (SetValidatorSigningInfo env a i s) = IterateRedelegations env s
        \<and> IterateUnbondingDelegations env (SetValidatorSigningInfo env a i s) = IterateUnbondingDelegations env s)"

definition validators_lawful :: "('s, 'x, 'c) export_env \<Rightarrow> bool" where
  "validators_lawful env \<longleftrightarrow>
     distribution_keeps env (validators_view env)
   \<and> (\<forall>r s t. SetRedelegation env r s = Inr t \<longrightarrow> validators_view env t = validators_view env s)
   \<and> (\<forall>u s t. SetUnbondingDelegation env u s = Inr t \<longrightarrow> validators_view env t = validators_view env s)
   \<and> (\<forall>a i s. validators_view env (SetValidatorSigningInfo env a i s) = validators_view env s)
   \<and> (\<forall>a s v v' t. GetValidator env a s = Inr v \<longrightarrow> ValidatorRest v' = ValidatorRest v
        \<longrightarrow> SetValidator env v' s = Inr t
        \<longrightarrow> (\<forall>b. GetValidator env b t = (if b = a then Inr v' else GetValidator env b s)))
   \<and> (\<forall>h s t a v. ApplyAndReturnValidatorSetUpdates env h s = Inr t \<longrightarrow> GetValidator env a s = Inr v
        \<longrightarrow> (\<exists>w. GetValidator env a t = Inr w \<and> Jailed w = Jailed v))"

section \<open>The stages\<close>

lemma prep_stages:
  assumes "prepForZeroHeightGenesis env height allowed s = Returns t" "\<And>s. CloseIterator env s = None"
  obtains s0 s1 s2 s3 s4 s5 where
    "AssertInvariants env s = Returns s0"
    "reset_distribution env height s0 = Returns s1"
    "reset_redelegations env s1 = Returns s2"
    "reset_unbondings env s2 = Returns s3"
    "run_all (reset_validator env (allowed \<noteq> []) allowed) (ValidatorsKeys env s3) s3 = Returns s4"
    "ApplyAndReturnValidatorSetUpdates env height s4 = Inr s5" "reset_signing_infos env s5 = Returns t"
  using assms by (auto simp: prepForZeroHeightGenesis_def Let_def exit_simps intro: that)

lemma reset_distribution_keeps:
  assumes d: "distribution_keeps env view" and r: "reset_distribution env height s = Returns t"
  shows "view t = view s"
proof -
  have w: "view v = view u" if "withdraw_commission env height i u = Returns v" for i u v
    using that d by (auto simp: withdraw_commission_def distribution_keeps_def exit_simps)
  have x: "view v = view u" if "withdraw_rewards env height i u = Returns v" for i u v
    using that d by (auto simp: withdraw_rewards_def distribution_keeps_def exit_simps split: prod.splits)
  have y: "view v = view u" if "reinit_validator env 0 i u = Returns v" for i u v
    using that d unfolding reinit_validator_def distribution_keeps_def exit_simps by metis
  have z: "view v = view u" if "reinit_delegation env 0 i u = Returns v" for i u v
    using that d unfolding reinit_delegation_def distribution_keeps_def Let_def
    by (auto simp: exit_simps split: prod.splits)
  from r obtain ops s1 dels s2 s3 where
    1: "run_all (withdraw_commission env height) ops s = Returns s1"
    and 2: "run_all (withdraw_rewards env height) dels s1 = Returns s2"
    and 3: "(case IterateValidators env (DeleteAllValidatorHistoricalRewards env (DeleteAllValidatorSlashEvents env s2)) of
        Inl err \<Rightarrow> Returns (DeleteAllValidatorHistoricalRewards env (DeleteAllValidatorSlashEvents env s2))
      | Inr operators \<Rightarrow> run_all (reinit_validator env 0) operators
          (DeleteAllValidatorHistoricalRewards env (DeleteAllValidatorSlashEvents env s2))) = Returns s3"
    and 4: "run_all (reinit_delegation env 0) dels s3 = Returns t"
    by (auto simp: reset_distribution_def Let_def exit_simps)
  have "view s3 = view (DeleteAllValidatorHistoricalRewards env (DeleteAllValidatorSlashEvents env s2))"
    using 3 run_all_keeps [where f = "reinit_validator env 0" and view = view, OF _ y]
    by (auto split: sum.splits)
  also have "\<dots> = view s2" using d by (simp add: distribution_keeps_def)
  also have "\<dots> = view s1" by (rule run_all_keeps [OF 2 x])
  also have "\<dots> = view s" by (rule run_all_keeps [OF 1 w])
  finally show ?thesis using run_all_keeps [where view = view, OF 4 z] by simp
qed

lemma reset_redelegations_zero:
  assumes "tables_lawful env" "reset_redelegations env s = Returns t"
  shows "\<exists>reds. IterateRedelegations env t = Inr (map reset_entries reds)"
  using assms run_all_rewrites [of "IterateRedelegations env" "SetRedelegation env" HoldRest reset_entries s]
  by (auto simp: reset_redelegations_def tables_lawful_def exit_simps reset_entries_def)

lemma reset_unbondings_zero:
  assumes "tables_lawful env" "reset_unbondings env s = Returns t"
  shows "\<exists>ubds. IterateUnbondingDelegations env t = Inr (map reset_entries ubds)
    \<and> IterateRedelegations env t = IterateRedelegations env s"
proof -
  from assms(2) obtain ubds where u: "IterateUnbondingDelegations env s = Inr ubds"
    "run_all (\<lambda>ubd s. or_panic (SetUnbondingDelegation env (reset_entries ubd) s)) ubds s = Returns t"
    by (auto simp: reset_unbondings_def exit_simps)
  have "IterateUnbondingDelegations env t = Inr (map reset_entries ubds)"
    using assms(1) by (intro run_all_rewrites [where key = HoldRest and f = reset_entries
      and listing = "IterateUnbondingDelegations env" and put = "SetUnbondingDelegation env", OF _ _ u]) (auto simp: tables_lawful_def reset_entries_def)
  moreover have "IterateRedelegations env t = IterateRedelegations env s"
    by (rule run_all_keeps [OF u(2)]) (use assms(1) in \<open>auto simp: tables_lawful_def exit_simps\<close>)
  ultimately show ?thesis by blast
qed

lemma reset_signing_infos_zero:
  assumes "tables_lawful env" "reset_signing_infos env s = Returns t"
  shows "\<exists>infos. IterateValidatorSigningInfos env t = Inr (map (\<lambda>(a, i). (a, i\<lparr>StartHeight := 0\<rparr>)) infos)
    \<and> IterateRedelegations env t = IterateRedelegations env s
    \<and> IterateUnbondingDelegations env t = IterateUnbondingDelegations env s"
proof -
  let ?put = "\<lambda>(a, i) s. Inr (SetValidatorSigningInfo env a i s)"
  let ?zero = "\<lambda>(a, i). (a, i\<lparr>StartHeight := 0\<rparr>)"
  from assms(2) obtain infos where i: "IterateValidatorSigningInfos env s = Inr infos"
    "run_all (\<lambda>(addr, info) s. Returns (SetValidatorSigningInfo env addr (info\<lparr>StartHeight := 0\<rparr>) s)) infos s = Returns t"
    by (auto simp: reset_signing_infos_def exit_simps)
  have f: "(\<lambda>(addr, info) s. Returns (SetValidatorSigningInfo env addr (info\<lparr>StartHeight := 0\<rparr>) s))
      = (\<lambda>p s. or_panic (?put (?zero p) s))"
    by (auto simp: fun_eq_iff)
  have "IterateValidatorSigningInfos env t = Inr (map ?zero infos)"
    using assms(1) by (intro run_all_rewrites [where key = "\<lambda>(a, i). (a, InfoRest i)" and f = ?zero and put = ?put
      and listing = "IterateValidatorSigningInfos env",
      OF _ _ i(1) i(2) [unfolded f]]) (auto simp: tables_lawful_def)
  moreover have "IterateRedelegations env t = IterateRedelegations env s"
    by (rule run_all_keeps [OF i(2)]) (use assms(1) in \<open>auto simp: tables_lawful_def\<close>)
  moreover have "IterateUnbondingDelegations env t = IterateUnbondingDelegations env s"
    by (rule run_all_keeps [OF i(2)]) (use assms(1) in \<open>auto simp: tables_lawful_def\<close>)
  ultimately show ?thesis by blast
qed

text \<open>The loop over the validators: every listed one is changed, whatever the order.\<close>

lemma reset_validators_spec:
  assumes "validators_lawful env"
    and "run_all (reset_validator env apply_allowed allowed) keys s = Returns t"
  shows "GetValidator env a t =
    (if a \<in> AddressFromValidatorsKey env ` set keys
     then map_sum id (jailed_validator apply_allowed allowed (ValAddressString env a)) (GetValidator env a s)
     else GetValidator env a s)"
proof -
  let ?j = "\<lambda>a. jailed_validator apply_allowed allowed (ValAddressString env a)"
  let ?P = "\<lambda>done u. \<forall>a. GetValidator env a u = (if a \<in> AddressFromValidatorsKey env ` set done
      then map_sum id (?j a) (GetValidator env a s) else GetValidator env a s)"
  have "?P keys t"
  proof (rule run_all_invariant [where P = ?P, OF assms(2)])
    fix "done" key rest u v
    assume P: "?P done u" and r: "reset_validator env apply_allowed allowed key u = Returns v"
    let ?a = "AddressFromValidatorsKey env key"
    from r obtain w where w: "GetValidator env ?a u = Inr w" "SetValidator env (?j ?a w) u = Inr v"
      by (auto simp: reset_validator_def Let_def exit_simps)
    moreover have "ValidatorRest (?j ?a w) = ValidatorRest w"
      by (simp add: jailed_validator_def Let_def)
    ultimately have g: "GetValidator env b v = (if b = ?a then Inr (?j ?a w) else GetValidator env b u)" for b
      using assms(1) unfolding validators_lawful_def by blast
    have "?j ?a (?j ?a x) = ?j ?a x" for x by (simp add: jailed_validator_def Let_def)
    then have "Inr (?j ?a w) = map_sum id (?j ?a) (GetValidator env ?a s)"
      using w(1) P by (cases "GetValidator env ?a s") (auto split: if_splits)
    with g P show "?P (done @ [key]) v" by auto
  qed simp
  then show ?thesis by blast
qed

lemma after_loop_jailed:
  assumes "validators_lawful env"
    and "ApplyAndReturnValidatorSetUpdates env height s = Inr s5" "reset_signing_infos env s5 = Returns t"
    and "GetValidator env a s = Inr v"
  shows "\<exists>w. GetValidator env a t = Inr w \<and> Jailed w = Jailed v"
proof -
  have "\<forall>h s t a v. ApplyAndReturnValidatorSetUpdates env h s = Inr t \<longrightarrow> GetValidator env a s = Inr v
      \<longrightarrow> (\<exists>w. GetValidator env a t = Inr w \<and> Jailed w = Jailed v)"
    using assms(1) by (simp add: validators_lawful_def)
  with assms(2,4) obtain w where w: "GetValidator env a s5 = Inr w" "Jailed w = Jailed v" by blast
  from assms(3) obtain infos where
    "run_all (\<lambda>(addr, info) s. Returns (SetValidatorSigningInfo env addr (info\<lparr>StartHeight := 0\<rparr>) s)) infos s5 = Returns t"
    by (auto simp: reset_signing_infos_def exit_simps)
  then have "validators_view env t = validators_view env s5"
    by (rule run_all_keeps) (use assms(1) in \<open>auto simp: validators_lawful_def\<close>)
  with w show ?thesis by (auto simp: validators_view_def fun_eq_iff)
qed

section \<open>An instance\<close>

text \<open>
  Two validators, one redelegation, one unbonding delegation and one signing info; nothing else
  has a state.
\<close>

record zero_example =
  Red :: "bytes hold_entry list"
  Ubd :: "bytes hold_entry list"
  Vals :: "bytes \<Rightarrow> int \<times> bool"
  Info :: int

definition zero_keepers :: "(zero_example, bytes, int) export_env" where
  "zero_keepers = \<lparr>
     ValAddressFromBech32 = (\<lambda>s. if s \<in> {''val1'', ''VAL1''} then Inr [1] else if s \<in> {''val2'', ''VAL2''} then Inr [2]
       else Inl (ErrExternal ''decoding bech32 failed'')),
     ValAddressString = (\<lambda>a. if a = [1] then ''val1'' else ''val2''),
     AccAddressFromBech32 = (\<lambda>s. Inr []),
     StringToBytes = (\<lambda>s. Inr (if s = ''val1'' then [1] else [2])),
     AssertInvariants = Returns, IterateValidators = (\<lambda>s. Inr [''val1'', ''val2'']),
     WithdrawValidatorCommission = (\<lambda>h v s. s), GetAllDelegations = (\<lambda>s. Inr [(''acc1'', ''val1'')]),
     WithdrawDelegationRewards = (\<lambda>h d v s. s), DeleteAllValidatorSlashEvents = (\<lambda>s. s),
     DeleteAllValidatorHistoricalRewards = (\<lambda>s. s),
     GetValidatorOutstandingRewardsCoins = (\<lambda>v s. Inr 0), FeePool_Get = (\<lambda>s. Inr 0),
     FeePool_Set = (\<lambda>c s. Inr s), DecCoins_Add = (+), AfterValidatorCreated = (\<lambda>h v s. Inr s),
     BeforeDelegationCreated = (\<lambda>h d v s. Inr s), AfterDelegationModified = (\<lambda>h d v s. Inr s),
     IterateRedelegations = (\<lambda>s. Inr [\<lparr>HoldRest = [], Entries = Red s\<rparr>]),
     SetRedelegation = (\<lambda>r s. Inr (s\<lparr>Red := Entries r\<rparr>)),
     IterateUnbondingDelegations = (\<lambda>s. Inr [\<lparr>HoldRest = [], Entries = Ubd s\<rparr>]),
     SetUnbondingDelegation = (\<lambda>r s. Inr (s\<lparr>Ubd := Entries r\<rparr>)),
     ValidatorsKeys = (\<lambda>s. [[0x21, 2], [0x21, 1]]), AddressFromValidatorsKey = tl,
     GetValidator = (\<lambda>a s. if a \<in> {[1], [2]}
       then Inr \<lparr>UnbondingHeight = fst (Vals s a), Jailed = snd (Vals s a), ValidatorRest = a\<rparr>
       else Inl (ErrExternal ''validator does not exist'')),
     SetValidator = (\<lambda>v s. Inr (s\<lparr>Vals := (Vals s)(ValidatorRest v := (UnbondingHeight v, Jailed v))\<rparr>)),
     CloseIterator = (\<lambda>s. None), ApplyAndReturnValidatorSetUpdates = (\<lambda>h s. Inr s),
     IterateValidatorSigningInfos = (\<lambda>s. Inr [([3], \<lparr>StartHeight = Info s, InfoRest = []\<rparr>)]),
     SetValidatorSigningInfo = (\<lambda>a i s. s\<lparr>Info := StartHeight i\<rparr>)\<rparr>"

definition zero_chain :: zero_example where
  "zero_chain = \<lparr>Red = [\<lparr>CreationHeight = 7, EntryRest = []\<rparr>], Ubd = [\<lparr>CreationHeight = 9, EntryRest = []\<rparr>], Vals = (\<lambda>a. (5, False)), Info = 4\<rparr>"

lemma eq_singleton_iff: "[a] = xs @ b # ys \<longleftrightarrow> xs = [] \<and> b = a \<and> ys = []"
  by (cases xs) auto

lemma zero_tables_lawful: "tables_lawful zero_keepers"
  by (auto simp: tables_lawful_def replaces_def zero_keepers_def eq_singleton_iff)

lemma zero_validators_lawful: "validators_lawful zero_keepers"
  by (auto simp: validators_lawful_def distribution_keeps_def validators_view_def zero_keepers_def fun_eq_iff
      split: if_splits)

lemma zero_never_fails: "CloseIterator zero_keepers s = None"
  by (simp add: zero_keepers_def)

text \<open>The second spelling of the allowed validator's address does not help it.\<close>

lemma zero_prepared:
  "prepForZeroHeightGenesis zero_keepers 10 [''VAL1'', ''val2''] zero_chain
    = Returns \<lparr>Red = [\<lparr>CreationHeight = 0, EntryRest = []\<rparr>], Ubd = [\<lparr>CreationHeight = 0, EntryRest = []\<rparr>],
        Vals = (\<lambda>a. (5, False))([2] := (0, False), [1] := (0, True)), Info = 0\<rparr>"
  by (simp add: prepForZeroHeightGenesis_def zero_keepers_def zero_chain_def reset_distribution_def
      withdraw_commission_def withdraw_rewards_def reinit_validator_def reinit_delegation_def
      reset_redelegations_def reset_unbondings_def reset_entries_def reset_validator_def
      jailed_validator_def reset_signing_infos_def Let_def)

section \<open>Height zero\<close>

definition heights_zero :: "'x hold list \<Rightarrow> bool" where
  "heights_zero l \<longleftrightarrow> (\<forall>r \<in> set l. \<forall>e \<in> set (Entries r). CreationHeight e = 0)"

lemma heights_zero_reset: "heights_zero (map reset_entries l)"
  by (simp add: heights_zero_def reset_entries_def)

text \<open>
  An export for height zero that comes to its end has creation height 0 in every entry of
  every redelegation and unbonding delegation and start height 0 in every signing info.
\<close>

theorem zero_height_resets:
  assumes "tables_lawful env" "\<And>s. CloseIterator env s = None"
    and "prepForZeroHeightGenesis env height allowed s = Returns t"
  shows "\<exists>reds ubds infos. IterateRedelegations env t = Inr reds \<and> heights_zero reds
    \<and> IterateUnbondingDelegations env t = Inr ubds \<and> heights_zero ubds
    \<and> IterateValidatorSigningInfos env t = Inr infos \<and> (\<forall>(a, i) \<in> set infos. StartHeight i = 0)"
proof -
  from assms(3) obtain s1 s2 s3 s4 s5 where st:
    "reset_redelegations env s1 = Returns s2" "reset_unbondings env s2 = Returns s3"
    "run_all (reset_validator env (allowed \<noteq> []) allowed) (ValidatorsKeys env s3) s3 = Returns s4"
    "ApplyAndReturnValidatorSetUpdates env height s4 = Inr s5" "reset_signing_infos env s5 = Returns t"
    using assms(2) by (rule prep_stages)
  have "IterateRedelegations env v = IterateRedelegations env u
      \<and> IterateUnbondingDelegations env v = IterateUnbondingDelegations env u"
    if "reset_validator env b l k u = Returns v" for b l k u v
    using that assms(1) by (auto simp: reset_validator_def tables_lawful_def Let_def exit_simps)
  then have "(IterateRedelegations env s4, IterateUnbondingDelegations env s4)
      = (IterateRedelegations env s3, IterateUnbondingDelegations env s3)"
    by (intro run_all_keeps [where view = "\<lambda>s. (IterateRedelegations env s, IterateUnbondingDelegations env s)", OF st(3)]) simp
  moreover have "IterateRedelegations env s5 = IterateRedelegations env s4
      \<and> IterateUnbondingDelegations env s5 = IterateUnbondingDelegations env s4"
    using assms(1) st(4) unfolding tables_lawful_def by blast
  ultimately show ?thesis
    using reset_redelegations_zero [OF assms(1) st(1)] reset_unbondings_zero [OF assms(1) st(2)]
      reset_signing_infos_zero [OF assms(1) st(5)]
    by (auto simp: heights_zero_reset)
qed

theorem zero_height_resets_witness:
  "\<exists>t reds. prepForZeroHeightGenesis zero_keepers 10 [''VAL1'', ''val2''] zero_chain = Returns t
    \<and> IterateRedelegations zero_keepers t = Inr reds \<and> heights_zero reds \<and> reds \<noteq> []"
proof -
  from zero_height_resets [OF zero_tables_lawful zero_never_fails zero_prepared]
  obtain reds where "IterateRedelegations zero_keepers
      \<lparr>Red = [\<lparr>CreationHeight = 0, EntryRest = []\<rparr>], Ubd = [\<lparr>CreationHeight = 0, EntryRest = []\<rparr>],
        Vals = (\<lambda>a. (5, False))([2] := (0, False), [1] := (0, True)), Info = 0\<rparr> = Inr reds" "heights_zero reds"
    by blast
  moreover from this(1) have "reds \<noteq> []" by (auto simp: zero_keepers_def)
  ultimately show ?thesis using zero_prepared by blast
qed

text \<open>
  C26: With a list of allowed validators, the preparation leaves every other one jailed, and
  without a list it jails nobody; a validator that was jailed before stays so. A validator is
  looked up in the list under the string the SDK prints for it, so another accepted spelling of
  its address in the list does not spare it.
\<close>

theorem zero_height_jails:
  assumes "validators_lawful env" "\<And>s. CloseIterator env s = None"
    and "prepForZeroHeightGenesis env height allowed s = Returns t"
    and "a \<in> AddressFromValidatorsKey env ` set (ValidatorsKeys env s)" "GetValidator env a s = Inr v"
  shows "\<exists>w. GetValidator env a t = Inr w
    \<and> (Jailed w \<longleftrightarrow> Jailed v \<or> allowed \<noteq> [] \<and> ValAddressString env a \<notin> set allowed)"
proof -
  from assms(3) obtain s0 s1 s2 s3 s4 s5 where st:
    "AssertInvariants env s = Returns s0" "reset_distribution env height s0 = Returns s1"
    "reset_redelegations env s1 = Returns s2" "reset_unbondings env s2 = Returns s3"
    "run_all (reset_validator env (allowed \<noteq> []) allowed) (ValidatorsKeys env s3) s3 = Returns s4"
    "ApplyAndReturnValidatorSetUpdates env height s4 = Inr s5" "reset_signing_infos env s5 = Returns t"
    using assms(2) by (rule prep_stages)
  have "validators_view env s0 = validators_view env s"
    using assms(1) st(1) by (simp add: validators_lawful_def distribution_keeps_def)
  moreover have "validators_view env s1 = validators_view env s0"
    using assms(1) by (intro reset_distribution_keeps [OF _ st(2)]) (simp add: validators_lawful_def)
  moreover have "validators_view env s2 = validators_view env s1"
  proof -
    obtain reds where "run_all (\<lambda>red s. or_panic (SetRedelegation env (reset_entries red) s)) reds s1 = Returns s2"
      using st(3) by (auto simp: reset_redelegations_def exit_simps)
    then show ?thesis by (rule run_all_keeps) (use assms(1) in \<open>auto simp: validators_lawful_def exit_simps\<close>)
  qed
  moreover have "validators_view env s3 = validators_view env s2"
  proof -
    obtain ubds where "run_all (\<lambda>ubd s. or_panic (SetUnbondingDelegation env (reset_entries ubd) s)) ubds s2 = Returns s3"
      using st(4) by (auto simp: reset_unbondings_def exit_simps)
    then show ?thesis by (rule run_all_keeps) (use assms(1) in \<open>auto simp: validators_lawful_def exit_simps\<close>)
  qed
  ultimately have "validators_view env s3 = validators_view env s" by simp
  then have "ValidatorsKeys env s3 = ValidatorsKeys env s" "GetValidator env a s3 = Inr v"
    using assms(5) by (auto simp: validators_view_def fun_eq_iff)
  then have "GetValidator env a s4 = Inr (jailed_validator (allowed \<noteq> []) allowed (ValAddressString env a) v)"
    using reset_validators_spec [OF assms(1) st(5)] assms(4) by simp
  from after_loop_jailed [OF assms(1) st(6,7) this] show ?thesis
    by (auto simp: jailed_validator_def Let_def split: if_splits)
qed

theorem zero_height_jails_witness:
  "\<exists>t v w. prepForZeroHeightGenesis zero_keepers 10 [''VAL1'', ''val2''] zero_chain = Returns t
    \<and> GetValidator zero_keepers [1] t = Inr v \<and> Jailed v
    \<and> GetValidator zero_keepers [2] t = Inr w \<and> \<not> Jailed w"
proof -
  have 1: "[1] \<in> AddressFromValidatorsKey zero_keepers ` set (ValidatorsKeys zero_keepers zero_chain)"
    "[2] \<in> AddressFromValidatorsKey zero_keepers ` set (ValidatorsKeys zero_keepers zero_chain)"
    "GetValidator zero_keepers [1] zero_chain = Inr \<lparr>UnbondingHeight = 5, Jailed = False, ValidatorRest = [1]\<rparr>"
    "GetValidator zero_keepers [2] zero_chain = Inr \<lparr>UnbondingHeight = 5, Jailed = False, ValidatorRest = [2]\<rparr>"
    "ValAddressString zero_keepers [1] = ''val1''" "ValAddressString zero_keepers [2] = ''val2''"
    by (simp_all add: zero_keepers_def zero_chain_def)
  note j = zero_height_jails [OF zero_validators_lawful zero_never_fails zero_prepared]
  from j [OF 1(1,3)] j [OF 1(2,4)] show ?thesis
    unfolding 1(5,6) by (simp add: zero_prepared)
qed

text \<open>
  When the validators cannot be listed a second time, nobody is told: the fee distribution is
  set up again for the delegations but for no validator.
\<close>

lemma reinitialisation_error_ignored:
  assumes "IterateValidators env s = Inr []" "GetAllDelegations env s = Inr []"
    and "IterateValidators env (DeleteAllValidatorHistoricalRewards env (DeleteAllValidatorSlashEvents env s)) = Inl err"
  shows "reset_distribution env height s
    = Returns (DeleteAllValidatorHistoricalRewards env (DeleteAllValidatorSlashEvents env s))"
  using assms by (simp add: reset_distribution_def Let_def)

end
