(* ===== verification/InPlace.thy ===== *)
theory InPlace
  imports Exit Text
begin

text \<open>
  \<open>cmd/Nexelrad/cmd/testnet.go\<close>: turning the state of a running chain into one of a test network
  with a single validator. The keepers and the staking store are the parameter \<open>inplace_env\<close>,
  over a state of all stores.
\<close>

section \<open>Arguments\<close>

text \<open>
  The names of the options, most of them constants of the SDK, and the dynamic types
  \<open>appOpts.Get\<close> returns; \<open>toString\<close> is \<open>cast.ToString\<close>.
\<close>

datatype opt_key =
    KeyNewValAddr
  | KeyUserPubKey
  | KeyNewOpAddr
  | KeyTriggerTestnetUpgrade
  | FlagAccountsToFund
  | FlagHome

datatype opt_value =
    HexBytes bytes
  | PubKey bytes
  | StringValue string
  | OtherValue

record valArgs =
  newValAddr :: bytes
  newOperatorAddress :: string
  newValPubKey :: bytes
  accountsToFund :: "bytes list"
  upgradeToTrigger :: string
  homeDir :: string

definition no_args :: valArgs where
  "no_args = \<lparr>newValAddr = [], newOperatorAddress = '''', newValPubKey = [], accountsToFund = [],
     upgradeToTrigger = '''', homeDir = ''''\<rparr>"

text \<open>The type assertions, which panic with the name of the option.\<close>

fun get_HexBytes :: "opt_value \<Rightarrow> bytes exit" where
  "get_HexBytes (HexBytes b) = Returns b"
| "get_HexBytes _ = Panics"

fun get_PubKey :: "opt_value \<Rightarrow> bytes exit" where
  "get_PubKey (PubKey b) = Returns b"
| "get_PubKey _ = Panics"

fun get_string :: "opt_value \<Rightarrow> string exit" where
  "get_string (StringValue s) = Returns s"
| "get_string _ = Panics"

fun accounts_loop :: "(string \<Rightarrow> error + bytes) \<Rightarrow> string list \<Rightarrow> bytes list \<Rightarrow> bytes list \<times> error option" where
  "accounts_loop acc [] l = (l, None)"
| "accounts_loop acc (account # rest) l =
     (if account = '''' then accounts_loop acc rest l
      else case acc account of
          Inl err \<Rightarrow> (l, Some (ErrWrapped ''invalid bech32 address format'' err))
        | Inr addr \<Rightarrow> accounts_loop acc rest (l @ [addr]))"

definition getCommandArgs ::
    "(string \<Rightarrow> error + bytes) \<Rightarrow> (opt_value \<Rightarrow> string) \<Rightarrow> (opt_key \<Rightarrow> opt_value) \<Rightarrow> (valArgs \<times> error option) exit" where
  "getCommandArgs acc toString opts =
     bind_exit (get_HexBytes (opts KeyNewValAddr)) (\<lambda>addr.
     bind_exit (get_PubKey (opts KeyUserPubKey)) (\<lambda>pubKey.
     bind_exit (get_string (opts KeyNewOpAddr)) (\<lambda>operator.
     bind_exit (get_string (opts KeyTriggerTestnetUpgrade)) (\<lambda>upgrade.
     let args = no_args\<lparr>newValAddr := addr, newValPubKey := pubKey, newOperatorAddress := operator,
                  upgradeToTrigger := upgrade\<rparr>;
         (accounts, err) = accounts_loop acc (split_on (CHR '','') (toString (opts FlagAccountsToFund))) [];
         args = args\<lparr>accountsToFund := accounts\<rparr>
     in case err of
          Some err \<Rightarrow> Returns (args, Some err)
        | None \<Rightarrow>
            (let dir = toString (opts FlagHome) in
             if dir = '''' then Returns (args, Some (Errorf ''invalid home dir'' ''''))
             else Returns (args\<lparr>homeDir := dir\<rparr>, None))))))"

section \<open>The keepers\<close>

text \<open>
  The structures of the SDK with the fields the code sets; decimals are the literals they are
  parsed from, \<open>'k\<close> is a packed public key.
\<close>

datatype bond_status = Unbonded | Unbonding | Bonded

record 'k testnet_validator =
  OperatorAddress :: string
  ConsensusPubkey :: 'k
  ValJailed :: bool
  Status :: bond_status
  Tokens :: int
  DelegatorShares :: string
  Moniker :: string
  CommissionRate :: string
  MaxRate :: string
  MaxChangeRate :: string
  MinSelfDelegation :: int

record testnet_signing_info =
  InfoAddress :: string
  InfoStartHeight :: int
  Tombstoned :: bool

type_synonym coins = "(string \<times> int) list"

text \<open>
  \<open>StoreIterator\<close> lists the keys with a prefix; the calls whose error the code drops return the
  new state only.
\<close>

record ('s, 'k) inplace_env =
  NewAnyWithValue :: "bytes \<Rightarrow> error + 'k"
  ValidatorStringToBytes :: "string \<Rightarrow> error + bytes"
  StoreDelete :: "bytes \<Rightarrow> 's \<Rightarrow> 's"
  StoreIterator :: "bytes \<Rightarrow> 's \<Rightarrow> bytes list"
  ValidatorsKey :: bytes
  ValidatorQueueKey :: bytes
  ValidatorsPowerStoreIterator :: "'s \<Rightarrow> error + bytes list"
  LastValidatorsIterator :: "'s \<Rightarrow> error + bytes list"
  SetTestnetValidator :: "'k testnet_validator \<Rightarrow> 's \<Rightarrow> 's"
  SetValidatorByConsAddr :: "'k testnet_validator \<Rightarrow> 's \<Rightarrow> error + 's"
  SetValidatorByPowerIndex :: "'k testnet_validator \<Rightarrow> 's \<Rightarrow> 's"
  SetLastValidatorPower :: "bytes \<Rightarrow> int \<Rightarrow> 's \<Rightarrow> 's"
  HookAfterValidatorCreated :: "bytes \<Rightarrow> 's \<Rightarrow> error + 's"
  SetValidatorHistoricalRewards :: "bytes \<Rightarrow> int \<Rightarrow> coins \<Rightarrow> int \<Rightarrow> 's \<Rightarrow> 's"
  SetValidatorCurrentRewards :: "bytes \<Rightarrow> coins \<Rightarrow> int \<Rightarrow> 's \<Rightarrow> 's"
  SetInitialAccumulatedCommission :: "bytes \<Rightarrow> 's \<Rightarrow> 's"
  SetValidatorOutstandingRewards :: "bytes \<Rightarrow> coins \<Rightarrow> 's \<Rightarrow> 's"
  ConsAddressString :: "bytes \<Rightarrow> string"
  SetTestnetSigningInfo :: "bytes \<Rightarrow> testnet_signing_info \<Rightarrow> 's \<Rightarrow> 's"
  GetBondDenom :: "'s \<Rightarrow> error + string"
  NewInt64Coin :: "string \<Rightarrow> int \<Rightarrow> (string \<times> int) exit"
  MintModuleName :: string
  MintCoins :: "string \<Rightarrow> coins \<Rightarrow> 's \<Rightarrow> error + 's"
  SendCoinsFromModuleToAccount :: "string \<Rightarrow> bytes \<Rightarrow> coins \<Rightarrow> 's \<Rightarrow> error + 's"

section \<open>The new state\<close>

definition valVotingPower :: int where
  "valVotingPower = 900000000000000"

definition newVal :: "valArgs \<Rightarrow> 'k \<Rightarrow> 'k testnet_validator" where
  "newVal args pubkeyAny = \<lparr>OperatorAddress = newOperatorAddress args, ConsensusPubkey = pubkeyAny,
     ValJailed = False, Status = Bonded, Tokens = valVotingPower, DelegatorShares = ''10000000'',
     Moniker = ''Testnet Validator'', CommissionRate = ''0.05'', MaxRate = ''0.1'', MaxChangeRate = ''0.05'',
     MinSelfDelegation = 1\<rparr>"

definition delete_keys :: "('s, 'k) inplace_env \<Rightarrow> bytes list \<Rightarrow> 's \<Rightarrow> 's" where
  "delete_keys env keys s = fold (StoreDelete env) keys s"

definition remove_validators :: "('s, 'k) inplace_env \<Rightarrow> 's \<Rightarrow> 's exit" where
  "remove_validators env s =
     bind_exit (or_exit (ValidatorsPowerStoreIterator env s)) (\<lambda>keys.
     let s = delete_keys env keys s in
     bind_exit (or_exit (LastValidatorsIterator env s)) (\<lambda>keys.
     let s = delete_keys env keys s;
         s = delete_keys env (StoreIterator env (ValidatorsKey env) s) s;
         s = delete_keys env (StoreIterator env (ValidatorQueueKey env) s) s
     in Returns s))"

definition add_validator :: "('s, 'k) inplace_env \<Rightarrow> 'k testnet_validator \<Rightarrow> bytes \<Rightarrow> 's \<Rightarrow> 's exit" where
  "add_validator env v validator s =
     (let s = SetTestnetValidator env v s in
      bind_exit (or_exit (SetValidatorByConsAddr env v s)) (\<lambda>s.
      let s = SetValidatorByPowerIndex env v s;
          s = SetLastValidatorPower env validator 0 s
      in or_exit (HookAfterValidatorCreated env validator s)))"

definition init_distribution :: "('s, 'k) inplace_env \<Rightarrow> bytes \<Rightarrow> 's \<Rightarrow> 's" where
  "init_distribution env validator s =
     (let s = SetValidatorHistoricalRewards env validator 0 [] 1 s;
          s = SetValidatorCurrentRewards env validator [] 1 s;
          s = SetInitialAccumulatedCommission env validator s
      in SetValidatorOutstandingRewards env validator [] s)"

definition init_slashing :: "('s, 'k) inplace_env \<Rightarrow> valArgs \<Rightarrow> int \<Rightarrow> 's \<Rightarrow> 's" where
  "init_slashing env args lastBlockHeight s =
     SetTestnetSigningInfo env (newValAddr args)
       \<lparr>InfoAddress = ConsAddressString env (newValAddr args), InfoStartHeight = int64 (lastBlockHeight - 1),
        Tombstoned = False\<rparr> s"

definition fund_account :: "('s, 'k) inplace_env \<Rightarrow> coins \<Rightarrow> bytes \<Rightarrow> 's \<Rightarrow> 's exit" where
  "fund_account env defaultCoins account s =
     bind_exit (or_exit (MintCoins env (MintModuleName env) defaultCoins s)) (\<lambda>s.
       or_exit (SendCoinsFromModuleToAccount env (MintModuleName env) account defaultCoins s))"

definition fund_accounts :: "('s, 'k) inplace_env \<Rightarrow> bytes list \<Rightarrow> 's \<Rightarrow> 's exit" where
  "fund_accounts env accounts s =
     bind_exit (or_exit (GetBondDenom env s)) (\<lambda>bondDenom.
     bind_exit (NewInt64Coin env bondDenom 1000000000) (\<lambda>coin.
       run_all (fund_account env [coin]) accounts s))"

definition initAppForTestnet :: "('s, 'k) inplace_env \<Rightarrow> int \<Rightarrow> valArgs \<Rightarrow> 's \<Rightarrow> 's exit" where
  "initAppForTestnet env lastBlockHeight args s =
     bind_exit (or_exit (NewAnyWithValue env (newValPubKey args))) (\<lambda>pubkeyAny.
     let v = newVal args pubkeyAny in
     bind_exit (or_exit (ValidatorStringToBytes env (OperatorAddress v))) (\<lambda>validator.
     bind_exit (remove_validators env s) (\<lambda>s.
     bind_exit (add_validator env v validator s) (\<lambda>s.
     let s = init_distribution env validator s;
         s = init_slashing env args lastBlockHeight s
     in fund_accounts env (accountsToFund args) s))))"

text \<open>\<open>newApp\<close> is the application, or \<open>None\<close> if it is not of type \<open>*app.App\<close>.\<close>

definition newTestnetApp ::
    "('s, 'k) inplace_env \<Rightarrow> (string \<Rightarrow> error + bytes) \<Rightarrow> (opt_value \<Rightarrow> string) \<Rightarrow> (opt_key \<Rightarrow> opt_value)
      \<Rightarrow> int \<Rightarrow> 's option \<Rightarrow> 's exit" where
  "newTestnetApp env acc toString opts lastBlockHeight newApp =
     (case newApp of
        None \<Rightarrow> Panics
      | Some testApp \<Rightarrow> bind_exit (getCommandArgs acc toString opts) (\<lambda>(args, err). case err of
            Some err \<Rightarrow> Panics
          | None \<Rightarrow> initAppForTestnet env lastBlockHeight args testApp))"

end
