(* ===== verification/InPlace_Properties.thy ===== *)
theory InPlace_Properties
  imports InPlace
begin

text \<open>
  What the in-place test network leaves of the old chain, and what it pays out, from the
  documented behaviour of the staking store and the keepers.
\<close>

section \<open>What the code relies on\<close>

text \<open>
  \<open>get\<close> reads the staking store. \<open>powerKey\<close>, \<open>lastKey\<close> and \<open>valKey\<close> are the keys the staking keeper
  uses for the new validator in its three indices, whose prefixes are \<open>powerPrefix\<close>,
  \<open>lastPrefix\<close> and \<open>ValidatorsKey\<close>.
\<close>

record 's staking_keys =
  StakingGet :: "'s \<Rightarrow> bytes \<Rightarrow> bytes option"
  powerPrefix :: bytes
  lastPrefix :: bytes
  powerKey :: bytes
  lastKey :: bytes
  valKey :: bytes
  consKey :: bytes

definition keys_under :: "'s staking_keys \<Rightarrow> bytes \<Rightarrow> 's \<Rightarrow> bytes set" where
  "keys_under st p s = {k. prefix p k \<and> StakingGet st s k \<noteq> None}"

definition writes_key :: "'s staking_keys \<Rightarrow> bytes \<Rightarrow> 's \<Rightarrow> 's \<Rightarrow> bool" where
  "writes_key st k s t \<longleftrightarrow> (\<forall>k'. StakingGet st t k' \<noteq> None \<longleftrightarrow> k' = k \<or> StakingGet st s k' \<noteq> None)"

definition keeps_staking :: "'s staking_keys \<Rightarrow> 's \<Rightarrow> 's \<Rightarrow> bool" where
  "keeps_staking st s t \<longleftrightarrow> StakingGet st t = StakingGet st s"

definition staking_lawful :: "('s, 'k) inplace_env \<Rightarrow> 's staking_keys \<Rightarrow> 'k testnet_validator \<Rightarrow> bytes \<Rightarrow> bool" where
  "staking_lawful env st v a \<longleftrightarrow>
     (\<forall>k s k'. StakingGet st (StoreDelete env k s) k' = (if k' = k then None else StakingGet st s k'))
   \<and> (\<forall>p s. set (StoreIterator env p s) = keys_under st p s)
   \<and> (\<forall>s ks. ValidatorsPowerStoreIterator env s = Inr ks \<longrightarrow> set ks = keys_under st (powerPrefix st) s)
   \<and> (\<forall>s ks. LastValidatorsIterator env s = Inr ks \<longrightarrow> set ks = keys_under st (lastPrefix st) s)
   \<and> (\<forall>s. writes_key st (valKey st) s (SetTestnetValidator env v s))
   \<and> (\<forall>s t. SetValidatorByConsAddr env v s = Inr t \<longrightarrow> writes_key st (consKey st) s t)
   \<and> (\<forall>s. writes_key st (powerKey st) s (SetValidatorByPowerIndex env v s))
   \<and> (\<forall>p s. writes_key st (lastKey st) s (SetLastValidatorPower env a p s))
   \<and> (\<forall>a s t. HookAfterValidatorCreated env a s = Inr t \<longrightarrow> keeps_staking st s t)
   \<and> (\<forall>a p c r s. keeps_staking st s (SetValidatorHistoricalRewards env a p c r s))
   \<and> (\<forall>a c p s. keeps_staking st s (SetValidatorCurrentRewards env a c p s))
   \<and> (\<forall>a s. keeps_staking st s (SetInitialAccumulatedCommission env a s))
   \<and> (\<forall>a c s. keeps_staking st s (SetValidatorOutstandingRewards env a c s))
   \<and> (\<forall>a i s. keeps_staking st s (SetTestnetSigningInfo env a i s))
   \<and> (\<forall>m c s t. MintCoins env m c s = Inr t \<longrightarrow> keeps_staking st s t)
   \<and> (\<forall>m a c s t. SendCoinsFromModuleToAccount env m a c s = Inr t \<longrightarrow> keeps_staking st s t)"

lemma staking_lawfulD:
  assumes "staking_lawful env st v a"
  shows "StakingGet st (StoreDelete env k s) k' = (if k' = k then None else StakingGet st s k')"
    and "set (StoreIterator env p s) = keys_under st p s"
    and "ValidatorsPowerStoreIterator env s = Inr ks \<Longrightarrow> set ks = keys_under st (powerPrefix st) s"
    and "LastValidatorsIterator env s = Inr ks \<Longrightarrow> set ks = keys_under st (lastPrefix st) s"
    and "writes_key st (valKey st) s (SetTestnetValidator env v s)"
    and "SetValidatorByConsAddr env v s = Inr t \<Longrightarrow> writes_key st (consKey st) s t"
    and "writes_key st (powerKey st) s (SetValidatorByPowerIndex env v s)"
    and "writes_key st (lastKey st) s (SetLastValidatorPower env a n s)"
    and "HookAfterValidatorCreated env b s = Inr t \<Longrightarrow> keeps_staking st s t"
    and "MintCoins env m c s = Inr t \<Longrightarrow> keeps_staking st s t"
    and "SendCoinsFromModuleToAccount env m b c s = Inr t \<Longrightarrow> keeps_staking st s t"
  using assms by (simp_all add: staking_lawful_def)

text \<open>The indices have prefixes of their own, and each key lies under its prefix only.\<close>

definition indices_apart :: "('s, 'k) inplace_env \<Rightarrow> 's staking_keys \<Rightarrow> bool" where
  "indices_apart env st \<longleftrightarrow>
     (let ps = [powerPrefix st, lastPrefix st, ValidatorsKey env, ValidatorQueueKey env] in
      filter (\<lambda>p. prefix p (powerKey st)) ps = [powerPrefix st]
    \<and> filter (\<lambda>p. prefix p (lastKey st)) ps = [lastPrefix st]
    \<and> filter (\<lambda>p. prefix p (valKey st)) ps = [ValidatorsKey env]
    \<and> filter (\<lambda>p. prefix p (consKey st)) ps = [] \<and> distinct ps)"

section \<open>The staking store\<close>

lemma delete_keys_get:
  assumes "staking_lawful env st v a"
  shows "StakingGet st (delete_keys env keys s) k = (if k \<in> set keys then None else StakingGet st s k)"
proof -
  show ?thesis unfolding delete_keys_def
    by (induction keys arbitrary: s) (auto simp: staking_lawfulD(1) [OF assms])
qed

lemma keys_under_delete:
  assumes "staking_lawful env st v a" "set keys = keys_under st p s"
  shows "keys_under st q (delete_keys env keys s) = keys_under st q s - keys_under st p s"
  using assms by (auto simp: keys_under_def delete_keys_get [OF assms(1)] split: if_splits)

lemma remove_validators_empty:
  assumes "staking_lawful env st v a" "remove_validators env s = Returns t"
    and "q \<in> {powerPrefix st, lastPrefix st, ValidatorsKey env, ValidatorQueueKey env}"
  shows "keys_under st q t = {}"
proof -
  from assms(2) obtain ks ls where k: "ValidatorsPowerStoreIterator env s = Inr ks"
    "LastValidatorsIterator env (delete_keys env ks s) = Inr ls"
    and t: "t = (let s = delete_keys env ls (delete_keys env ks s);
        s = delete_keys env (StoreIterator env (ValidatorsKey env) s) s
      in delete_keys env (StoreIterator env (ValidatorQueueKey env) s) s)"
    by (auto simp: remove_validators_def Let_def exit_simps)
  have "set ks = keys_under st (powerPrefix st) s"
    "set ls = keys_under st (lastPrefix st) (delete_keys env ks s)"
    using staking_lawfulD(3,4) [OF assms(1)] k by blast+
  note d = keys_under_delete [OF assms(1)] this(1) this(2)
  show ?thesis using assms(3)
    by (auto simp: t Let_def d(1) [OF staking_lawfulD(2) [OF assms(1)]] d(1) [OF d(2)] d(1) [OF d(3)])
qed

lemma keys_under_write:
  "writes_key st k s t \<Longrightarrow> keys_under st p t = keys_under st p s \<union> (if prefix p k then {k} else {})"
  by (auto simp: keys_under_def writes_key_def)

lemma keys_under_keep: "keeps_staking st s t \<Longrightarrow> keys_under st p t = keys_under st p s"
  by (simp add: keys_under_def keeps_staking_def)

lemma add_validator_keys:
  assumes "staking_lawful env st v a" "add_validator env v a s = Returns t"
  shows "keys_under st p t = keys_under st p s
    \<union> {k \<in> {valKey st, consKey st, powerKey st, lastKey st}. prefix p k}"
proof -
  from assms(2) obtain u where u: "SetValidatorByConsAddr env v (SetTestnetValidator env v s) = Inr u"
    "HookAfterValidatorCreated env a (SetLastValidatorPower env a 0 (SetValidatorByPowerIndex env v u)) = Inr t"
    by (auto simp: add_validator_def Let_def exit_simps)
  have "writes_key st (valKey st) s (SetTestnetValidator env v s)"
    "writes_key st (consKey st) (SetTestnetValidator env v s) u"
    "writes_key st (powerKey st) u (SetValidatorByPowerIndex env v u)"
    "writes_key st (lastKey st) (SetValidatorByPowerIndex env v u)
       (SetLastValidatorPower env a 0 (SetValidatorByPowerIndex env v u))"
    "keeps_staking st (SetLastValidatorPower env a 0 (SetValidatorByPowerIndex env v u)) t"
    using staking_lawfulD(5-9) [OF assms(1)] u by blast+
  note w = this(1-4) [THEN keys_under_write, of p] this(5) [THEN keys_under_keep, of p]
  show ?thesis unfolding w by auto
qed

lemma fund_accounts_keeps:
  assumes "staking_lawful env st v a" "fund_accounts env accounts s = Returns t"
  shows "keeps_staking st s t"
proof -
  from assms(2) obtain c where "run_all (fund_account env [c]) accounts s = Returns t"
    by (auto simp: fund_accounts_def exit_simps)
  then have "StakingGet st t = StakingGet st s"
  proof (rule run_all_keeps)
    fix a u v assume "fund_account env [c] a u = Returns v"
    then obtain w where "MintCoins env (MintModuleName env) [c] u = Inr w"
      "SendCoinsFromModuleToAccount env (MintModuleName env) a [c] w = Inr v"
      by (auto simp: fund_account_def exit_simps)
    then have "keeps_staking st u w" "keeps_staking st w v"
      using staking_lawfulD(10,11) [OF assms(1)] by blast+
    then show "StakingGet st v = StakingGet st u" by (simp add: keeps_staking_def)
  qed
  then show ?thesis by (simp add: keeps_staking_def)
qed

text \<open>
  C27: After the change the new validator is the only one: the validator records, the power index
  and the last validators each hold its key and no other, and the unbonding queue is empty.
\<close>

theorem only_validator:
  assumes "\<And>k a. NewAnyWithValue env (newValPubKey args) = Inr k
      \<Longrightarrow> ValidatorStringToBytes env (newOperatorAddress args) = Inr a \<Longrightarrow> staking_lawful env st (newVal args k) a"
    and "indices_apart env st" and "initAppForTestnet env height args s = Returns t"
  shows "keys_under st (ValidatorsKey env) t = {valKey st}
    \<and> keys_under st (powerPrefix st) t = {powerKey st}
    \<and> keys_under st (lastPrefix st) t = {lastKey st}
    \<and> keys_under st (ValidatorQueueKey env) t = {}"
proof -
  from assms(3) obtain k a s1 s2 where o: "NewAnyWithValue env (newValPubKey args) = Inr k"
      "ValidatorStringToBytes env (OperatorAddress (newVal args k)) = Inr a"
    and r: "remove_validators env s = Returns s1" "add_validator env (newVal args k) a s1 = Returns s2"
      "fund_accounts env (accountsToFund args) (init_slashing env args height (init_distribution env a s2)) = Returns t"
    by (auto simp: initAppForTestnet_def Let_def exit_simps)
  from o have l: "staking_lawful env st (newVal args k) a" by (intro assms(1)) (simp_all add: newVal_def)
  have i: "StakingGet st (init_slashing env args height (init_distribution env a s2)) = StakingGet st s2"
    using l by (simp add: init_slashing_def init_distribution_def Let_def staking_lawful_def keeps_staking_def)
  have "keys_under st p t = keys_under st p s2" for p
    using fund_accounts_keeps [OF l r(3)] i by (simp add: keys_under_def keeps_staking_def)
  then have k: "keys_under st p t = keys_under st p s1
      \<union> {k \<in> {valKey st, consKey st, powerKey st, lastKey st}. prefix p k}" for p
    by (simp add: add_validator_keys [OF l r(2)])
  show ?thesis using assms(2) remove_validators_empty [OF l r(1)]
    unfolding indices_apart_def Let_def k
    by (auto split: if_splits)
qed

section \<open>An instance\<close>

text \<open>The staking store as the list of its keys, and the balances.\<close>

record inplace_example =
  Keys :: "bytes list"
  Bals :: "bytes \<Rightarrow> string \<Rightarrow> int"

definition put_key :: "bytes \<Rightarrow> inplace_example \<Rightarrow> inplace_example" where
  "put_key k s = s\<lparr>Keys := k # Keys s\<rparr>"

definition inplace_keepers :: "(inplace_example, bytes) inplace_env" where
  "inplace_keepers = \<lparr>
     NewAnyWithValue = Inr, ValidatorStringToBytes = (\<lambda>s. Inr (bytes_of s)),
     StoreDelete = (\<lambda>k s. s\<lparr>Keys := filter (\<lambda>k'. k' \<noteq> k) (Keys s)\<rparr>),
     StoreIterator = (\<lambda>p s. filter (prefix p) (Keys s)),
     ValidatorsKey = [0x21], ValidatorQueueKey = [0x43],
     ValidatorsPowerStoreIterator = (\<lambda>s. Inr (filter (prefix [0x23]) (Keys s))),
     LastValidatorsIterator = (\<lambda>s. Inr (filter (prefix [0x11]) (Keys s))),
     SetTestnetValidator = (\<lambda>v. put_key [0x21, 1]),
     SetValidatorByConsAddr = (\<lambda>v s. Inr (put_key [0x22, 1] s)),
     SetValidatorByPowerIndex = (\<lambda>v. put_key [0x23, 1]),
     SetLastValidatorPower = (\<lambda>a n. put_key [0x11, 1]),
     HookAfterValidatorCreated = (\<lambda>a s. Inr s),
     SetValidatorHistoricalRewards = (\<lambda>a p c r s. s), SetValidatorCurrentRewards = (\<lambda>a c p s. s),
     SetInitialAccumulatedCommission = (\<lambda>a s. s), SetValidatorOutstandingRewards = (\<lambda>a c s. s),
     ConsAddressString = string_of, SetTestnetSigningInfo = (\<lambda>a i s. s),
     GetBondDenom = (\<lambda>s. Inr ''stake''), NewInt64Coin = (\<lambda>d n. Returns (d, n)), MintModuleName = ''mint'',
     MintCoins = (\<lambda>m c s. Inr s),
     SendCoinsFromModuleToAccount = (\<lambda>m a c s. Inr (s\<lparr>Bals := (Bals s)(a := \<lambda>d. Bals s a d + sum_list (map snd (filter (\<lambda>c. fst c = d) c)))\<rparr>))\<rparr>"

definition inplace_keys :: "inplace_example staking_keys" where
  "inplace_keys = \<lparr>StakingGet = (\<lambda>s k. if k \<in> set (Keys s) then Some [] else None),
     powerPrefix = [0x23], lastPrefix = [0x11], powerKey = [0x23, 1], lastKey = [0x11, 1],
     valKey = [0x21, 1], consKey = [0x22, 1]\<rparr>"

lemma inplace_staking_lawful: "staking_lawful inplace_keepers inplace_keys v a"
  by (auto simp: staking_lawful_def writes_key_def keeps_staking_def keys_under_def put_key_def
      inplace_keepers_def inplace_keys_def fun_eq_iff)

lemma inplace_indices_apart: "indices_apart inplace_keepers inplace_keys"
  by (simp add: indices_apart_def inplace_keepers_def inplace_keys_def)

text \<open>A chain with two validators, one of them unbonding, and a test network that pays one account twice.\<close>

definition inplace_chain :: inplace_example where
  "inplace_chain = \<lparr>Keys = [[0x21, 8], [0x21, 9], [0x22, 8], [0x23, 8], [0x11, 8], [0x43, 9]], Bals = (\<lambda>a d. 0)\<rparr>"

definition inplace_args :: valArgs where
  "inplace_args = no_args\<lparr>newOperatorAddress := ''op'', accountsToFund := [[5], [6], [5]]\<rparr>"

lemma inplace_run:
  "\<exists>t. initAppForTestnet inplace_keepers 12 inplace_args inplace_chain = Returns t \<and> [0x21, 8] \<notin> set (Keys t)"
  by (simp add: initAppForTestnet_def newVal_def remove_validators_def delete_keys_def add_validator_def
      put_key_def init_distribution_def init_slashing_def fund_accounts_def fund_account_def
      inplace_keepers_def inplace_args_def inplace_chain_def no_args_def Let_def)

theorem only_validator_witness:
  "\<exists>t. initAppForTestnet inplace_keepers 12 inplace_args inplace_chain = Returns t
    \<and> keys_under inplace_keys [0x21] t = {[0x21, 1]} \<and> keys_under inplace_keys [0x43] t = {}
    \<and> keys_under inplace_keys [0x21] inplace_chain = {[0x21, 8], [0x21, 9]}"
proof -
  from inplace_run obtain t where t: "initAppForTestnet inplace_keepers 12 inplace_args inplace_chain = Returns t"
    by blast
  from only_validator [OF inplace_staking_lawful inplace_indices_apart t]
  have "keys_under inplace_keys [0x21] t = {[0x21, 1]} \<and> keys_under inplace_keys [0x43] t = {}"
    by (simp add: inplace_keepers_def inplace_keys_def)
  moreover have "keys_under inplace_keys [0x21] inplace_chain = {[0x21, 8], [0x21, 9]}"
    by (auto simp: keys_under_def inplace_keys_def inplace_chain_def)
  ultimately show ?thesis using t by blast
qed

section \<open>Funding\<close>

text \<open>
  The bank: a payment from the mint module adds to the account that is paid. Balances of the
  module's own account are left open.
\<close>

definition bank_lawful :: "('s, 'k) inplace_env \<Rightarrow> ('s \<Rightarrow> bytes \<Rightarrow> string \<Rightarrow> int) \<Rightarrow> bytes \<Rightarrow> bool" where
  "bank_lawful env balance moduleAddr \<longleftrightarrow>
     (\<forall>c s t b d. MintCoins env (MintModuleName env) c s = Inr t \<longrightarrow> b \<noteq> moduleAddr \<longrightarrow> balance t b d = balance s b d)
   \<and> (\<forall>a dn n s t b d. SendCoinsFromModuleToAccount env (MintModuleName env) a [(dn, n)] s = Inr t \<longrightarrow> b \<noteq> moduleAddr
        \<longrightarrow> balance t b d = balance s b d + (if b = a \<and> d = dn then n else 0))
   \<and> (\<forall>d n c. NewInt64Coin env d n = Returns c \<longrightarrow> c = (d, n))"

text \<open>
  Funding pays every account 1000000000 of the bond denomination for each time it is listed,
  and nobody else anything.
\<close>

theorem accounts_funded:
  assumes "bank_lawful env balance moduleAddr" "b \<noteq> moduleAddr"
    and "GetBondDenom env s = Inr bondDenom" "fund_accounts env accounts s = Returns t"
  shows "balance t b d
    = balance s b d + (if d = bondDenom then 1000000000 * int (count_list accounts b) else 0)"
proof -
  from assms(1,3,4) have r: "run_all (fund_account env [(bondDenom, 1000000000)]) accounts s = Returns t"
    unfolding fund_accounts_def bank_lawful_def exit_simps by (metis sum.inject(2))
  let ?P = "\<lambda>done u. balance u b d
      = balance s b d + (if d = bondDenom then 1000000000 * int (count_list done b) else 0)"
  show ?thesis
  proof (rule run_all_invariant [where P = ?P, OF r])
    fix "done" a rest u v
    assume P: "?P done u" and f: "fund_account env [(bondDenom, 1000000000)] a u = Returns v"
    then obtain w where "MintCoins env (MintModuleName env) [(bondDenom, 1000000000)] u = Inr w"
      "SendCoinsFromModuleToAccount env (MintModuleName env) a [(bondDenom, 1000000000)] w = Inr v"
      by (auto simp: fund_account_def exit_simps)
    then have "balance v b d = balance w b d + (if b = a \<and> d = bondDenom then 1000000000 else 0)"
      "balance w b d = balance u b d"
      using assms(1,2) by (simp_all add: bank_lawful_def)
    with P show "?P (done @ [a]) v" by simp
  qed simp
qed

lemma inplace_bank_lawful: "bank_lawful inplace_keepers Bals [9]"
  by (auto simp: bank_lawful_def inplace_keepers_def)

lemma inplace_funding: "\<exists>t. fund_accounts inplace_keepers [[5], [6], [5]] inplace_chain = Returns t"
  by (simp add: fund_accounts_def fund_account_def inplace_keepers_def)

theorem accounts_funded_witness:
  "\<exists>t. fund_accounts inplace_keepers [[5], [6], [5]] inplace_chain = Returns t
    \<and> Bals t [5] ''stake'' = 2000000000 \<and> Bals t [7] ''stake'' = 0"
proof -
  from inplace_funding obtain t where t: "fund_accounts inplace_keepers [[5], [6], [5]] inplace_chain = Returns t" ..
  have "GetBondDenom inplace_keepers inplace_chain = Inr ''stake''" by (simp add: inplace_keepers_def)
  note f = accounts_funded [OF inplace_bank_lawful _ this t, of _ "''stake''"]
  from f [of "[5]"] f [of "[7]"] have "Bals t [5] ''stake'' = 2000000000 \<and> Bals t [7] ''stake'' = 0"
    by (simp add: inplace_chain_def)
  with t show ?thesis by blast
qed

end
