(* ===== verification/Application.thy ===== *)
theory Application
  imports Exit
begin

text \<open>
  The application around the module: \<open>app/app.go\<close>, \<open>app/app_config.go\<close>, \<open>app/ibc.go\<close>,
  \<open>app/config.go\<close>, \<open>app/genesis_account.go\<close> and the flag defaults of \<open>cmd/Nexelrad/cmd/root.go\<close>.
  Modelled are the tables and the functions with logic of their own; what only hands values to
  the dependency injection of the SDK is left out.
\<close>

section \<open>Modules and accounts\<close>

text \<open>
  The names are constants of the SDK and of IBC; they are different from each other, which is
  all that is used of them.
\<close>

datatype sdk_name =
    auth | bank | distr | staking | slashing | gov | mint | crisis | genutil | evidence | authz
  | feegrant | params | upgrade | vesting | nft | group | consensus | circuit
  | capability | ibcexported | ibctransfer | ica | ibcfee | identity
  | FeeCollectorName | BondedPoolName | NotBondedPoolName

datatype permission = Minter | Burner | StakingPermission

definition genesisModuleOrder :: "sdk_name list" where
  "genesisModuleOrder =
     [capability, auth, bank, distr, staking, slashing, gov, mint, crisis, ibcexported, genutil, evidence,
      authz, ibctransfer, ica, ibcfee, feegrant, params, upgrade, vesting, nft, group, consensus, circuit,
      identity]"

definition beginBlockers :: "sdk_name list" where
  "beginBlockers =
     [mint, distr, slashing, evidence, staking, authz, genutil,
      capability, ibcexported, ibctransfer, ica, ibcfee, identity]"

definition endBlockers :: "sdk_name list" where
  "endBlockers =
     [crisis, gov, staking, feegrant, group, genutil,
      ibcexported, ibctransfer, capability, ica, ibcfee, identity]"

definition preBlockers :: "sdk_name list" where
  "preBlockers = [upgrade]"

record module_account =
  Account :: sdk_name
  Permissions :: "permission list"

definition moduleAccPerms :: "module_account list" where
  "moduleAccPerms =
     [\<lparr>Account = FeeCollectorName, Permissions = []\<rparr>,
      \<lparr>Account = distr, Permissions = []\<rparr>,
      \<lparr>Account = mint, Permissions = [Minter]\<rparr>,
      \<lparr>Account = BondedPoolName, Permissions = [Burner, StakingPermission]\<rparr>,
      \<lparr>Account = NotBondedPoolName, Permissions = [Burner, StakingPermission]\<rparr>,
      \<lparr>Account = gov, Permissions = [Burner]\<rparr>,
      \<lparr>Account = nft, Permissions = []\<rparr>,
      \<lparr>Account = ibctransfer, Permissions = [Minter, Burner]\<rparr>,
      \<lparr>Account = ibcfee, Permissions = []\<rparr>,
      \<lparr>Account = ica, Permissions = []\<rparr>]"

definition blockAccAddrs :: "sdk_name list" where
  "blockAccAddrs = [FeeCollectorName, distr, mint, BondedPoolName, NotBondedPoolName, nft]"

definition GetMaccPerms :: "module_account list \<Rightarrow> sdk_name \<Rightarrow> permission list option" where
  "GetMaccPerms perms_table =
     fold (\<lambda>perms dup. dup(Account perms \<mapsto> Permissions perms)) perms_table Map.empty"

text \<open>In the second branch the keys of a map are visited, in any order.\<close>

definition BlockedAddresses :: "module_account list \<Rightarrow> sdk_name list \<Rightarrow> sdk_name \<Rightarrow> bool option" where
  "BlockedAddresses perms_table blocked =
     (if length blocked > 0
      then fold (\<lambda>addr result. result(addr \<mapsto> True)) blocked Map.empty
      else (\<lambda>addr. if GetMaccPerms perms_table addr = None then None else Some True))"

lemma fold_True: "fold (\<lambda>a m. m(a \<mapsto> True)) l m = (\<lambda>a. if a \<in> set l then Some True else m a)"
  by (induction l arbitrary: m) auto

lemma GetMaccPerms_None: "GetMaccPerms l a = None \<longleftrightarrow> a \<notin> Account ` set l"
proof -
  have "fold (\<lambda>p m. m(Account p \<mapsto> Permissions p)) l m a = None \<longleftrightarrow> a \<notin> Account ` set l \<and> m a = None" for m
    by (induction l arbitrary: m) auto
  then show ?thesis by (simp add: GetMaccPerms_def)
qed

text \<open>
  The module accounts that can receive funds: besides governance, which the comment names, those
  of the three IBC modules.
\<close>

theorem module_accounts_that_receive:
  "{a. GetMaccPerms moduleAccPerms a \<noteq> None \<and> BlockedAddresses moduleAccPerms blockAccAddrs a = None}
    = {gov, ibctransfer, ibcfee, ica}"
  by (auto simp: GetMaccPerms_None BlockedAddresses_def fold_True) (auto simp: moduleAccPerms_def blockAccAddrs_def)

text \<open>
  The orders keep what the comments above them ask for: \<open>capability\<close> is the first module that is
  initialised and precedes the IBC modules in each block, \<open>genutil\<close> is initialised after \<open>staking\<close>
  and \<open>auth\<close>, \<open>distr\<close> begins a block before \<open>slashing\<close>, and no module is listed twice.
\<close>

definition precedes :: "sdk_name list \<Rightarrow> sdk_name \<Rightarrow> sdk_name \<Rightarrow> bool" where
  "precedes l x y \<longleftrightarrow> x \<in> set (takeWhile (\<lambda>z. z \<noteq> y) l) \<and> y \<in> set l"

theorem module_orders:
  "hd genesisModuleOrder = capability \<and> precedes genesisModuleOrder staking genutil
   \<and> precedes genesisModuleOrder auth genutil \<and> precedes beginBlockers distr slashing
   \<and> list_all (precedes beginBlockers capability) [ibcexported, ibctransfer, ica, ibcfee]
   \<and> distinct genesisModuleOrder \<and> distinct beginBlockers \<and> distinct endBlockers
   \<and> set beginBlockers \<union> set endBlockers \<union> set preBlockers \<subseteq> set genesisModuleOrder"
  by (simp add: precedes_def genesisModuleOrder_def beginBlockers_def endBlockers_def preBlockers_def)

section \<open>Store keys\<close>

text \<open>The store keys an application can hold; a failed type assertion gives \<open>nil\<close>.\<close>

datatype store_key =
    KVStoreKey string
  | MemoryStoreKey string
  | TransientStoreKey string

fun GetKey :: "(string \<Rightarrow> store_key option) \<Rightarrow> string \<Rightarrow> store_key option" where
  "GetKey UnsafeFindStoreKey storeKey =
     (case UnsafeFindStoreKey storeKey of Some (KVStoreKey n) \<Rightarrow> Some (KVStoreKey n) | _ \<Rightarrow> None)"

fun GetMemKey :: "(string \<Rightarrow> store_key option) \<Rightarrow> string \<Rightarrow> store_key option" where
  "GetMemKey UnsafeFindStoreKey storeKey =
     (case UnsafeFindStoreKey storeKey of Some (MemoryStoreKey n) \<Rightarrow> Some (MemoryStoreKey n) | _ \<Rightarrow> None)"

definition kvStoreKeys :: "store_key list \<Rightarrow> string \<Rightarrow> store_key option" where
  "kvStoreKeys GetStoreKeys =
     fold (\<lambda>k keys. case k of KVStoreKey n \<Rightarrow> keys(n \<mapsto> k) | _ \<Rightarrow> keys) GetStoreKeys Map.empty"

lemma kvStoreKeys_iff: "kvStoreKeys l n = Some k \<longleftrightarrow> k = KVStoreKey n \<and> k \<in> set l"
proof -
  have "fold (\<lambda>k keys. case k of KVStoreKey n \<Rightarrow> keys(n \<mapsto> k) | _ \<Rightarrow> keys) l m n = Some k
      \<longleftrightarrow> k = KVStoreKey n \<and> k \<in> set l \<or> KVStoreKey n \<notin> set l \<and> m n = Some k" for m
    by (induction l arbitrary: m) (auto split: store_key.split)
  then show ?thesis by (simp add: kvStoreKeys_def)
qed

section \<open>Scoped keepers\<close>

text \<open>
  The capability keeper is \<open>nil\<close> until \<open>registerIBCModules\<close> creates it; \<open>scope\<close> is its method
  \<open>ScopeToModule\<close>.
\<close>

record ('c, 'k) scoped_app =
  CapabilityKeeper :: "'c option"
  ScopedKeepers :: "string \<Rightarrow> 'k option"

definition GetCapabilityScopedKeeper ::
    "('c \<Rightarrow> string \<Rightarrow> ('k \<times> 'c) exit) \<Rightarrow> ('c, 'k) scoped_app \<Rightarrow> string \<Rightarrow> ('k \<times> ('c, 'k) scoped_app) exit" where
  "GetCapabilityScopedKeeper scope app moduleName =
     (case ScopedKeepers app moduleName of
        Some sk \<Rightarrow> Returns (sk, app)
      | None \<Rightarrow> (case CapabilityKeeper app of
          None \<Rightarrow> Panics
        | Some c \<Rightarrow> bind_exit (scope c moduleName) (\<lambda>(sk, c).
            Returns (sk, app\<lparr>CapabilityKeeper := Some c,
              ScopedKeepers := (ScopedKeepers app)(moduleName \<mapsto> sk)\<rparr>))))"

text \<open>
  The four modules that \<open>registerIBCModules\<close> scopes itself; their keepers go to fields of the
  application and not into \<open>ScopedKeepers\<close>.
\<close>

definition scope_ibc_modules ::
    "('c \<Rightarrow> string \<Rightarrow> ('k \<times> 'c) exit) \<Rightarrow> string list \<Rightarrow> 'c \<Rightarrow> ('c, 'k) scoped_app \<Rightarrow> ('c, 'k) scoped_app exit" where
  "scope_ibc_modules scope ibc_names keeper app =
     bind_exit (run_all (\<lambda>n c. bind_exit (scope c n) (\<lambda>(sk, c). Returns c)) ibc_names keeper) (\<lambda>c.
       Returns (app\<lparr>CapabilityKeeper := Some c\<rparr>))"

text \<open>\<open>ScopeToModule\<close> panics for a module it has already scoped.\<close>

definition scope_lawful :: "('c \<Rightarrow> string \<Rightarrow> ('k \<times> 'c) exit) \<Rightarrow> ('c \<Rightarrow> string set) \<Rightarrow> bool" where
  "scope_lawful scope scoped \<longleftrightarrow>
     (\<forall>c n. n \<in> scoped c \<longrightarrow> scope c n = Panics)
   \<and> (\<forall>c n sk c'. scope c n = Returns (sk, c') \<longrightarrow> scoped c' = insert n (scoped c))"

lemma scope_ibc_modules_scoped:
  assumes "scope_lawful scope scoped" "scope_ibc_modules scope names keeper app = Returns app'"
  shows "\<exists>c. app' = app\<lparr>CapabilityKeeper := Some c\<rparr> \<and> set names \<subseteq> scoped c"
proof -
  from assms(2) obtain c where
    c: "run_all (\<lambda>n c. bind_exit (scope c n) (\<lambda>(sk, c). Returns c)) names keeper = Returns c"
    and a: "app' = app\<lparr>CapabilityKeeper := Some c\<rparr>"
    by (auto simp: scope_ibc_modules_def exit_simps)
  have "set names \<subseteq> scoped c"
  proof (rule run_all_invariant [where P = "\<lambda>done c. set done \<subseteq> scoped c", OF c])
    fix "done" n rest s t
    assume "set done \<subseteq> scoped s" "bind_exit (scope s n) (\<lambda>(sk, c). Returns c) = Returns t"
    then show "set (done @ [n]) \<subseteq> scoped t"
      using assms(1) by (auto simp: scope_lawful_def exit_simps)
  qed simp
  with a show ?thesis by blast
qed

text \<open>
  Asking for the scoped keeper of a module again gives the same keeper and changes nothing.
  For the modules that \<open>registerIBCModules\<close> has scoped itself, asking panics: it does not enter
  their keepers in the map, so they are scoped a second time.
\<close>

theorem scoped_keeper_again:
  assumes "scope_lawful scope scoped"
    and "scope_ibc_modules scope ibc_names keeper app = Returns app'"
  shows "(n \<in> set ibc_names \<and> ScopedKeepers app n = None
      \<longrightarrow> GetCapabilityScopedKeeper scope app' n = Panics)
    \<and> (GetCapabilityScopedKeeper scope app' n = Returns (sk, app'')
      \<longrightarrow> GetCapabilityScopedKeeper scope app'' n = Returns (sk, app''))"
proof -
  from scope_ibc_modules_scoped [OF assms] obtain c where
    c: "app' = app\<lparr>CapabilityKeeper := Some c\<rparr>" "set ibc_names \<subseteq> scoped c" by blast
  then have "n \<in> set ibc_names \<Longrightarrow> scope c n = Panics"
    using assms(1) unfolding scope_lawful_def by blast
  with c show ?thesis
    by (auto simp: GetCapabilityScopedKeeper_def exit_simps split: option.splits)
qed

definition example_scope :: "string set \<Rightarrow> string \<Rightarrow> (string \<times> string set) exit" where
  "example_scope c n = (if n \<in> c then Panics else Returns (n, insert n c))"

lemma example_scope_lawful: "scope_lawful example_scope (\<lambda>c. c)"
  by (auto simp: scope_lawful_def example_scope_def split: if_splits)

theorem scoped_keeper_again_witness:
  "\<exists>app'. scope_ibc_modules example_scope [''ibc'', ''transfer''] {} \<lparr>CapabilityKeeper = None, ScopedKeepers = Map.empty\<rparr>
      = Returns app'
    \<and> GetCapabilityScopedKeeper example_scope app' ''ibc'' = Panics"
proof -
  have "scope_ibc_modules example_scope [''ibc'', ''transfer''] {} \<lparr>CapabilityKeeper = None, ScopedKeepers = Map.empty\<rparr>
      = Returns \<lparr>CapabilityKeeper = Some {''transfer'', ''ibc''}, ScopedKeepers = Map.empty\<rparr>"
    by (simp add: scope_ibc_modules_def example_scope_def)
  from this scoped_keeper_again [OF example_scope_lawful this, of "''ibc''"] show ?thesis by simp
qed

section \<open>Address prefixes\<close>

definition AccountAddressPrefix :: string where
  "AccountAddressPrefix = ''cosmos''"

definition bech32_prefixes :: "(string \<times> string) list" where
  "bech32_prefixes =
     [(AccountAddressPrefix, AccountAddressPrefix @ ''pub''),
      (AccountAddressPrefix @ ''valoper'', AccountAddressPrefix @ ''valoperpub''),
      (AccountAddressPrefix @ ''valcons'', AccountAddressPrefix @ ''valconspub'')]"

section \<open>Genesis accounts\<close>

record GenesisAccount =
  OriginalVestingIsZero :: bool
  StartTime :: int
  EndTime :: int
  ModuleName :: string
  ModulePermissions :: "string list"

text \<open>\<open>base\<close> and \<open>moduleAccount\<close> are the checks of the SDK's base account and module account.\<close>

definition GenesisAccount_Validate ::
    "error option \<Rightarrow> (string \<Rightarrow> string list \<Rightarrow> error option) \<Rightarrow> GenesisAccount \<Rightarrow> error option" where
  "GenesisAccount_Validate base moduleAccount sga =
     (if \<not> OriginalVestingIsZero sga \<and> EndTime sga \<le> StartTime sga
      then Some (Errorf ''vesting start-time cannot be before end-time'' '''')
      else if ModuleName sga \<noteq> '''' then
        (case moduleAccount (ModuleName sga) (ModulePermissions sga) of
           Some err \<Rightarrow> Some err
         | None \<Rightarrow> base)
      else base)"

text \<open>An account is rejected for starting after its end, with a message that says the opposite.\<close>

theorem GenesisAccount_vesting_order:
  assumes "\<not> OriginalVestingIsZero sga"
  shows "GenesisAccount_Validate None (\<lambda>n p. None) sga = None \<longleftrightarrow> StartTime sga < EndTime sga"
  using assms by (auto simp: GenesisAccount_Validate_def)

section \<open>Flag defaults\<close>

text \<open>
  A command: its usage line, whose first word is its name, other names, the number of arguments
  if it is checked, what it runs, its own and its persistent flags and its sub-commands. \<open>Accepts\<close>
  says whether the flag's type can be set to a string; an error is ignored.
\<close>

record flag =
  DefValue :: string
  FlagValue :: string
  Accepts :: "string \<Rightarrow> bool"

type_synonym flag_set = "string \<Rightarrow> flag option"

datatype 'a command = Command
  (Use: string) (Aliases: "string list") (ExactArgs: "nat option") (RunE: "'a option")
  (Flags: flag_set) (PersistentFlags: flag_set) (Commands: "'a command list")

definition set_default :: "string \<times> string \<Rightarrow> flag_set \<Rightarrow> flag_set" where
  "set_default d s =
     (let (key, val) = d in case s key of
        None \<Rightarrow> s
      | Some f \<Rightarrow> s(key \<mapsto> f\<lparr>DefValue := val, FlagValue := if Accepts f val then val else FlagValue f\<rparr>))"

text \<open>The map of defaults, whose order does not matter, is a list of pairs with different keys.\<close>

fun overwriteFlagDefaults :: "(string \<times> string) list \<Rightarrow> 'a command \<Rightarrow> 'a command" where
  "overwriteFlagDefaults defaults (Command use aliases args run flags persistent commands) =
     Command use aliases args run (fold set_default defaults flags) (fold set_default defaults persistent)
       (map (overwriteFlagDefaults defaults) commands)"

definition default_flags :: "string \<Rightarrow> (string \<times> string) list" where
  "default_flags name = [(''chain-id'', filter (\<lambda>c. c \<noteq> CHR ''-'') name), (''keyring-backend'', ''test'')]"

fun flag_sets :: "'a command \<Rightarrow> flag_set list" where
  "flag_sets (Command use aliases args run flags persistent commands) = flags # persistent # concat (map flag_sets commands)"

lemma set_default_eq:
  "set_default (key, val) s k = (if k = key then map_option (\<lambda>f. f\<lparr>DefValue := val,
     FlagValue := if Accepts f val then val else FlagValue f\<rparr>) (s k) else s k)"
  by (simp add: set_default_def split: option.split)

lemma fold_set_default_other:
  "k \<notin> fst ` set ds \<Longrightarrow> fold set_default ds s k = s k"
  by (induction ds arbitrary: s) (auto simp: set_default_eq)

lemma fold_set_default:
  assumes "distinct (map fst ds)" "(k, v) \<in> set ds"
  shows "fold set_default ds s k = set_default (k, v) s k"
  using assms
proof (induction ds arbitrary: s)
  case (Cons d ds)
  show ?case
  proof (cases "d = (k, v)")
    case True
    with Cons.prems show ?thesis by (simp add: fold_set_default_other)
  next
    case False
    with Cons.prems have "(k, v) \<in> set ds" "fst d \<noteq> k" by (auto simp: rev_image_eqI)
    with Cons show ?thesis by (cases d) (simp add: set_default_eq)
  qed
qed simp

lemma flag_sets_overwrite:
  "flag_sets (overwriteFlagDefaults ds c) = map (fold set_default ds) (flag_sets c)"
proof (induction ds c rule: overwriteFlagDefaults.induct)
  case (1 ds use aliases args run flags persistent commands)
  then show ?case by (simp add: map_concat comp_def cong: map_cong)
qed

text \<open>
  In every flag set of the whole tree of commands a listed flag gets the default, as its value
  too if its type takes it, no flag appears or disappears, and the others keep theirs.
\<close>

theorem flag_defaults_everywhere:
  assumes "distinct (map fst ds)" "i < length (flag_sets c)"
  shows "length (flag_sets (overwriteFlagDefaults ds c)) = length (flag_sets c)
    \<and> (flag_sets (overwriteFlagDefaults ds c) ! i) k
      = (case map_of ds k of
           None \<Rightarrow> (flag_sets c ! i) k
         | Some v \<Rightarrow> map_option (\<lambda>f. f\<lparr>DefValue := v, FlagValue := if Accepts f v then v else FlagValue f\<rparr>)
             ((flag_sets c ! i) k))"
proof (cases "map_of ds k")
  case None
  then have "k \<notin> fst ` set ds" by (simp add: map_of_eq_None_iff)
  with None assms(2) show ?thesis by (simp add: flag_sets_overwrite fold_set_default_other)
next
  case (Some v)
  then have "(k, v) \<in> set ds" by (rule map_of_SomeD)
  with Some assms show ?thesis by (simp add: flag_sets_overwrite fold_set_default set_default_eq)
qed

end
