(* ===== verification/Simulation.thy ===== *)
theory Simulation
  imports Module Text Service
begin

text \<open>
  \<open>x/identity/simulation\<close> and \<open>x/identity/module/simulation.go\<close>: the random genesis state and the
  random registrations of the simulator. The random source is a parameter, \<open>intn\<close> for
  \<open>rand.Intn\<close>, and so is what delivers a transaction.
\<close>

definition FindAccount :: "bech32_decoder \<Rightarrow> ('a list \<Rightarrow> bytes \<Rightarrow> 'a \<times> bool) \<Rightarrow> 'a list \<Rightarrow> string \<Rightarrow> ('a \<times> bool) res" where
  "FindAccount acc find_account accs address =
     (case acc address of
        Inl err \<Rightarrow> Panic
      | Inr creator \<Rightarrow> Ok (find_account accs creator))"

datatype 'd sim_result =
    NoOpMsg string string string
  | SimDelivered 'd

definition simulated_msg :: "string \<Rightarrow> (int \<Rightarrow> int) \<Rightarrow> MsgCreateIdentity" where
  "simulated_msg address intn =
     \<lparr>Creator = address, CccdId = Itoa (int64 (intn 999999999 + 100000000))\<rparr>"

definition SimulateMsgCreateIdentity ::
    "'s Keeper \<Rightarrow> ('s \<Rightarrow> MsgCreateIdentity \<Rightarrow> 'd res) \<Rightarrow> string \<Rightarrow> (int \<Rightarrow> int) \<Rightarrow> 's \<Rightarrow> 'd sim_result res" where
  "SimulateMsgCreateIdentity k GenAndDeliverTx simAccount intn s =
     (let msg = simulated_msg simAccount intn in
      bind_res (GetIdentity k s (Creator msg)) (\<lambda>(_, found).
        if found
        then Ok (NoOpMsg ''identity'' url_MsgCreateIdentity ''account already has identity'')
        else bind_res (GenAndDeliverTx s msg) (\<lambda>d. Ok (SimDelivered d))))"

text \<open>\<open>sample i\<close> is what the \<open>i\<close>-th call of \<open>sample.AccAddress\<close> returns.\<close>

definition GenerateGenesisState :: "(nat \<Rightarrow> string) \<Rightarrow> GenesisState" where
  "GenerateGenesisState sample =
     \<lparr>GenesisParams = DefaultParams,
      IdentityList =
        [\<lparr>Address = sample 0, IdHash = ''sample_hash_1'', CreatedAt = 1640995200\<rparr>,
         \<lparr>Address = sample 1, IdHash = ''sample_hash_2'', CreatedAt = 1640995300\<rparr>]\<rparr>"

definition defaultWeightMsgCreateIdentity :: int where
  "defaultWeightMsgCreateIdentity = 100"

text \<open>
  \<open>getOrGenerate key d\<close> is the weight that \<open>AppParams.GetOrGenerate\<close> leaves in the variable: the
  parameter of that name, or \<open>d\<close> from the function it is given.
\<close>

definition WeightedOperations :: "(string \<Rightarrow> int \<Rightarrow> int) \<Rightarrow> 'op \<Rightarrow> (int \<times> 'op) list" where
  "WeightedOperations getOrGenerate simulate =
     (let operations = [];
          weight = getOrGenerate ''op_weight_msg_identity'' defaultWeightMsgCreateIdentity
      in operations @ [(weight, simulate)])"

text \<open>The function that should make the proposal's message returns \<open>nil\<close>.\<close>

definition ProposalMsgs :: "(string \<times> int \<times> MsgCreateIdentity option) list" where
  "ProposalMsgs = [(''op_weight_msg_identity'', defaultWeightMsgCreateIdentity, None)]"

lemma dec_length: "10 ^ k \<le> n \<Longrightarrow> n < 10 ^ Suc k \<Longrightarrow> length (dec n) = Suc k"
proof (induction k arbitrary: n)
  case 0
  then show ?case by (subst dec.simps) simp
next
  case (Suc k)
  then have "10 ^ k \<le> n div 10" "n div 10 < 10 ^ Suc k" by simp_all
  note l = Suc.IH [OF this]
  have "(10 :: nat) * 1 \<le> 10 * 10 ^ k" by (rule mult_le_mono2) simp
  also have "\<dots> \<le> n" using Suc.prems(1) by simp
  finally have "\<not> n < 10" by simp
  with l show ?case by (subst dec.simps) simp
qed

text \<open>
  The comment promises a CCCD number of nine digits; one in ten has ten. The message always is
  valid for an address that decodes.
\<close>

theorem simulated_cccd_digits:
  assumes "0 \<le> intn 999999999" "intn 999999999 < 999999999" "acc address = Inr a"
  shows "length (CccdId (simulated_msg address intn)) = (if intn 999999999 < 900000000 then 9 else 10)
    \<and> MsgCreateIdentity_ValidateBasic acc (simulated_msg address intn) = Ok ()"
proof -
  let ?n = "nat (intn 999999999 + 100000000)"
  have "int64 (intn 999999999 + 100000000) = intn 999999999 + 100000000"
    using assms(1,2) by (intro int64_id) auto
  then have e: "CccdId (simulated_msg address intn) = dec ?n"
    using assms(1) by (simp add: simulated_msg_def Itoa_def)
  have "length (dec ?n) = (if intn 999999999 < 900000000 then 9 else 10)"
    using assms(1,2) dec_length [of 8 ?n] dec_length [of 9 ?n] by auto
  moreover have "CccdId (simulated_msg address intn) \<noteq> []" using calculation e by (auto split: if_splits)
  moreover have "Creator (simulated_msg address intn) = address" by (simp add: simulated_msg_def)
  ultimately show ?thesis using assms(3) e by (simp add: MsgCreateIdentity_ValidateBasic_Ok)
qed

theorem GenerateGenesisState_valid:
  "GenesisState_Validate (GenerateGenesisState sample) = Ok () \<longleftrightarrow> sample 0 \<noteq> sample 1"
  by (simp add: GenesisState_Validate_Ok GenerateGenesisState_def)

text \<open>An account with an identity is never sent.\<close>

theorem SimulateMsgCreateIdentity_skips:
  assumes "keeper_inv k s" "identities k s address = Some i"
  shows "SimulateMsgCreateIdentity k deliver address intn s
    = Ok (NoOpMsg ''identity'' url_MsgCreateIdentity ''account already has identity'')"
  using assms by (auto simp: SimulateMsgCreateIdentity_def simulated_msg_def keeper_store.get_lookup
      Let_def)

end
