(* ===== verification/Autocli.thy ===== *)
theory Autocli
  imports Service PulsarTx PulsarQuery PulsarPages
begin

text \<open>
  \<open>x/identity/module/autocli.go\<close>: the table from which the SDK builds the module's commands, checked
  against the services and the descriptors of the client's messages.
\<close>

record rpc_options =
  RpcMethod :: string
  Use :: string
  Short :: string
  Skip :: bool
  PositionalArgs :: "string list" \<comment> \<open>the \<open>ProtoField\<close> of each\<close>

record module_options =
  QueryService :: string
  QueryOptions :: "rpc_options list"
  TxService :: string
  EnhanceCustomCommand :: bool
  TxOptions :: "rpc_options list"

definition AutoCLIOptions :: module_options where
  "AutoCLIOptions =
     \<lparr>QueryService = fst Query_serviceDesc,
      QueryOptions =
        [\<lparr>RpcMethod = ''Params'', Use = ''params'', Short = ''Shows the parameters of the module'',
          Skip = False, PositionalArgs = []\<rparr>,
         \<lparr>RpcMethod = ''IdentityAll'', Use = ''list-identity'', Short = ''List all identity'',
          Skip = False, PositionalArgs = []\<rparr>,
         \<lparr>RpcMethod = ''Identity'', Use = ''show-identity [address]'', Short = ''Shows a identity by address'',
          Skip = False, PositionalArgs = [''address'']\<rparr>,
         \<lparr>RpcMethod = ''IdentityByCccdId'', Use = ''identity-by-cccd [id-hash]'',
          Short = ''Query identity by CCCD ID hash'', Skip = False, PositionalArgs = [''idHash'']\<rparr>],
      TxService = fst Msg_serviceDesc,
      EnhanceCustomCommand = True,
      TxOptions =
        [\<lparr>RpcMethod = ''UpdateParams'', Use = '''', Short = '''', Skip = True, PositionalArgs = []\<rparr>,
         \<lparr>RpcMethod = ''CreateIdentity'', Use = ''create-identity [cccd-id]'',
          Short = ''Create identity with CCCD ID'', Skip = False, PositionalArgs = [''cccdId'']\<rparr>]\<rparr>"

text \<open>
  Every method of the two services has its entry, and every positional argument is a field of
  the method's request.
\<close>

theorem AutoCLIOptions_complete:
  "set (map RpcMethod (QueryOptions AutoCLIOptions)) = set (snd Query_serviceDesc)
   \<and> set (map RpcMethod (TxOptions AutoCLIOptions)) = set (snd Msg_serviceDesc)"
  by (auto simp: AutoCLIOptions_def Query_serviceDesc_def Msg_serviceDesc_def)

theorem AutoCLIOptions_fields:
  "map PositionalArgs (filter (\<lambda>r. PositionalArgs r \<noteq> []) (QueryOptions AutoCLIOptions @ TxOptions AutoCLIOptions))
    = [[''address''], [''idHash''], [''cccdId'']]
   \<and> FullName fd_QueryGetIdentityRequest_address = ''nexelra.identity.QueryGetIdentityRequest.'' @ ''address''
   \<and> FullName fd_QueryIdentityByCccdIdRequest_idHash
       = ''nexelra.identity.QueryIdentityByCccdIdRequest.'' @ ''idHash''
   \<and> FullName fd_MsgCreateIdentity_cccdId = ''nexelra.identity.MsgCreateIdentity.'' @ ''cccdId''"
  by (simp add: AutoCLIOptions_def fd_QueryGetIdentityRequest_address_def
      fd_QueryIdentityByCccdIdRequest_idHash_def fd_MsgCreateIdentity_cccdId_def)

end
