(* ===== verification/Grpc.thy ===== *)
theory Grpc
  imports Service PulsarTx PulsarQuery PulsarPages
begin

text \<open>
  The client stubs of \<open>tx.pb.go\<close> and \<open>query.pb.go\<close> and the generated gRPC code of the client
  package, \<open>api/nexelra/identity/tx_grpc.pb.go\<close> and \<open>query_grpc.pb.go\<close>. The connection is a
  parameter: \<open>invoke method in out\<close> is \<open>cc.Invoke\<close>, which fills \<open>out\<close>. What a connection to the
  chain's server does is \<open>wire_call\<close>.
\<close>

section \<open>The client stubs\<close>

type_synonym ('req, 'resp) invoke = "string \<Rightarrow> 'req \<Rightarrow> 'resp \<Rightarrow> 'resp res"

definition client_call :: "string \<Rightarrow> 'resp \<Rightarrow> ('req, 'resp) invoke \<Rightarrow> 'req \<Rightarrow> 'resp res" where
  "client_call method out invoke inp = bind_res (invoke method inp out) (\<lambda>out. Ok out)"

definition queryClient_Params where
  "queryClient_Params = client_call ''/nexelra.identity.Query/Params'' zero_QueryParamsResponse"

definition queryClient_Identity where
  "queryClient_Identity = client_call ''/nexelra.identity.Query/Identity'' zero_QueryGetIdentityResponse"

definition queryClient_IdentityAll where
  "queryClient_IdentityAll =
     client_call ''/nexelra.identity.Query/IdentityAll'' zero_QueryAllIdentityResponse"

definition queryClient_IdentityByCccdId where
  "queryClient_IdentityByCccdId =
     client_call ''/nexelra.identity.Query/IdentityByCccdId'' zero_QueryIdentityByCccdIdResponse"

definition msgClient_UpdateParams where
  "msgClient_UpdateParams = client_call ''/nexelra.identity.Msg/UpdateParams'' MsgUpdateParamsResponse"

definition msgClient_CreateIdentity where
  "msgClient_CreateIdentity = client_call ''/nexelra.identity.Msg/CreateIdentity'' MsgCreateIdentityResponse"

section \<open>The client package\<close>

definition Query_Params_FullMethodName :: string where
  "Query_Params_FullMethodName = ''/nexelra.identity.Query/Params''"

definition Query_Identity_FullMethodName :: string where
  "Query_Identity_FullMethodName = ''/nexelra.identity.Query/Identity''"

definition Query_IdentityAll_FullMethodName :: string where
  "Query_IdentityAll_FullMethodName = ''/nexelra.identity.Query/IdentityAll''"

definition Query_IdentityByCccdId_FullMethodName :: string where
  "Query_IdentityByCccdId_FullMethodName = ''/nexelra.identity.Query/IdentityByCccdId''"

definition Msg_UpdateParams_FullMethodName :: string where
  "Msg_UpdateParams_FullMethodName = ''/nexelra.identity.Msg/UpdateParams''"

definition Msg_CreateIdentity_FullMethodName :: string where
  "Msg_CreateIdentity_FullMethodName = ''/nexelra.identity.Msg/CreateIdentity''"

definition api_queryClient_Params where
  "api_queryClient_Params = client_call Query_Params_FullMethodName zero_api_QueryParamsResponse"

definition api_queryClient_Identity where
  "api_queryClient_Identity = client_call Query_Identity_FullMethodName zero_api_QueryGetIdentityResponse"

definition api_queryClient_IdentityAll where
  "api_queryClient_IdentityAll = client_call Query_IdentityAll_FullMethodName zero_api_QueryAllIdentityResponse"

definition api_queryClient_IdentityByCccdId where
  "api_queryClient_IdentityByCccdId =
     client_call Query_IdentityByCccdId_FullMethodName zero_api_QueryIdentityByCccdIdResponse"

definition api_msgClient_UpdateParams where
  "api_msgClient_UpdateParams = client_call Msg_UpdateParams_FullMethodName zero_api_MsgUpdateParamsResponse"

definition api_msgClient_CreateIdentity where
  "api_msgClient_CreateIdentity = client_call Msg_CreateIdentity_FullMethodName zero_api_MsgCreateIdentityResponse"

definition api_Query_Params_Handler where
  "api_Query_Params_Handler = unary_handler Query_Params_FullMethodName zero_api_QueryParamsRequest"

definition api_Query_Identity_Handler where
  "api_Query_Identity_Handler = unary_handler Query_Identity_FullMethodName zero_api_QueryGetIdentityRequest"

definition api_Query_IdentityAll_Handler where
  "api_Query_IdentityAll_Handler = unary_handler Query_IdentityAll_FullMethodName zero_api_QueryAllIdentityRequest"

definition api_Query_IdentityByCccdId_Handler where
  "api_Query_IdentityByCccdId_Handler =
     unary_handler Query_IdentityByCccdId_FullMethodName zero_api_QueryIdentityByCccdIdRequest"

definition api_Msg_UpdateParams_Handler where
  "api_Msg_UpdateParams_Handler = unary_handler Msg_UpdateParams_FullMethodName zero_api_MsgUpdateParams"

definition api_Msg_CreateIdentity_Handler where
  "api_Msg_CreateIdentity_Handler = unary_handler Msg_CreateIdentity_FullMethodName zero_api_MsgCreateIdentity"

definition Query_ServiceDesc :: "string \<times> string list" where
  "Query_ServiceDesc = (''nexelra.identity.Query'',
     [''Params'', ''Identity'', ''IdentityAll'', ''IdentityByCccdId''])"

definition Msg_ServiceDesc :: "string \<times> string list" where
  "Msg_ServiceDesc = (''nexelra.identity.Msg'', [''UpdateParams'', ''CreateIdentity''])"

text \<open>What \<open>UnimplementedQueryServer\<close> and \<open>UnimplementedMsgServer\<close> of the client package answer.\<close>

definition api_unimplemented :: "string \<Rightarrow> 'r res" where
  "api_unimplemented name = Err (ErrStatus ''Unimplemented'' (''method '' @ name @ '' not implemented''))"

section \<open>Names\<close>

text \<open>A server finds a method under the name of its service and its own.\<close>

definition full_methods :: "string \<times> string list \<Rightarrow> string list" where
  "full_methods desc = map (\<lambda>m. ''/'' @ fst desc @ ''/'' @ m) (snd desc)"

text \<open>
  The names under which both packages' clients call are the names under which both packages'
  servers are registered, in the same order and all different.
\<close>

theorem method_names_agree:
  "full_methods Query_serviceDesc = [Query_Params_FullMethodName, Query_Identity_FullMethodName,
      Query_IdentityAll_FullMethodName, Query_IdentityByCccdId_FullMethodName]
   \<and> full_methods Msg_serviceDesc = [Msg_UpdateParams_FullMethodName, Msg_CreateIdentity_FullMethodName]
   \<and> Query_ServiceDesc = Query_serviceDesc \<and> Msg_ServiceDesc = Msg_serviceDesc
   \<and> distinct (full_methods Query_serviceDesc @ full_methods Msg_serviceDesc)"
  by (simp add: full_methods_def Query_serviceDesc_def Msg_serviceDesc_def Query_ServiceDesc_def
      Msg_ServiceDesc_def Query_Params_FullMethodName_def Query_Identity_FullMethodName_def
      Query_IdentityAll_FullMethodName_def Query_IdentityByCccdId_FullMethodName_def
      Msg_UpdateParams_FullMethodName_def Msg_CreateIdentity_FullMethodName_def)

section \<open>A call over the wire\<close>

text \<open>
  What a connection does for one method: the request is encoded, the handler decodes it and
  calls the server, the answer is encoded and decoded into \<open>out\<close>. Errors come back as they are.
  \<open>speaks\<close> says it of the connection for a method.
\<close>

definition wire_call ::
    "('req \<Rightarrow> bytes res) \<Rightarrow> (bytes \<Rightarrow> 'resp res) \<Rightarrow> ('resp \<Rightarrow> bytes res) \<Rightarrow> (bytes \<Rightarrow> 'resp \<Rightarrow> 'resp res)
      \<Rightarrow> 'req \<Rightarrow> 'resp \<Rightarrow> 'resp res" where
  "wire_call marshal_req serve marshal_resp unmarshal_resp inp out =
     bind_res (marshal_req inp) (\<lambda>d. bind_res (serve d) (\<lambda>r.
     bind_res (marshal_resp r) (\<lambda>d. unmarshal_resp d out)))"

definition speaks ::
    "('req, 'resp) invoke \<Rightarrow> string \<Rightarrow> ('req \<Rightarrow> bytes res) \<Rightarrow> (bytes \<Rightarrow> 'resp res) \<Rightarrow> ('resp \<Rightarrow> bytes res)
      \<Rightarrow> (bytes \<Rightarrow> 'resp \<Rightarrow> 'resp res) \<Rightarrow> bool" where
  "speaks invoke method marshal_req serve marshal_resp unmarshal_resp \<longleftrightarrow>
     (\<forall>inp out. invoke method inp out = wire_call marshal_req serve marshal_resp unmarshal_resp inp out)"

text \<open>The contract of a method: a codec for its requests and one for its answers.\<close>

locale unary_rpc =
  req: message_codec marshal_req size_req unmarshal_req enc_req zero_req small_req +
  resp: message_codec marshal_resp size_resp unmarshal_resp enc_resp zero_resp small_resp
  for marshal_req :: "'req \<Rightarrow> bytes res" and size_req unmarshal_req enc_req zero_req small_req
    and marshal_resp :: "'resp \<Rightarrow> bytes res" and size_resp unmarshal_resp enc_resp zero_resp small_resp
begin

text \<open>Calling the stub is calling the server.\<close>

lemma call_is_server:
  assumes "speaks invoke method marshal_req
      (\<lambda>d. unary_handler method' zero_req srv (unmarshal_req d) None) marshal_resp unmarshal_resp"
    and "small_req inp" "\<And>r. srv inp = Ok r \<Longrightarrow> small_resp r"
  shows "client_call method zero_resp invoke inp = srv inp"
proof -
  have "unary_handler method' zero_req srv (unmarshal_req (enc_req inp)) None = srv inp"
    by (rule unary_handler_decodes) (rule req.unmarshal_enc [OF assms(2)])
  then have "invoke method inp zero_resp
      = bind_res (srv inp) (\<lambda>r. bind_res (marshal_resp r) (\<lambda>d. unmarshal_resp d zero_resp))"
    using assms(1,2) by (simp add: speaks_def wire_call_def req.marshal_enc)
  also have "\<dots> = srv inp"
    using assms(3) by (cases "srv inp") (simp_all add: resp.codec_roundtrip)
  finally show ?thesis by (simp add: client_call_def)
qed

end

interpretation rpc_Identity: unary_rpc
    QueryGetIdentityRequest_Marshal QueryGetIdentityRequest_Size QueryGetIdentityRequest_Unmarshal
    enc_QueryGetIdentityRequest zero_QueryGetIdentityRequest small_QueryGetIdentityRequest
    QueryGetIdentityResponse_Marshal QueryGetIdentityResponse_Size QueryGetIdentityResponse_Unmarshal
    enc_QueryGetIdentityResponse zero_QueryGetIdentityResponse small_QueryGetIdentityResponse
  by (intro unary_rpc.intro QueryGetIdentityRequest_codec.message_codec_axioms
      QueryGetIdentityResponse_codec.message_codec_axioms)

interpretation rpc_Params: unary_rpc
    QueryParamsRequest_Marshal QueryParamsRequest_Size QueryParamsRequest_Unmarshal
    "\<lambda>m. []" QueryParamsRequest "\<lambda>m. True"
    QueryParamsResponse_Marshal QueryParamsResponse_Size QueryParamsResponse_Unmarshal
    enc_QueryParamsResponse zero_QueryParamsResponse small_QueryParamsResponse
  by (intro unary_rpc.intro QueryParamsRequest_codec.message_codec_axioms
      QueryParamsResponse_codec.message_codec_axioms)

interpretation rpc_CreateIdentity: unary_rpc
    MsgCreateIdentity_Marshal MsgCreateIdentity_Size MsgCreateIdentity_Unmarshal
    enc_MsgCreateIdentity zero_MsgCreateIdentity small_MsgCreateIdentity
    MsgCreateIdentityResponse_Marshal MsgCreateIdentityResponse_Size MsgCreateIdentityResponse_Unmarshal
    "\<lambda>m. []" MsgCreateIdentityResponse "\<lambda>m. True"
  by (intro unary_rpc.intro MsgCreateIdentity_codec.message_codec_axioms
      MsgCreateIdentityResponse_codec.message_codec_axioms)

interpretation rpc_UpdateParams: unary_rpc
    MsgUpdateParams_Marshal MsgUpdateParams_Size MsgUpdateParams_Unmarshal
    enc_MsgUpdateParams zero_MsgUpdateParams small_MsgUpdateParams
    MsgUpdateParamsResponse_Marshal MsgUpdateParamsResponse_Size MsgUpdateParamsResponse_Unmarshal
    "\<lambda>m. []" MsgUpdateParamsResponse "\<lambda>m. True"
  by (intro unary_rpc.intro MsgUpdateParams_codec.message_codec_axioms
      MsgUpdateParamsResponse_codec.message_codec_axioms)

text \<open>The methods whose messages hold page messages, for every codec of those.\<close>

lemma rpc_IdentityAll:
  assumes "embedded_codec pc penc psmall" "embedded_codec qc qenc qsmall"
  shows "unary_rpc
    (QueryAllIdentityRequest_Marshal pc) (QueryAllIdentityRequest_Size pc) (QueryAllIdentityRequest_Unmarshal pc)
    (enc_QueryAllIdentityRequest penc) zero_QueryAllIdentityRequest (small_QueryAllIdentityRequest penc psmall)
    (QueryAllIdentityResponse_Marshal qc) (QueryAllIdentityResponse_Size qc)
    (QueryAllIdentityResponse_Unmarshal qc) (enc_QueryAllIdentityResponse qenc)
    zero_QueryAllIdentityResponse (small_QueryAllIdentityResponse qenc qsmall)"
  by (intro unary_rpc.intro embedded_codec.QueryAllIdentityRequest_message_codec [OF assms(1)]
      embedded_codec.QueryAllIdentityResponse_message_codec [OF assms(2)])

lemma rpc_IdentityByCccdId:
  assumes "embedded_codec pc penc psmall" "embedded_codec qc qenc qsmall"
  shows "unary_rpc
    (QueryIdentityByCccdIdRequest_Marshal pc) (QueryIdentityByCccdIdRequest_Size pc)
    (QueryIdentityByCccdIdRequest_Unmarshal pc) (enc_QueryIdentityByCccdIdRequest penc)
    zero_QueryIdentityByCccdIdRequest (small_QueryIdentityByCccdIdRequest penc psmall)
    (QueryIdentityByCccdIdResponse_Marshal qc) (QueryIdentityByCccdIdResponse_Size qc)
    (QueryIdentityByCccdIdResponse_Unmarshal qc) (enc_QueryIdentityByCccdIdResponse qenc)
    zero_QueryIdentityByCccdIdResponse (small_QueryIdentityByCccdIdResponse qenc qsmall)"
  by (intro unary_rpc.intro embedded_codec.QueryIdentityByCccdIdRequest_message_codec [OF assms(1)]
      embedded_codec.QueryIdentityByCccdIdResponse_message_codec [OF assms(2)])

end
