(* ===== verification/Gateway.thy ===== *)
theory Gateway
  imports Grpc
begin

text \<open>
  \<open>x/identity/types/query.pb.gw.go\<close>: the HTTP gateway of the \<open>Query\<close> service. A request is the
  path's components and the outcome of \<open>req.ParseForm\<close>. The package \<open>runtime\<close> of grpc-gateway is the
  parameter \<open>gateway_rt\<close>; headers, trailers and the forwarding options are left out.
\<close>

section \<open>Patterns\<close>

text \<open>The arguments of \<open>runtime.NewPattern\<close> that vary: the operations and the pool of strings.\<close>

record pattern =
  Ops :: "nat list"
  Pool :: "string list"

definition pattern_Query_Params_0 :: pattern where
  "pattern_Query_Params_0 =
     \<lparr>Ops = [2, 0, 2, 1, 2, 2], Pool = [''Nexelra'', ''identity'', ''params'']\<rparr>"

definition pattern_Query_Identity_0 :: pattern where
  "pattern_Query_Identity_0 =
     \<lparr>Ops = [2, 0, 2, 1, 2, 1, 1, 0, 4, 1, 5, 2], Pool = [''Nexelra'', ''identity'', ''address'']\<rparr>"

definition pattern_Query_IdentityAll_0 :: pattern where
  "pattern_Query_IdentityAll_0 = \<lparr>Ops = [2, 0, 2, 1, 2, 1], Pool = [''Nexelra'', ''identity'']\<rparr>"

definition pattern_Query_IdentityByCccdId_0 :: pattern where
  "pattern_Query_IdentityByCccdId_0 =
     \<lparr>Ops = [2, 0, 2, 1, 2, 2, 1, 0, 4, 1, 5, 3],
      Pool = [''Nexelra'', ''identity'', ''identity-by-cccd'', ''idHash'']\<rparr>"

text \<open>
  The path template that a pattern encodes. The operations are pairs of a code and an operand:
  2 matches a literal of the pool, 1 pushes a component, 4 joins pushed components, 5 captures
  the result under a name of the pool; a variable of one component is 1, 4 and 5.
\<close>

datatype segment =
    Literal string
  | Variable string

fun template :: "nat list \<Rightarrow> string list \<Rightarrow> segment list option" where
  "template [] pool = Some []"
| "template (code # operand # ops) pool =
     (if code = 2 then map_option (Cons (Literal (pool ! operand))) (template ops pool)
      else case ops of
          join # n # capture # name # ops' \<Rightarrow>
            if code = 1 \<and> join = 4 \<and> n = 1 \<and> capture = 5
            then map_option (Cons (Variable (pool ! name))) (template ops' pool)
            else None
        | _ \<Rightarrow> None)"
| "template [code] pool = None"

definition template_of :: "pattern \<Rightarrow> segment list option" where
  "template_of p = template (Ops p) (Pool p)"

fun match_segments :: "segment list \<Rightarrow> string list \<Rightarrow> (string \<Rightarrow> string option) option" where
  "match_segments [] [] = Some Map.empty"
| "match_segments (Literal s # segs) (c # cs) = (if c = s then match_segments segs cs else None)"
| "match_segments (Variable v # segs) (c # cs) = map_option (\<lambda>m. m(v \<mapsto> c)) (match_segments segs cs)"
| "match_segments _ _ = None"

section \<open>Requests\<close>

type_synonym form = "(string \<times> string list) list"

text \<open>The filter of query parameters: a trie in two arrays, with the fields it holds.\<close>

record double_array =
  Encoding :: "(string \<times> nat) list"
  Base :: "nat list"
  Check :: "nat list"

definition filter_Query_IdentityAll_0 :: double_array where
  "filter_Query_IdentityAll_0 = \<lparr>Encoding = [], Base = [], Check = []\<rparr>"

definition filter_Query_IdentityByCccdId_0 :: double_array where
  "filter_Query_IdentityByCccdId_0 = \<lparr>Encoding = [(''idHash'', 0)], Base = [1, 1, 0], Check = [0, 1, 2]\<rparr>"

text \<open>
  What the gateway calls: \<open>runtime.String\<close>, \<open>runtime.PopulateQueryParameters\<close> for the two messages
  it fills, \<open>runtime.AnnotateContext\<close> and \<open>AnnotateIncomingContext\<close>, of which only the error counts
  here, and the text of an error.
\<close>

record ('p, 'ctx) gateway_rt =
  rt_String :: "string \<Rightarrow> error + string"
  populate_All :: "'p QueryAllIdentityRequest \<Rightarrow> form \<Rightarrow> double_array \<Rightarrow> error + 'p QueryAllIdentityRequest"
  populate_ById :: "'p QueryIdentityByCccdIdRequest \<Rightarrow> form \<Rightarrow> double_array \<Rightarrow> error + 'p QueryIdentityByCccdIdRequest"
  AnnotateContext :: "'ctx \<Rightarrow> error + unit"
  AnnotateIncomingContext :: "'ctx \<Rightarrow> error + unit"
  err_text :: "error \<Rightarrow> string"

text \<open>The two interfaces \<open>QueryClient\<close> and \<open>QueryServer\<close> have the same methods.\<close>

record ('p, 'q) query_api =
  call_Params :: "QueryParamsRequest \<Rightarrow> QueryParamsResponse res"
  call_Identity :: "QueryGetIdentityRequest \<Rightarrow> QueryGetIdentityResponse res"
  call_IdentityAll :: "'p QueryAllIdentityRequest \<Rightarrow> 'q QueryAllIdentityResponse res"
  call_IdentityByCccdId :: "'p QueryIdentityByCccdIdRequest \<Rightarrow> 'q QueryIdentityByCccdIdResponse res"

definition invalid_argument :: "string \<Rightarrow> error" where
  "invalid_argument s = ErrStatus ''InvalidArgument'' s"

definition path_param ::
    "('p, 'ctx) gateway_rt \<Rightarrow> string \<Rightarrow> (string \<Rightarrow> string option) \<Rightarrow> string res" where
  "path_param rt name pathParams =
     (case pathParams name of
        None \<Rightarrow> Err (invalid_argument (''missing parameter '' @ name))
      | Some val \<Rightarrow> (case rt_String rt val of
          Inl err \<Rightarrow> Err (invalid_argument
            (''type mismatch, parameter: '' @ name @ '', error: '' @ err_text rt err))
        | Inr s \<Rightarrow> Ok s))"

definition bad_form :: "('p, 'ctx) gateway_rt \<Rightarrow> error + 'a \<Rightarrow> 'a res" where
  "bad_form rt r = (case r of Inl err \<Rightarrow> Err (invalid_argument (err_text rt err)) | Inr a \<Rightarrow> Ok a)"

definition request_Query_Params_0 where
  "request_Query_Params_0 client parsed pathParams = call_Params client QueryParamsRequest"

definition local_request_Query_Params_0 where
  "local_request_Query_Params_0 server parsed pathParams = call_Params server QueryParamsRequest"

definition request_Query_Identity_0 where
  "request_Query_Identity_0 rt client parsed pathParams =
     (let protoReq = zero_QueryGetIdentityRequest in
      bind_res (path_param rt ''address'' pathParams) (\<lambda>val.
        call_Identity client (protoReq\<lparr>GetReq_Address := val\<rparr>)))"

definition local_request_Query_Identity_0 where
  "local_request_Query_Identity_0 rt server parsed pathParams =
     (let protoReq = zero_QueryGetIdentityRequest in
      bind_res (path_param rt ''address'' pathParams) (\<lambda>val.
        call_Identity server (protoReq\<lparr>GetReq_Address := val\<rparr>)))"

definition request_Query_IdentityAll_0 where
  "request_Query_IdentityAll_0 rt client parsed pathParams =
     bind_res (bad_form rt parsed) (\<lambda>form.
     bind_res (bad_form rt (populate_All rt zero_QueryAllIdentityRequest form filter_Query_IdentityAll_0)) (\<lambda>protoReq.
       call_IdentityAll client protoReq))"

definition local_request_Query_IdentityAll_0 where
  "local_request_Query_IdentityAll_0 rt server parsed pathParams =
     bind_res (bad_form rt parsed) (\<lambda>form.
     bind_res (bad_form rt (populate_All rt zero_QueryAllIdentityRequest form filter_Query_IdentityAll_0)) (\<lambda>protoReq.
       call_IdentityAll server protoReq))"

definition request_Query_IdentityByCccdId_0 where
  "request_Query_IdentityByCccdId_0 rt client parsed pathParams =
     (let protoReq = zero_QueryIdentityByCccdIdRequest in
      bind_res (path_param rt ''idHash'' pathParams) (\<lambda>val.
      let protoReq = protoReq\<lparr>ByIdReq_IdHash := val\<rparr> in
      bind_res (bad_form rt parsed) (\<lambda>form.
      bind_res (bad_form rt (populate_ById rt protoReq form filter_Query_IdentityByCccdId_0)) (\<lambda>protoReq.
        call_IdentityByCccdId client protoReq))))"

definition local_request_Query_IdentityByCccdId_0 where
  "local_request_Query_IdentityByCccdId_0 rt server parsed pathParams =
     (let protoReq = zero_QueryIdentityByCccdIdRequest in
      bind_res (path_param rt ''idHash'' pathParams) (\<lambda>val.
      let protoReq = protoReq\<lparr>ByIdReq_IdHash := val\<rparr> in
      bind_res (bad_form rt parsed) (\<lambda>form.
      bind_res (bad_form rt (populate_ById rt protoReq form filter_Query_IdentityByCccdId_0)) (\<lambda>protoReq.
        call_IdentityByCccdId server protoReq))))"

section \<open>Registration\<close>

text \<open>
  What is written to the HTTP client: an error through \<open>runtime.HTTPError\<close> or one of the four
  answers through \<open>runtime.ForwardResponseMessage\<close>.
\<close>

datatype 'q answer =
    HTTPError error
  | forward_Query_Params_0 QueryParamsResponse
  | forward_Query_Identity_0 QueryGetIdentityResponse
  | forward_Query_IdentityAll_0 "'q QueryAllIdentityResponse"
  | forward_Query_IdentityByCccdId_0 "'q QueryIdentityByCccdIdResponse"

definition handle_request ::
    "error + unit \<Rightarrow> 'r res \<Rightarrow> ('r \<Rightarrow> 'q answer) \<Rightarrow> 'q answer res" where
  "handle_request annotated request forward =
     (case annotated of
        Inl err \<Rightarrow> Ok (HTTPError err)
      | Inr _ \<Rightarrow> (case request of
          Err err \<Rightarrow> Ok (HTTPError err)
        | Ok resp \<Rightarrow> Ok (forward resp)
        | Panic \<Rightarrow> Panic
        | Diverge \<Rightarrow> Diverge))"

type_synonym ('ctx, 'q) http_handler =
  "'ctx \<Rightarrow> error + form \<Rightarrow> (string \<Rightarrow> string option) \<Rightarrow> 'q answer res"

type_synonym ('ctx, 'q) routes = "(string \<times> pattern \<times> ('ctx, 'q) http_handler) list"

definition RegisterQueryHandlerServer ::
    "('p, 'ctx) gateway_rt \<Rightarrow> ('p, 'q) query_api \<Rightarrow> ('ctx, 'q) routes" where
  "RegisterQueryHandlerServer rt server =
     [(''GET'', pattern_Query_Params_0, \<lambda>ctx parsed pathParams.
        handle_request (AnnotateIncomingContext rt ctx) (local_request_Query_Params_0 server parsed pathParams) forward_Query_Params_0),
      (''GET'', pattern_Query_Identity_0, \<lambda>ctx parsed pathParams.
        handle_request (AnnotateIncomingContext rt ctx) (local_request_Query_Identity_0 rt server parsed pathParams) forward_Query_Identity_0),
      (''GET'', pattern_Query_IdentityAll_0, \<lambda>ctx parsed pathParams.
        handle_request (AnnotateIncomingContext rt ctx) (local_request_Query_IdentityAll_0 rt server parsed pathParams)
          forward_Query_IdentityAll_0),
      (''GET'', pattern_Query_IdentityByCccdId_0, \<lambda>ctx parsed pathParams.
        handle_request (AnnotateIncomingContext rt ctx) (local_request_Query_IdentityByCccdId_0 rt server parsed pathParams)
          forward_Query_IdentityByCccdId_0)]"

definition RegisterQueryHandlerClient ::
    "('p, 'ctx) gateway_rt \<Rightarrow> ('p, 'q) query_api \<Rightarrow> ('ctx, 'q) routes" where
  "RegisterQueryHandlerClient rt client =
     [(''GET'', pattern_Query_Params_0, \<lambda>ctx parsed pathParams.
        handle_request (AnnotateContext rt ctx) (request_Query_Params_0 client parsed pathParams) forward_Query_Params_0),
      (''GET'', pattern_Query_Identity_0, \<lambda>ctx parsed pathParams.
        handle_request (AnnotateContext rt ctx) (request_Query_Identity_0 rt client parsed pathParams) forward_Query_Identity_0),
      (''GET'', pattern_Query_IdentityAll_0, \<lambda>ctx parsed pathParams.
        handle_request (AnnotateContext rt ctx) (request_Query_IdentityAll_0 rt client parsed pathParams) forward_Query_IdentityAll_0),
      (''GET'', pattern_Query_IdentityByCccdId_0, \<lambda>ctx parsed pathParams.
        handle_request (AnnotateContext rt ctx) (request_Query_IdentityByCccdId_0 rt client parsed pathParams)
          forward_Query_IdentityByCccdId_0)]"

text \<open>\<open>NewQueryClient\<close>: the stubs over a connection, which is one \<open>invoke\<close> per method for its types.\<close>

record ('p, 'q) connection =
  invoke_Params :: "(QueryParamsRequest, QueryParamsResponse) invoke"
  invoke_Identity :: "(QueryGetIdentityRequest, QueryGetIdentityResponse) invoke"
  invoke_IdentityAll :: "('p QueryAllIdentityRequest, 'q QueryAllIdentityResponse) invoke"
  invoke_IdentityByCccdId :: "('p QueryIdentityByCccdIdRequest, 'q QueryIdentityByCccdIdResponse) invoke"

definition NewQueryClient :: "('p, 'q) connection \<Rightarrow> ('p, 'q) query_api" where
  "NewQueryClient cc =
     \<lparr>call_Params = queryClient_Params (invoke_Params cc),
      call_Identity = queryClient_Identity (invoke_Identity cc),
      call_IdentityAll = queryClient_IdentityAll (invoke_IdentityAll cc),
      call_IdentityByCccdId = queryClient_IdentityByCccdId (invoke_IdentityByCccdId cc)\<rparr>"

definition RegisterQueryHandler ::
    "('p, 'ctx) gateway_rt \<Rightarrow> ('p, 'q) connection \<Rightarrow> ('ctx, 'q) routes" where
  "RegisterQueryHandler rt conn = RegisterQueryHandlerClient rt (NewQueryClient conn)"

text \<open>\<open>grpc.Dial\<close> is a parameter; the connection is closed when the context is done.\<close>

definition RegisterQueryHandlerFromEndpoint ::
    "('p, 'ctx) gateway_rt \<Rightarrow> (string \<Rightarrow> error + ('p, 'q) connection) \<Rightarrow> string \<Rightarrow> error + ('ctx, 'q) routes" where
  "RegisterQueryHandlerFromEndpoint rt Dial endpoint =
     (case Dial endpoint of
        Inl err \<Rightarrow> Inl err
      | Inr conn \<Rightarrow> Inr (RegisterQueryHandler rt conn))"

section \<open>The templates\<close>

lemma template_Params: "template_of pattern_Query_Params_0
    = Some [Literal ''Nexelra'', Literal ''identity'', Literal ''params'']"
  by (simp add: template_of_def pattern_Query_Params_0_def)

lemma template_Identity: "template_of pattern_Query_Identity_0
    = Some [Literal ''Nexelra'', Literal ''identity'', Literal ''identity'', Variable ''address'']"
  by (simp add: template_of_def pattern_Query_Identity_0_def)

lemma template_IdentityAll: "template_of pattern_Query_IdentityAll_0
    = Some [Literal ''Nexelra'', Literal ''identity'', Literal ''identity'']"
  by (simp add: template_of_def pattern_Query_IdentityAll_0_def)

lemma template_IdentityByCccdId: "template_of pattern_Query_IdentityByCccdId_0
    = Some [Literal ''Nexelra'', Literal ''identity'', Literal ''identity-by-cccd'', Variable ''idHash'']"
  by (simp add: template_of_def pattern_Query_IdentityByCccdId_0_def)

lemmas templates = template_Params template_Identity template_IdentityAll template_IdentityByCccdId

lemma match_Literal:
  "match_segments (Literal s # segs) cs
    = (case cs of c # cs' \<Rightarrow> if c = s then match_segments segs cs' else None | [] \<Rightarrow> None)"
  by (cases cs) simp_all

lemma match_Variable:
  "match_segments (Variable v # segs) cs
    = (case cs of c # cs' \<Rightarrow> map_option (\<lambda>m. m(v \<mapsto> c)) (match_segments segs cs') | [] \<Rightarrow> None)"
  by (cases cs) simp_all

lemma match_end: "match_segments [] cs = (if cs = [] then Some Map.empty else None)"
  by (cases cs) simp_all

lemmas match_rules = match_Literal match_Variable match_end

end
