(* ===== verification/Gateway_Properties.thy ===== *)
theory Gateway_Properties
  imports Gateway Query Store_Properties
begin

text \<open>
  The HTTP interface of the \<open>Query\<close> service: which path reaches which method with which
  arguments, what the client reads, and that a gateway beside the node answers like a gateway
  in the node. \<open>ServeMux\<close> of grpc-gateway is the parameter \<open>mux\<close>.
\<close>

section \<open>What is relied on\<close>

text \<open>
  The mux finds a registered route whose template matches the path, with the captured
  components, when there is one. A colon in a path separates a verb and is left out here.
\<close>

type_synonym ('ctx, 'q) mux =
  "('ctx, 'q) routes \<Rightarrow> string \<Rightarrow> string list \<Rightarrow> (('ctx, 'q) http_handler \<times> (string \<Rightarrow> string option)) option"

definition matches :: "pattern \<Rightarrow> string list \<Rightarrow> (string \<Rightarrow> string option) option" where
  "matches pat cs = Option.bind (template_of pat) (\<lambda>segs. match_segments segs cs)"

definition plain_path :: "string list \<Rightarrow> bool" where
  "plain_path cs \<longleftrightarrow> cs \<noteq> [] \<and> (\<forall>c \<in> set cs. CHR '':'' \<notin> set c)"

definition mux_lawful :: "('ctx, 'q) mux \<Rightarrow> bool" where
  "mux_lawful mux \<longleftrightarrow> (\<forall>routes verb cs. plain_path cs \<longrightarrow>
     (case mux routes verb cs of
        None \<Rightarrow> \<forall>(v, pat, h) \<in> set routes. v = verb \<longrightarrow> matches pat cs = None
      | Some (h, pathParams) \<Rightarrow> \<exists>pat. (verb, pat, h) \<in> set routes \<and> matches pat cs = Some pathParams))"

text \<open>
  \<open>runtime.String\<close> returns its argument; \<open>PopulateQueryParameters\<close> leaves a field alone whose path
  is in the filter.
\<close>

definition rt_lawful :: "('p, 'ctx) gateway_rt \<Rightarrow> bool" where
  "rt_lawful rt \<longleftrightarrow> (\<forall>val. rt_String rt val = Inr val)
     \<and> (\<forall>m form filter m'. ''idHash'' \<in> fst ` set (Encoding filter) \<longrightarrow>
          populate_ById rt m form filter = Inr m' \<longrightarrow> ByIdReq_IdHash m' = ByIdReq_IdHash m)"

definition http_get ::
    "('ctx, 'q) mux \<Rightarrow> ('ctx, 'q) routes \<Rightarrow> 'ctx \<Rightarrow> string list \<Rightarrow> error + form \<Rightarrow> 'q answer res option" where
  "http_get mux routes ctx cs parsed =
     map_option (\<lambda>(h, pathParams). h ctx parsed pathParams) (mux routes ''GET'' cs)"

section \<open>Routing\<close>

lemma matches_rules:
  "matches pattern_Query_Params_0 cs
    = (if cs = [''Nexelra'', ''identity'', ''params''] then Some Map.empty else None)"
  "matches pattern_Query_IdentityAll_0 cs
    = (if cs = [''Nexelra'', ''identity'', ''identity''] then Some Map.empty else None)"
  "matches pattern_Query_Identity_0 cs
    = (case cs of [a, b, c, x] \<Rightarrow> if [a, b, c] = [''Nexelra'', ''identity'', ''identity'']
         then Some [''address'' \<mapsto> x] else None | _ \<Rightarrow> None)"
  "matches pattern_Query_IdentityByCccdId_0 cs
    = (case cs of [a, b, c, x] \<Rightarrow> if [a, b, c] = [''Nexelra'', ''identity'', ''identity-by-cccd'']
         then Some [''idHash'' \<mapsto> x] else None | _ \<Rightarrow> None)"
  by (auto simp: matches_def templates match_rules split: list.split)


text \<open>
  The rules that \<open>query.proto\<close> annotates the methods with; no two of them apply to one path.
\<close>

definition routed :: "'h \<Rightarrow> 'h \<Rightarrow> 'h \<Rightarrow> 'h \<Rightarrow> string list \<Rightarrow> ('h \<times> (string \<Rightarrow> string option)) option" where
  "routed params identity identityAll byHash cs =
     (case cs of
        [a, b, c] \<Rightarrow>
          if [a, b, c] = [''Nexelra'', ''identity'', ''params''] then Some (params, Map.empty)
          else if [a, b, c] = [''Nexelra'', ''identity'', ''identity''] then Some (identityAll, Map.empty)
          else None
      | [a, b, c, x] \<Rightarrow>
          if [a, b, c] = [''Nexelra'', ''identity'', ''identity''] then Some (identity, [''address'' \<mapsto> x])
          else if [a, b, c] = [''Nexelra'', ''identity'', ''identity-by-cccd''] then Some (byHash, [''idHash'' \<mapsto> x])
          else None
      | _ \<Rightarrow> None)"

lemma matches_iff:
  "matches pattern_Query_Params_0 cs = Some pp
    \<longleftrightarrow> cs = [''Nexelra'', ''identity'', ''params''] \<and> pp = Map.empty"
  "matches pattern_Query_IdentityAll_0 cs = Some pp
    \<longleftrightarrow> cs = [''Nexelra'', ''identity'', ''identity''] \<and> pp = Map.empty"
  "matches pattern_Query_Identity_0 cs = Some pp
    \<longleftrightarrow> (\<exists>x. cs = [''Nexelra'', ''identity'', ''identity'', x] \<and> pp = [''address'' \<mapsto> x])"
  "matches pattern_Query_IdentityByCccdId_0 cs = Some pp
    \<longleftrightarrow> (\<exists>x. cs = [''Nexelra'', ''identity'', ''identity-by-cccd'', x] \<and> pp = [''idHash'' \<mapsto> x])"
  by (auto simp: matches_rules split: list.splits)

lemma routed_matches:
  "routed hp hi ha hb cs = (case matches pattern_Query_Params_0 cs of Some pp \<Rightarrow> Some (hp, pp)
    | None \<Rightarrow> (case matches pattern_Query_Identity_0 cs of Some pp \<Rightarrow> Some (hi, pp)
    | None \<Rightarrow> (case matches pattern_Query_IdentityAll_0 cs of Some pp \<Rightarrow> Some (ha, pp)
    | None \<Rightarrow> map_option (Pair hb) (matches pattern_Query_IdentityByCccdId_0 cs))))"
  by (simp add: routed_def matches_rules split: list.split)

lemma routed_paths [simp]:
  "routed hp hi ha hb [''Nexelra'', ''identity'', ''params''] = Some (hp, Map.empty)"
  "routed hp hi ha hb [''Nexelra'', ''identity'', ''identity''] = Some (ha, Map.empty)"
  "routed hp hi ha hb [''Nexelra'', ''identity'', ''identity'', a] = Some (hi, [''address'' \<mapsto> a])"
  "routed hp hi ha hb [''Nexelra'', ''identity'', ''identity-by-cccd'', a] = Some (hb, [''idHash'' \<mapsto> a])"
  by (simp_all add: routed_def)

lemma routed_NoneD:
  "routed hp hi ha hb cs = None \<Longrightarrow> \<nexists>a. cs \<in>
    {[''Nexelra'', ''identity'', ''params''], [''Nexelra'', ''identity'', ''identity''],
     [''Nexelra'', ''identity'', ''identity'', a], [''Nexelra'', ''identity'', ''identity-by-cccd'', a]}"
  by auto

lemma routed_SomeD:
  assumes "routed hp hi ha hb cs = Some r"
  shows "r = (hp, Map.empty) \<and> cs = [''Nexelra'', ''identity'', ''params'']
    \<or> r = (ha, Map.empty) \<and> cs = [''Nexelra'', ''identity'', ''identity'']
    \<or> (\<exists>a. r = (hi, [''address'' \<mapsto> a]) \<and> cs = [''Nexelra'', ''identity'', ''identity'', a])
    \<or> (\<exists>a. r = (hb, [''idHash'' \<mapsto> a]) \<and> cs = [''Nexelra'', ''identity'', ''identity-by-cccd'', a])"
  using assms by (auto simp: routed_matches matches_iff split: option.splits)

lemma routed_cases:
  obtains "cs = [''Nexelra'', ''identity'', ''params'']" | "cs = [''Nexelra'', ''identity'', ''identity'']"
  | a where "cs = [''Nexelra'', ''identity'', ''identity'', a]"
  | a where "cs = [''Nexelra'', ''identity'', ''identity-by-cccd'', a]"
  | (other) "matches pattern_Query_Params_0 cs = None" "matches pattern_Query_Identity_0 cs = None"
      "matches pattern_Query_IdentityAll_0 cs = None" "matches pattern_Query_IdentityByCccdId_0 cs = None"
proof -
  consider "\<exists>pp. matches pattern_Query_Params_0 cs = Some pp" | "\<exists>pp. matches pattern_Query_Identity_0 cs = Some pp"
    | "\<exists>pp. matches pattern_Query_IdentityAll_0 cs = Some pp"
    | "\<exists>pp. matches pattern_Query_IdentityByCccdId_0 cs = Some pp"
    | "matches pattern_Query_Params_0 cs = None" "matches pattern_Query_Identity_0 cs = None"
      "matches pattern_Query_IdentityAll_0 cs = None" "matches pattern_Query_IdentityByCccdId_0 cs = None"
    by fastforce
  then show thesis
    using that(1-4) unfolding matches_iff by cases (blast, blast, blast, blast, rule other)
qed

lemma routed_map:
  "map_option (\<lambda>(h, pathParams). g h pathParams) (routed hp hi ha hb cs)
    = map_option (\<lambda>(f, pathParams). f pathParams) (routed (g hp) (g hi) (g ha) (g hb) cs)"
  by (simp add: routed_matches map_option_case split: option.split)

lemma mux_routed:
  assumes "mux_lawful mux" "plain_path cs"
  shows "mux [(''GET'', pattern_Query_Params_0, hp), (''GET'', pattern_Query_Identity_0, hi),
      (''GET'', pattern_Query_IdentityAll_0, ha), (''GET'', pattern_Query_IdentityByCccdId_0, hb)] ''GET'' cs
    = routed hp hi ha hb cs" (is "mux ?routes _ _ = _")
proof -
  have *: "case mux ?routes ''GET'' cs of
      None \<Rightarrow> \<forall>(v, pat, h) \<in> set ?routes. v = ''GET'' \<longrightarrow> matches pat cs = None
    | Some (h, pathParams) \<Rightarrow> \<exists>pat. (''GET'', pat, h) \<in> set ?routes \<and> matches pat cs = Some pathParams"
    using assms unfolding mux_lawful_def by blast
  then show ?thesis
  proof (cases "mux ?routes ''GET'' cs")
    case None
    with * have "matches pat cs = None" if "pat \<in> {pattern_Query_Params_0, pattern_Query_Identity_0,
        pattern_Query_IdentityAll_0, pattern_Query_IdentityByCccdId_0}" for pat
      using that by auto
    with None show ?thesis by (simp add: routed_matches)
  next
    case (Some r)
    with * show ?thesis
      by (cases r) (auto simp: matches_iff routed_def)
  qed
qed

lemma path_param_bound: "rt_lawful rt \<Longrightarrow> path_param rt v [v \<mapsto> x] = Ok x"
  by (simp add: path_param_def rt_lawful_def)

lemma http_get_server:
  assumes "mux_lawful mux" "plain_path cs"
  shows "http_get mux (RegisterQueryHandlerServer rt server) ctx cs parsed = map_option
    (\<lambda>(request, pathParams). request pathParams)
    (routed
      (\<lambda>pp. handle_request (AnnotateIncomingContext rt ctx)
         (local_request_Query_Params_0 server parsed pp) forward_Query_Params_0)
      (\<lambda>pp. handle_request (AnnotateIncomingContext rt ctx)
         (local_request_Query_Identity_0 rt server parsed pp) forward_Query_Identity_0)
      (\<lambda>pp. handle_request (AnnotateIncomingContext rt ctx)
         (local_request_Query_IdentityAll_0 rt server parsed pp) forward_Query_IdentityAll_0)
      (\<lambda>pp. handle_request (AnnotateIncomingContext rt ctx)
         (local_request_Query_IdentityByCccdId_0 rt server parsed pp) forward_Query_IdentityByCccdId_0) cs)"
  unfolding http_get_def RegisterQueryHandlerServer_def mux_routed [OF assms]
  by (subst routed_map [where g = "\<lambda>h. h ctx parsed"]) simp

section \<open>Examples\<close>

text \<open>A mux that takes the first route, and a runtime that reads the hash from the query.\<close>

definition first_match :: "('ctx, 'q) mux" where
  "first_match routes verb cs = map_option (\<lambda>(v, pat, h). (h, the (matches pat cs)))
     (find (\<lambda>(v, pat, h). v = verb \<and> matches pat cs \<noteq> None) routes)"

lemma first_match_lawful: "mux_lawful first_match"
  unfolding mux_lawful_def first_match_def
  by (fastforce simp: find_None_iff find_Some_iff in_set_conv_nth split: option.split)

definition ex_rt :: "('p, unit) gateway_rt" where
  "ex_rt = \<lparr>rt_String = Inr,
     populate_All = (\<lambda>m form f. Inr m),
     populate_ById = (\<lambda>m form f. if ''idHash'' \<in> fst ` set (Encoding f) then Inr m
       else case map_of form ''idHash'' of
           Some [v] \<Rightarrow> Inr (m\<lparr>ByIdReq_IdHash := v\<rparr>)
         | Some _ \<Rightarrow> Inl (ErrExternal ''too many values for field idHash'')
         | None \<Rightarrow> Inr m),
     AnnotateContext = Inr, AnnotateIncomingContext = Inr, err_text = (\<lambda>e. ''error'')\<rparr>"

lemma ex_rt_lawful: "rt_lawful ex_rt"
  by (simp add: rt_lawful_def ex_rt_def)

lemma ex_rt_annotates: "AnnotateIncomingContext ex_rt () = Inr ()"
  by (simp add: ex_rt_def)

section \<open>The keeper behind the gateway\<close>

text \<open>The keeper as a \<open>QueryServer\<close>.\<close>

definition keeper_api :: "('s, 'p, 'q) paginate \<Rightarrow> 's Keeper \<Rightarrow> 's \<Rightarrow> ('p, 'q) query_api" where
  "keeper_api paginate k s =
     \<lparr>call_Params = (\<lambda>req. ParamsQuery k s (Some req)),
      call_Identity = (\<lambda>req. IdentityQuery k s (Some req)),
      call_IdentityAll = (\<lambda>req. IdentityAll paginate k s (Some req)),
      call_IdentityByCccdId = (\<lambda>req. IdentityByCccdId paginate k s (Some req))\<rparr>"

definition ex_api :: "(nat \<times> nat \<times> bool, nat) query_api" where
  "ex_api = keeper_api (offset_paginate mem_kv) ex_keeper example_store"

lemma plain_rules [simp]:
  "plain_path [''Nexelra'', ''identity'', ''identity'', a] \<longleftrightarrow> CHR '':'' \<notin> set a"
  "plain_path [''Nexelra'', ''identity'', ''identity-by-cccd'', a] \<longleftrightarrow> CHR '':'' \<notin> set a"
  by (simp_all add: plain_path_def)

lemma local_identity:
  assumes "rt_lawful rt" "keeper_inv k s"
  shows "handle_request (Inr ()) (local_request_Query_Identity_0 rt (keeper_api paginate k s) parsed
      [''address'' \<mapsto> a]) forward_Query_Identity_0
    = Ok (case identities k s a of
         None \<Rightarrow> HTTPError (ErrStatus ''NotFound'' ''not found'')
       | Some i \<Rightarrow> forward_Query_Identity_0 \<lparr>GetResp_Identity = i\<rparr>)"
  by (simp add: local_request_Query_Identity_0_def path_param_bound [OF assms(1)] handle_request_def
      keeper_api_def IdentityQuery_def zero_QueryGetIdentityRequest_def
      keeper_store.get_lookup [OF assms(2)] split: option.split)

lemma rt_lawful_idHash:
  assumes "rt_lawful rt" "''idHash'' \<in> fst ` set (Encoding f)" "populate_ById rt m form f = Inr m'"
  shows "ByIdReq_IdHash m' = ByIdReq_IdHash m"
  using assms by (simp add: rt_lawful_def)


lemma by_hash_answers:
  assumes "keeper_inv k s" "paginate_lawful (storeService k) paginate page resp"
  shows "(\<exists>e. IdentityByCccdId paginate k s (Some req) = Err e)
    \<or> (\<exists>r. IdentityByCccdId paginate k s (Some req) = Ok r \<and> (\<forall>i \<in> set (ByIdResp_Identity r).
          IdHash i = ByIdReq_IdHash req \<and> identities k s (Address i) = Some i))"
proof -
  obtain l where l: "GetAllIdentity k s = Ok l" "set l = ran (identities k s)"
    using keeper_store.all_OkE [OF assms(1)] by metis
  have own: "identities k s (Address i) = Some i" if "i \<in> set l" for i
    using that l(2) keeper_store.lookup_own [OF assms(1)] by (auto simp: ran_def)
  obtain zs where zs: "subseq zs l \<or> subseq zs (rev l)"
    and "\<And>h. IdentityByCccdId paginate k s (Some \<lparr>ByIdReq_IdHash = h, ByIdReq_Pagination = ByIdReq_Pagination req\<rparr>)
      = (case resp (ByIdReq_Pagination req) (pfx_iter (storeService k) s (KeyPrefix IdentityKeyPrefix)) of
           Inl e \<Rightarrow> Err (ErrInternal e)
         | Inr r \<Rightarrow> Ok \<lparr>ByIdResp_Identity = filter (\<lambda>i. IdHash i = h) zs, ByIdResp_Pagination = Some r\<rparr>)"
    by (rule paginated_handlers [OF assms(1) l(1) assms(2), of "ByIdReq_Pagination req"]) (rule that)
  from this(2) [of "ByIdReq_IdHash req"] have "IdentityByCccdId paginate k s (Some req)
      = (case resp (ByIdReq_Pagination req) (pfx_iter (storeService k) s (KeyPrefix IdentityKeyPrefix)) of
           Inl e \<Rightarrow> Err (ErrInternal e)
         | Inr r \<Rightarrow> Ok \<lparr>ByIdResp_Identity = filter (\<lambda>i. IdHash i = ByIdReq_IdHash req) zs,
                       ByIdResp_Pagination = Some r\<rparr>)"
    by (cases req) simp
  moreover have "set zs \<subseteq> set l"
    using zs set_nths_subset unfolding subseq_conv_nths by (metis set_rev)
  ultimately show ?thesis using own by (auto split: sum.split)
qed


lemma local_by_hash:
  assumes "rt_lawful rt" "keeper_inv k s" "paginate_lawful (storeService k) paginate page resp"
  shows "\<exists>answer. handle_request (Inr ()) (local_request_Query_IdentityByCccdId_0 rt (keeper_api paginate k s)
      parsed [''idHash'' \<mapsto> h]) forward_Query_IdentityByCccdId_0 = Ok answer
    \<and> ((\<exists>e. answer = HTTPError e)
       \<or> (\<exists>r. answer = forward_Query_IdentityByCccdId_0 r
           \<and> (\<forall>i \<in> set (ByIdResp_Identity r). IdHash i = h \<and> identities k s (Address i) = Some i)))"
proof -
  note request = local_request_Query_IdentityByCccdId_0_def path_param_bound [OF assms(1)] handle_request_def
    bad_form_def keeper_api_def
  let ?req = "zero_QueryIdentityByCccdIdRequest\<lparr>ByIdReq_IdHash := h\<rparr>"
  show ?thesis
  proof (cases parsed)
    case (Inr form)
    show ?thesis
    proof (cases "populate_ById rt ?req form filter_Query_IdentityByCccdId_0")
      case populated: (Inr req)
      have "ByIdReq_IdHash req = h"
        using rt_lawful_idHash [OF assms(1) _ populated] by (simp add: filter_Query_IdentityByCccdId_0_def)
      with by_hash_answers [OF assms(2,3), of req] populated Inr show ?thesis by (auto simp: request)
    qed (simp add: request Inr)
  qed (simp add: request)
qed

text \<open>
  C24: Every identity that a client reads under \<open>/Nexelra/identity/identity-by-cccd/{h}\<close> is stored and
  has the hash \<open>h\<close>, whatever the query parameters say; all other outcomes are errors.
\<close>

theorem gateway_by_hash:
  assumes "mux_lawful mux" "rt_lawful rt" "AnnotateIncomingContext rt ctx = Inr ()" "keeper_inv k s"
    and "paginate_lawful (storeService k) paginate page resp" "CHR '':'' \<notin> set h"
  shows "\<exists>answer. http_get mux (RegisterQueryHandlerServer rt (keeper_api paginate k s)) ctx
      [''Nexelra'', ''identity'', ''identity-by-cccd'', h] parsed = Some (Ok answer)
    \<and> ((\<exists>e. answer = HTTPError e)
       \<or> (\<exists>r. answer = forward_Query_IdentityByCccdId_0 r
           \<and> (\<forall>i \<in> set (ByIdResp_Identity r). IdHash i = h \<and> identities k s (Address i) = Some i)))"
proof -
  let ?cs = "[''Nexelra'', ''identity'', ''identity-by-cccd'', h]"
  have "plain_path [''Nexelra'', ''identity'', ''identity-by-cccd'', h]" using assms(6) by simp
  then show ?thesis
    using local_by_hash [OF assms(2,4,5), of parsed h]
    by (simp add: http_get_server [OF assms(1)] assms(3))
qed

theorem gateway_by_hash_witness:
  "\<exists>answer. http_get first_match (RegisterQueryHandlerServer ex_rt ex_api) ()
      [''Nexelra'', ''identity'', ''identity-by-cccd'', ''ab12''] (Inr [(''idHash'', [''ff00''])]) = Some (Ok answer)
    \<and> ((\<exists>e. answer = HTTPError e)
       \<or> (\<exists>r. answer = forward_Query_IdentityByCccdId_0 r
           \<and> (\<forall>i \<in> set (ByIdResp_Identity r). IdHash i = ''ab12''
             \<and> identities ex_keeper example_store (Address i) = Some i)))"
proof -
  have "paginate_lawful (storeService ex_keeper) (offset_paginate mem_kv) offset_page offset_resp"
    using offset_paginate_lawful [of mem_kv] by (simp add: mem_keeper_def)
  from gateway_by_hash [OF first_match_lawful ex_rt_lawful ex_rt_annotates example_inv this, of "''ab12''"]
  show ?thesis unfolding ex_api_def by simp
qed

section \<open>A gateway beside the node\<close>

text \<open>
  A connection to the node that serves \<open>server\<close>: each of its methods sends the encoded request
  to the method's handler and decodes the answer.
\<close>

definition connected ::
    "'p msg_codec \<Rightarrow> 'q msg_codec \<Rightarrow> ('p, 'q) connection \<Rightarrow> ('p, 'q) query_api \<Rightarrow> bool" where
  "connected pc qc conn server \<longleftrightarrow>
     speaks (invoke_Params conn) ''/nexelra.identity.Query/Params'' QueryParamsRequest_Marshal
       (\<lambda>d. Query_Params_Handler (call_Params server) (QueryParamsRequest_Unmarshal d) None)
       QueryParamsResponse_Marshal QueryParamsResponse_Unmarshal
   \<and> speaks (invoke_Identity conn) ''/nexelra.identity.Query/Identity'' QueryGetIdentityRequest_Marshal
       (\<lambda>d. Query_Identity_Handler (call_Identity server) (QueryGetIdentityRequest_Unmarshal d) None)
       QueryGetIdentityResponse_Marshal QueryGetIdentityResponse_Unmarshal
   \<and> speaks (invoke_IdentityAll conn) ''/nexelra.identity.Query/IdentityAll'' (QueryAllIdentityRequest_Marshal pc)
       (\<lambda>d. Query_IdentityAll_Handler (call_IdentityAll server) (QueryAllIdentityRequest_Unmarshal pc d) None)
       (QueryAllIdentityResponse_Marshal qc) (QueryAllIdentityResponse_Unmarshal qc)
   \<and> speaks (invoke_IdentityByCccdId conn) ''/nexelra.identity.Query/IdentityByCccdId''
       (QueryIdentityByCccdIdRequest_Marshal pc)
       (\<lambda>d. Query_IdentityByCccdId_Handler (call_IdentityByCccdId server)
          (QueryIdentityByCccdIdRequest_Unmarshal pc d) None)
       (QueryIdentityByCccdIdResponse_Marshal qc) (QueryIdentityByCccdIdResponse_Unmarshal qc)"

lemma fits_Nil: "fits []"
  by (simp add: fits_def)

lemma fits_enc_str_short: "length a < 2 ^ 61 \<Longrightarrow> fits (enc_str tag a)"
  using length_enc_str_le [of tag a] by (simp add: fits_def)

lemma small_address:
  assumes "length a < 2 ^ 61"
  shows "small_QueryGetIdentityRequest (zero_QueryGetIdentityRequest\<lparr>GetReq_Address := a\<rparr>)"
  by (simp add: small_QueryGetIdentityRequest_def enc_QueryGetIdentityRequest_def
      zero_QueryGetIdentityRequest_def fits_enc_str_short [OF assms])

text \<open>What the server answers can be encoded.\<close>

definition small_answers ::
    "('q \<Rightarrow> bytes) \<Rightarrow> ('q \<Rightarrow> bool) \<Rightarrow> ('p, 'q) query_api \<Rightarrow> bool" where
  "small_answers qenc qsmall server \<longleftrightarrow>
     (\<forall>req r. call_Params server req = Ok r \<longrightarrow> small_QueryParamsResponse r)
   \<and> (\<forall>req r. call_Identity server req = Ok r \<longrightarrow> small_QueryGetIdentityResponse r)
   \<and> (\<forall>req r. call_IdentityAll server req = Ok r \<longrightarrow> small_QueryAllIdentityResponse qenc qsmall r)
   \<and> (\<forall>req r. call_IdentityByCccdId server req = Ok r \<longrightarrow> small_QueryIdentityByCccdIdResponse qenc qsmall r)"

lemma client_is_server:
  assumes "embedded_codec pc penc psmall" "embedded_codec qc qenc qsmall" "connected pc qc conn server"
    and "small_answers qenc qsmall server"
  shows "call_Params (NewQueryClient conn) QueryParamsRequest = call_Params server QueryParamsRequest"
    and "small_QueryGetIdentityRequest req1 \<Longrightarrow> call_Identity (NewQueryClient conn) req1 = call_Identity server req1"
    and "small_QueryAllIdentityRequest penc psmall req2 \<Longrightarrow>
      call_IdentityAll (NewQueryClient conn) req2 = call_IdentityAll server req2"
    and "small_QueryIdentityByCccdIdRequest penc psmall req3 \<Longrightarrow>
      call_IdentityByCccdId (NewQueryClient conn) req3 = call_IdentityByCccdId server req3"
proof -
  note c = assms(3) [unfolded connected_def Query_Params_Handler_def Query_Identity_Handler_def
      Query_IdentityAll_Handler_def Query_IdentityByCccdId_Handler_def]
  note a = assms(4) [unfolded small_answers_def]
  show "call_Params (NewQueryClient conn) QueryParamsRequest = call_Params server QueryParamsRequest"
    using rpc_Params.call_is_server [OF conjunct1 [OF c]] a
    by (simp add: NewQueryClient_def queryClient_Params_def)
  show "call_Identity (NewQueryClient conn) req1 = call_Identity server req1"
    if "small_QueryGetIdentityRequest req1"
    using rpc_Identity.call_is_server [OF conjunct1 [OF conjunct2 [OF c]] that] a
    by (simp add: NewQueryClient_def queryClient_Identity_def)
  show "call_IdentityAll (NewQueryClient conn) req2 = call_IdentityAll server req2"
    if "small_QueryAllIdentityRequest penc psmall req2"
    using unary_rpc.call_is_server [OF rpc_IdentityAll [OF assms(1,2)] conjunct1 [OF conjunct2 [OF conjunct2 [OF c]]]
        that] a
    by (simp add: NewQueryClient_def queryClient_IdentityAll_def)
  show "call_IdentityByCccdId (NewQueryClient conn) req3 = call_IdentityByCccdId server req3"
    if "small_QueryIdentityByCccdIdRequest penc psmall req3"
    using unary_rpc.call_is_server [OF rpc_IdentityByCccdId [OF assms(1,2)]
        conjunct2 [OF conjunct2 [OF conjunct2 [OF c]]] that] a
    by (simp add: NewQueryClient_def queryClient_IdentityByCccdId_def)
qed

text \<open>The client fills a request that can be encoded, if the path is not absurdly long.\<close>

definition small_forms ::
    "('p, 'ctx) gateway_rt \<Rightarrow> ('p \<Rightarrow> bytes) \<Rightarrow> ('p \<Rightarrow> bool) \<Rightarrow> bool" where
  "small_forms rt penc psmall \<longleftrightarrow>
     (\<forall>form req.
        populate_All rt zero_QueryAllIdentityRequest form filter_Query_IdentityAll_0 = Inr req \<longrightarrow>
        small_QueryAllIdentityRequest penc psmall req)
   \<and> (\<forall>h form req. length h < 2 ^ 61 \<longrightarrow>
        populate_ById rt (zero_QueryIdentityByCccdIdRequest\<lparr>ByIdReq_IdHash := h\<rparr>) form
          filter_Query_IdentityByCccdId_0 = Inr req \<longrightarrow>
        small_QueryIdentityByCccdIdRequest penc psmall req)"

lemma http_get_client:
  assumes "mux_lawful mux" "plain_path cs"
  shows "http_get mux (RegisterQueryHandlerClient rt client) ctx cs parsed = map_option
    (\<lambda>(request, pathParams). request pathParams)
    (routed
      (\<lambda>pp. handle_request (AnnotateContext rt ctx)
         (request_Query_Params_0 client parsed pp) forward_Query_Params_0)
      (\<lambda>pp. handle_request (AnnotateContext rt ctx)
         (request_Query_Identity_0 rt client parsed pp) forward_Query_Identity_0)
      (\<lambda>pp. handle_request (AnnotateContext rt ctx)
         (request_Query_IdentityAll_0 rt client parsed pp) forward_Query_IdentityAll_0)
      (\<lambda>pp. handle_request (AnnotateContext rt ctx)
         (request_Query_IdentityByCccdId_0 rt client parsed pp) forward_Query_IdentityByCccdId_0) cs)"
  unfolding http_get_def RegisterQueryHandlerClient_def mux_routed [OF assms]
  by (subst routed_map [where g = "\<lambda>h. h ctx parsed"]) simp

lemma request_is_local:
  assumes "embedded_codec pc penc psmall" "embedded_codec qc qenc qsmall" "connected pc qc conn server"
    and "small_answers qenc qsmall server" "rt_lawful rt" "small_forms rt penc psmall"
  defines "client \<equiv> NewQueryClient conn"
  shows "request_Query_Params_0 client parsed pp = local_request_Query_Params_0 server parsed pp"
    and "length a < 2 ^ 61 \<Longrightarrow> request_Query_Identity_0 rt client parsed [''address'' \<mapsto> a]
      = local_request_Query_Identity_0 rt server parsed [''address'' \<mapsto> a]"
    and "request_Query_IdentityAll_0 rt client parsed pp = local_request_Query_IdentityAll_0 rt server parsed pp"
    and "length h < 2 ^ 61 \<Longrightarrow> request_Query_IdentityByCccdId_0 rt client parsed [''idHash'' \<mapsto> h]
      = local_request_Query_IdentityByCccdId_0 rt server parsed [''idHash'' \<mapsto> h]"
proof -
  note same = client_is_server [OF assms(1-4)] and small = assms(6) [unfolded small_forms_def]
  show "request_Query_Params_0 client parsed pp = local_request_Query_Params_0 server parsed pp"
    by (simp add: request_Query_Params_0_def local_request_Query_Params_0_def client_def same)
  show "request_Query_Identity_0 rt client parsed [''address'' \<mapsto> a]
      = local_request_Query_Identity_0 rt server parsed [''address'' \<mapsto> a]" if "length a < 2 ^ 61"
    using same(2) [OF small_address [OF that]]
    by (simp add: request_Query_Identity_0_def local_request_Query_Identity_0_def client_def
        path_param_bound [OF assms(5)])
  show "request_Query_IdentityAll_0 rt client parsed pp = local_request_Query_IdentityAll_0 rt server parsed pp"
    using small same(3)
    by (auto simp: request_Query_IdentityAll_0_def local_request_Query_IdentityAll_0_def client_def bad_form_def
        split: sum.split)
  show "request_Query_IdentityByCccdId_0 rt client parsed [''idHash'' \<mapsto> h]
      = local_request_Query_IdentityByCccdId_0 rt server parsed [''idHash'' \<mapsto> h]" if "length h < 2 ^ 61"
    using small same(4) that
    by (auto simp: request_Query_IdentityByCccdId_0_def local_request_Query_IdentityByCccdId_0_def client_def
        bad_form_def path_param_bound [OF assms(5)] split: sum.split)
qed

text \<open>
  C25: A gateway that reaches the node over a connection answers every \<open>GET\<close> like a gateway that calls
  the node's server, also with errors: the codecs of both sides lose nothing on the way.
\<close>

theorem gateway_beside_node:
  assumes "embedded_codec pc penc psmall" "embedded_codec qc qenc qsmall" "connected pc qc conn server"
    and "small_answers qenc qsmall server" "rt_lawful rt" "small_forms rt penc psmall" "mux_lawful mux"
    and "AnnotateContext rt ctx = AnnotateIncomingContext rt ctx"
    and "plain_path cs" "\<forall>c \<in> set cs. length c < 2 ^ 61"
  shows "http_get mux (RegisterQueryHandler rt conn) ctx cs parsed
    = http_get mux (RegisterQueryHandlerServer rt server) ctx cs parsed"
proof -
  note same = request_is_local [OF assms(1-6)]
  note unfolds = RegisterQueryHandler_def http_get_client [OF assms(7,9)] http_get_server [OF assms(7,9)]
  show ?thesis
  proof (cases rule: routed_cases [of cs])
    case other
    then show ?thesis unfolding unfolds by (simp add: routed_matches)
  qed (unfold unfolds, use assms(10) in \<open>simp_all add: same assms(8)\<close>)
qed

text \<open>A server and a connection to it, with identities in the place of page messages.\<close>

definition ex_server :: "(Identity, Identity) query_api" where
  "ex_server = \<lparr>call_Params = (\<lambda>req. Ok zero_QueryParamsResponse),
     call_Identity = (\<lambda>req. if GetReq_Address req = ''nexelra1alice''
       then Ok \<lparr>GetResp_Identity = zero_Identity\<rparr> else Err (ErrStatus ''NotFound'' ''not found'')),
     call_IdentityAll = (\<lambda>req. Ok zero_QueryAllIdentityResponse),
     call_IdentityByCccdId = (\<lambda>req. Ok zero_QueryIdentityByCccdIdResponse)\<rparr>"

definition ex_conn :: "(Identity, Identity) connection" where
  "ex_conn = \<lparr>
     invoke_Params = (\<lambda>method. wire_call QueryParamsRequest_Marshal
       (\<lambda>d. Query_Params_Handler (call_Params ex_server) (QueryParamsRequest_Unmarshal d) None)
       QueryParamsResponse_Marshal QueryParamsResponse_Unmarshal),
     invoke_Identity = (\<lambda>method. wire_call QueryGetIdentityRequest_Marshal
       (\<lambda>d. Query_Identity_Handler (call_Identity ex_server) (QueryGetIdentityRequest_Unmarshal d) None)
       QueryGetIdentityResponse_Marshal QueryGetIdentityResponse_Unmarshal),
     invoke_IdentityAll = (\<lambda>method. wire_call (QueryAllIdentityRequest_Marshal Identity_msg_codec)
       (\<lambda>d. Query_IdentityAll_Handler (call_IdentityAll ex_server)
          (QueryAllIdentityRequest_Unmarshal Identity_msg_codec d) None)
       (QueryAllIdentityResponse_Marshal Identity_msg_codec) (QueryAllIdentityResponse_Unmarshal Identity_msg_codec)),
     invoke_IdentityByCccdId = (\<lambda>method. wire_call (QueryIdentityByCccdIdRequest_Marshal Identity_msg_codec)
       (\<lambda>d. Query_IdentityByCccdId_Handler (call_IdentityByCccdId ex_server)
          (QueryIdentityByCccdIdRequest_Unmarshal Identity_msg_codec d) None)
       (QueryIdentityByCccdIdResponse_Marshal Identity_msg_codec)
       (QueryIdentityByCccdIdResponse_Unmarshal Identity_msg_codec))\<rparr>"

lemma ex_connected: "connected Identity_msg_codec Identity_msg_codec ex_conn ex_server"
  by (simp add: connected_def speaks_def ex_conn_def)

theorem gateway_beside_node_witness:
  "http_get first_match (RegisterQueryHandler ex_rt ex_conn) ()
      [''Nexelra'', ''identity'', ''identity'', ''nexelra1alice''] (Inr [])
    = http_get first_match (RegisterQueryHandlerServer ex_rt ex_server) ()
      [''Nexelra'', ''identity'', ''identity'', ''nexelra1alice''] (Inr [])"
proof (rule gateway_beside_node [OF identity_embedded.embedded_codec_axioms identity_embedded.embedded_codec_axioms
      ex_connected _ ex_rt_lawful _ first_match_lawful])
  have e: "enc_Identity zero_Identity = []"
    by (simp add: enc_Identity_def zero_Identity_def enc_str_def enc_opt_int_def)
  show "small_answers enc_Identity small_Identity ex_server"
    by (auto simp: small_answers_def ex_server_def small_QueryParamsResponse_def enc_QueryParamsResponse_def
        zero_QueryParamsResponse_def small_QueryGetIdentityResponse_def enc_QueryGetIdentityResponse_def e
        small_QueryAllIdentityResponse_def enc_QueryAllIdentityResponse_def zero_QueryAllIdentityResponse_def
        small_QueryIdentityByCccdIdResponse_def enc_QueryIdentityByCccdIdResponse_def
        zero_QueryIdentityByCccdIdResponse_def enc_msgs_def enc_opt_msg_def fits_def enc_Params_def length_enc_len
        uvarint_small split: if_splits)
  show "small_forms ex_rt enc_Identity small_Identity"
    by (auto simp: fits_enc_str_short small_forms_def ex_rt_def filter_Query_IdentityByCccdId_0_def zero_QueryAllIdentityRequest_def
        small_QueryAllIdentityRequest_def enc_QueryAllIdentityRequest_def enc_opt_msg_def fits_Nil
        small_QueryIdentityByCccdIdRequest_def enc_QueryIdentityByCccdIdRequest_def
        zero_QueryIdentityByCccdIdRequest_def)
qed (auto simp: ex_rt_def plain_path_def)

end
