(* ===== verification/Wiring.thy ===== *)
theory Wiring
  imports Application Ante
begin

text \<open>
  How the application is put together: \<open>New\<close> of \<open>app/app.go\<close> and \<open>registerIBCModules\<close> and
  \<open>RegisterIBC\<close> of \<open>app/ibc.go\<close>, with the module list of \<open>app/app_config.go\<close>. The objects of the
  SDK and of IBC that they call (the base application, the parameter keeper, the routers) are one
  state \<open>'w\<close>; their methods are the parameter \<open>wiring_env\<close>.
\<close>

section \<open>Names\<close>

text \<open>The modules, with those that are not in the tables of \<open>Application\<close>.\<close>

datatype wired_name =
    Module sdk_name
  | RuntimeModule | TxModule | IcaController | IcaHost | TmClient | SoloClient

text \<open>
  The modules that \<open>appConfig\<close> configures, in its order. Most configurations are empty; a period is
  in seconds, \<open>OverrideStoreKeys\<close> holds pairs of a module and its store key.
\<close>

datatype module_config =
    EmptyConfig
  | RuntimeConfig string "sdk_name list" "sdk_name list" "sdk_name list" "sdk_name list" "(sdk_name \<times> string) list"
  | AuthConfig string "module_account list"
  | BankConfig "sdk_name list"
  | StakingConfig string string
  | GroupConfig int int

definition appConfig :: "(wired_name \<times> module_config) list" where
  "appConfig =
     [(RuntimeModule, RuntimeConfig ''Nexelra'' preBlockers beginBlockers endBlockers genesisModuleOrder
        [(auth, ''acc'')]),
      (Module auth, AuthConfig AccountAddressPrefix moduleAccPerms),
      (Module nft, EmptyConfig), (Module vesting, EmptyConfig),
      (Module bank, BankConfig blockAccAddrs),
      (Module staking, StakingConfig (AccountAddressPrefix @ ''valoper'') (AccountAddressPrefix @ ''valcons'')),
      (Module slashing, EmptyConfig), (Module params, EmptyConfig), (TxModule, EmptyConfig),
      (Module genutil, EmptyConfig), (Module authz, EmptyConfig), (Module upgrade, EmptyConfig),
      (Module distr, EmptyConfig), (Module evidence, EmptyConfig), (Module mint, EmptyConfig),
      (Module group, GroupConfig 1209600 255),
      (Module feegrant, EmptyConfig), (Module gov, EmptyConfig), (Module crisis, EmptyConfig),
      (Module consensus, EmptyConfig), (Module circuit, EmptyConfig), (Module identity, EmptyConfig)]"

text \<open>The modules of IBC, as \<open>registerIBCModules\<close> registers them and as \<open>RegisterIBC\<close> lists them.\<close>

definition ibc_modules :: "wired_name list" where
  "ibc_modules =
     [Module ibcexported, Module ibctransfer, Module ibcfee, Module ica, Module capability,
      TmClient, SoloClient]"

definition RegisterIBC_modules :: "wired_name list" where
  "RegisterIBC_modules =
     [Module ibcexported, Module ibctransfer, Module ibcfee, Module ica, Module capability,
      TmClient, SoloClient]"

text \<open>The interfaces are registered in the order of a map, here any list of its keys.\<close>

definition RegisterIBC :: "(wired_name \<Rightarrow> 'r \<Rightarrow> 'r) \<Rightarrow> wired_name list \<Rightarrow> 'r \<Rightarrow> 'r \<times> wired_name set" where
  "RegisterIBC RegisterInterfaces order registry =
     (fold RegisterInterfaces order registry, set RegisterIBC_modules)"

section \<open>Keepers and routes of IBC\<close>

text \<open>The arguments of a keeper's constructor that \<open>registerIBCModules\<close> computes.\<close>

datatype keeper_kind = IBC | IBCFee | Transfer | ICAHost | ICAController

record 'k keeper_args =
  Key :: "store_key option"
  ParamSpace :: "string option"
  ScopedKeeper :: "'k option"
  KeeperAuthority :: "sdk_name option"
  QueryRouter :: bool

datatype param_set = ClientParams | ConnectionParams | TransferParams | ControllerParams | HostParams

datatype ibc_stack =
    fee_middleware ibc_stack
  | transfer_module
  | controller_middleware \<comment> \<open>over the nil module \<open>noAuthzModule\<close>\<close>
  | host_module

section \<open>What is called\<close>

text \<open>
  \<open>store_of\<close> and \<open>name_of\<close> are the constants \<open>StoreKey\<close> and \<open>ModuleName\<close> of the packages. A method that
  can panic gives an \<^typ>\<open>'w exit\<close>; one that returns an error a sum.
\<close>

record ('w, 'c, 'k, 's) wiring_env =
  store_of :: "wired_name \<Rightarrow> string"
  name_of :: "wired_name \<Rightarrow> string"
  capability_MemStoreKey :: string
  params_TStoreKey :: string
  RegisterStores :: "store_key list \<Rightarrow> 'w \<Rightarrow> (error + 'w) exit"
  UnsafeFindStoreKey :: "'w \<Rightarrow> string \<Rightarrow> store_key option"
  GetStoreKeys :: "'w \<Rightarrow> store_key list"
  Subspace :: "string \<Rightarrow> 'w \<Rightarrow> 'w exit"
  WithKeyTable :: "string \<Rightarrow> param_set list \<Rightarrow> 'w \<Rightarrow> 'w exit"
  has_subspace :: "'w \<Rightarrow> string \<Rightarrow> bool"
  NewCapabilityKeeper :: "store_key option \<Rightarrow> store_key option \<Rightarrow> 'c"
  ScopeToModule :: "'c \<Rightarrow> string \<Rightarrow> ('k \<times> 'c) exit"
  NewIBCModuleKeeper :: "keeper_kind \<Rightarrow> 'k keeper_args \<Rightarrow> 'w \<Rightarrow> 'w exit"
  SetLegacyRouter :: "sdk_name list \<Rightarrow> 'w \<Rightarrow> 'w exit"
  AddRoute :: "string \<Rightarrow> ibc_stack \<Rightarrow> (string \<times> ibc_stack) list \<Rightarrow> (string \<times> ibc_stack) list exit"
  SetRouter :: "(string \<times> ibc_stack) list \<Rightarrow> 'w \<Rightarrow> 'w exit"
  RegisterModules :: "wired_name list \<Rightarrow> 'w \<Rightarrow> error + 'w"
  Inject :: "(wired_name \<times> module_config) list \<Rightarrow> error + 'w"
  Build :: "string list \<Rightarrow> 'w \<Rightarrow> 'w"
  RegisterStreamingServices :: "(string \<Rightarrow> store_key option) \<Rightarrow> 'w \<Rightarrow> error + 'w"
  RegisterInvariants :: "'w \<Rightarrow> 'w exit"
  manager_modules :: "'w \<Rightarrow> string list"
  ChainAnteDecorators :: "'s decorator list \<Rightarrow> 's ante_handler"
  sdk_decorator :: "string \<Rightarrow> 's decorator"
  identity_decorator :: "'s decorator"
  SetAnteHandler :: "'s ante_handler \<Rightarrow> 'w \<Rightarrow> 'w exit"
  SetInitChainer :: "('w \<Rightarrow> 's \<Rightarrow> error + 's) \<Rightarrow> 'w \<Rightarrow> 'w exit"
  SetModuleVersionMap :: "'w \<Rightarrow> 's \<Rightarrow> error + 's"
  runtime_InitChainer :: "'w \<Rightarrow> 's \<Rightarrow> error + 's"
  Load :: "bool \<Rightarrow> 'w \<Rightarrow> error + 'w"

section \<open>The application\<close>

text \<open>A keeper is represented by the arguments it was made of; \<^const>\<open>None\<close> before that.\<close>

record ('w, 'c, 'k) App = "('c, 'k) scoped_app" +
  base :: 'w
  IBCKeeper :: "'k keeper_args option"
  IBCFeeKeeper :: "'k keeper_args option"
  TransferKeeper :: "'k keeper_args option"
  ICAHostKeeper :: "'k keeper_args option"
  ICAControllerKeeper :: "'k keeper_args option"
  ScopedIBCKeeper :: "'k option"
  ScopedIBCTransferKeeper :: "'k option"
  ScopedICAControllerKeeper :: "'k option"
  ScopedICAHostKeeper :: "'k option"
  sm :: "(string list \<times> string list) option"

definition GetIBCKeeper :: "('w, 'c, 'k) App \<Rightarrow> 'k keeper_args option" where
  "GetIBCKeeper app = IBCKeeper app"

definition SimulationManager :: "('w, 'c, 'k) App \<Rightarrow> (string list \<times> string list) option" where
  "SimulationManager app = sm app"

text \<open>The second result of the keeper's \<open>GetSubspace\<close> is dropped; then the subspace is the zero one.\<close>

definition GetSubspace :: "('w, 'c, 'k, 's) wiring_env \<Rightarrow> 'w \<Rightarrow> string \<Rightarrow> string option" where
  "GetSubspace env w moduleName = (if has_subspace env w moduleName then Some moduleName else None)"

section \<open>registerIBCModules\<close>

text \<open>\<open>if err != nil { return err }\<close> in code that can also panic.\<close>

fun or_return :: "error + 'a \<Rightarrow> ('a \<Rightarrow> (error + 'b) exit) \<Rightarrow> (error + 'b) exit" where
  "or_return (Inl err) f = Returns (Inl err)"
| "or_return (Inr x) f = f x"

definition ibc_stores :: "('w, 'c, 'k, 's) wiring_env \<Rightarrow> store_key list" where
  "ibc_stores env =
     [KVStoreKey (store_of env (Module capability)),
      KVStoreKey (store_of env (Module ibcexported)),
      KVStoreKey (store_of env (Module ibctransfer)),
      KVStoreKey (store_of env (Module ibcfee)),
      KVStoreKey (store_of env IcaHost),
      KVStoreKey (store_of env IcaController),
      MemoryStoreKey (capability_MemStoreKey env),
      TransientStoreKey (params_TStoreKey env)]"

definition ibc_subspaces :: "(wired_name \<times> param_set list) list" where
  "ibc_subspaces =
     [(Module ibcexported, [ClientParams, ConnectionParams]),
      (Module ibctransfer, [TransferParams]),
      (IcaController, [ControllerParams]),
      (IcaHost, [HostParams])]"

definition add_subspace :: "('w, 'c, 'k, 's) wiring_env \<Rightarrow> wired_name \<times> param_set list \<Rightarrow> 'w \<Rightarrow> 'w exit" where
  "add_subspace env = (\<lambda>(name, table) w.
     bind_exit (Subspace env (name_of env name) w) (WithKeyTable env (name_of env name) table))"

text \<open>Making a keeper: the key and the parameter space are looked up under the given names.\<close>

definition make_keeper ::
    "('w, 'c, 'k, 's) wiring_env \<Rightarrow> keeper_kind \<Rightarrow> wired_name \<Rightarrow> wired_name option \<Rightarrow> 'k option
      \<Rightarrow> sdk_name option \<Rightarrow> 'w \<Rightarrow> ('k keeper_args \<times> 'w) exit" where
  "make_keeper env kind store space scoped gov_name w =
     (let args = \<lparr>Key = GetKey (UnsafeFindStoreKey env w) (store_of env store),
                  ParamSpace = Option.bind space (\<lambda>n. GetSubspace env w (name_of env n)),
                  ScopedKeeper = scoped, KeeperAuthority = gov_name, QueryRouter = False\<rparr>
      in bind_exit (NewIBCModuleKeeper env kind args w) (\<lambda>w. Returns (args, w)))"

definition ibc_keepers :: "('w, 'c, 'k, 's) wiring_env \<Rightarrow> ('w, 'c, 'k) App \<Rightarrow> ('w, 'c, 'k) App exit" where
  "ibc_keepers env app =
     bind_exit (make_keeper env IBC (Module ibcexported) (Some (Module ibcexported)) (ScopedIBCKeeper app)
         (Some gov) (base app)) (\<lambda>(ibc, w).
     bind_exit (make_keeper env IBCFee (Module ibcfee) None None None w) (\<lambda>(fee, w).
     bind_exit (make_keeper env Transfer (Module ibctransfer) (Some (Module ibctransfer))
         (ScopedIBCTransferKeeper app) (Some gov) w) (\<lambda>(transfer, w).
     bind_exit (make_keeper env ICAHost IcaHost (Some IcaHost) (ScopedICAHostKeeper app) (Some gov) w) (\<lambda>(host, w).
     bind_exit (make_keeper env ICAController IcaController (Some IcaController)
         (ScopedICAControllerKeeper app) (Some gov) w) (\<lambda>(controller, w).
       Returns (app\<lparr>base := w, IBCKeeper := Some ibc, IBCFeeKeeper := Some fee,
         TransferKeeper := Some transfer, ICAHostKeeper := Some (host\<lparr>QueryRouter := True\<rparr>),
         ICAControllerKeeper := Some controller\<rparr>))))))"

definition ibc_routes :: "('w, 'c, 'k, 's) wiring_env \<Rightarrow> (string \<times> ibc_stack) list exit" where
  "ibc_routes env =
     run_all (\<lambda>(name, stack). AddRoute env (name_of env name) stack)
       [(Module ibctransfer, fee_middleware transfer_module),
        (IcaController, fee_middleware controller_middleware),
        (IcaHost, fee_middleware host_module)] []"

text \<open>The capability keeper and the four scoped keepers, which are kept in variables until the end.\<close>

definition scope_modules :: "('w, 'c, 'k, 's) wiring_env \<Rightarrow> ('w, 'c, 'k) App \<Rightarrow> ('w, 'c, 'k) App exit" where
  "scope_modules env app =
     (let find = UnsafeFindStoreKey env (base app);
          capabilityKeeper = NewCapabilityKeeper env (GetKey find (store_of env (Module capability)))
            (GetMemKey find (capability_MemStoreKey env))
      in bind_exit (ScopeToModule env capabilityKeeper (name_of env (Module ibcexported))) (\<lambda>(scopedIBC, c).
         bind_exit (ScopeToModule env c (name_of env (Module ibctransfer))) (\<lambda>(scopedTransfer, c).
         bind_exit (ScopeToModule env c (name_of env IcaController)) (\<lambda>(scopedController, c).
         bind_exit (ScopeToModule env c (name_of env IcaHost)) (\<lambda>(scopedHost, c).
           Returns (app\<lparr>CapabilityKeeper := Some c, ScopedIBCKeeper := Some scopedIBC,
             ScopedIBCTransferKeeper := Some scopedTransfer, ScopedICAControllerKeeper := Some scopedController,
             ScopedICAHostKeeper := Some scopedHost\<rparr>))))))"

definition registerIBCModules ::
    "('w, 'c, 'k, 's) wiring_env \<Rightarrow> ('w, 'c, 'k) App \<Rightarrow> (error + ('w, 'c, 'k) App) exit" where
  "registerIBCModules env app =
     bind_exit (RegisterStores env (ibc_stores env) (base app)) (\<lambda>r. or_return r (\<lambda>w.
     bind_exit (run_all (add_subspace env) ibc_subspaces w) (\<lambda>w.
     bind_exit (scope_modules env (app\<lparr>base := w\<rparr>)) (\<lambda>app.
     bind_exit (ibc_keepers env app) (\<lambda>app.
     bind_exit (SetLegacyRouter env [gov] (base app)) (\<lambda>w.
     bind_exit (ibc_routes env) (\<lambda>ibcRouter.
     bind_exit (SetRouter env ibcRouter w) (\<lambda>w.
     or_return (RegisterModules env ibc_modules w) (\<lambda>w.
       Returns (Inr (app\<lparr>base := w\<rparr>)))))))))))"

section \<open>New\<close>

definition zero_App :: "'w \<Rightarrow> ('w, 'c, 'k) App" where
  "zero_App w = \<lparr>CapabilityKeeper = None, ScopedKeepers = Map.empty, base = w, IBCKeeper = None,
     IBCFeeKeeper = None, TransferKeeper = None, ICAHostKeeper = None, ICAControllerKeeper = None,
     ScopedIBCKeeper = None, ScopedIBCTransferKeeper = None, ScopedICAControllerKeeper = None,
     ScopedICAHostKeeper = None, sm = None\<rparr>"

definition InitChainer :: "('w, 'c, 'k, 's) wiring_env \<Rightarrow> 'w \<Rightarrow> 's \<Rightarrow> error + 's" where
  "InitChainer env w ctx =
     (case SetModuleVersionMap env w ctx of
        Inl err \<Rightarrow> Inl err
      | Inr ctx \<Rightarrow> runtime_InitChainer env w ctx)"

definition install_ante_handler :: "('w, 'c, 'k, 's) wiring_env \<Rightarrow> 'w \<Rightarrow> 'w exit" where
  "install_ante_handler env w =
     (case setAnteHandler (ChainAnteDecorators env) (sdk_decorator env) (identity_decorator env) of
        Ok anteHandler \<Rightarrow> SetAnteHandler env anteHandler w
      | _ \<Rightarrow> Panics)"

definition New ::
    "('w, 'c, 'k, 's) wiring_env \<Rightarrow> bool \<Rightarrow> string list \<Rightarrow> (error + ('w, 'c, 'k) App) exit" where
  "New env loadLatest baseAppOptions =
     bind_exit (or_panic (Inject env appConfig)) (\<lambda>w.
     let baseAppOptions = baseAppOptions @ [''SetOptimisticExecution''];
         app = zero_App (Build env baseAppOptions w)
     in bind_exit (registerIBCModules env app) (\<lambda>r. or_return r (\<lambda>app.
     or_return (RegisterStreamingServices env (kvStoreKeys (GetStoreKeys env (base app))) (base app)) (\<lambda>w.
     bind_exit (RegisterInvariants env w) (\<lambda>w.
     let app = app\<lparr>sm := Some (manager_modules env w, [name_of env (Module auth)])\<rparr>
     in bind_exit (install_ante_handler env w) (\<lambda>w.
     bind_exit (SetInitChainer env (InitChainer env) w) (\<lambda>w.
     or_return (Load env loadLatest w) (\<lambda>w.
       Returns (Inr (app\<lparr>base := w\<rparr>))))))))))"

text \<open>\<open>init\<close>: the default home directory, \<open>.Nexelra\<close> in the user's.\<close>

definition init_DefaultNodeHome :: "(string \<Rightarrow> error + string) \<Rightarrow> string exit" where
  "init_DefaultNodeHome GetNodeHomeDirectory = or_panic (GetNodeHomeDirectory (''.'' @ ''Nexelra''))"

text \<open>The routes that are registered with the API server; \<open>docs\<close> adds the OpenAPI page.\<close>

definition RegisterAPIRoutes ::
    "('r \<Rightarrow> 'r) \<Rightarrow> ('r \<Rightarrow> error + 'r) \<Rightarrow> (string \<Rightarrow> 'r \<Rightarrow> 'r) \<Rightarrow> 'r \<Rightarrow> 'r exit" where
  "RegisterAPIRoutes runtime_routes RegisterSwaggerAPI RegisterOpenAPIService router =
     bind_exit (or_panic (RegisterSwaggerAPI (runtime_routes router))) (\<lambda>router.
       Returns (RegisterOpenAPIService ''Nexelra'' router))"

end
