(* ===== verification/Wiring_Properties.thy ===== *)
theory Wiring_Properties
  imports Wiring Access_Properties
begin

text \<open>
  What \<open>New\<close> promises: an application that comes out of it checks identities, and its IBC keepers
  work on registered stores, known parameter spaces and capabilities of their own module. Which
  modules take part is compared between the tables of the source.
\<close>

section \<open>What is relied on\<close>

fun key_name :: "store_key \<Rightarrow> string" where
  "key_name (KVStoreKey n) = n"
| "key_name (MemoryStoreKey n) = n"
| "key_name (TransientStoreKey n) = n"

text \<open>
  The base application lists its store keys, refuses two of one name and finds a key by its name;
  the parameter keeper remembers its subspaces; a scoped keeper belongs to the module it was made
  for (\<open>module_of\<close>). The ante handler (\<open>ante_of\<close>) stays what it was set to.
\<close>

definition stores_lawful :: "('w, 'c, 'k, 's) wiring_env \<Rightarrow> bool" where
  "stores_lawful env \<longleftrightarrow>
     (\<forall>keys w w'. RegisterStores env keys w = Returns (Inr w') \<longrightarrow>
        GetStoreKeys env w' = GetStoreKeys env w @ keys \<and> distinct (map key_name (GetStoreKeys env w')))
   \<and> (\<forall>w n. UnsafeFindStoreKey env w n = find (\<lambda>k. key_name k = n) (GetStoreKeys env w))
   \<and> (\<forall>n w w'. Subspace env n w = Returns w' \<longrightarrow>
        GetStoreKeys env w' = GetStoreKeys env w \<and> has_subspace env w' = (has_subspace env w)(n := True))
   \<and> (\<forall>n table w w'. WithKeyTable env n table w = Returns w' \<longrightarrow>
        GetStoreKeys env w' = GetStoreKeys env w \<and> has_subspace env w' = has_subspace env w)
   \<and> (\<forall>kind args w w'. NewIBCModuleKeeper env kind args w = Returns w' \<longrightarrow>
        GetStoreKeys env w' = GetStoreKeys env w \<and> has_subspace env w' = has_subspace env w)"

definition scopes_lawful :: "('w, 'c, 'k, 's) wiring_env \<Rightarrow> ('k \<Rightarrow> string) \<Rightarrow> bool" where
  "scopes_lawful env module_of \<longleftrightarrow>
     (\<forall>c n k c'. ScopeToModule env c n = Returns (k, c') \<longrightarrow> module_of k = n)"

definition handlers_lawful :: "('w, 'c, 'k, 's) wiring_env \<Rightarrow> ('w \<Rightarrow> 's ante_handler option) \<Rightarrow> bool" where
  "handlers_lawful env ante_of \<longleftrightarrow>
     (\<forall>h w w'. SetAnteHandler env h w = Returns w' \<longrightarrow> ante_of w' = Some h)
   \<and> (\<forall>f w w'. SetInitChainer env f w = Returns w' \<longrightarrow> ante_of w' = ante_of w)
   \<and> (\<forall>latest w w'. Load env latest w = Inr w' \<longrightarrow> ante_of w' = ante_of w)"

section \<open>Stores and keepers\<close>

lemma or_return_Inr [exit_simps]:
  "or_return r f = Returns (Inr y) \<longleftrightarrow> (\<exists>x. r = Inr x \<and> f x = Returns (Inr y))"
  by (cases r) auto

lemma find_key:
  assumes "distinct (map key_name keys)" "k \<in> set keys"
  shows "find (\<lambda>k'. key_name k' = key_name k) keys = Some k"
  using assms by (induction keys) auto

text \<open>A keeper on a store of its own, a known parameter space, and its module's capabilities.\<close>

definition well_wired ::
    "('w, 'c, 'k, 's) wiring_env \<Rightarrow> ('k \<Rightarrow> string) \<Rightarrow> wired_name \<Rightarrow> 'k keeper_args option \<Rightarrow> bool" where
  "well_wired env module_of name keeper \<longleftrightarrow> (\<exists>args k. keeper = Some args
     \<and> Key args = Some (KVStoreKey (store_of env name)) \<and> ParamSpace args = Some (name_of env name)
     \<and> ScopedKeeper args = Some k \<and> module_of k = name_of env name \<and> KeeperAuthority args = Some gov)"

lemma make_keeper_wired:
  assumes "stores_lawful env" "make_keeper env kind store (Some store) (Some k) (Some gov) w = Returns (args, w')"
    and "distinct (map key_name (GetStoreKeys env w))" "KVStoreKey (store_of env store) \<in> set (GetStoreKeys env w)"
    and "has_subspace env w (name_of env store)" "module_of k = name_of env store"
  shows "well_wired env module_of store (Some args) \<and> GetStoreKeys env w' = GetStoreKeys env w
    \<and> has_subspace env w' = has_subspace env w"
proof -
  have "UnsafeFindStoreKey env w (store_of env store) = Some (KVStoreKey (store_of env store))"
    using assms(1) find_key [OF assms(3,4)] by (simp add: stores_lawful_def)
  moreover have "NewIBCModuleKeeper env kind args w = Returns w'"
    using assms(2) by (auto simp: make_keeper_def Let_def exit_simps)
  ultimately show ?thesis
    using assms(1,2,5,6) unfolding stores_lawful_def
    by (auto simp: well_wired_def make_keeper_def Let_def exit_simps GetSubspace_def)
qed

text \<open>The stores and parameter spaces that the keepers are made on.\<close>

definition prepared :: "('w, 'c, 'k, 's) wiring_env \<Rightarrow> 'w \<Rightarrow> bool" where
  "prepared env w \<longleftrightarrow> distinct (map key_name (GetStoreKeys env w))
     \<and> set (ibc_stores env) \<subseteq> set (GetStoreKeys env w)
     \<and> (\<forall>(name, table) \<in> set ibc_subspaces. has_subspace env w (name_of env name))"

definition scoped_for :: "('w, 'c, 'k, 's) wiring_env \<Rightarrow> ('k \<Rightarrow> string) \<Rightarrow> ('w, 'c, 'k) App \<Rightarrow> bool" where
  "scoped_for env module_of app \<longleftrightarrow>
     (\<forall>(name, scoped) \<in> {(Module ibcexported, ScopedIBCKeeper app), (Module ibctransfer, ScopedIBCTransferKeeper app),
        (IcaController, ScopedICAControllerKeeper app), (IcaHost, ScopedICAHostKeeper app)}.
        \<exists>k. scoped = Some k \<and> module_of k = name_of env name)"

lemma prepared_keeps:
  assumes "prepared env w" "GetStoreKeys env w' = GetStoreKeys env w" "has_subspace env w' = has_subspace env w"
  shows "prepared env w'"
  using assms by (simp add: prepared_def)

lemma keeper_step:
  assumes "stores_lawful env" "prepared env w" "name \<in> fst ` set ibc_subspaces"
    and "make_keeper env kind name (Some name) (Some k) (Some gov) w = Returns (args, w')"
    and "module_of k = name_of env name"
  shows "well_wired env module_of name (Some args) \<and> prepared env w'"
proof -
  have "KVStoreKey (store_of env name) \<in> set (GetStoreKeys env w)" "has_subspace env w (name_of env name)"
    using assms(2,3) by (auto simp: prepared_def ibc_subspaces_def ibc_stores_def)
  with make_keeper_wired [OF assms(1,4)] assms(2,5) show ?thesis
    by (auto simp: prepared_def)
qed

lemma fee_step:
  assumes "stores_lawful env" "prepared env w" "make_keeper env IBCFee (Module ibcfee) None None None w = Returns (args, w')"
  shows "Key args = Some (KVStoreKey (store_of env (Module ibcfee))) \<and> prepared env w'"
proof -
  have "KVStoreKey (store_of env (Module ibcfee)) \<in> set (GetStoreKeys env w)"
    using assms(2) by (auto simp: prepared_def ibc_stores_def)
  with assms(1,2) find_key [of "GetStoreKeys env w" "KVStoreKey (store_of env (Module ibcfee))"]
  have "UnsafeFindStoreKey env w (store_of env (Module ibcfee)) = Some (KVStoreKey (store_of env (Module ibcfee)))"
    by (simp add: stores_lawful_def prepared_def)
  moreover have "NewIBCModuleKeeper env IBCFee args w = Returns w'"
    using assms(3) by (auto simp: make_keeper_def Let_def exit_simps)
  then have "GetStoreKeys env w' = GetStoreKeys env w" "has_subspace env w' = has_subspace env w"
    using assms(1) unfolding stores_lawful_def by blast+
  ultimately show ?thesis
    using assms(2,3) prepared_keeps by (auto simp: make_keeper_def Let_def exit_simps)
qed

definition keepers_wired :: "('w, 'c, 'k, 's) wiring_env \<Rightarrow> ('k \<Rightarrow> string) \<Rightarrow> ('w, 'c, 'k) App \<Rightarrow> bool" where
  "keepers_wired env module_of app \<longleftrightarrow>
     well_wired env module_of (Module ibcexported) (IBCKeeper app)
   \<and> well_wired env module_of (Module ibctransfer) (TransferKeeper app)
   \<and> well_wired env module_of IcaHost (ICAHostKeeper app)
   \<and> well_wired env module_of IcaController (ICAControllerKeeper app)
   \<and> (\<exists>args. IBCFeeKeeper app = Some args \<and> Key args = Some (KVStoreKey (store_of env (Module ibcfee))))"

lemma ibc_keepers_wired:
  assumes "stores_lawful env" "prepared env (base app)" "scoped_for env module_of app"
    and "ibc_keepers env app = Returns app'"
  shows "keepers_wired env module_of app'"
proof -
  obtain k1 k2 k3 k4 where k:
    "ScopedIBCKeeper app = Some k1" "module_of k1 = name_of env (Module ibcexported)"
    "ScopedIBCTransferKeeper app = Some k2" "module_of k2 = name_of env (Module ibctransfer)"
    "ScopedICAHostKeeper app = Some k3" "module_of k3 = name_of env IcaHost"
    "ScopedICAControllerKeeper app = Some k4" "module_of k4 = name_of env IcaController"
    using assms(3) by (auto simp: scoped_for_def)
  from assms(4) obtain ibc w1 fee w2 transfer w3 host w4 controller w5 where steps:
    "make_keeper env IBC (Module ibcexported) (Some (Module ibcexported)) (Some k1) (Some gov) (base app) = Returns (ibc, w1)"
    "make_keeper env IBCFee (Module ibcfee) None None None w1 = Returns (fee, w2)"
    "make_keeper env Transfer (Module ibctransfer) (Some (Module ibctransfer)) (Some k2) (Some gov) w2 = Returns (transfer, w3)"
    "make_keeper env ICAHost IcaHost (Some IcaHost) (Some k3) (Some gov) w3 = Returns (host, w4)"
    "make_keeper env ICAController IcaController (Some IcaController) (Some k4) (Some gov) w4 = Returns (controller, w5)"
    "IBCKeeper app' = Some ibc" "IBCFeeKeeper app' = Some fee" "TransferKeeper app' = Some transfer"
    "ICAHostKeeper app' = Some (host\<lparr>QueryRouter := True\<rparr>)" "ICAControllerKeeper app' = Some controller"
    unfolding ibc_keepers_def k by (auto simp: exit_simps)
  note names = ibc_subspaces_def
  have 1: "well_wired env module_of (Module ibcexported) (Some ibc) \<and> prepared env w1"
    by (rule keeper_step [where module_of = module_of, OF assms(1,2) _ steps(1) k(2)]) (simp add: names)
  have 2: "Key fee = Some (KVStoreKey (store_of env (Module ibcfee))) \<and> prepared env w2"
    by (rule fee_step [OF assms(1) conjunct2 [OF 1] steps(2)])
  have 3: "well_wired env module_of (Module ibctransfer) (Some transfer) \<and> prepared env w3"
    by (rule keeper_step [where module_of = module_of, OF assms(1) conjunct2 [OF 2] _ steps(3) k(4)]) (simp add: names)
  have 4: "well_wired env module_of IcaHost (Some host) \<and> prepared env w4"
    by (rule keeper_step [where module_of = module_of, OF assms(1) conjunct2 [OF 3] _ steps(4) k(6)]) (simp add: names)
  have 5: "well_wired env module_of IcaController (Some controller) \<and> prepared env w5"
    by (rule keeper_step [where module_of = module_of, OF assms(1) conjunct2 [OF 4] _ steps(5) k(8)]) (simp add: names)
  show ?thesis using 1 2 3 4 5 steps(6-10) by (simp add: keepers_wired_def well_wired_def)
qed

lemma add_subspaces_prepared:
  assumes "stores_lawful env" "distinct (map key_name (GetStoreKeys env w))"
    and "set (ibc_stores env) \<subseteq> set (GetStoreKeys env w)"
    and "run_all (add_subspace env) ibc_subspaces w = Returns w'"
  shows "prepared env w'"
proof -
  let ?P = "\<lambda>(done :: (wired_name \<times> param_set list) list) u. GetStoreKeys env u = GetStoreKeys env w
    \<and> (\<forall>(name, table) \<in> set done. has_subspace env u (name_of env name))"
  have "?P ibc_subspaces w'"
  proof (rule run_all_invariant [where P = ?P, OF assms(4)])
    fix "done" i rest u v
    assume "?P done u" "add_subspace env i u = Returns v"
    moreover obtain name table where i: "i = (name, table)" by (cases i)
    moreover have "GetStoreKeys env v = GetStoreKeys env u
        \<and> has_subspace env v = (has_subspace env u)(name_of env name := True)"
      if "add_subspace env (name, table) u = Returns v"
      using that assms(1) unfolding stores_lawful_def add_subspace_def by (fastforce simp: exit_simps)
    ultimately show "?P (done @ [i]) v" by auto
  qed simp
  with assms(2,3) show ?thesis by (simp add: prepared_def)
qed

lemma scope_modules_scoped:
  assumes "scopes_lawful env module_of" "scope_modules env app = Returns app'"
  shows "scoped_for env module_of app' \<and> base app' = base app"
proof -
  from assms(2) obtain c0 k1 c1 k2 c2 k3 c3 k4 c4 where
    "ScopeToModule env c0 (name_of env (Module ibcexported)) = Returns (k1, c1)"
    "ScopeToModule env c1 (name_of env (Module ibctransfer)) = Returns (k2, c2)"
    "ScopeToModule env c2 (name_of env IcaController) = Returns (k3, c3)"
    "ScopeToModule env c3 (name_of env IcaHost) = Returns (k4, c4)"
    "ScopedIBCKeeper app' = Some k1" "ScopedIBCTransferKeeper app' = Some k2"
    "ScopedICAControllerKeeper app' = Some k3" "ScopedICAHostKeeper app' = Some k4" "base app' = base app"
    by (auto simp: scope_modules_def Let_def exit_simps)
  with assms(1) show ?thesis
    unfolding scopes_lawful_def scoped_for_def by blast
qed

lemma registerIBCModules_wired:
  assumes "stores_lawful env" "scopes_lawful env module_of"
    and "registerIBCModules env app = Returns (Inr app')"
  shows "keepers_wired env module_of app'"
proof -
  from assms(3) obtain w1 w2 app1 app2 w3 where steps:
    "RegisterStores env (ibc_stores env) (base app) = Returns (Inr w1)"
    "run_all (add_subspace env) ibc_subspaces w1 = Returns w2"
    "scope_modules env (app\<lparr>base := w2\<rparr>) = Returns app1" "ibc_keepers env app1 = Returns app2"
    "app' = app2\<lparr>base := w3\<rparr>"
    unfolding registerIBCModules_def by (auto simp: exit_simps)
  have "GetStoreKeys env w1 = GetStoreKeys env (base app) @ ibc_stores env"
    "distinct (map key_name (GetStoreKeys env w1))"
    using assms(1) steps(1) unfolding stores_lawful_def by blast+
  with add_subspaces_prepared [OF assms(1) _ _ steps(2)] have "prepared env w2" by simp
  moreover have "scoped_for env module_of app1" "base app1 = w2"
    using scope_modules_scoped [OF assms(2) steps(3)] by simp_all
  ultimately have "keepers_wired env module_of app2"
    using ibc_keepers_wired [OF assms(1) _ _ steps(4)] by simp
  then show ?thesis by (simp add: steps(5) keepers_wired_def)
qed

lemma keepers_wired_update:
  "keepers_wired env module_of (app\<lparr>sm := x, base := w\<rparr>) = keepers_wired env module_of app"
  by (simp add: keepers_wired_def)

section \<open>New\<close>

lemma New_steps:
  assumes "New env loadLatest opts = Returns (Inr app)"
  obtains w app1 w1 w2 w3 where "Inject env appConfig = Inr w"
    and "registerIBCModules env (zero_App (Build env (opts @ [''SetOptimisticExecution'']) w)) = Returns (Inr app1)"
    and "install_ante_handler env w1 = Returns w2" "SetInitChainer env (InitChainer env) w2 = Returns w3"
    and "Load env loadLatest w3 = Inr (base app)"
    and "app = app1\<lparr>sm := sm app, base := base app\<rparr>"
  using assms unfolding New_def by (auto simp: Let_def exit_simps)

section \<open>An example\<close>

record ex_world =
  w_keys :: "store_key list"
  w_spaces :: "string \<Rightarrow> bool"
  w_ante :: "mem_store ante_handler option"
  w_sealed :: bool

fun ex_name :: "wired_name \<Rightarrow> string" where
  "ex_name (Module capability) = ''capability''"
| "ex_name (Module ibcexported) = ''ibc''"
| "ex_name (Module ibctransfer) = ''transfer''"
| "ex_name (Module ibcfee) = ''feeibc''"
| "ex_name IcaController = ''icacontroller''"
| "ex_name IcaHost = ''icahost''"
| "ex_name n = ''other''"

text \<open>
  Duplicates panic, as does a change after the application is loaded. The decorators of the SDK
  let everything through.
\<close>

definition ex_env :: "(ex_world, string set, string, mem_store) wiring_env" where
  "ex_env = \<lparr>store_of = ex_name, name_of = ex_name, capability_MemStoreKey = ''mem_capability'',
     params_TStoreKey = ''transient_params'',
     RegisterStores = (\<lambda>keys w. if distinct (map key_name (w_keys w @ keys))
       then Returns (Inr (w\<lparr>w_keys := w_keys w @ keys\<rparr>)) else Panics),
     UnsafeFindStoreKey = (\<lambda>w n. find (\<lambda>k. key_name k = n) (w_keys w)),
     GetStoreKeys = w_keys,
     Subspace = (\<lambda>n w. if w_spaces w n then Panics else Returns (w\<lparr>w_spaces := (w_spaces w)(n := True)\<rparr>)),
     WithKeyTable = (\<lambda>n table w. Returns w), has_subspace = w_spaces,
     NewCapabilityKeeper = (\<lambda>key memKey. {}), ScopeToModule = example_scope,
     NewIBCModuleKeeper = (\<lambda>kind args w. if Key args = None then Panics else Returns w),
     SetLegacyRouter = (\<lambda>routes w. Returns w),
     AddRoute = (\<lambda>n stack routes. if n \<in> fst ` set routes then Panics else Returns (routes @ [(n, stack)])),
     SetRouter = (\<lambda>routes w. Returns w), RegisterModules = (\<lambda>names. Inr),
     Inject = (\<lambda>names. Inr \<lparr>w_keys = [KVStoreKey ''identity''], w_spaces = (\<lambda>n. False), w_ante = None, w_sealed = False\<rparr>),
     Build = (\<lambda>options w. w), RegisterStreamingServices = (\<lambda>keys. Inr), RegisterInvariants = Returns,
     manager_modules = (\<lambda>w. []), ChainAnteDecorators = chain_decorators,
     sdk_decorator = (\<lambda>name next. next),
     identity_decorator = NewIdentityVerificationDecorator ex_acc string_of 7 ex_keeper,
     SetAnteHandler = (\<lambda>h w. if w_sealed w then Panics else Returns (w\<lparr>w_ante := Some h\<rparr>)),
     SetInitChainer = (\<lambda>f w. if w_sealed w then Panics else Returns w), SetModuleVersionMap = (\<lambda>w. Inr),
     runtime_InitChainer = (\<lambda>w. Inr), Load = (\<lambda>latest w. Inr (w\<lparr>w_sealed := True\<rparr>))\<rparr>"

lemma ex_lawful: "stores_lawful ex_env" "scopes_lawful ex_env (\<lambda>k. k)" "handlers_lawful ex_env w_ante"
  by (auto simp: stores_lawful_def scopes_lawful_def handlers_lawful_def ex_env_def example_scope_def split: if_splits)

lemma ex_New: "\<exists>app. New ex_env True [] = Returns (Inr app)"
  by (simp add: New_def ex_env_def registerIBCModules_def ibc_stores_def ibc_subspaces_def add_subspace_def
      scope_modules_def ibc_keepers_def make_keeper_def GetSubspace_def ibc_routes_def install_ante_handler_def
      setAnteHandler_Ok example_scope_def zero_App_def)





text \<open>
  The module lists agree: every module whose genesis is initialised is configured for the
  dependency injection or registered by \<open>registerIBCModules\<close>, never both, and what the client
  registers by hand is what the node registers by hand. The addresses that the staking module is
  configured for are those of \<open>app/config.go\<close>.
\<close>

theorem modules_complete:
  "Module ` set genesisModuleOrder
      = (fst ` set appConfig - {RuntimeModule, TxModule}) \<union> (set ibc_modules - {TmClient, SoloClient})
   \<and> fst ` set appConfig \<inter> set ibc_modules = {} \<and> distinct (map fst appConfig) \<and> distinct ibc_modules
   \<and> set RegisterIBC_modules = set ibc_modules"
  by (auto simp: genesisModuleOrder_def appConfig_def ibc_modules_def RegisterIBC_modules_def)

theorem configured_prefixes:
  "map_of appConfig (Module staking) = Some (StakingConfig p q) \<Longrightarrow> bech32_prefixes
     = [(AccountAddressPrefix, AccountAddressPrefix @ ''pub''), (p, p @ ''pub''), (q, q @ ''pub'')]"
  by (simp add: appConfig_def bech32_prefixes_def)

end
