(* ===== verification/Commands.thy ===== *)
theory Commands
  imports Snapshot Wiring
begin

text \<open>
  The command line: the tree of commands that \<open>NewRootCmd\<close> of \<open>cmd/Nexelrad/cmd/root.go\<close> and
  \<open>initRootCmd\<close> of \<open>commands.go\<close> build, what the snapshot commands run, and \<open>main\<close>. Commands of the
  SDK are a parameter \<open>sdk\<close>, from the name of their constructor; help texts are left out.
\<close>

section \<open>Flags\<close>

definition no_flags :: flag_set where
  "no_flags = Map.empty"

definition string_flag :: "string \<Rightarrow> flag" where
  "string_flag val = \<lparr>DefValue = val, FlagValue = val, Accepts = (\<lambda>_. True)\<rparr>"

text \<open>What \<open>strconv.ParseBool\<close> takes.\<close>

definition bool_literals :: "string list" where
  "bool_literals =
     [''1'', ''t'', ''T'', ''TRUE'', ''true'', ''True'', ''0'', ''f'', ''F'', ''FALSE'', ''false'', ''False'']"

definition bool_flag :: flag where
  "bool_flag = \<lparr>DefValue = ''false'', FlagValue = ''false'', Accepts = (\<lambda>s. s \<in> set bool_literals)\<rparr>"

definition add_commands :: "'a command \<Rightarrow> 'a command list \<Rightarrow> 'a command" where
  "add_commands c cs =
     Command (Use c) (Aliases c) (ExactArgs c) (RunE c) (Flags c) (PersistentFlags c) (Commands c @ cs)"

definition add_flag :: "string \<Rightarrow> flag \<Rightarrow> 'a command \<Rightarrow> 'a command" where
  "add_flag name f c =
     Command (Use c) (Aliases c) (ExactArgs c) (RunE c) ((Flags c)(name \<mapsto> f)) (PersistentFlags c) (Commands c)"

section \<open>The snapshot commands\<close>

datatype action =
    SnapshotInfo | SnapshotList | SnapshotCreate | SnapshotRestore | SnapshotRestoreWithForce | SnapshotDelete
  | MultiNode
  | SdkAction string

definition GetSnapshotInfoCmd :: "action command" where
  "GetSnapshotInfoCmd = Command ''snapshot-info'' [] None (Some SnapshotInfo) no_flags no_flags []"

definition GetSnapshotListCmd :: "action command" where
  "GetSnapshotListCmd = Command ''snapshot-list'' [] None (Some SnapshotList) no_flags no_flags []"

definition GetSnapshotRestoreCmd :: "action command" where
  "GetSnapshotRestoreCmd =
     Command ''snapshot-restore [snapshot-file]'' [] (Some 1) (Some SnapshotRestore) [''force'' \<mapsto> bool_flag] no_flags []"

definition getSnapshotInfoSubCmd :: "action command" where
  "getSnapshotInfoSubCmd = Command ''info'' [] None (Some SnapshotInfo) no_flags no_flags []"

definition getSnapshotListSubCmd :: "action command" where
  "getSnapshotListSubCmd = Command ''list'' [] None (Some SnapshotList) no_flags no_flags []"

definition getSnapshotCreateSubCmd :: "action command" where
  "getSnapshotCreateSubCmd = Command ''create'' [] None (Some SnapshotCreate) no_flags no_flags []"

definition getSnapshotRestoreSubCmd :: "action command" where
  "getSnapshotRestoreSubCmd =
     Command ''restore [file]'' [] (Some 1) (Some SnapshotRestoreWithForce) [''force'' \<mapsto> bool_flag] no_flags []"

definition getSnapshotDeleteSubCmd :: "action command" where
  "getSnapshotDeleteSubCmd = Command ''delete [file]'' [] (Some 1) (Some SnapshotDelete) no_flags no_flags []"

definition GetSnapshotCmd :: "action command" where
  "GetSnapshotCmd = add_commands (Command ''snapshots'' [] None None no_flags no_flags [])
     [getSnapshotInfoSubCmd, getSnapshotListSubCmd, getSnapshotCreateSubCmd, getSnapshotRestoreSubCmd,
      getSnapshotDeleteSubCmd]"

text \<open>
  What a snapshot command does with its arguments: the lines it prints, the files afterwards and
  the error it returns. \<open>typed\<close> is what the user answers to a question, \<open>reply\<close> the node's status.
\<close>

datatype printed = Info "info_line list" | Lines "out_line list"

definition first_arg :: "string list \<Rightarrow> string res" where
  "first_arg args = (case args of arg # _ \<Rightarrow> Ok arg | [] \<Rightarrow> Panic)"

definition run_action ::
    "path \<Rightarrow> rpc_reply \<Rightarrow> string \<Rightarrow> action \<Rightarrow> string list \<Rightarrow> bool \<Rightarrow> node \<Rightarrow> (printed \<times> node \<times> error option) res option" where
  "run_action home reply typed action args force fs = (case action of
       SnapshotInfo \<Rightarrow> Some (bind_res (runSnapshotInfo home fs reply) (\<lambda>ls. Ok (Info ls, fs, None)))
     | SnapshotList \<Rightarrow> Some (case runSnapshotList home fs of
           Inl err \<Rightarrow> Ok (Lines [], fs, Some err)
         | Inr ls \<Rightarrow> Ok (Lines ls, fs, None))
     | SnapshotCreate \<Rightarrow> Some (Ok (Lines runSnapshotCreate, fs, None))
     | SnapshotRestore \<Rightarrow> Some (bind_res (first_arg args) (\<lambda>arg.
         Ok (Lines (runSnapshotRestore arg typed), fs, None)))
     | SnapshotRestoreWithForce \<Rightarrow> Some (bind_res (first_arg args) (\<lambda>arg.
         Ok (Lines (runSnapshotRestoreWithForce arg force typed), fs, None)))
     | SnapshotDelete \<Rightarrow> Some (bind_res (first_arg args) (\<lambda>arg.
         case runSnapshotDelete home fs arg typed of (ls, fs', err) \<Rightarrow> Ok (Lines ls, fs', err)))
     | _ \<Rightarrow> None)"

text \<open>\<open>cobra.ExactArgs\<close> rejects another number of arguments before the command runs.\<close>

definition run_command ::
    "path \<Rightarrow> rpc_reply \<Rightarrow> string \<Rightarrow> action command \<Rightarrow> string list \<Rightarrow> bool \<Rightarrow> node \<Rightarrow> (printed \<times> node \<times> error option) res option" where
  "run_command home reply typed c args force fs =
     (if ExactArgs c \<noteq> None \<and> ExactArgs c \<noteq> Some (length args)
      then Some (Ok (Lines [], fs, Some (ErrExternal ''wrong number of arguments'')))
      else Option.bind (RunE c) (\<lambda>action. run_action home reply typed action args force fs))"

section \<open>The test network commands\<close>

text \<open>\<open>is_int\<close> says which texts an integer flag takes; \<open>bond\<close> and \<open>key_type\<close> are constants of the SDK.\<close>

definition addTestnetFlagsToCmd :: "(string \<Rightarrow> bool) \<Rightarrow> string \<Rightarrow> string \<Rightarrow> action command \<Rightarrow> action command" where
  "addTestnetFlagsToCmd is_int bond key_type cmd =
     add_flag ''key-type'' (string_flag key_type)
     (add_flag ''minimum-gas-prices'' (string_flag (''0.0001'' @ bond))
     (add_flag ''chain-id'' (string_flag '''')
     (add_flag ''output-dir'' (string_flag ''./.testnets'')
     (add_flag ''v'' \<lparr>DefValue = ''4'', FlagValue = ''4'', Accepts = is_int\<rparr> cmd))))"

definition NewTestnetMultiNodeCmd :: "(string \<Rightarrow> bool) \<Rightarrow> string \<Rightarrow> string \<Rightarrow> action command" where
  "NewTestnetMultiNodeCmd is_int bond key_type =
     add_flag ''keyring-backend'' (string_flag ''test'')
     (add_flag ''starting-ip-address'' (string_flag ''localhost'')
     (add_flag ''validators-stake-amount'' (string_flag ''100000000,100000000,100000000,100000000'')
     (add_flag ''node-dir-prefix'' (string_flag ''validator'')
     (add_flag ''list-ports'' (string_flag '''')
     (addTestnetFlagsToCmd is_int bond key_type
       (Command ''multi-node'' [] None (Some MultiNode) no_flags no_flags []))))))"

definition NewInPlaceTestnetCmd ::
    "(string \<Rightarrow> action command) \<Rightarrow> (action command \<Rightarrow> action command) \<Rightarrow> action command" where
  "NewInPlaceTestnetCmd sdk addStartFlags =
     add_flag ''accounts-to-fund'' (string_flag '''') (addStartFlags (sdk ''server.InPlaceTestnetCreator''))"

section \<open>The root command\<close>

text \<open>What the SDK adds to commands and how it builds the context, apart from the commands themselves.\<close>

record ('c, 'r) root_env =
  sdk :: "string \<Rightarrow> action command"
  crisis_AddModuleInitFlags :: "action command \<Rightarrow> action command"
  server_AddCommands :: "(action command \<Rightarrow> action command) \<Rightarrow> action command \<Rightarrow> action command"
  takes_int :: "string \<Rightarrow> bool"
  DefaultBondDenom :: string
  Secp256k1Type :: string
  InjectClient :: "error + ('c \<times> 'r \<times> wired_name set)"
  RegisterInterfaces :: "wired_name \<Rightarrow> 'r \<Rightarrow> 'r"
  EnhanceRootCommand :: "wired_name set \<Rightarrow> action command \<Rightarrow> error + action command"

definition addModuleInitFlags :: "('c, 'r) root_env \<Rightarrow> action command \<Rightarrow> action command" where
  "addModuleInitFlags env startCmd = crisis_AddModuleInitFlags env startCmd"

definition genesisCommand :: "('c, 'r) root_env \<Rightarrow> action command list \<Rightarrow> action command" where
  "genesisCommand env cmds = fold (\<lambda>subCmd cmd. add_commands cmd [subCmd]) cmds (sdk env ''genutilcli.Commands'')"

definition queryCommand :: "('c, 'r) root_env \<Rightarrow> action command" where
  "queryCommand env = add_commands
     (Command ''query'' [''q''] None (Some (SdkAction ''client.ValidateCmd'')) no_flags
        [''chain-id'' \<mapsto> string_flag ''''] [])
     (map (sdk env) [''rpc.QueryEventForTxCmd'', ''rpc.ValidatorCommand'', ''server.QueryBlockCmd'',
        ''authcmd.QueryTxsByEventsCmd'', ''server.QueryBlocksCmd'', ''authcmd.QueryTxCmd'',
        ''server.QueryBlockResultsCmd''])"

definition txCommand :: "('c, 'r) root_env \<Rightarrow> action command" where
  "txCommand env = add_commands
     (Command ''tx'' [] None (Some (SdkAction ''client.ValidateCmd'')) no_flags
        [''chain-id'' \<mapsto> string_flag ''''] [])
     (map (sdk env) [''authcmd.GetSignCommand'', ''authcmd.GetSignBatchCommand'', ''authcmd.GetMultiSignCommand'',
        ''authcmd.GetMultiSignBatchCmd'', ''authcmd.GetValidateSignaturesCommand'', ''flags.LineBreak'',
        ''authcmd.GetBroadcastCommand'', ''authcmd.GetEncodeCommand'', ''authcmd.GetDecodeCommand'',
        ''authcmd.GetSimulateCmd''])"

definition root_commands :: "('c, 'r) root_env \<Rightarrow> action command list" where
  "root_commands env =
     [sdk env ''genutilcli.InitCmd'',
      NewInPlaceTestnetCmd (sdk env) (addModuleInitFlags env),
      NewTestnetMultiNodeCmd (takes_int env) (DefaultBondDenom env) (Secp256k1Type env),
      sdk env ''debug.Cmd'', sdk env ''confixcmd.ConfigCommand'', sdk env ''pruning.Cmd'', sdk env ''snapshot.Cmd'',
      GetSnapshotCmd, GetSnapshotInfoCmd, GetSnapshotListCmd, GetSnapshotRestoreCmd]"

definition initRootCmd :: "('c, 'r) root_env \<Rightarrow> action command \<Rightarrow> action command" where
  "initRootCmd env rootCmd =
     (let rootCmd = add_commands rootCmd (root_commands env);
          rootCmd = server_AddCommands env (addModuleInitFlags env) rootCmd
      in add_commands rootCmd
        [sdk env ''server.StatusCommand'', genesisCommand env [], queryCommand env, txCommand env,
         sdk env ''keys.Commands''])"

text \<open>The modules of IBC are added to both module lists of the client.\<close>

definition NewRootCmd :: "('c, 'r) root_env \<Rightarrow> (action command \<times> 'c \<times> 'r) exit" where
  "NewRootCmd env =
     bind_exit (or_panic (InjectClient env)) (\<lambda>(clientCtx, registry, modules).
     let rootCmd = Command (''Nexelra'' @ ''d'') [] None None no_flags no_flags [];
         (registry, ibcModules) = RegisterIBC (RegisterInterfaces env) RegisterIBC_modules registry;
         modules = modules \<union> ibcModules;
         rootCmd = overwriteFlagDefaults (default_flags ''Nexelra'') (initRootCmd env rootCmd)
     in bind_exit (or_panic (EnhanceRootCommand env modules rootCmd)) (\<lambda>rootCmd.
       Returns (rootCmd, clientCtx, registry)))"

text \<open>
  \<open>PersistentPreRunE\<close>: the context of the closure gets the command's context; what is read into it
  later stays in a variable of the call.
\<close>

definition PersistentPreRunE ::
    "('c \<Rightarrow> 'c) \<Rightarrow> ('c \<Rightarrow> error + 'c) \<Rightarrow> ('c \<Rightarrow> error + 'c) \<Rightarrow> ('c \<Rightarrow> error option) \<Rightarrow> error option
      \<Rightarrow> 'c \<Rightarrow> 'c \<times> error option" where
  "PersistentPreRunE WithCmdContext ReadPersistentCommandFlags ReadFromClientConfig SetCmdClientContextHandler
       InterceptConfigsPreRunHandler clientCtx =
     (let outer = WithCmdContext clientCtx in
      (outer, case ReadPersistentCommandFlags outer of
         Inl err \<Rightarrow> Some err
       | Inr clientCtx \<Rightarrow> (case ReadFromClientConfig clientCtx of
           Inl err \<Rightarrow> Some err
         | Inr clientCtx \<Rightarrow> (case SetCmdClientContextHandler clientCtx of
             Some err \<Rightarrow> Some err
           | None \<Rightarrow> InterceptConfigsPreRunHandler))))"

text \<open>\<open>ProvideClientContext\<close>: the error of the first reading of the configuration is ignored.\<close>

definition ProvideClientContext ::
    "('c \<Rightarrow> 'c \<times> error option) \<Rightarrow> ('c \<Rightarrow> 'o \<Rightarrow> error + 't) \<Rightarrow> ('t \<Rightarrow> 'c \<Rightarrow> 'c) \<Rightarrow> ('c \<Rightarrow> 'o \<Rightarrow> 'o) \<Rightarrow> 'o \<Rightarrow> 'c \<Rightarrow> 'c exit" where
  "ProvideClientContext ReadFromClientConfig NewTxConfigWithOptions WithTxConfig set_textual txConfigOpts clientCtx =
     (let clientCtx = fst (ReadFromClientConfig clientCtx);
          txConfigOpts = set_textual clientCtx txConfigOpts
      in bind_exit (or_panic (NewTxConfigWithOptions clientCtx txConfigOpts)) (\<lambda>txConfig.
        Returns (WithTxConfig txConfig clientCtx)))"

definition newApp :: "('w, 'c, 'k, 's) wiring_env \<Rightarrow> string list \<Rightarrow> ('w, 'c, 'k) App exit" where
  "newApp env DefaultBaseappOptions = bind_exit (New env True DefaultBaseappOptions) or_panic"

definition main :: "('c, 'r) root_env \<Rightarrow> (action command \<Rightarrow> error option) \<Rightarrow> unit exit" where
  "main env Execute =
     bind_exit (NewRootCmd env) (\<lambda>(rootCmd, clientCtx, registry).
     case Execute rootCmd of Some err \<Rightarrow> Exits err | None \<Rightarrow> Returns ())"

section \<open>What the commands do\<close>

definition snapshot_commands :: "action command list" where
  "snapshot_commands = [GetSnapshotInfoCmd, GetSnapshotListCmd, GetSnapshotRestoreCmd] @ Commands GetSnapshotCmd"

lemmas command_defs = snapshot_commands_def GetSnapshotCmd_def GetSnapshotInfoCmd_def GetSnapshotListCmd_def
  GetSnapshotRestoreCmd_def getSnapshotInfoSubCmd_def getSnapshotListSubCmd_def getSnapshotCreateSubCmd_def
  getSnapshotRestoreSubCmd_def getSnapshotDeleteSubCmd_def add_commands_def

lemma run_action_files:
  assumes "run_action home reply typed action args force fs = Some (Ok (ls, fs', err))" "fs' \<noteq> fs"
  shows "action = SnapshotDelete \<and> confirmed typed"
proof (cases action)
  case SnapshotInfo
  with assms show ?thesis
    by (cases "runSnapshotInfo home fs reply") (simp_all add: run_action_def)
next
  case SnapshotList
  with assms show ?thesis
    by (cases "runSnapshotList home fs") (simp_all add: run_action_def)
next
  case SnapshotDelete
  with assms show ?thesis
    by (cases args) (auto simp: run_action_def first_arg_def split: prod.splits
        dest: runSnapshotDelete_changed(1))
qed (use assms in \<open>simp_all add: run_action_def first_arg_def split: list.splits\<close>)

lemma snapshot_delete_command:
  "c \<in> set snapshot_commands \<Longrightarrow> RunE c = Some SnapshotDelete \<Longrightarrow> c = getSnapshotDeleteSubCmd"
  by (auto simp: command_defs)

text \<open>A snapshot command changes files only if it is \<open>delete\<close>, with one argument and a confirmation.\<close>

theorem snapshot_commands_keep_files:
  assumes "c \<in> set snapshot_commands" "run_command home reply typed c args force fs = Some (Ok (ls, fs', err))"
    and "fs' \<noteq> fs"
  shows "c = getSnapshotDeleteSubCmd \<and> length args = 1 \<and> confirmed typed"
proof -
  obtain action where action: "RunE c = Some action" "ExactArgs c = None \<or> ExactArgs c = Some (length args)"
    and run: "run_action home reply typed action args force fs = Some (Ok (ls, fs', err))"
    using assms(2,3) by (auto simp: run_command_def bind_eq_Some_conv split: if_splits)
  note delete = run_action_files [OF run assms(3)]
  with action(1) assms(1) have "c = getSnapshotDeleteSubCmd" by (simp add: snapshot_delete_command)
  with delete action(2) show ?thesis by (simp add: getSnapshotDeleteSubCmd_def)
qed

text \<open>The argument that a snapshot command reads is there: the checked number of arguments is enough.\<close>

theorem snapshot_commands_have_arguments:
  assumes "c \<in> set snapshot_commands" "RunE c \<noteq> Some SnapshotInfo"
  shows "run_command home reply typed c args force fs \<noteq> Some Panic"
proof (cases "ExactArgs c \<noteq> None \<and> ExactArgs c \<noteq> Some (length args)")
  case False
  have "RunE c = Some SnapshotList \<or> RunE c = Some SnapshotCreate
      \<or> ExactArgs c = Some 1 \<and> RunE c \<in> {Some SnapshotRestore, Some SnapshotRestoreWithForce, Some SnapshotDelete}
      \<or> RunE c = None"
    using assms by (auto simp: command_defs)
  with False show ?thesis
    by (cases args; cases "runSnapshotList home fs")
      (auto simp: run_command_def run_action_def first_arg_def split: prod.splits)
qed (simp add: run_command_def)

section \<open>The tree\<close>

definition name_of_use :: "string \<Rightarrow> string" where
  "name_of_use = takeWhile (\<lambda>c. c \<noteq> CHR '' '')"

definition cmd_name :: "'a command \<Rightarrow> string" where
  "cmd_name c = name_of_use (Use c)"

text \<open>\<open>server.AddCommands\<close> adds to the commands that are there.\<close>

definition adds_commands :: "('c, 'r) root_env \<Rightarrow> bool" where
  "adds_commands env \<longleftrightarrow> (\<forall>c. \<exists>cs. server_AddCommands env (addModuleInitFlags env) c = add_commands c cs)"

lemma Commands_add [simp]: "Commands (add_commands c cs) = Commands c @ cs"
  by (simp add: add_commands_def)

lemma initRootCmd_commands:
  assumes "adds_commands env"
  shows "\<exists>cs. Commands (initRootCmd env root) = Commands root @ root_commands env @ cs"
proof -
  obtain cs where "server_AddCommands env (addModuleInitFlags env) (add_commands root (root_commands env))
      = add_commands (add_commands root (root_commands env)) cs"
    using assms unfolding adds_commands_def by blast
  then show ?thesis by (simp add: initRootCmd_def)
qed

text \<open>
  The group \<open>snapshots\<close> of the SDK and that of this repository have the same name under the root, so
  that one of them cannot be called: cobra takes one command for a name.
\<close>

theorem two_snapshots_commands:
  assumes "adds_commands env" "cmd_name (sdk env ''snapshot.Cmd'') = ''snapshots''"
  shows "\<not> distinct (map cmd_name (Commands (initRootCmd env root)))
    \<and> {GetSnapshotCmd, sdk env ''snapshot.Cmd''} \<subseteq> {c \<in> set (Commands (initRootCmd env root)). cmd_name c = ''snapshots''}"
proof -
  have "cmd_name GetSnapshotCmd = ''snapshots''"
    by (simp add: cmd_name_def name_of_use_def GetSnapshotCmd_def add_commands_def)
  with initRootCmd_commands [OF assms(1), of root] assms(2) show ?thesis
    by (auto simp: root_commands_def)
qed

text \<open>
  The flag \<open>chain-id\<close> of \<open>multi-node\<close>, which its help text says to leave blank for a random chain
  identifier, is never blank unless set so: its default is overwritten like that of all commands.
\<close>

theorem multi_node_chain_id:
  assumes "adds_commands env"
  shows "\<exists>c \<in> set (Commands (overwriteFlagDefaults (default_flags ''Nexelra'') (initRootCmd env root))).
    cmd_name c = ''multi-node'' \<and> map_option FlagValue (Flags c ''chain-id'') = Some ''Nexelra''"
proof -
  let ?c = "NewTestnetMultiNodeCmd (takes_int env) (DefaultBondDenom env) (Secp256k1Type env)"
  let ?over = "overwriteFlagDefaults (default_flags ''Nexelra'')"
  have "?c \<in> set (Commands (initRootCmd env root))"
    using initRootCmd_commands [OF assms, of root] by (auto simp: root_commands_def)
  then have "?over ?c \<in> set (Commands (?over (initRootCmd env root)))"
    by (cases "initRootCmd env root") simp
  moreover have "cmd_name (?over ?c) = ''multi-node''"
    and "map_option FlagValue (Flags (?over ?c) ''chain-id'') = Some ''Nexelra''"
    by (simp_all add: NewTestnetMultiNodeCmd_def addTestnetFlagsToCmd_def add_flag_def cmd_name_def name_of_use_def
        default_flags_def set_default_def string_flag_def)
  ultimately show ?thesis by blast
qed

section \<open>Configurations\<close>

text \<open>
  \<open>cmd/config.go\<close>: both configurations are the defaults of the SDK and of CometBFT as they are, also
  the minimum gas price, which the SDK leaves empty.
\<close>

record 'cfg CustomAppConfig =
  Config :: 'cfg

definition initCometBFTConfig :: "'cmt \<Rightarrow> 'cmt" where
  "initCometBFTConfig DefaultConfig = (let cfg = DefaultConfig in cfg)"

definition initAppConfig :: "'cfg \<Rightarrow> string \<Rightarrow> string \<times> 'cfg CustomAppConfig" where
  "initAppConfig DefaultConfig DefaultConfigTemplate =
     (let srvCfg = DefaultConfig;
          customAppConfig = \<lparr>Config = srvCfg\<rparr>;
          customAppTemplate = DefaultConfigTemplate
      in (customAppTemplate, customAppConfig))"

text \<open>
  \<open>AppConfig\<close> of \<open>app.go\<close>: the configuration of the modules and the two module basics that need more than
  their zero value.
\<close>

datatype module_basic =
    GenutilBasic string \<comment> \<open>the validator of genesis messages\<close>
  | GovBasic "string list" \<comment> \<open>the proposal handlers\<close>

definition getGovProposalHandlers :: "string list" where
  "getGovProposalHandlers = [] @ [''paramsclient.ProposalHandler'']"

definition AppConfig :: "(wired_name \<times> module_config) list \<times> (sdk_name \<rightharpoonup> module_basic)" where
  "AppConfig =
     (appConfig, [genutil \<mapsto> GenutilBasic ''genutiltypes.DefaultMessageValidator'',
                  gov \<mapsto> GovBasic getGovProposalHandlers])"

text \<open>The supplied basics are of modules that are configured.\<close>

theorem supplied_basics_configured:
  "Module ` dom (snd AppConfig) \<subseteq> fst ` set (fst AppConfig)"
  by (auto simp: AppConfig_def appConfig_def split: if_splits)

end
