(* ===== verification/Descriptors.thy ===== *)
theory Descriptors
  imports Decoder
begin

text \<open>
  The file descriptors: what the \<open>.proto\<close> files of the repository declare, the encoding that
  \<open>descriptor.proto\<close> prescribes for it, and the tables \<open>file_..._rawDesc\<close>,
        \<open>goTypes\<close> and \<open>depIdxs\<close>
  of the \<open>*.pulsar.go\<close> files, which the protobuf run time builds the reflection of messages and
  services from.
\<close>

section \<open>Declarations\<close>

text \<open>
  Options are pairs of a field number and a value; those of the SDK, of gogoproto and of the HTTP
  rules are extensions with large numbers.
\<close>

datatype opt_value =
    OptVarint nat
  | OptString string
  | OptMessage "(nat \<times> opt_value) list"

type_synonym options = "(nat \<times> opt_value) list"

text \<open>
  The label is 1 for a singular and 3 for a repeated field; the types are 3 for \<open>int64\<close>, 9 for
  \<open>string\<close> and 11 for a message.
\<close>

record field_decl =
  field_name :: string
  field_number :: nat
  field_label :: nat
  field_type :: nat
  type_name :: string
  field_options :: options
  json_name :: string

record message_decl =
  message_name :: string
  message_fields :: "field_decl list"
  message_options :: options

record method_decl =
  method_name :: string
  input_type :: string
  output_type :: string
  method_options :: options

record service_decl =
  service_name :: string
  methods :: "method_decl list"
  service_options :: options

record file_decl =
  file_name :: string
  package :: string
  dependencies :: "string list"
  messages :: "message_decl list"
  services :: "service_decl list"
  file_options :: options
  syntax_name :: string

section \<open>The encoding of descriptor.proto\<close>

fun enc_option :: "nat \<times> opt_value \<Rightarrow> bytes" where
  "enc_option (n, OptVarint v) = uvarint (of_nat (8 * n)) @ uvarint (of_nat v)"
| "enc_option (n, OptString s) = uvarint (of_nat (8 * n + 2)) @ uvarint (of_nat (length s)) @ bytes_of s"
| "enc_option (n, OptMessage os) =
     (let b = concat (map enc_option os) in uvarint (of_nat (8 * n + 2)) @ uvarint (of_nat (length b)) @ b)"

definition enc_options :: "byte \<Rightarrow> options \<Rightarrow> bytes" where
  "enc_options tag os = (if os = [] then [] else enc_len tag (concat (map enc_option os)))"

definition enc_field_decl :: "field_decl \<Rightarrow> bytes" where
  "enc_field_decl f = enc_str 0x0a (field_name f) @ enc_int 0x18 (of_nat (field_number f))
     @ enc_int 0x20 (of_nat (field_label f)) @ enc_int 0x28 (of_nat (field_type f))
     @ enc_str 0x32 (type_name f) @ enc_options 0x42 (field_options f) @ enc_str 0x52 (json_name f)"

definition enc_message_decl :: "message_decl \<Rightarrow> bytes" where
  "enc_message_decl m = enc_str 0x0a (message_name m) @ concat (map (enc_len 0x12 \<circ> enc_field_decl) (message_fields m))
     @ enc_options 0x3a (message_options m)"

definition enc_method_decl :: "method_decl \<Rightarrow> bytes" where
  "enc_method_decl m = enc_str 0x0a (method_name m) @ enc_str 0x12 (input_type m) @ enc_str 0x1a (output_type m)
     @ enc_options 0x22 (method_options m)"

definition enc_service_decl :: "service_decl \<Rightarrow> bytes" where
  "enc_service_decl s = enc_str 0x0a (service_name s) @ concat (map (enc_len 0x12 \<circ> enc_method_decl) (methods s))
     @ enc_options 0x1a (service_options s)"

definition enc_file_decl :: "file_decl \<Rightarrow> bytes" where
  "enc_file_decl f = enc_str 0x0a (file_name f) @ enc_str 0x12 (package f)
     @ concat (map (enc_str 0x1a) (dependencies f)) @ concat (map (enc_len 0x22 \<circ> enc_message_decl) (messages f))
     @ concat (map (enc_len 0x32 \<circ> enc_service_decl) (services f)) @ enc_options 0x42 (file_options f)
     @ enc_str 0x62 (syntax_name f)"

section \<open>Evaluation\<close>

text \<open>Varints of numerals, by division of natural numbers.\<close>

fun varint_nat :: "nat \<Rightarrow> bytes" where
  "varint_nat n = (if n < 128 then [of_nat n] else of_nat (n mod 128 + 128) # varint_nat (n div 128))"

declare varint_nat.simps [simp del]

lemma low_byte: "ucast ((of_nat n :: u64) AND 0x7F OR 0x80) = (of_nat (n mod 128 + 128) :: byte)"
proof -
  have "(of_nat n :: u64) AND 0x7F = take_bit 7 (of_nat n)"
    by (simp add: take_bit_eq_mask mask_eq_exp_minus_1)
  then have "ucast ((of_nat n :: u64) AND 0x7F OR 0x80) = (take_bit 7 (of_nat n) OR 0x80 :: byte)"
    by (intro bit_word_eqI) (auto simp: bit_simps)
  also have "\<dots> = take_bit 7 (of_nat n) + 0x80"
  proof (rule disjunctive_add_eq_or [symmetric])
    have b: "bit (0x80 :: byte) k \<longleftrightarrow> k = 7" for k
      by (cases "k < 8") (auto simp: bit_numeral_rec numeral_eq_Suc less_Suc_eq dest: bit_imp_le_length)
    show "take_bit 7 (of_nat n) AND (0x80 :: byte) = 0"
    proof (rule bit_word_eqI)
      fix k
      show "bit (take_bit 7 (of_nat n) AND (0x80 :: byte)) k = bit (0 :: byte) k"
        unfolding bit_and_iff bit_take_bit_iff b by simp
    qed
  qed
  also have "take_bit 7 (of_nat n) = (of_nat (n mod 128) :: byte)"
    by (intro word_unat_eq_iff [THEN iffD2])
      (simp add: unsigned_take_bit_eq unat_of_nat take_bit_nat_def mod_mod_cancel)
  finally show ?thesis by simp
qed

lemma uvarint_of_nat: "n < 2 ^ 64 \<Longrightarrow> uvarint (of_nat n) = varint_nat n"
proof (induction n rule: varint_nat.induct)
  case (1 n)
  have lt: "(of_nat n :: u64) < 128 \<longleftrightarrow> n < 128"
    using 1(2) by (simp add: word_less_nat_alt unat_of_nat)
  have d: "drop_bit 7 (of_nat n :: u64) = of_nat (n div 128)"
    using 1(2) by (intro word_unat_eq_iff [THEN iffD2]) (simp add: unat_drop7 unat_of_nat le_less_trans [OF div_le_dividend])
  have "n div 128 < 2 ^ 64" using 1(2) by (rule le_less_trans [OF div_le_dividend])
  with 1(1) have "\<not> n < 128 \<Longrightarrow> uvarint (of_nat (n div 128)) = varint_nat (n div 128)" by blast
  then show ?case
    by (subst uvarint.simps,
        subst varint_nat.simps) (simp add: lt low_byte d unsigned_of_nat take_bit_nat_eq_self)
qed

lemma uvarint_numeral: "(numeral k :: nat) < 2 ^ 64 \<Longrightarrow> uvarint (numeral k) = varint_nat (numeral k)"
  using uvarint_of_nat [of "numeral k"] by simp

lemma varint_nat_numeral: "varint_nat (numeral k) = (if numeral k < (128 :: nat) then [numeral k]
    else of_nat (numeral k mod 128 + 128) # varint_nat (numeral k div 128))"
  by (subst varint_nat.simps) simp

lemma varint_nat_1: "varint_nat 1 = [1]" "varint_nat (Suc 0) = [1]" "varint_nat 0 = [0]"
  by (simp_all add: varint_nat.simps)

lemma uvarint_0_1: "uvarint 0 = [0]" "uvarint 1 = [1]"
  by (simp_all add: uvarint.simps)

lemmas eval_varint = uvarint_numeral varint_nat_numeral varint_nat_1 uvarint_0_1

lemmas eval_decl = enc_options_def enc_field_decl_def enc_message_decl_def enc_method_decl_def enc_service_decl_def
  enc_file_decl_def enc_str_def enc_len_def enc_int_def bytes_of_def byte_of_def

section \<open>What the proto files declare\<close>

text \<open>
  \<open>proto/nexelra/identity\<close>. The file options are those that the code generator adds for the target
  languages.
\<close>

definition Identity_decl :: message_decl where
  "Identity_decl = \<lparr>message_name = ''Identity'', message_fields =
        [\<lparr>field_name = ''address'', field_number = 1, field_label = 1, field_type = 9,
          type_name = [], field_options = [], json_name = ''address''\<rparr>,
         \<lparr>field_name = ''idHash'', field_number = 2, field_label = 1, field_type = 9,
          type_name = [], field_options = [], json_name = ''idHash''\<rparr>,
         \<lparr>field_name = ''createdAt'', field_number = 3, field_label = 1, field_type = 3,
          type_name = [], field_options = [], json_name = ''createdAt''\<rparr>],
      message_options = []\<rparr>"

definition identity_identity_proto_decl :: file_decl where
  "identity_identity_proto_decl = \<lparr>file_name = ''nexelra/identity/identity.proto'',
        package = ''nexelra.identity'',
      dependencies = [],
      messages = [Identity_decl], services = [],
      file_options = [(1, OptString ''com.nexelra.identity''), (8, OptString ''IdentityProto''), (10,
        OptVarint 1), (11, OptString ''Nexelra/api/nexelra/identity''), (36, OptString ''NIX''), (37,
        OptString ''Nexelra.Identity''), (41, OptString (''Nexelra'' @ [CHR 0x5C] @ ''Identity'')), (44,
        OptString (''Nexelra'' @ [CHR 0x5C] @ ''Identity'' @ [CHR 0x5C] @ ''GPBMetadata'')), (45,
        OptString ''Nexelra::Identity'')],
      syntax_name = ''proto3''\<rparr>"

definition Params_decl :: message_decl where
  "Params_decl = \<lparr>message_name = ''Params'', message_fields =
        [],
      message_options = [(64013, OptVarint 1), (11110001, OptString ''nexelra/x/identity/Params'')]\<rparr>"

definition identity_params_proto_decl :: file_decl where
  "identity_params_proto_decl = \<lparr>file_name = ''nexelra/identity/params.proto'',
        package = ''nexelra.identity'',
      dependencies = [''amino/amino.proto'', ''gogoproto/gogo.proto''],
      messages = [Params_decl], services = [],
      file_options = [(1, OptString ''com.nexelra.identity''), (8, OptString ''ParamsProto''), (10,
        OptVarint 1), (11, OptString ''Nexelra/api/nexelra/identity''), (36, OptString ''NIX''), (37,
        OptString ''Nexelra.Identity''), (41, OptString (''Nexelra'' @ [CHR 0x5C] @ ''Identity'')), (44,
        OptString (''Nexelra'' @ [CHR 0x5C] @ ''Identity'' @ [CHR 0x5C] @ ''GPBMetadata'')), (45,
        OptString ''Nexelra::Identity'')],
      syntax_name = ''proto3''\<rparr>"

definition GenesisState_decl :: message_decl where
  "GenesisState_decl = \<lparr>message_name = ''GenesisState'', message_fields =
        [\<lparr>field_name = ''params'', field_number = 1, field_label = 1, field_type = 11,
          type_name = ''.nexelra.identity.Params'', field_options = [(65001, OptVarint 0), (11110005,
        OptVarint 1)], json_name = ''params''\<rparr>,
         \<lparr>field_name = ''identityList'', field_number = 2, field_label = 3, field_type = 11,
          type_name = ''.nexelra.identity.Identity'', field_options = [(65001, OptVarint 0)],
        json_name = ''identityList''\<rparr>],
      message_options = []\<rparr>"

definition identity_genesis_proto_decl :: file_decl where
  "identity_genesis_proto_decl = \<lparr>file_name = ''nexelra/identity/genesis.proto'',
        package = ''nexelra.identity'',
      dependencies = [''amino/amino.proto'', ''gogoproto/gogo.proto'', ''nexelra/identity/params.proto'',
        ''nexelra/identity/identity.proto''],
      messages = [GenesisState_decl], services = [],
      file_options = [(1, OptString ''com.nexelra.identity''), (8, OptString ''GenesisProto''), (10,
        OptVarint 1), (11, OptString ''Nexelra/api/nexelra/identity''), (36, OptString ''NIX''), (37,
        OptString ''Nexelra.Identity''), (41, OptString (''Nexelra'' @ [CHR 0x5C] @ ''Identity'')), (44,
        OptString (''Nexelra'' @ [CHR 0x5C] @ ''Identity'' @ [CHR 0x5C] @ ''GPBMetadata'')), (45,
        OptString ''Nexelra::Identity'')],
      syntax_name = ''proto3''\<rparr>"

definition QueryParamsRequest_decl :: message_decl where
  "QueryParamsRequest_decl = \<lparr>message_name = ''QueryParamsRequest'', message_fields =
        [],
      message_options = []\<rparr>"

definition QueryParamsResponse_decl :: message_decl where
  "QueryParamsResponse_decl = \<lparr>message_name = ''QueryParamsResponse'', message_fields =
        [\<lparr>field_name = ''params'', field_number = 1, field_label = 1, field_type = 11,
          type_name = ''.nexelra.identity.Params'', field_options = [(65001, OptVarint 0), (11110005,
        OptVarint 1)], json_name = ''params''\<rparr>],
      message_options = []\<rparr>"

definition QueryGetIdentityRequest_decl :: message_decl where
  "QueryGetIdentityRequest_decl = \<lparr>message_name = ''QueryGetIdentityRequest'', message_fields =
        [\<lparr>field_name = ''address'', field_number = 1, field_label = 1, field_type = 9,
          type_name = [], field_options = [], json_name = ''address''\<rparr>],
      message_options = []\<rparr>"

definition QueryGetIdentityResponse_decl :: message_decl where
  "QueryGetIdentityResponse_decl = \<lparr>message_name = ''QueryGetIdentityResponse'', message_fields =
        [\<lparr>field_name = ''identity'', field_number = 1, field_label = 1, field_type = 11,
          type_name = ''.nexelra.identity.Identity'', field_options = [(65001, OptVarint 0)],
        json_name = ''identity''\<rparr>],
      message_options = []\<rparr>"

definition QueryAllIdentityRequest_decl :: message_decl where
  "QueryAllIdentityRequest_decl = \<lparr>message_name = ''QueryAllIdentityRequest'', message_fields =
        [\<lparr>field_name = ''pagination'', field_number = 1, field_label = 1, field_type = 11,
          type_name = ''.cosmos.base.query.v1beta1.PageRequest'', field_options = [],
        json_name = ''pagination''\<rparr>],
      message_options = []\<rparr>"

definition QueryAllIdentityResponse_decl :: message_decl where
  "QueryAllIdentityResponse_decl = \<lparr>message_name = ''QueryAllIdentityResponse'', message_fields =
        [\<lparr>field_name = ''identity'', field_number = 1, field_label = 3, field_type = 11,
          type_name = ''.nexelra.identity.Identity'', field_options = [(65001, OptVarint 0)],
        json_name = ''identity''\<rparr>,
         \<lparr>field_name = ''pagination'', field_number = 2, field_label = 1, field_type = 11,
          type_name = ''.cosmos.base.query.v1beta1.PageResponse'', field_options = [],
        json_name = ''pagination''\<rparr>],
      message_options = []\<rparr>"

definition QueryIdentityByCccdIdRequest_decl :: message_decl where
  "QueryIdentityByCccdIdRequest_decl = \<lparr>message_name = ''QueryIdentityByCccdIdRequest'',
        message_fields =
        [\<lparr>field_name = ''idHash'', field_number = 1, field_label = 1, field_type = 9,
          type_name = [], field_options = [], json_name = ''idHash''\<rparr>,
         \<lparr>field_name = ''pagination'', field_number = 2, field_label = 1, field_type = 11,
          type_name = ''.cosmos.base.query.v1beta1.PageRequest'', field_options = [],
        json_name = ''pagination''\<rparr>],
      message_options = []\<rparr>"

definition QueryIdentityByCccdIdResponse_decl :: message_decl where
  "QueryIdentityByCccdIdResponse_decl = \<lparr>message_name = ''QueryIdentityByCccdIdResponse'',
        message_fields =
        [\<lparr>field_name = ''identity'', field_number = 1, field_label = 3, field_type = 11,
          type_name = ''.nexelra.identity.Identity'', field_options = [(65001, OptVarint 0)],
        json_name = ''identity''\<rparr>,
         \<lparr>field_name = ''pagination'', field_number = 2, field_label = 1, field_type = 11,
          type_name = ''.cosmos.base.query.v1beta1.PageResponse'', field_options = [],
        json_name = ''pagination''\<rparr>],
      message_options = []\<rparr>"

definition Query_decl :: service_decl where
  "Query_decl = \<lparr>service_name = ''Query'', methods =
        [\<lparr>method_name = ''Params'', input_type = ''.nexelra.identity.QueryParamsRequest'',
          output_type = ''.nexelra.identity.QueryParamsResponse'', method_options = [(72295728,
        OptMessage [(2, OptString ''/Nexelra/identity/params'')])]\<rparr>,
         \<lparr>method_name = ''Identity'', input_type = ''.nexelra.identity.QueryGetIdentityRequest'',
          output_type = ''.nexelra.identity.QueryGetIdentityResponse'', method_options = [(72295728,
        OptMessage [(2, OptString ''/Nexelra/identity/identity/{address}'')])]\<rparr>,
         \<lparr>method_name = ''IdentityAll'', input_type = ''.nexelra.identity.QueryAllIdentityRequest'',
          output_type = ''.nexelra.identity.QueryAllIdentityResponse'', method_options = [(72295728,
        OptMessage [(2, OptString ''/Nexelra/identity/identity'')])]\<rparr>,
         \<lparr>method_name = ''IdentityByCccdId'',
        input_type = ''.nexelra.identity.QueryIdentityByCccdIdRequest'',
          output_type = ''.nexelra.identity.QueryIdentityByCccdIdResponse'', method_options = [(72295728,
        OptMessage [(2, OptString ''/Nexelra/identity/identity-by-cccd/{idHash}'')])]\<rparr>],
      service_options = []\<rparr>"

definition identity_query_proto_decl :: file_decl where
  "identity_query_proto_decl = \<lparr>file_name = ''nexelra/identity/query.proto'',
        package = ''nexelra.identity'',
      dependencies = [''amino/amino.proto'', ''gogoproto/gogo.proto'', ''google/api/annotations.proto'',
        ''cosmos/base/query/v1beta1/pagination.proto'', ''nexelra/identity/params.proto'',
        ''nexelra/identity/identity.proto''],
      messages = [QueryParamsRequest_decl, QueryParamsResponse_decl, QueryGetIdentityRequest_decl,
        QueryGetIdentityResponse_decl, QueryAllIdentityRequest_decl, QueryAllIdentityResponse_decl,
        QueryIdentityByCccdIdRequest_decl, QueryIdentityByCccdIdResponse_decl], services = [Query_decl],
      file_options = [(1, OptString ''com.nexelra.identity''), (8, OptString ''QueryProto''), (10,
        OptVarint 1), (11, OptString ''Nexelra/api/nexelra/identity''), (36, OptString ''NIX''), (37,
        OptString ''Nexelra.Identity''), (41, OptString (''Nexelra'' @ [CHR 0x5C] @ ''Identity'')), (44,
        OptString (''Nexelra'' @ [CHR 0x5C] @ ''Identity'' @ [CHR 0x5C] @ ''GPBMetadata'')), (45,
        OptString ''Nexelra::Identity'')],
      syntax_name = ''proto3''\<rparr>"

definition MsgUpdateParams_decl :: message_decl where
  "MsgUpdateParams_decl = \<lparr>message_name = ''MsgUpdateParams'', message_fields =
        [\<lparr>field_name = ''authority'', field_number = 1, field_label = 1, field_type = 9,
          type_name = [], field_options = [(93002, OptString ''cosmos.AddressString'')],
        json_name = ''authority''\<rparr>,
         \<lparr>field_name = ''params'', field_number = 2, field_label = 1, field_type = 11,
          type_name = ''.nexelra.identity.Params'', field_options = [(65001, OptVarint 0), (11110005,
        OptVarint 1)], json_name = ''params''\<rparr>],
      message_options = [(11110000, OptString ''authority''), (11110001,
        OptString ''Nexelra/x/identity/MsgUpdateParams'')]\<rparr>"

definition MsgUpdateParamsResponse_decl :: message_decl where
  "MsgUpdateParamsResponse_decl = \<lparr>message_name = ''MsgUpdateParamsResponse'', message_fields =
        [],
      message_options = []\<rparr>"

definition MsgCreateIdentity_decl :: message_decl where
  "MsgCreateIdentity_decl = \<lparr>message_name = ''MsgCreateIdentity'', message_fields =
        [\<lparr>field_name = ''creator'', field_number = 1, field_label = 1, field_type = 9,
          type_name = [], field_options = [], json_name = ''creator''\<rparr>,
         \<lparr>field_name = ''cccdId'', field_number = 2, field_label = 1, field_type = 9,
          type_name = [], field_options = [], json_name = ''cccdId''\<rparr>],
      message_options = [(11110000, OptString ''creator'')]\<rparr>"

definition MsgCreateIdentityResponse_decl :: message_decl where
  "MsgCreateIdentityResponse_decl = \<lparr>message_name = ''MsgCreateIdentityResponse'', message_fields =
        [],
      message_options = []\<rparr>"

definition Msg_decl :: service_decl where
  "Msg_decl = \<lparr>service_name = ''Msg'', methods =
        [\<lparr>method_name = ''UpdateParams'', input_type = ''.nexelra.identity.MsgUpdateParams'',
          output_type = ''.nexelra.identity.MsgUpdateParamsResponse'', method_options = []\<rparr>,
         \<lparr>method_name = ''CreateIdentity'', input_type = ''.nexelra.identity.MsgCreateIdentity'',
          output_type = ''.nexelra.identity.MsgCreateIdentityResponse'', method_options = []\<rparr>],
      service_options = [(11110000, OptVarint 1)]\<rparr>"

definition identity_tx_proto_decl :: file_decl where
  "identity_tx_proto_decl = \<lparr>file_name = ''nexelra/identity/tx.proto'', package = ''nexelra.identity'',
      dependencies = [''amino/amino.proto'', ''cosmos/msg/v1/msg.proto'', ''cosmos_proto/cosmos.proto'',
        ''gogoproto/gogo.proto'', ''nexelra/identity/params.proto''],
      messages = [MsgUpdateParams_decl, MsgUpdateParamsResponse_decl, MsgCreateIdentity_decl,
        MsgCreateIdentityResponse_decl], services = [Msg_decl],
      file_options = [(1, OptString ''com.nexelra.identity''), (8, OptString ''TxProto''), (10,
        OptVarint 1), (11, OptString ''Nexelra/api/nexelra/identity''), (36, OptString ''NIX''), (37,
        OptString ''Nexelra.Identity''), (41, OptString (''Nexelra'' @ [CHR 0x5C] @ ''Identity'')), (44,
        OptString (''Nexelra'' @ [CHR 0x5C] @ ''Identity'' @ [CHR 0x5C] @ ''GPBMetadata'')), (45,
        OptString ''Nexelra::Identity'')],
      syntax_name = ''proto3''\<rparr>"

definition Module_decl :: message_decl where
  "Module_decl = \<lparr>message_name = ''Module'', message_fields =
        [\<lparr>field_name = ''authority'', field_number = 1, field_label = 1, field_type = 9,
          type_name = [], field_options = [], json_name = ''authority''\<rparr>],
      message_options = [(57193479, OptMessage [(1, OptString ''Nexelra/x/identity'')])]\<rparr>"

definition identity_module_module_proto_decl :: file_decl where
  "identity_module_module_proto_decl = \<lparr>file_name = ''nexelra/identity/module/module.proto'',
        package = ''nexelra.identity.module'',
      dependencies = [''cosmos/app/v1alpha1/module.proto''],
      messages = [Module_decl], services = [],
      file_options = [(1, OptString ''com.nexelra.identity.module''), (8, OptString ''ModuleProto''), (10,
        OptVarint 1), (11, OptString ''Nexelra/api/nexelra/identity/module''), (36, OptString ''NIM''),
        (37, OptString ''Nexelra.Identity.Module''), (41,
        OptString (''Nexelra'' @ [CHR 0x5C] @ ''Identity'' @ [CHR 0x5C] @ ''Module'')), (44,
        OptString (''Nexelra'' @ [CHR 0x5C] @ ''Identity'' @ [CHR 0x5C] @ ''Module'' @ [CHR 0x5C] @ ''GPBMetadata'')), (45, OptString ''Nexelra::Identity::Module'')],
      syntax_name = ''proto3''\<rparr>"

section \<open>The tables of the Go files\<close>

definition file_nexelra_identity_identity_proto_rawDesc :: bytes where
  "file_nexelra_identity_identity_proto_rawDesc = [
    0xa, 0x1f, 0x6e, 0x65, 0x78, 0x65, 0x6c, 0x72, 0x61, 0x2f, 0x69, 0x64, 0x65, 0x6e, 0x74, 0x69,
    0x74, 0x79, 0x2f, 0x69, 0x64, 0x65, 0x6e, 0x74, 0x69, 0x74, 0x79, 0x2e, 0x70, 0x72, 0x6f, 0x74,
    0x6f, 0x12, 0x10, 0x6e, 0x65, 0x78, 0x65, 0x6c, 0x72, 0x61, 0x2e, 0x69, 0x64, 0x65, 0x6e, 0x74,
    0x69, 0x74, 0x79, 0x22, 0x5a, 0xa, 0x8, 0x49, 0x64, 0x65, 0x6e, 0x74, 0x69, 0x74, 0x79, 0x12,
    0x18, 0xa, 0x7, 0x61, 0x64, 0x64, 0x72, 0x65, 0x73, 0x73, 0x18, 0x1, 0x20, 0x1, 0x28, 0x9,
    0x52, 0x7, 0x61, 0x64, 0x64, 0x72, 0x65, 0x73, 0x73, 0x12, 0x16, 0xa, 0x6, 0x69, 0x64, 0x48,
    0x61, 0x73, 0x68, 0x18, 0x2, 0x20, 0x1, 0x28, 0x9, 0x52, 0x6, 0x69, 0x64, 0x48, 0x61, 0x73,
    0x68, 0x12, 0x1c, 0xa, 0x9, 0x63, 0x72, 0x65, 0x61, 0x74, 0x65, 0x64, 0x41, 0x74, 0x18, 0x3,
    0x20, 0x1, 0x28, 0x3, 0x52, 0x9, 0x63, 0x72, 0x65, 0x61, 0x74, 0x65, 0x64, 0x41, 0x74, 0x42,
    0xa4, 0x1, 0xa, 0x14, 0x63, 0x6f, 0x6d, 0x2e, 0x6e, 0x65, 0x78, 0x65, 0x6c, 0x72, 0x61, 0x2e,
    0x69, 0x64, 0x65, 0x6e, 0x74, 0x69, 0x74, 0x79, 0x42, 0xd, 0x49, 0x64, 0x65, 0x6e, 0x74, 0x69,
    0x74, 0x79, 0x50, 0x72, 0x6f, 0x74, 0x6f, 0x50, 0x1, 0x5a, 0x1c, 0x4e, 0x65, 0x78, 0x65, 0x6c,
    0x72, 0x61, 0x2f, 0x61, 0x70, 0x69, 0x2f, 0x6e, 0x65, 0x78, 0x65, 0x6c, 0x72, 0x61, 0x2f, 0x69,
    0x64, 0x65, 0x6e, 0x74, 0x69, 0x74, 0x79, 0xa2, 0x2, 0x3, 0x4e, 0x49, 0x58, 0xaa, 0x2, 0x10,
    0x4e, 0x65, 0x78, 0x65, 0x6c, 0x72, 0x61, 0x2e, 0x49, 0x64, 0x65, 0x6e, 0x74, 0x69, 0x74, 0x79,
    0xca, 0x2, 0x10, 0x4e, 0x65, 0x78, 0x65, 0x6c, 0x72, 0x61, 0x5c, 0x49, 0x64, 0x65, 0x6e, 0x74,
    0x69, 0x74, 0x79, 0xe2, 0x2, 0x1c, 0x4e, 0x65, 0x78, 0x65, 0x6c, 0x72, 0x61, 0x5c, 0x49, 0x64,
    0x65, 0x6e, 0x74, 0x69, 0x74, 0x79, 0x5c, 0x47, 0x50, 0x42, 0x4d, 0x65, 0x74, 0x61, 0x64, 0x61,
    0x74, 0x61, 0xea, 0x2, 0x11, 0x4e, 0x65, 0x78, 0x65, 0x6c, 0x72, 0x61, 0x3a, 0x3a, 0x49, 0x64,
    0x65, 0x6e, 0x74, 0x69, 0x74, 0x79, 0x62, 0x6, 0x70, 0x72, 0x6f, 0x74, 0x6f, 0x33]"

definition file_nexelra_identity_params_proto_rawDesc :: bytes where
  "file_nexelra_identity_params_proto_rawDesc = [
    0xa, 0x1d, 0x6e, 0x65, 0x78, 0x65, 0x6c, 0x72, 0x61, 0x2f, 0x69, 0x64, 0x65, 0x6e, 0x74, 0x69,
    0x74, 0x79, 0x2f, 0x70, 0x61, 0x72, 0x61, 0x6d, 0x73, 0x2e, 0x70, 0x72, 0x6f, 0x74, 0x6f, 0x12,
    0x10, 0x6e, 0x65, 0x78, 0x65, 0x6c, 0x72, 0x61, 0x2e, 0x69, 0x64, 0x65, 0x6e, 0x74, 0x69, 0x74,
    0x79, 0x1a, 0x11, 0x61, 0x6d, 0x69, 0x6e, 0x6f, 0x2f, 0x61, 0x6d, 0x69, 0x6e, 0x6f, 0x2e, 0x70,
    0x72, 0x6f, 0x74, 0x6f, 0x1a, 0x14, 0x67, 0x6f, 0x67, 0x6f, 0x70, 0x72, 0x6f, 0x74, 0x6f, 0x2f,
    0x67, 0x6f, 0x67, 0x6f, 0x2e, 0x70, 0x72, 0x6f, 0x74, 0x6f, 0x22, 0x2c, 0xa, 0x6, 0x50, 0x61,
    0x72, 0x61, 0x6d, 0x73, 0x3a, 0x22, 0xe8, 0xa0, 0x1f, 0x1, 0x8a, 0xe7, 0xb0, 0x2a, 0x19, 0x6e,
    0x65, 0x78, 0x65, 0x6c, 0x72, 0x61, 0x2f, 0x78, 0x2f, 0x69, 0x64, 0x65, 0x6e, 0x74, 0x69, 0x74,
    0x79, 0x2f, 0x50, 0x61, 0x72, 0x61, 0x6d, 0x73, 0x42, 0xa2, 0x1, 0xa, 0x14, 0x63, 0x6f, 0x6d,
    0x2e, 0x6e, 0x65, 0x78, 0x65, 0x6c, 0x72, 0x61, 0x2e, 0x69, 0x64, 0x65, 0x6e, 0x74, 0x69, 0x74,
    0x79, 0x42, 0xb, 0x50, 0x61, 0x72, 0x61, 0x6d, 0x73, 0x50, 0x72, 0x6f, 0x74, 0x6f, 0x50, 0x1,
    0x5a, 0x1c, 0x4e, 0x65, 0x78, 0x65, 0x6c, 0x72, 0x61, 0x2f, 0x61, 0x70, 0x69, 0x2f, 0x6e, 0x65,
    0x78, 0x65, 0x6c, 0x72, 0x61, 0x2f, 0x69, 0x64, 0x65, 0x6e, 0x74, 0x69, 0x74, 0x79, 0xa2, 0x2,
    0x3, 0x4e, 0x49, 0x58, 0xaa, 0x2, 0x10, 0x4e, 0x65, 0x78, 0x65, 0x6c, 0x72, 0x61, 0x2e, 0x49,
    0x64, 0x65, 0x6e, 0x74, 0x69, 0x74, 0x79, 0xca, 0x2, 0x10, 0x4e, 0x65, 0x78, 0x65, 0x6c, 0x72,
    0x61, 0x5c, 0x49, 0x64, 0x65, 0x6e, 0x74, 0x69, 0x74, 0x79, 0xe2, 0x2, 0x1c, 0x4e, 0x65, 0x78,
    0x65, 0x6c, 0x72, 0x61, 0x5c, 0x49, 0x64, 0x65, 0x6e, 0x74, 0x69, 0x74, 0x79, 0x5c, 0x47, 0x50,
    0x42, 0x4d, 0x65, 0x74, 0x61, 0x64, 0x61, 0x74, 0x61, 0xea, 0x2, 0x11, 0x4e, 0x65, 0x78, 0x65,
    0x6c, 0x72, 0x61, 0x3a, 0x3a, 0x49, 0x64, 0x65, 0x6e, 0x74, 0x69, 0x74, 0x79, 0x62, 0x6, 0x70,
    0x72, 0x6f, 0x74, 0x6f, 0x33]"

definition file_nexelra_identity_genesis_proto_rawDesc :: bytes where
  "file_nexelra_identity_genesis_proto_rawDesc = [
    0xa, 0x1e, 0x6e, 0x65, 0x78, 0x65, 0x6c, 0x72, 0x61, 0x2f, 0x69, 0x64, 0x65, 0x6e, 0x74, 0x69,
    0x74, 0x79, 0x2f, 0x67, 0x65, 0x6e, 0x65, 0x73, 0x69, 0x73, 0x2e, 0x70, 0x72, 0x6f, 0x74, 0x6f,
    0x12, 0x10, 0x6e, 0x65, 0x78, 0x65, 0x6c, 0x72, 0x61, 0x2e, 0x69, 0x64, 0x65, 0x6e, 0x74, 0x69,
    0x74, 0x79, 0x1a, 0x11, 0x61, 0x6d, 0x69, 0x6e, 0x6f, 0x2f, 0x61, 0x6d, 0x69, 0x6e, 0x6f, 0x2e,
    0x70, 0x72, 0x6f, 0x74, 0x6f, 0x1a, 0x14, 0x67, 0x6f, 0x67, 0x6f, 0x70, 0x72, 0x6f, 0x74, 0x6f,
    0x2f, 0x67, 0x6f, 0x67, 0x6f, 0x2e, 0x70, 0x72, 0x6f, 0x74, 0x6f, 0x1a, 0x1d, 0x6e, 0x65, 0x78,
    0x65, 0x6c, 0x72, 0x61, 0x2f, 0x69, 0x64, 0x65, 0x6e, 0x74, 0x69, 0x74, 0x79, 0x2f, 0x70, 0x61,
    0x72, 0x61, 0x6d, 0x73, 0x2e, 0x70, 0x72, 0x6f, 0x74, 0x6f, 0x1a, 0x1f, 0x6e, 0x65, 0x78, 0x65,
    0x6c, 0x72, 0x61, 0x2f, 0x69, 0x64, 0x65, 0x6e, 0x74, 0x69, 0x74, 0x79, 0x2f, 0x69, 0x64, 0x65,
    0x6e, 0x74, 0x69, 0x74, 0x79, 0x2e, 0x70, 0x72, 0x6f, 0x74, 0x6f, 0x22, 0x91, 0x1, 0xa, 0xc,
    0x47, 0x65, 0x6e, 0x65, 0x73, 0x69, 0x73, 0x53, 0x74, 0x61, 0x74, 0x65, 0x12, 0x3b, 0xa, 0x6,
    0x70, 0x61, 0x72, 0x61, 0x6d, 0x73, 0x18, 0x1, 0x20, 0x1, 0x28, 0xb, 0x32, 0x18, 0x2e, 0x6e,
    0x65, 0x78, 0x65, 0x6c, 0x72, 0x61, 0x2e, 0x69, 0x64, 0x65, 0x6e, 0x74, 0x69, 0x74, 0x79, 0x2e,
    0x50, 0x61, 0x72, 0x61, 0x6d, 0x73, 0x42, 0x9, 0xc8, 0xde, 0x1f, 0x0, 0xa8, 0xe7, 0xb0, 0x2a,
    0x1, 0x52, 0x6, 0x70, 0x61, 0x72, 0x61, 0x6d, 0x73, 0x12, 0x44, 0xa, 0xc, 0x69, 0x64, 0x65,
    0x6e, 0x74, 0x69, 0x74, 0x79, 0x4c, 0x69, 0x73, 0x74, 0x18, 0x2, 0x20, 0x3, 0x28, 0xb, 0x32,
    0x1a, 0x2e, 0x6e, 0x65, 0x78, 0x65, 0x6c, 0x72, 0x61, 0x2e, 0x69, 0x64, 0x65, 0x6e, 0x74, 0x69,
    0x74, 0x79, 0x2e, 0x49, 0x64, 0x65, 0x6e, 0x74, 0x69, 0x74, 0x79, 0x42, 0x4, 0xc8, 0xde, 0x1f,
    0x0, 0x52, 0xc, 0x69, 0x64, 0x65, 0x6e, 0x74, 0x69, 0x74, 0x79, 0x4c, 0x69, 0x73, 0x74, 0x42,
    0xa3, 0x1, 0xa, 0x14, 0x63, 0x6f, 0x6d, 0x2e, 0x6e, 0x65, 0x78, 0x65, 0x6c, 0x72, 0x61, 0x2e,
    0x69, 0x64, 0x65, 0x6e, 0x74, 0x69, 0x74, 0x79, 0x42, 0xc, 0x47, 0x65, 0x6e, 0x65, 0x73, 0x69,
    0x73, 0x50, 0x72, 0x6f, 0x74, 0x6f, 0x50, 0x1, 0x5a, 0x1c, 0x4e, 0x65, 0x78, 0x65, 0x6c, 0x72,
    0x61, 0x2f, 0x61, 0x70, 0x69, 0x2f, 0x6e, 0x65, 0x78, 0x65, 0x6c, 0x72, 0x61, 0x2f, 0x69, 0x64,
    0x65, 0x6e, 0x74, 0x69, 0x74, 0x79, 0xa2, 0x2, 0x3, 0x4e, 0x49, 0x58, 0xaa, 0x2, 0x10, 0x4e,
    0x65, 0x78, 0x65, 0x6c, 0x72, 0x61, 0x2e, 0x49, 0x64, 0x65, 0x6e, 0x74, 0x69, 0x74, 0x79, 0xca,
    0x2, 0x10, 0x4e, 0x65, 0x78, 0x65, 0x6c, 0x72, 0x61, 0x5c, 0x49, 0x64, 0x65, 0x6e, 0x74, 0x69,
    0x74, 0x79, 0xe2, 0x2, 0x1c, 0x4e, 0x65, 0x78, 0x65, 0x6c, 0x72, 0x61, 0x5c, 0x49, 0x64, 0x65,
    0x6e, 0x74, 0x69, 0x74, 0x79, 0x5c, 0x47, 0x50, 0x42, 0x4d, 0x65, 0x74, 0x61, 0x64, 0x61, 0x74,
    0x61, 0xea, 0x2, 0x11, 0x4e, 0x65, 0x78, 0x65, 0x6c, 0x72, 0x61, 0x3a, 0x3a, 0x49, 0x64, 0x65,
    0x6e, 0x74, 0x69, 0x74, 0x79, 0x62, 0x6, 0x70, 0x72, 0x6f, 0x74, 0x6f, 0x33]"

definition file_nexelra_identity_query_proto_rawDesc :: bytes where
  "file_nexelra_identity_query_proto_rawDesc = [
    0xa, 0x1c, 0x6e, 0x65, 0x78, 0x65, 0x6c, 0x72, 0x61, 0x2f, 0x69, 0x64, 0x65, 0x6e, 0x74, 0x69,
    0x74, 0x79, 0x2f, 0x71, 0x75, 0x65, 0x72, 0x79, 0x2e, 0x70, 0x72, 0x6f, 0x74, 0x6f, 0x12, 0x10,
    0x6e, 0x65, 0x78, 0x65, 0x6c, 0x72, 0x61, 0x2e, 0x69, 0x64, 0x65, 0x6e, 0x74, 0x69, 0x74, 0x79,
    0x1a, 0x11, 0x61, 0x6d, 0x69, 0x6e, 0x6f, 0x2f, 0x61, 0x6d, 0x69, 0x6e, 0x6f, 0x2e, 0x70, 0x72,
    0x6f, 0x74, 0x6f, 0x1a, 0x14, 0x67, 0x6f, 0x67, 0x6f, 0x70, 0x72, 0x6f, 0x74, 0x6f, 0x2f, 0x67,
    0x6f, 0x67, 0x6f, 0x2e, 0x70, 0x72, 0x6f, 0x74, 0x6f, 0x1a, 0x1c, 0x67, 0x6f, 0x6f, 0x67, 0x6c,
    0x65, 0x2f, 0x61, 0x70, 0x69, 0x2f, 0x61, 0x6e, 0x6e, 0x6f, 0x74, 0x61, 0x74, 0x69, 0x6f, 0x6e,
    0x73, 0x2e, 0x70, 0x72, 0x6f, 0x74, 0x6f, 0x1a, 0x2a, 0x63, 0x6f, 0x73, 0x6d, 0x6f, 0x73, 0x2f,
    0x62, 0x61, 0x73, 0x65, 0x2f, 0x71, 0x75, 0x65, 0x72, 0x79, 0x2f, 0x76, 0x31, 0x62, 0x65, 0x74,
    0x61, 0x31, 0x2f, 0x70, 0x61, 0x67, 0x69, 0x6e, 0x61, 0x74, 0x69, 0x6f, 0x6e, 0x2e, 0x70, 0x72,
    0x6f, 0x74, 0x6f, 0x1a, 0x1d, 0x6e, 0x65, 0x78, 0x65, 0x6c, 0x72, 0x61, 0x2f, 0x69, 0x64, 0x65,
    0x6e, 0x74, 0x69, 0x74, 0x79, 0x2f, 0x70, 0x61, 0x72, 0x61, 0x6d, 0x73, 0x2e, 0x70, 0x72, 0x6f,
    0x74, 0x6f, 0x1a, 0x1f, 0x6e, 0x65, 0x78, 0x65, 0x6c, 0x72, 0x61, 0x2f, 0x69, 0x64, 0x65, 0x6e,
    0x74, 0x69, 0x74, 0x79, 0x2f, 0x69, 0x64, 0x65, 0x6e, 0x74, 0x69, 0x74, 0x79, 0x2e, 0x70, 0x72,
    0x6f, 0x74, 0x6f, 0x22, 0x14, 0xa, 0x12, 0x51, 0x75, 0x65, 0x72, 0x79, 0x50, 0x61, 0x72, 0x61,
    0x6d, 0x73, 0x52, 0x65, 0x71, 0x75, 0x65, 0x73, 0x74, 0x22, 0x52, 0xa, 0x13, 0x51, 0x75, 0x65,
    0x72, 0x79, 0x50, 0x61, 0x72, 0x61, 0x6d, 0x73, 0x52, 0x65, 0x73, 0x70, 0x6f, 0x6e, 0x73, 0x65,
    0x12, 0x3b, 0xa, 0x6, 0x70, 0x61, 0x72, 0x61, 0x6d, 0x73, 0x18, 0x1, 0x20, 0x1, 0x28, 0xb,
    0x32, 0x18, 0x2e, 0x6e, 0x65, 0x78, 0x65, 0x6c, 0x72, 0x61, 0x2e, 0x69, 0x64, 0x65, 0x6e, 0x74,
    0x69, 0x74, 0x79, 0x2e, 0x50, 0x61, 0x72, 0x61, 0x6d, 0x73, 0x42, 0x9, 0xc8, 0xde, 0x1f, 0x0,
    0xa8, 0xe7, 0xb0, 0x2a, 0x1, 0x52, 0x6, 0x70, 0x61, 0x72, 0x61, 0x6d, 0x73, 0x22, 0x33, 0xa,
    0x17, 0x51, 0x75, 0x65, 0x72, 0x79, 0x47, 0x65, 0x74, 0x49, 0x64, 0x65, 0x6e, 0x74, 0x69, 0x74,
    0x79, 0x52, 0x65, 0x71, 0x75, 0x65, 0x73, 0x74, 0x12, 0x18, 0xa, 0x7, 0x61, 0x64, 0x64, 0x72,
    0x65, 0x73, 0x73, 0x18, 0x1, 0x20, 0x1, 0x28, 0x9, 0x52, 0x7, 0x61, 0x64, 0x64, 0x72, 0x65,
    0x73, 0x73, 0x22, 0x58, 0xa, 0x18, 0x51, 0x75, 0x65, 0x72, 0x79, 0x47, 0x65, 0x74, 0x49, 0x64,
    0x65, 0x6e, 0x74, 0x69, 0x74, 0x79, 0x52, 0x65, 0x73, 0x70, 0x6f, 0x6e, 0x73, 0x65, 0x12, 0x3c,
    0xa, 0x8, 0x69, 0x64, 0x65, 0x6e, 0x74, 0x69, 0x74, 0x79, 0x18, 0x1, 0x20, 0x1, 0x28, 0xb,
    0x32, 0x1a, 0x2e, 0x6e, 0x65, 0x78, 0x65, 0x6c, 0x72, 0x61, 0x2e, 0x69, 0x64, 0x65, 0x6e, 0x74,
    0x69, 0x74, 0x79, 0x2e, 0x49, 0x64, 0x65, 0x6e, 0x74, 0x69, 0x74, 0x79, 0x42, 0x4, 0xc8, 0xde,
    0x1f, 0x0, 0x52, 0x8, 0x69, 0x64, 0x65, 0x6e, 0x74, 0x69, 0x74, 0x79, 0x22, 0x61, 0xa, 0x17,
    0x51, 0x75, 0x65, 0x72, 0x79, 0x41, 0x6c, 0x6c, 0x49, 0x64, 0x65, 0x6e, 0x74, 0x69, 0x74, 0x79,
    0x52, 0x65, 0x71, 0x75, 0x65, 0x73, 0x74, 0x12, 0x46, 0xa, 0xa, 0x70, 0x61, 0x67, 0x69, 0x6e,
    0x61, 0x74, 0x69, 0x6f, 0x6e, 0x18, 0x1, 0x20, 0x1, 0x28, 0xb, 0x32, 0x26, 0x2e, 0x63, 0x6f,
    0x73, 0x6d, 0x6f, 0x73, 0x2e, 0x62, 0x61, 0x73, 0x65, 0x2e, 0x71, 0x75, 0x65, 0x72, 0x79, 0x2e,
    0x76, 0x31, 0x62, 0x65, 0x74, 0x61, 0x31, 0x2e, 0x50, 0x61, 0x67, 0x65, 0x52, 0x65, 0x71, 0x75,
    0x65, 0x73, 0x74, 0x52, 0xa, 0x70, 0x61, 0x67, 0x69, 0x6e, 0x61, 0x74, 0x69, 0x6f, 0x6e, 0x22,
    0xa1, 0x1, 0xa, 0x18, 0x51, 0x75, 0x65, 0x72, 0x79, 0x41, 0x6c, 0x6c, 0x49, 0x64, 0x65, 0x6e,
    0x74, 0x69, 0x74, 0x79, 0x52, 0x65, 0x73, 0x70, 0x6f, 0x6e, 0x73, 0x65, 0x12, 0x3c, 0xa, 0x8,
    0x69, 0x64, 0x65, 0x6e, 0x74, 0x69, 0x74, 0x79, 0x18, 0x1, 0x20, 0x3, 0x28, 0xb, 0x32, 0x1a,
    0x2e, 0x6e, 0x65, 0x78, 0x65, 0x6c, 0x72, 0x61, 0x2e, 0x69, 0x64, 0x65, 0x6e, 0x74, 0x69, 0x74,
    0x79, 0x2e, 0x49, 0x64, 0x65, 0x6e, 0x74, 0x69, 0x74, 0x79, 0x42, 0x4, 0xc8, 0xde, 0x1f, 0x0,
    0x52, 0x8, 0x69, 0x64, 0x65, 0x6e, 0x74, 0x69, 0x74, 0x79, 0x12, 0x47, 0xa, 0xa, 0x70, 0x61,
    0x67, 0x69, 0x6e, 0x61, 0x74, 0x69, 0x6f, 0x6e, 0x18, 0x2, 0x20, 0x1, 0x28, 0xb, 0x32, 0x27,
    0x2e, 0x63, 0x6f, 0x73, 0x6d, 0x6f, 0x73, 0x2e, 0x62, 0x61, 0x73, 0x65, 0x2e, 0x71, 0x75, 0x65,
    0x72, 0x79, 0x2e, 0x76, 0x31, 0x62, 0x65, 0x74, 0x61, 0x31, 0x2e, 0x50, 0x61, 0x67, 0x65, 0x52,
    0x65, 0x73, 0x70, 0x6f, 0x6e, 0x73, 0x65, 0x52, 0xa, 0x70, 0x61, 0x67, 0x69, 0x6e, 0x61, 0x74,
    0x69, 0x6f, 0x6e, 0x22, 0x7e, 0xa, 0x1c, 0x51, 0x75, 0x65, 0x72, 0x79, 0x49, 0x64, 0x65, 0x6e,
    0x74, 0x69, 0x74, 0x79, 0x42, 0x79, 0x43, 0x63, 0x63, 0x64, 0x49, 0x64, 0x52, 0x65, 0x71, 0x75,
    0x65, 0x73, 0x74, 0x12, 0x16, 0xa, 0x6, 0x69, 0x64, 0x48, 0x61, 0x73, 0x68, 0x18, 0x1, 0x20,
    0x1, 0x28, 0x9, 0x52, 0x6, 0x69, 0x64, 0x48, 0x61, 0x73, 0x68, 0x12, 0x46, 0xa, 0xa, 0x70,
    0x61, 0x67, 0x69, 0x6e, 0x61, 0x74, 0x69, 0x6f, 0x6e, 0x18, 0x2, 0x20, 0x1, 0x28, 0xb, 0x32,
    0x26, 0x2e, 0x63, 0x6f, 0x73, 0x6d, 0x6f, 0x73, 0x2e, 0x62, 0x61, 0x73, 0x65, 0x2e, 0x71, 0x75,
    0x65, 0x72, 0x79, 0x2e, 0x76, 0x31, 0x62, 0x65, 0x74, 0x61, 0x31, 0x2e, 0x50, 0x61, 0x67, 0x65,
    0x52, 0x65, 0x71, 0x75, 0x65, 0x73, 0x74, 0x52, 0xa, 0x70, 0x61, 0x67, 0x69, 0x6e, 0x61, 0x74,
    0x69, 0x6f, 0x6e, 0x22, 0xa6, 0x1, 0xa, 0x1d, 0x51, 0x75, 0x65, 0x72, 0x79, 0x49, 0x64, 0x65,
    0x6e, 0x74, 0x69, 0x74, 0x79, 0x42, 0x79, 0x43, 0x63, 0x63, 0x64, 0x49, 0x64, 0x52, 0x65, 0x73,
    0x70, 0x6f, 0x6e, 0x73, 0x65, 0x12, 0x3c, 0xa, 0x8, 0x69, 0x64, 0x65, 0x6e, 0x74, 0x69, 0x74,
    0x79, 0x18, 0x1, 0x20, 0x3, 0x28, 0xb, 0x32, 0x1a, 0x2e, 0x6e, 0x65, 0x78, 0x65, 0x6c, 0x72,
    0x61, 0x2e, 0x69, 0x64, 0x65, 0x6e, 0x74, 0x69, 0x74, 0x79, 0x2e, 0x49, 0x64, 0x65, 0x6e, 0x74,
    0x69, 0x74, 0x79, 0x42, 0x4, 0xc8, 0xde, 0x1f, 0x0, 0x52, 0x8, 0x69, 0x64, 0x65, 0x6e, 0x74,
    0x69, 0x74, 0x79, 0x12, 0x47, 0xa, 0xa, 0x70, 0x61, 0x67, 0x69, 0x6e, 0x61, 0x74, 0x69, 0x6f,
    0x6e, 0x18, 0x2, 0x20, 0x1, 0x28, 0xb, 0x32, 0x27, 0x2e, 0x63, 0x6f, 0x73, 0x6d, 0x6f, 0x73,
    0x2e, 0x62, 0x61, 0x73, 0x65, 0x2e, 0x71, 0x75, 0x65, 0x72, 0x79, 0x2e, 0x76, 0x31, 0x62, 0x65,
    0x74, 0x61, 0x31, 0x2e, 0x50, 0x61, 0x67, 0x65, 0x52, 0x65, 0x73, 0x70, 0x6f, 0x6e, 0x73, 0x65,
    0x52, 0xa, 0x70, 0x61, 0x67, 0x69, 0x6e, 0x61, 0x74, 0x69, 0x6f, 0x6e, 0x32, 0xc8, 0x4, 0xa,
    0x5, 0x51, 0x75, 0x65, 0x72, 0x79, 0x12, 0x77, 0xa, 0x6, 0x50, 0x61, 0x72, 0x61, 0x6d, 0x73,
    0x12, 0x24, 0x2e, 0x6e, 0x65, 0x78, 0x65, 0x6c, 0x72, 0x61, 0x2e, 0x69, 0x64, 0x65, 0x6e, 0x74,
    0x69, 0x74, 0x79, 0x2e, 0x51, 0x75, 0x65, 0x72, 0x79, 0x50, 0x61, 0x72, 0x61, 0x6d, 0x73, 0x52,
    0x65, 0x71, 0x75, 0x65, 0x73, 0x74, 0x1a, 0x25, 0x2e, 0x6e, 0x65, 0x78, 0x65, 0x6c, 0x72, 0x61,
    0x2e, 0x69, 0x64, 0x65, 0x6e, 0x74, 0x69, 0x74, 0x79, 0x2e, 0x51, 0x75, 0x65, 0x72, 0x79, 0x50,
    0x61, 0x72, 0x61, 0x6d, 0x73, 0x52, 0x65, 0x73, 0x70, 0x6f, 0x6e, 0x73, 0x65, 0x22, 0x20, 0x82,
    0xd3, 0xe4, 0x93, 0x2, 0x1a, 0x12, 0x18, 0x2f, 0x4e, 0x65, 0x78, 0x65, 0x6c, 0x72, 0x61, 0x2f,
    0x69, 0x64, 0x65, 0x6e, 0x74, 0x69, 0x74, 0x79, 0x2f, 0x70, 0x61, 0x72, 0x61, 0x6d, 0x73, 0x12,
    0x8f, 0x1, 0xa, 0x8, 0x49, 0x64, 0x65, 0x6e, 0x74, 0x69, 0x74, 0x79, 0x12, 0x29, 0x2e, 0x6e,
    0x65, 0x78, 0x65, 0x6c, 0x72, 0x61, 0x2e, 0x69, 0x64, 0x65, 0x6e, 0x74, 0x69, 0x74, 0x79, 0x2e,
    0x51, 0x75, 0x65, 0x72, 0x79, 0x47, 0x65, 0x74, 0x49, 0x64, 0x65, 0x6e, 0x74, 0x69, 0x74, 0x79,
    0x52, 0x65, 0x71, 0x75, 0x65, 0x73, 0x74, 0x1a, 0x2a, 0x2e, 0x6e, 0x65, 0x78, 0x65, 0x6c, 0x72,
    0x61, 0x2e, 0x69, 0x64, 0x65, 0x6e, 0x74, 0x69, 0x74, 0x79, 0x2e, 0x51, 0x75, 0x65, 0x72, 0x79,
    0x47, 0x65, 0x74, 0x49, 0x64, 0x65, 0x6e, 0x74, 0x69, 0x74, 0x79, 0x52, 0x65, 0x73, 0x70, 0x6f,
    0x6e, 0x73, 0x65, 0x22, 0x2c, 0x82, 0xd3, 0xe4, 0x93, 0x2, 0x26, 0x12, 0x24, 0x2f, 0x4e, 0x65,
    0x78, 0x65, 0x6c, 0x72, 0x61, 0x2f, 0x69, 0x64, 0x65, 0x6e, 0x74, 0x69, 0x74, 0x79, 0x2f, 0x69,
    0x64, 0x65, 0x6e, 0x74, 0x69, 0x74, 0x79, 0x2f, 0x7b, 0x61, 0x64, 0x64, 0x72, 0x65, 0x73, 0x73,
    0x7d, 0x12, 0x88, 0x1, 0xa, 0xb, 0x49, 0x64, 0x65, 0x6e, 0x74, 0x69, 0x74, 0x79, 0x41, 0x6c,
    0x6c, 0x12, 0x29, 0x2e, 0x6e, 0x65, 0x78, 0x65, 0x6c, 0x72, 0x61, 0x2e, 0x69, 0x64, 0x65, 0x6e,
    0x74, 0x69, 0x74, 0x79, 0x2e, 0x51, 0x75, 0x65, 0x72, 0x79, 0x41, 0x6c, 0x6c, 0x49, 0x64, 0x65,
    0x6e, 0x74, 0x69, 0x74, 0x79, 0x52, 0x65, 0x71, 0x75, 0x65, 0x73, 0x74, 0x1a, 0x2a, 0x2e, 0x6e,
    0x65, 0x78, 0x65, 0x6c, 0x72, 0x61, 0x2e, 0x69, 0x64, 0x65, 0x6e, 0x74, 0x69, 0x74, 0x79, 0x2e,
    0x51, 0x75, 0x65, 0x72, 0x79, 0x41, 0x6c, 0x6c, 0x49, 0x64, 0x65, 0x6e, 0x74, 0x69, 0x74, 0x79,
    0x52, 0x65, 0x73, 0x70, 0x6f, 0x6e, 0x73, 0x65, 0x22, 0x22, 0x82, 0xd3, 0xe4, 0x93, 0x2, 0x1c,
    0x12, 0x1a, 0x2f, 0x4e, 0x65, 0x78, 0x65, 0x6c, 0x72, 0x61, 0x2f, 0x69, 0x64, 0x65, 0x6e, 0x74,
    0x69, 0x74, 0x79, 0x2f, 0x69, 0x64, 0x65, 0x6e, 0x74, 0x69, 0x74, 0x79, 0x12, 0xa8, 0x1, 0xa,
    0x10, 0x49, 0x64, 0x65, 0x6e, 0x74, 0x69, 0x74, 0x79, 0x42, 0x79, 0x43, 0x63, 0x63, 0x64, 0x49,
    0x64, 0x12, 0x2e, 0x2e, 0x6e, 0x65, 0x78, 0x65, 0x6c, 0x72, 0x61, 0x2e, 0x69, 0x64, 0x65, 0x6e,
    0x74, 0x69, 0x74, 0x79, 0x2e, 0x51, 0x75, 0x65, 0x72, 0x79, 0x49, 0x64, 0x65, 0x6e, 0x74, 0x69,
    0x74, 0x79, 0x42, 0x79, 0x43, 0x63, 0x63, 0x64, 0x49, 0x64, 0x52, 0x65, 0x71, 0x75, 0x65, 0x73,
    0x74, 0x1a, 0x2f, 0x2e, 0x6e, 0x65, 0x78, 0x65, 0x6c, 0x72, 0x61, 0x2e, 0x69, 0x64, 0x65, 0x6e,
    0x74, 0x69, 0x74, 0x79, 0x2e, 0x51, 0x75, 0x65, 0x72, 0x79, 0x49, 0x64, 0x65, 0x6e, 0x74, 0x69,
    0x74, 0x79, 0x42, 0x79, 0x43, 0x63, 0x63, 0x64, 0x49, 0x64, 0x52, 0x65, 0x73, 0x70, 0x6f, 0x6e,
    0x73, 0x65, 0x22, 0x33, 0x82, 0xd3, 0xe4, 0x93, 0x2, 0x2d, 0x12, 0x2b, 0x2f, 0x4e, 0x65, 0x78,
    0x65, 0x6c, 0x72, 0x61, 0x2f, 0x69, 0x64, 0x65, 0x6e, 0x74, 0x69, 0x74, 0x79, 0x2f, 0x69, 0x64,
    0x65, 0x6e, 0x74, 0x69, 0x74, 0x79, 0x2d, 0x62, 0x79, 0x2d, 0x63, 0x63, 0x63, 0x64, 0x2f, 0x7b,
    0x69, 0x64, 0x48, 0x61, 0x73, 0x68, 0x7d, 0x42, 0xa1, 0x1, 0xa, 0x14, 0x63, 0x6f, 0x6d, 0x2e,
    0x6e, 0x65, 0x78, 0x65, 0x6c, 0x72, 0x61, 0x2e, 0x69, 0x64, 0x65, 0x6e, 0x74, 0x69, 0x74, 0x79,
    0x42, 0xa, 0x51, 0x75, 0x65, 0x72, 0x79, 0x50, 0x72, 0x6f, 0x74, 0x6f, 0x50, 0x1, 0x5a, 0x1c,
    0x4e, 0x65, 0x78, 0x65, 0x6c, 0x72, 0x61, 0x2f, 0x61, 0x70, 0x69, 0x2f, 0x6e, 0x65, 0x78, 0x65,
    0x6c, 0x72, 0x61, 0x2f, 0x69, 0x64, 0x65, 0x6e, 0x74, 0x69, 0x74, 0x79, 0xa2, 0x2, 0x3, 0x4e,
    0x49, 0x58, 0xaa, 0x2, 0x10, 0x4e, 0x65, 0x78, 0x65, 0x6c, 0x72, 0x61, 0x2e, 0x49, 0x64, 0x65,
    0x6e, 0x74, 0x69, 0x74, 0x79, 0xca, 0x2, 0x10, 0x4e, 0x65, 0x78, 0x65, 0x6c, 0x72, 0x61, 0x5c,
    0x49, 0x64, 0x65, 0x6e, 0x74, 0x69, 0x74, 0x79, 0xe2, 0x2, 0x1c, 0x4e, 0x65, 0x78, 0x65, 0x6c,
    0x72, 0x61, 0x5c, 0x49, 0x64, 0x65, 0x6e, 0x74, 0x69, 0x74, 0x79, 0x5c, 0x47, 0x50, 0x42, 0x4d,
    0x65, 0x74, 0x61, 0x64, 0x61, 0x74, 0x61, 0xea, 0x2, 0x11, 0x4e, 0x65, 0x78, 0x65, 0x6c, 0x72,
    0x61, 0x3a, 0x3a, 0x49, 0x64, 0x65, 0x6e, 0x74, 0x69, 0x74, 0x79, 0x62, 0x6, 0x70, 0x72, 0x6f,
    0x74, 0x6f, 0x33]"

definition file_nexelra_identity_tx_proto_rawDesc :: bytes where
  "file_nexelra_identity_tx_proto_rawDesc = [
    0xa, 0x19, 0x6e, 0x65, 0x78, 0x65, 0x6c, 0x72, 0x61, 0x2f, 0x69, 0x64, 0x65, 0x6e, 0x74, 0x69,
    0x74, 0x79, 0x2f, 0x74, 0x78, 0x2e, 0x70, 0x72, 0x6f, 0x74, 0x6f, 0x12, 0x10, 0x6e, 0x65, 0x78,
    0x65, 0x6c, 0x72, 0x61, 0x2e, 0x69, 0x64, 0x65, 0x6e, 0x74, 0x69, 0x74, 0x79, 0x1a, 0x11, 0x61,
    0x6d, 0x69, 0x6e, 0x6f, 0x2f, 0x61, 0x6d, 0x69, 0x6e, 0x6f, 0x2e, 0x70, 0x72, 0x6f, 0x74, 0x6f,
    0x1a, 0x17, 0x63, 0x6f, 0x73, 0x6d, 0x6f, 0x73, 0x2f, 0x6d, 0x73, 0x67, 0x2f, 0x76, 0x31, 0x2f,
    0x6d, 0x73, 0x67, 0x2e, 0x70, 0x72, 0x6f, 0x74, 0x6f, 0x1a, 0x19, 0x63, 0x6f, 0x73, 0x6d, 0x6f,
    0x73, 0x5f, 0x70, 0x72, 0x6f, 0x74, 0x6f, 0x2f, 0x63, 0x6f, 0x73, 0x6d, 0x6f, 0x73, 0x2e, 0x70,
    0x72, 0x6f, 0x74, 0x6f, 0x1a, 0x14, 0x67, 0x6f, 0x67, 0x6f, 0x70, 0x72, 0x6f, 0x74, 0x6f, 0x2f,
    0x67, 0x6f, 0x67, 0x6f, 0x2e, 0x70, 0x72, 0x6f, 0x74, 0x6f, 0x1a, 0x1d, 0x6e, 0x65, 0x78, 0x65,
    0x6c, 0x72, 0x61, 0x2f, 0x69, 0x64, 0x65, 0x6e, 0x74, 0x69, 0x74, 0x79, 0x2f, 0x70, 0x61, 0x72,
    0x61, 0x6d, 0x73, 0x2e, 0x70, 0x72, 0x6f, 0x74, 0x6f, 0x22, 0xbd, 0x1, 0xa, 0xf, 0x4d, 0x73,
    0x67, 0x55, 0x70, 0x64, 0x61, 0x74, 0x65, 0x50, 0x61, 0x72, 0x61, 0x6d, 0x73, 0x12, 0x36, 0xa,
    0x9, 0x61, 0x75, 0x74, 0x68, 0x6f, 0x72, 0x69, 0x74, 0x79, 0x18, 0x1, 0x20, 0x1, 0x28, 0x9,
    0x42, 0x18, 0xd2, 0xb4, 0x2d, 0x14, 0x63, 0x6f, 0x73, 0x6d, 0x6f, 0x73, 0x2e, 0x41, 0x64, 0x64,
    0x72, 0x65, 0x73, 0x73, 0x53, 0x74, 0x72, 0x69, 0x6e, 0x67, 0x52, 0x9, 0x61, 0x75, 0x74, 0x68,
    0x6f, 0x72, 0x69, 0x74, 0x79, 0x12, 0x3b, 0xa, 0x6, 0x70, 0x61, 0x72, 0x61, 0x6d, 0x73, 0x18,
    0x2, 0x20, 0x1, 0x28, 0xb, 0x32, 0x18, 0x2e, 0x6e, 0x65, 0x78, 0x65, 0x6c, 0x72, 0x61, 0x2e,
    0x69, 0x64, 0x65, 0x6e, 0x74, 0x69, 0x74, 0x79, 0x2e, 0x50, 0x61, 0x72, 0x61, 0x6d, 0x73, 0x42,
    0x9, 0xc8, 0xde, 0x1f, 0x0, 0xa8, 0xe7, 0xb0, 0x2a, 0x1, 0x52, 0x6, 0x70, 0x61, 0x72, 0x61,
    0x6d, 0x73, 0x3a, 0x35, 0x82, 0xe7, 0xb0, 0x2a, 0x9, 0x61, 0x75, 0x74, 0x68, 0x6f, 0x72, 0x69,
    0x74, 0x79, 0x8a, 0xe7, 0xb0, 0x2a, 0x22, 0x4e, 0x65, 0x78, 0x65, 0x6c, 0x72, 0x61, 0x2f, 0x78,
    0x2f, 0x69, 0x64, 0x65, 0x6e, 0x74, 0x69, 0x74, 0x79, 0x2f, 0x4d, 0x73, 0x67, 0x55, 0x70, 0x64,
    0x61, 0x74, 0x65, 0x50, 0x61, 0x72, 0x61, 0x6d, 0x73, 0x22, 0x19, 0xa, 0x17, 0x4d, 0x73, 0x67,
    0x55, 0x70, 0x64, 0x61, 0x74, 0x65, 0x50, 0x61, 0x72, 0x61, 0x6d, 0x73, 0x52, 0x65, 0x73, 0x70,
    0x6f, 0x6e, 0x73, 0x65, 0x22, 0x53, 0xa, 0x11, 0x4d, 0x73, 0x67, 0x43, 0x72, 0x65, 0x61, 0x74,
    0x65, 0x49, 0x64, 0x65, 0x6e, 0x74, 0x69, 0x74, 0x79, 0x12, 0x18, 0xa, 0x7, 0x63, 0x72, 0x65,
    0x61, 0x74, 0x6f, 0x72, 0x18, 0x1, 0x20, 0x1, 0x28, 0x9, 0x52, 0x7, 0x63, 0x72, 0x65, 0x61,
    0x74, 0x6f, 0x72, 0x12, 0x16, 0xa, 0x6, 0x63, 0x63, 0x63, 0x64, 0x49, 0x64, 0x18, 0x2, 0x20,
    0x1, 0x28, 0x9, 0x52, 0x6, 0x63, 0x63, 0x63, 0x64, 0x49, 0x64, 0x3a, 0xc, 0x82, 0xe7, 0xb0,
    0x2a, 0x7, 0x63, 0x72, 0x65, 0x61, 0x74, 0x6f, 0x72, 0x22, 0x1b, 0xa, 0x19, 0x4d, 0x73, 0x67,
    0x43, 0x72, 0x65, 0x61, 0x74, 0x65, 0x49, 0x64, 0x65, 0x6e, 0x74, 0x69, 0x74, 0x79, 0x52, 0x65,
    0x73, 0x70, 0x6f, 0x6e, 0x73, 0x65, 0x32, 0xce, 0x1, 0xa, 0x3, 0x4d, 0x73, 0x67, 0x12, 0x5c,
    0xa, 0xc, 0x55, 0x70, 0x64, 0x61, 0x74, 0x65, 0x50, 0x61, 0x72, 0x61, 0x6d, 0x73, 0x12, 0x21,
    0x2e, 0x6e, 0x65, 0x78, 0x65, 0x6c, 0x72, 0x61, 0x2e, 0x69, 0x64, 0x65, 0x6e, 0x74, 0x69, 0x74,
    0x79, 0x2e, 0x4d, 0x73, 0x67, 0x55, 0x70, 0x64, 0x61, 0x74, 0x65, 0x50, 0x61, 0x72, 0x61, 0x6d,
    0x73, 0x1a, 0x29, 0x2e, 0x6e, 0x65, 0x78, 0x65, 0x6c, 0x72, 0x61, 0x2e, 0x69, 0x64, 0x65, 0x6e,
    0x74, 0x69, 0x74, 0x79, 0x2e, 0x4d, 0x73, 0x67, 0x55, 0x70, 0x64, 0x61, 0x74, 0x65, 0x50, 0x61,
    0x72, 0x61, 0x6d, 0x73, 0x52, 0x65, 0x73, 0x70, 0x6f, 0x6e, 0x73, 0x65, 0x12, 0x62, 0xa, 0xe,
    0x43, 0x72, 0x65, 0x61, 0x74, 0x65, 0x49, 0x64, 0x65, 0x6e, 0x74, 0x69, 0x74, 0x79, 0x12, 0x23,
    0x2e, 0x6e, 0x65, 0x78, 0x65, 0x6c, 0x72, 0x61, 0x2e, 0x69, 0x64, 0x65, 0x6e, 0x74, 0x69, 0x74,
    0x79, 0x2e, 0x4d, 0x73, 0x67, 0x43, 0x72, 0x65, 0x61, 0x74, 0x65, 0x49, 0x64, 0x65, 0x6e, 0x74,
    0x69, 0x74, 0x79, 0x1a, 0x2b, 0x2e, 0x6e, 0x65, 0x78, 0x65, 0x6c, 0x72, 0x61, 0x2e, 0x69, 0x64,
    0x65, 0x6e, 0x74, 0x69, 0x74, 0x79, 0x2e, 0x4d, 0x73, 0x67, 0x43, 0x72, 0x65, 0x61, 0x74, 0x65,
    0x49, 0x64, 0x65, 0x6e, 0x74, 0x69, 0x74, 0x79, 0x52, 0x65, 0x73, 0x70, 0x6f, 0x6e, 0x73, 0x65,
    0x1a, 0x5, 0x80, 0xe7, 0xb0, 0x2a, 0x1, 0x42, 0x9e, 0x1, 0xa, 0x14, 0x63, 0x6f, 0x6d, 0x2e,
    0x6e, 0x65, 0x78, 0x65, 0x6c, 0x72, 0x61, 0x2e, 0x69, 0x64, 0x65, 0x6e, 0x74, 0x69, 0x74, 0x79,
    0x42, 0x7, 0x54, 0x78, 0x50, 0x72, 0x6f, 0x74, 0x6f, 0x50, 0x1, 0x5a, 0x1c, 0x4e, 0x65, 0x78,
    0x65, 0x6c, 0x72, 0x61, 0x2f, 0x61, 0x70, 0x69, 0x2f, 0x6e, 0x65, 0x78, 0x65, 0x6c, 0x72, 0x61,
    0x2f, 0x69, 0x64, 0x65, 0x6e, 0x74, 0x69, 0x74, 0x79, 0xa2, 0x2, 0x3, 0x4e, 0x49, 0x58, 0xaa,
    0x2, 0x10, 0x4e, 0x65, 0x78, 0x65, 0x6c, 0x72, 0x61, 0x2e, 0x49, 0x64, 0x65, 0x6e, 0x74, 0x69,
    0x74, 0x79, 0xca, 0x2, 0x10, 0x4e, 0x65, 0x78, 0x65, 0x6c, 0x72, 0x61, 0x5c, 0x49, 0x64, 0x65,
    0x6e, 0x74, 0x69, 0x74, 0x79, 0xe2, 0x2, 0x1c, 0x4e, 0x65, 0x78, 0x65, 0x6c, 0x72, 0x61, 0x5c,
    0x49, 0x64, 0x65, 0x6e, 0x74, 0x69, 0x74, 0x79, 0x5c, 0x47, 0x50, 0x42, 0x4d, 0x65, 0x74, 0x61,
    0x64, 0x61, 0x74, 0x61, 0xea, 0x2, 0x11, 0x4e, 0x65, 0x78, 0x65, 0x6c, 0x72, 0x61, 0x3a, 0x3a,
    0x49, 0x64, 0x65, 0x6e, 0x74, 0x69, 0x74, 0x79, 0x62, 0x6, 0x70, 0x72, 0x6f, 0x74, 0x6f, 0x33]"

definition file_nexelra_identity_module_module_proto_rawDesc :: bytes where
  "file_nexelra_identity_module_module_proto_rawDesc = [
    0xa, 0x24, 0x6e, 0x65, 0x78, 0x65, 0x6c, 0x72, 0x61, 0x2f, 0x69, 0x64, 0x65, 0x6e, 0x74, 0x69,
    0x74, 0x79, 0x2f, 0x6d, 0x6f, 0x64, 0x75, 0x6c, 0x65, 0x2f, 0x6d, 0x6f, 0x64, 0x75, 0x6c, 0x65,
    0x2e, 0x70, 0x72, 0x6f, 0x74, 0x6f, 0x12, 0x17, 0x6e, 0x65, 0x78, 0x65, 0x6c, 0x72, 0x61, 0x2e,
    0x69, 0x64, 0x65, 0x6e, 0x74, 0x69, 0x74, 0x79, 0x2e, 0x6d, 0x6f, 0x64, 0x75, 0x6c, 0x65, 0x1a,
    0x20, 0x63, 0x6f, 0x73, 0x6d, 0x6f, 0x73, 0x2f, 0x61, 0x70, 0x70, 0x2f, 0x76, 0x31, 0x61, 0x6c,
    0x70, 0x68, 0x61, 0x31, 0x2f, 0x6d, 0x6f, 0x64, 0x75, 0x6c, 0x65, 0x2e, 0x70, 0x72, 0x6f, 0x74,
    0x6f, 0x22, 0x42, 0xa, 0x6, 0x4d, 0x6f, 0x64, 0x75, 0x6c, 0x65, 0x12, 0x1c, 0xa, 0x9, 0x61,
    0x75, 0x74, 0x68, 0x6f, 0x72, 0x69, 0x74, 0x79, 0x18, 0x1, 0x20, 0x1, 0x28, 0x9, 0x52, 0x9,
    0x61, 0x75, 0x74, 0x68, 0x6f, 0x72, 0x69, 0x74, 0x79, 0x3a, 0x1a, 0xba, 0xc0, 0x96, 0xda, 0x1,
    0x14, 0xa, 0x12, 0x4e, 0x65, 0x78, 0x65, 0x6c, 0x72, 0x61, 0x2f, 0x78, 0x2f, 0x69, 0x64, 0x65,
    0x6e, 0x74, 0x69, 0x74, 0x79, 0x42, 0xcd, 0x1, 0xa, 0x1b, 0x63, 0x6f, 0x6d, 0x2e, 0x6e, 0x65,
    0x78, 0x65, 0x6c, 0x72, 0x61, 0x2e, 0x69, 0x64, 0x65, 0x6e, 0x74, 0x69, 0x74, 0x79, 0x2e, 0x6d,
    0x6f, 0x64, 0x75, 0x6c, 0x65, 0x42, 0xb, 0x4d, 0x6f, 0x64, 0x75, 0x6c, 0x65, 0x50, 0x72, 0x6f,
    0x74, 0x6f, 0x50, 0x1, 0x5a, 0x23, 0x4e, 0x65, 0x78, 0x65, 0x6c, 0x72, 0x61, 0x2f, 0x61, 0x70,
    0x69, 0x2f, 0x6e, 0x65, 0x78, 0x65, 0x6c, 0x72, 0x61, 0x2f, 0x69, 0x64, 0x65, 0x6e, 0x74, 0x69,
    0x74, 0x79, 0x2f, 0x6d, 0x6f, 0x64, 0x75, 0x6c, 0x65, 0xa2, 0x2, 0x3, 0x4e, 0x49, 0x4d, 0xaa,
    0x2, 0x17, 0x4e, 0x65, 0x78, 0x65, 0x6c, 0x72, 0x61, 0x2e, 0x49, 0x64, 0x65, 0x6e, 0x74, 0x69,
    0x74, 0x79, 0x2e, 0x4d, 0x6f, 0x64, 0x75, 0x6c, 0x65, 0xca, 0x2, 0x17, 0x4e, 0x65, 0x78, 0x65,
    0x6c, 0x72, 0x61, 0x5c, 0x49, 0x64, 0x65, 0x6e, 0x74, 0x69, 0x74, 0x79, 0x5c, 0x4d, 0x6f, 0x64,
    0x75, 0x6c, 0x65, 0xe2, 0x2, 0x23, 0x4e, 0x65, 0x78, 0x65, 0x6c, 0x72, 0x61, 0x5c, 0x49, 0x64,
    0x65, 0x6e, 0x74, 0x69, 0x74, 0x79, 0x5c, 0x4d, 0x6f, 0x64, 0x75, 0x6c, 0x65, 0x5c, 0x47, 0x50,
    0x42, 0x4d, 0x65, 0x74, 0x61, 0x64, 0x61, 0x74, 0x61, 0xea, 0x2, 0x19, 0x4e, 0x65, 0x78, 0x65,
    0x6c, 0x72, 0x61, 0x3a, 0x3a, 0x49, 0x64, 0x65, 0x6e, 0x74, 0x69, 0x74, 0x79, 0x3a, 0x3a, 0x4d,
    0x6f, 0x64, 0x75, 0x6c, 0x65, 0x62, 0x6, 0x70, 0x72, 0x6f, 0x74, 0x6f, 0x33]"

text \<open>The Go types of the messages and the indices into them, field types first,
        then requests and answers.\<close>

definition file_nexelra_identity_identity_proto_goTypes :: "string list" where
  "file_nexelra_identity_identity_proto_goTypes =
    [''Identity'']"

definition file_nexelra_identity_identity_proto_depIdxs :: "nat list" where
  "file_nexelra_identity_identity_proto_depIdxs = [0, 0, 0, 0, 0]"

definition file_nexelra_identity_params_proto_goTypes :: "string list" where
  "file_nexelra_identity_params_proto_goTypes =
    [''Params'']"

definition file_nexelra_identity_params_proto_depIdxs :: "nat list" where
  "file_nexelra_identity_params_proto_depIdxs = [0, 0, 0, 0, 0]"

definition file_nexelra_identity_genesis_proto_goTypes :: "string list" where
  "file_nexelra_identity_genesis_proto_goTypes =
    [''GenesisState'', ''Params'', ''Identity'']"

definition file_nexelra_identity_genesis_proto_depIdxs :: "nat list" where
  "file_nexelra_identity_genesis_proto_depIdxs = [1, 2, 2, 2, 2, 2, 0]"

definition file_nexelra_identity_query_proto_goTypes :: "string list" where
  "file_nexelra_identity_query_proto_goTypes =
    [''QueryParamsRequest'', ''QueryParamsResponse'', ''QueryGetIdentityRequest'',
        ''QueryGetIdentityResponse'', ''QueryAllIdentityRequest'', ''QueryAllIdentityResponse'',
        ''QueryIdentityByCccdIdRequest'', ''QueryIdentityByCccdIdResponse'', ''Params'', ''Identity'',
        ''v1beta1.PageRequest'', ''v1beta1.PageResponse'']"

definition file_nexelra_identity_query_proto_depIdxs :: "nat list" where
  "file_nexelra_identity_query_proto_depIdxs = [8, 9, 10, 9, 11, 10, 9, 11, 0, 2, 4, 6, 1, 3, 5, 7, 12, 8,
        8, 8, 0]"

definition file_nexelra_identity_tx_proto_goTypes :: "string list" where
  "file_nexelra_identity_tx_proto_goTypes =
    [''MsgUpdateParams'', ''MsgUpdateParamsResponse'', ''MsgCreateIdentity'',
        ''MsgCreateIdentityResponse'', ''Params'']"

definition file_nexelra_identity_tx_proto_depIdxs :: "nat list" where
  "file_nexelra_identity_tx_proto_depIdxs = [4, 0, 2, 1, 3, 3, 1, 1, 1, 0]"

definition file_nexelra_identity_module_module_proto_goTypes :: "string list" where
  "file_nexelra_identity_module_module_proto_goTypes =
    [''Module'']"

definition file_nexelra_identity_module_module_proto_depIdxs :: "nat list" where
  "file_nexelra_identity_module_module_proto_depIdxs = [0, 0, 0, 0, 0]"

lemma identity_identity_proto_decl_raw: "file_nexelra_identity_identity_proto_rawDesc = enc_file_decl identity_identity_proto_decl"
  by (simp add: file_nexelra_identity_identity_proto_rawDesc_def identity_identity_proto_decl_def Identity_decl_def eval_decl eval_varint)

lemma identity_params_proto_decl_raw: "file_nexelra_identity_params_proto_rawDesc = enc_file_decl identity_params_proto_decl"
  by (simp add: file_nexelra_identity_params_proto_rawDesc_def identity_params_proto_decl_def Params_decl_def eval_decl eval_varint)

lemma identity_genesis_proto_decl_raw: "file_nexelra_identity_genesis_proto_rawDesc = enc_file_decl identity_genesis_proto_decl"
  by (simp add: file_nexelra_identity_genesis_proto_rawDesc_def identity_genesis_proto_decl_def GenesisState_decl_def eval_decl eval_varint)

lemma identity_query_proto_decl_raw: "file_nexelra_identity_query_proto_rawDesc = enc_file_decl identity_query_proto_decl"
  by (simp add: file_nexelra_identity_query_proto_rawDesc_def identity_query_proto_decl_def QueryParamsRequest_decl_def QueryParamsResponse_decl_def QueryGetIdentityRequest_decl_def QueryGetIdentityResponse_decl_def QueryAllIdentityRequest_decl_def QueryAllIdentityResponse_decl_def QueryIdentityByCccdIdRequest_decl_def QueryIdentityByCccdIdResponse_decl_def Query_decl_def eval_decl eval_varint)

lemma identity_tx_proto_decl_raw: "file_nexelra_identity_tx_proto_rawDesc = enc_file_decl identity_tx_proto_decl"
  by (simp add: file_nexelra_identity_tx_proto_rawDesc_def identity_tx_proto_decl_def MsgUpdateParams_decl_def MsgUpdateParamsResponse_decl_def MsgCreateIdentity_decl_def MsgCreateIdentityResponse_decl_def Msg_decl_def eval_decl eval_varint)

lemma identity_module_module_proto_decl_raw: "file_nexelra_identity_module_module_proto_rawDesc = enc_file_decl identity_module_module_proto_decl"
  by (simp add: file_nexelra_identity_module_module_proto_rawDesc_def identity_module_module_proto_decl_def Module_decl_def eval_decl eval_varint)

end
