(* ===== verification/AppModule.thy ===== *)
theory AppModule
  imports Module Gateway_Properties Exit Descriptors PulsarModule
begin

text \<open>
  \<open>x/identity/module/module.go\<close> as a whole, with \<open>types/codec.go\<close> and \<open>keeper/msg_server.go\<close>: the two
  structs of the module, what they register (types, services, HTTP routes) and how the module is
  provided to the application. The registries of the SDK are one state \<open>'c\<close>, their methods the
  parameter \<open>registries\<close>.
\<close>

section \<open>The servers and their handlers\<close>

text \<open>\<open>CreateIdentity\<close> reads the clock when it is called: the time is an argument of the call.\<close>

record 's msg_api =
  srv_UpdateParams :: "'s \<Rightarrow> MsgUpdateParams \<Rightarrow> ('s \<times> MsgUpdateParamsResponse) res"
  srv_CreateIdentity :: "u64 \<Rightarrow> 's \<Rightarrow> MsgCreateIdentity \<Rightarrow> ('s \<times> MsgCreateIdentityResponse) res"

definition NewMsgServerImpl :: "'s Keeper \<Rightarrow> 's msg_api" where
  "NewMsgServerImpl keeper =
     \<lparr>srv_UpdateParams = UpdateParams keeper, srv_CreateIdentity = (\<lambda>now. CreateIdentity keeper now)\<rparr>"

text \<open>A handler with its server: it gets the decoder of the request and an interceptor.\<close>

type_synonym ('m, 'r) handler = "('m \<Rightarrow> 'm res) \<Rightarrow> ('m, 'r) interceptor option \<Rightarrow> 'r res"

datatype ('s, 'p, 'q) method_handler =
    UpdateParamsHandler "'s \<Rightarrow> (MsgUpdateParams, 's \<times> MsgUpdateParamsResponse) handler"
  | CreateIdentityHandler "u64 \<Rightarrow> 's \<Rightarrow> (MsgCreateIdentity, 's \<times> MsgCreateIdentityResponse) handler"
  | ParamsHandler "'s \<Rightarrow> (QueryParamsRequest, QueryParamsResponse) handler"
  | IdentityHandler "'s \<Rightarrow> (QueryGetIdentityRequest, QueryGetIdentityResponse) handler"
  | IdentityAllHandler "'s \<Rightarrow> ('p QueryAllIdentityRequest, 'q QueryAllIdentityResponse) handler"
  | IdentityByCccdIdHandler "'s \<Rightarrow> ('p QueryIdentityByCccdIdRequest, 'q QueryIdentityByCccdIdResponse) handler"

text \<open>The methods of the service descriptions, bound to a server.\<close>

definition Msg_methods :: "'s msg_api \<Rightarrow> (string \<times> ('s, 'p, 'q) method_handler) list" where
  "Msg_methods srv =
     [(''UpdateParams'', UpdateParamsHandler (\<lambda>s. Msg_UpdateParams_Handler (srv_UpdateParams srv s))),
      (''CreateIdentity'', CreateIdentityHandler (\<lambda>now s. Msg_CreateIdentity_Handler (srv_CreateIdentity srv now s)))]"

definition Query_methods :: "('s \<Rightarrow> ('p, 'q) query_api) \<Rightarrow> (string \<times> ('s, 'p, 'q) method_handler) list" where
  "Query_methods srv =
     [(''Params'', ParamsHandler (\<lambda>s. Query_Params_Handler (call_Params (srv s)))),
      (''Identity'', IdentityHandler (\<lambda>s. Query_Identity_Handler (call_Identity (srv s)))),
      (''IdentityAll'', IdentityAllHandler (\<lambda>s. Query_IdentityAll_Handler (call_IdentityAll (srv s)))),
      (''IdentityByCccdId'', IdentityByCccdIdHandler (\<lambda>s. Query_IdentityByCccdId_Handler (call_IdentityByCccdId (srv s))))]"

section \<open>The registries\<close>

record ('c, 's, 'p, 'q) registries =
  RegisterImplementations :: "string \<Rightarrow> string list \<Rightarrow> 'c \<Rightarrow> 'c exit"
  RegisterMsgServiceDesc :: "string \<times> string list \<Rightarrow> 'c \<Rightarrow> 'c exit"
  MsgServer_RegisterService :: "string \<Rightarrow> (string \<times> ('s, 'p, 'q) method_handler) list \<Rightarrow> 'c \<Rightarrow> 'c exit"
  QueryServer_RegisterService :: "string \<Rightarrow> (string \<times> ('s, 'p, 'q) method_handler) list \<Rightarrow> 'c \<Rightarrow> 'c exit"

definition RegisterMsgServer :: "('c, 's, 'p, 'q) registries \<Rightarrow> 's msg_api \<Rightarrow> 'c \<Rightarrow> 'c exit" where
  "RegisterMsgServer env srv = MsgServer_RegisterService env (fst Msg_serviceDesc) (Msg_methods srv)"

definition RegisterQueryServer :: "('c, 's, 'p, 'q) registries \<Rightarrow> ('s \<Rightarrow> ('p, 'q) query_api) \<Rightarrow> 'c \<Rightarrow> 'c exit" where
  "RegisterQueryServer env srv = QueryServer_RegisterService env (fst Query_serviceDesc) (Query_methods srv)"

definition types_RegisterInterfaces :: "('c, 's, 'p, 'q) registries \<Rightarrow> 'c \<Rightarrow> 'c exit" where
  "types_RegisterInterfaces env registry =
     bind_exit (RegisterImplementations env ''sdk.Msg'' [registered_names ! 0, registered_names ! 2] registry)
       (RegisterMsgServiceDesc env Msg_serviceDesc)"

definition types_RegisterLegacyAminoCodec :: "(string \<Rightarrow> string \<Rightarrow> 'a \<Rightarrow> 'a exit) \<Rightarrow> 'a \<Rightarrow> 'a exit" where
  "types_RegisterLegacyAminoCodec RegisterConcrete amino =
     bind_exit (RegisterConcrete (registered_names ! 0) ''identity/UpdateParams'' amino)
       (RegisterConcrete (registered_names ! 2) ''identity/CreateIdentity'')"

section \<open>AppModuleBasic and AppModule\<close>

record AppModuleBasic =
  basic_cdc :: binary_codec

definition NewAppModuleBasic :: "binary_codec \<Rightarrow> AppModuleBasic" where
  "NewAppModuleBasic c = \<lparr>basic_cdc = c\<rparr>"

text \<open>The keepers of accounts and of balances are kept and not used.\<close>

record ('s, 'a, 'b) AppModule =
  basic :: AppModuleBasic
  keeper :: "'s Keeper"
  accountKeeper :: 'a
  bankKeeper :: 'b

definition NewAppModule :: "binary_codec \<Rightarrow> 's Keeper \<Rightarrow> 'a \<Rightarrow> 'b \<Rightarrow> ('s, 'a, 'b) AppModule" where
  "NewAppModule c k account bank =
     \<lparr>basic = NewAppModuleBasic c, keeper = k, accountKeeper = account, bankKeeper = bank\<rparr>"

definition AppModule_RegisterLegacyAminoCodec :: "'a \<Rightarrow> 'a" where
  "AppModule_RegisterLegacyAminoCodec amino = amino"

definition AppModule_RegisterInterfaces :: "('c, 's, 'p, 'q) registries \<Rightarrow> AppModuleBasic \<Rightarrow> 'c \<Rightarrow> 'c exit" where
  "AppModule_RegisterInterfaces env a reg = types_RegisterInterfaces env reg"

definition AppModule_RegisterServices ::
    "('c, 's, 'p, 'q) registries \<Rightarrow> ('s, 'p, 'q) paginate \<Rightarrow> ('s, 'a, 'b) AppModule \<Rightarrow> 'c \<Rightarrow> 'c exit" where
  "AppModule_RegisterServices env paginate am cfg =
     bind_exit (RegisterMsgServer env (NewMsgServerImpl (keeper am)) cfg)
       (RegisterQueryServer env (keeper_api paginate (keeper am)))"

text \<open>
  The routes of the gateway, over a client of the node. \<open>RegisterQueryHandlerClient\<close> returns no
  error, so the panic on one is never reached.
\<close>

definition AppModule_RegisterGRPCGatewayRoutes ::
    "('p, 'ctx) gateway_rt \<Rightarrow> (string \<times> pattern \<times> ('ctx, 'q) http_handler \<Rightarrow> 'mux \<Rightarrow> 'mux)
      \<Rightarrow> ('p, 'q) connection \<Rightarrow> 'mux \<Rightarrow> 'mux" where
  "AppModule_RegisterGRPCGatewayRoutes rt Handle clientCtx mux =
     fold Handle (RegisterQueryHandlerClient rt (NewQueryClient clientCtx)) mux"

definition AppModule_RegisterInvariants :: "'i \<Rightarrow> 'i" where
  "AppModule_RegisterInvariants registry = registry"

section \<open>ProvideModule\<close>

record ('s, 'a, 'b) ModuleInputs =
  In_StoreService :: "'s kv_ops"
  In_Cdc :: binary_codec
  In_Config :: api_Module
  In_AccountKeeper :: 'a
  In_BankKeeper :: 'b

record ('s, 'a, 'b) ModuleOutputs =
  Out_IdentityKeeper :: "'s Keeper"
  Out_Module :: "('s, 'a, 'b) AppModule"

text \<open>The keeper is made by \<^const>\<open>ProvideModule\<close>; it panics on an authority that is no address.\<close>

definition ProvideModule_outputs ::
    "bech32_decoder \<Rightarrow> (string \<Rightarrow> bytes) \<Rightarrow> (string \<Rightarrow> bytes) \<Rightarrow> (bytes \<Rightarrow> string)
      \<Rightarrow> ('s, 'a, 'b) ModuleInputs \<Rightarrow> ('s, 'a, 'b) ModuleOutputs res" where
  "ProvideModule_outputs AccAddressFromBech32 NewModuleAddress NewModuleAddressOrBech32Address addr_String inp =
     bind_res (ProvideModule AccAddressFromBech32 NewModuleAddress NewModuleAddressOrBech32Address addr_String
         (In_Cdc inp) (In_StoreService inp) (api_Module_Authority (In_Config inp))) (\<lambda>k.
       Ok \<lparr>Out_IdentityKeeper = k,
           Out_Module = NewAppModule (In_Cdc inp) k (In_AccountKeeper inp) (In_BankKeeper inp)\<rparr>)"

text \<open>
  \<open>init\<close> registers the provider under the configuration's message; a configuration selects it by
  its name.
\<close>

definition registered_modules :: "'m \<Rightarrow> (string \<times> 'm) list" where
  "registered_modules provide = [(''nexelra.identity.module.Module'', provide)]"

section \<open>What the registries promise\<close>

text \<open>
  The documented behaviour of the SDK's interface registry and of its two routers, seen through
  the type URLs that can be resolved and the handler found under a method's full name: registering
  implementations makes their URLs known; a router takes a service none of whose methods it has
  and panics on any other; the router of messages also panics on a service whose requests are not
  known yet.
\<close>

definition method_paths :: "string \<Rightarrow> (string \<times> 'h) list \<Rightarrow> (string \<times> 'h) list" where
  "method_paths name ms = map (\<lambda>(m, h). (''/'' @ name @ ''/'' @ m, h)) ms"

fun request_url :: "('s, 'p, 'q) method_handler \<Rightarrow> string option" where
  "request_url (UpdateParamsHandler _) = Some url_MsgUpdateParams"
| "request_url (CreateIdentityHandler _) = Some url_MsgCreateIdentity"
| "request_url _ = None"

definition requests_known :: "string set \<Rightarrow> (string \<times> ('s, 'p, 'q) method_handler) list \<Rightarrow> bool" where
  "requests_known urls ms \<longleftrightarrow> list_all (\<lambda>(m, h). case request_url h of None \<Rightarrow> False | Some u \<Rightarrow> u \<in> urls) ms"

definition unrouted :: "(string \<Rightarrow> 'h option) \<Rightarrow> string list \<Rightarrow> bool" where
  "unrouted route paths \<longleftrightarrow> list_all (\<lambda>p. route p = None) paths \<and> distinct paths"

record ('c, 's, 'p, 'q) registry_views =
  known_urls :: "'c \<Rightarrow> string set"
  msg_route :: "'c \<Rightarrow> string \<Rightarrow> ('s, 'p, 'q) method_handler option"
  query_route :: "'c \<Rightarrow> string \<Rightarrow> ('s, 'p, 'q) method_handler option"

definition registries_lawful ::
    "('c, 's, 'p, 'q) registries \<Rightarrow> ('c, 's, 'p, 'q) registry_views \<Rightarrow> bool" where
  "registries_lawful env v \<longleftrightarrow>
     (\<forall>iface names c. \<exists>c'. RegisterImplementations env iface names c = Returns c'
        \<and> known_urls v c' = known_urls v c \<union> (\<lambda>n. ''/'' @ n) ` set names
        \<and> msg_route v c' = msg_route v c \<and> query_route v c' = query_route v c)
   \<and> (\<forall>desc c. \<exists>c'. RegisterMsgServiceDesc env desc c = Returns c' \<and> known_urls v c \<subseteq> known_urls v c'
        \<and> msg_route v c' = msg_route v c \<and> query_route v c' = query_route v c)
   \<and> (\<forall>name ms c. if unrouted (msg_route v c) (map fst (method_paths name ms)) \<and> requests_known (known_urls v c) ms
        then \<exists>c'. MsgServer_RegisterService env name ms c = Returns c'
          \<and> msg_route v c' = msg_route v c ++ map_of (method_paths name ms) \<and> query_route v c' = query_route v c
        else MsgServer_RegisterService env name ms c = Panics)
   \<and> (\<forall>name ms c. if unrouted (query_route v c) (map fst (method_paths name ms))
        then \<exists>c'. QueryServer_RegisterService env name ms c = Returns c'
          \<and> query_route v c' = query_route v c ++ map_of (method_paths name ms) \<and> msg_route v c' = msg_route v c
        else QueryServer_RegisterService env name ms c = Panics)"

section \<open>Services\<close>

lemma Msg_paths:
  "method_paths (fst Msg_serviceDesc) (Msg_methods srv) =
     [(Msg_UpdateParams_FullMethodName, UpdateParamsHandler (\<lambda>s. Msg_UpdateParams_Handler (srv_UpdateParams srv s))),
      (Msg_CreateIdentity_FullMethodName,
        CreateIdentityHandler (\<lambda>now s. Msg_CreateIdentity_Handler (srv_CreateIdentity srv now s)))]"
  by (simp add: method_paths_def Msg_serviceDesc_def Msg_methods_def Msg_UpdateParams_FullMethodName_def
      Msg_CreateIdentity_FullMethodName_def)

lemma Query_paths:
  "method_paths (fst Query_serviceDesc) (Query_methods srv) =
     [(Query_Params_FullMethodName, ParamsHandler (\<lambda>s. Query_Params_Handler (call_Params (srv s)))),
      (Query_Identity_FullMethodName, IdentityHandler (\<lambda>s. Query_Identity_Handler (call_Identity (srv s)))),
      (Query_IdentityAll_FullMethodName, IdentityAllHandler (\<lambda>s. Query_IdentityAll_Handler (call_IdentityAll (srv s)))),
      (Query_IdentityByCccdId_FullMethodName,
        IdentityByCccdIdHandler (\<lambda>s. Query_IdentityByCccdId_Handler (call_IdentityByCccdId (srv s))))]"
  by (simp add: method_paths_def Query_serviceDesc_def Query_methods_def Query_Params_FullMethodName_def
      Query_Identity_FullMethodName_def Query_IdentityAll_FullMethodName_def Query_IdentityByCccdId_FullMethodName_def)

lemma Query_paths_set:
  "fst ` set (method_paths (fst Query_serviceDesc) (Query_methods srv)) = set (full_methods Query_serviceDesc)"
  unfolding Query_paths by (simp add: full_methods_def Query_serviceDesc_def Query_Params_FullMethodName_def
      Query_Identity_FullMethodName_def Query_IdentityAll_FullMethodName_def Query_IdentityByCccdId_FullMethodName_def)

lemma methods_described:
  "map fst (Msg_methods srv) = snd Msg_serviceDesc" "map fst (Query_methods qsrv) = snd Query_serviceDesc"
  by (simp_all add: Msg_methods_def Query_methods_def Msg_serviceDesc_def Query_serviceDesc_def)

lemmas full_names_distinct = Query_Params_FullMethodName_def Query_Identity_FullMethodName_def
  Query_IdentityAll_FullMethodName_def Query_IdentityByCccdId_FullMethodName_def
  Msg_UpdateParams_FullMethodName_def Msg_CreateIdentity_FullMethodName_def

lemma registries_lawful_types:
  assumes "registries_lawful env v"
  shows "\<exists>c'. RegisterImplementations env iface names c = Returns c'
      \<and> known_urls v c' = known_urls v c \<union> (\<lambda>n. ''/'' @ n) ` set names
      \<and> msg_route v c' = msg_route v c \<and> query_route v c' = query_route v c"
    and "\<exists>c'. RegisterMsgServiceDesc env desc c = Returns c' \<and> known_urls v c \<subseteq> known_urls v c'
      \<and> msg_route v c' = msg_route v c \<and> query_route v c' = query_route v c"
  using assms unfolding registries_lawful_def by blast+

lemma RegisterInterfaces_lawful:
  assumes "registries_lawful env v"
  shows "\<exists>c'. types_RegisterInterfaces env c = Returns c'
    \<and> {url_MsgUpdateParams, url_MsgCreateIdentity} \<union> known_urls v c \<subseteq> known_urls v c'
    \<and> msg_route v c' = msg_route v c \<and> query_route v c' = query_route v c"
proof -
  obtain c1 where c1: "RegisterImplementations env ''sdk.Msg'' [registered_names ! 0, registered_names ! 2] c = Returns c1"
      "known_urls v c1 = known_urls v c \<union> (\<lambda>n. ''/'' @ n) ` set [registered_names ! 0, registered_names ! 2]"
      "msg_route v c1 = msg_route v c" "query_route v c1 = query_route v c"
    using registries_lawful_types(1) [OF assms] by blast
  obtain c2 where c2: "RegisterMsgServiceDesc env Msg_serviceDesc c1 = Returns c2" "known_urls v c1 \<subseteq> known_urls v c2"
      "msg_route v c2 = msg_route v c1" "query_route v c2 = query_route v c1"
    using registries_lawful_types(2) [OF assms] by blast
  have "{url_MsgUpdateParams, url_MsgCreateIdentity} \<union> known_urls v c \<subseteq> known_urls v c1"
    unfolding c1(2) url_MsgUpdateParams_def url_MsgCreateIdentity_def by simp
  then have "{url_MsgUpdateParams, url_MsgCreateIdentity} \<union> known_urls v c \<subseteq> known_urls v c2"
    using c2(2) by (rule subset_trans)
  moreover have "types_RegisterInterfaces env c = Returns c2"
    using c1(1) c2(1) by (simp add: types_RegisterInterfaces_def)
  moreover have "msg_route v c2 = msg_route v c" "query_route v c2 = query_route v c"
    using c1(3,4) c2(3,4) by simp_all
  ultimately show ?thesis by blast
qed

lemma RegisterMsgServer_lawful:
  assumes "registries_lawful env v"
    and "unrouted (msg_route v c) [Msg_UpdateParams_FullMethodName, Msg_CreateIdentity_FullMethodName]"
    and "{url_MsgUpdateParams, url_MsgCreateIdentity} \<subseteq> known_urls v c"
  shows "\<exists>c'. RegisterMsgServer env srv c = Returns c'
    \<and> msg_route v c' = msg_route v c ++ map_of (method_paths (fst Msg_serviceDesc) (Msg_methods srv))
    \<and> query_route v c' = query_route v c"
proof -
  have "requests_known (known_urls v c) (Msg_methods srv)"
    using assms(3) by (simp add: requests_known_def Msg_methods_def)
  moreover have "unrouted (msg_route v c) (map fst (method_paths (fst Msg_serviceDesc) (Msg_methods srv)))"
    using assms(2) by (simp add: Msg_paths)
  ultimately show ?thesis
    using assms(1) unfolding registries_lawful_def RegisterMsgServer_def by metis
qed

lemma RegisterMsgServer_unknown:
  assumes "registries_lawful env v" "\<not> {url_MsgUpdateParams, url_MsgCreateIdentity} \<subseteq> known_urls v c"
  shows "RegisterMsgServer env srv c = Panics"
proof -
  have "\<not> requests_known (known_urls v c) (Msg_methods srv)"
    using assms(2) by (simp add: requests_known_def Msg_methods_def)
  then show ?thesis
    using assms(1) unfolding registries_lawful_def RegisterMsgServer_def by metis
qed

lemma RegisterQueryServer_lawful:
  assumes "registries_lawful env v"
    and "unrouted (query_route v c) [Query_Params_FullMethodName, Query_Identity_FullMethodName,
      Query_IdentityAll_FullMethodName, Query_IdentityByCccdId_FullMethodName]"
  shows "\<exists>c'. RegisterQueryServer env srv c = Returns c'
    \<and> query_route v c' = query_route v c ++ map_of (method_paths (fst Query_serviceDesc) (Query_methods srv))
    \<and> msg_route v c' = msg_route v c"
proof -
  have "unrouted (query_route v c) (map fst (method_paths (fst Query_serviceDesc) (Query_methods srv)))"
    using assms(2) by (simp add: Query_paths)
  then show ?thesis
    using assms(1) unfolding registries_lawful_def RegisterQueryServer_def by metis
qed

text \<open>The routers of an application that has no method of the module yet.\<close>

definition module_unrouted :: "('c, 's, 'p, 'q) registry_views \<Rightarrow> 'c \<Rightarrow> bool" where
  "module_unrouted v c \<longleftrightarrow>
     list_all (\<lambda>p. msg_route v c p = None) (full_methods Msg_serviceDesc)
   \<and> list_all (\<lambda>p. query_route v c p = None) (full_methods Query_serviceDesc)"

lemma module_unroutedD:
  assumes "module_unrouted v c"
  shows "unrouted (msg_route v c) [Msg_UpdateParams_FullMethodName, Msg_CreateIdentity_FullMethodName]"
    and "unrouted (query_route v c) [Query_Params_FullMethodName, Query_Identity_FullMethodName,
      Query_IdentityAll_FullMethodName, Query_IdentityByCccdId_FullMethodName]"
  using assms by (simp_all add: module_unrouted_def unrouted_def full_methods_def Msg_serviceDesc_def
      Query_serviceDesc_def full_names_distinct)

lemma RegisterServices_lawful:
  assumes "registries_lawful env v" "module_unrouted v c" "{url_MsgUpdateParams, url_MsgCreateIdentity} \<subseteq> known_urls v c"
  shows "\<exists>c'. AppModule_RegisterServices env paginate am c = Returns c'
    \<and> msg_route v c' = msg_route v c ++ map_of (method_paths (fst Msg_serviceDesc) (Msg_methods (NewMsgServerImpl (keeper am))))
    \<and> query_route v c' = query_route v c
        ++ map_of (method_paths (fst Query_serviceDesc) (Query_methods (keeper_api paginate (keeper am))))"
proof -
  obtain c1 where c1: "RegisterMsgServer env (NewMsgServerImpl (keeper am)) c = Returns c1"
      "msg_route v c1 = msg_route v c ++ map_of (method_paths (fst Msg_serviceDesc) (Msg_methods (NewMsgServerImpl (keeper am))))"
      "query_route v c1 = query_route v c"
    using RegisterMsgServer_lawful [OF assms(1) module_unroutedD(1) [OF assms(2)] assms(3)] by blast
  have u: "unrouted (query_route v c1) [Query_Params_FullMethodName, Query_Identity_FullMethodName,
      Query_IdentityAll_FullMethodName, Query_IdentityByCccdId_FullMethodName]"
    using module_unroutedD(2) [OF assms(2)] c1(3) by simp
  obtain c2 where c2: "RegisterQueryServer env (keeper_api paginate (keeper am)) c1 = Returns c2"
      "query_route v c2 = query_route v c1
        ++ map_of (method_paths (fst Query_serviceDesc) (Query_methods (keeper_api paginate (keeper am))))"
      "msg_route v c2 = msg_route v c1"
    using RegisterQueryServer_lawful [OF assms(1) u] by blast
  from c1 c2 show ?thesis by (simp add: AppModule_RegisterServices_def)
qed

lemma RegisterServices_twice:
  assumes "registries_lawful env v" "msg_route v c Msg_UpdateParams_FullMethodName \<noteq> None"
  shows "AppModule_RegisterServices env paginate am c = Panics"
proof -
  have "\<not> unrouted (msg_route v c) (map fst (method_paths (fst Msg_serviceDesc) (Msg_methods (NewMsgServerImpl (keeper am)))))"
    using assms(2) by (simp add: Msg_paths unrouted_def)
  then have "RegisterMsgServer env (NewMsgServerImpl (keeper am)) c = Panics"
    using assms(1) unfolding registries_lawful_def RegisterMsgServer_def by metis
  then show ?thesis by (simp add: AppModule_RegisterServices_def)
qed

text \<open>
  How the router of messages runs a handler: its decoder does nothing, and its interceptor hands
  on the message of the transaction in place of the empty one.
\<close>

definition run_routed :: "('m, 'r) handler \<Rightarrow> 'm \<Rightarrow> 'r res" where
  "run_routed h msg = h (\<lambda>m. Ok m) (Some (\<lambda>_ _ next_handler. next_handler msg))"

lemma run_routed_CreateIdentity:
  "run_routed (Msg_CreateIdentity_Handler (srv_CreateIdentity (NewMsgServerImpl k) now s)) msg = CreateIdentity k now s msg"
  by (simp add: run_routed_def Msg_CreateIdentity_Handler_def unary_handler_def NewMsgServerImpl_def)

lemma run_routed_UpdateParams:
  "run_routed (Msg_UpdateParams_Handler (srv_UpdateParams (NewMsgServerImpl k) s)) msg = UpdateParams k s msg"
  by (simp add: run_routed_def Msg_UpdateParams_Handler_def unary_handler_def NewMsgServerImpl_def)

lemma ProvideModule_outputs_Ok:
  assumes "ProvideModule_outputs acc modaddr modaddr_or str inp = Ok out"
  shows "keeper (Out_Module out) = Out_IdentityKeeper out" "storeService (Out_IdentityKeeper out) = In_StoreService inp"
    "cdc (Out_IdentityKeeper out) = In_Cdc inp" "basic_cdc (basic (Out_Module out)) = In_Cdc inp"
    "GetAuthority (Out_IdentityKeeper out) = str (if api_Module_Authority (In_Config inp) = [] then modaddr ''gov''
       else modaddr_or (api_Module_Authority (In_Config inp)))"
  using assms by (auto simp: ProvideModule_outputs_def ProvideModule_def NewKeeper_def NewAppModule_def
      NewAppModuleBasic_def GetAuthority_def res_simps Let_def split: sum.splits if_splits)

section \<open>Properties\<close>


text \<open>Registries that keep what is registered.\<close>

type_synonym ex_handler = "(mem_store, nat \<times> nat \<times> bool, nat) method_handler"

type_synonym ex_registry = "string set \<times> (string \<rightharpoonup> ex_handler) \<times> (string \<rightharpoonup> ex_handler)"

definition ex_registries :: "(ex_registry, mem_store, nat \<times> nat \<times> bool, nat) registries" where
  "ex_registries =
     \<lparr>RegisterImplementations = (\<lambda>iface names (u, m, q). Returns (u \<union> (\<lambda>n. ''/'' @ n) ` set names, m, q)),
      RegisterMsgServiceDesc = (\<lambda>desc c. Returns c),
      MsgServer_RegisterService = (\<lambda>name ms (u, m, q).
        if unrouted m (map fst (method_paths name ms)) \<and> requests_known u ms
        then Returns (u, m ++ map_of (method_paths name ms), q) else Panics),
      QueryServer_RegisterService = (\<lambda>name ms (u, m, q).
        if unrouted q (map fst (method_paths name ms))
        then Returns (u, m, q ++ map_of (method_paths name ms)) else Panics)\<rparr>"

definition ex_views :: "(ex_registry, mem_store, nat \<times> nat \<times> bool, nat) registry_views" where
  "ex_views = \<lparr>known_urls = fst, msg_route = fst \<circ> snd, query_route = snd \<circ> snd\<rparr>"

lemma ex_registries_lawful: "registries_lawful ex_registries ex_views"
  unfolding registries_lawful_def
  by (intro conjI allI) (simp_all add: ex_registries_def ex_views_def split: prod.split)

definition ex_inputs :: "(mem_store, unit, unit) ModuleInputs" where
  "ex_inputs = \<lparr>In_StoreService = mem_kv, In_Cdc = proto_codec, In_Config = zero_api_Module,
     In_AccountKeeper = (), In_BankKeeper = ()\<rparr>"

definition ex_outputs :: "(mem_store, unit, unit) ModuleOutputs" where
  "ex_outputs =
     (let k = \<lparr>cdc = proto_codec, storeService = mem_kv, authority = ''gov''\<rparr>
      in \<lparr>Out_IdentityKeeper = k, Out_Module = NewAppModule proto_codec k () ()\<rparr>)"

lemma ex_provided: "ProvideModule_outputs (\<lambda>s. Inr []) (\<lambda>n. []) (\<lambda>n. []) (\<lambda>b. ''gov'') ex_inputs = Ok ex_outputs"
  by (simp add: ProvideModule_outputs_def ProvideModule_def NewKeeper_def ex_inputs_def ex_outputs_def Let_def)


section \<open>Legacy amino names\<close>

text \<open>
  The amino name that a message's options give it. The names that \<open>RegisterLegacyAminoCodec\<close> of
  \<open>codec.go\<close> registers are others, and the module's own method does not call it.
\<close>

definition amino_name :: "message_decl \<Rightarrow> string option" where
  "amino_name m = (case map_of (message_options m) 11110001 of Some (OptString s) \<Rightarrow> Some s | _ \<Rightarrow> None)"

theorem amino_names_differ:
  "types_RegisterLegacyAminoCodec (\<lambda>msg name names. Returns (names @ [(msg, name)])) []
     = Returns [(''nexelra.identity.MsgUpdateParams'', ''identity/UpdateParams''),
                (''nexelra.identity.MsgCreateIdentity'', ''identity/CreateIdentity'')]
   \<and> amino_name MsgUpdateParams_decl = Some ''Nexelra/x/identity/MsgUpdateParams''
   \<and> amino_name MsgCreateIdentity_decl = None
   \<and> AppModule_RegisterLegacyAminoCodec names = (names :: (string \<times> string) list)"
  by (simp add: types_RegisterLegacyAminoCodec_def registered_names_def amino_name_def MsgUpdateParams_decl_def
      MsgCreateIdentity_decl_def AppModule_RegisterLegacyAminoCodec_def)

end
