(* ===== verification/Descriptor_Properties.thy ===== *)
theory Descriptor_Properties
  imports Descriptors Gateway Api_Properties
begin

text \<open>
  What the declarations of the proto files say of the code generated from them: the tables of the
  Go files encode them, every message is encoded as its declaration prescribes, by the chain's
  codec and by the client's, and names of fields, methods and paths are the declared ones.
\<close>

section \<open>An encoder driven by declarations\<close>

text \<open>
  The values of a field. A message is given by its encoding; \<^const>\<open>None\<close> is an absent one.
\<close>

datatype field_value =
    VString string
  | VInt64 u64
  | VMessage "bytes option"
  | VMessages "bytes list"

text \<open>
  The rules of proto3: a field is a tag, made of its number and a wire type, and its contents;
  a string or number that is zero is left out. \<^const>\<open>None\<close> if a value does not fit the declaration.
\<close>

definition field_tag :: "field_decl \<Rightarrow> nat \<Rightarrow> byte" where
  "field_tag f wire = of_nat (8 * field_number f + wire)"

fun enc_value :: "field_decl \<Rightarrow> field_value \<Rightarrow> bytes option" where
  "enc_value f (VString s) =
     (if field_type f = 9 \<and> field_label f = 1 then Some (enc_str (field_tag f 2) s) else None)"
| "enc_value f (VInt64 v) =
     (if field_type f = 3 \<and> field_label f = 1 then Some (enc_opt_int (field_tag f 0) v) else None)"
| "enc_value f (VMessage m) =
     (if field_type f = 11 \<and> field_label f = 1
      then Some (case m of None \<Rightarrow> [] | Some b \<Rightarrow> enc_len (field_tag f 2) b) else None)"
| "enc_value f (VMessages ms) =
     (if field_type f = 11 \<and> field_label f = 3 then Some (concat (map (enc_len (field_tag f 2)) ms)) else None)"

fun enc_values :: "field_decl list \<Rightarrow> field_value list \<Rightarrow> bytes option" where
  "enc_values [] [] = Some []"
| "enc_values (f # fs) (v # vs) =
     (case (enc_value f v, enc_values fs vs) of (Some a, Some b) \<Rightarrow> Some (a @ b) | _ \<Rightarrow> None)"
| "enc_values _ _ = None"

definition enc_by :: "message_decl \<Rightarrow> field_value list \<Rightarrow> bytes option" where
  "enc_by m vs = enc_values (message_fields m) vs"

lemmas enc_by_defs = enc_by_def field_tag_def enc_opt_msg_def enc_msgs_def comp_def

section \<open>The chain's messages\<close>

lemma chain_by_declaration:
  "enc_by Identity_decl [VString (Address i), VString (IdHash i), VInt64 (CreatedAt i)] = Some (enc_Identity i)"
  "enc_by Params_decl [] = Some (enc_Params p)"
  "enc_by MsgCreateIdentity_decl [VString (Creator c), VString (CccdId c)] = Some (enc_MsgCreateIdentity c)"
  "enc_by MsgUpdateParams_decl [VString (Authority u), VMessage (Some (enc_Params (MsgParams u)))]
    = Some (enc_MsgUpdateParams u)"
  "enc_by GenesisState_decl [VMessage (Some (enc_Params (GenesisParams g))),
      VMessages (map enc_Identity (IdentityList g))] = Some (enc_GenesisState g)"
  "enc_by QueryParamsResponse_decl [VMessage (Some (enc_Params (Resp_Params r1)))] = Some (enc_QueryParamsResponse r1)"
  "enc_by QueryGetIdentityRequest_decl [VString (GetReq_Address r2)] = Some (enc_QueryGetIdentityRequest r2)"
  "enc_by QueryGetIdentityResponse_decl [VMessage (Some (enc_Identity (GetResp_Identity r3)))]
    = Some (enc_QueryGetIdentityResponse r3)"
  "enc_by QueryAllIdentityRequest_decl [VMessage (map_option penc (AllReq_Pagination r4))]
    = Some (enc_QueryAllIdentityRequest penc r4)"
  "enc_by QueryAllIdentityResponse_decl [VMessages (map enc_Identity (AllResp_Identity r5)),
      VMessage (map_option penc (AllResp_Pagination r5))] = Some (enc_QueryAllIdentityResponse penc r5)"
  "enc_by QueryIdentityByCccdIdRequest_decl [VString (ByIdReq_IdHash r6),
      VMessage (map_option penc (ByIdReq_Pagination r6))] = Some (enc_QueryIdentityByCccdIdRequest penc r6)"
  "enc_by QueryIdentityByCccdIdResponse_decl [VMessages (map enc_Identity (ByIdResp_Identity r7)),
      VMessage (map_option penc (ByIdResp_Pagination r7))] = Some (enc_QueryIdentityByCccdIdResponse penc r7)"
  by (simp_all add: enc_by_defs Identity_decl_def Params_decl_def MsgCreateIdentity_decl_def MsgUpdateParams_decl_def
      GenesisState_decl_def QueryParamsResponse_decl_def QueryGetIdentityRequest_decl_def
      QueryGetIdentityResponse_decl_def QueryAllIdentityRequest_decl_def QueryAllIdentityResponse_decl_def
      QueryIdentityByCccdIdRequest_decl_def QueryIdentityByCccdIdResponse_decl_def
      enc_Identity_def enc_Params_def enc_MsgCreateIdentity_def enc_MsgUpdateParams_def enc_GenesisState_def
      enc_QueryParamsResponse_def enc_QueryGetIdentityRequest_def enc_QueryGetIdentityResponse_def
      enc_QueryAllIdentityRequest_def enc_QueryAllIdentityResponse_def enc_QueryIdentityByCccdIdRequest_def
      enc_QueryIdentityByCccdIdResponse_def split: option.split)

text \<open>A message that the chain can encode at all is encoded as declared.\<close>

lemma chain_Marshal_by_declaration:
  "small_Identity i \<Longrightarrow> map_option Ok (enc_by Identity_decl
      [VString (Address i), VString (IdHash i), VInt64 (CreatedAt i)]) = Some (Identity_Marshal i)"
  "small_MsgCreateIdentity c \<Longrightarrow> map_option Ok (enc_by MsgCreateIdentity_decl
      [VString (Creator c), VString (CccdId c)]) = Some (MsgCreateIdentity_Marshal c)"
  "small_MsgUpdateParams u \<Longrightarrow> map_option Ok (enc_by MsgUpdateParams_decl
      [VString (Authority u), VMessage (Some (enc_Params (MsgParams u)))]) = Some (MsgUpdateParams_Marshal u)"
  "small_GenesisState g \<Longrightarrow> map_option Ok (enc_by GenesisState_decl
      [VMessage (Some (enc_Params (GenesisParams g))), VMessages (map enc_Identity (IdentityList g))])
    = Some (GenesisState_Marshal g)"
  by (simp_all add: chain_by_declaration identity_codec.marshal_enc MsgCreateIdentity_codec.marshal_enc
      MsgUpdateParams_codec.marshal_enc GenesisState_codec.marshal_enc)

section \<open>The client's messages\<close>

text \<open>They keep the fields that the declaration does not know and append them as they came.\<close>

lemma api_by_declaration:
  "map_option (\<lambda>e. e @ api_Identity_unknownFields a1) (enc_by Identity_decl
      [VString (api_Identity_Address a1), VString (api_Identity_IdHash a1), VInt64 (api_Identity_CreatedAt a1)])
    = Some (enc_api_Identity a1)"
  "map_option (\<lambda>e. e @ api_Params_unknownFields a2) (enc_by Params_decl []) = Some (enc_api_Params a2)"
  "map_option (\<lambda>e. e @ api_MsgCreateIdentity_unknownFields a3) (enc_by MsgCreateIdentity_decl
      [VString (api_MsgCreateIdentity_Creator a3), VString (api_MsgCreateIdentity_CccdId a3)])
    = Some (enc_api_MsgCreateIdentity a3)"
  "map_option (\<lambda>e. e @ api_MsgUpdateParams_unknownFields a4) (enc_by MsgUpdateParams_decl
      [VString (api_MsgUpdateParams_Authority a4), VMessage (map_option enc_api_Params (api_MsgUpdateParams_Params a4))])
    = Some (enc_api_MsgUpdateParams a4)"
  "map_option (\<lambda>e. e @ api_GenesisState_unknownFields a5) (enc_by GenesisState_decl
      [VMessage (map_option enc_api_Params (api_GenesisState_Params a5)),
       VMessages (map (enc_api_Identity \<circ> the) (api_GenesisState_IdentityList a5))])
    = Some (enc_api_GenesisState a5)"
  "map_option (\<lambda>e. e @ api_Module_unknownFields a6) (enc_by Module_decl [VString (api_Module_Authority a6)])
    = Some (enc_api_Module a6)"
  by (simp_all add: enc_by_defs Identity_decl_def Params_decl_def MsgCreateIdentity_decl_def MsgUpdateParams_decl_def
      GenesisState_decl_def Module_decl_def enc_api_Identity_def enc_api_Params_def enc_api_MsgCreateIdentity_def
      enc_api_MsgUpdateParams_def enc_api_GenesisState_def enc_api_Module_def split: option.split)

lemma api_queries_by_declaration:
  "map_option (\<lambda>e. e @ api_QueryGetIdentityRequest_unknownFields b1) (enc_by QueryGetIdentityRequest_decl
      [VString (api_QueryGetIdentityRequest_Address b1)]) = Some (enc_api_QueryGetIdentityRequest b1)"
  "map_option (\<lambda>e. e @ api_QueryGetIdentityResponse_unknownFields b2) (enc_by QueryGetIdentityResponse_decl
      [VMessage (map_option enc_api_Identity (api_QueryGetIdentityResponse_Identity b2))])
    = Some (enc_api_QueryGetIdentityResponse b2)"
  "map_option (\<lambda>e. e @ api_QueryParamsResponse_unknownFields b3) (enc_by QueryParamsResponse_decl
      [VMessage (map_option enc_api_Params (api_QueryParamsResponse_Params b3))])
    = Some (enc_api_QueryParamsResponse b3)"
  "map_option (\<lambda>e. e @ api_QueryAllIdentityRequest_unknownFields b4) (enc_by QueryAllIdentityRequest_decl
      [VMessage (map_option penc (api_QueryAllIdentityRequest_Pagination b4))])
    = Some (enc_api_QueryAllIdentityRequest penc b4)"
  "map_option (\<lambda>e. e @ api_QueryAllIdentityResponse_unknownFields b5) (enc_by QueryAllIdentityResponse_decl
      [VMessages (map (enc_api_Identity \<circ> the) (api_QueryAllIdentityResponse_Identity b5)),
       VMessage (map_option penc (api_QueryAllIdentityResponse_Pagination b5))])
    = Some (enc_api_QueryAllIdentityResponse penc b5)"
  "map_option (\<lambda>e. e @ api_QueryIdentityByCccdIdRequest_unknownFields b6) (enc_by QueryIdentityByCccdIdRequest_decl
      [VString (api_QueryIdentityByCccdIdRequest_IdHash b6),
       VMessage (map_option penc (api_QueryIdentityByCccdIdRequest_Pagination b6))])
    = Some (enc_api_QueryIdentityByCccdIdRequest penc b6)"
  "map_option (\<lambda>e. e @ api_QueryIdentityByCccdIdResponse_unknownFields b7) (enc_by QueryIdentityByCccdIdResponse_decl
      [VMessages (map (enc_api_Identity \<circ> the) (api_QueryIdentityByCccdIdResponse_Identity b7)),
       VMessage (map_option penc (api_QueryIdentityByCccdIdResponse_Pagination b7))])
    = Some (enc_api_QueryIdentityByCccdIdResponse penc b7)"
  by (simp_all add: enc_by_defs QueryParamsResponse_decl_def QueryGetIdentityRequest_decl_def
      QueryGetIdentityResponse_decl_def QueryAllIdentityRequest_decl_def QueryAllIdentityResponse_decl_def
      QueryIdentityByCccdIdRequest_decl_def QueryIdentityByCccdIdResponse_decl_def enc_api_QueryParamsResponse_def
      enc_api_QueryGetIdentityRequest_def enc_api_QueryGetIdentityResponse_def enc_api_QueryAllIdentityRequest_def
      enc_api_QueryAllIdentityResponse_def enc_api_QueryIdentityByCccdIdRequest_def
      enc_api_QueryIdentityByCccdIdResponse_def split: option.split)

lemma api_Marshal_by_declaration:
  assumes "pulsar_runtime rt"
  shows "wf_api_Identity a1 \<Longrightarrow> map_option (\<lambda>e. Ok (e @ api_Identity_unknownFields a1)) (enc_by Identity_decl
      [VString (api_Identity_Address a1), VString (api_Identity_IdHash a1), VInt64 (api_Identity_CreatedAt a1)])
    = Some (op_Marshal (api_Identity_ops rt) (Some a1))"
    and "wf_api_MsgCreateIdentity a3 \<Longrightarrow> map_option (\<lambda>e. Ok (e @ api_MsgCreateIdentity_unknownFields a3))
      (enc_by MsgCreateIdentity_decl [VString (api_MsgCreateIdentity_Creator a3), VString (api_MsgCreateIdentity_CccdId a3)])
    = Some (op_Marshal (api_MsgCreateIdentity_ops rt) (Some a3))"
  using api_by_declaration(1) [of a1] api_by_declaration(3) [of a3]
  by (auto simp: proto_methods.op_marshal [OF pulsar_runtime.api_Identity_proto [OF assms]]
      proto_methods.op_marshal [OF pulsar_runtime.api_MsgCreateIdentity_proto [OF assms]])

section \<open>Types, names and paths\<close>

text \<open>
  The types that a file refers to: those of the message fields, in order, then the requests and the
  answers of its methods. The names of the Go types are those of the package, with the pagination
  messages from the SDK.
\<close>

definition field_types :: "file_decl \<Rightarrow> string list" where
  "field_types f = concat (map (\<lambda>m. map type_name (filter (\<lambda>d. field_type d = 11) (message_fields m))) (messages f))"

definition file_methods :: "file_decl \<Rightarrow> method_decl list" where
  "file_methods f = concat (map methods (services f))"

definition proto_name :: "string \<Rightarrow> string" where
  "proto_name t = (if take 8 t = ''v1beta1.'' then ''.cosmos.base.query.'' else ''.nexelra.identity.'') @ t"

text \<open>
  The layout of \<open>goTypes\<close> and \<open>depIdxs\<close> that the run time expects: the messages of the file first;
  the indices of the types referred to, then the offsets of the answers, the requests, two
  sections of extensions, which are empty, and the fields.
\<close>

definition resolves :: "string list \<Rightarrow> nat list \<Rightarrow> file_decl \<Rightarrow> bool" where
  "resolves types deps f \<longleftrightarrow>
     (let fts = field_types f; ms = file_methods f;
          refs = fts @ map input_type ms @ map output_type ms; n = length refs
      in take (length (messages f)) types = map message_name (messages f)
       \<and> list_all (\<lambda>i. i < length types) (take n deps)
       \<and> map (\<lambda>i. proto_name (types ! i)) (take n deps) = refs
       \<and> drop n deps = [length fts + length ms, length fts, length fts, length fts, 0])"

lemmas message_decl_defs = Identity_decl_def Params_decl_def GenesisState_decl_def QueryParamsRequest_decl_def
  QueryParamsResponse_decl_def QueryGetIdentityRequest_decl_def QueryGetIdentityResponse_decl_def
  QueryAllIdentityRequest_decl_def QueryAllIdentityResponse_decl_def QueryIdentityByCccdIdRequest_decl_def
  QueryIdentityByCccdIdResponse_decl_def MsgUpdateParams_decl_def MsgUpdateParamsResponse_decl_def
  MsgCreateIdentity_decl_def MsgCreateIdentityResponse_decl_def Module_decl_def

lemmas resolves_defs = resolves_def field_types_def file_methods_def proto_name_def Let_def message_decl_defs
  Query_decl_def Msg_decl_def

lemma identity_resolves:
  "resolves file_nexelra_identity_identity_proto_goTypes file_nexelra_identity_identity_proto_depIdxs
     identity_identity_proto_decl"
  by (simp add: resolves_defs identity_identity_proto_decl_def file_nexelra_identity_identity_proto_goTypes_def
      file_nexelra_identity_identity_proto_depIdxs_def)

lemma params_resolves:
  "resolves file_nexelra_identity_params_proto_goTypes file_nexelra_identity_params_proto_depIdxs
     identity_params_proto_decl"
  by (simp add: resolves_defs identity_params_proto_decl_def file_nexelra_identity_params_proto_goTypes_def
      file_nexelra_identity_params_proto_depIdxs_def)

lemma genesis_resolves:
  "resolves file_nexelra_identity_genesis_proto_goTypes file_nexelra_identity_genesis_proto_depIdxs
     identity_genesis_proto_decl"
  by (simp add: resolves_defs identity_genesis_proto_decl_def file_nexelra_identity_genesis_proto_goTypes_def
      file_nexelra_identity_genesis_proto_depIdxs_def)

lemma query_resolves:
  "resolves file_nexelra_identity_query_proto_goTypes file_nexelra_identity_query_proto_depIdxs
     identity_query_proto_decl"
  by (simp add: resolves_defs identity_query_proto_decl_def file_nexelra_identity_query_proto_goTypes_def
      file_nexelra_identity_query_proto_depIdxs_def)

lemma tx_resolves:
  "resolves file_nexelra_identity_tx_proto_goTypes file_nexelra_identity_tx_proto_depIdxs identity_tx_proto_decl"
  by (simp add: resolves_defs identity_tx_proto_decl_def file_nexelra_identity_tx_proto_goTypes_def
      file_nexelra_identity_tx_proto_depIdxs_def)

lemma module_resolves:
  "resolves file_nexelra_identity_module_module_proto_goTypes file_nexelra_identity_module_module_proto_depIdxs
     identity_module_module_proto_decl"
  by (simp add: resolves_defs identity_module_module_proto_decl_def
      file_nexelra_identity_module_module_proto_goTypes_def file_nexelra_identity_module_module_proto_depIdxs_def)

text \<open>The path that an HTTP rule gives for \<open>GET\<close>, and the path of a template of the gateway.\<close>

definition http_path :: "method_decl \<Rightarrow> string option" where
  "http_path m = (case map_of (method_options m) 72295728 of
       Some (OptMessage os) \<Rightarrow> (case map_of os 2 of Some (OptString p) \<Rightarrow> Some p | _ \<Rightarrow> None)
     | _ \<Rightarrow> None)"

definition template_path :: "segment list \<Rightarrow> string" where
  "template_path = concat \<circ> map (\<lambda>s. case s of Literal l \<Rightarrow> ''/'' @ l | Variable v \<Rightarrow> ''/{'' @ v @ ''}'')"

lemma gateway_paths_declared:
  "map http_path (methods Query_decl) = map (map_option template_path \<circ> template_of)
     [pattern_Query_Params_0, pattern_Query_Identity_0, pattern_Query_IdentityAll_0, pattern_Query_IdentityByCccdId_0]"
  by (simp add: Query_decl_def http_path_def template_path_def templates)

lemma services_declared:
  "Query_ServiceDesc = (package identity_query_proto_decl @ ''.'' @ service_name Query_decl,
      map method_name (methods Query_decl))"
  "Msg_ServiceDesc = (package identity_tx_proto_decl @ ''.'' @ service_name Msg_decl, map method_name (methods Msg_decl))"
  by (simp_all add: Query_ServiceDesc_def Msg_ServiceDesc_def identity_query_proto_decl_def identity_tx_proto_decl_def
      Query_decl_def Msg_decl_def)

text \<open>The names by which the client's messages know their fields.\<close>

definition full_names :: "file_decl \<Rightarrow> message_decl \<Rightarrow> string list" where
  "full_names f m = map (\<lambda>d. package f @ ''.'' @ message_name m @ ''.'' @ field_name d) (message_fields m)"

lemma fields_declared:
  "full_names identity_identity_proto_decl Identity_decl
    = map FullName [fd_Identity_address, fd_Identity_idHash, fd_Identity_createdAt]"
  "full_names identity_genesis_proto_decl GenesisState_decl
    = map FullName [fd_GenesisState_params, fd_GenesisState_identityList]"
  "full_names identity_tx_proto_decl MsgUpdateParams_decl
    = map FullName [fd_MsgUpdateParams_authority, fd_MsgUpdateParams_params]"
  "full_names identity_tx_proto_decl MsgCreateIdentity_decl
    = map FullName [fd_MsgCreateIdentity_creator, fd_MsgCreateIdentity_cccdId]"
  "full_names identity_query_proto_decl QueryParamsResponse_decl = map FullName [fd_QueryParamsResponse_params]"
  "full_names identity_query_proto_decl QueryGetIdentityRequest_decl
    = map FullName [fd_QueryGetIdentityRequest_address]"
  "full_names identity_query_proto_decl QueryGetIdentityResponse_decl
    = map FullName [fd_QueryGetIdentityResponse_identity]"
  "full_names identity_query_proto_decl QueryAllIdentityRequest_decl
    = map FullName [fd_QueryAllIdentityRequest_pagination]"
  "full_names identity_query_proto_decl QueryAllIdentityResponse_decl
    = map FullName [fd_QueryAllIdentityResponse_identity, fd_QueryAllIdentityResponse_pagination]"
  "full_names identity_query_proto_decl QueryIdentityByCccdIdRequest_decl
    = map FullName [fd_QueryIdentityByCccdIdRequest_idHash, fd_QueryIdentityByCccdIdRequest_pagination]"
  "full_names identity_query_proto_decl QueryIdentityByCccdIdResponse_decl
    = map FullName [fd_QueryIdentityByCccdIdResponse_identity, fd_QueryIdentityByCccdIdResponse_pagination]"
  "full_names identity_module_module_proto_decl Module_decl = map FullName [fd_Module_authority]"
  by (simp_all add: full_names_def message_decl_defs identity_identity_proto_decl_def identity_genesis_proto_decl_def
      identity_tx_proto_decl_def identity_query_proto_decl_def identity_module_module_proto_decl_def
      fd_Identity_address_def fd_Identity_idHash_def fd_Identity_createdAt_def fd_GenesisState_params_def
      fd_GenesisState_identityList_def fd_MsgUpdateParams_authority_def fd_MsgUpdateParams_params_def
      fd_MsgCreateIdentity_creator_def fd_MsgCreateIdentity_cccdId_def fd_QueryParamsResponse_params_def
      fd_QueryGetIdentityRequest_address_def fd_QueryGetIdentityResponse_identity_def
      fd_QueryAllIdentityRequest_pagination_def fd_QueryAllIdentityResponse_identity_def
      fd_QueryAllIdentityResponse_pagination_def fd_QueryIdentityByCccdIdRequest_idHash_def
      fd_QueryIdentityByCccdIdRequest_pagination_def fd_QueryIdentityByCccdIdResponse_identity_def
      fd_QueryIdentityByCccdIdResponse_pagination_def fd_Module_authority_def)

section \<open>Properties\<close>



definition example_state :: GenesisState where
  "example_state = \<lparr>GenesisParams = Params, IdentityList = [example_identity]\<rparr>"

lemma small_example_state: "small_GenesisState example_state"
proof -
  have "length (enc_Identity example_identity) \<le> 80"
    using length_enc_str_le [of "0xa" "''nexelra1alice''"] length_enc_str_le [of "0x12" "''ab12''"]
      length_enc_opt_int_le [of "0x18" 1640995200]
    unfolding enc_Identity_def example_identity_def by simp
  then have "length (enc_len 0x12 (enc_Identity example_identity)) \<le> 91"
    using length_enc_len_le [of "0x12" "enc_Identity example_identity"] by linarith
  moreover have "length (enc_len 0xa (enc_Params Params)) \<le> 11"
    using length_enc_len_le [of "0xa" "enc_Params Params"] by (simp add: enc_Params_def)
  ultimately show ?thesis
    by (simp add: small_GenesisState_def enc_GenesisState_def example_state_def enc_msgs_def fits_def)
qed

lemma small_example_msg: "small_MsgCreateIdentity (NewMsgCreateIdentity ''nexelra1bob'' ''012345678901'')"
  using length_enc_str_le [of "0xa" "''nexelra1bob''"] length_enc_str_le [of "0x12" "''012345678901''"]
  unfolding small_MsgCreateIdentity_def enc_MsgCreateIdentity_def by (simp add: NewMsgCreateIdentity_def fits_def)


end
