(* ===== verification/Registration.thy ===== *)
theory Registration
  imports Descriptor_Properties PulsarModule
begin

text \<open>
  The initialisation of the client's packages: the \<open>init\<close> functions of the \<open>*.pulsar.go\<close> files,
  which build a file descriptor from the tables once, clear the tables, and look up the descriptors
  of messages and fields by name; the message types; and the compressed tables that the methods
  \<open>Descriptor\<close> answer with. \<open>protoimpl\<close> is a parameter.
\<close>

section \<open>Package variables\<close>

datatype proto_file = GenesisFile | IdentityFile | ParamsFile | QueryFile | TxFile | ModuleFile

datatype internal_field = internal_state | internal_sizeCache | internal_unknownFields

text \<open>
  An exporter gives a pointer to an internal field of a message, by number; it panics on a value
  of another Go type, here given by its name.
\<close>

type_synonym exporter = "string \<Rightarrow> nat \<Rightarrow> internal_field option res"

definition export :: "string \<Rightarrow> exporter" where
  "export name v i =
     (if v \<noteq> name then Panic
      else Ok (if i = 0 then Some internal_state else if i = 1 then Some internal_sizeCache
               else if i = 2 then Some internal_unknownFields else None))"

text \<open>The variables of one file; a file descriptor is represented by what it declares.\<close>

record file_vars =
  v_File :: "file_decl option"
  v_rawDesc :: bytes
  v_goTypes :: "string list"
  v_depIdxs :: "nat list"
  v_msgTypes :: "exporter option list"
  v_rawDescData :: bytes
  v_rawDescOnce :: bool

record package_state =
  vars :: "proto_file \<Rightarrow> file_vars"
  md :: "proto_file \<times> string \<Rightarrow> message_decl option"
  fd :: "proto_file \<times> string \<times> string \<Rightarrow> field_decl option"

text \<open>What a \<open>TypeBuilder\<close> is made of, and the functions of \<open>protoimpl\<close>.\<close>

record builder =
  RawDescriptor :: bytes
  NumEnums :: nat
  NumMessages :: nat
  NumExtensions :: nat
  NumServices :: nat
  GoTypes :: "string list"
  DependencyIndexes :: "nat list"
  MessageInfos :: "exporter option list"

record protoimpl =
  Build :: "builder \<Rightarrow> file_decl res"
  CompressGZIP :: "bytes \<Rightarrow> bytes"
  UnsafeEnabled :: bool

record 'm message_type =
  mt_Zero :: "'m option"
  mt_New :: "'m option"
  mt_Descriptor :: "message_decl option"

text \<open>The tables of each file, as the package variables hold them at first.\<close>

fun raw_of :: "proto_file \<Rightarrow> bytes" where
  "raw_of GenesisFile = file_nexelra_identity_genesis_proto_rawDesc"
| "raw_of IdentityFile = file_nexelra_identity_identity_proto_rawDesc"
| "raw_of ParamsFile = file_nexelra_identity_params_proto_rawDesc"
| "raw_of QueryFile = file_nexelra_identity_query_proto_rawDesc"
| "raw_of TxFile = file_nexelra_identity_tx_proto_rawDesc"
| "raw_of ModuleFile = file_nexelra_identity_module_module_proto_rawDesc"

fun types_of :: "proto_file \<Rightarrow> string list" where
  "types_of GenesisFile = file_nexelra_identity_genesis_proto_goTypes"
| "types_of IdentityFile = file_nexelra_identity_identity_proto_goTypes"
| "types_of ParamsFile = file_nexelra_identity_params_proto_goTypes"
| "types_of QueryFile = file_nexelra_identity_query_proto_goTypes"
| "types_of TxFile = file_nexelra_identity_tx_proto_goTypes"
| "types_of ModuleFile = file_nexelra_identity_module_module_proto_goTypes"

fun deps_of :: "proto_file \<Rightarrow> nat list" where
  "deps_of GenesisFile = file_nexelra_identity_genesis_proto_depIdxs"
| "deps_of IdentityFile = file_nexelra_identity_identity_proto_depIdxs"
| "deps_of ParamsFile = file_nexelra_identity_params_proto_depIdxs"
| "deps_of QueryFile = file_nexelra_identity_query_proto_depIdxs"
| "deps_of TxFile = file_nexelra_identity_tx_proto_depIdxs"
| "deps_of ModuleFile = file_nexelra_identity_module_module_proto_depIdxs"

fun decl_of :: "proto_file \<Rightarrow> file_decl" where
  "decl_of GenesisFile = identity_genesis_proto_decl"
| "decl_of IdentityFile = identity_identity_proto_decl"
| "decl_of ParamsFile = identity_params_proto_decl"
| "decl_of QueryFile = identity_query_proto_decl"
| "decl_of TxFile = identity_tx_proto_decl"
| "decl_of ModuleFile = identity_module_module_proto_decl"

definition initial_vars :: "proto_file \<Rightarrow> file_vars" where
  "initial_vars f = \<lparr>v_File = None, v_rawDesc = raw_of f, v_goTypes = types_of f, v_depIdxs = deps_of f,
     v_msgTypes = replicate (length (messages (decl_of f))) None, v_rawDescData = raw_of f, v_rawDescOnce = False\<rparr>"

definition initial_state :: package_state where
  "initial_state = \<lparr>vars = initial_vars, md = (\<lambda>_. None), fd = (\<lambda>_. None)\<rparr>"

section \<open>Steps that the files share\<close>

fun run_inits :: "(package_state \<Rightarrow> package_state res) list \<Rightarrow> package_state \<Rightarrow> package_state res" where
  "run_inits [] \<sigma> = Ok \<sigma>"
| "run_inits (i # is) \<sigma> = bind_res (i \<sigma>) (run_inits is)"

text \<open>
  \<open>file_..._init\<close>: nothing if the file is there; else the files it imports, the exporters unless
  \<open>UnsafeEnabled\<close>, and the build; at last the tables are dropped.
\<close>

definition file_init ::
    "protoimpl \<Rightarrow> proto_file \<Rightarrow> (package_state \<Rightarrow> package_state res) list \<Rightarrow> string list \<Rightarrow> nat \<Rightarrow> nat
      \<Rightarrow> package_state \<Rightarrow> package_state res" where
  "file_init impl f imports msgs num srvs \<sigma> =
     (if v_File (vars \<sigma> f) \<noteq> None then Ok \<sigma>
      else bind_res (run_inits imports \<sigma>) (\<lambda>\<sigma>.
        let v = vars \<sigma> f;
            infos = (if UnsafeEnabled impl then v_msgTypes v else map (Some \<circ> export) msgs);
            b = \<lparr>RawDescriptor = v_rawDesc v, NumEnums = 0, NumMessages = num, NumExtensions = 0,
                 NumServices = srvs, GoTypes = v_goTypes v, DependencyIndexes = v_depIdxs v,
                 MessageInfos = infos\<rparr>
        in bind_res (Build impl b) (\<lambda>out.
           Ok (\<sigma>\<lparr>vars := (vars \<sigma>)(f := v\<lparr>v_File := Some out, v_rawDesc := [], v_goTypes := [],
             v_depIdxs := [], v_msgTypes := infos\<rparr>)\<rparr>))))"

text \<open>\<open>sync.Once\<close>: the data are compressed at the first call.\<close>

definition rawDescGZIP :: "protoimpl \<Rightarrow> proto_file \<Rightarrow> package_state \<Rightarrow> bytes \<times> package_state" where
  "rawDescGZIP impl f \<sigma> =
     (let v = vars \<sigma> f;
          v = (if v_rawDescOnce v then v
               else v\<lparr>v_rawDescData := CompressGZIP impl (v_rawDescData v), v_rawDescOnce := True\<rparr>)
      in (v_rawDescData v, \<sigma>\<lparr>vars := (vars \<sigma>)(f := v)\<rparr>))"

definition messages_ByName :: "file_decl \<Rightarrow> string \<Rightarrow> message_decl option" where
  "messages_ByName d name = find (\<lambda>m. message_name m = name) (messages d)"

definition fields_ByName :: "message_decl \<Rightarrow> string \<Rightarrow> field_decl option" where
  "fields_ByName m name = find (\<lambda>d. field_name d = name) (message_fields m)"

text \<open>
  The \<open>init\<close> of a message: a method of a descriptor that is \<open>nil\<close> panics, a lookup that fails is \<open>nil\<close>.
\<close>

definition init_message ::
    "proto_file \<Rightarrow> (package_state \<Rightarrow> package_state res) \<Rightarrow> string \<Rightarrow> string list
      \<Rightarrow> package_state \<Rightarrow> package_state res" where
  "init_message f file_init_fun name xs \<sigma> =
     bind_res (file_init_fun \<sigma>) (\<lambda>\<sigma>. case v_File (vars \<sigma> f) of
         None \<Rightarrow> Panic
       | Some d \<Rightarrow>
          (let \<sigma> = \<sigma>\<lparr>md := (md \<sigma>)((f, name) := messages_ByName d name)\<rparr>
           in case md \<sigma> (f, name) of
                None \<Rightarrow> if xs = [] then Ok \<sigma> else Panic
              | Some m \<Rightarrow>
                  Ok (\<sigma>\<lparr>fd := fold (\<lambda>x fds. fds((f, name, x) := fields_ByName m x)) xs (fd \<sigma>)\<rparr>)))"

section \<open>The files\<close>

definition file_nexelra_identity_identity_proto_init :: "protoimpl \<Rightarrow> package_state \<Rightarrow> package_state res" where
  "file_nexelra_identity_identity_proto_init impl = file_init impl IdentityFile
     []
     [''Identity''] 1 0"

definition file_nexelra_identity_params_proto_init :: "protoimpl \<Rightarrow> package_state \<Rightarrow> package_state res" where
  "file_nexelra_identity_params_proto_init impl = file_init impl ParamsFile
     []
     [''Params''] 1 0"

definition file_nexelra_identity_genesis_proto_init :: "protoimpl \<Rightarrow> package_state \<Rightarrow> package_state res" where
  "file_nexelra_identity_genesis_proto_init impl = file_init impl GenesisFile
     [file_nexelra_identity_params_proto_init impl, file_nexelra_identity_identity_proto_init impl]
     [''GenesisState''] 1 0"

definition file_nexelra_identity_query_proto_init :: "protoimpl \<Rightarrow> package_state \<Rightarrow> package_state res" where
  "file_nexelra_identity_query_proto_init impl = file_init impl QueryFile
     [file_nexelra_identity_params_proto_init impl, file_nexelra_identity_identity_proto_init impl]
     [''QueryParamsRequest'',
      ''QueryParamsResponse'',
      ''QueryGetIdentityRequest'',
      ''QueryGetIdentityResponse'',
      ''QueryAllIdentityRequest'',
      ''QueryAllIdentityResponse'',
      ''QueryIdentityByCccdIdRequest'',
      ''QueryIdentityByCccdIdResponse''] 8 1"

definition file_nexelra_identity_tx_proto_init :: "protoimpl \<Rightarrow> package_state \<Rightarrow> package_state res" where
  "file_nexelra_identity_tx_proto_init impl = file_init impl TxFile
     [file_nexelra_identity_params_proto_init impl]
     [''MsgUpdateParams'',
      ''MsgUpdateParamsResponse'',
      ''MsgCreateIdentity'',
      ''MsgCreateIdentityResponse''] 4 1"

definition file_nexelra_identity_module_module_proto_init :: "protoimpl \<Rightarrow> package_state \<Rightarrow> package_state res" where
  "file_nexelra_identity_module_module_proto_init impl = file_init impl ModuleFile
     []
     [''Module''] 1 0"

definition file_nexelra_identity_genesis_proto_rawDescGZIP :: "protoimpl \<Rightarrow> package_state \<Rightarrow> bytes \<times> package_state" where
  "file_nexelra_identity_genesis_proto_rawDescGZIP impl = rawDescGZIP impl GenesisFile"

definition file_nexelra_identity_identity_proto_rawDescGZIP :: "protoimpl \<Rightarrow> package_state \<Rightarrow> bytes \<times> package_state" where
  "file_nexelra_identity_identity_proto_rawDescGZIP impl = rawDescGZIP impl IdentityFile"

definition file_nexelra_identity_params_proto_rawDescGZIP :: "protoimpl \<Rightarrow> package_state \<Rightarrow> bytes \<times> package_state" where
  "file_nexelra_identity_params_proto_rawDescGZIP impl = rawDescGZIP impl ParamsFile"

definition file_nexelra_identity_query_proto_rawDescGZIP :: "protoimpl \<Rightarrow> package_state \<Rightarrow> bytes \<times> package_state" where
  "file_nexelra_identity_query_proto_rawDescGZIP impl = rawDescGZIP impl QueryFile"

definition file_nexelra_identity_tx_proto_rawDescGZIP :: "protoimpl \<Rightarrow> package_state \<Rightarrow> bytes \<times> package_state" where
  "file_nexelra_identity_tx_proto_rawDescGZIP impl = rawDescGZIP impl TxFile"

definition file_nexelra_identity_module_module_proto_rawDescGZIP :: "protoimpl \<Rightarrow> package_state \<Rightarrow> bytes \<times> package_state" where
  "file_nexelra_identity_module_module_proto_rawDescGZIP impl = rawDescGZIP impl ModuleFile"

section \<open>The messages\<close>

text \<open>For each message: \<open>init\<close>, the message type and \<open>Descriptor\<close>.\<close>

definition init_GenesisState :: "protoimpl \<Rightarrow> package_state \<Rightarrow> package_state res" where
  "init_GenesisState impl = init_message GenesisFile (file_nexelra_identity_genesis_proto_init impl) ''GenesisState''
     [''params'', ''identityList'']"

definition fastReflection_GenesisState_messageType :: "package_state \<Rightarrow> api_GenesisState message_type" where
  "fastReflection_GenesisState_messageType \<sigma> =
     \<lparr>mt_Zero = None, mt_New = Some zero_api_GenesisState, mt_Descriptor = md \<sigma> (GenesisFile, ''GenesisState'')\<rparr>"

definition GenesisState_Descriptor :: "protoimpl \<Rightarrow> package_state \<Rightarrow> (bytes \<times> nat list) \<times> package_state" where
  "GenesisState_Descriptor impl \<sigma> =
     (let (data, \<sigma>) = file_nexelra_identity_genesis_proto_rawDescGZIP impl \<sigma> in ((data, [0]), \<sigma>))"

definition init_Identity :: "protoimpl \<Rightarrow> package_state \<Rightarrow> package_state res" where
  "init_Identity impl = init_message IdentityFile (file_nexelra_identity_identity_proto_init impl) ''Identity''
     [''address'', ''idHash'', ''createdAt'']"

definition fastReflection_Identity_messageType :: "package_state \<Rightarrow> api_Identity message_type" where
  "fastReflection_Identity_messageType \<sigma> =
     \<lparr>mt_Zero = None, mt_New = Some zero_api_Identity, mt_Descriptor = md \<sigma> (IdentityFile, ''Identity'')\<rparr>"

definition Identity_Descriptor :: "protoimpl \<Rightarrow> package_state \<Rightarrow> (bytes \<times> nat list) \<times> package_state" where
  "Identity_Descriptor impl \<sigma> =
     (let (data, \<sigma>) = file_nexelra_identity_identity_proto_rawDescGZIP impl \<sigma> in ((data, [0]), \<sigma>))"

definition init_Params :: "protoimpl \<Rightarrow> package_state \<Rightarrow> package_state res" where
  "init_Params impl = init_message ParamsFile (file_nexelra_identity_params_proto_init impl) ''Params''
     []"

definition fastReflection_Params_messageType :: "package_state \<Rightarrow> api_Params message_type" where
  "fastReflection_Params_messageType \<sigma> =
     \<lparr>mt_Zero = None, mt_New = Some zero_api_Params, mt_Descriptor = md \<sigma> (ParamsFile, ''Params'')\<rparr>"

definition Params_Descriptor :: "protoimpl \<Rightarrow> package_state \<Rightarrow> (bytes \<times> nat list) \<times> package_state" where
  "Params_Descriptor impl \<sigma> =
     (let (data, \<sigma>) = file_nexelra_identity_params_proto_rawDescGZIP impl \<sigma> in ((data, [0]), \<sigma>))"

definition init_QueryParamsRequest :: "protoimpl \<Rightarrow> package_state \<Rightarrow> package_state res" where
  "init_QueryParamsRequest impl = init_message QueryFile (file_nexelra_identity_query_proto_init impl) ''QueryParamsRequest''
     []"

definition fastReflection_QueryParamsRequest_messageType :: "package_state \<Rightarrow> api_QueryParamsRequest message_type" where
  "fastReflection_QueryParamsRequest_messageType \<sigma> =
     \<lparr>mt_Zero = None, mt_New = Some zero_api_QueryParamsRequest, mt_Descriptor = md \<sigma> (QueryFile, ''QueryParamsRequest'')\<rparr>"

definition QueryParamsRequest_Descriptor :: "protoimpl \<Rightarrow> package_state \<Rightarrow> (bytes \<times> nat list) \<times> package_state" where
  "QueryParamsRequest_Descriptor impl \<sigma> =
     (let (data, \<sigma>) = file_nexelra_identity_query_proto_rawDescGZIP impl \<sigma> in ((data, [0]), \<sigma>))"

definition init_QueryParamsResponse :: "protoimpl \<Rightarrow> package_state \<Rightarrow> package_state res" where
  "init_QueryParamsResponse impl = init_message QueryFile (file_nexelra_identity_query_proto_init impl) ''QueryParamsResponse''
     [''params'']"

definition fastReflection_QueryParamsResponse_messageType :: "package_state \<Rightarrow> api_QueryParamsResponse message_type" where
  "fastReflection_QueryParamsResponse_messageType \<sigma> =
     \<lparr>mt_Zero = None, mt_New = Some zero_api_QueryParamsResponse, mt_Descriptor = md \<sigma> (QueryFile, ''QueryParamsResponse'')\<rparr>"

definition QueryParamsResponse_Descriptor :: "protoimpl \<Rightarrow> package_state \<Rightarrow> (bytes \<times> nat list) \<times> package_state" where
  "QueryParamsResponse_Descriptor impl \<sigma> =
     (let (data, \<sigma>) = file_nexelra_identity_query_proto_rawDescGZIP impl \<sigma> in ((data, [1]), \<sigma>))"

definition init_QueryGetIdentityRequest :: "protoimpl \<Rightarrow> package_state \<Rightarrow> package_state res" where
  "init_QueryGetIdentityRequest impl = init_message QueryFile (file_nexelra_identity_query_proto_init impl) ''QueryGetIdentityRequest''
     [''address'']"

definition fastReflection_QueryGetIdentityRequest_messageType :: "package_state \<Rightarrow> api_QueryGetIdentityRequest message_type" where
  "fastReflection_QueryGetIdentityRequest_messageType \<sigma> =
     \<lparr>mt_Zero = None, mt_New = Some zero_api_QueryGetIdentityRequest, mt_Descriptor = md \<sigma> (QueryFile, ''QueryGetIdentityRequest'')\<rparr>"

definition QueryGetIdentityRequest_Descriptor :: "protoimpl \<Rightarrow> package_state \<Rightarrow> (bytes \<times> nat list) \<times> package_state" where
  "QueryGetIdentityRequest_Descriptor impl \<sigma> =
     (let (data, \<sigma>) = file_nexelra_identity_query_proto_rawDescGZIP impl \<sigma> in ((data, [2]), \<sigma>))"

definition init_QueryGetIdentityResponse :: "protoimpl \<Rightarrow> package_state \<Rightarrow> package_state res" where
  "init_QueryGetIdentityResponse impl = init_message QueryFile (file_nexelra_identity_query_proto_init impl) ''QueryGetIdentityResponse''
     [''identity'']"

definition fastReflection_QueryGetIdentityResponse_messageType :: "package_state \<Rightarrow> api_QueryGetIdentityResponse message_type" where
  "fastReflection_QueryGetIdentityResponse_messageType \<sigma> =
     \<lparr>mt_Zero = None, mt_New = Some zero_api_QueryGetIdentityResponse, mt_Descriptor = md \<sigma> (QueryFile, ''QueryGetIdentityResponse'')\<rparr>"

definition QueryGetIdentityResponse_Descriptor :: "protoimpl \<Rightarrow> package_state \<Rightarrow> (bytes \<times> nat list) \<times> package_state" where
  "QueryGetIdentityResponse_Descriptor impl \<sigma> =
     (let (data, \<sigma>) = file_nexelra_identity_query_proto_rawDescGZIP impl \<sigma> in ((data, [3]), \<sigma>))"

definition init_QueryAllIdentityRequest :: "protoimpl \<Rightarrow> package_state \<Rightarrow> package_state res" where
  "init_QueryAllIdentityRequest impl = init_message QueryFile (file_nexelra_identity_query_proto_init impl) ''QueryAllIdentityRequest''
     [''pagination'']"

definition fastReflection_QueryAllIdentityRequest_messageType :: "package_state \<Rightarrow> 'p api_QueryAllIdentityRequest message_type" where
  "fastReflection_QueryAllIdentityRequest_messageType \<sigma> =
     \<lparr>mt_Zero = None, mt_New = Some zero_api_QueryAllIdentityRequest, mt_Descriptor = md \<sigma> (QueryFile, ''QueryAllIdentityRequest'')\<rparr>"

definition QueryAllIdentityRequest_Descriptor :: "protoimpl \<Rightarrow> package_state \<Rightarrow> (bytes \<times> nat list) \<times> package_state" where
  "QueryAllIdentityRequest_Descriptor impl \<sigma> =
     (let (data, \<sigma>) = file_nexelra_identity_query_proto_rawDescGZIP impl \<sigma> in ((data, [4]), \<sigma>))"

definition init_QueryAllIdentityResponse :: "protoimpl \<Rightarrow> package_state \<Rightarrow> package_state res" where
  "init_QueryAllIdentityResponse impl = init_message QueryFile (file_nexelra_identity_query_proto_init impl) ''QueryAllIdentityResponse''
     [''identity'', ''pagination'']"

definition fastReflection_QueryAllIdentityResponse_messageType :: "package_state \<Rightarrow> 'p api_QueryAllIdentityResponse message_type" where
  "fastReflection_QueryAllIdentityResponse_messageType \<sigma> =
     \<lparr>mt_Zero = None, mt_New = Some zero_api_QueryAllIdentityResponse, mt_Descriptor = md \<sigma> (QueryFile, ''QueryAllIdentityResponse'')\<rparr>"

definition QueryAllIdentityResponse_Descriptor :: "protoimpl \<Rightarrow> package_state \<Rightarrow> (bytes \<times> nat list) \<times> package_state" where
  "QueryAllIdentityResponse_Descriptor impl \<sigma> =
     (let (data, \<sigma>) = file_nexelra_identity_query_proto_rawDescGZIP impl \<sigma> in ((data, [5]), \<sigma>))"

definition init_QueryIdentityByCccdIdRequest :: "protoimpl \<Rightarrow> package_state \<Rightarrow> package_state res" where
  "init_QueryIdentityByCccdIdRequest impl = init_message QueryFile (file_nexelra_identity_query_proto_init impl) ''QueryIdentityByCccdIdRequest''
     [''idHash'', ''pagination'']"

definition fastReflection_QueryIdentityByCccdIdRequest_messageType :: "package_state \<Rightarrow> 'p api_QueryIdentityByCccdIdRequest message_type" where
  "fastReflection_QueryIdentityByCccdIdRequest_messageType \<sigma> =
     \<lparr>mt_Zero = None, mt_New = Some zero_api_QueryIdentityByCccdIdRequest, mt_Descriptor = md \<sigma> (QueryFile, ''QueryIdentityByCccdIdRequest'')\<rparr>"

definition QueryIdentityByCccdIdRequest_Descriptor :: "protoimpl \<Rightarrow> package_state \<Rightarrow> (bytes \<times> nat list) \<times> package_state" where
  "QueryIdentityByCccdIdRequest_Descriptor impl \<sigma> =
     (let (data, \<sigma>) = file_nexelra_identity_query_proto_rawDescGZIP impl \<sigma> in ((data, [6]), \<sigma>))"

definition init_QueryIdentityByCccdIdResponse :: "protoimpl \<Rightarrow> package_state \<Rightarrow> package_state res" where
  "init_QueryIdentityByCccdIdResponse impl = init_message QueryFile (file_nexelra_identity_query_proto_init impl) ''QueryIdentityByCccdIdResponse''
     [''identity'', ''pagination'']"

definition fastReflection_QueryIdentityByCccdIdResponse_messageType :: "package_state \<Rightarrow> 'p api_QueryIdentityByCccdIdResponse message_type" where
  "fastReflection_QueryIdentityByCccdIdResponse_messageType \<sigma> =
     \<lparr>mt_Zero = None, mt_New = Some zero_api_QueryIdentityByCccdIdResponse, mt_Descriptor = md \<sigma> (QueryFile, ''QueryIdentityByCccdIdResponse'')\<rparr>"

definition QueryIdentityByCccdIdResponse_Descriptor :: "protoimpl \<Rightarrow> package_state \<Rightarrow> (bytes \<times> nat list) \<times> package_state" where
  "QueryIdentityByCccdIdResponse_Descriptor impl \<sigma> =
     (let (data, \<sigma>) = file_nexelra_identity_query_proto_rawDescGZIP impl \<sigma> in ((data, [7]), \<sigma>))"

definition init_MsgUpdateParams :: "protoimpl \<Rightarrow> package_state \<Rightarrow> package_state res" where
  "init_MsgUpdateParams impl = init_message TxFile (file_nexelra_identity_tx_proto_init impl) ''MsgUpdateParams''
     [''authority'', ''params'']"

definition fastReflection_MsgUpdateParams_messageType :: "package_state \<Rightarrow> api_MsgUpdateParams message_type" where
  "fastReflection_MsgUpdateParams_messageType \<sigma> =
     \<lparr>mt_Zero = None, mt_New = Some zero_api_MsgUpdateParams, mt_Descriptor = md \<sigma> (TxFile, ''MsgUpdateParams'')\<rparr>"

definition MsgUpdateParams_Descriptor :: "protoimpl \<Rightarrow> package_state \<Rightarrow> (bytes \<times> nat list) \<times> package_state" where
  "MsgUpdateParams_Descriptor impl \<sigma> =
     (let (data, \<sigma>) = file_nexelra_identity_tx_proto_rawDescGZIP impl \<sigma> in ((data, [0]), \<sigma>))"

definition init_MsgUpdateParamsResponse :: "protoimpl \<Rightarrow> package_state \<Rightarrow> package_state res" where
  "init_MsgUpdateParamsResponse impl = init_message TxFile (file_nexelra_identity_tx_proto_init impl) ''MsgUpdateParamsResponse''
     []"

definition fastReflection_MsgUpdateParamsResponse_messageType :: "package_state \<Rightarrow> api_MsgUpdateParamsResponse message_type" where
  "fastReflection_MsgUpdateParamsResponse_messageType \<sigma> =
     \<lparr>mt_Zero = None, mt_New = Some zero_api_MsgUpdateParamsResponse, mt_Descriptor = md \<sigma> (TxFile, ''MsgUpdateParamsResponse'')\<rparr>"

definition MsgUpdateParamsResponse_Descriptor :: "protoimpl \<Rightarrow> package_state \<Rightarrow> (bytes \<times> nat list) \<times> package_state" where
  "MsgUpdateParamsResponse_Descriptor impl \<sigma> =
     (let (data, \<sigma>) = file_nexelra_identity_tx_proto_rawDescGZIP impl \<sigma> in ((data, [1]), \<sigma>))"

definition init_MsgCreateIdentity :: "protoimpl \<Rightarrow> package_state \<Rightarrow> package_state res" where
  "init_MsgCreateIdentity impl = init_message TxFile (file_nexelra_identity_tx_proto_init impl) ''MsgCreateIdentity''
     [''creator'', ''cccdId'']"

definition fastReflection_MsgCreateIdentity_messageType :: "package_state \<Rightarrow> api_MsgCreateIdentity message_type" where
  "fastReflection_MsgCreateIdentity_messageType \<sigma> =
     \<lparr>mt_Zero = None, mt_New = Some zero_api_MsgCreateIdentity, mt_Descriptor = md \<sigma> (TxFile, ''MsgCreateIdentity'')\<rparr>"

definition MsgCreateIdentity_Descriptor :: "protoimpl \<Rightarrow> package_state \<Rightarrow> (bytes \<times> nat list) \<times> package_state" where
  "MsgCreateIdentity_Descriptor impl \<sigma> =
     (let (data, \<sigma>) = file_nexelra_identity_tx_proto_rawDescGZIP impl \<sigma> in ((data, [2]), \<sigma>))"

definition init_MsgCreateIdentityResponse :: "protoimpl \<Rightarrow> package_state \<Rightarrow> package_state res" where
  "init_MsgCreateIdentityResponse impl = init_message TxFile (file_nexelra_identity_tx_proto_init impl) ''MsgCreateIdentityResponse''
     []"

definition fastReflection_MsgCreateIdentityResponse_messageType :: "package_state \<Rightarrow> api_MsgCreateIdentityResponse message_type" where
  "fastReflection_MsgCreateIdentityResponse_messageType \<sigma> =
     \<lparr>mt_Zero = None, mt_New = Some zero_api_MsgCreateIdentityResponse, mt_Descriptor = md \<sigma> (TxFile, ''MsgCreateIdentityResponse'')\<rparr>"

definition MsgCreateIdentityResponse_Descriptor :: "protoimpl \<Rightarrow> package_state \<Rightarrow> (bytes \<times> nat list) \<times> package_state" where
  "MsgCreateIdentityResponse_Descriptor impl \<sigma> =
     (let (data, \<sigma>) = file_nexelra_identity_tx_proto_rawDescGZIP impl \<sigma> in ((data, [3]), \<sigma>))"

definition init_Module :: "protoimpl \<Rightarrow> package_state \<Rightarrow> package_state res" where
  "init_Module impl = init_message ModuleFile (file_nexelra_identity_module_module_proto_init impl) ''Module''
     [''authority'']"

definition fastReflection_Module_messageType :: "package_state \<Rightarrow> api_Module message_type" where
  "fastReflection_Module_messageType \<sigma> =
     \<lparr>mt_Zero = None, mt_New = Some zero_api_Module, mt_Descriptor = md \<sigma> (ModuleFile, ''Module'')\<rparr>"

definition Module_Descriptor :: "protoimpl \<Rightarrow> package_state \<Rightarrow> (bytes \<times> nat list) \<times> package_state" where
  "Module_Descriptor impl \<sigma> =
     (let (data, \<sigma>) = file_nexelra_identity_module_module_proto_rawDescGZIP impl \<sigma> in ((data, [0]), \<sigma>))"

text \<open>The initialisation of the two packages: file by file, in each the messages and then the file.\<close>

definition package_inits :: "protoimpl \<Rightarrow> (package_state \<Rightarrow> package_state res) list" where
  "package_inits impl =
     [init_GenesisState impl, file_nexelra_identity_genesis_proto_init impl,
      init_Identity impl, file_nexelra_identity_identity_proto_init impl,
      init_Params impl, file_nexelra_identity_params_proto_init impl,
      init_QueryParamsRequest impl, init_QueryParamsResponse impl, init_QueryGetIdentityRequest impl, init_QueryGetIdentityResponse impl, init_QueryAllIdentityRequest impl, init_QueryAllIdentityResponse impl, init_QueryIdentityByCccdIdRequest impl, init_QueryIdentityByCccdIdResponse impl, file_nexelra_identity_query_proto_init impl,
      init_MsgUpdateParams impl, init_MsgUpdateParamsResponse impl, init_MsgCreateIdentity impl, init_MsgCreateIdentityResponse impl, file_nexelra_identity_tx_proto_init impl]"

definition module_package_inits :: "protoimpl \<Rightarrow> (package_state \<Rightarrow> package_state res) list" where
  "module_package_inits impl =
     [init_Module impl, file_nexelra_identity_module_module_proto_init impl]"

text \<open>What the inits set: messages, with their method \<open>Descriptor\<close>, and the descriptors of their fields.\<close>

definition api_messages ::
    "(proto_file \<times> string \<times> (protoimpl \<Rightarrow> package_state \<Rightarrow> (bytes \<times> nat list) \<times> package_state)) list" where
  "api_messages =
     [(GenesisFile, ''GenesisState'', GenesisState_Descriptor),
      (IdentityFile, ''Identity'', Identity_Descriptor),
      (ParamsFile, ''Params'', Params_Descriptor),
      (QueryFile, ''QueryParamsRequest'', QueryParamsRequest_Descriptor),
      (QueryFile, ''QueryParamsResponse'', QueryParamsResponse_Descriptor),
      (QueryFile, ''QueryGetIdentityRequest'', QueryGetIdentityRequest_Descriptor),
      (QueryFile, ''QueryGetIdentityResponse'', QueryGetIdentityResponse_Descriptor),
      (QueryFile, ''QueryAllIdentityRequest'', QueryAllIdentityRequest_Descriptor),
      (QueryFile, ''QueryAllIdentityResponse'', QueryAllIdentityResponse_Descriptor),
      (QueryFile, ''QueryIdentityByCccdIdRequest'', QueryIdentityByCccdIdRequest_Descriptor),
      (QueryFile, ''QueryIdentityByCccdIdResponse'', QueryIdentityByCccdIdResponse_Descriptor),
      (TxFile, ''MsgUpdateParams'', MsgUpdateParams_Descriptor),
      (TxFile, ''MsgUpdateParamsResponse'', MsgUpdateParamsResponse_Descriptor),
      (TxFile, ''MsgCreateIdentity'', MsgCreateIdentity_Descriptor),
      (TxFile, ''MsgCreateIdentityResponse'', MsgCreateIdentityResponse_Descriptor),
      (ModuleFile, ''Module'', Module_Descriptor)]"

definition api_fields :: "(proto_file \<times> string \<times> string \<times> field_desc) list" where
  "api_fields =
     [(GenesisFile, ''GenesisState'', ''params'', fd_GenesisState_params),
      (GenesisFile, ''GenesisState'', ''identityList'', fd_GenesisState_identityList),
      (IdentityFile, ''Identity'', ''address'', fd_Identity_address),
      (IdentityFile, ''Identity'', ''idHash'', fd_Identity_idHash),
      (IdentityFile, ''Identity'', ''createdAt'', fd_Identity_createdAt),
      (QueryFile, ''QueryParamsResponse'', ''params'', fd_QueryParamsResponse_params),
      (QueryFile, ''QueryGetIdentityRequest'', ''address'', fd_QueryGetIdentityRequest_address),
      (QueryFile, ''QueryGetIdentityResponse'', ''identity'', fd_QueryGetIdentityResponse_identity),
      (QueryFile, ''QueryAllIdentityRequest'', ''pagination'', fd_QueryAllIdentityRequest_pagination),
      (QueryFile, ''QueryAllIdentityResponse'', ''identity'', fd_QueryAllIdentityResponse_identity),
      (QueryFile, ''QueryAllIdentityResponse'', ''pagination'', fd_QueryAllIdentityResponse_pagination),
      (QueryFile, ''QueryIdentityByCccdIdRequest'', ''idHash'', fd_QueryIdentityByCccdIdRequest_idHash),
      (QueryFile, ''QueryIdentityByCccdIdRequest'', ''pagination'', fd_QueryIdentityByCccdIdRequest_pagination),
      (QueryFile, ''QueryIdentityByCccdIdResponse'', ''identity'', fd_QueryIdentityByCccdIdResponse_identity),
      (QueryFile, ''QueryIdentityByCccdIdResponse'', ''pagination'', fd_QueryIdentityByCccdIdResponse_pagination),
      (TxFile, ''MsgUpdateParams'', ''authority'', fd_MsgUpdateParams_authority),
      (TxFile, ''MsgUpdateParams'', ''params'', fd_MsgUpdateParams_params),
      (TxFile, ''MsgCreateIdentity'', ''creator'', fd_MsgCreateIdentity_creator),
      (TxFile, ''MsgCreateIdentity'', ''cccdId'', fd_MsgCreateIdentity_cccdId),
      (ModuleFile, ''Module'', ''authority'', fd_Module_authority)]"

section \<open>What a run of the inits reaches\<close>

text \<open>
  The documented behaviour of the run time: from the encoding of one of the six files, with the
  numbers of its declarations and tables that resolve its types, \<open>Build\<close> makes the descriptor of
  what the file declares.
\<close>

definition protoimpl_lawful :: "protoimpl \<Rightarrow> bool" where
  "protoimpl_lawful impl \<longleftrightarrow>
     (\<forall>f b. RawDescriptor b = enc_file_decl (decl_of f) \<and> NumEnums b = 0 \<and> NumExtensions b = 0
        \<and> NumMessages b = length (messages (decl_of f)) \<and> NumServices b = length (services (decl_of f))
        \<and> resolves (GoTypes b) (DependencyIndexes b) (decl_of f)
        \<longrightarrow> Build impl b = Ok (decl_of f))"

lemma raw_of_enc: "raw_of f = enc_file_decl (decl_of f)"
  by (cases f) (simp_all add: identity_identity_proto_decl_raw identity_params_proto_decl_raw
      identity_genesis_proto_decl_raw identity_query_proto_decl_raw identity_tx_proto_decl_raw
      identity_module_module_proto_decl_raw)

lemma resolves_of: "resolves (types_of f) (deps_of f) (decl_of f)"
  by (cases f) (simp_all add: identity_resolves params_resolves genesis_resolves query_resolves tx_resolves
      module_resolves)

definition file_done :: "proto_file \<Rightarrow> file_vars \<Rightarrow> bool" where
  "file_done f v \<longleftrightarrow> v_File v = Some (decl_of f) \<and> v_rawDesc v = [] \<and> v_goTypes v = [] \<and> v_depIdxs v = []
     \<and> v_rawDescData v = raw_of f \<and> \<not> v_rawDescOnce v"

text \<open>Every file is as it was at first or done; every descriptor that is set is the declared one.\<close>

definition state_good :: "package_state \<Rightarrow> bool" where
  "state_good \<sigma> \<longleftrightarrow> (\<forall>f. vars \<sigma> f = initial_vars f \<or> file_done f (vars \<sigma> f))
     \<and> (\<forall>f n m. md \<sigma> (f, n) = Some m \<longrightarrow> messages_ByName (decl_of f) n = Some m)
     \<and> (\<forall>f n x d. fd \<sigma> (f, n, x) = Some d
          \<longrightarrow> Option.bind (messages_ByName (decl_of f) n) (\<lambda>m. fields_ByName m x) = Some d)"

definition inits_file :: "proto_file set \<Rightarrow> proto_file \<Rightarrow> (package_state \<Rightarrow> package_state res) \<Rightarrow> bool" where
  "inits_file S f i \<longleftrightarrow> (\<forall>\<sigma>. state_good \<sigma> \<longrightarrow> (\<exists>\<sigma>'. i \<sigma> = Ok \<sigma>' \<and> state_good \<sigma>'
     \<and> file_done f (vars \<sigma>' f) \<and> (\<forall>g. file_done g (vars \<sigma> g) \<or> g \<notin> S \<longrightarrow> vars \<sigma>' g = vars \<sigma> g)
     \<and> md \<sigma>' = md \<sigma> \<and> fd \<sigma>' = fd \<sigma>))"

definition inits_only_in :: "proto_file set \<Rightarrow> (package_state \<Rightarrow> package_state res) \<Rightarrow> bool" where
  "inits_only_in S i \<longleftrightarrow> (\<forall>\<sigma>. state_good \<sigma> \<longrightarrow> (\<exists>\<sigma>'. i \<sigma> = Ok \<sigma>' \<and> state_good \<sigma>'
     \<and> (\<forall>g. file_done g (vars \<sigma> g) \<or> g \<notin> S \<longrightarrow> vars \<sigma>' g = vars \<sigma> g) \<and> md \<sigma>' = md \<sigma> \<and> fd \<sigma>' = fd \<sigma>))"

lemma inits_only: "inits_file T f i \<Longrightarrow> T \<subseteq> S \<Longrightarrow> inits_only_in S i"
  unfolding inits_file_def inits_only_in_def by (meson subsetD)

lemma run_inits_only:
  assumes "\<forall>i \<in> set is. inits_only_in S i"
  shows "inits_only_in S (run_inits is)"
  using assms
proof (induction "is")
  case Nil
  then show ?case by (simp add: inits_only_in_def)
next
  case (Cons i rest)
  show ?case unfolding inits_only_in_def
  proof (intro allI impI)
    fix \<sigma> assume "state_good \<sigma>"
    then obtain \<sigma>1 where s1: "i \<sigma> = Ok \<sigma>1" "state_good \<sigma>1"
        "\<forall>g. file_done g (vars \<sigma> g) \<or> g \<notin> S \<longrightarrow> vars \<sigma>1 g = vars \<sigma> g" "md \<sigma>1 = md \<sigma>" "fd \<sigma>1 = fd \<sigma>"
      using Cons.prems by (auto simp: inits_only_in_def)
    obtain \<sigma>2 where s2: "run_inits rest \<sigma>1 = Ok \<sigma>2" "state_good \<sigma>2"
        "\<forall>g. file_done g (vars \<sigma>1 g) \<or> g \<notin> S \<longrightarrow> vars \<sigma>2 g = vars \<sigma>1 g" "md \<sigma>2 = md \<sigma>1" "fd \<sigma>2 = fd \<sigma>1"
      using Cons s1(2) by (auto simp: inits_only_in_def)
    have "\<forall>g. file_done g (vars \<sigma> g) \<or> g \<notin> S \<longrightarrow> vars \<sigma>2 g = vars \<sigma> g" using s1(3) s2(3) by metis
    then show "\<exists>\<sigma>'. run_inits (i # rest) \<sigma> = Ok \<sigma>' \<and> state_good \<sigma>'
        \<and> (\<forall>g. file_done g (vars \<sigma> g) \<or> g \<notin> S \<longrightarrow> vars \<sigma>' g = vars \<sigma> g) \<and> md \<sigma>' = md \<sigma> \<and> fd \<sigma>' = fd \<sigma>"
      using s1 s2 by (intro exI [of _ \<sigma>2]) simp
  qed
qed

lemma state_good_file:
  "state_good \<sigma> \<Longrightarrow> file_done f v \<Longrightarrow> state_good (\<sigma>\<lparr>vars := (vars \<sigma>)(f := v)\<rparr>)"
  by (simp add: state_good_def)

lemma file_init_ok:
  assumes "protoimpl_lawful impl" "\<forall>i \<in> set imports. inits_only_in S i" "f \<notin> S" "insert f S \<subseteq> T"
    and "num = length (messages (decl_of f))" "srvs = length (services (decl_of f))"
  shows "inits_file T f (file_init impl f imports msgs num srvs)"
  unfolding inits_file_def
proof (intro allI impI)
  fix \<sigma> assume good: "state_good \<sigma>"
  let ?P = "\<lambda>\<sigma>'. file_init impl f imports msgs num srvs \<sigma> = Ok \<sigma>' \<and> state_good \<sigma>' \<and> file_done f (vars \<sigma>' f)
    \<and> (\<forall>g. file_done g (vars \<sigma> g) \<or> g \<notin> T \<longrightarrow> vars \<sigma>' g = vars \<sigma> g) \<and> md \<sigma>' = md \<sigma> \<and> fd \<sigma>' = fd \<sigma>"
  show "\<exists>\<sigma>'. ?P \<sigma>'"
  proof (cases "file_done f (vars \<sigma> f)")
    case True
    then show ?thesis using good by (intro exI [of _ \<sigma>]) (simp add: file_init_def file_done_def)
  next
    case False
    then have v: "vars \<sigma> f = initial_vars f" using good unfolding state_good_def by blast
    obtain \<sigma>1 where s1: "run_inits imports \<sigma> = Ok \<sigma>1" "state_good \<sigma>1"
        "\<forall>g. file_done g (vars \<sigma> g) \<or> g \<notin> S \<longrightarrow> vars \<sigma>1 g = vars \<sigma> g" "md \<sigma>1 = md \<sigma>" "fd \<sigma>1 = fd \<sigma>"
      using run_inits_only [OF assms(2)] good unfolding inits_only_in_def by blast
    have v1: "vars \<sigma>1 f = initial_vars f" using s1(3) assms(3) v by simp
    let ?infos = "if UnsafeEnabled impl then v_msgTypes (initial_vars f) else map (Some \<circ> export) msgs"
    let ?v = "(initial_vars f)\<lparr>v_File := Some (decl_of f), v_rawDesc := [], v_goTypes := [], v_depIdxs := [],
      v_msgTypes := ?infos\<rparr>"
    let ?\<sigma> = "\<sigma>1\<lparr>vars := (vars \<sigma>1)(f := ?v)\<rparr>"
    have "Build impl \<lparr>RawDescriptor = raw_of f, NumEnums = 0, NumMessages = num, NumExtensions = 0, NumServices = srvs,
      GoTypes = types_of f, DependencyIndexes = deps_of f, MessageInfos = infos\<rparr> = Ok (decl_of f)" for infos
      using assms(1,5,6) resolves_of [of f] raw_of_enc [of f] unfolding protoimpl_lawful_def by simp
    then have "file_init impl f imports msgs num srvs \<sigma> = Ok ?\<sigma>"
      using v s1(1) v1 by (simp add: file_init_def initial_vars_def Let_def)
    moreover have d: "file_done f ?v" by (simp add: file_done_def initial_vars_def)
    moreover have "state_good ?\<sigma>" by (rule state_good_file [OF s1(2) d])
    moreover have "\<forall>g. file_done g (vars \<sigma> g) \<or> g \<notin> T \<longrightarrow> vars ?\<sigma> g = vars \<sigma> g"
      using s1(3) assms(4) False by auto
    ultimately show ?thesis using s1(4,5) by (intro exI [of _ ?\<sigma>]) simp
  qed
qed

section \<open>Progress\<close>

datatype target = FileTarget proto_file | MessageTarget proto_file string | FieldTarget proto_file string string

fun reached :: "package_state \<Rightarrow> target \<Rightarrow> bool" where
  "reached \<sigma> (FileTarget f) \<longleftrightarrow> file_done f (vars \<sigma> f)"
| "reached \<sigma> (MessageTarget f n) \<longleftrightarrow> md \<sigma> (f, n) \<noteq> None"
| "reached \<sigma> (FieldTarget f n x) \<longleftrightarrow> fd \<sigma> (f, n, x) \<noteq> None"

definition advances :: "target list \<Rightarrow> (package_state \<Rightarrow> package_state res) \<Rightarrow> bool" where
  "advances ts i \<longleftrightarrow> (\<forall>\<sigma>. state_good \<sigma> \<longrightarrow> (\<exists>\<sigma>'. i \<sigma> = Ok \<sigma>' \<and> state_good \<sigma>'
     \<and> (\<forall>t. reached \<sigma> t \<longrightarrow> reached \<sigma>' t) \<and> list_all (reached \<sigma>') ts))"

lemma reached_mono:
  assumes "\<forall>g. file_done g (vars \<sigma> g) \<longrightarrow> file_done g (vars \<sigma>' g)"
    and "\<forall>k. md \<sigma> k \<noteq> None \<longrightarrow> md \<sigma>' k \<noteq> None" "\<forall>k. fd \<sigma> k \<noteq> None \<longrightarrow> fd \<sigma>' k \<noteq> None"
  shows "reached \<sigma> t \<Longrightarrow> reached \<sigma>' t"
  using assms by (cases t) simp_all

lemma inits_fileE:
  assumes "inits_file S f i" "state_good \<sigma>"
  obtains \<sigma>' where "i \<sigma> = Ok \<sigma>'" "state_good \<sigma>'" "file_done f (vars \<sigma>' f)"
    "\<forall>g. file_done g (vars \<sigma> g) \<longrightarrow> vars \<sigma>' g = vars \<sigma> g" "md \<sigma>' = md \<sigma>" "fd \<sigma>' = fd \<sigma>"
proof -
  have "\<exists>\<sigma>'. i \<sigma> = Ok \<sigma>' \<and> state_good \<sigma>' \<and> file_done f (vars \<sigma>' f)
      \<and> (\<forall>g. file_done g (vars \<sigma> g) \<or> g \<notin> S \<longrightarrow> vars \<sigma>' g = vars \<sigma> g) \<and> md \<sigma>' = md \<sigma> \<and> fd \<sigma>' = fd \<sigma>"
    using assms(1) [unfolded inits_file_def, THEN spec, THEN mp, OF assms(2)] .
  then show thesis by (elim exE conjE) (rule that, assumption+, simp, assumption+)
qed

lemma advances_file:
  assumes "inits_file S f i"
  shows "advances [FileTarget f] i"
  unfolding advances_def
proof (intro allI impI)
  fix \<sigma> assume g: "state_good \<sigma>"
  obtain \<sigma>' where s: "i \<sigma> = Ok \<sigma>'" "state_good \<sigma>'" "file_done f (vars \<sigma>' f)"
      "\<forall>g. file_done g (vars \<sigma> g) \<longrightarrow> vars \<sigma>' g = vars \<sigma> g" "md \<sigma>' = md \<sigma>" "fd \<sigma>' = fd \<sigma>"
    using inits_fileE [OF assms g] .
  have "reached \<sigma>' t" if "reached \<sigma> t" for t
    by (rule reached_mono [OF _ _ _ that]) (use s(4-6) in simp_all)
  with s show "\<exists>\<sigma>'. i \<sigma> = Ok \<sigma>' \<and> state_good \<sigma>' \<and> (\<forall>t. reached \<sigma> t \<longrightarrow> reached \<sigma>' t)
      \<and> list_all (reached \<sigma>') [FileTarget f]"
    by (intro exI [of _ \<sigma>']) simp
qed

lemma advances_run:
  assumes "list_all2 advances tss is"
  shows "advances (concat tss) (run_inits is)"
  using assms
proof (induction rule: list_all2_induct)
  case Nil
  then show ?case by (simp add: advances_def)
next
  case (Cons ts tss i rest)
  show ?case unfolding advances_def
  proof (intro allI impI)
    fix \<sigma> assume "state_good \<sigma>"
    then obtain \<sigma>1 where s1: "i \<sigma> = Ok \<sigma>1" "state_good \<sigma>1" "\<forall>t. reached \<sigma> t \<longrightarrow> reached \<sigma>1 t" "list_all (reached \<sigma>1) ts"
      using Cons(1) by (auto simp: advances_def)
    then obtain \<sigma>2 where "run_inits rest \<sigma>1 = Ok \<sigma>2" "state_good \<sigma>2" "\<forall>t. reached \<sigma>1 t \<longrightarrow> reached \<sigma>2 t"
        "list_all (reached \<sigma>2) (concat tss)"
      using Cons(3) by (auto simp: advances_def)
    with s1 show "\<exists>\<sigma>'. run_inits (i # rest) \<sigma> = Ok \<sigma>' \<and> state_good \<sigma>'
        \<and> (\<forall>t. reached \<sigma> t \<longrightarrow> reached \<sigma>' t) \<and> list_all (reached \<sigma>') (concat (ts # tss))"
      by (intro exI [of _ \<sigma>2]) (auto simp: list_all_iff)
  qed
qed

lemma fold_fields:
  "fold (\<lambda>x fds. fds((f, n, x) := h x)) xs fds k
    = (if \<exists>x \<in> set xs. k = (f, n, x) then h (snd (snd k)) else fds k)"
  by (induction xs arbitrary: fds) auto

lemma init_message_ok:
  assumes "inits_file S f i" "messages_ByName (decl_of f) n = Some m" "list_all (\<lambda>x. fields_ByName m x \<noteq> None) xs"
  shows "advances (FileTarget f # MessageTarget f n # map (FieldTarget f n) xs) (init_message f i n xs)"
  unfolding advances_def
proof (intro allI impI)
  fix \<sigma> assume g: "state_good \<sigma>"
  obtain \<sigma>1 where s: "i \<sigma> = Ok \<sigma>1" "state_good \<sigma>1" "file_done f (vars \<sigma>1 f)"
      "\<forall>g. file_done g (vars \<sigma> g) \<longrightarrow> vars \<sigma>1 g = vars \<sigma> g" "md \<sigma>1 = md \<sigma>" "fd \<sigma>1 = fd \<sigma>"
    using inits_fileE [OF assms(1) g] .
  let ?fd = "fold (\<lambda>x fds. fds((f, n, x) := fields_ByName m x)) xs (fd \<sigma>1)"
  let ?\<sigma> = "\<sigma>1\<lparr>md := (md \<sigma>1)((f, n) := Some m), fd := ?fd\<rparr>"
  have "init_message f i n xs \<sigma> = Ok ?\<sigma>"
    using s(1,3) assms(2) by (simp add: init_message_def file_done_def)
  moreover have "state_good ?\<sigma>"
    using s(2) assms(2) by (auto simp: state_good_def fold_fields split: if_splits)
  moreover have "reached ?\<sigma> t" if "reached \<sigma> t" for t
    by (rule reached_mono [OF _ _ _ that]) (use s(4-6) assms(3) in \<open>auto simp: fold_fields list_all_iff\<close>)
  moreover have "list_all (reached ?\<sigma>) (FileTarget f # MessageTarget f n # map (FieldTarget f n) xs)"
    using s(3) assms(3) by (auto simp: list_all_iff fold_fields)
  ultimately show "\<exists>\<sigma>'. init_message f i n xs \<sigma> = Ok \<sigma>' \<and> state_good \<sigma>' \<and> (\<forall>t. reached \<sigma> t \<longrightarrow> reached \<sigma>' t)
      \<and> list_all (reached \<sigma>') (FileTarget f # MessageTarget f n # map (FieldTarget f n) xs)"
    by blast
qed

lemma identity_inits:
  assumes "protoimpl_lawful impl"
  shows "inits_file {IdentityFile} IdentityFile (file_nexelra_identity_identity_proto_init impl)"
  unfolding file_nexelra_identity_identity_proto_init_def
  by (rule file_init_ok [OF assms, where S = "{}"])
    (auto simp: identity_identity_proto_decl_def identity_resolves intro: inits_only )

lemma params_inits:
  assumes "protoimpl_lawful impl"
  shows "inits_file {ParamsFile} ParamsFile (file_nexelra_identity_params_proto_init impl)"
  unfolding file_nexelra_identity_params_proto_init_def
  by (rule file_init_ok [OF assms, where S = "{}"])
    (auto simp: identity_params_proto_decl_def params_resolves intro: inits_only )

lemma genesis_inits:
  assumes "protoimpl_lawful impl"
  shows "inits_file {GenesisFile, ParamsFile, IdentityFile} GenesisFile (file_nexelra_identity_genesis_proto_init impl)"
  unfolding file_nexelra_identity_genesis_proto_init_def
  by (rule file_init_ok [OF assms, where S = "{ParamsFile, IdentityFile}"])
    (auto simp: identity_genesis_proto_decl_def genesis_resolves intro: inits_only params_inits [OF assms] identity_inits [OF assms])

lemma query_inits:
  assumes "protoimpl_lawful impl"
  shows "inits_file {QueryFile, ParamsFile, IdentityFile} QueryFile (file_nexelra_identity_query_proto_init impl)"
  unfolding file_nexelra_identity_query_proto_init_def
  by (rule file_init_ok [OF assms, where S = "{ParamsFile, IdentityFile}"])
    (auto simp: identity_query_proto_decl_def Query_decl_def query_resolves intro: inits_only params_inits [OF assms] identity_inits [OF assms])

lemma tx_inits:
  assumes "protoimpl_lawful impl"
  shows "inits_file {TxFile, ParamsFile} TxFile (file_nexelra_identity_tx_proto_init impl)"
  unfolding file_nexelra_identity_tx_proto_init_def
  by (rule file_init_ok [OF assms, where S = "{ParamsFile}"])
    (auto simp: identity_tx_proto_decl_def tx_resolves intro: inits_only params_inits [OF assms])

lemma module_module_inits:
  assumes "protoimpl_lawful impl"
  shows "inits_file {ModuleFile} ModuleFile (file_nexelra_identity_module_module_proto_init impl)"
  unfolding file_nexelra_identity_module_module_proto_init_def
  by (rule file_init_ok [OF assms, where S = "{}"])
    (auto simp: identity_module_module_proto_decl_def module_resolves intro: inits_only )

lemma init_GenesisState_advances:
  assumes "protoimpl_lawful impl"
  shows "advances (FileTarget GenesisFile # MessageTarget GenesisFile ''GenesisState'' # map (FieldTarget GenesisFile ''GenesisState'') [''params'', ''identityList''])
    (init_GenesisState impl)"
  unfolding init_GenesisState_def
  by (rule init_message_ok [OF genesis_inits [OF assms], where m = GenesisState_decl])
    (simp_all add: messages_ByName_def fields_ByName_def identity_genesis_proto_decl_def message_decl_defs)

lemma init_Identity_advances:
  assumes "protoimpl_lawful impl"
  shows "advances (FileTarget IdentityFile # MessageTarget IdentityFile ''Identity'' # map (FieldTarget IdentityFile ''Identity'') [''address'', ''idHash'', ''createdAt''])
    (init_Identity impl)"
  unfolding init_Identity_def
  by (rule init_message_ok [OF identity_inits [OF assms], where m = Identity_decl])
    (simp_all add: messages_ByName_def fields_ByName_def identity_identity_proto_decl_def message_decl_defs)

lemma init_Params_advances:
  assumes "protoimpl_lawful impl"
  shows "advances (FileTarget ParamsFile # MessageTarget ParamsFile ''Params'' # map (FieldTarget ParamsFile ''Params'') [])
    (init_Params impl)"
  unfolding init_Params_def
  by (rule init_message_ok [OF params_inits [OF assms], where m = Params_decl])
    (simp_all add: messages_ByName_def fields_ByName_def identity_params_proto_decl_def message_decl_defs)

lemma init_QueryParamsRequest_advances:
  assumes "protoimpl_lawful impl"
  shows "advances (FileTarget QueryFile # MessageTarget QueryFile ''QueryParamsRequest'' # map (FieldTarget QueryFile ''QueryParamsRequest'') [])
    (init_QueryParamsRequest impl)"
  unfolding init_QueryParamsRequest_def
  by (rule init_message_ok [OF query_inits [OF assms], where m = QueryParamsRequest_decl])
    (simp_all add: messages_ByName_def fields_ByName_def identity_query_proto_decl_def message_decl_defs)

lemma init_QueryParamsResponse_advances:
  assumes "protoimpl_lawful impl"
  shows "advances (FileTarget QueryFile # MessageTarget QueryFile ''QueryParamsResponse'' # map (FieldTarget QueryFile ''QueryParamsResponse'') [''params''])
    (init_QueryParamsResponse impl)"
  unfolding init_QueryParamsResponse_def
  by (rule init_message_ok [OF query_inits [OF assms], where m = QueryParamsResponse_decl])
    (simp_all add: messages_ByName_def fields_ByName_def identity_query_proto_decl_def message_decl_defs)

lemma init_QueryGetIdentityRequest_advances:
  assumes "protoimpl_lawful impl"
  shows "advances (FileTarget QueryFile # MessageTarget QueryFile ''QueryGetIdentityRequest'' # map (FieldTarget QueryFile ''QueryGetIdentityRequest'') [''address''])
    (init_QueryGetIdentityRequest impl)"
  unfolding init_QueryGetIdentityRequest_def
  by (rule init_message_ok [OF query_inits [OF assms], where m = QueryGetIdentityRequest_decl])
    (simp_all add: messages_ByName_def fields_ByName_def identity_query_proto_decl_def message_decl_defs)

lemma init_QueryGetIdentityResponse_advances:
  assumes "protoimpl_lawful impl"
  shows "advances (FileTarget QueryFile # MessageTarget QueryFile ''QueryGetIdentityResponse'' # map (FieldTarget QueryFile ''QueryGetIdentityResponse'') [''identity''])
    (init_QueryGetIdentityResponse impl)"
  unfolding init_QueryGetIdentityResponse_def
  by (rule init_message_ok [OF query_inits [OF assms], where m = QueryGetIdentityResponse_decl])
    (simp_all add: messages_ByName_def fields_ByName_def identity_query_proto_decl_def message_decl_defs)

lemma init_QueryAllIdentityRequest_advances:
  assumes "protoimpl_lawful impl"
  shows "advances (FileTarget QueryFile # MessageTarget QueryFile ''QueryAllIdentityRequest'' # map (FieldTarget QueryFile ''QueryAllIdentityRequest'') [''pagination''])
    (init_QueryAllIdentityRequest impl)"
  unfolding init_QueryAllIdentityRequest_def
  by (rule init_message_ok [OF query_inits [OF assms], where m = QueryAllIdentityRequest_decl])
    (simp_all add: messages_ByName_def fields_ByName_def identity_query_proto_decl_def message_decl_defs)

lemma init_QueryAllIdentityResponse_advances:
  assumes "protoimpl_lawful impl"
  shows "advances (FileTarget QueryFile # MessageTarget QueryFile ''QueryAllIdentityResponse'' # map (FieldTarget QueryFile ''QueryAllIdentityResponse'') [''identity'', ''pagination''])
    (init_QueryAllIdentityResponse impl)"
  unfolding init_QueryAllIdentityResponse_def
  by (rule init_message_ok [OF query_inits [OF assms], where m = QueryAllIdentityResponse_decl])
    (simp_all add: messages_ByName_def fields_ByName_def identity_query_proto_decl_def message_decl_defs)

lemma init_QueryIdentityByCccdIdRequest_advances:
  assumes "protoimpl_lawful impl"
  shows "advances (FileTarget QueryFile # MessageTarget QueryFile ''QueryIdentityByCccdIdRequest'' # map (FieldTarget QueryFile ''QueryIdentityByCccdIdRequest'') [''idHash'', ''pagination''])
    (init_QueryIdentityByCccdIdRequest impl)"
  unfolding init_QueryIdentityByCccdIdRequest_def
  by (rule init_message_ok [OF query_inits [OF assms], where m = QueryIdentityByCccdIdRequest_decl])
    (simp_all add: messages_ByName_def fields_ByName_def identity_query_proto_decl_def message_decl_defs)

lemma init_QueryIdentityByCccdIdResponse_advances:
  assumes "protoimpl_lawful impl"
  shows "advances (FileTarget QueryFile # MessageTarget QueryFile ''QueryIdentityByCccdIdResponse'' # map (FieldTarget QueryFile ''QueryIdentityByCccdIdResponse'') [''identity'', ''pagination''])
    (init_QueryIdentityByCccdIdResponse impl)"
  unfolding init_QueryIdentityByCccdIdResponse_def
  by (rule init_message_ok [OF query_inits [OF assms], where m = QueryIdentityByCccdIdResponse_decl])
    (simp_all add: messages_ByName_def fields_ByName_def identity_query_proto_decl_def message_decl_defs)

lemma init_MsgUpdateParams_advances:
  assumes "protoimpl_lawful impl"
  shows "advances (FileTarget TxFile # MessageTarget TxFile ''MsgUpdateParams'' # map (FieldTarget TxFile ''MsgUpdateParams'') [''authority'', ''params''])
    (init_MsgUpdateParams impl)"
  unfolding init_MsgUpdateParams_def
  by (rule init_message_ok [OF tx_inits [OF assms], where m = MsgUpdateParams_decl])
    (simp_all add: messages_ByName_def fields_ByName_def identity_tx_proto_decl_def message_decl_defs)

lemma init_MsgUpdateParamsResponse_advances:
  assumes "protoimpl_lawful impl"
  shows "advances (FileTarget TxFile # MessageTarget TxFile ''MsgUpdateParamsResponse'' # map (FieldTarget TxFile ''MsgUpdateParamsResponse'') [])
    (init_MsgUpdateParamsResponse impl)"
  unfolding init_MsgUpdateParamsResponse_def
  by (rule init_message_ok [OF tx_inits [OF assms], where m = MsgUpdateParamsResponse_decl])
    (simp_all add: messages_ByName_def fields_ByName_def identity_tx_proto_decl_def message_decl_defs)

lemma init_MsgCreateIdentity_advances:
  assumes "protoimpl_lawful impl"
  shows "advances (FileTarget TxFile # MessageTarget TxFile ''MsgCreateIdentity'' # map (FieldTarget TxFile ''MsgCreateIdentity'') [''creator'', ''cccdId''])
    (init_MsgCreateIdentity impl)"
  unfolding init_MsgCreateIdentity_def
  by (rule init_message_ok [OF tx_inits [OF assms], where m = MsgCreateIdentity_decl])
    (simp_all add: messages_ByName_def fields_ByName_def identity_tx_proto_decl_def message_decl_defs)

lemma init_MsgCreateIdentityResponse_advances:
  assumes "protoimpl_lawful impl"
  shows "advances (FileTarget TxFile # MessageTarget TxFile ''MsgCreateIdentityResponse'' # map (FieldTarget TxFile ''MsgCreateIdentityResponse'') [])
    (init_MsgCreateIdentityResponse impl)"
  unfolding init_MsgCreateIdentityResponse_def
  by (rule init_message_ok [OF tx_inits [OF assms], where m = MsgCreateIdentityResponse_decl])
    (simp_all add: messages_ByName_def fields_ByName_def identity_tx_proto_decl_def message_decl_defs)

lemma init_Module_advances:
  assumes "protoimpl_lawful impl"
  shows "advances (FileTarget ModuleFile # MessageTarget ModuleFile ''Module'' # map (FieldTarget ModuleFile ''Module'') [''authority''])
    (init_Module impl)"
  unfolding init_Module_def
  by (rule init_message_ok [OF module_module_inits [OF assms], where m = Module_decl])
    (simp_all add: messages_ByName_def fields_ByName_def identity_module_module_proto_decl_def message_decl_defs)

lemmas init_advances = init_GenesisState_advances
  init_Identity_advances
  init_Params_advances
  init_QueryParamsRequest_advances
  init_QueryParamsResponse_advances
  init_QueryGetIdentityRequest_advances
  init_QueryGetIdentityResponse_advances
  init_QueryAllIdentityRequest_advances
  init_QueryAllIdentityResponse_advances
  init_QueryIdentityByCccdIdRequest_advances
  init_QueryIdentityByCccdIdResponse_advances
  init_MsgUpdateParams_advances
  init_MsgUpdateParamsResponse_advances
  init_MsgCreateIdentity_advances
  init_MsgCreateIdentityResponse_advances
  init_Module_advances

lemmas files_advance = identity_inits [THEN advances_file]
  params_inits [THEN advances_file]
  genesis_inits [THEN advances_file]
  query_inits [THEN advances_file]
  tx_inits [THEN advances_file]
  module_module_inits [THEN advances_file]

definition package_targets :: "target list list" where
  "package_targets =
     [FileTarget GenesisFile # MessageTarget GenesisFile ''GenesisState'' # map (FieldTarget GenesisFile ''GenesisState'') [''params'', ''identityList''],
      [FileTarget GenesisFile],
      FileTarget IdentityFile # MessageTarget IdentityFile ''Identity'' # map (FieldTarget IdentityFile ''Identity'') [''address'', ''idHash'', ''createdAt''],
      [FileTarget IdentityFile],
      FileTarget ParamsFile # MessageTarget ParamsFile ''Params'' # map (FieldTarget ParamsFile ''Params'') [],
      [FileTarget ParamsFile],
      FileTarget QueryFile # MessageTarget QueryFile ''QueryParamsRequest'' # map (FieldTarget QueryFile ''QueryParamsRequest'') [],
      FileTarget QueryFile # MessageTarget QueryFile ''QueryParamsResponse'' # map (FieldTarget QueryFile ''QueryParamsResponse'') [''params''],
      FileTarget QueryFile # MessageTarget QueryFile ''QueryGetIdentityRequest'' # map (FieldTarget QueryFile ''QueryGetIdentityRequest'') [''address''],
      FileTarget QueryFile # MessageTarget QueryFile ''QueryGetIdentityResponse'' # map (FieldTarget QueryFile ''QueryGetIdentityResponse'') [''identity''],
      FileTarget QueryFile # MessageTarget QueryFile ''QueryAllIdentityRequest'' # map (FieldTarget QueryFile ''QueryAllIdentityRequest'') [''pagination''],
      FileTarget QueryFile # MessageTarget QueryFile ''QueryAllIdentityResponse'' # map (FieldTarget QueryFile ''QueryAllIdentityResponse'') [''identity'', ''pagination''],
      FileTarget QueryFile # MessageTarget QueryFile ''QueryIdentityByCccdIdRequest'' # map (FieldTarget QueryFile ''QueryIdentityByCccdIdRequest'') [''idHash'', ''pagination''],
      FileTarget QueryFile # MessageTarget QueryFile ''QueryIdentityByCccdIdResponse'' # map (FieldTarget QueryFile ''QueryIdentityByCccdIdResponse'') [''identity'', ''pagination''],
      [FileTarget QueryFile],
      FileTarget TxFile # MessageTarget TxFile ''MsgUpdateParams'' # map (FieldTarget TxFile ''MsgUpdateParams'') [''authority'', ''params''],
      FileTarget TxFile # MessageTarget TxFile ''MsgUpdateParamsResponse'' # map (FieldTarget TxFile ''MsgUpdateParamsResponse'') [],
      FileTarget TxFile # MessageTarget TxFile ''MsgCreateIdentity'' # map (FieldTarget TxFile ''MsgCreateIdentity'') [''creator'', ''cccdId''],
      FileTarget TxFile # MessageTarget TxFile ''MsgCreateIdentityResponse'' # map (FieldTarget TxFile ''MsgCreateIdentityResponse'') [],
      [FileTarget TxFile],
      FileTarget ModuleFile # MessageTarget ModuleFile ''Module'' # map (FieldTarget ModuleFile ''Module'') [''authority''],
      [FileTarget ModuleFile]]"

lemma packages_advance:
  assumes "protoimpl_lawful impl"
  shows "advances (concat package_targets) (run_inits (package_inits impl @ module_package_inits impl))"
  unfolding package_targets_def package_inits_def module_package_inits_def append.simps
  by (intro advances_run list.rel_intros init_advances files_advance assms)

lemmas Descriptor_defs = GenesisState_Descriptor_def
  Identity_Descriptor_def
  Params_Descriptor_def
  QueryParamsRequest_Descriptor_def
  QueryParamsResponse_Descriptor_def
  QueryGetIdentityRequest_Descriptor_def
  QueryGetIdentityResponse_Descriptor_def
  QueryAllIdentityRequest_Descriptor_def
  QueryAllIdentityResponse_Descriptor_def
  QueryIdentityByCccdIdRequest_Descriptor_def
  QueryIdentityByCccdIdResponse_Descriptor_def
  MsgUpdateParams_Descriptor_def
  MsgUpdateParamsResponse_Descriptor_def
  MsgCreateIdentity_Descriptor_def
  MsgCreateIdentityResponse_Descriptor_def
  Module_Descriptor_def
  file_nexelra_identity_identity_proto_rawDescGZIP_def
  file_nexelra_identity_params_proto_rawDescGZIP_def
  file_nexelra_identity_genesis_proto_rawDescGZIP_def
  file_nexelra_identity_query_proto_rawDescGZIP_def
  file_nexelra_identity_tx_proto_rawDescGZIP_def
  file_nexelra_identity_module_module_proto_rawDescGZIP_def

lemmas fd_defs = fd_GenesisState_params_def
  fd_GenesisState_identityList_def
  fd_Identity_address_def
  fd_Identity_idHash_def
  fd_Identity_createdAt_def
  fd_QueryParamsResponse_params_def
  fd_QueryGetIdentityRequest_address_def
  fd_QueryGetIdentityResponse_identity_def
  fd_QueryAllIdentityRequest_pagination_def
  fd_QueryAllIdentityResponse_identity_def
  fd_QueryAllIdentityResponse_pagination_def
  fd_QueryIdentityByCccdIdRequest_idHash_def
  fd_QueryIdentityByCccdIdRequest_pagination_def
  fd_QueryIdentityByCccdIdResponse_identity_def
  fd_QueryIdentityByCccdIdResponse_pagination_def
  fd_MsgUpdateParams_authority_def
  fd_MsgUpdateParams_params_def
  fd_MsgCreateIdentity_creator_def
  fd_MsgCreateIdentity_cccdId_def
  fd_Module_authority_def

lemma initial_good: "state_good initial_state"
  by (simp add: state_good_def initial_state_def)

section \<open>Properties\<close>

text \<open>What \<open>Descriptor\<close> answers: the compressed table of the file, compressed once.\<close>

lemma rawDescGZIP_first:
  assumes "file_done f (vars \<sigma> f)"
  shows "fst (rawDescGZIP impl f \<sigma>) = CompressGZIP impl (raw_of f)"
    and "fst (rawDescGZIP impl f (snd (rawDescGZIP impl f \<sigma>))) = CompressGZIP impl (raw_of f)"
  using assms by (simp_all add: rawDescGZIP_def file_done_def Let_def)

lemma messages_indexed:
  assumes "\<And>f. file_done f (vars \<sigma> f)"
  shows "list_all (\<lambda>(f, n, Descriptor). \<exists>i. fst (Descriptor impl \<sigma>) = (CompressGZIP impl (raw_of f), [i])
      \<and> fst (Descriptor impl (snd (Descriptor impl \<sigma>))) = fst (Descriptor impl \<sigma>)
      \<and> messages_ByName (decl_of f) n = Some (messages (decl_of f) ! i)) api_messages"
proof -
  have "fst (rawDescGZIP impl f \<sigma>) = CompressGZIP impl (raw_of f)"
    "fst (rawDescGZIP impl f (snd (rawDescGZIP impl f \<sigma>))) = CompressGZIP impl (raw_of f)" for f
    by (rule rawDescGZIP_first [OF assms])+
  then show ?thesis
    by (simp add: api_messages_def Descriptor_defs case_prod_beta Let_def messages_ByName_def
        identity_identity_proto_decl_def identity_params_proto_decl_def identity_genesis_proto_decl_def
        identity_query_proto_decl_def identity_tx_proto_decl_def identity_module_module_proto_decl_def message_decl_defs)
qed

text \<open>The full name of a field, as the run time makes it from the declarations.\<close>

definition full_name :: "proto_file \<Rightarrow> string \<Rightarrow> string \<Rightarrow> string" where
  "full_name f n x = package (decl_of f) @ ''.'' @ n @ ''.'' @ x"

lemma fields_named:
  "list_all (\<lambda>(f, n, x, desc). FullName desc = full_name f n x
     \<and> (\<exists>d. Option.bind (messages_ByName (decl_of f) n) (\<lambda>m. fields_ByName m x) = Some d \<and> field_name d = x)) api_fields"
  by (simp add: api_fields_def full_name_def fd_defs messages_ByName_def fields_ByName_def identity_identity_proto_decl_def identity_params_proto_decl_def
      identity_genesis_proto_decl_def identity_query_proto_decl_def identity_tx_proto_decl_def
      identity_module_module_proto_decl_def message_decl_defs)

lemma targets_of_messages:
  "list_all (reached \<sigma>) (concat package_targets) \<Longrightarrow>
     list_all (\<lambda>(f, n, D). reached \<sigma> (MessageTarget f n)) api_messages
   \<and> list_all (\<lambda>(f, n, x, desc). reached \<sigma> (FieldTarget f n x)) api_fields
   \<and> reached \<sigma> (FileTarget f)"
  by (cases f) (simp_all add: package_targets_def api_messages_def api_fields_def)


text \<open>A run time that knows the six files: their encodings differ, already in the names.\<close>

definition ex_files :: "file_decl list" where
  "ex_files = map decl_of [GenesisFile, IdentityFile, ParamsFile, QueryFile, TxFile, ModuleFile]"

definition ex_protoimpl :: protoimpl where
  "ex_protoimpl = \<lparr>Build = (\<lambda>b. case find (\<lambda>d. RawDescriptor b = enc_file_decl d) ex_files of
       None \<Rightarrow> Panic | Some d \<Rightarrow> Ok d), CompressGZIP = rev, UnsafeEnabled = False\<rparr>"

lemma enc_file_decl_name:
  assumes "enc_file_decl d = enc_file_decl d'" "0 < length (file_name d)" "length (file_name d) < 128"
    and "0 < length (file_name d')" "length (file_name d') < 128"
  shows "file_name d = file_name d'"
proof -
  have e: "\<exists>rest. enc_file_decl d = 0x0a # of_nat (length (file_name d)) # bytes_of (file_name d) @ rest"
    if "0 < length (file_name d)" "length (file_name d) < 128" for d
    using that by (auto simp: enc_file_decl_def enc_str_def enc_len_def uvarint_of_nat varint_nat.simps)
  obtain r where r: "enc_file_decl d = 0x0a # of_nat (length (file_name d)) # bytes_of (file_name d) @ r"
    using e [OF assms(2,3)] by blast
  obtain r' where "enc_file_decl d' = 0x0a # of_nat (length (file_name d')) # bytes_of (file_name d') @ r'"
    using e [OF assms(4,5)] by blast
  with r assms(1) have eq: "of_nat (length (file_name d)) = (of_nat (length (file_name d')) :: byte)"
      "bytes_of (file_name d) @ r = bytes_of (file_name d') @ r'"
    by simp_all
  from eq(1) have "length (file_name d) = length (file_name d')"
    using assms(3,5) by (auto simp: of_nat_eq_iff word_unat_eq_iff unat_of_nat)
  then have "bytes_of (file_name d) = bytes_of (file_name d')"
    using eq(2) by (simp add: append_eq_append_conv)
  then show ?thesis by simp
qed

lemma file_names:
  "file_name identity_genesis_proto_decl = ''nexelra/identity/genesis.proto''"
  "file_name identity_identity_proto_decl = ''nexelra/identity/identity.proto''"
  "file_name identity_params_proto_decl = ''nexelra/identity/params.proto''"
  "file_name identity_query_proto_decl = ''nexelra/identity/query.proto''"
  "file_name identity_tx_proto_decl = ''nexelra/identity/tx.proto''"
  "file_name identity_module_module_proto_decl = ''nexelra/identity/module/module.proto''"
  by (simp_all add: identity_identity_proto_decl_def identity_params_proto_decl_def
      identity_genesis_proto_decl_def identity_query_proto_decl_def identity_tx_proto_decl_def
      identity_module_module_proto_decl_def)

lemma decl_of_inj:
  assumes "enc_file_decl (decl_of f) = enc_file_decl (decl_of g)"
  shows "f = g"
proof -
  have l: "0 < length (file_name (decl_of h))" "length (file_name (decl_of h)) < 128" for h
    by (cases h; simp add: file_names)+
  have "file_name (decl_of f) = file_name (decl_of g)"
    by (rule enc_file_decl_name [OF assms l l])
  then show ?thesis by (cases f; cases g) (simp_all add: file_names)
qed

lemma ex_protoimpl_lawful: "protoimpl_lawful ex_protoimpl"
proof -
  have "find (\<lambda>d. enc_file_decl (decl_of f) = enc_file_decl d) ex_files = Some (decl_of f)" for f
  proof -
    have "decl_of f \<in> set ex_files" by (cases f) (simp_all add: ex_files_def)
    then have "find (\<lambda>d. enc_file_decl (decl_of f) = enc_file_decl d) ex_files \<noteq> None"
      by (auto simp: find_None_iff)
    then obtain d where d: "find (\<lambda>d. enc_file_decl (decl_of f) = enc_file_decl d) ex_files = Some d" by blast
    then have e: "enc_file_decl (decl_of f) = enc_file_decl d" "d \<in> set ex_files" by (auto simp: find_Some_iff)
    obtain g where "d = decl_of g" using e(2) unfolding ex_files_def set_map by blast
    with e(1) have "d = decl_of f" using decl_of_inj by blast
    with d show ?thesis by simp
  qed
  then show ?thesis by (simp add: protoimpl_lawful_def ex_protoimpl_def)
qed


end
