(* ===== verification/Reflection.thy ===== *)
theory Reflection
  imports Registration
begin

text \<open>
  How the client's messages and their reflection are tied together: \<open>ProtoReflect\<close> and \<open>Interface\<close>,
  which convert a pointer to the message into one to its reflection and back, \<open>Descriptor\<close>, \<open>Type\<close>, and
  \<open>slowProtoReflect\<close>, the way over the run time of protobuf.
\<close>

text \<open>
  A message has a place for its \<open>MessageInfo\<close>, named by file and index of the variable. \<open>StateOf\<close> is
  the message through that place, \<open>MessageOf\<close> a wrapper of the pointer.
\<close>

type_synonym message_info = "proto_file \<times> nat"

datatype 'm slow_message =
    StateOf "'m \<times> message_info option"
  | MessageOf message_info "('m \<times> message_info option) option"

text \<open>With \<open>UnsafeEnabled\<close> the place is filled unless it is; the pointer is returned as it is left.\<close>

definition slow_reflect ::
    "protoimpl \<Rightarrow> message_info \<Rightarrow> ('m \<times> message_info option) option
      \<Rightarrow> 'm slow_message \<times> ('m \<times> message_info option) option" where
  "slow_reflect impl mi x =
     (if UnsafeEnabled impl \<and> x \<noteq> None
      then (let (m, info) = the x; ms = (m, if info = None then Some mi else info) in (StateOf ms, Some ms))
      else (MessageOf mi x, x))"

lemma slow_reflect_keeps_info:
  "UnsafeEnabled impl \<Longrightarrow> slow_reflect impl mi (snd (slow_reflect impl mi' (Some x))) = slow_reflect impl mi' (Some x)"
  by (cases x) (simp add: slow_reflect_def Let_def)

section \<open>The messages\<close>

definition GenesisState_ProtoReflect :: "api_GenesisState option \<Rightarrow> api_GenesisState option" where
  "GenesisState_ProtoReflect x = x"

definition GenesisState_slowProtoReflect ::
    "protoimpl \<Rightarrow> (api_GenesisState \<times> message_info option) option
      \<Rightarrow> api_GenesisState slow_message \<times> (api_GenesisState \<times> message_info option) option" where
  "GenesisState_slowProtoReflect impl = slow_reflect impl (GenesisFile, 0)"

definition fastReflection_GenesisState_Descriptor :: "package_state \<Rightarrow> api_GenesisState option \<Rightarrow> message_decl option" where
  "fastReflection_GenesisState_Descriptor \<sigma> x = md \<sigma> (GenesisFile, ''GenesisState'')"

definition fastReflection_GenesisState_Type :: "package_state \<Rightarrow> api_GenesisState option \<Rightarrow> api_GenesisState message_type" where
  "fastReflection_GenesisState_Type \<sigma> x = fastReflection_GenesisState_messageType \<sigma>"

definition fastReflection_GenesisState_Interface :: "api_GenesisState option \<Rightarrow> api_GenesisState option" where
  "fastReflection_GenesisState_Interface x = x"

definition Identity_ProtoReflect :: "api_Identity option \<Rightarrow> api_Identity option" where
  "Identity_ProtoReflect x = x"

definition Identity_slowProtoReflect ::
    "protoimpl \<Rightarrow> (api_Identity \<times> message_info option) option
      \<Rightarrow> api_Identity slow_message \<times> (api_Identity \<times> message_info option) option" where
  "Identity_slowProtoReflect impl = slow_reflect impl (IdentityFile, 0)"

definition fastReflection_Identity_Descriptor :: "package_state \<Rightarrow> api_Identity option \<Rightarrow> message_decl option" where
  "fastReflection_Identity_Descriptor \<sigma> x = md \<sigma> (IdentityFile, ''Identity'')"

definition fastReflection_Identity_Type :: "package_state \<Rightarrow> api_Identity option \<Rightarrow> api_Identity message_type" where
  "fastReflection_Identity_Type \<sigma> x = fastReflection_Identity_messageType \<sigma>"

definition fastReflection_Identity_Interface :: "api_Identity option \<Rightarrow> api_Identity option" where
  "fastReflection_Identity_Interface x = x"

definition Params_ProtoReflect :: "api_Params option \<Rightarrow> api_Params option" where
  "Params_ProtoReflect x = x"

definition Params_slowProtoReflect ::
    "protoimpl \<Rightarrow> (api_Params \<times> message_info option) option
      \<Rightarrow> api_Params slow_message \<times> (api_Params \<times> message_info option) option" where
  "Params_slowProtoReflect impl = slow_reflect impl (ParamsFile, 0)"

definition fastReflection_Params_Descriptor :: "package_state \<Rightarrow> api_Params option \<Rightarrow> message_decl option" where
  "fastReflection_Params_Descriptor \<sigma> x = md \<sigma> (ParamsFile, ''Params'')"

definition fastReflection_Params_Type :: "package_state \<Rightarrow> api_Params option \<Rightarrow> api_Params message_type" where
  "fastReflection_Params_Type \<sigma> x = fastReflection_Params_messageType \<sigma>"

definition fastReflection_Params_Interface :: "api_Params option \<Rightarrow> api_Params option" where
  "fastReflection_Params_Interface x = x"

definition QueryParamsRequest_ProtoReflect :: "api_QueryParamsRequest option \<Rightarrow> api_QueryParamsRequest option" where
  "QueryParamsRequest_ProtoReflect x = x"

definition QueryParamsRequest_slowProtoReflect ::
    "protoimpl \<Rightarrow> (api_QueryParamsRequest \<times> message_info option) option
      \<Rightarrow> api_QueryParamsRequest slow_message \<times> (api_QueryParamsRequest \<times> message_info option) option" where
  "QueryParamsRequest_slowProtoReflect impl = slow_reflect impl (QueryFile, 0)"

definition fastReflection_QueryParamsRequest_Descriptor :: "package_state \<Rightarrow> api_QueryParamsRequest option \<Rightarrow> message_decl option" where
  "fastReflection_QueryParamsRequest_Descriptor \<sigma> x = md \<sigma> (QueryFile, ''QueryParamsRequest'')"

definition fastReflection_QueryParamsRequest_Type :: "package_state \<Rightarrow> api_QueryParamsRequest option \<Rightarrow> api_QueryParamsRequest message_type" where
  "fastReflection_QueryParamsRequest_Type \<sigma> x = fastReflection_QueryParamsRequest_messageType \<sigma>"

definition fastReflection_QueryParamsRequest_Interface :: "api_QueryParamsRequest option \<Rightarrow> api_QueryParamsRequest option" where
  "fastReflection_QueryParamsRequest_Interface x = x"

definition QueryParamsResponse_ProtoReflect :: "api_QueryParamsResponse option \<Rightarrow> api_QueryParamsResponse option" where
  "QueryParamsResponse_ProtoReflect x = x"

definition QueryParamsResponse_slowProtoReflect ::
    "protoimpl \<Rightarrow> (api_QueryParamsResponse \<times> message_info option) option
      \<Rightarrow> api_QueryParamsResponse slow_message \<times> (api_QueryParamsResponse \<times> message_info option) option" where
  "QueryParamsResponse_slowProtoReflect impl = slow_reflect impl (QueryFile, 1)"

definition fastReflection_QueryParamsResponse_Descriptor :: "package_state \<Rightarrow> api_QueryParamsResponse option \<Rightarrow> message_decl option" where
  "fastReflection_QueryParamsResponse_Descriptor \<sigma> x = md \<sigma> (QueryFile, ''QueryParamsResponse'')"

definition fastReflection_QueryParamsResponse_Type :: "package_state \<Rightarrow> api_QueryParamsResponse option \<Rightarrow> api_QueryParamsResponse message_type" where
  "fastReflection_QueryParamsResponse_Type \<sigma> x = fastReflection_QueryParamsResponse_messageType \<sigma>"

definition fastReflection_QueryParamsResponse_Interface :: "api_QueryParamsResponse option \<Rightarrow> api_QueryParamsResponse option" where
  "fastReflection_QueryParamsResponse_Interface x = x"

definition QueryGetIdentityRequest_ProtoReflect :: "api_QueryGetIdentityRequest option \<Rightarrow> api_QueryGetIdentityRequest option" where
  "QueryGetIdentityRequest_ProtoReflect x = x"

definition QueryGetIdentityRequest_slowProtoReflect ::
    "protoimpl \<Rightarrow> (api_QueryGetIdentityRequest \<times> message_info option) option
      \<Rightarrow> api_QueryGetIdentityRequest slow_message \<times> (api_QueryGetIdentityRequest \<times> message_info option) option" where
  "QueryGetIdentityRequest_slowProtoReflect impl = slow_reflect impl (QueryFile, 2)"

definition fastReflection_QueryGetIdentityRequest_Descriptor :: "package_state \<Rightarrow> api_QueryGetIdentityRequest option \<Rightarrow> message_decl option" where
  "fastReflection_QueryGetIdentityRequest_Descriptor \<sigma> x = md \<sigma> (QueryFile, ''QueryGetIdentityRequest'')"

definition fastReflection_QueryGetIdentityRequest_Type :: "package_state \<Rightarrow> api_QueryGetIdentityRequest option \<Rightarrow> api_QueryGetIdentityRequest message_type" where
  "fastReflection_QueryGetIdentityRequest_Type \<sigma> x = fastReflection_QueryGetIdentityRequest_messageType \<sigma>"

definition fastReflection_QueryGetIdentityRequest_Interface :: "api_QueryGetIdentityRequest option \<Rightarrow> api_QueryGetIdentityRequest option" where
  "fastReflection_QueryGetIdentityRequest_Interface x = x"

definition QueryGetIdentityResponse_ProtoReflect :: "api_QueryGetIdentityResponse option \<Rightarrow> api_QueryGetIdentityResponse option" where
  "QueryGetIdentityResponse_ProtoReflect x = x"

definition QueryGetIdentityResponse_slowProtoReflect ::
    "protoimpl \<Rightarrow> (api_QueryGetIdentityResponse \<times> message_info option) option
      \<Rightarrow> api_QueryGetIdentityResponse slow_message \<times> (api_QueryGetIdentityResponse \<times> message_info option) option" where
  "QueryGetIdentityResponse_slowProtoReflect impl = slow_reflect impl (QueryFile, 3)"

definition fastReflection_QueryGetIdentityResponse_Descriptor :: "package_state \<Rightarrow> api_QueryGetIdentityResponse option \<Rightarrow> message_decl option" where
  "fastReflection_QueryGetIdentityResponse_Descriptor \<sigma> x = md \<sigma> (QueryFile, ''QueryGetIdentityResponse'')"

definition fastReflection_QueryGetIdentityResponse_Type :: "package_state \<Rightarrow> api_QueryGetIdentityResponse option \<Rightarrow> api_QueryGetIdentityResponse message_type" where
  "fastReflection_QueryGetIdentityResponse_Type \<sigma> x = fastReflection_QueryGetIdentityResponse_messageType \<sigma>"

definition fastReflection_QueryGetIdentityResponse_Interface :: "api_QueryGetIdentityResponse option \<Rightarrow> api_QueryGetIdentityResponse option" where
  "fastReflection_QueryGetIdentityResponse_Interface x = x"

definition QueryAllIdentityRequest_ProtoReflect :: "'p api_QueryAllIdentityRequest option \<Rightarrow> 'p api_QueryAllIdentityRequest option" where
  "QueryAllIdentityRequest_ProtoReflect x = x"

definition QueryAllIdentityRequest_slowProtoReflect ::
    "protoimpl \<Rightarrow> ('p api_QueryAllIdentityRequest \<times> message_info option) option
      \<Rightarrow> 'p api_QueryAllIdentityRequest slow_message \<times> ('p api_QueryAllIdentityRequest \<times> message_info option) option" where
  "QueryAllIdentityRequest_slowProtoReflect impl = slow_reflect impl (QueryFile, 4)"

definition fastReflection_QueryAllIdentityRequest_Descriptor :: "package_state \<Rightarrow> 'p api_QueryAllIdentityRequest option \<Rightarrow> message_decl option" where
  "fastReflection_QueryAllIdentityRequest_Descriptor \<sigma> x = md \<sigma> (QueryFile, ''QueryAllIdentityRequest'')"

definition fastReflection_QueryAllIdentityRequest_Type :: "package_state \<Rightarrow> 'p api_QueryAllIdentityRequest option \<Rightarrow> 'p api_QueryAllIdentityRequest message_type" where
  "fastReflection_QueryAllIdentityRequest_Type \<sigma> x = fastReflection_QueryAllIdentityRequest_messageType \<sigma>"

definition fastReflection_QueryAllIdentityRequest_Interface :: "'p api_QueryAllIdentityRequest option \<Rightarrow> 'p api_QueryAllIdentityRequest option" where
  "fastReflection_QueryAllIdentityRequest_Interface x = x"

definition QueryAllIdentityResponse_ProtoReflect :: "'p api_QueryAllIdentityResponse option \<Rightarrow> 'p api_QueryAllIdentityResponse option" where
  "QueryAllIdentityResponse_ProtoReflect x = x"

definition QueryAllIdentityResponse_slowProtoReflect ::
    "protoimpl \<Rightarrow> ('p api_QueryAllIdentityResponse \<times> message_info option) option
      \<Rightarrow> 'p api_QueryAllIdentityResponse slow_message \<times> ('p api_QueryAllIdentityResponse \<times> message_info option) option" where
  "QueryAllIdentityResponse_slowProtoReflect impl = slow_reflect impl (QueryFile, 5)"

definition fastReflection_QueryAllIdentityResponse_Descriptor :: "package_state \<Rightarrow> 'p api_QueryAllIdentityResponse option \<Rightarrow> message_decl option" where
  "fastReflection_QueryAllIdentityResponse_Descriptor \<sigma> x = md \<sigma> (QueryFile, ''QueryAllIdentityResponse'')"

definition fastReflection_QueryAllIdentityResponse_Type :: "package_state \<Rightarrow> 'p api_QueryAllIdentityResponse option \<Rightarrow> 'p api_QueryAllIdentityResponse message_type" where
  "fastReflection_QueryAllIdentityResponse_Type \<sigma> x = fastReflection_QueryAllIdentityResponse_messageType \<sigma>"

definition fastReflection_QueryAllIdentityResponse_Interface :: "'p api_QueryAllIdentityResponse option \<Rightarrow> 'p api_QueryAllIdentityResponse option" where
  "fastReflection_QueryAllIdentityResponse_Interface x = x"

definition QueryIdentityByCccdIdRequest_ProtoReflect :: "'p api_QueryIdentityByCccdIdRequest option \<Rightarrow> 'p api_QueryIdentityByCccdIdRequest option" where
  "QueryIdentityByCccdIdRequest_ProtoReflect x = x"

definition QueryIdentityByCccdIdRequest_slowProtoReflect ::
    "protoimpl \<Rightarrow> ('p api_QueryIdentityByCccdIdRequest \<times> message_info option) option
      \<Rightarrow> 'p api_QueryIdentityByCccdIdRequest slow_message \<times> ('p api_QueryIdentityByCccdIdRequest \<times> message_info option) option" where
  "QueryIdentityByCccdIdRequest_slowProtoReflect impl = slow_reflect impl (QueryFile, 6)"

definition fastReflection_QueryIdentityByCccdIdRequest_Descriptor :: "package_state \<Rightarrow> 'p api_QueryIdentityByCccdIdRequest option \<Rightarrow> message_decl option" where
  "fastReflection_QueryIdentityByCccdIdRequest_Descriptor \<sigma> x = md \<sigma> (QueryFile, ''QueryIdentityByCccdIdRequest'')"

definition fastReflection_QueryIdentityByCccdIdRequest_Type :: "package_state \<Rightarrow> 'p api_QueryIdentityByCccdIdRequest option \<Rightarrow> 'p api_QueryIdentityByCccdIdRequest message_type" where
  "fastReflection_QueryIdentityByCccdIdRequest_Type \<sigma> x = fastReflection_QueryIdentityByCccdIdRequest_messageType \<sigma>"

definition fastReflection_QueryIdentityByCccdIdRequest_Interface :: "'p api_QueryIdentityByCccdIdRequest option \<Rightarrow> 'p api_QueryIdentityByCccdIdRequest option" where
  "fastReflection_QueryIdentityByCccdIdRequest_Interface x = x"

definition QueryIdentityByCccdIdResponse_ProtoReflect :: "'p api_QueryIdentityByCccdIdResponse option \<Rightarrow> 'p api_QueryIdentityByCccdIdResponse option" where
  "QueryIdentityByCccdIdResponse_ProtoReflect x = x"

definition QueryIdentityByCccdIdResponse_slowProtoReflect ::
    "protoimpl \<Rightarrow> ('p api_QueryIdentityByCccdIdResponse \<times> message_info option) option
      \<Rightarrow> 'p api_QueryIdentityByCccdIdResponse slow_message \<times> ('p api_QueryIdentityByCccdIdResponse \<times> message_info option) option" where
  "QueryIdentityByCccdIdResponse_slowProtoReflect impl = slow_reflect impl (QueryFile, 7)"

definition fastReflection_QueryIdentityByCccdIdResponse_Descriptor :: "package_state \<Rightarrow> 'p api_QueryIdentityByCccdIdResponse option \<Rightarrow> message_decl option" where
  "fastReflection_QueryIdentityByCccdIdResponse_Descriptor \<sigma> x = md \<sigma> (QueryFile, ''QueryIdentityByCccdIdResponse'')"

definition fastReflection_QueryIdentityByCccdIdResponse_Type :: "package_state \<Rightarrow> 'p api_QueryIdentityByCccdIdResponse option \<Rightarrow> 'p api_QueryIdentityByCccdIdResponse message_type" where
  "fastReflection_QueryIdentityByCccdIdResponse_Type \<sigma> x = fastReflection_QueryIdentityByCccdIdResponse_messageType \<sigma>"

definition fastReflection_QueryIdentityByCccdIdResponse_Interface :: "'p api_QueryIdentityByCccdIdResponse option \<Rightarrow> 'p api_QueryIdentityByCccdIdResponse option" where
  "fastReflection_QueryIdentityByCccdIdResponse_Interface x = x"

definition MsgUpdateParams_ProtoReflect :: "api_MsgUpdateParams option \<Rightarrow> api_MsgUpdateParams option" where
  "MsgUpdateParams_ProtoReflect x = x"

definition MsgUpdateParams_slowProtoReflect ::
    "protoimpl \<Rightarrow> (api_MsgUpdateParams \<times> message_info option) option
      \<Rightarrow> api_MsgUpdateParams slow_message \<times> (api_MsgUpdateParams \<times> message_info option) option" where
  "MsgUpdateParams_slowProtoReflect impl = slow_reflect impl (TxFile, 0)"

definition fastReflection_MsgUpdateParams_Descriptor :: "package_state \<Rightarrow> api_MsgUpdateParams option \<Rightarrow> message_decl option" where
  "fastReflection_MsgUpdateParams_Descriptor \<sigma> x = md \<sigma> (TxFile, ''MsgUpdateParams'')"

definition fastReflection_MsgUpdateParams_Type :: "package_state \<Rightarrow> api_MsgUpdateParams option \<Rightarrow> api_MsgUpdateParams message_type" where
  "fastReflection_MsgUpdateParams_Type \<sigma> x = fastReflection_MsgUpdateParams_messageType \<sigma>"

definition fastReflection_MsgUpdateParams_Interface :: "api_MsgUpdateParams option \<Rightarrow> api_MsgUpdateParams option" where
  "fastReflection_MsgUpdateParams_Interface x = x"

definition MsgUpdateParamsResponse_ProtoReflect :: "api_MsgUpdateParamsResponse option \<Rightarrow> api_MsgUpdateParamsResponse option" where
  "MsgUpdateParamsResponse_ProtoReflect x = x"

definition MsgUpdateParamsResponse_slowProtoReflect ::
    "protoimpl \<Rightarrow> (api_MsgUpdateParamsResponse \<times> message_info option) option
      \<Rightarrow> api_MsgUpdateParamsResponse slow_message \<times> (api_MsgUpdateParamsResponse \<times> message_info option) option" where
  "MsgUpdateParamsResponse_slowProtoReflect impl = slow_reflect impl (TxFile, 1)"

definition fastReflection_MsgUpdateParamsResponse_Descriptor :: "package_state \<Rightarrow> api_MsgUpdateParamsResponse option \<Rightarrow> message_decl option" where
  "fastReflection_MsgUpdateParamsResponse_Descriptor \<sigma> x = md \<sigma> (TxFile, ''MsgUpdateParamsResponse'')"

definition fastReflection_MsgUpdateParamsResponse_Type :: "package_state \<Rightarrow> api_MsgUpdateParamsResponse option \<Rightarrow> api_MsgUpdateParamsResponse message_type" where
  "fastReflection_MsgUpdateParamsResponse_Type \<sigma> x = fastReflection_MsgUpdateParamsResponse_messageType \<sigma>"

definition fastReflection_MsgUpdateParamsResponse_Interface :: "api_MsgUpdateParamsResponse option \<Rightarrow> api_MsgUpdateParamsResponse option" where
  "fastReflection_MsgUpdateParamsResponse_Interface x = x"

definition MsgCreateIdentity_ProtoReflect :: "api_MsgCreateIdentity option \<Rightarrow> api_MsgCreateIdentity option" where
  "MsgCreateIdentity_ProtoReflect x = x"

definition MsgCreateIdentity_slowProtoReflect ::
    "protoimpl \<Rightarrow> (api_MsgCreateIdentity \<times> message_info option) option
      \<Rightarrow> api_MsgCreateIdentity slow_message \<times> (api_MsgCreateIdentity \<times> message_info option) option" where
  "MsgCreateIdentity_slowProtoReflect impl = slow_reflect impl (TxFile, 2)"

definition fastReflection_MsgCreateIdentity_Descriptor :: "package_state \<Rightarrow> api_MsgCreateIdentity option \<Rightarrow> message_decl option" where
  "fastReflection_MsgCreateIdentity_Descriptor \<sigma> x = md \<sigma> (TxFile, ''MsgCreateIdentity'')"

definition fastReflection_MsgCreateIdentity_Type :: "package_state \<Rightarrow> api_MsgCreateIdentity option \<Rightarrow> api_MsgCreateIdentity message_type" where
  "fastReflection_MsgCreateIdentity_Type \<sigma> x = fastReflection_MsgCreateIdentity_messageType \<sigma>"

definition fastReflection_MsgCreateIdentity_Interface :: "api_MsgCreateIdentity option \<Rightarrow> api_MsgCreateIdentity option" where
  "fastReflection_MsgCreateIdentity_Interface x = x"

definition MsgCreateIdentityResponse_ProtoReflect :: "api_MsgCreateIdentityResponse option \<Rightarrow> api_MsgCreateIdentityResponse option" where
  "MsgCreateIdentityResponse_ProtoReflect x = x"

definition MsgCreateIdentityResponse_slowProtoReflect ::
    "protoimpl \<Rightarrow> (api_MsgCreateIdentityResponse \<times> message_info option) option
      \<Rightarrow> api_MsgCreateIdentityResponse slow_message \<times> (api_MsgCreateIdentityResponse \<times> message_info option) option" where
  "MsgCreateIdentityResponse_slowProtoReflect impl = slow_reflect impl (TxFile, 3)"

definition fastReflection_MsgCreateIdentityResponse_Descriptor :: "package_state \<Rightarrow> api_MsgCreateIdentityResponse option \<Rightarrow> message_decl option" where
  "fastReflection_MsgCreateIdentityResponse_Descriptor \<sigma> x = md \<sigma> (TxFile, ''MsgCreateIdentityResponse'')"

definition fastReflection_MsgCreateIdentityResponse_Type :: "package_state \<Rightarrow> api_MsgCreateIdentityResponse option \<Rightarrow> api_MsgCreateIdentityResponse message_type" where
  "fastReflection_MsgCreateIdentityResponse_Type \<sigma> x = fastReflection_MsgCreateIdentityResponse_messageType \<sigma>"

definition fastReflection_MsgCreateIdentityResponse_Interface :: "api_MsgCreateIdentityResponse option \<Rightarrow> api_MsgCreateIdentityResponse option" where
  "fastReflection_MsgCreateIdentityResponse_Interface x = x"

definition Module_ProtoReflect :: "api_Module option \<Rightarrow> api_Module option" where
  "Module_ProtoReflect x = x"

definition Module_slowProtoReflect ::
    "protoimpl \<Rightarrow> (api_Module \<times> message_info option) option
      \<Rightarrow> api_Module slow_message \<times> (api_Module \<times> message_info option) option" where
  "Module_slowProtoReflect impl = slow_reflect impl (ModuleFile, 0)"

definition fastReflection_Module_Descriptor :: "package_state \<Rightarrow> api_Module option \<Rightarrow> message_decl option" where
  "fastReflection_Module_Descriptor \<sigma> x = md \<sigma> (ModuleFile, ''Module'')"

definition fastReflection_Module_Type :: "package_state \<Rightarrow> api_Module option \<Rightarrow> api_Module message_type" where
  "fastReflection_Module_Type \<sigma> x = fastReflection_Module_messageType \<sigma>"

definition fastReflection_Module_Interface :: "api_Module option \<Rightarrow> api_Module option" where
  "fastReflection_Module_Interface x = x"

lemmas reflection_defs = GenesisState_ProtoReflect_def fastReflection_GenesisState_Descriptor_def fastReflection_GenesisState_Type_def
  fastReflection_GenesisState_Interface_def fastReflection_GenesisState_messageType_def
  Identity_ProtoReflect_def fastReflection_Identity_Descriptor_def fastReflection_Identity_Type_def
  fastReflection_Identity_Interface_def fastReflection_Identity_messageType_def
  Params_ProtoReflect_def fastReflection_Params_Descriptor_def fastReflection_Params_Type_def
  fastReflection_Params_Interface_def fastReflection_Params_messageType_def
  QueryParamsRequest_ProtoReflect_def fastReflection_QueryParamsRequest_Descriptor_def fastReflection_QueryParamsRequest_Type_def
  fastReflection_QueryParamsRequest_Interface_def fastReflection_QueryParamsRequest_messageType_def
  QueryParamsResponse_ProtoReflect_def fastReflection_QueryParamsResponse_Descriptor_def fastReflection_QueryParamsResponse_Type_def
  fastReflection_QueryParamsResponse_Interface_def fastReflection_QueryParamsResponse_messageType_def
  QueryGetIdentityRequest_ProtoReflect_def fastReflection_QueryGetIdentityRequest_Descriptor_def fastReflection_QueryGetIdentityRequest_Type_def
  fastReflection_QueryGetIdentityRequest_Interface_def fastReflection_QueryGetIdentityRequest_messageType_def
  QueryGetIdentityResponse_ProtoReflect_def fastReflection_QueryGetIdentityResponse_Descriptor_def fastReflection_QueryGetIdentityResponse_Type_def
  fastReflection_QueryGetIdentityResponse_Interface_def fastReflection_QueryGetIdentityResponse_messageType_def
  QueryAllIdentityRequest_ProtoReflect_def fastReflection_QueryAllIdentityRequest_Descriptor_def fastReflection_QueryAllIdentityRequest_Type_def
  fastReflection_QueryAllIdentityRequest_Interface_def fastReflection_QueryAllIdentityRequest_messageType_def
  QueryAllIdentityResponse_ProtoReflect_def fastReflection_QueryAllIdentityResponse_Descriptor_def fastReflection_QueryAllIdentityResponse_Type_def
  fastReflection_QueryAllIdentityResponse_Interface_def fastReflection_QueryAllIdentityResponse_messageType_def
  QueryIdentityByCccdIdRequest_ProtoReflect_def fastReflection_QueryIdentityByCccdIdRequest_Descriptor_def fastReflection_QueryIdentityByCccdIdRequest_Type_def
  fastReflection_QueryIdentityByCccdIdRequest_Interface_def fastReflection_QueryIdentityByCccdIdRequest_messageType_def
  QueryIdentityByCccdIdResponse_ProtoReflect_def fastReflection_QueryIdentityByCccdIdResponse_Descriptor_def fastReflection_QueryIdentityByCccdIdResponse_Type_def
  fastReflection_QueryIdentityByCccdIdResponse_Interface_def fastReflection_QueryIdentityByCccdIdResponse_messageType_def
  MsgUpdateParams_ProtoReflect_def fastReflection_MsgUpdateParams_Descriptor_def fastReflection_MsgUpdateParams_Type_def
  fastReflection_MsgUpdateParams_Interface_def fastReflection_MsgUpdateParams_messageType_def
  MsgUpdateParamsResponse_ProtoReflect_def fastReflection_MsgUpdateParamsResponse_Descriptor_def fastReflection_MsgUpdateParamsResponse_Type_def
  fastReflection_MsgUpdateParamsResponse_Interface_def fastReflection_MsgUpdateParamsResponse_messageType_def
  MsgCreateIdentity_ProtoReflect_def fastReflection_MsgCreateIdentity_Descriptor_def fastReflection_MsgCreateIdentity_Type_def
  fastReflection_MsgCreateIdentity_Interface_def fastReflection_MsgCreateIdentity_messageType_def
  MsgCreateIdentityResponse_ProtoReflect_def fastReflection_MsgCreateIdentityResponse_Descriptor_def fastReflection_MsgCreateIdentityResponse_Type_def
  fastReflection_MsgCreateIdentityResponse_Interface_def fastReflection_MsgCreateIdentityResponse_messageType_def
  Module_ProtoReflect_def fastReflection_Module_Descriptor_def fastReflection_Module_Type_def
  fastReflection_Module_Interface_def fastReflection_Module_messageType_def

lemmas slow_defs = GenesisState_slowProtoReflect_def
  Identity_slowProtoReflect_def
  Params_slowProtoReflect_def
  QueryParamsRequest_slowProtoReflect_def
  QueryParamsResponse_slowProtoReflect_def
  QueryGetIdentityRequest_slowProtoReflect_def
  QueryGetIdentityResponse_slowProtoReflect_def
  QueryAllIdentityRequest_slowProtoReflect_def
  QueryAllIdentityResponse_slowProtoReflect_def
  QueryIdentityByCccdIdRequest_slowProtoReflect_def
  QueryIdentityByCccdIdResponse_slowProtoReflect_def
  MsgUpdateParams_slowProtoReflect_def
  MsgUpdateParamsResponse_slowProtoReflect_def
  MsgCreateIdentity_slowProtoReflect_def
  MsgCreateIdentityResponse_slowProtoReflect_def
  Module_slowProtoReflect_def

section \<open>One descriptor\<close>

text \<open>
  \<open>reflects \<sigma> decl zero to_refl desc typ face\<close>: the descriptor and the type of a message's reflection agree on
  what the file declares, the type makes empty messages, and there is a way back from the reflection.
\<close>

definition reflects ::
    "message_decl \<Rightarrow> 'm \<Rightarrow> ('m option \<Rightarrow> 'm option) \<Rightarrow> ('m option \<Rightarrow> message_decl option)
      \<Rightarrow> ('m option \<Rightarrow> 'm message_type) \<Rightarrow> ('m option \<Rightarrow> 'm option) \<Rightarrow> bool" where
  "reflects decl zero to_refl desc typ face \<longleftrightarrow>
     (\<forall>x. desc (to_refl x) = Some decl \<and> mt_Descriptor (typ (to_refl x)) = Some decl
        \<and> mt_Zero (typ (to_refl x)) = None \<and> mt_New (typ (to_refl x)) = Some zero \<and> face (to_refl x) = x)"

lemma packages_messages:
  assumes "protoimpl_lawful impl"
  obtains \<sigma> where "run_inits (package_inits impl @ module_package_inits impl) initial_state = Ok \<sigma>"
    "list_all (\<lambda>(f, n, D). md \<sigma> (f, n) = messages_ByName (decl_of f) n) api_messages"
proof -
  obtain \<sigma> where s: "run_inits (package_inits impl @ module_package_inits impl) initial_state = Ok \<sigma>"
      "state_good \<sigma>" "list_all (reached \<sigma>) (concat package_targets)"
    using packages_advance [OF assms] initial_good by (auto simp: advances_def)
  have "list_all (\<lambda>(f, n, D). reached \<sigma> (MessageTarget f n)) api_messages"
    using targets_of_messages [OF s(3)] by blast
  then have "list_all (\<lambda>(f, n, D). md \<sigma> (f, n) = messages_ByName (decl_of f) n) api_messages"
    by (rule list.pred_mono_strong) (use s(2) in \<open>auto simp: state_good_def\<close>)
  with s(1) show thesis by (rule that)
qed

lemma file_messages:
  "messages identity_genesis_proto_decl = [GenesisState_decl]"
  "messages identity_identity_proto_decl = [Identity_decl]"
  "messages identity_params_proto_decl = [Params_decl]"
  "messages identity_query_proto_decl = [QueryParamsRequest_decl, QueryParamsResponse_decl, QueryGetIdentityRequest_decl, QueryGetIdentityResponse_decl, QueryAllIdentityRequest_decl, QueryAllIdentityResponse_decl, QueryIdentityByCccdIdRequest_decl, QueryIdentityByCccdIdResponse_decl]"
  "messages identity_tx_proto_decl = [MsgUpdateParams_decl, MsgUpdateParamsResponse_decl, MsgCreateIdentity_decl, MsgCreateIdentityResponse_decl]"
  "messages identity_module_module_proto_decl = [Module_decl]"
  by (simp_all add: identity_identity_proto_decl_def identity_params_proto_decl_def identity_genesis_proto_decl_def
      identity_query_proto_decl_def identity_tx_proto_decl_def identity_module_module_proto_decl_def)

lemma message_names:
  "message_name GenesisState_decl = ''GenesisState''"
  "message_name Identity_decl = ''Identity''"
  "message_name Params_decl = ''Params''"
  "message_name QueryParamsRequest_decl = ''QueryParamsRequest''"
  "message_name QueryParamsResponse_decl = ''QueryParamsResponse''"
  "message_name QueryGetIdentityRequest_decl = ''QueryGetIdentityRequest''"
  "message_name QueryGetIdentityResponse_decl = ''QueryGetIdentityResponse''"
  "message_name QueryAllIdentityRequest_decl = ''QueryAllIdentityRequest''"
  "message_name QueryAllIdentityResponse_decl = ''QueryAllIdentityResponse''"
  "message_name QueryIdentityByCccdIdRequest_decl = ''QueryIdentityByCccdIdRequest''"
  "message_name QueryIdentityByCccdIdResponse_decl = ''QueryIdentityByCccdIdResponse''"
  "message_name MsgUpdateParams_decl = ''MsgUpdateParams''"
  "message_name MsgUpdateParamsResponse_decl = ''MsgUpdateParamsResponse''"
  "message_name MsgCreateIdentity_decl = ''MsgCreateIdentity''"
  "message_name MsgCreateIdentityResponse_decl = ''MsgCreateIdentityResponse''"
  "message_name Module_decl = ''Module''"
  by (simp_all add: message_decl_defs)

text \<open>
  After the inits of both packages, the reflection of every message describes it as its file does;
  and the variable that the slow path uses is the one of that message.
\<close>

theorem reflections_described:
  assumes "protoimpl_lawful impl"
  shows "\<exists>\<sigma>. run_inits (package_inits impl @ module_package_inits impl) initial_state = Ok \<sigma>
    \<and> reflects GenesisState_decl zero_api_GenesisState GenesisState_ProtoReflect (fastReflection_GenesisState_Descriptor \<sigma>)
        (fastReflection_GenesisState_Type \<sigma>) fastReflection_GenesisState_Interface
    \<and> reflects Identity_decl zero_api_Identity Identity_ProtoReflect (fastReflection_Identity_Descriptor \<sigma>)
        (fastReflection_Identity_Type \<sigma>) fastReflection_Identity_Interface
    \<and> reflects Params_decl zero_api_Params Params_ProtoReflect (fastReflection_Params_Descriptor \<sigma>)
        (fastReflection_Params_Type \<sigma>) fastReflection_Params_Interface
    \<and> reflects QueryParamsRequest_decl zero_api_QueryParamsRequest QueryParamsRequest_ProtoReflect (fastReflection_QueryParamsRequest_Descriptor \<sigma>)
        (fastReflection_QueryParamsRequest_Type \<sigma>) fastReflection_QueryParamsRequest_Interface
    \<and> reflects QueryParamsResponse_decl zero_api_QueryParamsResponse QueryParamsResponse_ProtoReflect (fastReflection_QueryParamsResponse_Descriptor \<sigma>)
        (fastReflection_QueryParamsResponse_Type \<sigma>) fastReflection_QueryParamsResponse_Interface
    \<and> reflects QueryGetIdentityRequest_decl zero_api_QueryGetIdentityRequest QueryGetIdentityRequest_ProtoReflect (fastReflection_QueryGetIdentityRequest_Descriptor \<sigma>)
        (fastReflection_QueryGetIdentityRequest_Type \<sigma>) fastReflection_QueryGetIdentityRequest_Interface
    \<and> reflects QueryGetIdentityResponse_decl zero_api_QueryGetIdentityResponse QueryGetIdentityResponse_ProtoReflect (fastReflection_QueryGetIdentityResponse_Descriptor \<sigma>)
        (fastReflection_QueryGetIdentityResponse_Type \<sigma>) fastReflection_QueryGetIdentityResponse_Interface
    \<and> reflects QueryAllIdentityRequest_decl zero_api_QueryAllIdentityRequest QueryAllIdentityRequest_ProtoReflect (fastReflection_QueryAllIdentityRequest_Descriptor \<sigma>)
        (fastReflection_QueryAllIdentityRequest_Type \<sigma>) fastReflection_QueryAllIdentityRequest_Interface
    \<and> reflects QueryAllIdentityResponse_decl zero_api_QueryAllIdentityResponse QueryAllIdentityResponse_ProtoReflect (fastReflection_QueryAllIdentityResponse_Descriptor \<sigma>)
        (fastReflection_QueryAllIdentityResponse_Type \<sigma>) fastReflection_QueryAllIdentityResponse_Interface
    \<and> reflects QueryIdentityByCccdIdRequest_decl zero_api_QueryIdentityByCccdIdRequest QueryIdentityByCccdIdRequest_ProtoReflect (fastReflection_QueryIdentityByCccdIdRequest_Descriptor \<sigma>)
        (fastReflection_QueryIdentityByCccdIdRequest_Type \<sigma>) fastReflection_QueryIdentityByCccdIdRequest_Interface
    \<and> reflects QueryIdentityByCccdIdResponse_decl zero_api_QueryIdentityByCccdIdResponse QueryIdentityByCccdIdResponse_ProtoReflect (fastReflection_QueryIdentityByCccdIdResponse_Descriptor \<sigma>)
        (fastReflection_QueryIdentityByCccdIdResponse_Type \<sigma>) fastReflection_QueryIdentityByCccdIdResponse_Interface
    \<and> reflects MsgUpdateParams_decl zero_api_MsgUpdateParams MsgUpdateParams_ProtoReflect (fastReflection_MsgUpdateParams_Descriptor \<sigma>)
        (fastReflection_MsgUpdateParams_Type \<sigma>) fastReflection_MsgUpdateParams_Interface
    \<and> reflects MsgUpdateParamsResponse_decl zero_api_MsgUpdateParamsResponse MsgUpdateParamsResponse_ProtoReflect (fastReflection_MsgUpdateParamsResponse_Descriptor \<sigma>)
        (fastReflection_MsgUpdateParamsResponse_Type \<sigma>) fastReflection_MsgUpdateParamsResponse_Interface
    \<and> reflects MsgCreateIdentity_decl zero_api_MsgCreateIdentity MsgCreateIdentity_ProtoReflect (fastReflection_MsgCreateIdentity_Descriptor \<sigma>)
        (fastReflection_MsgCreateIdentity_Type \<sigma>) fastReflection_MsgCreateIdentity_Interface
    \<and> reflects MsgCreateIdentityResponse_decl zero_api_MsgCreateIdentityResponse MsgCreateIdentityResponse_ProtoReflect (fastReflection_MsgCreateIdentityResponse_Descriptor \<sigma>)
        (fastReflection_MsgCreateIdentityResponse_Type \<sigma>) fastReflection_MsgCreateIdentityResponse_Interface
    \<and> reflects Module_decl zero_api_Module Module_ProtoReflect (fastReflection_Module_Descriptor \<sigma>)
        (fastReflection_Module_Type \<sigma>) fastReflection_Module_Interface"
proof -
  obtain \<sigma> where s: "run_inits (package_inits impl @ module_package_inits impl) initial_state = Ok \<sigma>"
      "list_all (\<lambda>(f, n, D). md \<sigma> (f, n) = messages_ByName (decl_of f) n) api_messages"
    using packages_messages [OF assms] .
  have d: "md \<sigma> (GenesisFile, ''GenesisState'') = Some GenesisState_decl"
    "md \<sigma> (IdentityFile, ''Identity'') = Some Identity_decl"
    "md \<sigma> (ParamsFile, ''Params'') = Some Params_decl"
    "md \<sigma> (QueryFile, ''QueryParamsRequest'') = Some QueryParamsRequest_decl"
    "md \<sigma> (QueryFile, ''QueryParamsResponse'') = Some QueryParamsResponse_decl"
    "md \<sigma> (QueryFile, ''QueryGetIdentityRequest'') = Some QueryGetIdentityRequest_decl"
    "md \<sigma> (QueryFile, ''QueryGetIdentityResponse'') = Some QueryGetIdentityResponse_decl"
    "md \<sigma> (QueryFile, ''QueryAllIdentityRequest'') = Some QueryAllIdentityRequest_decl"
    "md \<sigma> (QueryFile, ''QueryAllIdentityResponse'') = Some QueryAllIdentityResponse_decl"
    "md \<sigma> (QueryFile, ''QueryIdentityByCccdIdRequest'') = Some QueryIdentityByCccdIdRequest_decl"
    "md \<sigma> (QueryFile, ''QueryIdentityByCccdIdResponse'') = Some QueryIdentityByCccdIdResponse_decl"
    "md \<sigma> (TxFile, ''MsgUpdateParams'') = Some MsgUpdateParams_decl"
    "md \<sigma> (TxFile, ''MsgUpdateParamsResponse'') = Some MsgUpdateParamsResponse_decl"
    "md \<sigma> (TxFile, ''MsgCreateIdentity'') = Some MsgCreateIdentity_decl"
    "md \<sigma> (TxFile, ''MsgCreateIdentityResponse'') = Some MsgCreateIdentityResponse_decl"
    "md \<sigma> (ModuleFile, ''Module'') = Some Module_decl"
   
    using s(2) by (simp_all add: api_messages_def messages_ByName_def file_messages message_names)
  show ?thesis
    by (intro exI [of _ \<sigma>] conjI s(1)) (simp_all add: reflects_def reflection_defs d)
qed

theorem slow_paths_indexed:
  "GenesisState_slowProtoReflect impl = slow_reflect impl (GenesisFile, 0) \<and> message_name (messages (decl_of GenesisFile) ! 0) = ''GenesisState''
   \<and> Identity_slowProtoReflect impl = slow_reflect impl (IdentityFile, 0) \<and> message_name (messages (decl_of IdentityFile) ! 0) = ''Identity''
   \<and> Params_slowProtoReflect impl = slow_reflect impl (ParamsFile, 0) \<and> message_name (messages (decl_of ParamsFile) ! 0) = ''Params''
   \<and> QueryParamsRequest_slowProtoReflect impl = slow_reflect impl (QueryFile, 0) \<and> message_name (messages (decl_of QueryFile) ! 0) = ''QueryParamsRequest''
   \<and> QueryParamsResponse_slowProtoReflect impl = slow_reflect impl (QueryFile, 1) \<and> message_name (messages (decl_of QueryFile) ! 1) = ''QueryParamsResponse''
   \<and> QueryGetIdentityRequest_slowProtoReflect impl = slow_reflect impl (QueryFile, 2) \<and> message_name (messages (decl_of QueryFile) ! 2) = ''QueryGetIdentityRequest''
   \<and> QueryGetIdentityResponse_slowProtoReflect impl = slow_reflect impl (QueryFile, 3) \<and> message_name (messages (decl_of QueryFile) ! 3) = ''QueryGetIdentityResponse''
   \<and> QueryAllIdentityRequest_slowProtoReflect impl = slow_reflect impl (QueryFile, 4) \<and> message_name (messages (decl_of QueryFile) ! 4) = ''QueryAllIdentityRequest''
   \<and> QueryAllIdentityResponse_slowProtoReflect impl = slow_reflect impl (QueryFile, 5) \<and> message_name (messages (decl_of QueryFile) ! 5) = ''QueryAllIdentityResponse''
   \<and> QueryIdentityByCccdIdRequest_slowProtoReflect impl = slow_reflect impl (QueryFile, 6) \<and> message_name (messages (decl_of QueryFile) ! 6) = ''QueryIdentityByCccdIdRequest''
   \<and> QueryIdentityByCccdIdResponse_slowProtoReflect impl = slow_reflect impl (QueryFile, 7) \<and> message_name (messages (decl_of QueryFile) ! 7) = ''QueryIdentityByCccdIdResponse''
   \<and> MsgUpdateParams_slowProtoReflect impl = slow_reflect impl (TxFile, 0) \<and> message_name (messages (decl_of TxFile) ! 0) = ''MsgUpdateParams''
   \<and> MsgUpdateParamsResponse_slowProtoReflect impl = slow_reflect impl (TxFile, 1) \<and> message_name (messages (decl_of TxFile) ! 1) = ''MsgUpdateParamsResponse''
   \<and> MsgCreateIdentity_slowProtoReflect impl = slow_reflect impl (TxFile, 2) \<and> message_name (messages (decl_of TxFile) ! 2) = ''MsgCreateIdentity''
   \<and> MsgCreateIdentityResponse_slowProtoReflect impl = slow_reflect impl (TxFile, 3) \<and> message_name (messages (decl_of TxFile) ! 3) = ''MsgCreateIdentityResponse''
   \<and> Module_slowProtoReflect impl = slow_reflect impl (ModuleFile, 0) \<and> message_name (messages (decl_of ModuleFile) ! 0) = ''Module''"
  by (simp add: slow_defs file_messages message_names)

end
