(* ===== verification/Registry.thy ===== *)
theory Registry
  imports Access_Properties
begin

text \<open>
  The chain as an abstract registry: a height and a map from addresses to identities, which
  transactions extend and nothing else changes. The steps of \<open>Chain\<close> and those of the registry
  simulate each other.
\<close>

section \<open>Refinement of step relations\<close>

text \<open>
  An implementation with an invariant and an abstraction function: its steps are abstract steps,
  and every abstract step can be taken.
\<close>

locale exact_refinement =
  fixes step :: "'s \<Rightarrow> 's \<Rightarrow> bool" and inv :: "'s \<Rightarrow> bool" and abs :: "'s \<Rightarrow> 'a" and abs_step :: "'a \<Rightarrow> 'a \<Rightarrow> bool"
  assumes sound: "inv s \<Longrightarrow> step s t \<Longrightarrow> inv t \<and> abs_step (abs s) (abs t)"
    and complete: "inv s \<Longrightarrow> abs_step (abs s) b \<Longrightarrow> \<exists>t. step s t \<and> abs t = b"
begin

lemma steps_sound:
  assumes "step\<^sup>*\<^sup>* s t" "inv s"
  shows "inv t \<and> abs_step\<^sup>*\<^sup>* (abs s) (abs t)"
  using assms
proof (induction rule: rtranclp_induct)
  case (step t u)
  then show ?case using sound [of t u] rtranclp.rtrancl_into_rtrancl by metis
qed simp

lemma steps_complete:
  assumes "abs_step\<^sup>*\<^sup>* (abs s) b" "inv s"
  shows "\<exists>t. step\<^sup>*\<^sup>* s t \<and> abs t = b"
  using assms
proof (induction rule: rtranclp_induct)
  case (step b c)
  then obtain t where t: "step\<^sup>*\<^sup>* s t" "abs t = b" by blast
  with step.prems have "inv t" using steps_sound by blast
  with step.hyps(2) t(2) obtain u where "step t u" "abs u = c" using complete by blast
  with t(1) show ?case using rtranclp.rtrancl_into_rtrancl by metis
qed blast

text \<open>The abstractions of what is reached are exactly what the specification reaches.\<close>

lemma reached_exact:
  assumes "inv s"
  shows "abs ` {t. step\<^sup>*\<^sup>* s t} = {b. abs_step\<^sup>*\<^sup>* (abs s) b}"
  using steps_sound [OF _ assms] steps_complete [OF _ assms] by blast

end

section \<open>The registry\<close>

text \<open>
  What a registration needs: it passes its own check; and after genesis the canonical spelling of
  its creator must be registered already.
\<close>

definition admitted ::
    "bech32_decoder \<Rightarrow> (bytes \<Rightarrow> string) \<Rightarrow> int \<Rightarrow> (string \<rightharpoonup> Identity) \<Rightarrow> MsgCreateIdentity \<Rightarrow> bool" where
  "admitted acc str h m msg \<longleftrightarrow> MsgCreateIdentity_ValidateBasic acc msg = Ok () \<and> small_creator msg
     \<and> (h \<noteq> 0 \<longrightarrow> Creator msg \<noteq> '''' \<and> (\<exists>a. acc (Creator msg) = Inr a \<and> str a \<in> dom m))"

definition registrations :: "u64 \<Rightarrow> MsgCreateIdentity list \<Rightarrow> string \<rightharpoonup> Identity" where
  "registrations now msgs = map_of (map (\<lambda>msg. (Creator msg, identity_of now msg)) msgs)"

text \<open>A transaction registers all of its messages at one time, or none; an empty list is a stutter.\<close>

inductive registry_step ::
    "bech32_decoder \<Rightarrow> (bytes \<Rightarrow> string) \<Rightarrow> int \<times> (string \<rightharpoonup> Identity) \<Rightarrow> int \<times> (string \<rightharpoonup> Identity) \<Rightarrow> bool"
  for acc str where
  register: "distinct (map Creator msgs) \<Longrightarrow> \<forall>msg \<in> set msgs. m (Creator msg) = None \<and> admitted acc str h m msg
    \<Longrightarrow> registry_step acc str (h, m) (h, m ++ registrations now msgs)"
| tick: "registry_step acc str (h, m) (h + 1, m)"

inductive_cases registry_stepE: "registry_step acc str (h, m) b"

lemma registrations_Cons:
  "Creator msg \<notin> Creator ` set msgs
    \<Longrightarrow> m(Creator msg \<mapsto> identity_of now msg) ++ registrations now msgs = m ++ registrations now (msg # msgs)"
proof -
  assume "Creator msg \<notin> Creator ` set msgs"
  then have "Creator msg \<notin> dom (registrations now msgs)"
    by (simp add: registrations_def dom_map_of_conv_image_fst image_image)
  then show ?thesis by (simp add: map_add_upd_left) (simp add: registrations_def)
qed

section \<open>From transactions to registrations\<close>

fun creations :: "call list \<Rightarrow> MsgCreateIdentity list" where
  "creations [] = []"
| "creations (CreateCall msg # cs) = msg # creations cs"
| "creations (UpdateCall req # cs) = creations cs"
| "creations (ForeignCall msg # cs) = creations cs"

lemma set_creations: "msg \<in> set (creations cs) \<longleftrightarrow> CreateCall msg \<in> set cs"
  by (induction cs rule: creations.induct) auto

lemma creations_map: "creations (map CreateCall msgs) = msgs"
  by (induction msgs) simp_all

lemma run_calls_registers:
  assumes "keeper_inv k s" "\<forall>c \<in> set cs. small_call c" "run_calls k now s cs = Ok s'"
  shows "keeper_inv k s' \<and> distinct (map Creator (creations cs))
    \<and> (\<forall>msg \<in> set (creations cs). identities k s (Creator msg) = None)
    \<and> identities k s' = identities k s ++ registrations now (creations cs)"
  using assms
proof (induction cs arbitrary: s rule: creations.induct)
  case 1
  then show ?case by (simp add: registrations_def)
next
  case (2 msg cs)
  then obtain t r where t: "CreateIdentity k now s msg = Ok (t, r)" "run_calls k now t cs = Ok s'"
    by (auto simp: res_simps)
  from 2(3) have "small_creator msg" by simp
  note c = CreateIdentity_OkD [OF 2(2) this t(1)]
  have ih: "keeper_inv k s' \<and> distinct (map Creator (creations cs))
      \<and> (\<forall>msg \<in> set (creations cs). identities k t (Creator msg) = None)
      \<and> identities k s' = identities k t ++ registrations now (creations cs)"
    using 2(1) [OF c(2) _ t(2)] 2(3) by simp
  then have new: "Creator m \<noteq> Creator msg \<and> identities k s (Creator m) = None" if "m \<in> set (creations cs)" for m
    using that c(3) by (metis fun_upd_apply option.distinct(1))
  then have "Creator msg \<notin> Creator ` set (creations cs)" by (metis imageE)
  with registrations_Cons ih c(1,3) new show ?case by auto
next
  case (3 req cs)
  then obtain t r where t: "UpdateParams k s req = Ok (t, r)" "run_calls k now t cs = Ok s'"
    by (auto simp: res_simps)
  note u = UpdateParams_OkD [OF 3(2) t(1)]
  show ?case using 3(1) [OF u(2) _ t(2)] 3(3) u(3) by simp
qed simp

lemma run_creations:
  assumes "keeper_inv k s" "distinct (map Creator msgs)"
    and "\<forall>msg \<in> set msgs. identities k s (Creator msg) = None \<and> small_creator msg"
  shows "\<exists>s'. run_calls k now s (map CreateCall msgs) = Ok s'"
  using assms
proof (induction msgs arbitrary: s)
  case (Cons msg msgs)
  obtain t where t: "CreateIdentity k now s msg = Ok (t, MsgCreateIdentityResponse)" "keeper_inv k t"
      "identities k t = (identities k s)(Creator msg \<mapsto> identity_of now msg)"
    using CreateIdentity_new [OF Cons.prems(1), of msg now] Cons.prems(3) by auto
  have "\<forall>m \<in> set msgs. identities k t (Creator m) = None \<and> small_creator m"
    using Cons.prems(2,3) t(3) by (auto simp: image_iff)
  with Cons.IH [OF t(2)] Cons.prems(2) t(1) show ?case by simp
qed simp

lemma validate_creations:
  "(validate_calls acc (map CreateCall msgs) = Ok ()) \<longleftrightarrow> (\<forall>msg \<in> set msgs. MsgCreateIdentity_ValidateBasic acc msg = Ok ())"
  by (induction msgs) (auto simp: res_simps)

lemma validate_calls_Ok:
  "validate_calls acc cs = Ok u \<Longrightarrow> CreateCall msg \<in> set cs \<Longrightarrow> MsgCreateIdentity_ValidateBasic acc msg = Ok ()"
  by (induction cs) (auto simp: res_simps)

section \<open>The chain refines the registry\<close>

lemma deliver_registers:
  assumes "keeper_inv k s" "\<forall>c \<in> set calls. small_call c" "deliver_tx acc str k h now s calls = Ok s'"
  shows "keeper_inv k s' \<and> registry_step acc str (h, identities k s) (h, identities k s')"
proof -
  note r = run_calls_registers [OF assms(1,2) deliver_tx_runs(1) [OF assms(1,3)]]
  have "admitted acc str h (identities k s) msg" if m: "msg \<in> set (creations calls)" for msg
  proof -
    have c: "CreateCall msg \<in> set calls" using m by (simp add: set_creations)
    obtain u where "validate_calls acc calls = Ok u" using assms(3) by (auto simp: deliver_tx_def res_simps)
    then have "MsgCreateIdentity_ValidateBasic acc msg = Ok ()" using c by (rule validate_calls_Ok)
    moreover have "small_creator msg" using assms(2) c by auto
    moreover have "Creator msg \<noteq> '''' \<and> (\<exists>a. acc (Creator msg) = Inr a \<and> str a \<in> dom (identities k s))" if h: "h \<noteq> 0"
    proof -
      have "msg_allowed acc str k s (call_msg (CreateCall msg))"
        using deliver_tx_runs(2) [OF assms(1,3) h] c by blast
      then show ?thesis unfolding create_allowed by (auto simp: registered_def)
    qed
    ultimately show ?thesis by (simp add: admitted_def)
  qed
  then have "registry_step acc str (h, identities k s) (h, identities k s ++ registrations now (creations calls))"
    using r by (intro registry_step.register) simp_all
  with r show ?thesis by simp
qed

lemma proposal_registers:
  assumes "keeper_inv k s" "UpdateParams k s req = Ok (s', r)"
  shows "keeper_inv k s' \<and> registry_step acc str (h, identities k s) (h, identities k s')"
  using UpdateParams_OkD [OF assms] registry_step.register [of "[]" "identities k s" acc str h]
  by (simp add: registrations_def)

lemma registers_delivered:
  assumes "keeper_inv k s" "distinct (map Creator msgs)"
    and "\<forall>msg \<in> set msgs. identities k s (Creator msg) = None \<and> admitted acc str h (identities k s) msg"
  shows "\<exists>s'. deliver_tx acc str k h now s (map CreateCall msgs) = Ok s' \<and> (\<forall>c \<in> set (map CreateCall msgs). small_call c)
    \<and> identities k s' = identities k s ++ registrations now msgs"
proof -
  have small: "\<forall>c \<in> set (map CreateCall msgs). small_call c" using assms(3) by (auto simp: admitted_def)
  obtain s' where run: "run_calls k now s (map CreateCall msgs) = Ok s'"
    using run_creations [OF assms(1,2), of now] assms(3) unfolding admitted_def by blast
  have "msg_allowed acc str k s (call_msg (CreateCall msg))" if "h \<noteq> 0" "msg \<in> set msgs" for msg
    using that assms(3) unfolding create_allowed by (auto simp: admitted_def registered_def)
  then have "AnteHandle acc str k h s (map call_msg (map CreateCall msgs)) False (\<lambda>s tx simulate. Ok s) = Ok s"
    using check_msgs_Ok [OF assms(1), of acc str "map call_msg (map CreateCall msgs)"] by (auto simp: AnteHandle_def)
  moreover have "validate_calls acc (map CreateCall msgs) = Ok ()"
    using assms(3) by (auto simp: validate_creations admitted_def)
  ultimately have "deliver_tx acc str k h now s (map CreateCall msgs) = Ok s'"
    using run by (simp add: deliver_tx_def)
  with small run_calls_registers [OF assms(1) small run] show ?thesis by (auto simp: creations_map)
qed

interpretation chain_registry: exact_refinement "chain_step acc str k" "\<lambda>(h, s). keeper_inv k s"
    "\<lambda>(h, s). (h, identities k s)" "registry_step acc str" for acc str k
proof (unfold_locales, goal_cases)
  case (1 s t)
  then show ?case
    by (cases s; cases t) (auto elim!: chain_stepE intro: registry_step.tick dest: deliver_registers proposal_registers)
next
  case (2 s b)
  then show ?case
  proof (cases s)
    case (Pair h u)
    with 2 have inv: "keeper_inv k u" and "registry_step acc str (h, identities k u) b" by simp_all
    from this(2) show ?thesis
    proof (rule registry_stepE)
      fix msgs now
      assume b: "b = (h, identities k u ++ registrations now msgs)" and d: "distinct (map Creator msgs)"
        and a: "\<forall>msg \<in> set msgs. identities k u (Creator msg) = None \<and> admitted acc str h (identities k u) msg"
      obtain v where "deliver_tx acc str k h now u (map CreateCall msgs) = Ok v"
          "\<forall>c \<in> set (map CreateCall msgs). small_call c" "identities k v = identities k u ++ registrations now msgs"
        using registers_delivered [OF inv d a] by blast
      then show ?thesis using Pair b by (intro exI [of _ "(h, v)"]) (simp add: chain_step.deliver [of acc str k h now u "map CreateCall msgs"])
    next
      assume "b = (h + 1, identities k u)"
      then show ?thesis using Pair by (intro exI [of _ "(h + 1, u)"]) (simp add: chain_step.next_block)
    qed
  qed
qed

section \<open>Properties\<close>



end
