(* ===== verification/TestUtil.thy ===== *)
theory TestUtil
  imports Genesis_Properties
begin

text \<open>
  The helpers under \<open>testutil\<close> and the page of \<open>docs/docs.go\<close>: \<open>nullify.Fill\<close>, which the tests apply to
  what they compare, the keeper and the network that tests are run on, sample addresses, and the
  routes of the API console. The packages \<open>store\<close>, \<open>network\<close>, \<open>ed25519\<close> and \<open>mux\<close> are parameters.
\<close>

section \<open>nullify.Fill\<close>

text \<open>
  Go values as \<open>reflect\<close> shows them: a slice may be nil, a struct has the name of its type and its
  fields with whether they are exported, a pointer may be nil. Values are trees: nothing is shared.
\<close>

datatype go_value =
    Text string
  | Number u64
  | Slice "go_value list option"
  | Struct string "(bool \<times> go_value) list"
  | Pointer "go_value option"

definition coinType :: string where
  "coinType = ''github.com/cosmos/cosmos-sdk/types.Coin''"

definition coinsType :: string where
  "coinsType = ''github.com/cosmos/cosmos-sdk/types.Coins''"

text \<open>\<open>Coin{}\<close>: an empty denomination and an amount whose unexported pointer is nil.\<close>

definition zero_coin :: go_value where
  "zero_coin = Struct coinType [(True, Text ''''), (True, Struct ''cosmossdk.io/math.Int'' [(False, Pointer None)])]"

text \<open>
  \<open>fill a v\<close> is \<open>Fill\<close> on a value that \<open>reflect.Indirect\<close> has reached; \<open>a\<close> says whether it is addressable,
  that is, whether the argument was a pointer to it. A pointer that is still there is dereferenced
  at the end, so that setting it as an element of a slice of pointers panics.
  Only exported fields that are addressable can be set; the target of a pointer is.
\<close>

fun fill :: "bool \<Rightarrow> go_value \<Rightarrow> go_value res"
  and fill_elements :: "go_value list \<Rightarrow> go_value list res"
  and fill_fields :: "bool \<Rightarrow> (bool \<times> go_value) list \<Rightarrow> (bool \<times> go_value) list res"
  and fill_field :: "bool \<Rightarrow> go_value \<Rightarrow> go_value res" where
  "fill a (Slice (Some xs)) = bind_res (fill_elements xs) (\<lambda>xs. Ok (Slice (Some xs)))"
| "fill a (Struct t fs) = bind_res (fill_fields a fs) (\<lambda>fs. Ok (Struct t fs))"
| "fill a (Pointer None) = Panic"
| "fill a (Pointer (Some v)) = Ok v"
| "fill a v = Ok v"
| "fill_elements [] = Ok []"
| "fill_elements (Pointer p # xs) = Panic"
| "fill_elements (x # xs) = bind_res (fill True x) (\<lambda>x. bind_res (fill_elements xs) (\<lambda>xs. Ok (x # xs)))"
| "fill_fields a [] = Ok []"
| "fill_fields a ((exported, Pointer (Some v)) # fs) =
     bind_res (fill_field exported v) (\<lambda>v. bind_res (fill_fields a fs) (\<lambda>fs. Ok ((exported, Pointer (Some v)) # fs)))"
| "fill_fields a ((exported, f) # fs) =
     bind_res (fill_field (exported \<and> a) f) (\<lambda>f. bind_res (fill_fields a fs) (\<lambda>fs. Ok ((exported, f) # fs)))"
| "fill_field settable (Slice xs) = Ok (if settable then Slice (Some []) else Slice xs)"
| "fill_field settable (Struct t fs) =
     (if \<not> settable then Ok (Struct t fs)
      else if t = coinType then Ok zero_coin
      else if t = coinsType then Ok (Slice None)
      else fill True (Struct t fs))"
| "fill_field settable v = Ok v"

definition Fill :: "go_value \<Rightarrow> go_value res" where
  "Fill x = (case x of Pointer None \<Rightarrow> Panic | Pointer (Some v) \<Rightarrow> fill True v | v \<Rightarrow> fill False v)"

section \<open>What Fill forgets\<close>

text \<open>
  Two structs that differ in nothing but the contents of exported slices are the same after \<open>Fill\<close>
  through a pointer: every such slice is replaced by an empty one, not only nil and empty ones.
\<close>

definition same_but_slices :: "bool \<times> go_value \<Rightarrow> bool \<times> go_value \<Rightarrow> bool" where
  "same_but_slices p q \<longleftrightarrow> p = q \<or> (\<exists>xs ys. p = (True, Slice xs) \<and> q = (True, Slice ys))"

lemma fill_fields_forgets:
  assumes "list_all2 same_but_slices fs gs"
  shows "fill_fields True fs = fill_fields True gs"
  using assms
proof (induction rule: list_all2_induct)
  case (Cons p fs q gs)
  show ?case
  proof (cases "p = q")
    case True
    obtain e v where p: "p = (e, v)" by fastforce
    from Cons.IH have "fill_fields True (p # fs) = fill_fields True (p # gs)"
    proof (cases v)
      case (Pointer x)
      with Cons.IH show ?thesis by (cases x) (simp_all add: p)
    qed (simp_all add: p)
    with True show ?thesis by simp
  next
    case False
    then obtain xs ys where "p = (True, Slice xs)" "q = (True, Slice ys)"
      using Cons.hyps(1) by (auto simp: same_but_slices_def)
    with Cons.IH show ?thesis by simp
  qed
qed simp

theorem Fill_forgets_slices:
  assumes "list_all2 same_but_slices fs gs"
  shows "Fill (Pointer (Some (Struct t fs))) = Fill (Pointer (Some (Struct t gs)))"
  using fill_fields_forgets [OF assms] by (simp add: Fill_def)

text \<open>The module's values as Go values.\<close>

definition go_Identity :: "Identity \<Rightarrow> go_value" where
  "go_Identity i = Struct ''types.Identity'' [(True, Text (Address i)), (True, Text (IdHash i)), (True, Number (CreatedAt i))]"

definition go_GenesisState :: "GenesisState \<Rightarrow> go_value" where
  "go_GenesisState gs = Struct ''types.GenesisState''
     [(True, Struct ''types.Params'' []), (True, Slice (Some (map go_Identity (IdentityList gs))))]"

lemma not_coins [simp]: "''types.Params'' \<noteq> coinType" "''types.Params'' \<noteq> coinsType"
  by (simp_all add: coinType_def coinsType_def)

text \<open>
  The test of the genesis functions compares the lists of the initial and of the exported state after
  \<open>Fill\<close>; both are empty then, whatever was exported.
\<close>

theorem genesis_test_vacuous:
  "Fill (Pointer (Some (go_GenesisState gs)))
    = Ok (Struct ''types.GenesisState'' [(True, Struct ''types.Params'' []), (True, Slice (Some []))])"
  by (simp add: Fill_def go_GenesisState_def)

text \<open>On a list of identities, and on a pointer to one, \<open>Fill\<close> changes nothing: those comparisons count.\<close>

lemma fill_identity: "fill a (go_Identity i) = Ok (go_Identity i)"
  by (simp add: go_Identity_def)

theorem Fill_identities:
  "Fill (Slice (Some (map go_Identity l))) = Ok (Slice (Some (map go_Identity l)))"
  "Fill (Pointer (Some (go_Identity i))) = Ok (go_Identity i)"
proof -
  have "fill_elements (map go_Identity l) = Ok (map go_Identity l)"
    by (induction l) (simp_all add: fill_identity [unfolded go_Identity_def] go_Identity_def)
  then show "Fill (Slice (Some (map go_Identity l))) = Ok (Slice (Some (map go_Identity l)))"
    by (simp add: Fill_def)
qed (simp add: Fill_def fill_identity)

text \<open>A nil pointer panics, and so does a slice of pointers.\<close>

theorem Fill_panics:
  "Fill (Pointer None) = Panic" "Fill (Slice (Some (Pointer p # xs))) = Panic"
  by (simp_all add: Fill_def)

section \<open>The keeper of the tests\<close>

text \<open>
  \<open>IdentityKeeper\<close>: a keeper with the authority of the governance module over a fresh store
  \<open>s0\<close>, in which the default parameters are set. It panics if that fails.
\<close>

definition IdentityKeeper ::
    "bech32_decoder \<Rightarrow> (string \<Rightarrow> bytes) \<Rightarrow> (bytes \<Rightarrow> string) \<Rightarrow> binary_codec \<Rightarrow> 's kv_ops \<Rightarrow> 's
      \<Rightarrow> ('s Keeper \<times> 's) res" where
  "IdentityKeeper AccAddressFromBech32 NewModuleAddress addr_String c service s0 =
     (let auth = NewModuleAddress ''gov''
      in bind_res (NewKeeper AccAddressFromBech32 c service (addr_String auth)) (\<lambda>k.
         bind_res (must (SetParams k s0 DefaultParams)) (\<lambda>s. Ok (k, s))))"

theorem test_keeper_ready:
  assumes "acc (str (modaddr ''gov'')) = Inr a"
  shows "\<exists>k s. IdentityKeeper acc modaddr str proto_codec mem_kv [] = Ok (k, s) \<and> keeper_inv k s
    \<and> identities k s = Map.empty \<and> GetParams k s = Ok DefaultParams \<and> GetAuthority k = str (modaddr ''gov'')"
proof -
  let ?k = "mem_keeper (str (modaddr ''gov''))"
  have k: "NewKeeper acc proto_codec mem_kv (str (modaddr ''gov'')) = Ok ?k"
    using assms by (simp add: NewKeeper_def mem_keeper_def)
  obtain s where "SetParams ?k [] DefaultParams = Ok s" "keeper_inv ?k s" "identities ?k s = identities ?k []"
      "GetParams ?k s = Ok DefaultParams"
    using keeper_store.set_params_Ok [OF mem_keeper_empty(1)] by blast
  then show ?thesis
    using k by (simp add: IdentityKeeper_def mem_keeper_empty(2)) (simp add: mem_keeper_def GetAuthority_def)
qed

definition AccAddress :: "(unit \<Rightarrow> 'k) \<Rightarrow> ('k \<Rightarrow> bytes) \<Rightarrow> (bytes \<Rightarrow> string) \<Rightarrow> string" where
  "AccAddress GenPrivKey Address_of_PubKey addr_String =
     (let pk = GenPrivKey (); addr = Address_of_PubKey pk in addr_String addr)"

section \<open>The network of the tests\<close>

text \<open>The addresses of a configuration; the rest of it is \<open>'c\<close>.\<close>

record 'c net_config =
  APIAddress :: string
  RPCAddress :: string
  GRPCAddress :: string
  other_config :: 'c

text \<open>Opening a port gives its number and a listener, and changes the state \<open>'n\<close> of the machine.\<close>

record ('n, 'l, 'c, 'net) network_env =
  FreeTCPAddr :: "'n \<Rightarrow> (error + string \<times> 'l) \<times> 'n"
  close_listener :: "'l \<Rightarrow> 'n \<Rightarrow> error option \<times> 'n"
  DefaultConfigWithAppConfig :: "error + 'c net_config"
  network_New :: "'c net_config \<Rightarrow> error + 'net"
  WaitForHeight :: "'net \<Rightarrow> int \<Rightarrow> error + int"

fun open_ports ::
    "('n, 'l, 'c, 'net) network_env \<Rightarrow> nat \<Rightarrow> 'n \<Rightarrow> (error + (string \<times> 'l) list) \<times> 'n" where
  "open_ports env 0 w = (Inr [], w)"
| "open_ports env (Suc n) w = (case FreeTCPAddr env w of
       (Inl err, w) \<Rightarrow> (Inl err, w)
     | (Inr p, w) \<Rightarrow> (case open_ports env n w of
           (Inl err, w) \<Rightarrow> (Inl err, w)
         | (Inr ps, w) \<Rightarrow> (Inr (p # ps), w)))"

fun close_ports :: "('n, 'l, 'c, 'net) network_env \<Rightarrow> 'l list \<Rightarrow> 'n \<Rightarrow> error option \<times> 'n" where
  "close_ports env [] w = (None, w)"
| "close_ports env (l # ls) w = (case close_listener env l w of
       (Some err, w) \<Rightarrow> (Some err, w)
     | (None, w) \<Rightarrow> close_ports env ls w)"

text \<open>The loop that opens stops at the first error, with the earlier listeners open.\<close>

definition freePorts :: "('n, 'l, 'c, 'net) network_env \<Rightarrow> nat \<Rightarrow> 'n \<Rightarrow> (error + string list) \<times> 'n" where
  "freePorts env n w = (case open_ports env n w of
       (Inl err, w) \<Rightarrow> (Inl err, w)
     | (Inr ps, w) \<Rightarrow> (case close_ports env (map snd ps) w of
           (Some err, w) \<Rightarrow> (Inl err, w)
         | (None, w) \<Rightarrow> (Inr (map fst ps), w)))"

definition DefaultConfig :: "('n, 'l, 'c, 'net) network_env \<Rightarrow> 'n \<Rightarrow> ('c net_config \<times> 'n) res" where
  "DefaultConfig env w = (case DefaultConfigWithAppConfig env of
       Inl err \<Rightarrow> Panic
     | Inr cfg \<Rightarrow> (case freePorts env 3 w of
           (Inl err, w) \<Rightarrow> Panic
         | (Inr ports, w) \<Rightarrow>
             (let cfg = (if APIAddress cfg = '''' then cfg\<lparr>APIAddress := ''tcp://0.0.0.0:'' @ ports ! 0\<rparr> else cfg);
                  cfg = (if RPCAddress cfg = '''' then cfg\<lparr>RPCAddress := ''tcp://0.0.0.0:'' @ ports ! 1\<rparr> else cfg);
                  cfg = (if GRPCAddress cfg = '''' then cfg\<lparr>GRPCAddress := ''0.0.0.0:'' @ ports ! 2\<rparr> else cfg)
              in Ok (cfg, w))))"

text \<open>\<open>New\<close>: \<open>require.NoError\<close> ends the test, here with the error.\<close>

definition network_of_tests :: "('n, 'l, 'c, 'net) network_env \<Rightarrow> 'c net_config list \<Rightarrow> 'n \<Rightarrow> ('net \<times> 'n) res" where
  "network_of_tests env configs w =
     (if length configs > 1 then Panic
      else bind_res (if length configs = 0 then DefaultConfig env w else Ok (configs ! 0, w)) (\<lambda>(cfg, w).
        case network_New env cfg of
          Inl err \<Rightarrow> Err err
        | Inr net \<Rightarrow> (case WaitForHeight env net 1 of Inl err \<Rightarrow> Err err | Inr _ \<Rightarrow> Ok (net, w))))"

text \<open>So the accesses to \<open>ports\<close> are in range, and the three listeners are closed again, in order.\<close>

lemma open_ports_length: "open_ports env n w = (Inr ps, w') \<Longrightarrow> length ps = n"
  by (induction n arbitrary: w ps) (auto split: prod.splits sum.splits)

theorem freePorts_Ok:
  assumes "freePorts env n w = (Inr ports, w')"
  shows "length ports = n \<and> (\<exists>ps u. open_ports env n w = (Inr ps, u) \<and> ports = map fst ps
    \<and> close_ports env (map snd ps) u = (None, w'))"
  using assms open_ports_length [of env n w]
  by (auto simp: freePorts_def split: prod.splits sum.splits option.splits)

text \<open>Addresses that the application configured are kept; the others get a port each.\<close>

theorem DefaultConfig_addresses:
  assumes "DefaultConfigWithAppConfig env = Inr cfg" "freePorts env 3 w = (Inr [p, q, r], w')"
  shows "DefaultConfig env w = Ok (cfg\<lparr>
      APIAddress := (if APIAddress cfg = '''' then ''tcp://0.0.0.0:'' @ p else APIAddress cfg),
      RPCAddress := (if RPCAddress cfg = '''' then ''tcp://0.0.0.0:'' @ q else RPCAddress cfg),
      GRPCAddress := (if GRPCAddress cfg = '''' then ''0.0.0.0:'' @ r else GRPCAddress cfg)\<rparr>, w')"
  using assms by (simp add: DefaultConfig_def Let_def numeral_2_eq_2)

section \<open>The API console\<close>

text \<open>The routes of \<open>docs.go\<close>: the embedded files under the path of the specification, and the page.\<close>

datatype console_route =
    FileServer
  | Page string string \<comment> \<open>title and URL, which \<open>template/index.tpl\<close> shows\<close>

definition apiFile :: string where
  "apiFile = ''/static/openapi.yml''"

definition console_handler :: "string \<Rightarrow> console_route" where
  "console_handler title = Page title apiFile"

definition RegisterOpenAPIService :: "string \<Rightarrow> (string \<times> console_route) list \<Rightarrow> (string \<times> console_route) list" where
  "RegisterOpenAPIService appName rtr = rtr @ [(apiFile, FileServer), (''/'', console_handler appName)]"

theorem console_finds_specification:
  "\<exists>url. map_of (RegisterOpenAPIService name []) ''/'' = Some (Page name url)
    \<and> map_of (RegisterOpenAPIService name []) url = Some FileServer"
  by (simp add: RegisterOpenAPIService_def console_handler_def apiFile_def)

end
