(* ===== verification/Spec2Isabelle.thy ===== *)
theory Spec2Isabelle
  imports Codec_Properties Store_Properties Genesis_Properties Access_Properties Vectors
    Command_Properties Api_Properties Testnet_Properties Export_Properties InPlace_Properties
    Application Simulation Autocli Gateway_Properties Wiring_Properties Commands
    AppModule Descriptor_Properties Reflection Registry TestUtil
begin

text \<open>
  Nexelra-service: a Cosmos SDK chain whose transactions are reserved to accounts that have
  registered an identity.

  \<^bold>\<open>The program.\<close> The module \<open>x/identity\<close> keeps a store of identities, one per address: the
  address, the hash of a citizen card number (CCCD) and a time. Its \<open>Msg\<close> service registers an
  identity (\<open>CreateIdentity\<close>) and changes the module's parameters (\<open>UpdateParams\<close>), its
  \<open>Query\<close> service reads, its genesis functions import and export the store. The ante decorator
  \<open>app/ante/ante.go\<close>, which \<open>app.go\<close> installs, reads the same store and rejects transactions
  whose signers or recipients have no identity. Messages travel in protobuf; the repository
  holds two generated implementations of them, gogo's under \<open>x/identity/types\<close>, which the chain
  uses, and pulsar's under \<open>api/nexelra/identity\<close>, which clients use. The command line
  \<open>cmd/Nexelrad\<close> starts a node, reports and deletes snapshots, writes the files of a local test
  network and turns the state of a chain into that of a test network; \<open>app/export.go\<close> exports the
  state, also for a start at height zero.

  \<^bold>\<open>Conventions\<close> (theory \<open>Prelude\<close>). The outcome of a call is \<open>Ok\<close>, \<open>Err\<close>, \<open>Panic\<close> or
  \<open>Diverge\<close>; \<open>bind_res\<close> sequences calls. A Go \<open>int\<close> is an \<open>int\<close> that \<open>int64\<close> wraps around where the
  code computes with it, an unsigned or stored integer is a \<open>64 word\<close>. Slices are lists with
  the bounds checks of the run time (\<open>slice_from\<close>, \<open>subslice\<close>, \<open>index_at\<close>, \<open>store_at\<close>); a pointer is
  an option. A function that changes state returns the new state.

  \<^bold>\<open>Theories and sources.\<close>

  \<^item> \<open>Wire\<close>, \<open>Decoder\<close>: the code the gogo files repeat for every message: varints, the writes of
    \<open>MarshalToSizedBuffer\<close>, the loop of \<open>Unmarshal\<close>, \<open>skipIdentity\<close>. The locale \<open>field_decoder\<close> is
    the contract of one message's loop body, \<open>message_codec\<close> that of a message,
    \<open>embedded_codec\<close> that of a message inside another; each is interpreted by the messages.
  \<^item> \<open>IdentityPb\<close>, \<open>TxPb\<close>, \<open>GenesisPb\<close>, \<open>QueryPb\<close>: \<open>x/identity/types/*.pb.go\<close>, one record, \<open>Size\<close>,
    \<open>Marshal\<close>, \<open>MarshalTo\<close>, \<open>MarshalToSizedBuffer\<close> and \<open>Unmarshal\<close> per message.
  \<^item> \<open>Types\<close>: \<open>keys.go\<close>, \<open>key_identity.go\<close>, \<open>params.go\<close>, \<open>genesis.go\<close>, \<open>messages_identity.go\<close>,
    \<open>msg_update_params.go\<close>.
  \<^item> \<open>Store\<close>: the SDK's store and codec as parameters, their laws \<open>kv_lawful\<close> and \<open>cdc_lawful\<close>, an
    in-memory instance, and the locales \<open>identity_store\<close> and \<open>module_store\<close>: the store as a map
    from addresses to identities. \<open>Keeper\<close>: \<open>x/identity/keeper/keeper.go\<close>, \<open>identity.go\<close>, \<open>params.go\<close>,
    the provider of these locales (\<open>keeper_store\<close>).
  \<^item> \<open>Sha256\<close>, \<open>MsgServer\<close>, \<open>Query\<close>, \<open>Service\<close>: the message server and the query server of the
    keeper, with the handlers and service descriptions of \<open>tx.pb.go\<close> and \<open>query.pb.go\<close>.
  \<^item> \<open>Module\<close>: \<open>x/identity/module/genesis.go\<close> and the callbacks of \<open>module.go\<close>. \<open>AppModule\<close>: its structs,
    what they register (types of \<open>types/codec.go\<close>, services, routes) and \<open>ProvideModule\<close>; the registries of
    the SDK are the parameter \<open>registries\<close>, with \<open>registries_lawful\<close>. \<open>Ante\<close>: \<open>app/ante/ante.go\<close> and
    \<open>setAnteHandler\<close> of \<open>app/app.go\<close>. \<open>Chain\<close>: transactions, proposals and blocks as the step
    relation \<open>chain_step\<close> over block height and module store. \<open>Registry\<close>: the abstract registry
    \<open>registry_step\<close> that the chain refines, and the locale \<open>exact_refinement\<close>.
  \<^item> \<open>Pulsar\<close>, \<open>Reflect\<close>: what the pulsar files repeat for every message. The packages
    \<open>cosmos-proto/runtime\<close> and \<open>proto\<close> are the parameters \<open>pulsar_rt\<close> and \<open>proto_ops\<close>, with their
    contracts as the locales \<open>pulsar_runtime\<close> and \<open>proto_methods\<close>; \<open>fast_message\<close> and \<open>fast_list\<close> are
    the contracts of \<open>protoreflect.Message\<close> and \<open>protoreflect.List\<close>. \<open>PulsarIdentity\<close>, \<open>PulsarTx\<close>,
    \<open>PulsarGenesis\<close>, \<open>PulsarQuery\<close>, \<open>PulsarPages\<close>, \<open>PulsarModule\<close>: for each message of
    \<open>api/nexelra/identity/**.pulsar.go\<close> the struct \<open>api_N\<close>, its getters, \<open>size\<close>, \<open>marshal\<close> and
    \<open>unmarshal\<close> of \<open>ProtoMethods\<close>, the reflection methods \<open>fastReflection_N_...\<close> and the list types,
    with the interpretations of the contracts. The SDK's page messages are type parameters
    with their \<open>proto_ops\<close>. \<open>Api_Equiv\<close> relates these messages to the chain's.
  \<^item> \<open>Grpc\<close>: the client stubs, method names and service descriptions of \<open>tx.pb.go\<close>, \<open>query.pb.go\<close> and of
    \<open>api/nexelra/identity/*_grpc.pb.go\<close>; the locale \<open>unary_rpc\<close> is the contract of a method, interpreted
    for each. \<open>Gateway\<close>: \<open>query.pb.gw.go\<close>, its patterns, filters, request functions and handlers,
    over the package \<open>runtime\<close> of grpc-gateway as the parameter \<open>gateway_rt\<close>.
  \<^item> \<open>Descriptors\<close>: the files of \<open>proto/nexelra/identity\<close> as records of \<open>descriptor.proto\<close>, the encoding
    prescribed for these and the tables \<open>rawDesc\<close>, \<open>goTypes\<close> and \<open>depIdxs\<close> of the \<open>*.pulsar.go\<close> files.
    \<open>Registration\<close>: the \<open>init\<close> functions of these files on the package variables (\<open>package_state\<close>), the
    message types and \<open>Descriptor\<close>, over the parameter \<open>protoimpl\<close>. \<open>Reflection\<close>: \<open>ProtoReflect\<close>,
    \<open>slowProtoReflect\<close>, \<open>Type\<close> and \<open>Interface\<close> of every message.
  \<^item> \<open>Text\<close>, \<open>Snapshot\<close>: the parts of \<open>strconv\<close>, \<open>strings\<close>, \<open>regexp\<close> and \<open>filepath\<close> that
    \<open>cmd/Nexelrad/cmd/commands.go\<close> uses, and its snapshot commands on a tree of files.
  \<^item> \<open>Testnet\<close>: \<open>cmd/Nexelrad/cmd/testnet_multi_node.go\<close>. The variables its loops share are the
    record \<open>net_state\<close>, the files a map from paths; \<open>run\<close> is a state with the error returned so
    far. The operating system, CometBFT and the SDK are the parameter \<open>testnet_env\<close>.
  \<^item> \<open>Exit\<close>: the outcomes of code that may panic or end the process. \<open>Export\<close>: \<open>app/export.go\<close>.
    \<open>InPlace\<close>: \<open>cmd/Nexelrad/cmd/testnet.go\<close>. Both work on the state of all stores of the chain,
    through the keepers of the SDK, which are the parameters \<open>export_env\<close> and \<open>inplace_env\<close>; what is
    relied on of them is stated as \<open>tables_lawful\<close>, \<open>validators_lawful\<close>, \<open>staking_lawful\<close> and
    \<open>bank_lawful\<close>.
  \<^item> \<open>Application\<close>: tables and functions of \<open>app/app.go\<close>, \<open>app_config.go\<close>, \<open>ibc.go\<close>, \<open>config.go\<close> and
    \<open>genesis_account.go\<close>, and the flag defaults of \<open>cmd/root.go\<close>. \<open>Wiring\<close>: \<open>New\<close>, \<open>registerIBCModules\<close>,
    \<open>RegisterIBC\<close> and the module configuration \<open>appConfig\<close>, over the parameter \<open>wiring_env\<close>. \<open>Commands\<close>: the
    tree of commands of \<open>commands.go\<close>, \<open>root.go\<close>, \<open>testnet.go\<close>, \<open>testnet_multi_node.go\<close> and \<open>main.go\<close>,
    with arguments, flags and the functions they run, and the configurations of \<open>cmd/config.go\<close>.
    \<open>TestUtil\<close>: \<open>testutil\<close> and \<open>docs/docs.go\<close>. \<open>Simulation\<close>:
    \<open>x/identity/simulation\<close> and \<open>module/simulation.go\<close>. \<open>Autocli\<close>: \<open>module/autocli.go\<close>.

  \<^bold>\<open>What is proved.\<close>

  \<^item> \<open>Codec_Properties\<close>, \<open>Vectors\<close>: decoding returns on every input; encoding and decoding are
    inverse; sizes are exact; SHA-256 agrees with published vectors.
  \<^item> \<open>Store_Properties\<close>, \<open>Genesis_Properties\<close>: the keeper refines a map; registration, duplicates,
    updates, queries and pagination; import and export of genesis are inverse.
  \<^item> \<open>Access_Properties\<close>: what the ante decorator lets through and with which error it rejects;
    identities are never changed or removed; at genesis every valid registration can be
    delivered; after genesis no address written in its canonical
    spelling can be registered, because the decorator's list of exempt type URLs spells the
    package with a capital letter. \<open>Registry\<close>: what blocks, transactions and proposals can reach is
    exactly what the abstract registry reaches.
  \<^item> \<open>Api_Properties\<close>: the client's and the chain's codecs accept the same inputs and agree on
    the result; unknown fields are kept; reflection keeps its contract.
  \<^item> \<open>Command_Properties\<close>: the arithmetic of the snapshot report, with its overflow; what the
    list shows; what a deletion removes, inside the snapshot directory and outside of it.
  \<^item> \<open>Testnet_Properties\<close>: the nodes of a local test network know each other under the ports they
    listen on and hold everybody's transaction; ports do not collide; which validator gets
    which stake; what a failure leaves.
  \<^item> \<open>Export_Properties\<close>: an export for height zero resets the heights of the staking and slashing
    state and jails exactly the validators that are not allowed. \<open>InPlace_Properties\<close>: the test
    network has one validator, and the accounts are paid. \<open>Application\<close>, \<open>Simulation\<close>, \<open>Autocli\<close>:
    scoped keepers, blocked accounts, module orders, flag defaults, simulated messages, commands.
  \<^item> \<open>Grpc\<close>, \<open>Gateway_Properties\<close>: a call through a stub is a call of the server; a \<open>GET\<close> under the
    documented paths answers what the keeper's query answers, for a gateway in the node and one
    beside it, and the path decides over query parameters. \<open>AppModule\<close>: after types and services are
    registered, the routers reach the keeper's methods.
  \<^item> \<open>Wiring_Properties\<close>: an application that \<open>New\<close> returns checks identities on every transaction;
    stores, parameter spaces, scoped keepers and routes of the IBC modules fit together.
    \<open>Commands\<close>: no snapshot command but the deletion removes files; two commands share the name \<open>snapshots\<close>.
  \<^item> \<open>Descriptor_Properties\<close>: the generated tables encode the proto files byte by byte; both codecs
    encode every message as declared; names of fields, methods and paths are the declared ones.
    \<open>Registration\<close>, \<open>Reflection\<close>: the inits succeed and set every variable to the declared descriptor,
    which the reflection of every message then gives.
  \<^item> \<open>TestUtil\<close>: \<open>nullify.Fill\<close> makes values equal that differ in the contents of slices, so that the test
    of the genesis functions compares empty lists; the tests' keeper is well-formed and empty.

  \<^bold>\<open>Bounds and fuel.\<close> \<open>field_loop\<close> gets the length of the input as fuel: every field advances the
  index (\<open>field_progress\<close>), so the fuel never runs out (\<open>unmarshal_loop_returns\<close>). The
  varint loops recurse on the shift, which the code bounds by 64. Theorems about encoders
  assume that the encoding is shorter than \<open>2 ^ 63\<close> bytes (\<open>small_Identity\<close> and its like, and
  \<open>wf_api_Identity\<close> and its like, which also say that unknown fields are well-formed); those
  about registration that an address is shorter than \<open>2 ^ 61\<close>. A length read from an input is
  not bounded by anything. The snapshot report is exact for intervals up to \<open>2 ^ 63 div 100\<close>. The
  ports of a test network are valid for up to 1317 validators, the number of the first API port.
  Every other loop runs over a list.

  \<^bold>\<open>Not modelled.\<close> The \<open>XXX_\<close> methods and \<open>String\<close> (they only call the protobuf run time); the compressed descriptors of the gogo files; headers, trailers and
  forwarding options of the gateway; the SDK's, CometBFT's and IBC's own code, which are parameters;
  logging and help texts; the clock, whose reading is an argument; the tests themselves.
\<close>

end
